(* ===== verification/Prelude.thy ===== *)
theory Prelude
  imports Main "HOL-Library.Sublist"
begin

text \<open>
  Shared vocabulary of the development: Go strings as byte lists with the operations of the
  \<open>strings\<close>, \<open>strconv\<close> and \<open>fmt\<close> packages the program calls, Go time as a number of nanoseconds,
  and the generic list lemmas the components use. A Go string is a sequence of bytes, so it is
  an Isabelle \<open>string\<close> (a list of \<open>char\<close>, each one byte) and \<open>len\<close> is \<open>length\<close>. Case mapping and
  white space follow the ASCII part of the Go functions: bytes from 128 on are left alone.
\<close>

named_theorems gostr \<open>characterisations of the Go string operations\<close>

section \<open>Go time\<close>

text \<open>Instants and durations are nanoseconds; \<open>After\<close> is the strict order.\<close>

type_synonym gotime = int
type_synonym duration = int

definition nanosecond :: duration where "nanosecond = 1"
definition millisecond :: duration where "millisecond = 1000000"
definition second :: duration where "second = 1000000000"
definition minute :: duration where "minute = 60000000000"
definition hour :: duration where "hour = 3600000000000"

lemmas duration_defs = nanosecond_def millisecond_def second_def minute_def hour_def

text \<open>\<open>time.Time{}\<close>, for which \<open>IsZero\<close> holds: the first of January of year 1.\<close>

definition zero_time :: gotime where "zero_time = - 62135596800 * 1000000000"

text \<open>\<open>t.Unix()\<close> and \<open>t.UnixMilli()\<close>: seconds and milliseconds since the epoch, rounded down.\<close>

definition unix_seconds :: "gotime \<Rightarrow> int" where
  "unix_seconds t = t div second"

definition unix_millis :: "gotime \<Rightarrow> int" where
  "unix_millis t = t div millisecond"

section \<open>The strings package\<close>

definition has_prefix :: "string \<Rightarrow> string \<Rightarrow> bool" where
  "has_prefix s p = (take (length p) s = p)"

definition trim_prefix :: "string \<Rightarrow> string \<Rightarrow> string" where
  "trim_prefix s p = (if has_prefix s p then drop (length p) s else s)"

fun str_contains :: "string \<Rightarrow> string \<Rightarrow> bool" where
  "str_contains [] sub = (sub = [])"
| "str_contains (c # cs) sub = (has_prefix (c # cs) sub \<or> str_contains cs sub)"

text \<open>\<open>strings.Index\<close>, with \<open>None\<close> for the result \<open>-1\<close>.\<close>

fun str_index :: "string \<Rightarrow> string \<Rightarrow> nat option" where
  "str_index [] sub = (if sub = [] then Some 0 else None)"
| "str_index (c # cs) sub =
     (if has_prefix (c # cs) sub then Some 0 else map_option Suc (str_index cs sub))"

text \<open>\<open>strings.IndexAny\<close>: the first byte that belongs to the given set.\<close>

fun index_any :: "string \<Rightarrow> string \<Rightarrow> nat option" where
  "index_any [] chars = None"
| "index_any (c # cs) chars =
     (if c \<in> set chars then Some 0 else map_option Suc (index_any cs chars))"

text \<open>\<open>strings.LastIndex\<close> for a separator of one byte.\<close>

fun last_index_char :: "string \<Rightarrow> char \<Rightarrow> nat option" where
  "last_index_char [] x = None"
| "last_index_char (c # cs) x =
     (case last_index_char cs x of
        Some i \<Rightarrow> Some (Suc i)
      | None \<Rightarrow> if c = x then Some 0 else None)"

text \<open>\<open>strings.Split\<close> and \<open>strings.Join\<close> for a separator of one byte.\<close>

fun split_on :: "char \<Rightarrow> string \<Rightarrow> string list" where
  "split_on x [] = [[]]"
| "split_on x (c # cs) =
     (if c = x then [] # split_on x cs
      else (case split_on x cs of [] \<Rightarrow> [[c]] | w # ws \<Rightarrow> (c # w) # ws))"

fun str_join :: "string \<Rightarrow> string list \<Rightarrow> string" where
  "str_join sep [] = []"
| "str_join sep [w] = w"
| "str_join sep (w # ws) = w @ sep @ str_join sep ws"

text \<open>\<open>strings.Cut\<close> at a separator of one byte: \<open>None\<close> when it does not occur.\<close>

fun str_cut :: "string \<Rightarrow> char \<Rightarrow> (string \<times> string) option" where
  "str_cut [] x = None"
| "str_cut (c # cs) x =
     (if c = x then Some ([], cs)
      else map_option (\<lambda>(a, b). (c # a, b)) (str_cut cs x))"

definition replace_char :: "char \<Rightarrow> char \<Rightarrow> string \<Rightarrow> string" where
  "replace_char x y = map (\<lambda>c. if c = x then y else c)"

definition count_char :: "string \<Rightarrow> char \<Rightarrow> nat" where
  "count_char s x = length (filter (\<lambda>c. c = x) s)"

text \<open>\<open>strings.ToLower\<close> on ASCII letters.\<close>

definition lower_char :: "char \<Rightarrow> char" where
  "lower_char c =
     (let n = (of_char c :: nat) in if 65 \<le> n \<and> n \<le> 90 then char_of (n + 32) else c)"

definition to_lower :: "string \<Rightarrow> string" where
  "to_lower = map lower_char"

text \<open>The ASCII characters \<open>strings.TrimSpace\<close> removes.\<close>

definition space_char :: "char \<Rightarrow> bool" where
  "space_char c = ((of_char c :: nat) \<in> {9, 10, 11, 12, 13, 32})"

definition trim_left :: "(char \<Rightarrow> bool) \<Rightarrow> string \<Rightarrow> string" where
  "trim_left p s = dropWhile p s"

definition trim_right :: "(char \<Rightarrow> bool) \<Rightarrow> string \<Rightarrow> string" where
  "trim_right p s = rev (dropWhile p (rev s))"

definition trim_space :: "string \<Rightarrow> string" where
  "trim_space s = trim_right space_char (trim_left space_char s)"

subsection \<open>Characterisations\<close>

lemma has_prefix_iff [gostr]: "has_prefix s p \<longleftrightarrow> prefix p s"
  by (metis has_prefix_def append_eq_conv_conj prefix_def take_is_prefix)

lemma str_contains_iff [gostr]: "str_contains s sub \<longleftrightarrow> sublist sub s"
  by (induction s) (auto simp: gostr sublist_Cons_right)

lemma str_contains_append: "str_contains a sub \<Longrightarrow> str_contains (a @ b) sub"
  by (simp add: gostr sublist_append)

lemma trim_prefix_append [simp]: "trim_prefix (p @ s) p = s"
  by (simp add: trim_prefix_def has_prefix_def)

lemma has_prefix_append [simp]: "has_prefix (p @ s) p"
  by (simp add: has_prefix_def)

lemma has_prefix_trim: "has_prefix s p \<Longrightarrow> s = p @ trim_prefix s p"
  by (metis append_take_drop_id has_prefix_def trim_prefix_def)

lemma str_index_Some:
  "str_index s sub = Some i \<Longrightarrow> i \<le> length s \<and> has_prefix (drop i s) sub"
  by (induction s sub arbitrary: i rule: str_index.induct)
     (auto simp: has_prefix_def split: if_splits)

lemma index_any_None: "index_any s cs = None \<longleftrightarrow> set s \<inter> set cs = {}"
  by (induction s) auto

lemma index_any_Some:
  "index_any s cs = Some i \<Longrightarrow> i < length s \<and> s ! i \<in> set cs \<and> set (take i s) \<inter> set cs = {}"
  by (induction s arbitrary: i) (auto split: if_splits)

lemma last_index_char_None: "last_index_char s x = None \<longleftrightarrow> x \<notin> set s"
  by (induction s) (auto split: option.splits)

lemma last_index_char_Some:
  "last_index_char s x = Some i \<Longrightarrow> i < length s \<and> s ! i = x \<and> x \<notin> set (drop (Suc i) s)"
  by (induction s arbitrary: i) (auto split: option.splits if_splits simp: last_index_char_None)

lemma split_on_nonempty [simp]: "split_on x s \<noteq> []"
  by (induction s) (auto split: list.splits)

lemma split_on_no_sep: "w \<in> set (split_on x s) \<Longrightarrow> x \<notin> set w"
  by (induction s arbitrary: w) (auto split: list.splits if_splits)

lemma str_join_Cons: "ws \<noteq> [] \<Longrightarrow> str_join sep (w # ws) = w @ sep @ str_join sep ws"
  by (cases ws) auto

lemma str_join_split_on: "str_join [x] (split_on x s) = s"
proof (induction s)
  case (Cons c s)
  obtain w ws where ws: "split_on x s = w # ws"
    using split_on_nonempty [of x s] by (cases "split_on x s") auto
  with Cons show ?case by (cases ws) auto
qed simp

lemma split_on_append_sep: "x \<notin> set w \<Longrightarrow> split_on x (w @ x # s) = w # split_on x s"
  by (induction w) auto

lemma split_on_id: "x \<notin> set w \<Longrightarrow> split_on x w = [w]"
  by (induction w) auto

lemma split_on_str_join:
  "ws \<noteq> [] \<Longrightarrow> \<forall>w \<in> set ws. x \<notin> set w \<Longrightarrow> split_on x (str_join [x] ws) = ws"
proof (induction ws)
  case (Cons w ws)
  then show ?case
    by (cases ws) (auto simp: split_on_append_sep split_on_id)
qed simp

lemma str_cut_Some: "str_cut s x = Some (a, b) \<longleftrightarrow> s = a @ x # b \<and> x \<notin> set a"
proof (induction s arbitrary: a)
  case (Cons c s)
  show ?case
  proof (cases a)
    case Nil
    then show ?thesis by (auto split: prod.splits)
  next
    case (Cons d a')
    with Cons.IH [of a'] show ?thesis by (auto split: prod.splits)
  qed
qed simp

lemma str_cut_None: "str_cut s x = None \<longleftrightarrow> x \<notin> set s"
  by (induction s) auto

lemma replace_char_no_old: "x \<noteq> y \<Longrightarrow> x \<notin> set (replace_char x y s)"
  by (auto simp: replace_char_def)

lemma replace_char_id: "x \<notin> set s \<Longrightarrow> replace_char x y s = s"
  by (auto simp: replace_char_def intro: map_idI)

lemma to_lower_Nil [simp]: "to_lower [] = []" and to_lower_append [simp]: "to_lower (a @ b) = to_lower a @ to_lower b"
  by (simp_all add: to_lower_def)

lemma length_to_lower [simp]: "length (to_lower s) = length s"
  by (simp add: to_lower_def)

lemma lower_char_idem [simp]: "lower_char (lower_char c) = lower_char c"
proof -
  have "(of_char (char_of (of_char c + 32 :: nat)) :: nat) = of_char c + 32"
    if "(of_char c :: nat) \<le> 90"
    using that by simp
  then show ?thesis by (simp add: lower_char_def Let_def)
qed

lemma to_lower_idem [simp]: "to_lower (to_lower s) = to_lower s"
  by (simp add: to_lower_def)

text \<open>A separator that does not occur on the left splits a string in one way only.\<close>

lemma append_sep_inject:
  "x \<notin> set a \<Longrightarrow> x \<notin> set c \<Longrightarrow> a @ x # b = c @ x # d \<longleftrightarrow> a = c \<and> b = d"
proof (induction a arbitrary: c)
  case Nil
  then show ?case by (cases c) auto
next
  case (Cons y a)
  then show ?case by (cases c) auto
qed

lemma trim_right_append: "\<forall>c \<in> set t. p c \<Longrightarrow> s \<noteq> [] \<Longrightarrow> \<not> p (last s) \<Longrightarrow> trim_right p (s @ t) = s"
proof -
  assume t: "\<forall>c \<in> set t. p c" and s: "s \<noteq> []" "\<not> p (last s)"
  have "dropWhile p (rev t @ rev s) = dropWhile p (rev s)"
    using t by (simp add: dropWhile_append)
  moreover have "dropWhile p (rev s) = rev s"
    using s by (cases s rule: rev_cases) auto
  ultimately show ?thesis by (simp add: trim_right_def)
qed

lemma trim_right_not_last: "trim_right p s \<noteq> [] \<Longrightarrow> \<not> p (last (trim_right p s))"
  by (metis hd_dropWhile last_rev rev_is_Nil_conv trim_right_def)

lemma find_Some: "List.find p xs = Some x \<Longrightarrow> x \<in> set xs \<and> p x"
  by (induction xs) (auto split: if_splits)

section \<open>Decimal numbers\<close>

text \<open>\<open>strconv.FormatInt(n, 10)\<close> and the verb \<open>%d\<close>.\<close>

definition digit_char :: "nat \<Rightarrow> char" where
  "digit_char d = char_of (48 + d)"

fun show_nat :: "nat \<Rightarrow> string" where
  "show_nat n = (if n < 10 then [digit_char n] else show_nat (n div 10) @ [digit_char (n mod 10)])"

declare show_nat.simps [simp del]

definition show_int :: "int \<Rightarrow> string" where
  "show_int i = (if i < 0 then CHR ''-'' # show_nat (nat (- i)) else show_nat (nat i))"

lemma show_nat_digits: "set (show_nat n) \<subseteq> digit_char ` {..<10}"
proof (induction n rule: show_nat.induct)
  case (1 n)
  then show ?case by (cases "n < 10") (auto simp: show_nat.simps [of n])
qed

lemma show_nat_nonempty [simp]: "show_nat n \<noteq> []" "[] \<noteq> show_nat n"
  by (subst show_nat.simps, simp)+

lemma digit_char_inj: "a < 10 \<Longrightarrow> b < 10 \<Longrightarrow> digit_char a = digit_char b \<longleftrightarrow> a = b"
  by (simp add: digit_char_def)

lemma show_nat_inject [simp]: "show_nat m = show_nat n \<longleftrightarrow> m = n"
proof (induction m arbitrary: n rule: show_nat.induct)
  case (1 m)
  show ?case
  proof
    assume eq: "show_nat m = show_nat n"
    show "m = n"
    proof (cases "m < 10"; cases "n < 10")
      assume "m < 10" "n < 10" with eq show ?thesis
        by (simp add: show_nat.simps digit_char_inj)
    next
      assume "m < 10" "\<not> n < 10" with eq show ?thesis
        by (simp add: show_nat.simps [of m] show_nat.simps [of n])
    next
      assume "\<not> m < 10" "n < 10" with eq show ?thesis
        by (simp add: show_nat.simps [of m] show_nat.simps [of n])
    next
      assume mn: "\<not> m < 10" "\<not> n < 10"
      with eq have "show_nat (m div 10) = show_nat (n div 10)" "m mod 10 = n mod 10"
        by (simp_all add: show_nat.simps [of m] show_nat.simps [of n] digit_char_inj)
      moreover from this mn "1.IH" have "m div 10 = n div 10" by blast
      ultimately show ?thesis by (metis div_mult_mod_eq)
    qed
  qed simp
qed

lemma minus_not_digit: "CHR ''-'' \<notin> set (show_nat n)"
proof
  assume "CHR ''-'' \<in> set (show_nat n)"
  then obtain d where d: "d < 10" "CHR ''-'' = digit_char d"
    using show_nat_digits by fastforce
  then have "(of_char (CHR ''-'') :: nat) = 48 + d" by (simp add: digit_char_def)
  then show False by simp
qed

lemma show_int_inject [simp]: "show_int i = show_int j \<longleftrightarrow> i = j"
proof -
  have "CHR ''-'' # show_nat m \<noteq> show_nat n" for m n
    using minus_not_digit [of n] by (metis list.set_intros(1))
  then show ?thesis
    by (auto simp: show_int_def) (metis)+
qed

definition show_bool :: "bool \<Rightarrow> string" where
  "show_bool b = (if b then ''true'' else ''false'')"

section \<open>Runs\<close>

text \<open>The states a step relation reaches, and how a property is carried along.\<close>

inductive reach :: "('s \<Rightarrow> 's \<Rightarrow> bool) \<Rightarrow> 's \<Rightarrow> 's \<Rightarrow> bool" for step w0 where
  start: "reach step w0 w0"
| more: "reach step w0 w \<Longrightarrow> step w w' \<Longrightarrow> reach step w0 w'"

lemma reach_trans: "reach step w1 w2 \<Longrightarrow> reach step w0 w1 \<Longrightarrow> reach step w0 w2"
  by (induction rule: reach.induct) (auto intro: reach.more)

lemma reach_invariant:
  "reach step w0 w \<Longrightarrow> P w0 \<Longrightarrow> (\<And>u v. P u \<Longrightarrow> step u v \<Longrightarrow> P v) \<Longrightarrow> P w"
  by (induction rule: reach.induct) auto

end
