(* ===== verification/Errors.thy ===== *)
theory Errors
  imports Prelude
begin

text \<open>
  Go errors as values. Each package's sentinel errors are a datatype of their own
  (\<open>internal/domain/*/errors.go\<close>, \<open>internal/application/apperrors/errors.go\<close>); \<open>gerr\<close> is the
  error interface: a sentinel, an error made by \<open>fmt.Errorf\<close> around another one (\<open>EWrap pre e post\<close>
  renders as \<open>pre\<close>, the text of \<open>e\<close>, \<open>post\<close>), a \<open>*apperrors.ValidationError\<close> with its optional cause,
  or an error of another package that the program only reports (\<open>EOther\<close>). \<open>errors_is\<close> and
  \<open>as_validation\<close> are \<open>errors.Is\<close> and \<open>errors.As\<close>: both walk the \<open>Unwrap\<close> chain.
\<close>

section \<open>Sentinel errors of the packages\<close>

datatype url_err =
    UrlErrNotFound | UrlErrDeleted | UrlErrExpired | UrlErrConflict
  | UrlErrShortCodeRequired | UrlErrShortCodeLength | UrlErrOriginalURLRequired
  | UrlErrURLTooLong | UrlErrInvalidURL | UrlErrWorkspaceIDRequired | UrlErrUnauthorized

fun url_err_text :: "url_err \<Rightarrow> string" where
  "url_err_text UrlErrNotFound = ''url: not found''"
| "url_err_text UrlErrDeleted = ''url: has been deleted''"
| "url_err_text UrlErrExpired = ''url: has expired''"
| "url_err_text UrlErrConflict = ''url: short code already exists''"
| "url_err_text UrlErrShortCodeRequired = ''url: short code is required''"
| "url_err_text UrlErrShortCodeLength = ''url: short code length must be between 3 and 32 characters''"
| "url_err_text UrlErrOriginalURLRequired = ''url: original URL is required''"
| "url_err_text UrlErrURLTooLong = ''url: original URL exceeds maximum length of 8192 characters''"
| "url_err_text UrlErrInvalidURL = ''url: original URL is not a valid URL''"
| "url_err_text UrlErrWorkspaceIDRequired = ''url: workspace ID is required''"
| "url_err_text UrlErrUnauthorized = ''url: unauthorized access to resource''"

datatype app_err =
    AppErrNotFound | AppErrURLExpired | AppErrURLDisabled | AppErrURLBlocked
  | AppErrShortCodeConflict | AppErrUnauthorized | AppErrUnauthenticated

fun app_err_text :: "app_err \<Rightarrow> string" where
  "app_err_text AppErrNotFound = ''app: resource not found''"
| "app_err_text AppErrURLExpired = ''app: url has expired''"
| "app_err_text AppErrURLDisabled = ''app: url is disabled''"
| "app_err_text AppErrURLBlocked = ''app: url is blocked by safety policy''"
| "app_err_text AppErrShortCodeConflict = ''app: short code already exists''"
| "app_err_text AppErrUnauthorized = ''app: unauthorized''"
| "app_err_text AppErrUnauthenticated = ''app: unauthenticated''"

datatype ws_err =
    WsErrNotFound | WsErrNameRequired | WsErrNameTooLong | WsErrSlugRequired | WsErrSlugTooLong
  | WsErrSlugInvalid | WsErrSlugConflict | WsErrNameConflict | WsErrOwnerIDRequired
  | WsErrLimitReached | WsErrUserIDRequired | WsErrWorkspaceIDRequired | WsErrInvalidRole
  | WsErrMemberNotFound | WsErrMemberAlreadyExists | WsErrNotMember | WsErrInsufficientRole
  | WsErrCannotRemoveOwner | WsErrCannotDowngradeOwner

fun ws_err_text :: "ws_err \<Rightarrow> string" where
  "ws_err_text WsErrNotFound = ''workspace: not found''"
| "ws_err_text WsErrNameRequired = ''workspace: name is required''"
| "ws_err_text WsErrNameTooLong = ''workspace: name exceeds 100 characters''"
| "ws_err_text WsErrSlugRequired = ''workspace: slug is required''"
| "ws_err_text WsErrSlugTooLong = ''workspace: slug exceeds 63 characters''"
| "ws_err_text WsErrSlugInvalid = ''workspace: slug must be lowercase alphanumeric with hyphens only''"
| "ws_err_text WsErrSlugConflict = ''workspace: slug is already taken''"
| "ws_err_text WsErrNameConflict = ''workspace: name is already taken''"
| "ws_err_text WsErrOwnerIDRequired = ''workspace: owner ID is required''"
| "ws_err_text WsErrLimitReached = ''workspace: maximum workspace limit reached for this user''"
| "ws_err_text WsErrUserIDRequired = ''workspace: user ID is required''"
| "ws_err_text WsErrWorkspaceIDRequired = ''workspace: workspace ID is required''"
| "ws_err_text WsErrInvalidRole = ''workspace: role must be one of: owner, admin, editor, viewer''"
| "ws_err_text WsErrMemberNotFound = ''workspace: user is not a member of this workspace''"
| "ws_err_text WsErrMemberAlreadyExists = ''workspace: user is already a member of this workspace''"
| "ws_err_text WsErrNotMember = ''workspace: authenticated user is not a member of this workspace''"
| "ws_err_text WsErrInsufficientRole = ''workspace: user role does not permit this action''"
| "ws_err_text WsErrCannotRemoveOwner = ''workspace: cannot remove the workspace owner''"
| "ws_err_text WsErrCannotDowngradeOwner = ''workspace: cannot change the role of the workspace owner''"

datatype apikey_err =
    KeyErrNotFound | KeyErrAlreadyRevoked | KeyErrExpired | KeyErrRevoked | KeyErrInvalidKey
  | KeyErrNameRequired | KeyErrInvalidScope

fun apikey_err_text :: "apikey_err \<Rightarrow> string" where
  "apikey_err_text KeyErrNotFound = ''apikey: not found''"
| "apikey_err_text KeyErrAlreadyRevoked = ''apikey: key has already been revoked''"
| "apikey_err_text KeyErrExpired = ''apikey: key has expired''"
| "apikey_err_text KeyErrRevoked = ''apikey: key has been revoked''"
| "apikey_err_text KeyErrInvalidKey = ''apikey: key is invalid''"
| "apikey_err_text KeyErrNameRequired = ''apikey: name is required''"
| "apikey_err_text KeyErrInvalidScope = ''apikey: invalid scope value''"

datatype webhook_err =
    HookErrNotFound | HookErrLimitReached | HookErrInvalidURL | HookErrInvalidEvents
  | HookErrNameRequired | HookErrURLRequired | HookErrNoEvents

fun webhook_err_text :: "webhook_err \<Rightarrow> string" where
  "webhook_err_text HookErrNotFound = ''webhook: not found''"
| "webhook_err_text HookErrLimitReached = ''webhook: workspace has reached the maximum of 10 webhooks''"
| "webhook_err_text HookErrInvalidURL = ''webhook: endpoint URL must use http or https scheme''"
| "webhook_err_text HookErrInvalidEvents = ''webhook: one or more event types are invalid''"
| "webhook_err_text HookErrNameRequired = ''webhook: name is required''"
| "webhook_err_text HookErrURLRequired = ''webhook: url is required''"
| "webhook_err_text HookErrNoEvents = ''webhook: at least one event type must be subscribed''"

datatype export_err =
    ExpErrNotFound | ExpErrWindowTooLarge | ExpErrInvalidDateRange | ExpErrInvalidFormat
  | ExpErrDownloadExpired | ExpErrDownloadNotReady | ExpErrInvalidToken

fun export_err_text :: "export_err \<Rightarrow> string" where
  "export_err_text ExpErrNotFound = ''export: not found''"
| "export_err_text ExpErrWindowTooLarge = ''export: date range exceeds 365-day maximum''"
| "export_err_text ExpErrInvalidDateRange = ''export: date_to must be after date_from''"
| "export_err_text ExpErrInvalidFormat = ''export: format must be '' @ [CHR 0x27] @ ''csv'' @ [CHR 0x27] @ '' or '' @ [CHR 0x27] @ ''json_lines'' @ [CHR 0x27]"
| "export_err_text ExpErrDownloadExpired = ''export: download link has expired''"
| "export_err_text ExpErrDownloadNotReady = ''export: export is not yet complete''"
| "export_err_text ExpErrInvalidToken = ''export: download token is invalid or expired''"

datatype auth_err =
    AuthErrMissingToken | AuthErrInvalidToken | AuthErrTokenExpired | AuthErrTokenRevoked
  | AuthErrInvalidIssuer | AuthErrInvalidAudience | AuthErrMissingClaim | AuthErrInsufficientScope

fun auth_err_text :: "auth_err \<Rightarrow> string" where
  "auth_err_text AuthErrMissingToken = ''auth: Authorization header is missing or not Bearer scheme''"
| "auth_err_text AuthErrInvalidToken = ''auth: token is malformed or has invalid signature''"
| "auth_err_text AuthErrTokenExpired = ''auth: token has expired''"
| "auth_err_text AuthErrTokenRevoked = ''auth: token has been revoked''"
| "auth_err_text AuthErrInvalidIssuer = ''auth: token issuer does not match expected value''"
| "auth_err_text AuthErrInvalidAudience = ''auth: token audience does not match expected value''"
| "auth_err_text AuthErrMissingClaim = ''auth: required claim is missing from token''"
| "auth_err_text AuthErrInsufficientScope = ''auth: token does not have the required scope''"

section \<open>The error interface\<close>

datatype gerr =
    EUrl url_err | EApp app_err | EWs ws_err | EKey apikey_err | EHook webhook_err
  | EExp export_err | EAuth auth_err
  | EWrap string gerr string
  | EValidation string "gerr option"
  | EOther string

text \<open>\<open>ValidationError.Error\<close> and the texts of the other errors.\<close>

fun err_text :: "gerr \<Rightarrow> string" where
  "err_text (EUrl e) = url_err_text e"
| "err_text (EApp e) = app_err_text e"
| "err_text (EWs e) = ws_err_text e"
| "err_text (EKey e) = apikey_err_text e"
| "err_text (EHook e) = webhook_err_text e"
| "err_text (EExp e) = export_err_text e"
| "err_text (EAuth e) = auth_err_text e"
| "err_text (EWrap pre e post) = pre @ err_text e @ post"
| "err_text (EValidation m (Some c)) = ''validation error: '' @ m @ '': '' @ err_text c"
| "err_text (EValidation m None) = ''validation error: '' @ m"
| "err_text (EOther m) = m"

text \<open>\<open>errors.Is(err, target)\<close> for a sentinel target.\<close>

fun errors_is :: "gerr \<Rightarrow> gerr \<Rightarrow> bool" where
  "errors_is (EWrap pre e post) t = errors_is e t"
| "errors_is (EValidation m None) t = False"
| "errors_is (EValidation m (Some c)) t = errors_is c t"
| "errors_is e t = (e = t)"

text \<open>\<open>errors.As(err, &ve)\<close> for \<open>ve *ValidationError\<close>: the message and cause of the first one on the chain.\<close>

fun as_validation :: "gerr \<Rightarrow> string option" where
  "as_validation (EValidation m c) = Some m"
| "as_validation (EWrap pre e post) = as_validation e"
| "as_validation e = None"

definition new_validation_error :: "string \<Rightarrow> gerr option \<Rightarrow> gerr" where
  "new_validation_error m c = EValidation m c"

definition app_is_validation_error :: "gerr \<Rightarrow> bool" where
  "app_is_validation_error e = (as_validation e \<noteq> None)"

definition app_is_not_found :: "gerr \<Rightarrow> bool" where
  "app_is_not_found e = errors_is e (EApp AppErrNotFound)"

definition app_is_conflict :: "gerr \<Rightarrow> bool" where
  "app_is_conflict e = errors_is e (EApp AppErrShortCodeConflict)"

text \<open>\<open>internal/domain/url/errors.go\<close>\<close>

definition url_is_not_found :: "gerr \<Rightarrow> bool" where
  "url_is_not_found e = (errors_is e (EUrl UrlErrNotFound) \<or> errors_is e (EUrl UrlErrDeleted))"

definition url_is_gone :: "gerr \<Rightarrow> bool" where
  "url_is_gone e = errors_is e (EUrl UrlErrExpired)"

definition url_is_conflict :: "gerr \<Rightarrow> bool" where
  "url_is_conflict e = errors_is e (EUrl UrlErrConflict)"

text \<open>\<open>internal/domain/workspace/errors.go\<close>\<close>

definition ws_is_not_found :: "gerr \<Rightarrow> bool" where
  "ws_is_not_found e = (errors_is e (EWs WsErrNotFound) \<or> errors_is e (EWs WsErrMemberNotFound))"

definition ws_is_conflict :: "gerr \<Rightarrow> bool" where
  "ws_is_conflict e = (errors_is e (EWs WsErrSlugConflict) \<or> errors_is e (EWs WsErrNameConflict)
     \<or> errors_is e (EWs WsErrMemberAlreadyExists))"

definition ws_is_authorization_error :: "gerr \<Rightarrow> bool" where
  "ws_is_authorization_error e =
     (errors_is e (EWs WsErrNotMember) \<or> errors_is e (EWs WsErrInsufficientRole))"

lemmas err_class_defs =
  new_validation_error_def app_is_validation_error_def app_is_not_found_def app_is_conflict_def
  url_is_not_found_def url_is_gone_def url_is_conflict_def
  ws_is_not_found_def ws_is_conflict_def ws_is_authorization_error_def

text \<open>
  Wrapping keeps the class of an error: whatever \<open>fmt.Errorf("...: %w", err)\<close> adds, \<open>errors.Is\<close>
  and \<open>errors.As\<close> give what they gave on the inner error.
\<close>

lemma errors_is_wrap [simp]: "errors_is (EWrap pre e post) t = errors_is e t"
  and as_validation_wrap [simp]: "as_validation (EWrap pre e post) = as_validation e"
  by simp_all

text \<open>The error chain has one innermost error, and it decides \<open>errors.Is\<close>.\<close>

fun err_root :: "gerr \<Rightarrow> gerr" where
  "err_root (EWrap pre e post) = err_root e"
| "err_root (EValidation m (Some c)) = err_root c"
| "err_root e = e"

lemma errors_is_root:
  assumes "\<And>m. t \<noteq> EValidation m None"
  shows "errors_is e t \<longleftrightarrow> err_root e = t"
  using assms by (induction e t rule: errors_is.induct) auto

lemma errors_is_unique:
  assumes "errors_is e t" and "errors_is e t'"
    and "\<And>m. t \<noteq> EValidation m None" "\<And>m. t' \<noteq> EValidation m None"
  shows "t = t'"
  using assms by (metis errors_is_root)

section \<open>Results\<close>

text \<open>A Go function returning \<open>(T, error)\<close> gives \<open>Inl err\<close> or \<open>Inr value\<close>.\<close>

type_synonym 'a result = "gerr + 'a"

definition bind_result :: "'a result \<Rightarrow> ('a \<Rightarrow> 'b result) \<Rightarrow> 'b result" where
  "bind_result r f = (case r of Inl e \<Rightarrow> Inl e | Inr a \<Rightarrow> f a)"

lemma bind_result_simps [simp]:
  "bind_result (Inl e) f = Inl e" "bind_result (Inr a) f = f a"
  by (simp_all add: bind_result_def)

end
