(* ===== verification/GoUrl.thy ===== *)
theory GoUrl
  imports Errors
begin

text \<open>
  The part of Go's \<open>net/url\<close> the program uses: \<open>url.ParseRequestURI\<close> (\<open>internal/domain/url/entity.go\<close>,
  \<open>internal/application/shorten/handler.go\<close>, \<open>internal/application/url/update_handler.go\<close>) with the
  fields \<open>Scheme\<close>, \<open>Host\<close>, \<open>User\<close>, \<open>Opaque\<close>, \<open>Path\<close> and \<open>RawQuery\<close> of its result. It follows the
  standard library of the Go version in \<open>go.mod\<close> (1.24): the scheme scan, the cut at the query, the
  authority with user information, port and IPv6 zone, and the percent decoding of each part.
\<close>

record parsed_url =
  u_scheme :: string
  u_opaque :: string
  u_user :: "(string \<times> string option) option"
  u_host :: string
  u_path :: string
  u_query :: string

definition empty_parsed_url :: parsed_url where
  "empty_parsed_url = \<lparr>u_scheme = [], u_opaque = [], u_user = None, u_host = [], u_path = [], u_query = []\<rparr>"

section \<open>Bytes\<close>

definition byte :: "char \<Rightarrow> nat" where
  "byte c = of_char c"

definition is_letter :: "char \<Rightarrow> bool" where
  "is_letter c = (let n = byte c in (97 \<le> n \<and> n \<le> 122) \<or> (65 \<le> n \<and> n \<le> 90))"

definition is_digit :: "char \<Rightarrow> bool" where
  "is_digit c = (let n = byte c in 48 \<le> n \<and> n \<le> 57)"

definition is_ctl :: "char \<Rightarrow> bool" where
  "is_ctl c = (byte c < 32 \<or> byte c = 127)"

text \<open>\<open>unhex\<close>, with \<open>None\<close> where \<open>ishex\<close> is false.\<close>

definition unhex :: "char \<Rightarrow> nat option" where
  "unhex c = (let n = byte c in
     if 48 \<le> n \<and> n \<le> 57 then Some (n - 48)
     else if 97 \<le> n \<and> n \<le> 102 then Some (n - 87)
     else if 65 \<le> n \<and> n \<le> 70 then Some (n - 55) else None)"

section \<open>Percent decoding\<close>

datatype encoding = EncPath | EncHost | EncZone | EncUserPassword

text \<open>\<open>shouldEscape(c, encodeHost)\<close>, which is also its value for \<open>encodeZone\<close>.\<close>

definition should_escape_host :: "char \<Rightarrow> bool" where
  "should_escape_host c =
     (\<not> (is_letter c \<or> is_digit c \<or> c \<in> set ''!$&()*+,;=:[]<>\"'' \<or> byte c = 39 \<or> c \<in> set ''-_.~''))"

text \<open>\<open>unescape\<close>: every \<open>%\<close> must start two hex digits, and host and zone restrict what may be encoded.\<close>

fun unescape :: "encoding \<Rightarrow> string \<Rightarrow> string result" where
  "unescape m [] = Inr []"
| "unescape m (c # cs) =
     (if c = CHR ''%'' then
        (case cs of
           a # b # rest \<Rightarrow>
             (case (unhex a, unhex b) of
                (Some x, Some y) \<Rightarrow>
                  let v = char_of (16 * x + y); zone_pct = (a = CHR ''2'' \<and> b = CHR ''5'') in
                  if m = EncHost \<and> x < 8 \<and> \<not> zone_pct then Inl (EOther ''invalid URL escape'')
                  else if m = EncZone \<and> \<not> zone_pct \<and> v \<noteq> CHR '' '' \<and> should_escape_host v
                  then Inl (EOther ''invalid URL escape'')
                  else bind_result (unescape m rest) (\<lambda>r. Inr (v # r))
              | _ \<Rightarrow> Inl (EOther ''invalid URL escape''))
         | _ \<Rightarrow> Inl (EOther ''invalid URL escape''))
      else if (m = EncHost \<or> m = EncZone) \<and> byte c < 128 \<and> should_escape_host c
      then Inl (EOther ''invalid character in host name'')
      else bind_result (unescape m cs) (\<lambda>r. Inr (c # r)))"

section \<open>Scheme, authority and host\<close>

text \<open>
  \<open>getScheme\<close>: \<open>Inr (scheme, rest)\<close> with the empty scheme when the text has none. The first argument
  is the part of the text already scanned.
\<close>

fun get_scheme_loop :: "string \<Rightarrow> string \<Rightarrow> string \<Rightarrow> (string \<times> string) result" where
  "get_scheme_loop raw acc [] = Inr ([], raw)"
| "get_scheme_loop raw acc (c # cs) =
     (if is_letter c then get_scheme_loop raw (acc @ [c]) cs
      else if is_digit c \<or> c \<in> set ''+-.'' then
        (if acc = [] then Inr ([], raw) else get_scheme_loop raw (acc @ [c]) cs)
      else if c = CHR '':'' then
        (if acc = [] then Inl (EOther ''missing protocol scheme'') else Inr (acc, cs))
      else Inr ([], raw))"

definition get_scheme :: "string \<Rightarrow> (string \<times> string) result" where
  "get_scheme raw = get_scheme_loop raw [] raw"

definition valid_optional_port :: "string \<Rightarrow> bool" where
  "valid_optional_port p = (case p of [] \<Rightarrow> True | c # ds \<Rightarrow> c = CHR '':'' \<and> list_all is_digit ds)"

definition parse_host :: "string \<Rightarrow> string result" where
  "parse_host host =
     (if has_prefix host ''['' then
        (case last_index_char host (CHR '']'') of
           None \<Rightarrow> Inl (EOther ''missing ] in host'')
         | Some i \<Rightarrow>
             if \<not> valid_optional_port (drop (Suc i) host) then Inl (EOther ''invalid port after host'')
             else (case str_index (take i host) ''%25'' of
                     Some z \<Rightarrow>
                       bind_result (unescape EncHost (take z host)) (\<lambda>h1.
                       bind_result (unescape EncZone (drop z (take i host))) (\<lambda>h2.
                       bind_result (unescape EncHost (drop i host)) (\<lambda>h3. Inr (h1 @ h2 @ h3))))
                   | None \<Rightarrow> unescape EncHost host))
      else
        (case last_index_char host (CHR '':'') of
           Some i \<Rightarrow> if \<not> valid_optional_port (drop i host) then Inl (EOther ''invalid port after host'')
                     else unescape EncHost host
         | None \<Rightarrow> unescape EncHost host))"

definition valid_userinfo :: "string \<Rightarrow> bool" where
  "valid_userinfo s = list_all (\<lambda>c. is_letter c \<or> is_digit c \<or> c \<in> set ''-._:~!$&()*+,;=%@'' \<or> byte c = 39) s"

definition parse_authority :: "string \<Rightarrow> ((string \<times> string option) option \<times> string) result" where
  "parse_authority a =
     (case last_index_char a (CHR ''@'') of
        None \<Rightarrow> bind_result (parse_host a) (\<lambda>h. Inr (None, h))
      | Some i \<Rightarrow>
          bind_result (parse_host (drop (Suc i) a)) (\<lambda>h.
            let ui = take i a in
            if \<not> valid_userinfo ui then Inl (EOther ''net/url: invalid userinfo'')
            else (case str_cut ui (CHR '':'') of
                    None \<Rightarrow> bind_result (unescape EncUserPassword ui) (\<lambda>u. Inr (Some (u, None), h))
                  | Some (u, p) \<Rightarrow>
                      bind_result (unescape EncUserPassword u) (\<lambda>u'.
                      bind_result (unescape EncUserPassword p) (\<lambda>p'. Inr (Some (u', Some p'), h))))))"

section \<open>ParseRequestURI\<close>

definition cut_query :: "string \<Rightarrow> string \<times> string" where
  "cut_query s =
     (if s \<noteq> [] \<and> last s = CHR ''?'' \<and> count_char s (CHR ''?'') = 1 then (butlast s, [])
      else case str_cut s (CHR ''?'') of None \<Rightarrow> (s, []) | Some (a, b) \<Rightarrow> (a, b))"

definition parse_request :: "string \<Rightarrow> parsed_url result" where
  "parse_request raw =
     (if list_ex is_ctl raw then Inl (EOther ''net/url: invalid control character in URL'')
      else if raw = [] then Inl (EOther ''empty url'')
      else if raw = ''*'' then Inr (empty_parsed_url\<lparr>u_path := ''*''\<rparr>)
      else bind_result (get_scheme raw) (\<lambda>(sch, rest0).
        let scheme = to_lower sch; (rest, q) = cut_query rest0 in
        if \<not> has_prefix rest ''/'' then
          (if scheme \<noteq> [] then Inr (empty_parsed_url\<lparr>u_scheme := scheme, u_opaque := rest, u_query := q\<rparr>)
           else Inl (EOther ''invalid URI for request''))
        else if scheme \<noteq> [] \<and> has_prefix rest ''//'' then
          (let a = drop 2 rest;
               (auth, path) = (case str_index a ''/'' of None \<Rightarrow> (a, []) | Some i \<Rightarrow> (take i a, drop i a)) in
           bind_result (parse_authority auth) (\<lambda>(user, h).
           bind_result (unescape EncPath path) (\<lambda>p.
             Inr \<lparr>u_scheme = scheme, u_opaque = [], u_user = user, u_host = h, u_path = p, u_query = q\<rparr>)))
        else bind_result (unescape EncPath rest) (\<lambda>p.
             Inr (empty_parsed_url\<lparr>u_scheme := scheme, u_path := p, u_query := q\<rparr>))))"

text \<open>
  \<open>strconv.Quote\<close>, the verb \<open>%q\<close>: quotes and backslashes escaped, control bytes in their short form or
  as two hex digits; bytes from 128 on are taken to be parts of printable runes and kept.
\<close>

definition hex_digit :: "nat \<Rightarrow> char" where
  "hex_digit d = (if d < 10 then char_of (48 + d) else char_of (87 + d))"

definition quote_byte :: "char \<Rightarrow> char \<Rightarrow> string" where
  "quote_byte q c =
     (if c = q \<or> byte c = 92 then [char_of (92::nat), c]
      else if byte c = 7 then [char_of (92::nat), CHR ''a'']
      else if byte c = 8 then [char_of (92::nat), CHR ''b'']
      else if byte c = 12 then [char_of (92::nat), CHR ''f'']
      else if byte c = 10 then [char_of (92::nat), CHR ''n'']
      else if byte c = 13 then [char_of (92::nat), CHR ''r'']
      else if byte c = 9 then [char_of (92::nat), CHR ''t'']
      else if byte c = 11 then [char_of (92::nat), CHR ''v'']
      else if is_ctl c then [char_of (92::nat), CHR ''x'', hex_digit (byte c div 16), hex_digit (byte c mod 16)]
      else [c])"

definition go_quote :: "string \<Rightarrow> string" where
  "go_quote s = (let q = char_of (34::nat) in [q] @ concat (map (quote_byte q) s) @ [q])"

text \<open>The exported function wraps every failure in a \<open>*url.Error\<close>, printed as \<open>parse "...": reason\<close>.\<close>

definition parse_request_uri :: "string \<Rightarrow> parsed_url result" where
  "parse_request_uri raw =
     (case parse_request raw of Inl e \<Rightarrow> Inl (EWrap (''parse '' @ go_quote raw @ '': '') e '''') | Inr p \<Rightarrow> Inr p)"

section \<open>Properties\<close>

lemma get_scheme_loop_prefix:
  "get_scheme_loop raw acc s = Inr (sch, rest) \<Longrightarrow> sch \<noteq> [] \<Longrightarrow> acc @ s = sch @ CHR '':'' # rest"
proof (induction raw acc s rule: get_scheme_loop.induct)
  case (2 raw acc c cs)
  then show ?case by (auto split: if_splits)
qed simp

lemma get_scheme_prefix:
  "get_scheme raw = Inr (sch, rest) \<Longrightarrow> sch \<noteq> [] \<Longrightarrow> raw = sch @ CHR '':'' # rest"
  using get_scheme_loop_prefix [of raw "[]" raw] by (simp add: get_scheme_def)

text \<open>A parsed scheme is the text before the first colon of the input, in lower case.\<close>

lemma parse_request_scheme:
  assumes "parse_request_uri raw = Inr p" and "u_scheme p \<noteq> []"
  obtains sch rest where "raw = sch @ CHR '':'' # rest" "u_scheme p = to_lower sch" "sch \<noteq> []"
proof -
  from assms obtain sch rest where gs: "get_scheme raw = Inr (sch, rest)" and s: "u_scheme p = to_lower sch"
    by (auto simp: parse_request_uri_def parse_request_def empty_parsed_url_def bind_result_def Let_def
          split: sum.splits if_splits prod.splits option.splits)
  moreover from s assms(2) have "sch \<noteq> []" by auto
  ultimately show ?thesis using get_scheme_prefix that by blast
qed

lemma parse_request_uri_nonempty: "parse_request_uri raw = Inr p \<Longrightarrow> raw \<noteq> []"
  by (auto simp: parse_request_uri_def parse_request_def)

lemma parse_request_uri_printable: "parse_request_uri raw = Inr p \<Longrightarrow> \<forall>c \<in> set raw. \<not> is_ctl c"
  by (auto simp: parse_request_uri_def parse_request_def list_ex_iff split: sum.splits if_splits)

end
