(* ===== verification/GoTime.thy ===== *)
theory GoTime
  imports Prelude
begin

text \<open>
  The calendar part of Go's \<open>time\<close> package: the civil date of an instant in UTC, and the layouts the
  program formats with, \<open>time.RFC3339\<close> and \<open>"2006-01-02"\<close>. An instant is a number of nanoseconds since
  the Unix epoch; the civil date is the proleptic Gregorian one.
\<close>

section \<open>Civil dates\<close>

definition day_seconds :: int where "day_seconds = 86400"

text \<open>Years start in March here, so that the leap day is the last day of a year.\<close>

definition days_of_civil :: "int \<Rightarrow> int \<Rightarrow> int \<Rightarrow> int" where
  "days_of_civil y m d =
     (let y' = (if m \<le> 2 then y - 1 else y);
          yoe = y' mod 400;
          mp = (m + 9) mod 12;
          doy = (153 * mp + 2) div 5 + d - 1
      in (y' div 400) * 146097 + (yoe * 365 + yoe div 4 - yoe div 100 + doy) - 719468)"

definition civil_of_days :: "int \<Rightarrow> int \<times> int \<times> int" where
  "civil_of_days n =
     (let z = n + 719468;
          doe = z mod 146097;
          yoe = (doe - doe div 1460 + doe div 36524 - doe div 146096) div 365;
          doy = doe - (365 * yoe + yoe div 4 - yoe div 100);
          mp = (5 * doy + 2) div 153;
          d = doy - (153 * mp + 2) div 5 + 1;
          m = (if mp < 10 then mp + 3 else mp - 9);
          y = yoe + (z div 146097) * 400
      in (if m \<le> 2 then y + 1 else y, m, d))"

section \<open>Layouts\<close>

definition pad_to :: "nat \<Rightarrow> int \<Rightarrow> string" where
  "pad_to w i =
     (let s = show_nat (nat (abs i)); z = replicate (w - length s) (CHR ''0'')
      in if i < 0 then CHR ''-'' # z @ s else z @ s)"

text \<open>\<open>t.Format("2006-01-02")\<close>\<close>

definition format_date :: "gotime \<Rightarrow> string" where
  "format_date t =
     (let (y, m, d) = civil_of_days (unix_seconds t div day_seconds)
      in pad_to 4 y @ ''-'' @ pad_to 2 m @ ''-'' @ pad_to 2 d)"

text \<open>\<open>t.Format(time.RFC3339)\<close> of an instant in UTC\<close>

definition format_rfc3339 :: "gotime \<Rightarrow> string" where
  "format_rfc3339 t =
     (let s = unix_seconds t mod day_seconds
      in format_date t @ ''T'' @ pad_to 2 (s div 3600) @ '':'' @ pad_to 2 (s div 60 mod 60) @ '':''
           @ pad_to 2 (s mod 60) @ ''Z'')"

text \<open>\<open>t.Truncate(24 * time.Hour)\<close> of an instant in UTC: the midnight before it.\<close>

definition truncate_day :: "gotime \<Rightarrow> gotime" where
  "truncate_day t = t - t mod (24 * hour)"

text \<open>\<open>a.Sub(b)\<close>: a difference that does not fit 64 bits is cut off at the ends.\<close>

definition time_sub :: "gotime \<Rightarrow> gotime \<Rightarrow> duration" where
  "time_sub a b = max (- (2 ^ 63)) (min (2 ^ 63 - 1) (a - b))"

section \<open>Properties\<close>

lemma civil_examples:
  "civil_of_days 0 = (1970, 1, 1)" "civil_of_days 19782 = (2024, 2, 29)"
  "civil_of_days (- 1) = (1969, 12, 31)" "days_of_civil 2000 3 1 = 11017"
  by code_simp+

end
