(* ===== verification/Workspace.thy ===== *)
theory Workspace
  imports Errors GoTime
begin

text \<open>
  \<open>internal/domain/workspace\<close>: roles and the permission matrix, the workspace and member entities with
  their validation, and the generation of slugs (\<open>entity.go\<close>), with the persistence ports
  (\<open>repository.go\<close>) as records of operations over a state type.
\<close>

section \<open>Roles and actions\<close>

text \<open>Both are string types in the code, so values outside the constants exist and are denied.\<close>

type_synonym role = string
type_synonym action = string

definition role_owner :: role where "role_owner = ''owner''"
definition role_admin :: role where "role_admin = ''admin''"
definition role_editor :: role where "role_editor = ''editor''"
definition role_viewer :: role where "role_viewer = ''viewer''"

lemmas role_defs = role_owner_def role_admin_def role_editor_def role_viewer_def

definition action_create_url :: action where "action_create_url = ''url:create''"
definition action_update_url :: action where "action_update_url = ''url:update''"
definition action_delete_url :: action where "action_delete_url = ''url:delete''"
definition action_view_url :: action where "action_view_url = ''url:view''"
definition action_view_analytics :: action where "action_view_analytics = ''analytics:view''"
definition action_manage_webhooks :: action where "action_manage_webhooks = ''webhook:manage''"
definition action_manage_members :: action where "action_manage_members = ''members:manage''"
definition action_delete_workspace :: action where "action_delete_workspace = ''workspace:delete''"
definition action_view_members :: action where "action_view_members = ''members:view''"

lemmas action_defs = action_create_url_def action_update_url_def action_delete_url_def action_view_url_def
  action_view_analytics_def action_manage_webhooks_def action_manage_members_def action_delete_workspace_def
  action_view_members_def

definition role_permissions :: "role \<rightharpoonup> action \<rightharpoonup> bool" where
  "role_permissions =
     [role_owner \<mapsto> [action_create_url \<mapsto> True, action_update_url \<mapsto> True, action_delete_url \<mapsto> True,
        action_view_url \<mapsto> True, action_view_analytics \<mapsto> True, action_manage_webhooks \<mapsto> True,
        action_manage_members \<mapsto> True, action_delete_workspace \<mapsto> True, action_view_members \<mapsto> True],
      role_admin \<mapsto> [action_create_url \<mapsto> True, action_update_url \<mapsto> True, action_delete_url \<mapsto> True,
        action_view_url \<mapsto> True, action_view_analytics \<mapsto> True, action_manage_webhooks \<mapsto> True,
        action_manage_members \<mapsto> True, action_delete_workspace \<mapsto> False, action_view_members \<mapsto> True],
      role_editor \<mapsto> [action_create_url \<mapsto> True, action_update_url \<mapsto> True, action_delete_url \<mapsto> False,
        action_view_url \<mapsto> True, action_view_analytics \<mapsto> True, action_manage_webhooks \<mapsto> False,
        action_manage_members \<mapsto> False, action_delete_workspace \<mapsto> False, action_view_members \<mapsto> True],
      role_viewer \<mapsto> [action_create_url \<mapsto> False, action_update_url \<mapsto> False, action_delete_url \<mapsto> False,
        action_view_url \<mapsto> True, action_view_analytics \<mapsto> True, action_manage_webhooks \<mapsto> False,
        action_manage_members \<mapsto> False, action_delete_workspace \<mapsto> False, action_view_members \<mapsto> True]]"

text \<open>\<open>Role.Can\<close>: a missing entry of the inner map reads as \<open>false\<close>.\<close>

definition role_can :: "role \<Rightarrow> action \<Rightarrow> bool" where
  "role_can r a = (case role_permissions r of None \<Rightarrow> False | Some perms \<Rightarrow> perms a = Some True)"

definition role_is_valid :: "role \<Rightarrow> bool" where
  "role_is_valid r = (r \<in> {role_owner, role_admin, role_editor, role_viewer})"

section \<open>Entities\<close>

record workspace =
  w_id :: string
  w_name :: string
  w_slug :: string
  w_plan_tier :: string
  w_owner_id :: string
  w_created_at :: gotime
  w_updated_at :: gotime

record member =
  m_workspace_id :: string
  m_user_id :: string
  m_role :: role
  m_invited_by :: string
  m_joined_at :: gotime

definition slug_char :: "char \<Rightarrow> bool" where
  "slug_char c = (let n = (of_char c :: nat) in (97 \<le> n \<and> n \<le> 122) \<or> (48 \<le> n \<and> n \<le> 57))"

text \<open>The regular expression \<open>^[a-z0-9][a-z0-9\-]*[a-z0-9]$|^[a-z0-9]$\<close>.\<close>

definition slug_matches :: "string \<Rightarrow> bool" where
  "slug_matches s =
     (s \<noteq> [] \<and> slug_char (hd s) \<and> slug_char (last s) \<and> list_all (\<lambda>c. slug_char c \<or> c = CHR ''-'') s)"

definition validate_workspace :: "workspace \<Rightarrow> gerr option" where
  "validate_workspace w =
     (if w_name w = [] then Some (EWs WsErrNameRequired)
      else if length (w_name w) > 100 then Some (EWs WsErrNameTooLong)
      else if w_slug w = [] then Some (EWs WsErrSlugRequired)
      else if length (w_slug w) > 63 then Some (EWs WsErrSlugTooLong)
      else if \<not> slug_matches (w_slug w) then Some (EWs WsErrSlugInvalid)
      else if w_owner_id w = [] then Some (EWs WsErrOwnerIDRequired)
      else None)"

definition validate_member :: "member \<Rightarrow> gerr option" where
  "validate_member m =
     (if m_workspace_id m = [] then Some (EWs WsErrWorkspaceIDRequired)
      else if m_user_id m = [] then Some (EWs WsErrUserIDRequired)
      else if \<not> role_is_valid (m_role m) then Some (EWs WsErrInvalidRole)
      else None)"

definition max_workspaces_per_user :: nat where "max_workspaces_per_user = 5"

definition plan_tiers :: "string list" where "plan_tiers = [''free'', ''pro'', ''enterprise'']"

section \<open>Slugs\<close>

text \<open>
  The loop of \<open>GenerateSlug\<close>, over bytes: a rune of several bytes counts as other punctuation, and the bytes
  after its first one fall into the case that adds nothing.
\<close>

fun slug_loop :: "string \<Rightarrow> bool \<Rightarrow> string \<Rightarrow> string" where
  "slug_loop slug prev [] = slug"
| "slug_loop slug prev (c # cs) =
     (if slug_char c then slug_loop (slug @ [c]) False cs
      else if slug_char (lower_char c) then slug_loop (slug @ [lower_char c]) False cs
      else if \<not> prev \<and> slug \<noteq> [] then slug_loop (slug @ [CHR ''-'']) True cs
      else slug_loop slug prev cs)"

definition generate_slug :: "string \<Rightarrow> string" where
  "generate_slug name =
     (let slug = trim_right (\<lambda>c. c = CHR ''-'') (slug_loop [] False name)
      in if slug = [] then ''workspace'' else slug)"

section \<open>Ports\<close>

record 's workspace_repository =
  ws_create :: "workspace \<Rightarrow> member \<Rightarrow> 's \<Rightarrow> unit result \<times> 's"
  ws_get_by_id :: "string \<Rightarrow> 's \<Rightarrow> workspace result \<times> 's"
  ws_get_by_slug :: "string \<Rightarrow> 's \<Rightarrow> workspace result \<times> 's"
  ws_list_for_user :: "string \<Rightarrow> 's \<Rightarrow> workspace list result \<times> 's"
  ws_count_owned :: "string \<Rightarrow> 's \<Rightarrow> nat result \<times> 's"

record 's member_repository =
  mr_add_member :: "member \<Rightarrow> 's \<Rightarrow> unit result \<times> 's"
  mr_get_member :: "string \<Rightarrow> string \<Rightarrow> 's \<Rightarrow> member result \<times> 's"
  mr_list_members :: "string \<Rightarrow> 's \<Rightarrow> member list result \<times> 's"
  mr_update_role :: "string \<Rightarrow> string \<Rightarrow> role \<Rightarrow> 's \<Rightarrow> unit result \<times> 's"
  mr_remove_member :: "string \<Rightarrow> string \<Rightarrow> 's \<Rightarrow> unit result \<times> 's"

section \<open>The contract of the ports\<close>

text \<open>
  What the use cases rely on: which rows the writes leave in the two tables (\<open>wss\<close>, \<open>mems\<close>), what the
  reads return of the rows a reader sees (\<open>seen_w\<close>, \<open>seen_m\<close>, those of a replica that may be behind),
  and that the row of an entity (\<open>row_w\<close>, \<open>row_m\<close>) keeps its identity, owner and role.
\<close>

locale workspace_store =
  fixes repo :: "'s workspace_repository"
    and mrepo :: "'s member_repository"
    and wss seen_w :: "'s \<Rightarrow> workspace list"
    and mems seen_m :: "'s \<Rightarrow> member list"
    and row_w :: "workspace \<Rightarrow> workspace"
    and row_m :: "member \<Rightarrow> member"
  assumes row_w: "w_id (row_w w) = w_id w \<and> w_owner_id (row_w w) = w_owner_id w
        \<and> w_slug (row_w w) = w_slug w \<and> w_name (row_w w) = w_name w"
    and row_m: "m_workspace_id (row_m m) = m_workspace_id m \<and> m_user_id (row_m m) = m_user_id m
        \<and> m_role (row_m m) = m_role m \<and> m_invited_by (row_m m) = m_invited_by m"
    and create_ok: "ws_create repo w m s = (Inr v, s') \<Longrightarrow>
        wss s' = wss s @ [row_w w] \<and> mems s' = mems s @ [row_m m] \<and> w_id w \<notin> w_id ` set (wss s)"
    and create_err: "ws_create repo w m s = (Inl e, s') \<Longrightarrow> wss s' = wss s \<and> mems s' = mems s"
    and create_seen: "ws_create repo w m s = (r, s') \<Longrightarrow>
        seen_w s' = seen_w s \<and> seen_m s' = seen_m s \<or> seen_w s' = wss s' \<and> seen_m s' = mems s'"
    and add_ok: "mr_add_member mrepo m s = (Inr v, s') \<Longrightarrow> wss s' = wss s \<and> mems s' = mems s @ [row_m m]
        \<and> (\<forall>x \<in> set (mems s). \<not> (m_workspace_id x = m_workspace_id m \<and> m_user_id x = m_user_id m))"
    and add_err: "mr_add_member mrepo m s = (Inl e, s') \<Longrightarrow> wss s' = wss s \<and> mems s' = mems s"
    and member_ok: "mr_get_member mrepo ws uid s = (Inr m, s') \<Longrightarrow>
        m \<in> set (seen_m s) \<and> m_workspace_id m = ws \<and> m_user_id m = uid"
    and member_frame: "mr_get_member mrepo ws uid s = (rm, s') \<Longrightarrow>
        wss s' = wss s \<and> mems s' = mems s \<and> seen_w s' = seen_w s \<and> seen_m s' = seen_m s"
    and members_ok: "mr_list_members mrepo ws s = (Inr ms, s') \<Longrightarrow> set ms = {m \<in> set (seen_m s). m_workspace_id m = ws}"
    and members_frame: "mr_list_members mrepo ws s = (rl, s') \<Longrightarrow> wss s' = wss s \<and> mems s' = mems s"
    and count_ok: "ws_count_owned repo uid s = (Inr n, s') \<Longrightarrow> n = length (filter (\<lambda>w. w_owner_id w = uid) (seen_w s))"
    and count_frame: "ws_count_owned repo uid s = (rc, s') \<Longrightarrow>
        wss s' = wss s \<and> mems s' = mems s \<and> seen_w s' = seen_w s \<and> seen_m s' = seen_m s"
    and id_ok: "ws_get_by_id repo i s = (Inr w, s') \<Longrightarrow> w \<in> set (seen_w s) \<and> w_id w = i"
    and id_frame: "ws_get_by_id repo i s = (rw, s') \<Longrightarrow> wss s' = wss s \<and> mems s' = mems s"
    and user_frame: "ws_list_for_user repo uid s = (ru, s') \<Longrightarrow> wss s' = wss s \<and> mems s' = mems s"

section \<open>Properties of the roles\<close>

lemma role_can_cases:
  "role_can role_owner a \<longleftrightarrow> a \<in> {action_create_url, action_update_url, action_delete_url, action_view_url,
      action_view_analytics, action_manage_webhooks, action_manage_members, action_delete_workspace, action_view_members}"
  "role_can role_admin a \<longleftrightarrow> a \<in> {action_create_url, action_update_url, action_delete_url, action_view_url,
      action_view_analytics, action_manage_webhooks, action_manage_members, action_view_members}"
  "role_can role_editor a \<longleftrightarrow> a \<in> {action_create_url, action_update_url, action_view_url, action_view_analytics,
      action_view_members}"
  "role_can role_viewer a \<longleftrightarrow> a \<in> {action_view_url, action_view_analytics, action_view_members}"
  by (auto simp: role_can_def role_permissions_def role_defs action_defs)

lemma role_can_unknown: "\<not> role_is_valid r \<Longrightarrow> \<not> role_can r a"
  by (auto simp: role_can_def role_is_valid_def role_permissions_def split: option.splits)

lemma manage_members_roles: "role_can r action_manage_members \<longleftrightarrow> r = role_owner \<or> r = role_admin"
proof (cases "role_is_valid r")
  case True
  then show ?thesis by (auto simp: role_is_valid_def role_can_cases) (auto simp: role_defs action_defs)
next
  case False
  then show ?thesis by (auto simp: role_can_unknown) (auto simp: role_is_valid_def)
qed

lemma view_members_roles: "role_can r action_view_members \<longleftrightarrow> role_is_valid r"
  using role_can_unknown by (auto simp: role_is_valid_def role_can_cases)

section \<open>Properties of slugs\<close>

lemma slug_char_hyphen [simp]: "\<not> slug_char (CHR ''-'')"
  by (simp add: slug_char_def)

lemma slug_char_lower [simp]: "slug_char c \<Longrightarrow> lower_char c = c"
  by (auto simp: slug_char_def lower_char_def Let_def)

text \<open>What the loop keeps of the slug built so far: nothing but slug characters and hyphens, a slug character
  first, and never two hyphens in a row.\<close>

definition slug_shape :: "string \<Rightarrow> bool" where
  "slug_shape s = (list_all (\<lambda>c. slug_char c \<or> c = CHR ''-'') s \<and> (s \<noteq> [] \<longrightarrow> slug_char (hd s)))"

lemma slug_shape_snoc:
  "slug_shape s \<Longrightarrow> slug_char c \<or> (c = CHR ''-'' \<and> s \<noteq> []) \<Longrightarrow> slug_shape (s @ [c])"
  by (cases s) (auto simp: slug_shape_def)

lemma slug_shape_simps [simp]: "slug_shape []" "slug_shape [c] \<longleftrightarrow> slug_char c"
  by (auto simp: slug_shape_def)

lemma slug_loop_shape: "slug_shape s \<Longrightarrow> slug_shape (slug_loop s prev cs)"
  by (induction s prev cs rule: slug_loop.induct) (auto intro: slug_shape_snoc)

lemma trim_right_snoc: "trim_right p (s @ [c]) = (if p c then trim_right p s else s @ [c])"
  by (simp add: trim_right_def)

lemma slug_shape_trim: "slug_shape s \<Longrightarrow> slug_shape (trim_right (\<lambda>c. c = CHR ''-'') s)"
proof (induction s rule: rev_induct)
  case (snoc c s)
  have "slug_shape s" using snoc.prems by (cases s) (auto simp: slug_shape_def)
  with snoc show ?case by (simp add: trim_right_snoc)
qed (simp add: trim_right_def)

lemma slug_shape_matches:
  "slug_shape s \<Longrightarrow> s \<noteq> [] \<Longrightarrow> last s \<noteq> CHR ''-'' \<Longrightarrow> slug_matches s"
  by (auto simp: slug_shape_def slug_matches_def list_all_iff dest: last_in_set)

lemma generate_slug_matches: "slug_matches (generate_slug name)"
proof -
  let ?s = "trim_right (\<lambda>c. c = CHR ''-'') (slug_loop [] False name)"
  have "slug_shape ?s" by (intro slug_shape_trim slug_loop_shape) (simp add: slug_shape_def)
  moreover have "slug_matches ''workspace''" by code_simp
  ultimately show ?thesis
    using trim_right_not_last [of "\<lambda>c. c = CHR ''-''" "slug_loop [] False name"]
    by (auto simp: generate_slug_def Let_def intro: slug_shape_matches)
qed

lemma slug_loop_length: "length (slug_loop s prev cs) \<le> length s + length cs"
  by (induction s prev cs rule: slug_loop.induct) auto

lemma trim_right_length: "length (trim_right p s) \<le> length s"
  by (induction s rule: rev_induct) (auto simp: trim_right_snoc, simp add: trim_right_def)

lemma generate_slug_length: "length (generate_slug name) \<le> max 9 (length name)"
  using slug_loop_length [of "[]" False name] trim_right_length [of "\<lambda>c. c = CHR ''-''" "slug_loop [] False name"]
  by (auto simp: generate_slug_def Let_def)

text \<open>A name of slug characters is its own slug.\<close>

lemma slug_loop_id: "list_all slug_char cs \<Longrightarrow> slug_loop s False cs = s @ cs"
  by (induction cs arbitrary: s) auto

lemma trim_right_id: "s = [] \<or> \<not> p (last s) \<Longrightarrow> trim_right p s = s"
  by (cases s rule: rev_cases) (auto simp: trim_right_def)

lemma generate_slug_id: "list_all slug_char cs \<Longrightarrow> cs \<noteq> [] \<Longrightarrow> generate_slug cs = cs"
proof -
  assume cs: "list_all slug_char cs" "cs \<noteq> []"
  then have "slug_char (last cs)" by (simp add: list_all_iff)
  then have "last cs \<noteq> CHR ''-''" by (metis slug_char_hyphen)
  with cs show ?thesis by (simp add: generate_slug_def slug_loop_id trim_right_id Let_def)
qed

end
