(* ===== verification/Http.thy ===== *)
theory Http
  imports GoUrl Workspace
begin

text \<open>
  Requests and responses of the HTTP interface: the claims of \<open>internal/domain/auth/claims.go\<close>, the request
  with the values the middleware stores in its context, and the responses of
  \<open>internal/interfaces/http/response/response.go\<close>. A handler is a function of the request and the state
  behind it; what it writes is the value it returns. Header names stand as the code spells them: net/http identifies the spellings. JSON documents are
  trees: reading a body gives its first value, or fails on malformed or missing input.
\<close>

section \<open>JSON\<close>

text \<open>\<open>JFloat m e\<close> is the float64 \<open>m * 2 ^ e\<close>.\<close>

datatype json = JNull | JBool bool | JInt int | JFloat int int | JStr string | JArr "json list" | JObj "(string \<times> json) list"

section \<open>Claims\<close>

record claims =
  cl_user_id :: string
  cl_token_id :: string
  cl_workspace_id :: string
  cl_scope :: string
  cl_issuer :: string
  cl_audiences :: "string list"
  cl_issued_at :: gotime
  cl_expires_at :: gotime

text \<open>
  The scan of \<open>HasScope\<close>: \<open>word\<close> is the slice from \<open>start\<close> to \<open>i\<close>; a space or the end of the string closes it.
\<close>

fun scope_scan :: "string \<Rightarrow> string \<Rightarrow> string \<Rightarrow> bool" where
  "scope_scan scope word [] = (word = scope)"
| "scope_scan scope word (c # cs) =
     (if c = CHR '' '' then word = scope \<or> scope_scan scope [] cs
      else scope_scan scope (word @ [c]) cs)"

definition has_scope :: "claims option \<Rightarrow> string \<Rightarrow> bool" where
  "has_scope co scope = (case co of None \<Rightarrow> False | Some c \<Rightarrow> scope_scan scope [] (cl_scope c))"

definition claims_expired :: "gotime \<Rightarrow> claims option \<Rightarrow> bool" where
  "claims_expired now co = (case co of None \<Rightarrow> True | Some c \<Rightarrow> now > cl_expires_at c)"

section \<open>Requests\<close>

datatype body_in = BodyValue json | BodyMalformed | BodyUnreadable

text \<open>
  \<open>rq_params\<close> are the route parameters of chi; \<open>rq_claims\<close>, \<open>rq_member\<close> and \<open>rq_id\<close> (the request ID) the values of
  the context.
\<close>

record request =
  rq_method :: string
  rq_path :: string
  rq_query :: "(string \<times> string) list"
  rq_headers :: "(string \<times> string) list"
  rq_remote_addr :: string
  rq_params :: "(string \<times> string) list"
  rq_body :: body_in
  rq_claims :: "claims option"
  rq_member :: "member option"
  rq_id :: string

text \<open>\<open>Header.Get\<close>, \<open>URL.Query().Get\<close> and \<open>chi.URLParam\<close>: the first value, or the empty string.\<close>

definition lookup_str :: "(string \<times> string) list \<Rightarrow> string \<Rightarrow> string" where
  "lookup_str kvs k = (case map_of kvs k of None \<Rightarrow> [] | Some v \<Rightarrow> v)"

definition rq_header :: "request \<Rightarrow> string \<Rightarrow> string" where "rq_header r = lookup_str (rq_headers r)"
definition rq_query_get :: "request \<Rightarrow> string \<Rightarrow> string" where "rq_query_get r = lookup_str (rq_query r)"
definition rq_param :: "request \<Rightarrow> string \<Rightarrow> string" where "rq_param r = lookup_str (rq_params r)"

text \<open>\<open>FromContext\<close>, \<open>WithContext\<close>, \<open>WorkspaceIDFromContext\<close> and \<open>UserIDFromContext\<close>.\<close>

definition with_claims :: "claims \<Rightarrow> request \<Rightarrow> request" where
  "with_claims c r = r\<lparr>rq_claims := Some c\<rparr>"

definition workspace_id_from_context :: "request \<Rightarrow> string" where
  "workspace_id_from_context r = (case rq_claims r of None \<Rightarrow> [] | Some c \<Rightarrow> cl_workspace_id c)"

definition user_id_from_context :: "request \<Rightarrow> string" where
  "user_id_from_context r = (case rq_claims r of None \<Rightarrow> [] | Some c \<Rightarrow> cl_user_id c)"

section \<open>Responses\<close>

record field_error =
  fe_field :: string
  fe_code :: string
  fe_message :: string

record problem =
  p_type :: string
  p_title :: string
  p_status :: nat
  p_detail :: string
  p_instance :: string
  p_errors :: "field_error list"

datatype body = NoBody | ProblemBody problem | JsonBody json | TextBody string

record response =
  rs_status :: nat
  rs_headers :: "(string \<times> string) list"
  rs_body :: body

definition problem_type_validation :: string where
  "problem_type_validation = ''https://docs.shortener.example.com/errors/validation-error''"
definition problem_type_not_found :: string where
  "problem_type_not_found = ''https://docs.shortener.example.com/errors/not-found''"
definition problem_type_gone :: string where
  "problem_type_gone = ''https://docs.shortener.example.com/errors/gone''"
definition problem_type_conflict :: string where
  "problem_type_conflict = ''https://docs.shortener.example.com/errors/conflict''"
definition problem_type_unauthorized :: string where
  "problem_type_unauthorized = ''https://docs.shortener.example.com/errors/unauthorized''"
definition problem_type_unauthenticated :: string where
  "problem_type_unauthenticated = ''https://docs.shortener.example.com/errors/unauthenticated''"
definition problem_type_internal :: string where
  "problem_type_internal = ''https://docs.shortener.example.com/errors/internal-server-error''"
definition problem_type_url_blocked :: string where
  "problem_type_url_blocked = ''https://docs.shortener.example.com/errors/url-blocked''"

definition write_json :: "nat \<Rightarrow> json \<Rightarrow> response" where
  "write_json status v = \<lparr>rs_status = status, rs_headers = [(''Content-Type'', ''application/json'')], rs_body = JsonBody v\<rparr>"

text \<open>\<open>Envelope{Data: v}\<close>\<close>

definition envelope :: "json \<Rightarrow> json" where "envelope v = JObj [(''data'', v)]"

definition write_problem :: "problem \<Rightarrow> response" where
  "write_problem p = \<lparr>rs_status = p_status p, rs_headers = [(''Content-Type'', ''application/problem+json'')],
     rs_body = ProblemBody p\<rparr>"

definition resp_not_found :: "string \<Rightarrow> response" where
  "resp_not_found inst = write_problem \<lparr>p_type = problem_type_not_found, p_title = ''Not Found'', p_status = 404,
     p_detail = ''The requested resource was not found.'', p_instance = inst, p_errors = []\<rparr>"

definition resp_gone :: "string \<Rightarrow> response" where
  "resp_gone inst = write_problem \<lparr>p_type = problem_type_gone, p_title = ''Gone'', p_status = 410,
     p_detail = ''This short URL has expired and is no longer active.'', p_instance = inst, p_errors = []\<rparr>"

definition resp_conflict :: "string \<Rightarrow> string \<Rightarrow> response" where
  "resp_conflict detail inst = write_problem \<lparr>p_type = problem_type_conflict, p_title = ''Conflict'', p_status = 409,
     p_detail = detail, p_instance = inst, p_errors = []\<rparr>"

definition resp_internal_error :: "string \<Rightarrow> response" where
  "resp_internal_error inst = write_problem \<lparr>p_type = problem_type_internal, p_title = ''Internal Server Error'',
     p_status = 500, p_detail = ''An unexpected error occurred. Please try again later.'', p_instance = inst,
     p_errors = []\<rparr>"

definition resp_bad_request :: "string \<Rightarrow> string \<Rightarrow> response" where
  "resp_bad_request detail inst = write_problem \<lparr>p_type = problem_type_validation, p_title = ''Bad Request'',
     p_status = 400, p_detail = detail, p_instance = inst, p_errors = []\<rparr>"

definition resp_unprocessable :: "string \<Rightarrow> string \<Rightarrow> field_error list \<Rightarrow> response" where
  "resp_unprocessable detail inst errs = write_problem \<lparr>p_type = problem_type_validation,
     p_title = ''Validation Error'', p_status = 422, p_detail = detail, p_instance = inst, p_errors = errs\<rparr>"

lemmas resp_defs = resp_not_found_def resp_gone_def resp_conflict_def resp_internal_error_def
  resp_bad_request_def resp_unprocessable_def

lemma write_problem_status [simp]: "rs_status (write_problem p) = p_status p"
  by (simp add: write_problem_def)

text \<open>Headers a middleware set before the handler; what the handler sets itself wins.\<close>

definition under_headers :: "(string \<times> string) list \<Rightarrow> response \<Rightarrow> response" where
  "under_headers hs r = r\<lparr>rs_headers := rs_headers r @ filter (\<lambda>kv. fst kv \<notin> fst ` set (rs_headers r)) hs\<rparr>"

lemma under_headers_simps [simp]:
  "rs_status (under_headers hs r) = rs_status r" "rs_body (under_headers hs r) = rs_body r"
  by (simp_all add: under_headers_def)

type_synonym 's handler = "request \<Rightarrow> 's \<Rightarrow> response \<times> 's"

section \<open>Properties\<close>

text \<open>\<open>HasScope\<close> is membership in the list of space-separated words.\<close>

lemma scope_scan_split:
  assumes "CHR '' '' \<notin> set word"
  shows "scope_scan scope word s \<longleftrightarrow> scope \<in> set (split_on (CHR '' '') (word @ s))"
  using assms
proof (induction s arbitrary: word)
  case Nil
  then show ?case by (auto simp: split_on_id)
next
  case (Cons c s)
  show ?case
  proof (cases "c = CHR '' ''")
    case True
    with Cons.prems Cons.IH [of "[]"] show ?thesis by (auto simp: split_on_append_sep)
  next
    case False
    with Cons.prems Cons.IH [of "word @ [c]"] show ?thesis by simp
  qed
qed

end
