(* ===== verification/HttpJson.thy ===== *)
theory HttpJson
  imports Http
begin

text \<open>
  What the handlers use of \<open>encoding/json\<close>: decoding the first value of a request body into a struct, field by
  field with the package's rules (names match up to case, \<open>null\<close> leaves a plain field alone and clears a
  pointer, the first type error is reported at the end, a failing \<open>UnmarshalJSON\<close> at once), and instants in
  the form \<open>time.RFC3339Nano\<close>. An instant carries no zone here: it is written in UTC.
\<close>

section \<open>Instants\<close>

definition format_rfc3339_nano :: "gotime \<Rightarrow> string" where
  "format_rfc3339_nano t =
     (let s = unix_seconds t mod day_seconds; ns = t mod second;
          frac = (if ns = 0 then [] else CHR ''.'' # trim_right (\<lambda>c. c = CHR ''0'') (pad_to 9 ns))
      in format_date t @ ''T'' @ pad_to 2 (s div 3600) @ '':'' @ pad_to 2 (s div 60 mod 60) @ '':''
           @ pad_to 2 (s mod 60) @ frac @ ''Z'')"

definition is_digit :: "char \<Rightarrow> bool" where
  "is_digit c = (let n = (of_char c :: nat) in 48 \<le> n \<and> n \<le> 57)"

definition digits_value :: "string \<Rightarrow> int" where
  "digits_value s = foldl (\<lambda>n c. n * 10 + int (of_char c - 48 :: nat)) 0 s"

definition read_digits :: "nat \<Rightarrow> string \<Rightarrow> int option" where
  "read_digits w s = (if length s = w \<and> list_all is_digit s then Some (digits_value s) else None)"

definition leap_year :: "int \<Rightarrow> bool" where
  "leap_year y = (y mod 4 = 0 \<and> (y mod 100 \<noteq> 0 \<or> y mod 400 = 0))"

definition days_in_month :: "int \<Rightarrow> int \<Rightarrow> int" where
  "days_in_month y m = (if m = 2 then (if leap_year y then 29 else 28) else if m \<in> {4, 6, 9, 11} then 30 else 31)"

text \<open>The fraction of a second, in nanoseconds: digits after the ninth are dropped.\<close>

definition fraction_nanos :: "string \<Rightarrow> int" where
  "fraction_nanos ds = digits_value (take 9 (ds @ replicate 9 (CHR ''0'')))"

text \<open>The zone at the end: \<open>Z\<close>, or a sign, hours and minutes. The result is the offset in seconds.\<close>

definition parse_zone :: "string \<Rightarrow> int option" where
  "parse_zone s =
     (if s = ''Z'' then Some 0
      else if length s = 6 \<and> s ! 0 \<in> {CHR ''+'', CHR ''-''} \<and> s ! 3 = CHR '':'' then
        (case (read_digits 2 (take 2 (drop 1 s)), read_digits 2 (drop 4 s)) of
           (Some h, Some m) \<Rightarrow>
             if h < 24 \<and> m < 60
             then Some ((if s ! 0 = CHR ''-'' then - 1 else 1) * (h * 3600 + m * 60)) else None
         | _ \<Rightarrow> None)
      else None)"

definition parse_clock :: "string \<Rightarrow> (int \<times> string) option" where
  "parse_clock s =
     (if s = [] \<or> hd s \<noteq> CHR ''.'' then Some (0, s)
      else let ds = takeWhile is_digit (tl s) in
           if ds = [] then None else Some (fraction_nanos ds, dropWhile is_digit (tl s)))"

definition parse_stamp :: "(string \<Rightarrow> int option) \<Rightarrow> string \<Rightarrow> gotime option" where
  "parse_stamp zone_of s =
     (if length s < 20 \<or> s ! 4 \<noteq> CHR ''-'' \<or> s ! 7 \<noteq> CHR ''-'' \<or> s ! 10 \<noteq> CHR ''T'' \<or> s ! 13 \<noteq> CHR '':'' \<or> s ! 16 \<noteq> CHR '':''
      then None
      else
     (case (read_digits 4 (take 4 s), read_digits 2 (take 2 (drop 5 s)), read_digits 2 (take 2 (drop 8 s)),
            read_digits 2 (take 2 (drop 11 s)), read_digits 2 (take 2 (drop 14 s)), read_digits 2 (take 2 (drop 17 s)),
            parse_clock (drop 19 s)) of
        (Some y, Some mo, Some d, Some h, Some mi, Some sec, Some (ns, zone)) \<Rightarrow>
          if mo < 1 \<or> 12 < mo \<or> d < 1 \<or> days_in_month y mo < d \<or> 23 < h \<or> 59 < mi \<or> 59 < sec then None
          else (case zone_of zone of
                  None \<Rightarrow> None
                | Some off \<Rightarrow>
                    Some ((days_of_civil y mo d * day_seconds + h * 3600 + mi * 60 + sec - off) * second + ns))
      | _ \<Rightarrow> None))"

definition parse_rfc3339 :: "string \<Rightarrow> gotime option" where
  "parse_rfc3339 = parse_stamp parse_zone"

section \<open>Decoding\<close>

datatype decode_error = DecSyntax | DecType string | DecOther

datatype 'r field_result = FieldOk 'r | FieldMismatch | FieldAbort

type_synonym 'r field = "string \<times> (json \<Rightarrow> 'r \<Rightarrow> 'r field_result)"

definition string_field :: "(string \<Rightarrow> 'r \<Rightarrow> 'r) \<Rightarrow> json \<Rightarrow> 'r \<Rightarrow> 'r field_result" where
  "string_field upd v r = (case v of JNull \<Rightarrow> FieldOk r | JStr s \<Rightarrow> FieldOk (upd s r) | _ \<Rightarrow> FieldMismatch)"

definition string_ptr_field :: "(string option \<Rightarrow> 'r \<Rightarrow> 'r) \<Rightarrow> json \<Rightarrow> 'r \<Rightarrow> 'r field_result" where
  "string_ptr_field upd v r =
     (case v of JNull \<Rightarrow> FieldOk (upd None r) | JStr s \<Rightarrow> FieldOk (upd (Some s) r) | _ \<Rightarrow> FieldMismatch)"

definition time_ptr_field :: "(gotime option \<Rightarrow> 'r \<Rightarrow> 'r) \<Rightarrow> json \<Rightarrow> 'r \<Rightarrow> 'r field_result" where
  "time_ptr_field upd v r =
     (case v of
        JNull \<Rightarrow> FieldOk (upd None r)
      | JStr s \<Rightarrow> (case parse_rfc3339 s of None \<Rightarrow> FieldAbort | Some t \<Rightarrow> FieldOk (upd (Some t) r))
      | _ \<Rightarrow> FieldAbort)"

fun json_strings :: "json list \<Rightarrow> string list option" where
  "json_strings [] = Some []"
| "json_strings (JStr s # vs) = map_option (Cons s) (json_strings vs)"
| "json_strings (JNull # vs) = map_option (Cons []) (json_strings vs)"
| "json_strings (v # vs) = None"

definition strings_field :: "(string list \<Rightarrow> 'r \<Rightarrow> 'r) \<Rightarrow> json \<Rightarrow> 'r \<Rightarrow> 'r field_result" where
  "strings_field upd v r =
     (case v of
        JNull \<Rightarrow> FieldOk (upd [] r)
      | JArr vs \<Rightarrow> (case json_strings vs of None \<Rightarrow> FieldMismatch | Some ss \<Rightarrow> FieldOk (upd ss r))
      | _ \<Rightarrow> FieldMismatch)"

text \<open>A field by its exact name, or by its name up to case.\<close>

definition find_field :: "string \<Rightarrow> 'r field list \<Rightarrow> 'r field option" where
  "find_field k fs =
     (case List.find (\<lambda>f. fst f = k) fs of
        Some f \<Rightarrow> Some f
      | None \<Rightarrow> List.find (\<lambda>f. to_lower (fst f) = to_lower k) fs)"

definition save_error :: "decode_error \<Rightarrow> decode_error option \<Rightarrow> decode_error option" where
  "save_error e saved = (case saved of None \<Rightarrow> Some e | Some e' \<Rightarrow> Some e')"

fun decode_members ::
  "bool \<Rightarrow> 'r field list \<Rightarrow> (string \<times> json) list \<Rightarrow> 'r \<Rightarrow> decode_error option \<Rightarrow> decode_error + 'r" where
  "decode_members strict fs [] r saved = (case saved of None \<Rightarrow> Inr r | Some e \<Rightarrow> Inl e)"
| "decode_members strict fs ((k, v) # kvs) r saved =
     (case find_field k fs of
        None \<Rightarrow> decode_members strict fs kvs r (if strict then save_error DecOther saved else saved)
      | Some (name, set_field) \<Rightarrow>
          (case set_field v r of
             FieldOk r' \<Rightarrow> decode_members strict fs kvs r' saved
           | FieldMismatch \<Rightarrow> decode_members strict fs kvs r (save_error (DecType name) saved)
           | FieldAbort \<Rightarrow> Inl DecOther))"

text \<open>A body that is not readable as one JSON value: malformed, or empty, cut off or too large.\<close>

definition decode_struct :: "bool \<Rightarrow> 'r field list \<Rightarrow> 'r \<Rightarrow> body_in \<Rightarrow> decode_error + 'r" where
  "decode_struct strict fs r b =
     (case b of
        BodyMalformed \<Rightarrow> Inl DecSyntax
      | BodyUnreadable \<Rightarrow> Inl DecOther
      | BodyValue JNull \<Rightarrow> Inr r
      | BodyValue (JObj kvs) \<Rightarrow> decode_members strict fs kvs r None
      | BodyValue v \<Rightarrow> Inl (DecType []))"

section \<open>Encoding\<close>

definition json_time :: "gotime option \<Rightarrow> json" where
  "json_time t = (case t of None \<Rightarrow> JNull | Some u \<Rightarrow> JStr (format_rfc3339_nano u))"

definition json_string_list :: "string list \<Rightarrow> json" where "json_string_list ss = JArr (map JStr ss)"

text \<open>\<open>omitempty\<close>\<close>

definition opt_time :: "string \<Rightarrow> gotime option \<Rightarrow> (string \<times> json) list" where
  "opt_time k t = (case t of None \<Rightarrow> [] | Some u \<Rightarrow> [(k, JStr (format_rfc3339_nano u))])"

definition opt_string :: "string \<Rightarrow> string \<Rightarrow> (string \<times> json) list" where
  "opt_string k s = (if s = [] then [] else [(k, JStr s)])"

end
