(* ===== verification/EventBuffer.thy ===== *)
theory EventBuffer
  imports Errors "HOL-Library.Multiset"
begin

text \<open>
  The producer and consumer that \<open>internal/application/audit/service.go\<close> and
  \<open>internal/application/analytics/ingestion_service.go\<close> share: handlers put events on a bounded channel, a
  goroutine moves them to a batch and writes the batch when it is full or a tick comes. The two services differ
  in their constants, their writer and in what they do on shutdown.
\<close>

section \<open>The state\<close>

text \<open>\<open>bf_running\<close>: the drainer has not returned.\<close>

record ('e, 'db) buffered =
  bf_channel :: "'e list"
  bf_batch :: "'e list"
  bf_dropped :: int
  bf_written :: int
  bf_running :: bool
  bf_db :: 'db

type_synonym ('e, 'db) writer = "'e list \<Rightarrow> 'db \<Rightarrow> unit result \<times> 'db"

definition new_buffer :: "'db \<Rightarrow> ('e, 'db) buffered" where
  "new_buffer db = \<lparr>bf_channel = [], bf_batch = [], bf_dropped = 0, bf_written = 0, bf_running = True, bf_db = db\<rparr>"

section \<open>Operations\<close>

text \<open>The non-blocking send: a full channel drops the event and counts it.\<close>

definition offer :: "nat \<Rightarrow> 'e \<Rightarrow> ('e, 'db) buffered \<Rightarrow> ('e, 'db) buffered" where
  "offer cap e b =
     (if length (bf_channel b) < cap then b\<lparr>bf_channel := bf_channel b @ [e]\<rparr> else b\<lparr>bf_dropped := bf_dropped b + 1\<rparr>)"

text \<open>Writing events: a failure counts all of them as dropped.\<close>

definition write_events :: "('e, 'db) writer \<Rightarrow> 'e list \<Rightarrow> ('e, 'db) buffered \<Rightarrow> ('e, 'db) buffered" where
  "write_events wr es b =
     (if es = [] then b
      else case wr es (bf_db b) of
             (Inl err, db) \<Rightarrow> b\<lparr>bf_db := db, bf_dropped := bf_dropped b + int (length es)\<rparr>
           | (Inr _, db) \<Rightarrow> b\<lparr>bf_db := db, bf_written := bf_written b + int (length es)\<rparr>)"

definition flush_batch :: "('e, 'db) writer \<Rightarrow> ('e, 'db) buffered \<Rightarrow> ('e, 'db) buffered" where
  "flush_batch wr b = (write_events wr (bf_batch b) b)\<lparr>bf_batch := []\<rparr>"

text \<open>The drainer receives one event; a full batch is written at once.\<close>

definition receive :: "nat \<Rightarrow> ('e, 'db) writer \<Rightarrow> ('e, 'db) buffered \<Rightarrow> ('e, 'db) buffered" where
  "receive lim wr b =
     (case bf_channel b of
        [] \<Rightarrow> b
      | e # es \<Rightarrow>
          (let b1 = b\<lparr>bf_channel := es, bf_batch := bf_batch b @ [e]\<rparr>
           in if length (bf_batch b1) \<ge> lim then flush_batch wr b1 else b1))"

text \<open>The drainer sees its context cancelled: it writes its batch and returns.\<close>

definition drainer_stop :: "('e, 'db) writer \<Rightarrow> ('e, 'db) buffered \<Rightarrow> ('e, 'db) buffered" where
  "drainer_stop wr b = (flush_batch wr b)\<lparr>bf_running := False\<rparr>"

section \<open>Runs\<close>

text \<open>
  A run of the service beside its callers: what was sent so far, and how many events a shutdown lost without
  counting them. \<open>down\<close> is the shutdown of the service, with the number of such events.
\<close>

record ('e, 'db) run =
  rn_buf :: "('e, 'db) buffered"
  rn_sent :: "'e list"
  rn_lost :: int

inductive buf_step :: "nat \<Rightarrow> nat \<Rightarrow> ('e, 'db) writer \<Rightarrow> (('e, 'db) buffered \<Rightarrow> ('e, 'db) buffered \<times> int)
    \<Rightarrow> ('e, 'db) run \<Rightarrow> ('e, 'db) run \<Rightarrow> bool" for cap :: nat and lim :: nat and wr :: "('e, 'db) writer"
    and down :: "('e, 'db) buffered \<Rightarrow> ('e, 'db) buffered \<times> int" where
  capture: "buf_step cap lim wr down r (r\<lparr>rn_buf := offer cap e (rn_buf r), rn_sent := rn_sent r @ [e]\<rparr>)"
| take_one: "bf_running (rn_buf r) \<Longrightarrow> buf_step cap lim wr down r (r\<lparr>rn_buf := receive lim wr (rn_buf r)\<rparr>)"
| tick: "bf_running (rn_buf r) \<Longrightarrow> buf_step cap lim wr down r (r\<lparr>rn_buf := flush_batch wr (rn_buf r)\<rparr>)"
| stop: "bf_running (rn_buf r) \<Longrightarrow> buf_step cap lim wr down r (r\<lparr>rn_buf := drainer_stop wr (rn_buf r)\<rparr>)"
| shutdown: "down (rn_buf r) = (b, n) \<Longrightarrow> buf_step cap lim wr down r (r\<lparr>rn_buf := b, rn_lost := rn_lost r + n\<rparr>)"

inductive buf_reachable :: "nat \<Rightarrow> nat \<Rightarrow> ('e, 'db) writer \<Rightarrow> (('e, 'db) buffered \<Rightarrow> ('e, 'db) buffered \<times> int)
    \<Rightarrow> 'db \<Rightarrow> ('e, 'db) run \<Rightarrow> bool" for cap :: nat and lim :: nat and wr :: "('e, 'db) writer"
    and down :: "('e, 'db) buffered \<Rightarrow> ('e, 'db) buffered \<times> int" and db :: 'db where
  start: "buf_reachable cap lim wr down db \<lparr>rn_buf = new_buffer db, rn_sent = [], rn_lost = 0\<rparr>"
| more: "buf_reachable cap lim wr down db r \<Longrightarrow> buf_step cap lim wr down r r'
     \<Longrightarrow> buf_reachable cap lim wr down db r'"

section \<open>Accounting\<close>

definition buffer_total :: "('e, 'db) buffered \<Rightarrow> int" where
  "buffer_total b = bf_written b + bf_dropped b + int (length (bf_batch b)) + int (length (bf_channel b))"

text \<open>
  What a writer promises: it stores some of the events it is given, in the form \<open>norm\<close>, and nothing when it
  fails.
\<close>

locale event_writer =
  fixes wr :: "('e, 'db) writer"
    and rows :: "'db \<Rightarrow> 'r multiset"
    and norm :: "'e \<Rightarrow> 'r"
  assumes write_ok: "wr es db = (Inr v, db') \<Longrightarrow> \<exists>ns. ns \<subseteq># mset (map norm es) \<and> rows db' = rows db + ns"
    and write_err: "wr es db = (Inl e, db') \<Longrightarrow> rows db' = rows db"
begin

definition stored :: "'db \<Rightarrow> ('e, 'db) buffered \<Rightarrow> 'r list \<Rightarrow> bool" where
  "stored db b sent \<longleftrightarrow>
     (\<exists>ns. rows (bf_db b) = rows db + ns \<and> ns + mset (map norm (bf_batch b @ bf_channel b)) \<subseteq># mset sent)"

lemma write_events_stored:
  assumes "rows (bf_db b) = rows db + ns" and "ns + mset (map norm (es @ rest)) \<subseteq># mset sent"
  shows "\<exists>ms. rows (bf_db (write_events wr es b)) = rows db + ms \<and> ms + mset (map norm rest) \<subseteq># mset sent"
proof (cases "es = []")
  case True
  with assms show ?thesis by (auto simp: write_events_def)
next
  case False
  obtain x db' where w: "wr es (bf_db b) = (x, db')" by fastforce
  show ?thesis
  proof (cases x)
    case (Inl e)
    with w write_err [of es "bf_db b" e db'] False assms(1) have "rows (bf_db (write_events wr es b)) = rows db + ns"
      by (simp add: write_events_def)
    moreover have "ns + mset (map norm rest) \<subseteq># mset sent"
      using assms(2) by (metis map_append mset_append subset_mset.add_left_mono mset_subset_eq_add_right subset_mset.trans)
    ultimately show ?thesis by blast
  next
    case (Inr v)
    with w write_ok [of es "bf_db b" v db'] obtain ms where ms: "ms \<subseteq># mset (map norm es)" "rows db' = rows (bf_db b) + ms" by blast
    have "rows (bf_db (write_events wr es b)) = rows db + (ns + ms)"
      using w Inr False ms(2) assms(1) by (simp add: write_events_def)
    moreover have "ns + ms + mset (map norm rest) \<subseteq># ns + mset (map norm (es @ rest))"
      using ms(1) by (simp add: subset_mset.add_right_mono)
    ultimately show ?thesis using assms(2) by (meson subset_mset.trans)
  qed
qed

lemma flush_stored: "stored db b sent \<Longrightarrow> stored db (flush_batch wr b) sent"
  using write_events_stored [of b db _ "bf_batch b" "bf_channel b" sent]
  by (fastforce simp: stored_def flush_batch_def write_events_def split: prod.splits sum.splits if_splits)

end

lemma subset_add_mset: "A \<subseteq># B \<Longrightarrow> A \<subseteq># add_mset x B"
  by (metis add_mset_add_single mset_subset_eq_add_left subset_mset.trans)

lemma write_events_rest [simp]:
  "bf_channel (write_events wr es b) = bf_channel b" "bf_batch (write_events wr es b) = bf_batch b"
  "bf_running (write_events wr es b) = bf_running b"
  by (auto simp: write_events_def split: prod.splits sum.splits)

lemma write_events_count: "bf_written (write_events wr es b) + bf_dropped (write_events wr es b)
    = bf_written b + bf_dropped b + int (length es)"
  by (auto simp: write_events_def split: prod.splits sum.splits)

lemma flush_total [simp]: "buffer_total (flush_batch wr b) = buffer_total b"
  using write_events_count [of wr "bf_batch b" b] by (simp add: buffer_total_def flush_batch_def)

lemma receive_total [simp]: "buffer_total (receive lim wr b) = buffer_total b"
  by (cases "bf_channel b") (auto simp: receive_def Let_def, auto simp: buffer_total_def)

lemma stop_total [simp]: "buffer_total (drainer_stop wr b) = buffer_total b"
  using flush_total [of wr b] by (simp add: drainer_stop_def buffer_total_def)

lemma offer_total [simp]: "buffer_total (offer cap e b) = buffer_total b + 1"
  by (simp add: offer_def buffer_total_def)

text \<open>Whatever a service does on shutdown, if it keeps the total, every event that was sent is in one place.\<close>

lemma buf_reachable_total:
  assumes "buf_reachable cap lim wr down db r" and "\<forall>b b' n. down b = (b', n) \<longrightarrow> buffer_total b' + n = buffer_total b"
  shows "int (length (rn_sent r)) = buffer_total (rn_buf r) + rn_lost r"
  using assms(1)
proof induction
  case start
  show ?case by (simp add: new_buffer_def buffer_total_def)
next
  case (more r r')
  from more.hyps(2) more.IH assms(2) show ?case by cases force+
qed

context event_writer
begin

lemma receive_stored: "stored db b sent \<Longrightarrow> stored db (receive lim wr b) sent"
  by (cases "bf_channel b") (auto simp: receive_def Let_def intro!: flush_stored, auto simp: stored_def)

lemma stop_stored: "stored db b sent \<Longrightarrow> stored db (drainer_stop wr b) sent"
  using flush_stored [of db b sent] by (simp add: stored_def drainer_stop_def)

lemma offer_stored: "stored db b sent \<Longrightarrow> stored db (offer cap e b) (sent @ [norm e])"
  by (auto simp: stored_def offer_def subset_add_mset)

lemma buf_reachable_stored:
  assumes "buf_reachable cap lim wr down db r" and "\<forall>b b' n sent. down b = (b', n) \<longrightarrow> stored db b sent \<longrightarrow> stored db b' sent"
  shows "stored db (rn_buf r) (map norm (rn_sent r))"
  using assms(1)
proof induction
  case start
  show ?case by (simp add: new_buffer_def stored_def)
next
  case (more r r')
  from more.hyps(2) more.IH assms(2) show ?case
    by cases (auto intro: receive_stored flush_stored stop_stored offer_stored)
qed

end

text \<open>A writer that stores every event it is given.\<close>

locale exact_writer = event_writer +
  assumes write_all: "wr es db = (Inr v, db') \<Longrightarrow> size (rows db') = size (rows db) + length es"
begin

definition counted :: "'b \<Rightarrow> ('a, 'b) buffered \<Rightarrow> bool" where
  "counted db b \<longleftrightarrow> int (size (rows (bf_db b))) = int (size (rows db)) + bf_written b"

lemma write_events_counted: "counted db b \<Longrightarrow> counted db (write_events wr es b)"
  by (auto simp: counted_def write_events_def dest: write_all write_err split: prod.splits sum.splits)

lemma flush_counted: "counted db b \<Longrightarrow> counted db (flush_batch wr b)"
  using write_events_counted [of db b "bf_batch b"] by (simp add: counted_def flush_batch_def)

lemma receive_counted: "counted db b \<Longrightarrow> counted db (receive lim wr b)"
  by (cases "bf_channel b") (auto simp: receive_def Let_def intro!: flush_counted, auto simp: counted_def)

lemma stop_counted: "counted db b \<Longrightarrow> counted db (drainer_stop wr b)"
  using flush_counted [of db b] by (simp add: counted_def drainer_stop_def)

lemma offer_counted: "counted db b \<Longrightarrow> counted db (offer cap e b)"
  by (simp add: counted_def offer_def)

lemma buf_reachable_counted:
  assumes "buf_reachable cap lim wr down db r" and "\<forall>b b' n. down b = (b', n) \<longrightarrow> counted db b \<longrightarrow> counted db b'"
  shows "counted db (rn_buf r)"
  using assms(1)
proof induction
  case start
  show ?case by (simp add: new_buffer_def counted_def)
next
  case (more r r')
  from more.hyps(2) more.IH assms(2) show ?case
    by cases (auto intro: receive_counted flush_counted stop_counted offer_counted)
qed

end

end
