(* ===== verification/Postgres.thy ===== *)
theory Postgres
  imports Errors "HOL-Library.List_Lexorder" "HOL-Library.Char_ord"
begin

text \<open>
  What the repositories of \<open>internal/infrastructure/postgres\<close> share: the errors of the pgx driver and
  their translation (\<open>errors.go\<close>), the precision of \<open>TIMESTAMPTZ\<close>, and the failure of a statement. The
  tables themselves are in the theories of the repositories, with the constraints of
  \<open>deployments/migrations\<close>. PostgreSQL and pgx are not part of the program: a statement either runs
  with the semantics of SQL or fails with a driver error and no effect, as the list of outcomes in the
  state says (\<open>None\<close>, and an exhausted list, for a statement that runs). Text is ordered by bytes, the
  order of the \<open>C\<close> collation, on which the ULIDs the program orders by agree with other collations.
\<close>

section \<open>Driver errors\<close>

datatype pgx_err =
    PgxNoRows
  | PgxError string string string  \<comment> \<open>\<open>Code\<close>, \<open>ConstraintName\<close>, \<open>ColumnName\<close>\<close>
  | PgxOther string

definition pg_unique_violation :: string where "pg_unique_violation = ''23505''"
definition pg_foreign_key_violation :: string where "pg_foreign_key_violation = ''23503''"
definition pg_not_null_violation :: string where "pg_not_null_violation = ''23502''"
definition pg_check_violation :: string where "pg_check_violation = ''23514''"
definition pg_invalid_text :: string where "pg_invalid_text = ''22021''"
definition pg_connection_exception :: string where "pg_connection_exception = ''08''"

lemmas pg_code_defs = pg_unique_violation_def pg_foreign_key_violation_def pg_not_null_violation_def
  pg_check_violation_def pg_connection_exception_def

text \<open>The message of the server names the violated constraint.\<close>

definition violates :: "string \<Rightarrow> string \<Rightarrow> string" where
  "violates kind con = kind @ '' constraint '' @ [char_of (34::nat)] @ con @ [char_of (34::nat)]"

fun pgx_err_text :: "pgx_err \<Rightarrow> string" where
  "pgx_err_text PgxNoRows = ''no rows in result set''"
| "pgx_err_text (PgxError code con col) =
     ''ERROR: '' @
     (if code = pg_unique_violation then violates ''duplicate key value violates unique'' con
      else if code = pg_foreign_key_violation then violates ''insert or update violates foreign key'' con
      else if code = pg_check_violation then violates ''new row violates check'' con
      else if code = pg_not_null_violation then ''null value in column '' @ col @ '' violates not-null constraint''
      else con)
     @ '' (SQLSTATE '' @ code @ '')''"
| "pgx_err_text (PgxOther m) = m"

text \<open>\<open>translateError(err, context)\<close>\<close>

fun translate_error :: "pgx_err \<Rightarrow> string \<Rightarrow> gerr" where
  "translate_error PgxNoRows ctx = EUrl UrlErrNotFound"
| "translate_error (PgxError code con col) ctx =
     (if code = pg_unique_violation then
        EWrap [] (EUrl UrlErrConflict) ('': '' @ con @ '' constraint violation on '' @ ctx)
      else if code = pg_foreign_key_violation then EOther (''foreign key constraint violation: '' @ con)
      else if code = pg_check_violation then
        EOther (''check constraint violation: '' @ con @ '' on '' @ ctx)
      else if code = pg_not_null_violation then
        EOther (''not null constraint violation on column: '' @ col)
      else if length code \<ge> 2 \<and> take 2 code = pg_connection_exception then
        EWrap ''database connection error: '' (EOther (pgx_err_text (PgxError code con col))) []
      else EWrap ''database error: '' (EOther (pgx_err_text (PgxError code con col))) [])"
| "translate_error (PgxOther m) ctx = EWrap ''database error: '' (EOther m) []"

section \<open>Statements\<close>

text \<open>The outcome of the next statement, and the outcomes of those after it.\<close>

type_synonym faults = "pgx_err option list"

fun next_fault :: "faults \<Rightarrow> pgx_err option \<times> faults" where
  "next_fault [] = (None, [])"
| "next_fault (f # fs) = (f, fs)"

text \<open>\<open>TIMESTAMPTZ\<close> keeps microseconds; pgx drops the rest.\<close>

definition pg_time :: "gotime \<Rightarrow> gotime" where
  "pg_time t = t div 1000 * 1000"

text \<open>\<open>char_length\<close> counts UTF-8 characters: the bytes that do not continue one.\<close>

definition char_length :: "string \<Rightarrow> nat" where
  "char_length s = length (filter (\<lambda>c. \<not> (128 \<le> (of_char c :: nat) \<and> (of_char c :: nat) < 192)) s)"

text \<open>
  Text values: UTF-8 without overlong forms, surrogates and NUL. Where text comes from a decoded JSON document it is
  valid, as the decoder replaces what is not; header values are bytes of the client.
\<close>

definition utf8_tail :: "nat \<Rightarrow> bool" where "utf8_tail b = (128 \<le> b \<and> b < 192)"

definition utf8_second :: "nat \<Rightarrow> nat \<Rightarrow> bool" where
  "utf8_second b c =
     (utf8_tail c \<and> (b = 224 \<longrightarrow> 160 \<le> c) \<and> (b = 237 \<longrightarrow> c < 160) \<and> (b = 240 \<longrightarrow> 144 \<le> c) \<and> (b = 244 \<longrightarrow> c < 144))"

fun utf8_ok :: "nat list \<Rightarrow> bool" where
  "utf8_ok [] = True"
| "utf8_ok (b # bs) =
     (if b < 128 then utf8_ok bs
      else if b < 194 \<or> 244 < b then False
      else (case bs of
              [] \<Rightarrow> False
            | c # cs \<Rightarrow>
                if b < 224 then utf8_tail c \<and> utf8_ok cs
                else (case cs of
                        [] \<Rightarrow> False
                      | d # ds \<Rightarrow>
                          if b < 240 then utf8_second b c \<and> utf8_tail d \<and> utf8_ok ds
                          else (case ds of
                                  [] \<Rightarrow> False
                                | e # es \<Rightarrow> utf8_second b c \<and> utf8_tail d \<and> utf8_tail e \<and> utf8_ok es))))"

definition pg_text_ok :: "string \<Rightarrow> bool" where
  "pg_text_ok s = (let bs = map of_char s in (0::nat) \<notin> set bs \<and> utf8_ok bs)"

section \<open>Properties\<close>

lemma utf8_ok_ascii: "\<forall>b \<in> set bs. b < 128 \<Longrightarrow> utf8_ok bs"
  by (induction bs) auto

lemma pg_text_ok_ascii: "\<forall>c \<in> set s. 0 < (of_char c :: nat) \<and> (of_char c :: nat) < 128 \<Longrightarrow> pg_text_ok s"
  by (auto simp: pg_text_ok_def Let_def intro!: utf8_ok_ascii)

lemma pg_time_le: "pg_time t \<le> t" and pg_time_near: "t - pg_time t < 1000"
  by (simp_all add: pg_time_def minus_mod_eq_div_mult [symmetric])

lemma pg_time_idem [simp]: "pg_time (pg_time t) = pg_time t"
  by (simp add: pg_time_def)

lemma char_length_le: "char_length s \<le> length s"
  by (simp add: char_length_def)

text \<open>Only a unique violation is a conflict, and only the absence of a row is \<open>ErrNotFound\<close>.\<close>

lemma translate_conflict_iff:
  "url_is_conflict (translate_error e ctx) \<longleftrightarrow> (\<exists>con col. e = PgxError pg_unique_violation con col)"
  by (cases e) (auto simp: err_class_defs pg_code_defs)

lemma translate_not_found_iff: "url_is_not_found (translate_error e ctx) \<longleftrightarrow> e = PgxNoRows"
  by (cases e) (auto simp: err_class_defs)

lemma translate_not_validation: "as_validation (translate_error e ctx) = None"
  by (cases e) auto

lemma errors_is_translate_app [simp]: "\<not> errors_is (translate_error e ctx) (EApp a)"
  by (cases e) auto

end
