(* ===== verification/AuditLog.thy ===== *)
theory AuditLog
  imports EventBuffer Http Postgres
begin

text \<open>
  The audit trail: the events of \<open>internal/domain/audit/event.go\<close>, the service of
  \<open>internal/application/audit/service.go\<close>, the middleware of \<open>internal/interfaces/http/middleware/audit.go\<close>
  and the table \<open>audit_logs\<close> of \<open>internal/infrastructure/postgres/audit_repository.go\<close>. The pending event is
  a pointer in the context of a request: a handler that annotates it works on a pair of the pending event and its
  own state.
\<close>

section \<open>Events\<close>

definition act_url_create :: string where "act_url_create = ''url:create''"
definition act_url_update :: string where "act_url_update = ''url:update''"
definition act_url_delete :: string where "act_url_delete = ''url:delete''"
definition act_workspace_create :: string where "act_workspace_create = ''workspace:create''"
definition act_member_add :: string where "act_member_add = ''member:add''"
definition act_apikey_create :: string where "act_apikey_create = ''apikey:create''"
definition act_apikey_revoke :: string where "act_apikey_revoke = ''apikey:revoke''"
definition act_webhook_create :: string where "act_webhook_create = ''webhook:create''"
definition act_webhook_delete :: string where "act_webhook_delete = ''webhook:delete''"
definition act_token_revoke :: string where "act_token_revoke = ''auth:token_revoke''"
definition act_auth_failed :: string where "act_auth_failed = ''auth:failed''"

definition resource_url :: string where "resource_url = ''url''"
definition resource_workspace :: string where "resource_workspace = ''workspace''"
definition resource_member :: string where "resource_member = ''member''"
definition resource_api_key :: string where "resource_api_key = ''api_key''"
definition resource_webhook :: string where "resource_webhook = ''webhook''"
definition resource_token :: string where "resource_token = ''token''"

definition actor_user :: string where "actor_user = ''user''"
definition actor_api_key :: string where "actor_api_key = ''api_key''"
definition actor_system :: string where "actor_system = ''system''"

record audit_event =
  ae_id :: string
  ae_workspace_id :: "string option"
  ae_actor_id :: string
  ae_actor_type :: string
  ae_action :: string
  ae_resource_type :: string
  ae_resource_id :: string
  ae_source_ip :: string
  ae_user_agent :: string
  ae_request_id :: string
  ae_metadata :: "(string \<times> json) list"
  ae_occurred_at :: gotime

type_synonym 's pending = "audit_event option \<times> 's"

text \<open>\<open>AnnotateContext\<close>: no handler passes nil metadata.\<close>

definition annotate_context :: "string \<Rightarrow> string \<Rightarrow> (string \<times> json) list \<Rightarrow> 's pending \<Rightarrow> 's pending" where
  "annotate_context rtype rid meta s =
     (case s of
        (None, s1) \<Rightarrow> (None, s1)
      | (Some e, s1) \<Rightarrow> (Some (e\<lparr>ae_resource_type := rtype, ae_resource_id := rid, ae_metadata := meta\<rparr>), s1))"

section \<open>The service\<close>

definition audit_channel_size :: nat where "audit_channel_size = 2048"
definition audit_batch_size :: nat where "audit_batch_size = 50"

definition audit_capture :: "audit_event \<Rightarrow> (audit_event, 'db) buffered \<Rightarrow> (audit_event, 'db) buffered" where
  "audit_capture = offer audit_channel_size"

definition resolve_actor_type :: "claims \<Rightarrow> string" where
  "resolve_actor_type c = (if cl_issuer c = ''apikey'' then actor_api_key else actor_user)"

definition build_event :: "gotime \<Rightarrow> string \<Rightarrow> string \<Rightarrow> request \<Rightarrow> audit_event" where
  "build_event now ulid action r =
     (let (actor, atype, ws) =
        (case rq_claims r of
           None \<Rightarrow> (''anonymous'', actor_system, None)
         | Some c \<Rightarrow> (cl_user_id c, resolve_actor_type c, if cl_workspace_id c \<noteq> [] then Some (cl_workspace_id c) else None))
      in \<lparr>ae_id = ulid, ae_workspace_id = ws, ae_actor_id = actor, ae_actor_type = atype, ae_action = action,
          ae_resource_type = [], ae_resource_id = [], ae_source_ip = rq_remote_addr r,
          ae_user_agent = rq_header r ''User-Agent'', ae_request_id = rq_id r, ae_metadata = [], ae_occurred_at = now\<rparr>)"

definition audit_receive :: "(audit_event, 'db) writer \<Rightarrow> (audit_event, 'db) buffered \<Rightarrow> (audit_event, 'db) buffered" where
  "audit_receive = receive audit_batch_size"

text \<open>\<open>Shutdown\<close> writes what is left on the channel, without waiting for the drainer; a failure is logged, not counted.\<close>

definition audit_shutdown :: "(audit_event, 'db) writer \<Rightarrow> (audit_event, 'db) buffered \<Rightarrow> (audit_event, 'db) buffered \<times> int" where
  "audit_shutdown wr b =
     (let remaining = bf_channel b; b1 = b\<lparr>bf_channel := []\<rparr> in
      if remaining = [] then (b1, 0)
      else case wr remaining (bf_db b1) of
             (Inl err, db) \<Rightarrow> (b1\<lparr>bf_db := db\<rparr>, int (length remaining))
           | (Inr _, db) \<Rightarrow> (b1\<lparr>bf_db := db, bf_written := bf_written b1 + int (length remaining)\<rparr>, 0))"

section \<open>The middleware\<close>

definition is_success :: "nat \<Rightarrow> bool" where "is_success status = (200 \<le> status \<and> status < 300)"

definition audit_action ::
  "gotime \<Rightarrow> string \<Rightarrow> string \<Rightarrow> 's pending handler \<Rightarrow> ((audit_event, 'db) buffered \<times> 's) handler" where
  "audit_action now ulid action next_h r st =
     (case st of (svc, s) \<Rightarrow>
       (case next_h r (Some (build_event now ulid action r), s) of
          (resp, (pend, s1)) \<Rightarrow>
            if \<not> is_success (rs_status resp) \<and> action \<noteq> act_auth_failed then (resp, (svc, s1))
            else (case pend of
                    None \<Rightarrow> (resp, (svc, s1))
                  | Some e \<Rightarrow>
                      if ae_resource_id e \<noteq> [] \<or> action = act_auth_failed then (resp, (audit_capture e svc, s1))
                      else (resp, (svc, s1)))))"

text \<open>Without an audit service the router leaves the middleware out.\<close>

definition unaudited :: "'s pending handler \<Rightarrow> 's handler" where
  "unaudited h r s = (case h r (None, s) of (resp, (_, s1)) \<Rightarrow> (resp, s1))"

section \<open>The table\<close>

text \<open>
  \<open>audit_logs\<close> is partitioned by month: the migration creates the partitions of the month before it, its own and
  the next one, and nothing creates another. A row outside them is refused. A column that is NULL reads as the
  empty string, missing metadata as an empty map.
\<close>

record audit_db =
  adb_rows :: "audit_event list"
  adb_replica :: "audit_event list option"
  adb_from :: gotime
  adb_until :: gotime
  adb_faults :: faults

definition pg_audit :: "audit_event \<Rightarrow> audit_event" where
  "pg_audit e = e\<lparr>ae_occurred_at := pg_time (ae_occurred_at e)\<rparr>"

definition audit_texts :: "audit_event \<Rightarrow> string list" where
  "audit_texts e = [ae_id e, case ae_workspace_id e of None \<Rightarrow> [] | Some w \<Rightarrow> w, ae_actor_id e, ae_actor_type e, ae_action e,
     ae_resource_type e, ae_resource_id e, ae_source_ip e, ae_user_agent e, ae_request_id e]"

definition audit_row_checks :: "gotime \<Rightarrow> gotime \<Rightarrow> audit_event \<Rightarrow> pgx_err option" where
  "audit_row_checks lo hi e =
     (if \<not> list_all pg_text_ok (audit_texts e) then Some (PgxError pg_invalid_text ''invalid byte sequence for encoding'' [])
      else if pg_time (ae_occurred_at e) < lo \<or> hi \<le> pg_time (ae_occurred_at e)
      then Some (PgxError pg_check_violation ''audit_logs partition'' [])
      else if ae_actor_type e \<notin> {''user'', ''api_key'', ''system''}
      then Some (PgxError pg_check_violation ''audit_logs_actor_type_check'' [])
      else if char_length (ae_action e) = 0 then Some (PgxError pg_check_violation ''audit_logs_action_not_empty'' [])
      else if char_length (ae_resource_id e) = 0 then Some (PgxError pg_check_violation ''audit_logs_resource_not_empty'' [])
      else None)"

text \<open>One \<open>INSERT\<close> of several rows: the first row that is refused undoes all of them.\<close>

fun insert_audit :: "gotime \<Rightarrow> gotime \<Rightarrow> audit_event list \<Rightarrow> audit_event list \<Rightarrow> pgx_err + audit_event list" where
  "insert_audit lo hi [] rows = Inr rows"
| "insert_audit lo hi (e # es) rows =
     (case audit_row_checks lo hi e of
        Some err \<Rightarrow> Inl err
      | None \<Rightarrow>
          if \<exists>x \<in> set rows. ae_id x = ae_id e \<and> ae_occurred_at x = pg_time (ae_occurred_at e)
          then Inl (PgxError pg_unique_violation ''audit_logs_pkey'' [])
          else insert_audit lo hi es (rows @ [pg_audit e]))"

definition audit_exec :: "audit_event list \<Rightarrow> audit_db \<Rightarrow> (pgx_err + unit) \<times> audit_db" where
  "audit_exec es db =
     (case next_fault (adb_faults db) of
        (Some err, fs) \<Rightarrow> (Inl err, db\<lparr>adb_faults := fs\<rparr>)
      | (None, fs) \<Rightarrow>
          (case insert_audit (adb_from db) (adb_until db) es (adb_rows db) of
             Inl err \<Rightarrow> (Inl err, db\<lparr>adb_faults := fs\<rparr>)
           | Inr rows \<Rightarrow> (Inr (), db\<lparr>adb_faults := fs, adb_rows := rows\<rparr>)))"

definition audit_wrap :: "string \<Rightarrow> (pgx_err + 'a) \<times> audit_db \<Rightarrow> 'a result \<times> audit_db" where
  "audit_wrap pre r = (case r of (Inl e, db) \<Rightarrow> (Inl (EWrap pre (EOther (pgx_err_text e)) []), db) | (Inr x, db) \<Rightarrow> (Inr x, db))"

definition audit_write :: "audit_event \<Rightarrow> audit_db \<Rightarrow> unit result \<times> audit_db" where
  "audit_write e db = audit_wrap ''audit: inserting event: '' (audit_exec [e] db)"

definition audit_write_many :: "(audit_event, audit_db) writer" where
  "audit_write_many es db =
     (if es = [] then (Inr (), db)
      else audit_wrap (''audit: batch insert '' @ show_nat (length es) @ '' events: '') (audit_exec es db))"

definition audit_view :: "audit_db \<Rightarrow> audit_event list" where
  "audit_view db = (case adb_replica db of None \<Rightarrow> adb_rows db | Some rs \<Rightarrow> rs)"

text \<open>Newest first; PostgreSQL refuses a negative \<open>LIMIT\<close>.\<close>

definition audit_select :: "string \<Rightarrow> (audit_event \<Rightarrow> bool) \<Rightarrow> int \<Rightarrow> audit_db \<Rightarrow> audit_event list result \<times> audit_db" where
  "audit_select pre p limit db =
     (case next_fault (adb_faults db) of
        (Some err, fs) \<Rightarrow> (Inl (EWrap pre (EOther (pgx_err_text err)) []), db\<lparr>adb_faults := fs\<rparr>)
      | (None, fs) \<Rightarrow>
          if limit < 0
          then (Inl (EWrap pre (EOther (pgx_err_text (PgxError ''2201W'' ''LIMIT must not be negative'' []))) []), db\<lparr>adb_faults := fs\<rparr>)
          else (Inr (take (nat limit) (sort_key (\<lambda>e. - ae_occurred_at e) (filter p (audit_view db)))), db\<lparr>adb_faults := fs\<rparr>))"

definition audit_list_by_actor :: "string \<Rightarrow> int \<Rightarrow> audit_db \<Rightarrow> audit_event list result \<times> audit_db" where
  "audit_list_by_actor actor = audit_select ''audit: querying by actor: '' (\<lambda>e. ae_actor_id e = actor)"

definition audit_list_by_workspace :: "string \<Rightarrow> int \<Rightarrow> audit_db \<Rightarrow> audit_event list result \<times> audit_db" where
  "audit_list_by_workspace ws = audit_select ''audit: querying by workspace: '' (\<lambda>e. ae_workspace_id e = Some ws)"

section \<open>Accounting\<close>

lemma insert_audit_rows: "insert_audit lo hi es rows = Inr rows' \<Longrightarrow> rows' = rows @ map pg_audit es"
proof (induction es arbitrary: rows)
  case (Cons e es)
  with Cons.IH [of "rows @ [pg_audit e]"] show ?case by (auto split: option.splits if_splits)
qed simp

interpretation audit_pg: event_writer audit_write_many "\<lambda>db. mset (adb_rows db)" pg_audit
proof unfold_locales
  fix es v and db db' :: audit_db
  assume "audit_write_many es db = (Inr v, db')"
  then have "adb_rows db' = adb_rows db @ map pg_audit es"
    by (auto simp: audit_write_many_def audit_wrap_def audit_exec_def dest: insert_audit_rows
        split: prod.splits sum.splits option.splits if_splits)
  then show "\<exists>ns. ns \<subseteq># mset (map pg_audit es) \<and> mset (adb_rows db') = mset (adb_rows db) + ns"
    by (intro exI [of _ "mset (map pg_audit es)"]) simp
next
  fix es e and db db' :: audit_db
  assume "audit_write_many es db = (Inl e, db')"
  then show "mset (adb_rows db') = mset (adb_rows db)"
    by (auto simp: audit_write_many_def audit_wrap_def audit_exec_def
        split: prod.splits sum.splits option.splits if_splits)
qed

lemma audit_shutdown_total: "audit_shutdown wr b = (b', n) \<Longrightarrow> buffer_total b' + n = buffer_total b"
  by (auto simp: audit_shutdown_def Let_def buffer_total_def split: prod.splits sum.splits if_splits)

lemma audit_shutdown_eq:
  "fst (audit_shutdown wr b) = (write_events wr (bf_channel b) (b\<lparr>bf_channel := []\<rparr>))\<lparr>bf_dropped := bf_dropped b\<rparr>"
  by (simp add: audit_shutdown_def Let_def write_events_def split: prod.splits sum.splits)

lemma audit_shutdown_stored:
  assumes "audit_pg.stored db b sent" and "audit_shutdown audit_write_many b = (b', n)"
  shows "audit_pg.stored db b' sent"
proof -
  from assms(1) obtain ns where ns: "mset (adb_rows (bf_db b)) = mset (adb_rows db) + ns"
    "ns + mset (map pg_audit (bf_batch b @ bf_channel b)) \<subseteq># mset sent"
    by (auto simp: audit_pg.stored_def)
  have "ns + mset (map pg_audit (bf_channel b @ bf_batch b)) \<subseteq># mset sent"
    using ns(2) by (simp add: add.commute add.left_commute)
  with audit_pg.write_events_stored [of "b\<lparr>bf_channel := []\<rparr>" db ns "bf_channel b" "bf_batch b" sent] ns(1)
  obtain ms where "mset (adb_rows (bf_db (write_events audit_write_many (bf_channel b) (b\<lparr>bf_channel := []\<rparr>)))) = mset (adb_rows db) + ms"
    "ms + mset (map pg_audit (bf_batch b)) \<subseteq># mset sent" by auto
  moreover have "b' = (write_events audit_write_many (bf_channel b) (b\<lparr>bf_channel := []\<rparr>))\<lparr>bf_dropped := bf_dropped b\<rparr>"
    using audit_shutdown_eq [of audit_write_many b] assms(2) by simp
  ultimately show ?thesis by (auto simp: audit_pg.stored_def)
qed

text \<open>Auditing changes neither the response nor the state behind the handler.\<close>

lemma audit_action_transparent:
  "audit_action now ulid action h r (svc, s) = (resp, (svc', s')) \<longleftrightarrow>
     (\<exists>pend. h r (Some (build_event now ulid action r), s) = (resp, (pend, s'))
        \<and> svc' = (case pend of None \<Rightarrow> svc
                   | Some e \<Rightarrow> if (is_success (rs_status resp) \<and> ae_resource_id e \<noteq> []) \<or> action = act_auth_failed
                              then audit_capture e svc else svc))"
  by (auto simp: audit_action_def split: prod.splits option.splits)

end
