(* ===== verification/Base64.thy ===== *)
theory Base64
  imports Prelude
begin

text \<open>
  The base64 encodings of \<open>encoding/base64\<close> the program uses: the standard and the URL alphabet, with and
  without padding. Decoding skips line breaks, wants complete quanta, and ignores the unused low bits of the
  last character, as the non-strict decoders of the package do.
\<close>

datatype b64_alphabet = StdAlphabet | UrlAlphabet

definition b64_digits :: "b64_alphabet \<Rightarrow> string" where
  "b64_digits a = ''ABCDEFGHIJKLMNOPQRSTUVWXYZabcdefghijklmnopqrstuvwxyz0123456789'' @
     (case a of StdAlphabet \<Rightarrow> ''+/'' | UrlAlphabet \<Rightarrow> ''-_'')"

definition b64_char :: "b64_alphabet \<Rightarrow> nat \<Rightarrow> char" where
  "b64_char a n = b64_digits a ! n"

fun digit_position :: "string \<Rightarrow> nat \<Rightarrow> char \<Rightarrow> nat option" where
  "digit_position [] n c = None"
| "digit_position (d # ds) n c = (if d = c then Some n else digit_position ds (Suc n) c)"

definition b64_value :: "b64_alphabet \<Rightarrow> char \<Rightarrow> nat option" where
  "b64_value a c = digit_position (b64_digits a) 0 c"

text \<open>\<open>RawURLEncoding.EncodeToString\<close> and its padded and standard relatives.\<close>

definition pad_char :: char where "pad_char = CHR ''=''"

fun b64_encode :: "b64_alphabet \<Rightarrow> bool \<Rightarrow> nat list \<Rightarrow> string" where
  "b64_encode a padded (x # y # z # bs) =
     [b64_char a (x div 4), b64_char a (x mod 4 * 16 + y div 16), b64_char a (y mod 16 * 4 + z div 64), b64_char a (z mod 64)]
     @ b64_encode a padded bs"
| "b64_encode a padded [x, y] =
     [b64_char a (x div 4), b64_char a (x mod 4 * 16 + y div 16), b64_char a (y mod 16 * 4)]
     @ (if padded then [pad_char] else [])"
| "b64_encode a padded [x] =
     [b64_char a (x div 4), b64_char a (x mod 4 * 16)] @ (if padded then [pad_char, pad_char] else [])"
| "b64_encode a padded [] = []"

text \<open>Quanta of digits to bytes; the last one may have two or three digits.\<close>

fun b64_bytes :: "nat list \<Rightarrow> nat list option" where
  "b64_bytes (p # q # r # s # ds) =
     map_option (\<lambda>bs. (p * 4 + q div 16) # (q mod 16 * 16 + r div 4) # (r mod 4 * 64 + s) # bs) (b64_bytes ds)"
| "b64_bytes [p, q, r] = Some [p * 4 + q div 16, q mod 16 * 16 + r div 4]"
| "b64_bytes [p, q] = Some [p * 4 + q div 16]"
| "b64_bytes [p] = None"
| "b64_bytes [] = Some []"

fun b64_values :: "b64_alphabet \<Rightarrow> string \<Rightarrow> nat list option" where
  "b64_values a [] = Some []"
| "b64_values a (c # cs) =
     (case b64_value a c of None \<Rightarrow> None | Some v \<Rightarrow> map_option (Cons v) (b64_values a cs))"

text \<open>The data part of a padded text: its length must be a multiple of four, with at most two pads at the end.\<close>

definition strip_padding :: "string \<Rightarrow> string option" where
  "strip_padding s =
     (if length s mod 4 \<noteq> 0 then None
      else if length s \<ge> 4 \<and> drop (length s - 2) s = [pad_char, pad_char] then Some (take (length s - 2) s)
      else if length s \<ge> 4 \<and> last s = pad_char then Some (butlast s)
      else Some s)"

definition b64_decode :: "b64_alphabet \<Rightarrow> bool \<Rightarrow> string \<Rightarrow> nat list option" where
  "b64_decode a padded text =
     (let s = filter (\<lambda>c. c \<noteq> CHR 0x0A \<and> c \<noteq> CHR 0x0D) text in
      (case (if padded then strip_padding s else Some s) of
         None \<Rightarrow> None
       | Some t \<Rightarrow> (case b64_values a t of None \<Rightarrow> None | Some ds \<Rightarrow> b64_bytes ds)))"

section \<open>Round trip\<close>

lemma length_b64_digits [simp]: "length (b64_digits a) = 64"
  by (cases a) (simp_all add: b64_digits_def)

lemma distinct_b64_digits: "distinct (b64_digits a)"
  by (cases a; simp add: b64_digits_def)

lemma digit_position_nth: "distinct ds \<Longrightarrow> i < length ds \<Longrightarrow> digit_position ds n (ds ! i) = Some (n + i)"
proof (induction ds arbitrary: i n)
  case (Cons d ds)
  show ?case
  proof (cases i)
    case (Suc k)
    with Cons.prems have "ds ! k \<noteq> d" by auto
    with Cons Suc show ?thesis by simp
  qed simp
qed simp

lemma b64_value_char [simp]: "n < 64 \<Longrightarrow> b64_value a (b64_char a n) = Some n"
  by (simp add: b64_value_def b64_char_def digit_position_nth distinct_b64_digits)

text \<open>The digits an encoding writes, without its padding.\<close>

fun b64_quanta :: "nat list \<Rightarrow> nat list" where
  "b64_quanta (x # y # z # bs) = x div 4 # (x mod 4 * 16 + y div 16) # (y mod 16 * 4 + z div 64) # z mod 64 # b64_quanta bs"
| "b64_quanta [x, y] = [x div 4, x mod 4 * 16 + y div 16, y mod 16 * 4]"
| "b64_quanta [x] = [x div 4, x mod 4 * 16]"
| "b64_quanta [] = []"

lemma b64_quanta_bound: "\<forall>b \<in> set bs. b < 256 \<Longrightarrow> \<forall>d \<in> set (b64_quanta bs). d < 64"
  by (induction bs rule: b64_quanta.induct) auto

lemma b64_encode_raw: "b64_encode a False bs = map (b64_char a) (b64_quanta bs)"
  by (induction bs rule: b64_quanta.induct) auto

lemma b64_values_map: "\<forall>d \<in> set ds. d < 64 \<Longrightarrow> b64_values a (map (b64_char a) ds) = Some ds"
  by (induction ds) auto

lemma b64_bytes_quanta: "\<forall>b \<in> set bs. b < 256 \<Longrightarrow> b64_bytes (b64_quanta bs) = Some bs"
  by (induction bs rule: b64_quanta.induct) auto

lemma b64_no_break: "n < 64 \<Longrightarrow> b64_char a n \<noteq> CHR 0x0A \<and> b64_char a n \<noteq> CHR 0x0D"
proof -
  assume "n < 64"
  then have "b64_char a n \<in> set (b64_digits a)" by (simp add: b64_char_def)
  moreover have "CHR 0x0A \<notin> set (b64_digits a)" "CHR 0x0D \<notin> set (b64_digits a)"
    by (cases a; simp add: b64_digits_def)+
  ultimately show ?thesis by metis
qed

lemma b64_decode_encode_raw:
  assumes "\<forall>b \<in> set bs. b < 256"
  shows "b64_decode a False (b64_encode a False bs) = Some bs"
proof -
  have "filter (\<lambda>c. c \<noteq> CHR 0x0A \<and> c \<noteq> CHR 0x0D) (map (b64_char a) (b64_quanta bs)) = map (b64_char a) (b64_quanta bs)"
    using b64_quanta_bound [OF assms] b64_no_break by (fastforce simp: filter_id_conv)
  then show ?thesis
    using assms by (simp add: b64_decode_def b64_encode_raw b64_values_map b64_quanta_bound b64_bytes_quanta)
qed

text \<open>The encoding determines the bytes.\<close>

lemma b64_encode_raw_inject:
  "\<forall>b \<in> set bs. b < 256 \<Longrightarrow> \<forall>b \<in> set cs. b < 256 \<Longrightarrow>
     b64_encode a False bs = b64_encode a False cs \<longleftrightarrow> bs = cs"
  by (metis b64_decode_encode_raw option.inject)

end
