(* ===== verification/Shortcode.thy ===== *)
theory Shortcode
  imports Errors
begin

text \<open>
  \<open>pkg/shortcode/generator.go\<close>: the Base62 short code generator. \<open>crypto/rand.Int(rand.Reader, 62)\<close>
  is a source of draws: a list with, for each draw in turn, the number below 62 it returns or its error.
  \<open>New\<close> panics on lengths below 3 (\<open>None\<close>); \<open>Generate\<close> takes one draw per byte, and returns the
  draws it has not consumed, so that repeated calls take successive draws.
\<close>

definition alphabet :: string where
  "alphabet = ''abcdefghijklmnopqrstuvwxyzABCDEFGHIJKLMNOPQRSTUVWXYZ0123456789''"

definition alphabet_len :: nat where
  "alphabet_len = length alphabet"

definition default_length :: nat where
  "default_length = 7"

record generator =
  gen_length :: nat

text \<open>A panic is \<open>None\<close>.\<close>

definition new_generator :: "int \<Rightarrow> generator option" where
  "new_generator n = (if n < 3 then None else Some \<lparr>gen_length = nat n\<rparr>)"

definition new_default_generator :: "generator option" where
  "new_default_generator = new_generator (int default_length)"

text \<open>
  One call of \<open>rand.Int\<close>: the next draw of the source. An exhausted list is a reader that
  fails with \<open>EOF\<close>.
\<close>

type_synonym draws = "(gerr + nat) list"

fun rand_int :: "draws \<Rightarrow> nat result \<times> draws" where
  "rand_int [] = (Inl (EOther ''EOF''), [])"
| "rand_int (d # ds) = (d, ds)"

text \<open>What \<open>rand.Int\<close> promises: every number it returns is below its bound.\<close>

definition draws_ok :: "draws \<Rightarrow> bool" where
  "draws_ok ds = (\<forall>n. Inr n \<in> set ds \<longrightarrow> n < alphabet_len)"

fun generate_loop :: "nat \<Rightarrow> string \<Rightarrow> draws \<Rightarrow> string result \<times> draws" where
  "generate_loop 0 acc ds = (Inr acc, ds)"
| "generate_loop (Suc k) acc ds =
     (case rand_int ds of
        (Inl err, ds') \<Rightarrow> (Inl (EWrap ''shortcode: generating random byte: '' err ''''), ds')
      | (Inr n, ds') \<Rightarrow> generate_loop k (acc @ [alphabet ! n]) ds')"

definition generate :: "generator \<Rightarrow> draws \<Rightarrow> string result \<times> draws" where
  "generate g ds = generate_loop (gen_length g) [] ds"

text \<open>\<open>MustGenerate\<close> panics on an error.\<close>

definition must_generate :: "generator \<Rightarrow> draws \<Rightarrow> string option" where
  "must_generate g ds = (case fst (generate g ds) of Inl e \<Rightarrow> None | Inr s \<Rightarrow> Some s)"

section \<open>Properties\<close>

lemma alphabet_len_62 [simp]: "alphabet_len = 62"
  by (simp add: alphabet_len_def alphabet_def)

lemma distinct_alphabet: "distinct alphabet"
  by (simp add: alphabet_def)

lemma draws_ok_Cons [simp]:
  "draws_ok (Inr n # ds) \<longleftrightarrow> n < 62 \<and> draws_ok ds" "draws_ok (Inl e # ds) \<longleftrightarrow> draws_ok ds"
  by (auto simp: draws_ok_def)

lemma alphabet_nth_in: "n < 62 \<Longrightarrow> alphabet ! n \<in> set alphabet"
  using alphabet_len_62 by (metis alphabet_len_def nth_mem)

lemma generate_loop_ok:
  "generate_loop k acc ds = (Inr s, ds') \<Longrightarrow> draws_ok ds \<Longrightarrow>
     \<exists>t. s = acc @ t \<and> length t = k \<and> set t \<subseteq> set alphabet \<and> draws_ok ds'"
proof (induction k acc ds arbitrary: s rule: generate_loop.induct)
  case (2 k acc ds)
  show ?case
  proof (cases ds)
    case Nil
    with "2.prems" show ?thesis by simp
  next
    case (Cons d ds1)
    with "2.prems" obtain n where d: "d = Inr n" and n: "n < 62" and ok: "draws_ok ds1"
      by (cases d) (auto simp: draws_ok_def)
    with "2.prems" Cons have "generate_loop k (acc @ [alphabet ! n]) ds1 = (Inr s, ds')" by simp
    from "2.IH" [OF _ refl this ok] Cons d obtain t where
      "s = (acc @ [alphabet ! n]) @ t" "length t = k" "set t \<subseteq> set alphabet" "draws_ok ds'"
      by auto
    with alphabet_nth_in [OF n] show ?thesis by auto
  qed
qed simp

lemma generate_ok:
  assumes "generate g ds = (Inr s, ds')" and "draws_ok ds"
  shows "length s = gen_length g" "set s \<subseteq> set alphabet" "draws_ok ds'"
  using generate_loop_ok [of "gen_length g" "[]" ds s ds'] assms by (auto simp: generate_def)

text \<open>With enough successful draws a code is produced, and it spells the draws.\<close>

lemma generate_loop_spells:
  "generate_loop (length ns) acc (map Inr ns @ ds) = (Inr (acc @ map (\<lambda>n. alphabet ! n) ns), ds)"
  by (induction ns arbitrary: acc) simp_all

lemma generate_spells:
  "generate \<lparr>gen_length = length ns\<rparr> (map Inr ns @ ds) = (Inr (map (\<lambda>n. alphabet ! n) ns), ds)"
  by (simp add: generate_def generate_loop_spells)

lemma generate_error:
  "generate_loop k acc ds = (Inl e, ds') \<Longrightarrow> \<exists>e0. e = EWrap ''shortcode: generating random byte: '' e0 ''''"
  by (induction k acc ds rule: generate_loop.induct) (auto split: prod.splits sum.splits)

text \<open>Different draws spell different codes, so all \<open>62 ^ k\<close> codes of length \<open>k\<close> are equally likely.\<close>

lemma map_nth_inject:
  assumes "distinct xs" "set ms \<subseteq> {..<length xs}" "set ns \<subseteq> {..<length xs}"
  shows "map ((!) xs) ms = map ((!) xs) ns \<longleftrightarrow> ms = ns"
proof -
  have "inj_on ((!) xs) {..<length xs}"
    using assms(1) by (simp add: inj_on_nth)
  moreover have "set ms \<union> set ns \<subseteq> {..<length xs}" using assms by simp
  ultimately have "inj_on ((!) xs) (set ms \<union> set ns)" by (rule inj_on_subset)
  then show ?thesis by (rule inj_on_map_eq_map)
qed

end
