(* ===== verification/UrlDomain.thy ===== *)
theory UrlDomain
  imports GoUrl GoTime Shortcode
begin

text \<open>
  \<open>internal/domain/url\<close>: the URL entity with its redirect rule and validation (\<open>entity.go\<close>) and the
  ports the use cases call (\<open>repository.go\<close>). A port is a record of operations over a state type \<open>'s\<close>,
  one field per method, so that a handler is written against any implementation as in the Go code;
  \<open>UrlRepo\<close> and \<open>UrlCache\<close> give the implementations. Every method returns its result and the state
  after the call, also when it fails. Methods that read the clock take the instant as an argument.
\<close>

section \<open>Entity\<close>

text \<open>\<open>Status\<close> is a string type, so values outside the four constants exist.\<close>

type_synonym status = string

definition status_active :: status where "status_active = ''active''"
definition status_expired :: status where "status_expired = ''expired''"
definition status_disabled :: status where "status_disabled = ''disabled''"
definition status_deleted :: status where "status_deleted = ''deleted''"

lemmas status_defs = status_active_def status_expired_def status_disabled_def status_deleted_def

record url =
  url_id :: string
  workspace_id :: string
  short_code :: string
  original_url :: string
  title :: string
  url_status :: status
  expires_at :: "gotime option"
  created_by :: string
  created_at :: gotime
  updated_at :: gotime
  deleted_at :: "gotime option"
  click_count :: int

text \<open>\<open>IsExpired\<close>, \<open>IsActive\<close> and \<open>CanRedirect\<close> at the instant the clock is read.\<close>

definition is_expired :: "gotime \<Rightarrow> url \<Rightarrow> bool" where
  "is_expired now u = (case expires_at u of None \<Rightarrow> False | Some e \<Rightarrow> now > e)"

definition is_active :: "url \<Rightarrow> bool" where
  "is_active u = (url_status u = status_active)"

definition can_redirect :: "gotime \<Rightarrow> url \<Rightarrow> bool" where
  "can_redirect now u = (url_status u = status_active \<and> \<not> is_expired now u)"

definition min_short_code_length :: nat where "min_short_code_length = 3"
definition max_short_code_length :: nat where "max_short_code_length = 32"
definition max_url_length :: nat where "max_url_length = 8192"

lemmas url_limits = min_short_code_length_def max_short_code_length_def max_url_length_def

text \<open>\<open>Validate\<close>: \<open>None\<close> is \<open>nil\<close>.\<close>

definition validate_entity :: "url \<Rightarrow> gerr option" where
  "validate_entity u =
     (if short_code u = [] then Some (EUrl UrlErrShortCodeRequired)
      else if length (short_code u) < min_short_code_length \<or> length (short_code u) > max_short_code_length
      then Some (EUrl UrlErrShortCodeLength)
      else if original_url u = [] then Some (EUrl UrlErrOriginalURLRequired)
      else if length (original_url u) > max_url_length then Some (EUrl UrlErrURLTooLong)
      else (case parse_request_uri (original_url u) of
              Inl e \<Rightarrow> Some (EUrl UrlErrInvalidURL)
            | Inr p \<Rightarrow> if workspace_id u = [] then Some (EUrl UrlErrWorkspaceIDRequired) else None))"

section \<open>Ports\<close>

record list_filter =
  lf_workspace_id :: string
  lf_status :: "status option"
  lf_created_by :: "string option"
  lf_cursor :: string
  lf_limit :: int

text \<open>\<open>Repository\<close>; \<open>ReadonlyRepository\<close> is its field \<open>repo_get_by_short_code\<close>.\<close>

record 's url_repository =
  repo_create :: "url \<Rightarrow> 's \<Rightarrow> unit result \<times> 's"
  repo_get_by_short_code :: "string \<Rightarrow> 's \<Rightarrow> url result \<times> 's"
  repo_get_by_id :: "string \<Rightarrow> string \<Rightarrow> 's \<Rightarrow> url result \<times> 's"
  repo_update :: "gotime \<Rightarrow> url \<Rightarrow> 's \<Rightarrow> unit result \<times> 's"
  repo_soft_delete :: "gotime \<Rightarrow> string \<Rightarrow> string \<Rightarrow> 's \<Rightarrow> unit result \<times> 's"
  repo_list :: "list_filter \<Rightarrow> 's \<Rightarrow> (url list \<times> string) result \<times> 's"
  repo_increment :: "gotime \<Rightarrow> string \<Rightarrow> 's \<Rightarrow> unit result \<times> 's"

text \<open>\<open>CachePort\<close>: \<open>Get\<close> gives \<open>Inr None\<close> on a miss.\<close>

record 's cache_port =
  cache_get :: "gotime \<Rightarrow> string \<Rightarrow> 's \<Rightarrow> url option result \<times> 's"
  cache_set :: "gotime \<Rightarrow> url \<Rightarrow> int \<Rightarrow> 's \<Rightarrow> unit result \<times> 's"
  cache_set_not_found :: "gotime \<Rightarrow> string \<Rightarrow> int \<Rightarrow> 's \<Rightarrow> unit result \<times> 's"
  cache_is_not_found :: "gotime \<Rightarrow> string \<Rightarrow> 's \<Rightarrow> bool result \<times> 's"
  cache_delete :: "string \<Rightarrow> 's \<Rightarrow> unit result \<times> 's"

section \<open>Properties\<close>

lemma can_redirect_iff:
  "can_redirect now u \<longleftrightarrow> url_status u = status_active \<and> (\<forall>e. expires_at u = Some e \<longrightarrow> now \<le> e)"
  by (auto simp: can_redirect_def is_expired_def split: option.splits)

text \<open>Time only takes redirects away: a link that redirects now redirected at every earlier instant.\<close>

lemma can_redirect_antimono: "can_redirect now u \<Longrightarrow> t \<le> now \<Longrightarrow> can_redirect t u"
  by (auto simp: can_redirect_iff)

lemma validate_entity_ok:
  "validate_entity u = None \<longleftrightarrow>
     3 \<le> length (short_code u) \<and> length (short_code u) \<le> 32 \<and>
     0 < length (original_url u) \<and> length (original_url u) \<le> 8192 \<and>
     (\<exists>p. parse_request_uri (original_url u) = Inr p) \<and> workspace_id u \<noteq> []"
  by (cases "short_code u") (auto simp: validate_entity_def url_limits split: sum.splits)

end
