(* ===== verification/Redis.thy ===== *)
theory Redis
  imports Complex_Main UrlDomain
begin

text \<open>
  The Redis store behind \<open>internal/infrastructure/redis\<close>: keys with a value and an optional instant of
  expiry, and the commands the program sends. Redis and its client are not part of the program: a command
  runs with its documented meaning, or fails with a connection error and no effect, as the list of outcomes
  in the state says. A TTL that is not positive makes go-redis send \<open>SET\<close> without an expiry.
\<close>

text \<open>\<open>cacheEntry\<close> of \<open>url_cache.go\<close>, the JSON document stored for a link.\<close>

record cache_entry =
  ce_id :: string
  ce_workspace_id :: string
  ce_short_code :: string
  ce_original_url :: string
  ce_title :: string
  ce_status :: string
  ce_expires_at :: "gotime option"
  ce_created_by :: string
  ce_created_at :: gotime
  ce_updated_at :: gotime
  ce_click_count :: int
  ce_cached_at :: gotime

text \<open>
  Values: a plain string, the JSON text of a cache entry (read back by \<open>json.Unmarshal\<close> as the entry), or
  the hash of a token bucket (\<open>tokens\<close>, and \<open>ts\<close> in milliseconds).
\<close>

datatype redis_val = RString string | REntry cache_entry | RBucket rat int

record redis_db =
  rdb_map :: "string \<Rightarrow> (redis_val \<times> gotime option) option"
  rdb_faults :: "string option list"

definition empty_redis :: redis_db where
  "empty_redis = \<lparr>rdb_map = (\<lambda>_. None), rdb_faults = []\<rparr>"

fun next_outcome :: "string option list \<Rightarrow> string option \<times> string option list" where
  "next_outcome [] = (None, [])"
| "next_outcome (f # fs) = (f, fs)"

text \<open>One command: its effect, unless the connection fails.\<close>

definition redis_cmd :: "(redis_db \<Rightarrow> 'a \<times> redis_db) \<Rightarrow> redis_db \<Rightarrow> 'a result \<times> redis_db" where
  "redis_cmd f db =
     (case next_outcome (rdb_faults db) of
        (Some m, fs) \<Rightarrow> (Inl (EOther m), db\<lparr>rdb_faults := fs\<rparr>)
      | (None, fs) \<Rightarrow> (case f (db\<lparr>rdb_faults := fs\<rparr>) of (a, db') \<Rightarrow> (Inr a, db')))"

definition live_value :: "gotime \<Rightarrow> string \<Rightarrow> redis_db \<Rightarrow> redis_val option" where
  "live_value now k db =
     (case rdb_map db k of
        None \<Rightarrow> None
      | Some (v, None) \<Rightarrow> Some v
      | Some (v, Some e) \<Rightarrow> if now < e then Some v else None)"

definition expiry_of :: "gotime \<Rightarrow> duration \<Rightarrow> gotime option" where
  "expiry_of now ttl = (if ttl > 0 then Some (now + ttl) else None)"

definition put_value :: "string \<Rightarrow> redis_val \<Rightarrow> gotime option \<Rightarrow> redis_db \<Rightarrow> redis_db" where
  "put_value k v e db = db\<lparr>rdb_map := (rdb_map db)(k \<mapsto> (v, e))\<rparr>"

definition drop_key :: "string \<Rightarrow> redis_db \<Rightarrow> redis_db" where
  "drop_key k db = db\<lparr>rdb_map := (rdb_map db)(k := None)\<rparr>"

definition redis_get :: "gotime \<Rightarrow> string \<Rightarrow> redis_db \<Rightarrow> redis_val option result \<times> redis_db" where
  "redis_get now k = redis_cmd (\<lambda>db. (live_value now k db, db))"

definition redis_set :: "gotime \<Rightarrow> string \<Rightarrow> redis_val \<Rightarrow> duration \<Rightarrow> redis_db \<Rightarrow> unit result \<times> redis_db" where
  "redis_set now k v ttl = redis_cmd (\<lambda>db. ((), put_value k v (expiry_of now ttl) db))"

definition redis_del :: "string list \<Rightarrow> redis_db \<Rightarrow> unit result \<times> redis_db" where
  "redis_del ks = redis_cmd (\<lambda>db. ((), fold drop_key ks db))"

definition redis_exists :: "gotime \<Rightarrow> string \<Rightarrow> redis_db \<Rightarrow> bool result \<times> redis_db" where
  "redis_exists now k = redis_cmd (\<lambda>db. (live_value now k db \<noteq> None, db))"

text \<open>\<open>TTL\<close> in seconds, rounded, as a duration; \<open>-2\<close> without the key and \<open>-1\<close> without an expiry.\<close>

definition redis_ttl :: "gotime \<Rightarrow> string \<Rightarrow> redis_db \<Rightarrow> duration result \<times> redis_db" where
  "redis_ttl now k = redis_cmd (\<lambda>db.
     ((case (live_value now k db, rdb_map db k) of
         (Some v, Some (w, Some e)) \<Rightarrow> (((e - now) div millisecond + 500) div 1000) * second
       | (Some v, _) \<Rightarrow> - 1
       | (None, _) \<Rightarrow> - 2), db))"

section \<open>Properties\<close>

lemmas redis_cmd_defs = redis_get_def redis_set_def redis_del_def redis_exists_def redis_ttl_def

lemma redis_cmd_Inr:
  "redis_cmd f db = (Inr a, db') \<longleftrightarrow>
     (\<exists>fs. next_outcome (rdb_faults db) = (None, fs) \<and> f (db\<lparr>rdb_faults := fs\<rparr>) = (a, db'))"
  by (auto simp: redis_cmd_def split: prod.splits option.splits)

lemma redis_cmd_Inl:
  "redis_cmd f db = (Inl e, db') \<Longrightarrow> rdb_map db' = rdb_map db"
  by (auto simp: redis_cmd_def split: prod.splits option.splits)

lemma live_value_cong: "rdb_map db' k = rdb_map db k \<Longrightarrow> live_value t k db' = live_value t k db"
  by (simp add: live_value_def)

lemma live_value_faults [simp]: "live_value t k (db\<lparr>rdb_faults := fs\<rparr>) = live_value t k db"
  by (simp add: live_value_def)

lemma live_value_put:
  "live_value t k (put_value k' v e db) =
     (if k = k' then (case e of None \<Rightarrow> Some v | Some x \<Rightarrow> if t < x then Some v else None) else live_value t k db)"
  by (simp add: live_value_def put_value_def split: option.splits)

lemma live_value_drop: "live_value t k (drop_key k' db) = (if k = k' then None else live_value t k db)"
  by (simp add: live_value_def drop_key_def)

lemma live_value_drop_all: "live_value t k (fold drop_key ks db) = (if k \<in> set ks then None else live_value t k db)"
  by (induction ks arbitrary: db) (auto simp: live_value_drop)

end
