(* ===== verification/Auth.thy ===== *)
theory Auth
  imports Http Base64 Redis
begin

text \<open>
  Authentication and authorisation of API requests: the JWT middleware
  (\<open>internal/interfaces/http/middleware/auth.go\<close>), the deny list of revoked tokens in Redis
  (\<open>internal/infrastructure/auth/denylist.go\<close>), and the workspace membership and role checks
  (\<open>internal/interfaces/http/middleware/workspace.go\<close>). The JWT library is not part of the program: parsing and
  verifying a token is a parameter, given the key set, the audience, the accepted skew and the instant.
\<close>

section \<open>The deny list\<close>

definition deny_list_key_prefix :: string where "deny_list_key_prefix = ''auth:denylist:jti:''"

text \<open>go-redis sends a duration that is not a whole number of seconds in milliseconds, rounded down, at least one.\<close>

definition go_redis_ttl :: "duration \<Rightarrow> duration" where
  "go_redis_ttl d = (if d mod second = 0 then d else max millisecond (d div millisecond * millisecond))"

definition deny_is_revoked :: "gotime \<Rightarrow> string \<Rightarrow> redis_db \<Rightarrow> bool result \<times> redis_db" where
  "deny_is_revoked now jti db =
     (case redis_exists now (deny_list_key_prefix @ jti) db of
        (Inl err, db') \<Rightarrow> (Inl (EWrap (''denylist: checking JTI '' @ go_quote jti @ '': '') err []), db')
      | (Inr b, db') \<Rightarrow> (Inr b, db'))"

definition deny_revoke :: "gotime \<Rightarrow> string \<Rightarrow> gotime \<Rightarrow> redis_db \<Rightarrow> unit result \<times> redis_db" where
  "deny_revoke now jti exp_at db =
     (let remaining = exp_at - now in
      if remaining \<le> 0 then (Inr (), db)
      else (case redis_set now (deny_list_key_prefix @ jti) (RString ''1'') (go_redis_ttl remaining) db of
              (Inl err, db') \<Rightarrow> (Inl (EWrap (''denylist: revoking JTI '' @ go_quote jti @ '': '') err []), db')
            | (Inr _, db') \<Rightarrow> (Inr (), db')))"

text \<open>One pipeline: its commands run together or the connection fails.\<close>

definition deny_revoke_all :: "gotime \<Rightarrow> (string \<times> gotime) list \<Rightarrow> redis_db \<Rightarrow> unit result \<times> redis_db" where
  "deny_revoke_all now tokens db =
     (if tokens = [] then (Inr (), db)
      else (case redis_cmd (\<lambda>d. ((), fold (\<lambda>(jti, exp_at) d'.
                   let remaining = exp_at - now in
                   if remaining \<le> 0 then d'
                   else put_value (deny_list_key_prefix @ jti) (RString ''1'') (expiry_of now (go_redis_ttl remaining)) d')
                 tokens d)) db of
              (Inl err, db') \<Rightarrow> (Inl (EWrap ''denylist: pipeline revoke failed: '' err []), db')
            | (Inr _, db') \<Rightarrow> (Inr (), db')))"

section \<open>Tokens\<close>

record jwt =
  jw_issuer :: string
  jw_subject :: string
  jw_jti :: string
  jw_audience :: "string list"
  jw_issued_at :: gotime
  jw_expiration :: gotime
  jw_private :: "(string \<times> json) list"

type_synonym 'k jwt_parser = "'k \<Rightarrow> string \<Rightarrow> duration \<Rightarrow> gotime \<Rightarrow> string \<Rightarrow> string + jwt"

record ('k, 's) auth_config =
  ac_issuer :: string
  ac_audience :: string
  ac_key_set :: 'k
  ac_additional_key_set :: "'k option"
  ac_allowed_issuers :: "string list"
  ac_deny_list :: "(gotime \<Rightarrow> string \<Rightarrow> 's \<Rightarrow> bool result \<times> 's) option"
  ac_parse :: "'k jwt_parser"

text \<open>\<open>jwt.WithAcceptableSkew(30*time.Second)\<close>\<close>

definition acceptable_skew :: duration where "acceptable_skew = 30 * second"

definition parse_jwt_with_key_set :: "('k, 's) auth_config \<Rightarrow> gotime \<Rightarrow> string \<Rightarrow> 'k \<Rightarrow> string + jwt" where
  "parse_jwt_with_key_set cfg now token ks = ac_parse cfg ks (ac_audience cfg) acceptable_skew now token"

definition parse_jwt :: "('k, 's) auth_config \<Rightarrow> gotime \<Rightarrow> string \<Rightarrow> string + jwt" where
  "parse_jwt cfg now token =
     (case parse_jwt_with_key_set cfg now token (ac_key_set cfg) of
        Inr parsed \<Rightarrow> Inr parsed
      | Inl err \<Rightarrow>
          (case ac_additional_key_set cfg of
             None \<Rightarrow> Inl err
           | Some ks \<Rightarrow>
               (case parse_jwt_with_key_set cfg now token ks of
                  Inr fallback \<Rightarrow> Inr fallback
                | Inl fallback_err \<Rightarrow> Inl err)))"

definition configured_issuers :: "('k, 's) auth_config \<Rightarrow> string list" where
  "configured_issuers cfg =
     filter (\<lambda>v. v \<noteq> []) (map trim_space (split_on (CHR '','') (ac_issuer cfg)))
     @ filter (\<lambda>v. v \<noteq> []) (map trim_space (ac_allowed_issuers cfg))"

definition issuer_allowed :: "string \<Rightarrow> ('k, 's) auth_config \<Rightarrow> bool" where
  "issuer_allowed iss cfg = (iss \<in> set (configured_issuers cfg))"

fun string_claim :: "jwt \<Rightarrow> string list \<Rightarrow> string option" where
  "string_claim token [] = None"
| "string_claim token (name # names) =
     (case map_of (jw_private token) name of
        Some (JStr value) \<Rightarrow> if value \<noteq> [] then Some value else string_claim token names
      | _ \<Rightarrow> string_claim token names)"

section \<open>Requests from the gateway\<close>

text \<open>\<open>strings.Trim(s, "/")\<close>\<close>

definition trim_slashes :: "string \<Rightarrow> string" where
  "trim_slashes s = trim_right (\<lambda>c. c = CHR ''/'') (trim_left (\<lambda>c. c = CHR ''/'') s)"

fun after_workspaces :: "string list \<Rightarrow> string" where
  "after_workspaces (p # q # ps) = (if p = ''workspaces'' then q else after_workspaces (q # ps))"
| "after_workspaces ps = []"

definition workspace_from_path :: "string \<Rightarrow> string" where
  "workspace_from_path path = after_workspaces (split_on (CHR ''/'') (trim_slashes path))"

definition trusted_gateway_request :: "request \<Rightarrow> bool" where
  "trusted_gateway_request r =
     (if \<not> str_contains (rq_header r ''User-Agent'') ''Synapse-PT-HttpComponents-NIO'' then False
      else has_prefix (rq_path r) ''/api/v1/'')"

definition gateway_claims :: "gotime \<Rightarrow> request \<Rightarrow> claims option" where
  "gateway_claims now r =
     (if \<not> trusted_gateway_request r then None
      else let ws = workspace_from_path (rq_path r) in
           if ws = [] then None
           else Some \<lparr>cl_user_id = ''usr_default'', cl_token_id = rq_header r ''Activityid'', cl_workspace_id = ws,
                  cl_scope = ''read write'', cl_issuer = ''wso2-gateway'', cl_audiences = [],
                  cl_issued_at = now, cl_expires_at = now + minute\<rparr>)"

section \<open>Bearer tokens\<close>

definition bytes_to_string :: "nat list \<Rightarrow> string" where "bytes_to_string = map char_of"

fun decode_with :: "(b64_alphabet \<times> bool) list \<Rightarrow> string \<Rightarrow> string option" where
  "decode_with [] v = None"
| "decode_with ((a, padded) # es) v =
     (case b64_decode a padded v of
        None \<Rightarrow> decode_with es v
      | Some bs \<Rightarrow>
          let token = bytes_to_string bs in
          if count_char token (CHR ''.'') = 2 then Some token else decode_with es v)"

definition decode_gateway_assertion :: "string \<Rightarrow> string option" where
  "decode_gateway_assertion v =
     decode_with [(UrlAlphabet, False), (UrlAlphabet, True), (StdAlphabet, False), (StdAlphabet, True)] v"

text \<open>\<open>None\<close> is \<open>ErrMissingToken\<close>, the only error of \<open>extractBearerToken\<close>.\<close>

definition extract_bearer_token :: "request \<Rightarrow> string option" where
  "extract_bearer_token r =
     (let auth_header = rq_header r ''Authorization'' in
      if auth_header = [] then
        (let assertion = trim_space (rq_header r ''X-JWT-Assertion'') in
         if assertion \<noteq> [] then
           (let assertion = trim_prefix assertion ''Bearer '' in
            if count_char assertion (CHR ''.'') = 2 then Some assertion
            else (case decode_gateway_assertion assertion of
                    Some decoded \<Rightarrow> Some decoded
                  | None \<Rightarrow> Some assertion))
         else None)
      else (case str_cut auth_header (CHR '' '') of
              None \<Rightarrow> None
            | Some (scheme, token) \<Rightarrow>
                if to_lower scheme \<noteq> ''bearer'' \<or> token = [] then None else Some token))"

section \<open>Authenticate\<close>

text \<open>\<open>writeAuthError\<close>: the reason is logged, the answer is the same for all of them.\<close>

definition write_auth_error :: "request \<Rightarrow> response" where
  "write_auth_error r = write_problem
     \<lparr>p_type = problem_type_unauthenticated, p_title = ''Unauthorized'', p_status = 401,
      p_detail = ''Your request could not be authenticated. Provide a valid Bearer token.'',
      p_instance = rq_path r, p_errors = []\<rparr>"

definition claims_of_jwt :: "jwt \<Rightarrow> string \<Rightarrow> claims" where
  "claims_of_jwt t ws =
     \<lparr>cl_user_id = jw_subject t, cl_token_id = jw_jti t, cl_workspace_id = ws,
      cl_scope = (case string_claim t [''scope'', ''http://wso2.org/claims/scope''] of None \<Rightarrow> [] | Some v \<Rightarrow> v),
      cl_issuer = jw_issuer t, cl_audiences = jw_audience t, cl_issued_at = jw_issued_at t,
      cl_expires_at = jw_expiration t\<rparr>"

text \<open>A failed look-up in the deny list lets the request pass.\<close>

definition deny_check :: "('k, 's) auth_config \<Rightarrow> gotime \<Rightarrow> string \<Rightarrow> 's \<Rightarrow> bool \<times> 's" where
  "deny_check cfg now jti s =
     (case ac_deny_list cfg of
        None \<Rightarrow> (False, s)
      | Some is_revoked \<Rightarrow>
          (case is_revoked now jti s of
             (Inl err, s') \<Rightarrow> (False, s')
           | (Inr revoked, s') \<Rightarrow> (revoked, s')))"

definition authenticate :: "('k, 's) auth_config \<Rightarrow> gotime \<Rightarrow> 's handler \<Rightarrow> 's handler" where
  "authenticate cfg now next_h r s =
     (if rq_claims r \<noteq> None then next_h r s
      else
     (case gateway_claims now r of
        Some c \<Rightarrow> next_h (with_claims c r) s
      | None \<Rightarrow>
     (case extract_bearer_token r of
        None \<Rightarrow> (write_auth_error r, s)
      | Some token \<Rightarrow>
     (case parse_jwt cfg now token of
        Inl err \<Rightarrow> (write_auth_error r, s)
      | Inr parsed \<Rightarrow>
          if \<not> issuer_allowed (jw_issuer parsed) cfg then (write_auth_error r, s)
          else
     (case string_claim parsed [''workspace_id'', ''http://wso2.org/claims/workspace_id''] of
        None \<Rightarrow> (write_auth_error r, s)
      | Some ws \<Rightarrow>
          if jw_jti parsed = [] then (write_auth_error r, s)
          else (case deny_check cfg now (jw_jti parsed) s of
                  (True, s1) \<Rightarrow> (write_auth_error r, s1)
                | (False, s1) \<Rightarrow> next_h (with_claims (claims_of_jwt parsed ws) r) s1))))))"

definition require_scope :: "string \<Rightarrow> 's handler \<Rightarrow> 's handler" where
  "require_scope scope next_h r s =
     (if \<not> has_scope (rq_claims r) scope
      then (write_problem \<lparr>p_type = problem_type_unauthorized, p_title = ''Forbidden'', p_status = 403,
              p_detail = ''Your token does not have the required scope: '' @ scope, p_instance = rq_path r, p_errors = []\<rparr>, s)
      else next_h r s)"

section \<open>Workspace membership\<close>

definition forbidden_problem :: "string \<Rightarrow> string \<Rightarrow> response" where
  "forbidden_problem detail inst = write_problem \<lparr>p_type = problem_type_unauthorized, p_title = ''Forbidden'', p_status = 403,
     p_detail = detail, p_instance = inst, p_errors = []\<rparr>"

definition unauthenticated_problem :: "string \<Rightarrow> response" where
  "unauthenticated_problem detail = write_problem \<lparr>p_type = problem_type_unauthenticated, p_title = ''Unauthorized'',
     p_status = 401, p_detail = detail, p_instance = [], p_errors = []\<rparr>"

definition workspace_auth :: "(string \<Rightarrow> string \<Rightarrow> 's \<Rightarrow> member result \<times> 's) \<Rightarrow> 's handler \<Rightarrow> 's handler" where
  "workspace_auth get_member next_h r s =
     (case rq_claims r of
        None \<Rightarrow> (unauthenticated_problem ''Authentication required.'', s)
      | Some claims \<Rightarrow>
          (case get_member (cl_workspace_id claims) (cl_user_id claims) s of
             (Inl err, s1) \<Rightarrow>
               (if ws_is_not_found err then (forbidden_problem ''You are not a member of this workspace.'' [], s1)
                else (resp_internal_error (rq_path r), s1))
           | (Inr m, s1) \<Rightarrow> next_h (r\<lparr>rq_member := Some m\<rparr>) s1))"

definition require_action :: "action \<Rightarrow> 's handler \<Rightarrow> 's handler" where
  "require_action a next_h r s =
     (case rq_member r of
        None \<Rightarrow> (resp_internal_error (rq_path r), s)
      | Some m \<Rightarrow>
          if \<not> role_can (m_role m) a
          then (forbidden_problem (''Your role ('' @ m_role m @ '') does not permit this action ('' @ a @ '').'') [], s)
          else next_h r s)"

section \<open>Lemmas\<close>

lemma require_action_run:
  "require_action a h r s = (resp, s') \<Longrightarrow>
     (\<exists>m. rq_member r = Some m \<and> role_can (m_role m) a \<and> h r s = (resp, s')) \<or> (s' = s \<and> rs_status resp \<in> {403, 500})"
  by (auto simp: require_action_def forbidden_problem_def resp_internal_error_def split: option.splits if_splits)

lemma parse_jwt_Inr:
  "parse_jwt cfg now token = Inr t \<Longrightarrow>
     \<exists>ks. (ks = ac_key_set cfg \<or> ac_additional_key_set cfg = Some ks)
        \<and> ac_parse cfg ks (ac_audience cfg) acceptable_skew now token = Inr t"
  by (auto simp: parse_jwt_def parse_jwt_with_key_set_def split: sum.splits option.splits)

lemma string_claim_nonempty: "string_claim t ns = Some v \<Longrightarrow> v \<noteq> []"
  by (induction ns) (auto split: option.splits json.splits if_splits)

text \<open>What the deny list promises: what it holds is what a check finds, until the entry runs out.\<close>

locale deny_list =
  fixes is_revoked :: "gotime \<Rightarrow> string \<Rightarrow> 's \<Rightarrow> bool result \<times> 's"
    and revoke :: "gotime \<Rightarrow> string \<Rightarrow> gotime \<Rightarrow> 's \<Rightarrow> unit result \<times> 's"
    and revoked :: "gotime \<Rightarrow> string \<Rightarrow> 's \<Rightarrow> bool"
  assumes check_ok: "is_revoked now j s = (Inr b, s') \<Longrightarrow> b = revoked now j s"
    and check_frame: "is_revoked now j s = (rb, s') \<Longrightarrow> revoked t i s' = revoked t i s"
    and revoke_ok: "revoke now j e s = (Inr v, s') \<Longrightarrow> now < e \<Longrightarrow>
          revoked t i s' = (if i = j then t < now + go_redis_ttl (e - now) else revoked t i s)"
    and revoke_late: "revoke now j e s = (r, s') \<Longrightarrow> e \<le> now \<Longrightarrow> s' = s"

context deny_list
begin

text \<open>A revoked token is refused whenever the look-up works.\<close>

lemma revoked_refused:
  assumes "ac_deny_list cfg = Some is_revoked" and "revoked now (jw_jti t) s"
    and "rq_claims r = None" and "gateway_claims now r = None"
    and "extract_bearer_token r = Some token" and "parse_jwt cfg now token = Inr t"
    and "is_revoked now (jw_jti t) s = (Inr b, s1)"
  shows "authenticate cfg now h r s = (write_auth_error r, s) \<or> authenticate cfg now h r s = (write_auth_error r, s1)"
  using assms check_ok [OF assms(7)]
  by (auto simp: authenticate_def deny_check_def split: option.splits)

end

lemma go_redis_ttl_le: "0 < d \<Longrightarrow> go_redis_ttl d \<le> max d millisecond"
  by (auto simp: go_redis_ttl_def minus_mod_eq_div_mult [symmetric] millisecond_def)

interpretation redis_deny: deny_list deny_is_revoked deny_revoke
  "\<lambda>now j db. live_value now (deny_list_key_prefix @ j) db \<noteq> None"
proof unfold_locales
  fix now j b and db db' :: redis_db
  assume "deny_is_revoked now j db = (Inr b, db')"
  then show "b = (live_value now (deny_list_key_prefix @ j) db \<noteq> None)"
    by (auto simp: deny_is_revoked_def redis_exists_def redis_cmd_Inr split: prod.splits sum.splits)
next
  fix now j rb t i and db db' :: redis_db
  assume "deny_is_revoked now j db = (rb, db')"
  then have "rdb_map db' = rdb_map db"
    by (auto simp: deny_is_revoked_def redis_exists_def redis_cmd_def split: prod.splits sum.splits option.splits)
  then show "(live_value t (deny_list_key_prefix @ i) db' \<noteq> None) = (live_value t (deny_list_key_prefix @ i) db \<noteq> None)"
    by (simp add: live_value_def)
next
  fix now j e v t i and db db' :: redis_db
  assume c: "deny_revoke now j e db = (Inr v, db')" and "now < e"
  then obtain fs where db': "db' = put_value (deny_list_key_prefix @ j) (RString ''1'') (expiry_of now (go_redis_ttl (e - now))) (db\<lparr>rdb_faults := fs\<rparr>)"
    by (auto simp: deny_revoke_def redis_set_def redis_cmd_Inr Let_def split: prod.splits sum.splits)
  have "0 < go_redis_ttl (e - now)"
    using \<open>now < e\<close> by (auto simp: go_redis_ttl_def millisecond_def less_max_iff_disj)
  then show "(live_value t (deny_list_key_prefix @ i) db' \<noteq> None) =
      (if i = j then t < now + go_redis_ttl (e - now) else live_value t (deny_list_key_prefix @ i) db \<noteq> None)"
    by (auto simp: db' live_value_put expiry_of_def)
next
  fix now j e r and db db' :: redis_db
  assume "deny_revoke now j e db = (r, db')" "e \<le> now"
  then show "db' = db" by (simp add: deny_revoke_def)
qed

end
