(* ===== verification/Crypto.thy ===== *)
theory Crypto
  imports Prelude "HOL-Library.Word"
begin

text \<open>
  SHA-256 (\<open>crypto/sha256\<close>), HMAC-SHA-256 (\<open>crypto/hmac\<close>) and \<open>encoding/hex\<close> of the Go standard library, as the
  program calls them, over lists of bytes. FIPS 180-4 and RFC 2104 fix the functions.
\<close>

unbundle bit_operations_syntax

type_synonym word32 = "32 word"

definition byte_of :: "char \<Rightarrow> nat" where "byte_of c = of_char c"

definition string_bytes :: "string \<Rightarrow> nat list" where "string_bytes = map byte_of"

section \<open>Hexadecimal\<close>

definition hex_digit :: "nat \<Rightarrow> char" where
  "hex_digit n = ''0123456789abcdef'' ! n"

fun hex_encode :: "nat list \<Rightarrow> string" where
  "hex_encode [] = []"
| "hex_encode (b # bs) = hex_digit (b div 16) # hex_digit (b mod 16) # hex_encode bs"

text \<open>\<open>hex.DecodeString\<close>: both cases of the letters, an even number of digits.\<close>

definition hex_value :: "char \<Rightarrow> nat option" where
  "hex_value c =
     (let n = (of_char c :: nat) in
      if 48 \<le> n \<and> n \<le> 57 then Some (n - 48)
      else if 97 \<le> n \<and> n \<le> 102 then Some (n - 87)
      else if 65 \<le> n \<and> n \<le> 70 then Some (n - 55)
      else None)"

fun hex_decode :: "string \<Rightarrow> nat list option" where
  "hex_decode [] = Some []"
| "hex_decode [c] = None"
| "hex_decode (c # d # cs) =
     (case (hex_value c, hex_value d) of
        (Some h, Some l) \<Rightarrow> map_option (Cons (16 * h + l)) (hex_decode cs)
      | _ \<Rightarrow> None)"

section \<open>SHA-256\<close>

text \<open>The round constants and the initial state, in decimal.\<close>

definition sha_k :: "word32 list" where
  "sha_k = [
     1116352408, 1899447441, 3049323471, 3921009573, 961987163, 1508970993, 2453635748, 2870763221,
     3624381080, 310598401, 607225278, 1426881987, 1925078388, 2162078206, 2614888103, 3248222580,
     3835390401, 4022224774, 264347078, 604807628, 770255983, 1249150122, 1555081692, 1996064986,
     2554220882, 2821834349, 2952996808, 3210313671, 3336571891, 3584528711, 113926993, 338241895,
     666307205, 773529912, 1294757372, 1396182291, 1695183700, 1986661051, 2177026350, 2456956037,
     2730485921, 2820302411, 3259730800, 3345764771, 3516065817, 3600352804, 4094571909, 275423344,
     430227734, 506948616, 659060556, 883997877, 958139571, 1322822218, 1537002063, 1747873779,
     1955562222, 2024104815, 2227730452, 2361852424, 2428436474, 2756734187, 3204031479, 3329325298]"

definition sha_h0 :: "word32 list" where
  "sha_h0 = [1779033703, 3144134277, 1013904242, 2773480762, 1359893119, 2600822924, 528734635, 1541459225]"

definition rotr :: "nat \<Rightarrow> word32 \<Rightarrow> word32" where
  "rotr n x = (drop_bit n x OR push_bit (32 - n) x)"

definition sha_ch :: "word32 \<Rightarrow> word32 \<Rightarrow> word32 \<Rightarrow> word32" where
  "sha_ch x y z = ((x AND y) XOR (NOT x AND z))"

definition sha_maj :: "word32 \<Rightarrow> word32 \<Rightarrow> word32 \<Rightarrow> word32" where
  "sha_maj x y z = ((x AND y) XOR (x AND z) XOR (y AND z))"

definition big_sigma0 :: "word32 \<Rightarrow> word32" where "big_sigma0 x = (rotr 2 x XOR rotr 13 x XOR rotr 22 x)"
definition big_sigma1 :: "word32 \<Rightarrow> word32" where "big_sigma1 x = (rotr 6 x XOR rotr 11 x XOR rotr 25 x)"
definition small_sigma0 :: "word32 \<Rightarrow> word32" where "small_sigma0 x = (rotr 7 x XOR rotr 18 x XOR drop_bit 3 x)"
definition small_sigma1 :: "word32 \<Rightarrow> word32" where "small_sigma1 x = (rotr 17 x XOR rotr 19 x XOR drop_bit 10 x)"

text \<open>The message schedule, last word first: \<open>n\<close> more words from the sixteen before them.\<close>

fun sha_schedule :: "nat \<Rightarrow> word32 list \<Rightarrow> word32 list" where
  "sha_schedule 0 ws = ws"
| "sha_schedule (Suc n) ws =
     sha_schedule n ((small_sigma1 (ws ! 1) + ws ! 6 + small_sigma0 (ws ! 14) + ws ! 15) # ws)"

fun sha_rounds :: "(word32 \<times> word32) list \<Rightarrow> word32 list \<Rightarrow> word32 list" where
  "sha_rounds ((k, w) # kws) [a, b, c, d, e, f, g, h] =
     (let t1 = h + big_sigma1 e + sha_ch e f g + k + w;
          t2 = big_sigma0 a + sha_maj a b c
      in sha_rounds kws [t1 + t2, a, b, c, d + t1, e, f, g])"
| "sha_rounds kws hs = hs"

definition sha_block :: "word32 list \<Rightarrow> word32 list \<Rightarrow> word32 list" where
  "sha_block hs block =
     map2 (+) hs (sha_rounds (zip sha_k (rev (sha_schedule 48 (rev block)))) hs)"

definition be_word :: "nat list \<Rightarrow> word32" where
  "be_word bs = of_nat (foldl (\<lambda>n b. n * 256 + b) 0 bs)"

fun be_words :: "nat list \<Rightarrow> word32 list" where
  "be_words (p # q # r # s # bs) = be_word [p, q, r, s] # be_words bs"
| "be_words bs = []"

definition word_bytes :: "word32 \<Rightarrow> nat list" where
  "word_bytes w = (let n = unat w in [n div 2 ^ 24, n div 2 ^ 16 mod 256, n div 2 ^ 8 mod 256, n mod 256])"

text \<open>Padding to whole blocks of 64 bytes: \<open>0x80\<close>, zeros, and the length in bits in eight bytes.\<close>

fun be_bytes :: "nat \<Rightarrow> nat \<Rightarrow> nat list" where
  "be_bytes 0 n = []"
| "be_bytes (Suc k) n = be_bytes k (n div 256) @ [n mod 256]"

definition sha_pad :: "nat list \<Rightarrow> nat list" where
  "sha_pad m = m @ [128] @ replicate ((119 - length m mod 64) mod 64) 0 @ be_bytes 8 (8 * length m)"

fun sha_blocks :: "nat \<Rightarrow> word32 list \<Rightarrow> nat list \<Rightarrow> word32 list" where
  "sha_blocks 0 hs m = hs"
| "sha_blocks (Suc n) hs m = sha_blocks n (sha_block hs (be_words (take 64 m))) (drop 64 m)"

definition sha256 :: "nat list \<Rightarrow> nat list" where
  "sha256 m = (let p = sha_pad m in concat (map word_bytes (sha_blocks (length p div 64) sha_h0 p)))"

section \<open>HMAC\<close>

definition hmac_key :: "nat list \<Rightarrow> nat list" where
  "hmac_key key = (let k = (if length key > 64 then sha256 key else key) in k @ replicate (64 - length k) 0)"

definition hmac_sha256 :: "nat list \<Rightarrow> nat list \<Rightarrow> nat list" where
  "hmac_sha256 key msg =
     (let k = hmac_key key
      in sha256 (map (\<lambda>b. b XOR 0x5c) k @ sha256 (map (\<lambda>b. b XOR 0x36) k @ msg)))"

section \<open>Properties\<close>

lemma length_sha_rounds: "length hs = 8 \<Longrightarrow> length (sha_rounds kws hs) = 8"
  by (induction kws hs rule: sha_rounds.induct) (auto simp: Let_def)

lemma length_sha_block: "length hs = 8 \<Longrightarrow> length (sha_block hs b) = 8"
  by (simp add: sha_block_def length_sha_rounds)

lemma length_sha_blocks: "length hs = 8 \<Longrightarrow> length (sha_blocks n hs m) = 8"
  by (induction n hs m rule: sha_blocks.induct) (auto simp: length_sha_block)

lemma length_word_bytes [simp]: "length (word_bytes w) = 4"
  by (simp add: word_bytes_def Let_def)

lemma word_bytes_bound: "\<forall>b \<in> set (word_bytes w). b < 256"
proof -
  have "unat w < 2 ^ 32" using unsigned_less [of w] by simp
  then have "unat w div 2 ^ 24 < 256" by (simp add: less_mult_imp_div_less)
  then show ?thesis by (simp add: word_bytes_def Let_def)
qed

text \<open>A digest has 32 bytes.\<close>

lemma length_sha256 [simp]: "length (sha256 m) = 32"
proof -
  have "length (concat (map word_bytes ws)) = 4 * length ws" for ws
    by (induction ws) auto
  moreover have "length sha_h0 = 8" by (simp add: sha_h0_def)
  ultimately show ?thesis by (simp add: sha256_def Let_def length_sha_blocks)
qed

lemma sha256_bound: "\<forall>b \<in> set (sha256 m). b < 256"
  using word_bytes_bound by (auto simp: sha256_def Let_def)

lemma length_hmac [simp]: "length (hmac_sha256 k m) = 32" and hmac_bound: "\<forall>b \<in> set (hmac_sha256 k m). b < 256"
  using sha256_bound by (auto simp: hmac_sha256_def Let_def)

text \<open>The padded message is made of whole blocks.\<close>

lemma length_be_bytes [simp]: "length (be_bytes k n) = k"
  by (induction k arbitrary: n) auto

lemma pad_arith: "r < 64 \<Longrightarrow> (r + 9 + (119 - r) mod 64) mod 64 = (0 :: nat)"
proof (cases "r \<le> 55")
  case True
  then have "(119 - r) mod 64 = (55 - r + 64) mod 64" by simp
  also have "\<dots> = 55 - r" using True by (subst mod_add_self2) simp
  finally show ?thesis using True by simp
next
  case False
  assume "r < 64"
  with False have "(119 - r) mod 64 = 119 - r" by simp
  with \<open>r < 64\<close> have "r + 9 + (119 - r) mod 64 = 128" by simp
  then show ?thesis by simp
qed

lemma sha_pad_blocks: "length (sha_pad m) mod 64 = 0"
proof -
  have "length (sha_pad m) = 64 * (length m div 64) + (length m mod 64 + 9 + (119 - length m mod 64) mod 64)"
    unfolding sha_pad_def by simp
  then have "length (sha_pad m) mod 64 = (length m mod 64 + 9 + (119 - length m mod 64) mod 64) mod 64"
    by (metis mod_mult_self4 mult.commute)
  also have "\<dots> = 0" by (rule pad_arith) simp
  finally show ?thesis .
qed

lemma hex_digit_range: "n < 16 \<Longrightarrow> hex_digit n \<in> set ''0123456789abcdef''"
  unfolding hex_digit_def by (rule nth_mem) simp

lemma length_hex [simp]: "length (hex_encode bs) = 2 * length bs"
  by (induction bs) auto

lemma hex_encode_digits: "\<forall>b \<in> set bs. b < 256 \<Longrightarrow> set (hex_encode bs) \<subseteq> set ''0123456789abcdef''"
  using hex_digit_range by (induction bs) (auto simp: less_mult_imp_div_less)

lemma hex_digit_inject: "m < 16 \<Longrightarrow> n < 16 \<Longrightarrow> hex_digit m = hex_digit n \<longleftrightarrow> m = n"
  unfolding hex_digit_def by (subst nth_eq_iff_index_eq) simp_all

lemma hex_encode_inject:
  "\<forall>b \<in> set bs. b < 256 \<Longrightarrow> \<forall>b \<in> set cs. b < 256 \<Longrightarrow> hex_encode bs = hex_encode cs \<longleftrightarrow> bs = cs"
proof (induction bs arbitrary: cs)
  case Nil
  then show ?case by (cases cs) auto
next
  case (Cons b bs)
  show ?case
  proof (cases cs)
    case (Cons c cs')
    with Cons.prems Cons.IH [of cs'] show ?thesis
      by (auto simp: hex_digit_inject less_mult_imp_div_less) (metis div_mult_mod_eq)
  qed simp
qed

end
