(* ===== verification/Webhook.thy ===== *)
theory Webhook
  imports HttpJson Crypto
begin

text \<open>
  Webhooks: the entities, retry schedule and ports of \<open>internal/domain/webhook\<close>, the signatures of
  \<open>pkg/webhooksig/signer.go\<close>, and the use cases, the dispatcher and the delivery worker of
  \<open>internal/application/webhook\<close>. Sending a request is a parameter of the worker, as is the text PostgreSQL
  gives for a stored JSON document.
\<close>

section \<open>Entities\<close>

definition event_url_created :: string where "event_url_created = ''url.created''"
definition event_url_updated :: string where "event_url_updated = ''url.updated''"
definition event_url_deleted :: string where "event_url_deleted = ''url.deleted''"
definition event_redirect_received :: string where "event_redirect_received = ''redirect.received''"

definition all_event_types :: "string list" where
  "all_event_types = [event_url_created, event_url_updated, event_url_deleted, event_redirect_received]"

definition hook_active :: string where "hook_active = ''active''"
definition hook_failing :: string where "hook_failing = ''failing''"
definition hook_disabled :: string where "hook_disabled = ''disabled''"

definition delivery_pending :: string where "delivery_pending = ''pending''"
definition delivery_delivering :: string where "delivery_delivering = ''delivering''"
definition delivery_delivered :: string where "delivery_delivered = ''delivered''"
definition delivery_failed :: string where "delivery_failed = ''failed''"
definition delivery_abandoned :: string where "delivery_abandoned = ''abandoned''"

lemmas hook_status_defs = hook_active_def hook_failing_def hook_disabled_def
lemmas delivery_status_defs = delivery_pending_def delivery_delivering_def delivery_delivered_def
  delivery_failed_def delivery_abandoned_def

definition max_webhooks_per_workspace :: int where "max_webhooks_per_workspace = 10"
definition max_attempts :: int where "max_attempts = 5"

definition retry_schedule :: "duration list" where
  "retry_schedule = [30 * second, 5 * minute, 30 * minute, 2 * hour]"

record webhook =
  wh_id :: string
  wh_workspace_id :: string
  wh_name :: string
  wh_url :: string
  wh_secret :: string
  wh_events :: "string list"
  wh_status :: string
  wh_created_by :: string
  wh_created_at :: gotime
  wh_updated_at :: gotime
  wh_last_success_at :: "gotime option"
  wh_last_failure_at :: "gotime option"
  wh_failure_count :: int

record delivery =
  dl_id :: string
  dl_webhook_id :: string
  dl_workspace_id :: string
  dl_event_type :: string
  dl_event_id :: string
  dl_payload :: json
  dl_status :: string
  dl_attempt_count :: int
  dl_next_attempt_at :: gotime
  dl_last_attempt_at :: "gotime option"
  dl_last_http_status :: "int option"
  dl_last_error :: string
  dl_delivered_at :: "gotime option"
  dl_created_at :: gotime

record webhook_event =
  we_type :: string
  we_event_id :: string
  we_workspace_id :: string
  we_occurred_at :: gotime
  we_data :: "(string \<times> json) list"

definition is_subscribed :: "webhook \<Rightarrow> string \<Rightarrow> bool" where
  "is_subscribed w ev = list_ex (\<lambda>e. e = ev) (wh_events w)"

definition is_deliverable :: "webhook \<Rightarrow> bool" where
  "is_deliverable w = (wh_status w = hook_active)"

definition is_valid_event_type :: "string \<Rightarrow> bool" where
  "is_valid_event_type s = list_ex (\<lambda>e. e = s) all_event_types"

definition validate_hook_url :: "string \<Rightarrow> bool" where
  "validate_hook_url raw =
     (let lower = to_lower raw in has_prefix lower ''http://'' \<or> has_prefix lower ''https://'')"

definition next_retry_delay :: "int \<Rightarrow> duration option" where
  "next_retry_delay n =
     (if n \<le> 0 \<or> n \<ge> max_attempts then None
      else let idx = nat (n - 1) in
           if idx \<ge> length retry_schedule then None else Some (retry_schedule ! idx))"

section \<open>Signatures\<close>

definition signature_prefix :: string where "signature_prefix = ''sha256=''"

definition sign :: "string \<Rightarrow> nat list \<Rightarrow> string" where
  "sign secret payload = signature_prefix @ hex_encode (hmac_sha256 (string_bytes secret) payload)"

definition verify_signature :: "string \<Rightarrow> nat list \<Rightarrow> string \<Rightarrow> bool" where
  "verify_signature secret payload signature =
     (if \<not> has_prefix signature signature_prefix then False
      else (case hex_decode (trim_prefix signature signature_prefix) of
              None \<Rightarrow> False
            | Some provided \<Rightarrow> hmac_sha256 (string_bytes secret) payload = provided))"

definition generate_secret :: "string + nat list \<Rightarrow> string result" where
  "generate_secret rand = (case rand of Inl m \<Rightarrow> Inl (EOther m) | Inr bs \<Rightarrow> Inr (hex_encode bs))"

section \<open>Ports\<close>

record 's webhook_repository =
  hr_create :: "webhook \<Rightarrow> 's \<Rightarrow> unit result \<times> 's"
  hr_get_by_id :: "string \<Rightarrow> string \<Rightarrow> 's \<Rightarrow> webhook result \<times> 's"
  hr_list :: "string \<Rightarrow> int \<Rightarrow> 's \<Rightarrow> webhook list result \<times> 's"
  hr_count :: "string \<Rightarrow> 's \<Rightarrow> int result \<times> 's"
  hr_delete :: "string \<Rightarrow> string \<Rightarrow> 's \<Rightarrow> unit result \<times> 's"
  hr_update_status :: "gotime \<Rightarrow> string \<Rightarrow> string \<Rightarrow> int \<Rightarrow> gotime option \<Rightarrow> 's \<Rightarrow> unit result \<times> 's"
  hr_update_success :: "gotime \<Rightarrow> string \<Rightarrow> 's \<Rightarrow> unit result \<times> 's"
  hr_find_subscribed :: "string \<Rightarrow> string \<Rightarrow> 's \<Rightarrow> webhook list result \<times> 's"

record 's delivery_repository =
  dr_create :: "delivery \<Rightarrow> 's \<Rightarrow> unit result \<times> 's"
  dr_claim :: "gotime \<Rightarrow> int \<Rightarrow> 's \<Rightarrow> delivery list result \<times> 's"
  dr_mark_delivered :: "string \<Rightarrow> int \<Rightarrow> gotime \<Rightarrow> 's \<Rightarrow> unit result \<times> 's"
  dr_mark_failed :: "string \<Rightarrow> int \<Rightarrow> int option \<Rightarrow> string \<Rightarrow> gotime option \<Rightarrow> 's \<Rightarrow> unit result \<times> 's"

section \<open>Use cases\<close>

record register_command =
  rg_workspace_id :: string
  rg_requesting_user_id :: string
  rg_name :: string
  rg_url :: string
  rg_events :: "string list"

record register_result =
  rgr_id :: string
  rgr_workspace_id :: string
  rgr_name :: string
  rgr_url :: string
  rgr_secret :: string
  rgr_events :: "string list"
  rgr_status :: string
  rgr_created_at :: string

definition hook_validation_error :: "webhook_err \<Rightarrow> gerr" where
  "hook_validation_error e = new_validation_error (webhook_err_text e) (Some (EHook e))"

definition validate_register :: "register_command \<Rightarrow> gerr option" where
  "validate_register cmd =
     (if rg_name cmd = [] then Some (hook_validation_error HookErrNameRequired)
      else if rg_url cmd = [] then Some (hook_validation_error HookErrURLRequired)
      else if \<not> validate_hook_url (rg_url cmd) then Some (hook_validation_error HookErrInvalidURL)
      else if rg_events cmd = [] then Some (hook_validation_error HookErrNoEvents)
      else if \<not> list_all is_valid_event_type (rg_events cmd) then Some (hook_validation_error HookErrInvalidEvents)
      else None)"

definition new_webhook :: "gotime \<Rightarrow> string \<Rightarrow> string \<Rightarrow> register_command \<Rightarrow> webhook" where
  "new_webhook now ulid secret cmd =
     \<lparr>wh_id = ulid, wh_workspace_id = rg_workspace_id cmd, wh_name = rg_name cmd, wh_url = rg_url cmd,
      wh_secret = secret, wh_events = rg_events cmd, wh_status = hook_active, wh_created_by = rg_requesting_user_id cmd,
      wh_created_at = now, wh_updated_at = now, wh_last_success_at = None, wh_last_failure_at = None,
      wh_failure_count = 0\<rparr>"

definition register_handle ::
  "'s webhook_repository \<Rightarrow> gotime \<Rightarrow> string \<Rightarrow> string + nat list \<Rightarrow> register_command \<Rightarrow> 's
     \<Rightarrow> register_result result \<times> 's" where
  "register_handle repo now ulid rand cmd s =
     (case validate_register cmd of
        Some err \<Rightarrow> (Inl err, s)
      | None \<Rightarrow>
     (case hr_count repo (rg_workspace_id cmd) s of
        (Inl err, s1) \<Rightarrow> (Inl (EWrap ''counting webhooks: '' err []), s1)
      | (Inr count, s1) \<Rightarrow>
          if count \<ge> max_webhooks_per_workspace then (Inl (hook_validation_error HookErrLimitReached), s1)
          else
     (case generate_secret rand of
        Inl err \<Rightarrow> (Inl (EWrap ''generating webhook secret: '' err []), s1)
      | Inr secret \<Rightarrow>
          let w = new_webhook now ulid secret cmd in
          (case hr_create repo w s1 of
             (Inl err, s2) \<Rightarrow> (Inl (EWrap ''creating webhook: '' err []), s2)
           | (Inr _, s2) \<Rightarrow>
               (Inr \<lparr>rgr_id = wh_id w, rgr_workspace_id = wh_workspace_id w, rgr_name = wh_name w, rgr_url = wh_url w,
                     rgr_secret = secret, rgr_events = wh_events w, rgr_status = wh_status w,
                     rgr_created_at = format_rfc3339 (wh_created_at w)\<rparr>, s2)))))"

definition delete_hook_handle :: "'s webhook_repository \<Rightarrow> string \<Rightarrow> string \<Rightarrow> 's \<Rightarrow> unit result \<times> 's" where
  "delete_hook_handle repo i ws s =
     (case hr_delete repo i ws s of
        (Inl err, s1) \<Rightarrow>
          (if errors_is err (EHook HookErrNotFound) then Inl (EApp AppErrNotFound)
           else Inl (EWrap ''deleting webhook: '' err []), s1)
      | (Inr _, s1) \<Rightarrow> (Inr (), s1))"

record webhook_summary =
  whs_id :: string
  whs_name :: string
  whs_url :: string
  whs_events :: "string list"
  whs_status :: string
  whs_failure_count :: int
  whs_last_success_at :: "gotime option"
  whs_last_failure_at :: "gotime option"
  whs_created_at :: string

definition to_webhook_summary :: "webhook \<Rightarrow> webhook_summary" where
  "to_webhook_summary w =
     \<lparr>whs_id = wh_id w, whs_name = wh_name w, whs_url = wh_url w, whs_events = wh_events w, whs_status = wh_status w,
      whs_failure_count = wh_failure_count w, whs_last_success_at = wh_last_success_at w,
      whs_last_failure_at = wh_last_failure_at w, whs_created_at = format_rfc3339 (wh_created_at w)\<rparr>"

definition list_hooks_handle :: "'s webhook_repository \<Rightarrow> string \<Rightarrow> int \<Rightarrow> 's \<Rightarrow> webhook_summary list result \<times> 's" where
  "list_hooks_handle repo ws limit s =
     (case hr_list repo ws limit s of
        (Inl err, s1) \<Rightarrow> (Inl err, s1)
      | (Inr hs, s1) \<Rightarrow> (Inr (map to_webhook_summary hs), s1))"

section \<open>The dispatcher\<close>

definition event_payload :: "string \<Rightarrow> webhook_event \<Rightarrow> json" where
  "event_payload delivery_id ev =
     JObj [(''id'', JStr delivery_id), (''event_type'', JStr (we_type ev)), (''event_id'', JStr (we_event_id ev)),
           (''workspace_id'', JStr (we_workspace_id ev)), (''occurred_at'', JStr (format_rfc3339_nano (we_occurred_at ev))),
           (''data'', JObj (we_data ev))]"

definition new_delivery :: "gotime \<Rightarrow> string \<Rightarrow> webhook_event \<Rightarrow> webhook \<Rightarrow> delivery" where
  "new_delivery now ulid ev hook =
     \<lparr>dl_id = ulid, dl_webhook_id = wh_id hook, dl_workspace_id = wh_workspace_id hook, dl_event_type = we_type ev,
      dl_event_id = we_event_id ev, dl_payload = event_payload ulid ev, dl_status = delivery_pending,
      dl_attempt_count = 0, dl_next_attempt_at = now, dl_last_attempt_at = None, dl_last_http_status = None,
      dl_last_error = [], dl_delivered_at = None, dl_created_at = now\<rparr>"

text \<open>One ULID for every delivery, in order.\<close>

fun dispatch_loop ::
  "'s delivery_repository \<Rightarrow> gotime \<Rightarrow> (nat \<Rightarrow> string) \<Rightarrow> webhook_event \<Rightarrow> webhook list \<Rightarrow> 's \<Rightarrow> unit result \<times> 's" where
  "dispatch_loop deliveries now ulids ev [] s = (Inr (), s)"
| "dispatch_loop deliveries now ulids ev (hook # hooks) s =
     (case dr_create deliveries (new_delivery now (ulids 0) ev hook) s of
        (Inl err, s1) \<Rightarrow> (Inl (EWrap (''create delivery for webhook '' @ wh_id hook @ '': '') err []), s1)
      | (Inr _, s1) \<Rightarrow> dispatch_loop deliveries now (\<lambda>n. ulids (Suc n)) ev hooks s1)"

definition dispatch ::
  "'s webhook_repository \<Rightarrow> 's delivery_repository \<Rightarrow> gotime \<Rightarrow> (nat \<Rightarrow> string) \<Rightarrow> webhook_event \<Rightarrow> 's \<Rightarrow> unit result \<times> 's" where
  "dispatch repo deliveries now ulids ev s =
     (case hr_find_subscribed repo (we_workspace_id ev) (we_type ev) s of
        (Inl err, s1) \<Rightarrow> (Inl (EWrap ''finding subscribed webhooks: '' err []), s1)
      | (Inr hooks, s1) \<Rightarrow> dispatch_loop deliveries now ulids ev hooks s1)"

section \<open>The delivery worker\<close>

record worker_config =
  wk_batch_size :: int
  wk_poll_interval :: duration
  wk_http_timeout :: duration

text \<open>\<open>NewWorker\<close>: what is not positive gets its default.\<close>

definition new_worker :: "worker_config \<Rightarrow> worker_config" where
  "new_worker cfg =
     \<lparr>wk_batch_size = (if wk_batch_size cfg \<le> 0 then 50 else wk_batch_size cfg),
      wk_poll_interval = (if wk_poll_interval cfg \<le> 0 then 5 * second else wk_poll_interval cfg),
      wk_http_timeout = (if wk_http_timeout cfg \<le> 0 then 30 * second else wk_http_timeout cfg)\<rparr>"

record post_request =
  pq_url :: string
  pq_headers :: "(string \<times> string) list"
  pq_body :: "nat list"

text \<open>Building and sending the request either gives an error or the status and its text.\<close>

datatype post_outcome = PostError string | PostStatus int string

record 's delivery_env =
  env_hooks :: "'s webhook_repository"
  env_deliveries :: "'s delivery_repository"
  env_json_text :: "json \<Rightarrow> string"
  env_post :: "post_request \<Rightarrow> 's \<Rightarrow> post_outcome \<times> 's"

definition webhook_request :: "(json \<Rightarrow> string) \<Rightarrow> webhook \<Rightarrow> delivery \<Rightarrow> post_request" where
  "webhook_request text hook d =
     (let payload = string_bytes (text (dl_payload d)) in
      \<lparr>pq_url = wh_url hook,
       pq_headers = [(''Content-Type'', ''application/json''), (''User-Agent'', ''urlshortener-webhooks/1.0''),
         (''X-Webhook-ID'', wh_id hook), (''X-Webhook-Delivery'', dl_id d), (''X-Webhook-Event'', dl_event_type d),
         (''X-Webhook-Signature'', sign (wh_secret hook) payload)],
       pq_body = payload\<rparr>)"

text \<open>The errors of the repository are ignored.\<close>

definition record_failure ::
  "'s delivery_env \<Rightarrow> gotime \<Rightarrow> delivery \<Rightarrow> webhook option \<Rightarrow> int option \<Rightarrow> string \<Rightarrow> 's \<Rightarrow> 's" where
  "record_failure env now d hook http_status msg s =
     (case next_retry_delay (dl_attempt_count d) of
        Some delay \<Rightarrow>
          snd (dr_mark_failed (env_deliveries env) (dl_id d) (dl_attempt_count d) http_status msg (Some (now + delay)) s)
      | None \<Rightarrow>
          (let s1 = snd (dr_mark_failed (env_deliveries env) (dl_id d) (dl_attempt_count d) http_status msg None s) in
           case hook of
             None \<Rightarrow> s1
           | Some h \<Rightarrow> snd (hr_update_status (env_hooks env) now (wh_id h) hook_failing (wh_failure_count h + 1) (Some now) s1)))"

definition process_delivery :: "'s delivery_env \<Rightarrow> gotime \<Rightarrow> delivery \<Rightarrow> 's \<Rightarrow> 's" where
  "process_delivery env now d s =
     (case hr_get_by_id (env_hooks env) (dl_webhook_id d) (dl_workspace_id d) s of
        (Inl err, s1) \<Rightarrow>
          (if errors_is err (EHook HookErrNotFound)
           then snd (dr_mark_failed (env_deliveries env) (dl_id d) (dl_attempt_count d) None ''webhook no longer exists'' None s1)
           else record_failure env now d None None (''load webhook failed: '' @ err_text err) s1)
      | (Inr hook, s1) \<Rightarrow>
          if \<not> is_deliverable hook
          then snd (dr_mark_failed (env_deliveries env) (dl_id d) (dl_attempt_count d) None ''webhook is not deliverable'' None s1)
          else
            (case env_post env (webhook_request (env_json_text env) hook d) s1 of
               (PostError msg, s2) \<Rightarrow> record_failure env now d (Some hook) None msg s2
             | (PostStatus code status, s2) \<Rightarrow>
                 if 200 \<le> code \<and> code < 300 then
                   (let s3 = snd (dr_mark_delivered (env_deliveries env) (dl_id d) code now s2)
                    in snd (hr_update_success (env_hooks env) now (wh_id hook) s3))
                 else record_failure env now d (Some hook) (Some code) status s2))"

fun process_deliveries :: "'s delivery_env \<Rightarrow> (nat \<Rightarrow> gotime) \<Rightarrow> delivery list \<Rightarrow> 's \<Rightarrow> 's" where
  "process_deliveries env clock [] s = s"
| "process_deliveries env clock (d # ds) s =
     process_deliveries env (\<lambda>n. clock (Suc n)) ds (process_delivery env (clock 0) d s)"

text \<open>One iteration of \<open>Run\<close>: an error of the claim is logged.\<close>

definition process_batch :: "'s delivery_env \<Rightarrow> worker_config \<Rightarrow> (nat \<Rightarrow> gotime) \<Rightarrow> 's \<Rightarrow> unit result \<times> 's" where
  "process_batch env cfg clock s =
     (case dr_claim (env_deliveries env) (clock 0) (wk_batch_size cfg) s of
        (Inl err, s1) \<Rightarrow> (Inl err, s1)
      | (Inr ds, s1) \<Rightarrow> (Inr (), process_deliveries env (\<lambda>n. clock (Suc n)) ds s1))"

section \<open>Lemmas\<close>

lemma list_ex_valid: "is_valid_event_type s \<longleftrightarrow> s \<in> set all_event_types"
  by (auto simp: is_valid_event_type_def list_ex_iff)

lemma is_subscribed_iff: "is_subscribed w ev \<longleftrightarrow> ev \<in> set (wh_events w)"
  by (auto simp: is_subscribed_def list_ex_iff)

text \<open>The schedule: four retries, each later than the one before, then none.\<close>

lemma next_retry_cases:
  "next_retry_delay n = (if n = 1 then Some (30 * second) else if n = 2 then Some (5 * minute)
     else if n = 3 then Some (30 * minute) else if n = 4 then Some (2 * hour) else None)"
proof -
  consider "n \<le> 0" | "n = 1" | "n = 2" | "n = 3" | "n = 4" | "n \<ge> 5" by linarith
  then show ?thesis by cases (auto simp: next_retry_delay_def max_attempts_def retry_schedule_def)
qed

lemma next_retry_None: "next_retry_delay n = None \<longleftrightarrow> n \<le> 0 \<or> max_attempts \<le> n"
  by (auto simp: next_retry_cases max_attempts_def)

text \<open>Hexadecimal: decoding what was encoded, and what decodes to given bytes.\<close>

lemma hex_value_digit: "n < 16 \<Longrightarrow> hex_value (hex_digit n) = Some n"
  using less_Suc_eq [of n 15]
  by (auto simp: numeral_eq_Suc less_Suc_eq hex_value_def hex_digit_def)

lemma hex_decode_encode: "\<forall>b \<in> set bs. b < 256 \<Longrightarrow> hex_decode (hex_encode bs) = Some bs"
proof (induction bs)
  case (Cons b bs)
  then have "b div 16 < 16" "b mod 16 < 16" by auto
  with Cons show ?case by (simp add: hex_value_digit)
qed simp

lemma hex_digit_char: "n < 16 \<Longrightarrow> hex_digit n = char_of (if n < 10 then 48 + n else 87 + n :: nat)"
proof -
  have "\<forall>n \<in> set [0..<16]. hex_digit n = char_of (if n < 10 then 48 + n else 87 + n)" by code_simp
  then show "n < 16 \<Longrightarrow> hex_digit n = char_of (if n < 10 then 48 + n else 87 + n :: nat)" by simp
qed

lemma hex_value_lower: "hex_value c = Some n \<longleftrightarrow> n < 16 \<and> lower_char c = hex_digit n"
proof -
  let ?k = "of_char c :: nat"
  have k: "?k < 256" by simp
  have low: "lower_char c = char_of (if 65 \<le> ?k \<and> ?k \<le> 90 then ?k + 32 else ?k)"
    by (simp add: lower_char_def Let_def)
  have eq: "char_of a = (char_of b :: char) \<longleftrightarrow> a = b" if "a < 256" "b < 256" for a b :: nat
    using that by (metis mod_less of_char_of)
  show ?thesis
  proof (cases "n < 16")
    case True
    have "lower_char c = hex_digit n \<longleftrightarrow>
        (if 65 \<le> ?k \<and> ?k \<le> 90 then ?k + 32 else ?k) = (if n < 10 then 48 + n else 87 + n)"
      unfolding low hex_digit_char [OF True] by (rule eq) (use True k in auto)
    with True show ?thesis by (auto simp: hex_value_def Let_def split: if_splits)
  next
    case False
    then show ?thesis by (auto simp: hex_value_def Let_def split: if_splits)
  qed
qed

lemma hex_decode_Some: "hex_decode s = Some bs \<longleftrightarrow> (\<forall>b \<in> set bs. b < 256) \<and> to_lower s = hex_encode bs"
proof (induction s arbitrary: bs rule: induct_list012)
  case (2 c)
  then show ?case by (cases bs) (auto simp: to_lower_def)
next
  case (3 c d cs)
  note IH = "3.IH"(1)
  show ?case
  proof
    assume "hex_decode (c # d # cs) = Some bs"
    then obtain h l bs' where hl: "hex_value c = Some h" "hex_value d = Some l" "hex_decode cs = Some bs'" "bs = (16 * h + l) # bs'"
      by (auto split: option.splits prod.splits)
    then have "(\<forall>b \<in> set bs'. b < 256) \<and> to_lower cs = hex_encode bs'"
      using IH [of bs'] by simp
    with hl hex_value_lower [of c h] hex_value_lower [of d l]
    show "(\<forall>b \<in> set bs. b < 256) \<and> to_lower (c # d # cs) = hex_encode bs"
      by (auto simp: to_lower_def)
  next
    assume a: "(\<forall>b \<in> set bs. b < 256) \<and> to_lower (c # d # cs) = hex_encode bs"
    then obtain b bs' where b: "bs = b # bs'" "b < 256" "lower_char c = hex_digit (b div 16)" "lower_char d = hex_digit (b mod 16)"
      "to_lower cs = hex_encode bs'" "\<forall>b \<in> set bs'. b < 256"
      by (cases bs) (auto simp: to_lower_def)
    then have "hex_value c = Some (b div 16)" "hex_value d = Some (b mod 16)"
      using hex_value_lower [of c "b div 16"] hex_value_lower [of d "b mod 16"] by auto
    moreover from this have "hex_decode cs = Some bs'"
      using b IH [of bs'] by simp
    ultimately show "hex_decode (c # d # cs) = Some bs" using b(1) by simp
  qed
next
  case 1
  then show ?case by (cases bs) (auto simp: to_lower_def)
qed

end
