(* ===== verification/HttpHandlers.thy ===== *)
theory HttpHandlers
  imports HttpJson AuditLog Auth Webhook "HOL-Library.Word"
begin

text \<open>
  What the handlers of \<open>internal/interfaces/http/handler\<close> share: the response to a request without claims, query
  parameters, the webhook dispatcher, and the mapping from the errors of the use cases to responses. A handler that
  is audited works on the pending event and its own state.
\<close>

definition unauthorized_response :: response where "unauthorized_response = unauthenticated_problem []"
definition no_permission_response :: response where
  "no_permission_response = forbidden_problem ''You do not have permission to perform this action.'' []"
definition no_content :: response where "no_content = \<lparr>rs_status = 204, rs_headers = [], rs_body = NoBody\<rparr>"

text \<open>Requests are decoded from at most one MiB; a larger body is \<open>BodyUnreadable\<close>.\<close>

definition undecodable :: "request \<Rightarrow> response" where
  "undecodable r = resp_bad_request ''request body could not be decoded'' (rq_path r)"

section \<open>Integers in the query\<close>

text \<open>\<open>n = n*10 + int(c-'0')\<close> in 64 bits.\<close>

fun query_digits :: "string \<Rightarrow> 64 word \<Rightarrow> 64 word option" where
  "query_digits [] n = Some n"
| "query_digits (c # cs) n =
     (let v = (of_char c :: nat) in
      if v < 48 \<or> 57 < v then None else query_digits cs (n * 10 + of_nat (v - 48)))"

definition parse_int_query :: "request \<Rightarrow> string \<Rightarrow> int \<Rightarrow> int \<Rightarrow> int" where
  "parse_int_query r param default_val max_val =
     (let val = rq_query_get r param in
      if val = [] then default_val
      else (case query_digits val 0 of
              None \<Rightarrow> default_val
            | Some n \<Rightarrow> if sint n \<le> 0 then default_val else if sint n > max_val then max_val else sint n))"

lemma parse_int_query_bounds:
  "1 \<le> d \<Longrightarrow> d \<le> m \<Longrightarrow> 1 \<le> parse_int_query r p d m \<and> parse_int_query r p d m \<le> m"
  by (auto simp: parse_int_query_def Let_def split: option.splits)

section \<open>Webhook events\<close>

type_synonym 's dispatcher = "(webhook_event \<Rightarrow> 's \<Rightarrow> unit result \<times> 's) option"

text \<open>An error of the dispatcher is logged.\<close>

definition fire :: "'s dispatcher \<Rightarrow> webhook_event \<Rightarrow> 's \<Rightarrow> 's" where
  "fire d ev s = (case d of None \<Rightarrow> s | Some f \<Rightarrow> snd (f ev s))"

definition on_pending :: "('s \<Rightarrow> 'a \<times> 's) \<Rightarrow> 's pending \<Rightarrow> 'a \<times> 's pending" where
  "on_pending f ps = (case ps of (p, s) \<Rightarrow> (case f s of (x, s1) \<Rightarrow> (x, (p, s1))))"

definition fire_pending :: "'s dispatcher \<Rightarrow> webhook_event \<Rightarrow> 's pending \<Rightarrow> 's pending" where
  "fire_pending d ev ps = (case ps of (p, s) \<Rightarrow> (p, fire d ev s))"

section \<open>Errors\<close>

definition url_error_response :: "request \<Rightarrow> gerr \<Rightarrow> response" where
  "url_error_response r err =
     (case as_validation err of
        Some m \<Rightarrow> resp_unprocessable m (rq_path r) []
      | None \<Rightarrow>
          if errors_is err (EApp AppErrNotFound) then resp_not_found (rq_path r)
          else if errors_is err (EApp AppErrURLExpired) then resp_gone (rq_path r)
          else resp_internal_error (rq_path r))"

definition shorten_error_response :: "request \<Rightarrow> gerr \<Rightarrow> response" where
  "shorten_error_response r err =
     (case as_validation err of
        Some m \<Rightarrow> resp_unprocessable m (rq_path r) []
      | None \<Rightarrow>
          if errors_is err (EApp AppErrShortCodeConflict)
          then resp_conflict ''The requested short code is already in use.'' (rq_path r)
          else if errors_is err (EApp AppErrURLBlocked)
          then write_problem \<lparr>p_type = problem_type_url_blocked, p_title = ''URL Blocked'', p_status = 422,
                 p_detail = ''This URL has been flagged by our safety policy.'', p_instance = rq_path r, p_errors = []\<rparr>
          else resp_internal_error (rq_path r))"

definition redirect_error_response :: "request \<Rightarrow> gerr \<Rightarrow> response" where
  "redirect_error_response r err =
     (if errors_is err (EApp AppErrNotFound) then resp_not_found (rq_path r)
      else if errors_is err (EApp AppErrURLDisabled) then resp_not_found (rq_path r)
      else if errors_is err (EApp AppErrURLExpired) then resp_gone (rq_path r)
      else resp_internal_error (rq_path r))"

definition workspace_error_response :: "request \<Rightarrow> gerr \<Rightarrow> response" where
  "workspace_error_response r err =
     (case as_validation err of
        Some m \<Rightarrow> resp_unprocessable m (rq_path r) []
      | None \<Rightarrow>
          if errors_is err (EApp AppErrUnauthorized) then no_permission_response
          else if errors_is err (EApp AppErrShortCodeConflict)
          then resp_conflict ''A workspace with that name or slug already exists.'' (rq_path r)
          else resp_internal_error (rq_path r))"

definition apikey_error_response :: "request \<Rightarrow> gerr \<Rightarrow> response" where
  "apikey_error_response r err =
     (case as_validation err of
        Some m \<Rightarrow> resp_unprocessable m (rq_path r) []
      | None \<Rightarrow>
          if errors_is err (EApp AppErrUnauthorized) then no_permission_response
          else if errors_is err (EApp AppErrNotFound) then resp_not_found (rq_path r)
          else resp_internal_error (rq_path r))"

definition webhook_error_response :: "request \<Rightarrow> gerr \<Rightarrow> response" where
  "webhook_error_response r err =
     (case as_validation err of
        Some m \<Rightarrow> resp_unprocessable m (rq_path r) []
      | None \<Rightarrow>
          if errors_is err (EApp AppErrNotFound) then resp_not_found (rq_path r) else resp_internal_error (rq_path r))"

lemmas error_response_defs = url_error_response_def shorten_error_response_def redirect_error_response_def
  workspace_error_response_def apikey_error_response_def webhook_error_response_def

text \<open>No error is answered with success.\<close>

lemma error_response_status:
  "400 \<le> rs_status (url_error_response r e)" "400 \<le> rs_status (shorten_error_response r e)"
  "400 \<le> rs_status (redirect_error_response r e)" "400 \<le> rs_status (workspace_error_response r e)"
  "400 \<le> rs_status (apikey_error_response r e)" "400 \<le> rs_status (webhook_error_response r e)"
  by (simp_all add: error_response_defs resp_defs no_permission_response_def forbidden_problem_def split: option.splits)

end
