(* ===== verification/UrlPorts.thy ===== *)
theory UrlPorts
  imports UrlDomain
begin

text \<open>
  The contracts of the ports of \<open>internal/domain/url/repository.go\<close>. \<open>url_store\<close> is what the use cases
  rely on of a \<open>Repository\<close>: which rows the writes leave in the primary table and what the reads return
  from the rows a reader sees. \<open>url_cache\<close> is what they rely on of a \<open>CachePort\<close>: how each operation
  changes the positive and the negative view of the cache at every instant. \<open>url_system\<close> joins both over
  one state. The use cases prove their lemmas in these locales; \<open>UrlWorld\<close> interprets them on the
  PostgreSQL and Redis models.
\<close>

text \<open>The condition \<open>id = i AND workspace_id = ws AND deleted_at IS NULL\<close> of the writes.\<close>

definition live_in :: "string \<Rightarrow> string \<Rightarrow> url \<Rightarrow> bool" where
  "live_in i ws r = (url_id r = i \<and> workspace_id r = ws \<and> deleted_at r = None)"

text \<open>The columns \<open>Update\<close> and \<open>SoftDelete\<close> set, the stamp of the trigger included.\<close>

definition set_mutable :: "gotime \<Rightarrow> url \<Rightarrow> url \<Rightarrow> url" where
  "set_mutable now u r = r\<lparr>original_url := original_url u, title := title u, url_status := url_status u,
     expires_at := expires_at u, updated_at := now\<rparr>"

definition set_deleted :: "gotime \<Rightarrow> url \<Rightarrow> url" where
  "set_deleted now r = r\<lparr>url_status := status_deleted, deleted_at := Some now, updated_at := now\<rparr>"

definition replace_rows :: "(url \<Rightarrow> bool) \<Rightarrow> (url \<Rightarrow> url) \<Rightarrow> url list \<Rightarrow> url list" where
  "replace_rows p f = map (\<lambda>r. if p r then f r else r)"

text \<open>
  The key a row never changes: who owns it and the code it is reached by.
\<close>

definition url_key :: "url \<Rightarrow> string \<times> string \<times> string" where
  "url_key r = (url_id r, workspace_id r, short_code r)"

locale url_store =
  fixes repo :: "'s url_repository"
    and prim :: "'s \<Rightarrow> url list"
    and repl :: "'s \<Rightarrow> url list"
    and stored :: "url \<Rightarrow> url"
    and table_ok :: "url list \<Rightarrow> bool"
  assumes stored_key: "url_key (stored u) = url_key u"
    and stored_url: "original_url (stored u) = original_url u"
    and stored_status: "url_status (stored u) = url_status u"
    and stored_live: "deleted_at (stored u) = None \<longleftrightarrow> deleted_at u = None"
    and create_ok: "repo_create repo u s = (Inr v, s') \<Longrightarrow>
          prim s' = prim s @ [stored u] \<and> short_code u \<notin> short_code ` set (prim s) \<and> url_id u \<notin> url_id ` set (prim s)"
    and create_err: "repo_create repo u s = (Inl e, s') \<Longrightarrow> prim s' = prim s \<and> (\<forall>a. \<not> errors_is e (EApp a))"
    and create_repl: "repo_create repo u s = (r, s') \<Longrightarrow> repl s' = repl s \<or> repl s' = prim s'"
    and code_get: "repo_get_by_short_code repo sc s = (Inr u, s') \<Longrightarrow>
          u \<in> set (repl s) \<and> short_code u = sc \<and> deleted_at u = None"
    and code_get_err: "repo_get_by_short_code repo sc s = (Inl e, s') \<Longrightarrow> \<forall>a. \<not> errors_is e (EApp a)"
    and code_get_frame: "repo_get_by_short_code repo sc s = (ru, s') \<Longrightarrow> prim s' = prim s \<and> repl s' = repl s"
    and id_get: "repo_get_by_id repo i ws s = (Inr u, s') \<Longrightarrow> u \<in> set (repl s) \<and> live_in i ws u"
    and id_get_frame: "repo_get_by_id repo i ws s = (ru, s') \<Longrightarrow> prim s' = prim s \<and> repl s' = repl s"
    and update_ok: "repo_update repo now u s = (Inr v, s') \<Longrightarrow>
          prim s' = replace_rows (live_in (url_id u) (workspace_id u)) (stored \<circ> set_mutable now u) (prim s)
          \<and> (\<exists>r \<in> set (prim s). live_in (url_id u) (workspace_id u) r)"
    and update_err: "repo_update repo now u s = (Inl e, s') \<Longrightarrow> prim s' = prim s"
    and update_repl: "repo_update repo now u s = (r, s') \<Longrightarrow> repl s' = repl s \<or> repl s' = prim s'"
    and delete_ok: "repo_soft_delete repo now i ws s = (Inr v, s') \<Longrightarrow>
          prim s' = replace_rows (live_in i ws) (stored \<circ> set_deleted now) (prim s)
          \<and> (\<exists>r \<in> set (prim s). live_in i ws r)"
    and delete_err: "repo_soft_delete repo now i ws s = (Inl e, s') \<Longrightarrow> prim s' = prim s"
    and delete_repl: "repo_soft_delete repo now i ws s = (r, s') \<Longrightarrow> repl s' = repl s \<or> repl s' = prim s'"
    and create_table: "repo_create repo u s = (r, s') \<Longrightarrow> table_ok (prim s) \<Longrightarrow> table_ok (prim s')"
    and update_table: "repo_update repo now u s = (r, s') \<Longrightarrow> table_ok (prim s) \<Longrightarrow> table_ok (prim s')"
    and delete_table: "repo_soft_delete repo now i ws s = (r, s') \<Longrightarrow> table_ok (prim s) \<Longrightarrow> table_ok (prim s')"
    and list_ok: "repo_list repo f s = (Inr (us, c), s') \<Longrightarrow>
          set us \<subseteq> {r \<in> set (repl s). workspace_id r = lf_workspace_id f \<and> deleted_at r = None}"
    and list_frame: "repo_list repo f s = (rl, s') \<Longrightarrow> prim s' = prim s \<and> repl s' = repl s"

text \<open>
  A code without \<open>:\<close> names the same link in both views of the cache; every code the program issues is of
  that kind. The other codes a request may carry can name a key of the other view.
\<close>

definition plain_code :: "string \<Rightarrow> bool" where
  "plain_code sc = (CHR '':'' \<notin> set sc)"

text \<open>When an entry written at \<open>now\<close> for \<open>ttl\<close> seconds is readable: always, for a TTL that is not positive.\<close>

definition alive_at :: "gotime \<Rightarrow> int \<Rightarrow> gotime \<Rightarrow> bool" where
  "alive_at now ttl t = (ttl \<le> 0 \<or> t < now + ttl * second)"

text \<open>What a cached entity keeps of the one it was made from: all but the instant of its deletion.\<close>

definition as_cached :: "url \<Rightarrow> url" where
  "as_cached u = u\<lparr>deleted_at := None\<rparr>"

locale url_cache =
  fixes cache :: "'s cache_port"
    and pos :: "gotime \<Rightarrow> string \<Rightarrow> 's \<Rightarrow> url option"
    and neg :: "gotime \<Rightarrow> string \<Rightarrow> 's \<Rightarrow> bool"
  assumes get_ok: "cache_get cache now sc s = (Inr g, s') \<Longrightarrow> g = pos now sc s"
    and get_pos: "cache_get cache now sc s = (rg, s') \<Longrightarrow> pos t x s' = pos t x s"
    and get_neg: "cache_get cache now sc s = (rg, s') \<Longrightarrow> plain_code sc \<Longrightarrow> neg t x s' = neg t x s"
    and set_ok: "cache_set cache now u ttl s = (Inr v, s') \<Longrightarrow> plain_code y \<Longrightarrow>
          pos t y s' = (if y = short_code u then if alive_at now ttl t then Some (as_cached u) else None else pos t y s)"
    and set_neg: "cache_set cache now u ttl s = (r, s') \<Longrightarrow> plain_code (short_code u) \<Longrightarrow> neg t y s' = neg t y s"
    and set_err: "cache_set cache now u ttl s = (Inl e, s') \<Longrightarrow> pos t y s' = pos t y s"
    and set_nf_ok: "cache_set_not_found cache now sc ttl s = (Inr v, s') \<Longrightarrow>
          neg t y s' = (if y = sc then alive_at now ttl t else neg t y s)"
    and set_nf_pos: "cache_set_not_found cache now sc ttl s = (r, s') \<Longrightarrow> plain_code y \<Longrightarrow> pos t y s' = pos t y s"
    and set_nf_err: "cache_set_not_found cache now sc ttl s = (Inl e, s') \<Longrightarrow> neg t y s' = neg t y s"
    and is_nf_ok: "cache_is_not_found cache now sc s = (Inr b, s') \<Longrightarrow> b = neg now sc s"
    and is_nf_frame: "cache_is_not_found cache now sc s = (rb, s') \<Longrightarrow> pos t y s' = pos t y s \<and> neg t y s' = neg t y s"
    and del_ok: "cache_delete cache sc s = (Inr v, s') \<Longrightarrow> plain_code sc \<Longrightarrow> plain_code y \<Longrightarrow>
          pos t y s' = (if y = sc then None else pos t y s) \<and> neg t y s' = (if y = sc then False else neg t y s)"
    and del_err: "cache_delete cache sc s = (Inl e, s') \<Longrightarrow> pos t y s' = pos t y s \<and> neg t y s' = neg t y s"

text \<open>Both ports over one state, neither touching what the other shows.\<close>

locale url_system = url_store repo prim repl stored table_ok + url_cache cache pos neg
  for repo :: "'s url_repository" and prim repl stored table_ok
    and cache :: "'s cache_port" and pos neg +
  assumes cache_get_rows: "cache_get cache now sc s = (rg, s') \<Longrightarrow> prim s' = prim s \<and> repl s' = repl s"
    and cache_set_rows: "cache_set cache now u ttl s = (r, s') \<Longrightarrow> prim s' = prim s \<and> repl s' = repl s"
    and cache_nf_rows: "cache_set_not_found cache now sc ttl s = (r, s') \<Longrightarrow> prim s' = prim s \<and> repl s' = repl s"
    and cache_isnf_rows: "cache_is_not_found cache now sc s = (rb, s') \<Longrightarrow> prim s' = prim s \<and> repl s' = repl s"
    and cache_del_rows: "cache_delete cache sc s = (r, s') \<Longrightarrow> prim s' = prim s \<and> repl s' = repl s"
    and create_cache: "repo_create repo u s = (r, s') \<Longrightarrow> pos t y s' = pos t y s \<and> neg t y s' = neg t y s"
    and code_get_cache: "repo_get_by_short_code repo sc s = (ru, s') \<Longrightarrow> pos t y s' = pos t y s \<and> neg t y s' = neg t y s"
    and id_get_cache: "repo_get_by_id repo i ws s = (ru, s') \<Longrightarrow> pos t y s' = pos t y s \<and> neg t y s' = neg t y s"
    and update_cache: "repo_update repo now u s = (r, s') \<Longrightarrow> pos t y s' = pos t y s \<and> neg t y s' = neg t y s"
    and delete_cache: "repo_soft_delete repo now i ws s = (r, s') \<Longrightarrow> pos t y s' = pos t y s \<and> neg t y s' = neg t y s"

lemma as_cached_simps [simp]:
  "url_key (as_cached u) = url_key u" "original_url (as_cached u) = original_url u"
  "short_code (as_cached u) = short_code u" "workspace_id (as_cached u) = workspace_id u"
  "url_status (as_cached u) = url_status u" "expires_at (as_cached u) = expires_at u"
  "can_redirect t (as_cached u) = can_redirect t u" "is_expired t (as_cached u) = is_expired t u"
  by (simp_all add: as_cached_def url_key_def can_redirect_def is_expired_def)

lemma set_mutable_simps [simp]:
  "url_key (set_mutable now u r) = url_key r" "original_url (set_mutable now u r) = original_url u"
  "deleted_at (set_mutable now u r) = deleted_at r" "url_status (set_mutable now u r) = url_status u"
  by (simp_all add: set_mutable_def url_key_def)

lemma set_deleted_simps [simp]:
  "url_key (set_deleted now r) = url_key r" "original_url (set_deleted now r) = original_url r"
  "deleted_at (set_deleted now r) = Some now" "url_status (set_deleted now r) = status_deleted"
  by (simp_all add: set_deleted_def url_key_def)

lemma replace_rows_keys:
  "(\<And>r. url_key (f r) = url_key r) \<Longrightarrow> map url_key (replace_rows p f rows) = map url_key rows"
  by (simp add: replace_rows_def)

end
