(* ===== verification/Resolve.thy ===== *)
theory Resolve
  imports UrlPorts
begin

text \<open>
  \<open>internal/application/resolve\<close>: the ResolveURL use case. The handler answers from the positive cache, the
  negative cache or the repository, in this order; its writes to the cache run in goroutines of their own,
  so the handler returns them as pending tasks, which \<open>run_task\<close> runs at some later point. \<open>now\<close> is the
  clock for the lookups and \<open>CanRedirect\<close>, \<open>later\<close> the second reading in \<open>handleNonRedirectableURL\<close>.
\<close>

record 's resolve_handler =
  rh_get_by_short_code :: "string \<Rightarrow> 's \<Rightarrow> url result \<times> 's"
  rh_cache :: "'s cache_port option"
  rh_cache_ttl :: int
  rh_negative_ttl :: int

record resolve_result =
  rr_original_url :: string
  rr_short_code :: string
  rr_workspace_id :: string
  rr_cache_status :: string

datatype cache_task = TaskSet url | TaskSetNotFound string

section \<open>The use case\<close>

definition handle_non_redirectable :: "gotime \<Rightarrow> url \<Rightarrow> resolve_result result" where
  "handle_non_redirectable later u =
     (if is_expired later u then Inl (EApp AppErrURLExpired)
      else if url_status u = status_disabled then Inl (EApp AppErrURLDisabled)
      else if url_status u = status_deleted then Inl (EApp AppErrNotFound)
      else Inl (EApp AppErrNotFound))"

definition result_of :: "string \<Rightarrow> string \<Rightarrow> url \<Rightarrow> resolve_result" where
  "result_of status sc u =
     \<lparr>rr_original_url = original_url u, rr_short_code = sc, rr_workspace_id = workspace_id u, rr_cache_status = status\<rparr>"

text \<open>Step 1: \<open>Some\<close> answer ends the request; an error of the cache is only logged.\<close>

definition positive_lookup ::
  "'s resolve_handler \<Rightarrow> gotime \<Rightarrow> gotime \<Rightarrow> string \<Rightarrow> 's \<Rightarrow> resolve_result result option \<times> 's" where
  "positive_lookup h now later sc s =
     (case rh_cache h of
        None \<Rightarrow> (None, s)
      | Some c \<Rightarrow>
          (case cache_get c now sc s of
             (Inl err, s1) \<Rightarrow> (None, s1)
           | (Inr None, s1) \<Rightarrow> (None, s1)
           | (Inr (Some u), s1) \<Rightarrow>
               (Some (if \<not> can_redirect now u then handle_non_redirectable later u
                      else Inr (result_of ''hit'' sc u)), s1)))"

text \<open>Step 2.\<close>

definition negative_lookup :: "'s resolve_handler \<Rightarrow> gotime \<Rightarrow> string \<Rightarrow> 's \<Rightarrow> bool \<times> 's" where
  "negative_lookup h now sc s =
     (case rh_cache h of
        None \<Rightarrow> (False, s)
      | Some c \<Rightarrow>
          (case cache_is_not_found c now sc s of
             (Inl err, s1) \<Rightarrow> (False, s1)
           | (Inr b, s1) \<Rightarrow> (b, s1)))"

text \<open>Step 3.\<close>

definition database_lookup ::
  "'s resolve_handler \<Rightarrow> gotime \<Rightarrow> gotime \<Rightarrow> string \<Rightarrow> 's \<Rightarrow> resolve_result result \<times> cache_task list \<times> 's" where
  "database_lookup h now later sc s =
     (case rh_get_by_short_code h sc s of
        (Inl err, s1) \<Rightarrow>
          if url_is_not_found err then (Inl (EApp AppErrNotFound), [TaskSetNotFound sc], s1)
          else (Inl (EWrap (''resolving short code '' @ go_quote sc @ '': '') err []), [], s1)
      | (Inr u, s1) \<Rightarrow>
          if \<not> can_redirect now u then (handle_non_redirectable later u, [TaskSetNotFound sc], s1)
          else (Inr (result_of ''miss'' sc u), [TaskSet u], s1))"

definition resolve_handle ::
  "'s resolve_handler \<Rightarrow> gotime \<Rightarrow> gotime \<Rightarrow> string \<Rightarrow> 's \<Rightarrow> resolve_result result \<times> cache_task list \<times> 's" where
  "resolve_handle h now later sc s =
     (case positive_lookup h now later sc s of
        (Some r, s1) \<Rightarrow> (r, [], s1)
      | (None, s1) \<Rightarrow>
          (case negative_lookup h now sc s1 of
             (True, s2) \<Rightarrow> (Inl (EApp AppErrNotFound), [], s2)
           | (False, s2) \<Rightarrow> database_lookup h now later sc s2))"

text \<open>The goroutines of \<open>asyncSetCache\<close> and \<open>asyncSetNotFound\<close>; their errors are only logged.\<close>

fun run_task :: "'s resolve_handler \<Rightarrow> gotime \<Rightarrow> cache_task \<Rightarrow> 's \<Rightarrow> 's" where
  "run_task h t (TaskSet u) s =
     (case rh_cache h of None \<Rightarrow> s | Some c \<Rightarrow> snd (cache_set c t u (rh_cache_ttl h) s))"
| "run_task h t (TaskSetNotFound sc) s =
     (case rh_cache h of None \<Rightarrow> s | Some c \<Rightarrow> snd (cache_set_not_found c t sc (rh_negative_ttl h) s))"

section \<open>Properties\<close>

lemma handle_non_redirectable_Inl: "\<exists>e. handle_non_redirectable later u = Inl (EApp e)"
  by (simp add: handle_non_redirectable_def)

lemma handle_non_redirectable_not_Inr [simp]: "handle_non_redirectable later u \<noteq> Inr r"
  by (simp add: handle_non_redirectable_def)

lemma result_of_simps [simp]:
  "rr_original_url (result_of st sc u) = original_url u" "rr_short_code (result_of st sc u) = sc"
  "rr_workspace_id (result_of st sc u) = workspace_id u" "rr_cache_status (result_of st sc u) = st"
  by (simp_all add: result_of_def)

text \<open>An expired link is answered with the expiry whatever its status, in both clock readings.\<close>

lemma expired_is_gone:
  "is_expired now u \<Longrightarrow> now \<le> later \<Longrightarrow> handle_non_redirectable later u = Inl (EApp AppErrURLExpired)"
  by (auto simp: handle_non_redirectable_def is_expired_def split: option.splits)

definition resolves_over :: "'s url_repository \<Rightarrow> 's cache_port \<Rightarrow> 's resolve_handler \<Rightarrow> bool" where
  "resolves_over repo cache h =
     (rh_get_by_short_code h = repo_get_by_short_code repo \<and> (rh_cache h = Some cache \<or> rh_cache h = None))"

context url_system
begin

lemma positive_lookup_frame:
  assumes "resolves_over repo cache h" "positive_lookup h now later sc s = (r, s')"
  shows "prim s' = prim s" "repl s' = repl s" "pos t y s' = pos t y s"
    and "plain_code sc \<Longrightarrow> neg t y s' = neg t y s"
  using assms
  by (auto simp: resolves_over_def positive_lookup_def cache_get_rows get_pos get_neg
        split: option.splits prod.splits sum.splits)

lemma negative_lookup_frame:
  assumes "resolves_over repo cache h" "negative_lookup h now sc s = (r, s')"
  shows "prim s' = prim s" "repl s' = repl s" "pos t y s' = pos t y s" "neg t y s' = neg t y s"
  using assms
  by (auto simp: resolves_over_def negative_lookup_def cache_isnf_rows dest: is_nf_frame
        split: option.splits prod.splits sum.splits)

lemma database_lookup_frame:
  assumes "resolves_over repo cache h" "database_lookup h now later sc s = (r, ts, s')"
  shows "prim s' = prim s" "repl s' = repl s" "pos t y s' = pos t y s" "neg t y s' = neg t y s"
proof -
  obtain g s1 where g: "repo_get_by_short_code repo sc s = (g, s1)" by fastforce
  with assms have "s' = s1"
    by (auto simp: resolves_over_def database_lookup_def split: sum.splits if_splits)
  with code_get_frame [OF g] code_get_cache [OF g, of t y]
  show "prim s' = prim s" "repl s' = repl s" "pos t y s' = pos t y s" "neg t y s' = neg t y s" by simp_all
qed

text \<open>Resolving changes no row and no link in the cache; only its tasks will.\<close>

lemma resolve_frame:
  assumes "resolves_over repo cache h" "resolve_handle h now later sc s = (r, ts, s')"
  shows "prim s' = prim s \<and> repl s' = repl s \<and> pos t y s' = pos t y s \<and> (plain_code sc \<longrightarrow> neg t y s' = neg t y s)"
proof -
  obtain a s1 where a: "positive_lookup h now later sc s = (a, s1)" by fastforce
  obtain b s2 where b: "negative_lookup h now sc s1 = (b, s2)" by fastforce
  obtain r' ts' s3 where d: "database_lookup h now later sc s2 = (r', ts', s3)" using prod_cases3 by blast
  note frames = positive_lookup_frame [OF assms(1) a] negative_lookup_frame [OF assms(1) b]
    database_lookup_frame [OF assms(1) d]
  have "s' = s1 \<or> s' = s2 \<or> s' = s3"
    using assms(2) a b d by (auto simp: resolve_handle_def split: option.splits bool.splits)
  then show ?thesis using frames by auto
qed

text \<open>
  A redirect is justified by what the handler looked at: a cached link that can redirect now, or a
  live row that can redirect now, when the cache did not rule it out.
\<close>

lemma resolve_Inr:
  assumes h: "resolves_over repo cache h" and r: "resolve_handle h now later sc s = (Inr res, ts, s')"
  obtains (hit) u where "rh_cache h = Some cache" "pos now sc s = Some u" "can_redirect now u"
      "res = result_of ''hit'' sc u" "ts = []"
    | (miss) u where "u \<in> set (repl s)" "short_code u = sc" "deleted_at u = None" "can_redirect now u"
      "res = result_of ''miss'' sc u" "ts = [TaskSet u]"
proof -
  obtain a s1 where a: "positive_lookup h now later sc s = (a, s1)" by fastforce
  obtain b s2 where b: "negative_lookup h now sc s1 = (b, s2)" by fastforce
  show ?thesis
  proof (cases a)
    case (Some x)
    with r a have x: "x = Inr res" "ts = []" by (auto simp: resolve_handle_def)
    with a Some h obtain u where "rh_cache h = Some cache" and g: "cache_get cache now sc s = (Inr (Some u), s1)"
      and "can_redirect now u" "res = result_of ''hit'' sc u"
      by (auto simp: positive_lookup_def resolves_over_def split: option.splits prod.splits sum.splits if_splits)
    moreover from get_ok [OF g] have "pos now sc s = Some u" by simp
    ultimately show ?thesis using that(1) x by blast
  next
    case None
    with r a b have "\<not> b" and d: "database_lookup h now later sc s2 = (Inr res, ts, s')"
      by (auto simp: resolve_handle_def split: bool.splits)
    from d h obtain u where u: "repo_get_by_short_code repo sc s2 = (Inr u, s')" "can_redirect now u"
      "res = result_of ''miss'' sc u" "ts = [TaskSet u]"
      by (auto simp: database_lookup_def resolves_over_def split: prod.splits sum.splits if_splits)
    from code_get [OF u(1)] positive_lookup_frame(2) [OF h a] negative_lookup_frame(2) [OF h b]
    have "u \<in> set (repl s)" "short_code u = sc" "deleted_at u = None" by simp_all
    with that(2) u show ?thesis by blast
  qed
qed

text \<open>The tasks of a request: at most one, about the row it read or the code it did not find.\<close>

lemma resolve_tasks:
  assumes "resolves_over repo cache h" "resolve_handle h now later sc s = (r, ts, s')" "x \<in> set ts"
  shows "x = TaskSetNotFound sc \<or> (\<exists>u \<in> set (repl s). x = TaskSet u \<and> short_code u = sc \<and> deleted_at u = None
            \<and> can_redirect now u)"
proof -
  obtain a s1 where a: "positive_lookup h now later sc s = (a, s1)" by fastforce
  obtain b s2 where b: "negative_lookup h now sc s1 = (b, s2)" by fastforce
  note frames = positive_lookup_frame(2) [OF assms(1) a] negative_lookup_frame(2) [OF assms(1) b]
  from assms(2,3) a b have d: "database_lookup h now later sc s2 = (r, ts, s')"
    by (auto simp: resolve_handle_def split: option.splits bool.splits)
  with assms(1,3) frames show ?thesis
    by (auto simp: database_lookup_def resolves_over_def dest!: code_get
          split: prod.splits sum.splits if_splits)
qed

lemma run_task_rows:
  assumes "rh_cache h = Some cache \<or> rh_cache h = None"
  shows "prim (run_task h t x s) = prim s" and "repl (run_task h t x s) = repl s"
proof -
  have "prim (run_task h t x s) = prim s \<and> repl (run_task h t x s) = repl s"
  proof (cases x)
    case (TaskSet u)
    then show ?thesis
      using assms by (cases "cache_set cache t u (rh_cache_ttl h) s") (auto dest: cache_set_rows)
  next
    case (TaskSetNotFound sc)
    then show ?thesis
      using assms by (cases "cache_set_not_found cache t sc (rh_negative_ttl h) s") (auto dest: cache_nf_rows)
  qed
  then show "prim (run_task h t x s) = prim s" and "repl (run_task h t x s) = repl s" by simp_all
qed

text \<open>After a task, a plain code shows the link the task wrote, or what it showed before.\<close>

lemma run_task_pos:
  assumes "rh_cache h = Some cache \<or> rh_cache h = None" and "plain_code y"
    and "pos t' y (run_task h t x s) = Some u"
  shows "pos t' y s = Some u \<or> (\<exists>v. x = TaskSet v \<and> short_code v = y \<and> u = as_cached v)"
proof (cases "rh_cache h")
  case None
  with assms show ?thesis by (cases x) auto
next
  case (Some c)
  with assms have c: "rh_cache h = Some cache" by simp
  show ?thesis
  proof (cases x)
    case (TaskSet v)
    obtain r s' where r: "cache_set cache t v (rh_cache_ttl h) s = (r, s')" by fastforce
    with TaskSet c assms(3) have p: "pos t' y s' = Some u" by simp
    show ?thesis
    proof (cases r)
      case (Inl e)
      with r p set_err show ?thesis by metis
    next
      case (Inr w)
      with set_ok [of t v "rh_cache_ttl h" s w s' y t'] r p assms(2) TaskSet show ?thesis
        by (auto split: if_splits)
    qed
  next
    case (TaskSetNotFound sc)
    obtain r s' where "cache_set_not_found cache t sc (rh_negative_ttl h) s = (r, s')" by fastforce
    with TaskSetNotFound c assms set_nf_pos [of t sc "rh_negative_ttl h" s r s' y t'] show ?thesis by simp
  qed
qed

end

end
