(* ===== verification/UserAgent.thy ===== *)
theory UserAgent
  imports Crypto GoTime
begin

text \<open>
  What the analytics derive from a request: \<open>pkg/useragent/parser.go\<close>, \<open>pkg/iphasher/hasher.go\<close> and
  \<open>pkg/geoip/lookup.go\<close>, and the classification and channel names of \<open>internal/domain/analytics/event.go\<close>.
\<close>

section \<open>User agents\<close>

record parsed_ua =
  pu_device_type :: string
  pu_browser_family :: string
  pu_os_family :: string
  pu_is_bot :: bool

definition bot_patterns :: "string list" where
  "bot_patterns =
     [''googlebot'', ''bingbot'', ''slurp'', ''duckduckbot'', ''baiduspider'', ''yandexbot'', ''sogou'', ''exabot'',
      ''facebot'', ''ia_archiver'', ''twitterbot'', ''linkedinbot'', ''whatsapp'', ''telegrambot'', ''semrushbot'',
      ''ahrefsbot'', ''mj12bot'', ''dotbot'', ''rogerbot'', ''screaming frog'', ''sitebulb'', ''uptimerobot'',
      ''pingdom'', ''site24x7'', ''statuscake'', ''newrelic'', ''datadog'', ''appdynamics'', ''curl/'', ''wget/'',
      ''python-requests'', ''python-urllib'', ''go-http-client'', ''axios/'', ''node-fetch'', ''okhttp'', ''java/'',
      ''apache-httpclient'', ''libwww-perl'', ''bot'', ''crawler'', ''spider'', ''scraper'', ''headless'',
      ''phantomjs'', ''selenium'']"

definition parse_os_family :: "string \<Rightarrow> string" where
  "parse_os_family lower =
     (if str_contains lower ''android'' then ''Android''
      else if str_contains lower ''iphone'' \<or> str_contains lower ''ipad'' \<or> str_contains lower ''ipod'' then ''iOS''
      else if str_contains lower ''windows'' then ''Windows''
      else if str_contains lower ''mac os x'' \<or> str_contains lower ''macos'' then ''macOS''
      else if str_contains lower ''linux'' then ''Linux''
      else if str_contains lower ''chromeos'' \<or> str_contains lower ''cros'' then ''ChromeOS''
      else ''unknown'')"

definition parse_device_type :: "string \<Rightarrow> string \<Rightarrow> string" where
  "parse_device_type lower os =
     (if str_contains lower ''ipad'' \<or> (str_contains lower ''android'' \<and> \<not> str_contains lower ''mobile'')
         \<or> str_contains lower ''tablet'' then ''tablet''
      else if str_contains lower ''mobile'' \<or> str_contains lower ''iphone'' \<or> str_contains lower ''ipod''
         \<or> os = ''Android'' \<or> os = ''iOS'' then ''mobile''
      else if os \<noteq> ''unknown'' then ''desktop''
      else ''unknown'')"

definition parse_browser_family :: "string \<Rightarrow> string" where
  "parse_browser_family lower =
     (if str_contains lower ''edg/'' \<or> str_contains lower ''edge/'' then ''Edge''
      else if str_contains lower ''opr/'' \<or> str_contains lower ''opera'' then ''Opera''
      else if str_contains lower ''samsungbrowser'' then ''Samsung Internet''
      else if str_contains lower ''chrome/'' \<and> \<not> str_contains lower ''chromium'' then ''Chrome''
      else if str_contains lower ''chromium'' then ''Chromium''
      else if str_contains lower ''firefox/'' \<or> str_contains lower ''fxios'' then ''Firefox''
      else if str_contains lower ''safari/'' \<and> str_contains lower ''version/'' then ''Safari''
      else if str_contains lower ''msie'' \<or> str_contains lower ''trident/'' then ''Internet Explorer''
      else ''unknown'')"

definition parse_ua :: "string \<Rightarrow> parsed_ua" where
  "parse_ua ua =
     (if ua = [] then
        \<lparr>pu_device_type = ''unknown'', pu_browser_family = ''unknown'', pu_os_family = ''unknown'', pu_is_bot = False\<rparr>
      else
        let lower = to_lower ua in
        if list_ex (str_contains lower) bot_patterns then
          \<lparr>pu_device_type = ''bot'', pu_browser_family = ''bot'', pu_os_family = ''unknown'', pu_is_bot = True\<rparr>
        else
          let os = parse_os_family lower in
          \<lparr>pu_device_type = parse_device_type lower os, pu_browser_family = parse_browser_family lower,
           pu_os_family = os, pu_is_bot = False\<rparr>)"

definition after_scheme :: "string \<Rightarrow> string" where
  "after_scheme s = (case str_index s ''://'' of None \<Rightarrow> s | Some i \<Rightarrow> drop (i + 3) s)"

definition before_path :: "string \<Rightarrow> string" where
  "before_path s = (case index_any s ''/?#'' of None \<Rightarrow> s | Some i \<Rightarrow> take i s)"

definition extract_referrer_domain :: "string \<Rightarrow> string" where
  "extract_referrer_domain referrer =
     (if referrer = [] then ''direct''
      else
        let s1 = before_path (after_scheme referrer);
            s2 = (case last_index_char s1 (CHR '':'') of
                    None \<Rightarrow> s1
                  | Some i \<Rightarrow> if \<not> str_contains (drop i s1) '']'' then take i s1 else s1);
            s3 = trim_space s2
        in if s3 = [] then ''unknown'' else to_lower s3)"

section \<open>Addresses\<close>

definition daily_salt :: "string \<Rightarrow> gotime \<Rightarrow> string" where
  "daily_salt key now = hex_encode (sha256 (string_bytes (key @ '':'' @ format_date now)))"

definition hash_with_date :: "string \<Rightarrow> string \<Rightarrow> gotime \<Rightarrow> string" where
  "hash_with_date key ip date =
     (if ip = [] then [] else hex_encode (sha256 (string_bytes (ip @ '':'' @ daily_salt key date))))"

text \<open>\<open>Hash\<close> reads the clock.\<close>

definition hash_ip :: "string \<Rightarrow> gotime \<Rightarrow> string \<Rightarrow> string" where
  "hash_ip key now ip =
     (if ip = [] then [] else hex_encode (sha256 (string_bytes (ip @ '':'' @ daily_salt key now))))"

definition geo_lookup :: "string \<Rightarrow> string" where "geo_lookup ip = ''XX''"

section \<open>The classification of the domain package\<close>

definition bot_signals :: "string list" where
  "bot_signals =
     [''googlebot'', ''bingbot'', ''slurp'', ''duckduckbot'', ''baiduspider'', ''yandexbot'', ''sogou'',
      ''facebookexternalhit'', ''twitterbot'', ''rogerbot'', ''linkedinbot'', ''embedly'', ''quora link preview'',
      ''showyoubot'', ''outbrain'', ''pinterest/0.'', ''developers.google.com'', ''applebot'', ''whatsapp'',
      ''semrushbot'', ''ahrefsbot'', ''mj12bot'', ''dotbot'', ''archive.org_bot'', ''curl/'', ''python-requests'',
      ''go-http-client'', ''wget/'', ''scrapy/'', ''headlesschrome'', ''phantomjs'']"

definition mobile_signals :: "string list" where
  "mobile_signals = [''mobile'', ''iphone'', ''ipod'', ''android'', ''blackberry'', ''windows phone'', ''opera mini'']"

definition classify_device :: "string \<Rightarrow> string \<times> bool" where
  "classify_device agent =
     (let ua = to_lower agent in
      if list_ex (str_contains ua) bot_signals then (''bot'', True)
      else if str_contains ua ''ipad'' \<or> (str_contains ua ''android'' \<and> \<not> str_contains ua ''mobile'')
          \<or> str_contains ua ''tablet'' then (''tablet'', False)
      else if list_ex (str_contains ua) mobile_signals then (''mobile'', False)
      else if ua = [] then (''unknown'', False)
      else (''desktop'', False))"

definition domain_referrer :: "string \<Rightarrow> string" where
  "domain_referrer referrer =
     (if referrer = [] then []
      else
        let r1 = before_path (after_scheme referrer);
            r2 = (case last_index_char r1 (CHR '':'') of None \<Rightarrow> r1 | Some i \<Rightarrow> take i r1)
        in to_lower (trim_space r2))"

section \<open>Lemmas\<close>

definition device_types :: "string list" where
  "device_types = [''mobile'', ''desktop'', ''tablet'', ''bot'', ''unknown'']"

lemma parse_ua_device: "pu_device_type (parse_ua ua) \<in> set device_types"
  by (simp add: parse_ua_def parse_device_type_def device_types_def Let_def)

lemma parse_ua_bot: "pu_is_bot (parse_ua ua) \<longleftrightarrow> (\<exists>p \<in> set bot_patterns. str_contains (to_lower ua) p)"
proof (cases "ua = []")
  case True
  then show ?thesis by (simp add: parse_ua_def bot_patterns_def)
next
  case False
  then show ?thesis by (simp add: parse_ua_def Let_def list_ex_iff)
qed

lemma hash_ip_length: "ip \<noteq> [] \<Longrightarrow> length (hash_ip key now ip) = 64"
  by (simp add: hash_ip_def)

text \<open>The hash depends on the day only: the same address has one hash a day.\<close>

lemma hash_ip_day: "format_date t = format_date u \<Longrightarrow> hash_ip key t ip = hash_ip key u ip"
  by (simp add: hash_ip_def daily_salt_def)

end
