(* ===== verification/UrlRepo.thy ===== *)
theory UrlRepo
  imports UrlPorts Postgres
begin

text \<open>
  \<open>internal/infrastructure/postgres/url_repository.go\<close> over the table \<open>urls\<close> of
  \<open>deployments/migrations/000001_create_urls_table.up.sql\<close> (with the foreign key of \<open>000002\<close>). The table
  is the list of its rows in insertion order. Writes go to the primary; reads go to the replica when one
  is configured, which holds the rows of an earlier state of the primary until it catches up, and
  to the primary otherwise (\<open>client.go\<close>).
\<close>

record url_db =
  udb_rows :: "url list"
  udb_replica :: "url list option"
  udb_workspaces :: "string list"
  udb_faults :: faults

text \<open>\<open>Client.Replica()\<close>\<close>

definition replica_rows :: "url_db \<Rightarrow> url list" where
  "replica_rows db = (case udb_replica db of None \<Rightarrow> udb_rows db | Some rs \<Rightarrow> rs)"

text \<open>A replica that has caught up.\<close>

definition replicate_urls :: "url_db \<Rightarrow> url_db" where
  "replicate_urls db = db\<lparr>udb_replica := map_option (\<lambda>_. udb_rows db) (udb_replica db)\<rparr>"

section \<open>Statements\<close>

text \<open>The row stored for an entity: its instants keep microseconds.\<close>

definition pg_row :: "url \<Rightarrow> url" where
  "pg_row u = u\<lparr>expires_at := map_option pg_time (expires_at u), created_at := pg_time (created_at u),
     updated_at := pg_time (updated_at u), deleted_at := map_option pg_time (deleted_at u)\<rparr>"

text \<open>The check constraints of the table, in the order PostgreSQL evaluates them: by name.\<close>

definition url_row_checks :: "url \<Rightarrow> pgx_err option" where
  "url_row_checks u =
     (if click_count u < 0 then Some (PgxError pg_check_violation ''urls_click_count_non_negative'' [])
      else if char_length (original_url u) > 8192
      then Some (PgxError pg_check_violation ''urls_original_url_max_length'' [])
      else if char_length (original_url u) = 0
      then Some (PgxError pg_check_violation ''urls_original_url_not_empty'' [])
      else if char_length (short_code u) < 3
      then Some (PgxError pg_check_violation ''urls_short_code_not_empty'' [])
      else if url_status u \<notin> {status_active, status_expired, status_disabled, status_deleted}
      then Some (PgxError pg_check_violation ''urls_status_check'' [])
      else None)"

text \<open>\<open>INSERT INTO urls\<close>: checks, then the unique indexes, then the foreign key at commit.\<close>

definition insert_url :: "url \<Rightarrow> url_db \<Rightarrow> (pgx_err + unit) \<times> url_db" where
  "insert_url u db =
     (case url_row_checks u of
        Some e \<Rightarrow> (Inl e, db)
      | None \<Rightarrow>
          if url_id u \<in> url_id ` set (udb_rows db) then (Inl (PgxError pg_unique_violation ''urls_pkey'' []), db)
          else if short_code u \<in> short_code ` set (udb_rows db)
          then (Inl (PgxError pg_unique_violation ''urls_short_code_unique'' []), db)
          else if workspace_id u \<notin> set (udb_workspaces db)
          then (Inl (PgxError pg_foreign_key_violation ''urls_workspace_fk'' []), db)
          else (Inr (), db\<lparr>udb_rows := udb_rows db @ [pg_row u]\<rparr>))"

text \<open>
  \<open>UPDATE urls SET ... WHERE p\<close>: the new rows and the number of rows affected, or the first violated check.
  The trigger \<open>urls_set_updated_at\<close> stamps every row updated.
\<close>

definition update_rows :: "gotime \<Rightarrow> (url \<Rightarrow> bool) \<Rightarrow> (url \<Rightarrow> url) \<Rightarrow> url list \<Rightarrow> pgx_err + (url list \<times> nat)" where
  "update_rows now p f rows =
     (let g = (\<lambda>r. pg_row ((f r)\<lparr>updated_at := now\<rparr>)) in
      case List.find (\<lambda>r. p r \<and> url_row_checks (g r) \<noteq> None) rows of
        Some r \<Rightarrow> Inl (the (url_row_checks (g r)))
      | None \<Rightarrow> Inr (map (\<lambda>r. if p r then g r else r) rows, length (filter p rows)))"

definition exec_update ::
  "gotime \<Rightarrow> (url \<Rightarrow> bool) \<Rightarrow> (url \<Rightarrow> url) \<Rightarrow> url_db \<Rightarrow> (pgx_err + nat) \<times> url_db" where
  "exec_update now p f db =
     (case next_fault (udb_faults db) of
        (Some e, fs) \<Rightarrow> (Inl e, db\<lparr>udb_faults := fs\<rparr>)
      | (None, fs) \<Rightarrow>
          (case update_rows now p f (udb_rows db) of
             Inl e \<Rightarrow> (Inl e, db\<lparr>udb_faults := fs\<rparr>)
           | Inr (rows, n) \<Rightarrow> (Inr n, db\<lparr>udb_faults := fs, udb_rows := rows\<rparr>)))"

text \<open>\<open>QueryRow\<close> on the replica: the first row the condition selects.\<close>

definition query_row :: "(url \<Rightarrow> bool) \<Rightarrow> url_db \<Rightarrow> (pgx_err + url) \<times> url_db" where
  "query_row p db =
     (case next_fault (udb_faults db) of
        (Some e, fs) \<Rightarrow> (Inl e, db\<lparr>udb_faults := fs\<rparr>)
      | (None, fs) \<Rightarrow>
          ((case List.find p (replica_rows db) of None \<Rightarrow> Inl PgxNoRows | Some u \<Rightarrow> Inr u),
           db\<lparr>udb_faults := fs\<rparr>))"

section \<open>Repository methods\<close>

definition create_url :: "url \<Rightarrow> url_db \<Rightarrow> unit result \<times> url_db" where
  "create_url u db =
     (case next_fault (udb_faults db) of
        (Some e, fs) \<Rightarrow> (Inl (translate_error e ''short_code''), db\<lparr>udb_faults := fs\<rparr>)
      | (None, fs) \<Rightarrow>
          (case insert_url u (db\<lparr>udb_faults := fs\<rparr>) of
             (Inl e, db') \<Rightarrow> (Inl (translate_error e ''short_code''), db')
           | (Inr x, db') \<Rightarrow> (Inr (), db')))"

text \<open>Zero rows affected is \<open>ErrNotFound\<close>, whatever the reason.\<close>

definition rows_affected :: "string \<Rightarrow> (pgx_err + nat) \<times> url_db \<Rightarrow> unit result \<times> url_db" where
  "rows_affected ctx r =
     (case r of
        (Inl e, db) \<Rightarrow> (Inl (translate_error e ctx), db)
      | (Inr n, db) \<Rightarrow> (if n = 0 then Inl (EUrl UrlErrNotFound) else Inr (), db))"

definition update_url :: "gotime \<Rightarrow> url \<Rightarrow> url_db \<Rightarrow> unit result \<times> url_db" where
  "update_url now u db =
     rows_affected ''urls'' (exec_update now (live_in (url_id u) (workspace_id u))
       (\<lambda>r. r\<lparr>original_url := original_url u, title := title u, url_status := url_status u,
              expires_at := expires_at u\<rparr>) db)"

definition soft_delete_url :: "gotime \<Rightarrow> string \<Rightarrow> string \<Rightarrow> url_db \<Rightarrow> unit result \<times> url_db" where
  "soft_delete_url now i ws db =
     rows_affected ''urls'' (exec_update now (live_in i ws)
       (\<lambda>r. r\<lparr>url_status := status_deleted, deleted_at := Some now\<rparr>) db)"

text \<open>An unknown short code is not an error here.\<close>

definition increment_click_count :: "gotime \<Rightarrow> string \<Rightarrow> url_db \<Rightarrow> unit result \<times> url_db" where
  "increment_click_count now sc db =
     (case exec_update now (\<lambda>r. short_code r = sc \<and> deleted_at r = None)
             (\<lambda>r. r\<lparr>click_count := click_count r + 1\<rparr>) db of
        (Inl e, db') \<Rightarrow> (Inl (translate_error e ''click_count''), db')
      | (Inr n, db') \<Rightarrow> (Inr (), db'))"

definition get_row :: "string \<Rightarrow> (url \<Rightarrow> bool) \<Rightarrow> url_db \<Rightarrow> url result \<times> url_db" where
  "get_row ctx p db =
     (case query_row p db of
        (Inl e, db') \<Rightarrow> (Inl (translate_error e ctx), db')
      | (Inr u, db') \<Rightarrow> (if deleted_at u \<noteq> None then Inl (EUrl UrlErrDeleted) else Inr u, db'))"

definition get_by_short_code :: "string \<Rightarrow> url_db \<Rightarrow> url result \<times> url_db" where
  "get_by_short_code sc db = get_row ''short_code'' (\<lambda>r. short_code r = sc) db"

definition get_by_id :: "string \<Rightarrow> string \<Rightarrow> url_db \<Rightarrow> url result \<times> url_db" where
  "get_by_id i ws db = get_row ''id'' (\<lambda>r. url_id r = i \<and> workspace_id r = ws) db"

section \<open>Listing\<close>

definition list_limit :: "int \<Rightarrow> nat" where
  "list_limit n = (if n \<le> 0 then 20 else if n > 100 then 100 else nat n)"

definition list_matches :: "list_filter \<Rightarrow> url \<Rightarrow> bool" where
  "list_matches f r =
     (let status_filter = (case lf_status f of None \<Rightarrow> [] | Some s \<Rightarrow> s);
          created_by_filter = (case lf_created_by f of None \<Rightarrow> [] | Some c \<Rightarrow> c)
      in workspace_id r = lf_workspace_id f \<and> deleted_at r = None
         \<and> (status_filter = [] \<or> url_status r = status_filter)
         \<and> (created_by_filter = [] \<or> created_by r = created_by_filter))"

definition list_query :: "list_filter \<Rightarrow> nat \<Rightarrow> url list \<Rightarrow> url list" where
  "list_query f fetch rows =
     take fetch (sort_key url_id
       (filter (\<lambda>r. list_matches f r \<and> (lf_cursor f = [] \<or> url_id r > lf_cursor f)) rows))"

definition list_urls :: "list_filter \<Rightarrow> url_db \<Rightarrow> (url list \<times> string) result \<times> url_db" where
  "list_urls f db =
     (case next_fault (udb_faults db) of
        (Some e, fs) \<Rightarrow> (Inl (translate_error e ''list''), db\<lparr>udb_faults := fs\<rparr>)
      | (None, fs) \<Rightarrow>
          let limit = list_limit (lf_limit f);
              urls = list_query f (limit + 1) (replica_rows db)
          in (Inr (if length urls > limit then (take limit urls, url_id (urls ! (limit - 1)))
                   else (urls, [])),
              db\<lparr>udb_faults := fs\<rparr>))"

definition pg_url_repository :: "url_db url_repository" where
  "pg_url_repository =
     \<lparr>repo_create = create_url, repo_get_by_short_code = get_by_short_code, repo_get_by_id = get_by_id,
      repo_update = update_url, repo_soft_delete = soft_delete_url, repo_list = list_urls,
      repo_increment = increment_click_count\<rparr>"

section \<open>The contract of the repository\<close>

lemma pg_row_simps [simp]:
  "url_key (pg_row u) = url_key u" "url_id (pg_row u) = url_id u" "short_code (pg_row u) = short_code u"
  "workspace_id (pg_row u) = workspace_id u" "original_url (pg_row u) = original_url u"
  "url_status (pg_row u) = url_status u" "click_count (pg_row u) = click_count u"
  "created_by (pg_row u) = created_by u" "title (pg_row u) = title u"
  "deleted_at (pg_row u) = None \<longleftrightarrow> deleted_at u = None"
  by (simp_all add: pg_row_def url_key_def)

lemma query_row_Inr: "query_row p db = (Inr u, db') \<Longrightarrow> u \<in> set (replica_rows db) \<and> p u"
  by (auto simp: query_row_def dest: find_Some split: prod.splits option.splits)

lemma query_row_frame: "query_row p db = (r, db') \<Longrightarrow> udb_rows db' = udb_rows db \<and> replica_rows db' = replica_rows db"
  by (auto simp: query_row_def replica_rows_def split: prod.splits option.splits)

lemma get_row_Inr: "get_row ctx p db = (Inr u, db') \<Longrightarrow> u \<in> set (replica_rows db) \<and> p u \<and> deleted_at u = None"
  by (auto simp: get_row_def dest: query_row_Inr split: prod.splits sum.splits if_splits)

lemma get_row_frame: "get_row ctx p db = (r, db') \<Longrightarrow> udb_rows db' = udb_rows db \<and> replica_rows db' = replica_rows db"
  by (auto simp: get_row_def dest: query_row_frame split: prod.splits sum.splits if_splits)

lemma get_row_err: "get_row ctx p db = (Inl e, db') \<Longrightarrow> \<not> errors_is e (EApp a)"
  by (auto simp: get_row_def split: prod.splits sum.splits if_splits)

lemma replica_rows_step:
  "udb_replica db' = udb_replica db \<Longrightarrow> replica_rows db' = replica_rows db \<or> replica_rows db' = udb_rows db'"
  by (simp add: replica_rows_def split: option.splits)

lemma create_url_Inr:
  "create_url u db = (Inr v, db') \<Longrightarrow>
     udb_rows db' = udb_rows db @ [pg_row u] \<and> url_row_checks u = None
     \<and> short_code u \<notin> short_code ` set (udb_rows db) \<and> url_id u \<notin> url_id ` set (udb_rows db)
     \<and> workspace_id u \<in> set (udb_workspaces db)"
  by (auto simp: create_url_def insert_url_def split: prod.splits option.splits sum.splits if_splits)

lemma create_url_Inl: "create_url u db = (Inl e, db') \<Longrightarrow> udb_rows db' = udb_rows db \<and> \<not> errors_is e (EApp a)"
  by (auto simp: create_url_def insert_url_def split: prod.splits option.splits sum.splits if_splits)

lemma create_url_frame: "create_url u db = (r, db') \<Longrightarrow> udb_replica db' = udb_replica db \<and> udb_workspaces db' = udb_workspaces db"
  by (auto simp: create_url_def insert_url_def split: prod.splits option.splits sum.splits if_splits)

text \<open>An update changes all the rows its condition selects, or none when it fails.\<close>

lemma exec_update_Inr:
  "exec_update now p f db = (Inr n, db') \<Longrightarrow>
     udb_rows db' = replace_rows p (\<lambda>r. pg_row ((f r)\<lparr>updated_at := now\<rparr>)) (udb_rows db)
     \<and> n = length (filter p (udb_rows db))"
  by (auto simp: exec_update_def update_rows_def replace_rows_def Let_def split: prod.splits option.splits sum.splits)

lemma exec_update_Inl: "exec_update now p f db = (Inl e, db') \<Longrightarrow> udb_rows db' = udb_rows db"
  by (auto simp: exec_update_def split: prod.splits option.splits sum.splits)

lemma exec_update_frame:
  "exec_update now p f db = (r, db') \<Longrightarrow> udb_replica db' = udb_replica db \<and> udb_workspaces db' = udb_workspaces db"
  by (auto simp: exec_update_def split: prod.splits option.splits sum.splits)

lemma rows_affected_Inr:
  "rows_affected ctx r = (Inr v, db') \<longleftrightarrow> (\<exists>n. r = (Inr n, db') \<and> n \<noteq> 0)"
  by (cases r; cases "fst r") (auto simp: rows_affected_def)

lemma rows_affected_Inl:
  "rows_affected ctx r = (Inl e, db') \<Longrightarrow>
     (\<exists>x. r = (Inl x, db') \<and> e = translate_error x ctx) \<or> (r = (Inr 0, db') \<and> e = EUrl UrlErrNotFound)"
  by (cases r; cases "fst r") (auto simp: rows_affected_def split: if_splits)

lemma rows_affected_snd: "snd (rows_affected ctx r) = snd r"
  by (cases r; cases "fst r") (auto simp: rows_affected_def)

lemma exec_update_some:
  assumes "rows_affected ctx (exec_update now p f db) = (Inr v, db')"
  shows "udb_rows db' = replace_rows p (\<lambda>r. pg_row ((f r)\<lparr>updated_at := now\<rparr>)) (udb_rows db)
     \<and> (\<exists>r \<in> set (udb_rows db). p r)"
  using assms by (fastforce simp: rows_affected_Inr filter_empty_conv dest: exec_update_Inr)

lemma exec_update_none:
  assumes "rows_affected ctx (exec_update now p f db) = (Inl e, db')"
  shows "udb_rows db' = udb_rows db"
proof -
  from rows_affected_Inl [OF assms] show ?thesis
  proof
    assume "exec_update now p f db = (Inr 0, db') \<and> e = EUrl UrlErrNotFound"
    then have eq: "udb_rows db' = replace_rows p (\<lambda>r. pg_row ((f r)\<lparr>updated_at := now\<rparr>)) (udb_rows db)"
      and "filter p (udb_rows db) = []" by (auto dest: exec_update_Inr)
    then have "\<forall>r \<in> set (udb_rows db). \<not> p r" by (simp add: filter_empty_conv)
    with eq show ?thesis by (simp add: replace_rows_def map_idI)
  qed (auto dest: exec_update_Inl)
qed

lemma write_frame:
  "rows_affected ctx (exec_update now p f db) = (r, db') \<Longrightarrow> udb_replica db' = udb_replica db"
  by (metis exec_update_frame prod.collapse rows_affected_snd snd_conv)

lemma list_urls_Inr:
  "list_urls f db = (Inr (us, c), db') \<Longrightarrow>
     us = take (list_limit (lf_limit f)) (list_query f (Suc (list_limit (lf_limit f))) (replica_rows db))"
  by (auto simp: list_urls_def Let_def split: prod.splits option.splits if_splits)

lemma list_urls_frame: "list_urls f db = (r, db') \<Longrightarrow> udb_rows db' = udb_rows db \<and> replica_rows db' = replica_rows db"
  by (auto simp: list_urls_def replica_rows_def Let_def split: prod.splits option.splits)

lemma list_query_set:
  "set (list_query f n rows) \<subseteq> {r \<in> set rows. workspace_id r = lf_workspace_id f \<and> deleted_at r = None}"
  by (auto simp: list_query_def list_matches_def Let_def dest!: in_set_takeD)

section \<open>The invariant of the table\<close>

text \<open>Ids and short codes are unique, also among the deleted rows, and every row passes the checks.\<close>

definition url_table_ok :: "url list \<Rightarrow> bool" where
  "url_table_ok rows =
     (distinct (map url_id rows) \<and> distinct (map short_code rows) \<and> (\<forall>r \<in> set rows. url_row_checks r = None))"

lemma url_row_checks_pg_row [simp]: "url_row_checks (pg_row u) = url_row_checks u"
  by (simp add: url_row_checks_def)

lemma url_table_ok_append:
  "url_table_ok rows \<Longrightarrow> url_row_checks u = None \<Longrightarrow> short_code u \<notin> short_code ` set rows \<Longrightarrow>
     url_id u \<notin> url_id ` set rows \<Longrightarrow> url_table_ok (rows @ [pg_row u])"
  by (auto simp: url_table_ok_def)

lemma create_url_table_ok:
  assumes "url_table_ok (udb_rows db)"
  shows "url_table_ok (udb_rows (snd (create_url u db)))"
proof (cases "create_url u db")
  case (Pair r db')
  with assms show ?thesis
    by (cases r) (auto dest: create_url_Inr create_url_Inl simp: url_table_ok_append)
qed

lemma update_rows_checks:
  "update_rows now p f rows = Inr (rows', n) \<Longrightarrow> \<forall>r \<in> set rows. url_row_checks r = None \<Longrightarrow>
     \<forall>r \<in> set rows'. url_row_checks r = None"
  by (auto simp: update_rows_def Let_def find_None_iff split: option.splits)

lemma replace_rows_map_key:
  assumes "\<And>r. g (f r) = g r"
  shows "map g (replace_rows p f rows) = map g rows"
  using assms by (simp add: replace_rows_def)

lemma exec_update_table_ok:
  assumes "url_table_ok (udb_rows db)" and key: "\<And>r. url_key (f r) = url_key r"
  shows "url_table_ok (udb_rows (snd (exec_update now p f db)))"
proof -
  obtain r db' where e: "exec_update now p f db = (r, db')" by fastforce
  show ?thesis
  proof (cases r)
    case (Inl x)
    with e assms(1) show ?thesis by (simp add: exec_update_Inl)
  next
    case (Inr n)
    with e have rows: "udb_rows db' = replace_rows p (\<lambda>r. pg_row ((f r)\<lparr>updated_at := now\<rparr>)) (udb_rows db)"
      by (auto dest: exec_update_Inr)
    from e Inr have "\<exists>k. update_rows now p f (udb_rows db) = Inr (udb_rows db', k)"
      by (auto simp: exec_update_def split: prod.splits option.splits sum.splits)
    with assms(1) have "\<forall>r \<in> set (udb_rows db'). url_row_checks r = None"
      by (auto simp: url_table_ok_def dest: update_rows_checks)
    moreover have "map url_id (udb_rows db') = map url_id (udb_rows db)"
      "map short_code (udb_rows db') = map short_code (udb_rows db)"
      unfolding rows by (rule replace_rows_map_key; use key in \<open>simp add: url_key_def\<close>)+
    ultimately show ?thesis using e assms(1) by (simp add: url_table_ok_def)
  qed
qed

lemma write_table_ok:
  assumes "url_table_ok (udb_rows db)"
  shows "url_table_ok (udb_rows (snd (update_url now u db)))"
    and "url_table_ok (udb_rows (snd (soft_delete_url now i ws db)))"
    and "url_table_ok (udb_rows (snd (increment_click_count now sc db)))"
proof -
  show "url_table_ok (udb_rows (snd (update_url now u db)))"
    unfolding update_url_def rows_affected_snd
    by (rule exec_update_table_ok [OF assms]) (simp add: url_key_def)
  show "url_table_ok (udb_rows (snd (soft_delete_url now i ws db)))"
    unfolding soft_delete_url_def rows_affected_snd
    by (rule exec_update_table_ok [OF assms]) (simp add: url_key_def)
  have "snd (increment_click_count now sc db) = snd (exec_update now (\<lambda>r. short_code r = sc \<and> deleted_at r = None)
      (\<lambda>r. r\<lparr>click_count := click_count r + 1\<rparr>) db)"
    by (simp add: increment_click_count_def split: prod.splits sum.splits)
  then show "url_table_ok (udb_rows (snd (increment_click_count now sc db)))"
    by (simp only:) (rule exec_update_table_ok [OF assms], simp add: url_key_def)
qed

text \<open>A short code leads to at most one row.\<close>

lemma url_table_ok_code: "url_table_ok rows \<Longrightarrow> r \<in> set rows \<Longrightarrow> r' \<in> set rows \<Longrightarrow> short_code r = short_code r' \<Longrightarrow> r = r'"
  by (auto simp: url_table_ok_def distinct_map inj_on_def)

section \<open>The repository meets its contract\<close>

interpretation pg_urls: url_store pg_url_repository udb_rows replica_rows pg_row url_table_ok
proof unfold_locales
  fix now u v and s s' :: url_db
  assume "repo_update pg_url_repository now u s = (Inr v, s')"
  then show "udb_rows s' = replace_rows (live_in (url_id u) (workspace_id u)) (pg_row \<circ> set_mutable now u) (udb_rows s)
      \<and> (\<exists>r \<in> set (udb_rows s). live_in (url_id u) (workspace_id u) r)"
    by (simp add: pg_url_repository_def update_url_def exec_update_some set_mutable_def o_def)
next
  fix now i ws v and s s' :: url_db
  assume "repo_soft_delete pg_url_repository now i ws s = (Inr v, s')"
  then show "udb_rows s' = replace_rows (live_in i ws) (pg_row \<circ> set_deleted now) (udb_rows s)
      \<and> (\<exists>r \<in> set (udb_rows s). live_in i ws r)"
    by (simp add: pg_url_repository_def soft_delete_url_def exec_update_some set_deleted_def o_def)
next
  fix f us c and s s' :: url_db
  assume "repo_list pg_url_repository f s = (Inr (us, c), s')"
  then have "us = take (list_limit (lf_limit f)) (list_query f (Suc (list_limit (lf_limit f))) (replica_rows s))"
    by (simp add: pg_url_repository_def list_urls_Inr)
  then have "set us \<subseteq> set (list_query f (Suc (list_limit (lf_limit f))) (replica_rows s))"
    by (simp add: set_take_subset)
  then show "set us \<subseteq> {r \<in> set (replica_rows s). workspace_id r = lf_workspace_id f \<and> deleted_at r = None}"
    using list_query_set by blast
next
  fix u e and s s' :: url_db
  assume "repo_create pg_url_repository u s = (Inl e, s')"
  then show "udb_rows s' = udb_rows s \<and> (\<forall>a. \<not> errors_is e (EApp a))"
    using create_url_Inl by (simp add: pg_url_repository_def)
next
  fix u v and s s' :: url_db
  assume "repo_create pg_url_repository u s = (Inr v, s')"
  then show "udb_rows s' = udb_rows s @ [pg_row u] \<and> short_code u \<notin> short_code ` set (udb_rows s) \<and>
      url_id u \<notin> url_id ` set (udb_rows s)"
    using create_url_Inr by (simp add: pg_url_repository_def)
next
  fix sc u and s s' :: url_db
  assume "repo_get_by_short_code pg_url_repository sc s = (Inr u, s')"
  then show "u \<in> set (replica_rows s) \<and> short_code u = sc \<and> deleted_at u = None"
    by (auto simp: pg_url_repository_def get_by_short_code_def dest: get_row_Inr)
next
  fix u r and s s' :: url_db
  assume "repo_create pg_url_repository u s = (r, s')" and "url_table_ok (udb_rows s)"
  then show "url_table_ok (udb_rows s')" using create_url_table_ok [of s u] by (simp add: pg_url_repository_def)
next
  fix now u r and s s' :: url_db
  assume "repo_update pg_url_repository now u s = (r, s')" and "url_table_ok (udb_rows s)"
  then show "url_table_ok (udb_rows s')" using write_table_ok(1) [of s now u] by (simp add: pg_url_repository_def)
next
  fix now i ws r and s s' :: url_db
  assume "repo_soft_delete pg_url_repository now i ws s = (r, s')" and "url_table_ok (udb_rows s)"
  then show "url_table_ok (udb_rows s')" using write_table_ok(2) [of s now i ws] by (simp add: pg_url_repository_def)
qed (auto simp: pg_url_repository_def update_url_def soft_delete_url_def get_by_short_code_def get_by_id_def live_in_def
      dest: get_row_frame get_row_Inr get_row_err exec_update_none list_urls_frame create_url_frame write_frame
      intro: replica_rows_step [THEN disjE])

section \<open>Cursor pagination\<close>

text \<open>
  A client that follows the cursors from the first page on, with at most \<open>fuel\<close> requests: the rows it
  has seen, \<open>None\<close> when a request fails or the fuel does not reach the last page.
\<close>

fun list_pages :: "nat \<Rightarrow> list_filter \<Rightarrow> url_db \<Rightarrow> url list option" where
  "list_pages 0 f db = None"
| "list_pages (Suc fuel) f db =
     (case list_urls f db of
        (Inl e, db') \<Rightarrow> None
      | (Inr (us, c), db') \<Rightarrow>
          if c = [] then Some us
          else map_option (\<lambda>rest. us @ rest) (list_pages fuel (f\<lparr>lf_cursor := c\<rparr>) db'))"

definition list_spec :: "list_filter \<Rightarrow> url_db \<Rightarrow> url list" where
  "list_spec f db = sort_key url_id (filter (list_matches f) (replica_rows db))"

lemma list_limit_bounds: "0 < list_limit n" "list_limit n \<le> 100"
  by (auto simp: list_limit_def)

lemma list_matches_cursor [simp]: "list_matches (f\<lparr>lf_cursor := c\<rparr>) = list_matches f"
  by (auto simp: list_matches_def fun_eq_iff)

lemma filter_after:
  fixes f :: "'a \<Rightarrow> 'b :: linorder"
  assumes "sorted_wrt (<) (map f (a @ x # b))"
  shows "filter (\<lambda>r. f r > f x) (a @ x # b) = b"
  using assms by (fastforce simp: sorted_wrt_append filter_id_conv filter_empty_conv)

lemma filter_after_nth:
  fixes f :: "'a \<Rightarrow> 'b :: linorder"
  assumes "sorted_wrt (<) (map f xs)" and "xs = a @ b" and "k < length b"
  shows "filter (\<lambda>r. f r > f (b ! k)) xs = drop (Suc k) b"
proof -
  have "xs = (a @ take k b) @ b ! k # drop (Suc k) b"
    using assms by (simp add: id_take_nth_drop [symmetric])
  with filter_after [of f "a @ take k b" "b ! k" "drop (Suc k) b"] assms(1) show ?thesis by simp
qed

lemma list_query_sorted:
  "list_query f n rows =
     take n (filter (\<lambda>r. lf_cursor f = [] \<or> url_id r > lf_cursor f) (sort_key url_id (filter (list_matches f) rows)))"
proof -
  have "filter (\<lambda>r. list_matches f r \<and> (lf_cursor f = [] \<or> url_id r > lf_cursor f)) rows
      = filter (\<lambda>r. lf_cursor f = [] \<or> url_id r > lf_cursor f) (filter (list_matches f) rows)"
    by (simp add: conj_commute)
  then show ?thesis by (simp add: list_query_def filter_sort)
qed

lemma list_spec_strict:
  assumes "distinct (map url_id (replica_rows db))"
  shows "sorted_wrt (<) (map url_id (list_spec f db))"
proof -
  have "distinct (map url_id (filter (list_matches f) (replica_rows db)))"
    using assms by (simp add: distinct_map_filter)
  then have "distinct (map url_id (list_spec f db))"
    by (simp add: list_spec_def distinct_map inj_on_def)
  moreover have "sorted (map url_id (list_spec f db))" by (simp add: list_spec_def)
  ultimately show ?thesis by (simp add: strict_sorted_iff)
qed

lemma list_pages_from:
  assumes "udb_faults db = []" and "distinct (map url_id (replica_rows db))"
    and "list_spec f0 db = a @ b" and "list_matches f = list_matches f0"
    and "filter (\<lambda>r. lf_cursor f = [] \<or> url_id r > lf_cursor f) (list_spec f0 db) = b"
    and "\<forall>r \<in> set (replica_rows db). url_id r \<noteq> []" and "length b < fuel"
  shows "list_pages fuel f db = Some b"
  using assms
proof (induction fuel arbitrary: f a b)
  case (Suc fuel)
  define L where "L = list_limit (lf_limit f)"
  have L: "0 < L" by (simp add: L_def list_limit_bounds)
  have q: "list_query f (L + 1) (replica_rows db) = take (L + 1) b"
    using Suc.prems by (simp add: list_query_sorted list_spec_def)
  have db: "db\<lparr>udb_faults := []\<rparr> = db" using Suc.prems(1) by simp
  show ?case
  proof (cases "length b \<le> L")
    case True
    then show ?thesis
      using q Suc.prems(1) by (simp add: list_urls_def Let_def L_def)
  next
    case False
    let ?c = "url_id (b ! (L - 1))"
    have c: "?c \<noteq> []"
    proof -
      have "b ! (L - 1) \<in> set (list_spec f0 db)"
        using False Suc.prems(3) by simp
      then show ?thesis using Suc.prems(6) by (auto simp: list_spec_def)
    qed
    have page: "list_urls f db = (Inr (take L b, ?c), db)"
      using q Suc.prems(1) False L db by (simp add: list_urls_def Let_def L_def [symmetric])
    have "list_pages fuel (f\<lparr>lf_cursor := ?c\<rparr>) db = Some (drop L b)"
    proof (rule Suc.IH [where a = "a @ take L b"])
      show "filter (\<lambda>r. lf_cursor (f\<lparr>lf_cursor := ?c\<rparr>) = [] \<or> lf_cursor (f\<lparr>lf_cursor := ?c\<rparr>) < url_id r)
            (list_spec f0 db) = drop L b"
        using filter_after_nth [OF list_spec_strict [OF Suc.prems(2)] Suc.prems(3), of "L - 1"] False L c by simp
    qed (use Suc.prems False L in auto)
    with page c show ?thesis by simp
  qed
qed simp

end
