(* ===== verification/Analytics.thy ===== *)
theory Analytics
  imports EventBuffer UserAgent UrlRepo HttpJson
begin

text \<open>
  Click analytics: the events of \<open>internal/application/analytics/event.go\<close> and
  \<open>internal/domain/analytics/event.go\<close>, the ingestion service of
  \<open>internal/application/analytics/ingestion_service.go\<close> and the table \<open>redirect_events\<close> of
  \<open>internal/infrastructure/postgres/analytics_repository.go\<close>, whose flush also counts the clicks in \<open>urls\<close>.
\<close>

section \<open>Events\<close>

record redirect_event =
  re_id :: string
  re_short_code :: string
  re_workspace_id :: string
  re_occurred_at :: gotime
  re_ip_hash :: string
  re_user_agent :: string
  re_device_type :: string
  re_browser_family :: string
  re_os_family :: string
  re_is_bot :: bool
  re_country_code :: string
  re_referrer_domain :: string
  re_referrer_raw :: string
  re_request_id :: string

record click_event =
  ce_short_code :: string
  ce_workspace_id :: string
  ce_occurred_at :: gotime
  ce_referrer :: string
  ce_device_type :: string
  ce_country_code :: string
  ce_is_bot :: bool
  ce_request_id :: string

definition channel_prefix :: string where "channel_prefix = ''click''"

definition channel_name :: "string \<Rightarrow> string \<Rightarrow> string" where
  "channel_name ws sc = channel_prefix @ '':'' @ ws @ '':'' @ sc"

definition click_channel :: "click_event \<Rightarrow> string" where
  "click_channel e = channel_name (ce_workspace_id e) (ce_short_code e)"

definition workspace_pattern :: "string \<Rightarrow> string" where
  "workspace_pattern ws = channel_prefix @ '':'' @ ws @ '':*''"

definition click_event_json :: "click_event \<Rightarrow> json" where
  "click_event_json e =
     JObj ([(''short_code'', JStr (ce_short_code e)), (''workspace_id'', JStr (ce_workspace_id e)),
            (''occurred_at'', JStr (format_rfc3339_nano (ce_occurred_at e)))]
           @ opt_string ''referrer'' (ce_referrer e)
           @ [(''device_type'', JStr (ce_device_type e)), (''country_code'', JStr (ce_country_code e)),
              (''is_bot'', JBool (ce_is_bot e)), (''request_id'', JStr (ce_request_id e))])"

section \<open>Capture\<close>

text \<open>\<open>None\<close>: the zero time.\<close>

record capture_request =
  cr_short_code :: string
  cr_workspace_id :: string
  cr_raw_ip :: string
  cr_user_agent :: string
  cr_referrer :: string
  cr_request_id :: string
  cr_occurred_at :: "gotime option"

definition build_redirect_event :: "string \<Rightarrow> gotime \<Rightarrow> string \<Rightarrow> capture_request \<Rightarrow> redirect_event" where
  "build_redirect_event key now ulid q =
     (let ua = parse_ua (cr_user_agent q) in
      \<lparr>re_id = ulid, re_short_code = cr_short_code q, re_workspace_id = cr_workspace_id q,
       re_occurred_at = (case cr_occurred_at q of None \<Rightarrow> now | Some t \<Rightarrow> t),
       re_ip_hash = (if \<not> pu_is_bot ua \<and> cr_raw_ip q \<noteq> [] then hash_ip key now (cr_raw_ip q) else []),
       re_user_agent = take 512 (cr_user_agent q), re_device_type = pu_device_type ua,
       re_browser_family = pu_browser_family ua, re_os_family = pu_os_family ua, re_is_bot = pu_is_bot ua,
       re_country_code = geo_lookup (cr_raw_ip q), re_referrer_domain = extract_referrer_domain (cr_referrer q),
       re_referrer_raw = take 1024 (cr_referrer q), re_request_id = cr_request_id q\<rparr>)"

definition click_event_of :: "redirect_event \<Rightarrow> click_event" where
  "click_event_of e =
     \<lparr>ce_short_code = re_short_code e, ce_workspace_id = re_workspace_id e, ce_occurred_at = re_occurred_at e,
      ce_referrer = re_referrer_domain e, ce_device_type = re_device_type e, ce_country_code = re_country_code e,
      ce_is_bot = re_is_bot e, ce_request_id = re_request_id e\<rparr>"

definition analytics_channel_size :: nat where "analytics_channel_size = 2048"
definition analytics_batch_size :: nat where "analytics_batch_size = 100"

text \<open>The second result is the click to publish, in a goroutine, when the service has a publisher.\<close>

definition analytics_capture ::
  "bool \<Rightarrow> redirect_event \<Rightarrow> (redirect_event, 'db) buffered \<Rightarrow> (redirect_event, 'db) buffered \<times> click_event option" where
  "analytics_capture has_publisher e b =
     (offer analytics_channel_size e b, if has_publisher \<and> \<not> re_is_bot e then Some (click_event_of e) else None)"

section \<open>The table\<close>

text \<open>
  \<open>redirect_events\<close> beside \<open>urls\<close>, on one connection. As for the audit trail, the migration creates the partitions
  of three months. A row whose key is taken is skipped. The database reads its own clock.
\<close>

record event_db =
  ed_events :: "redirect_event list"
  ed_from :: gotime
  ed_until :: gotime
  ed_now :: gotime
  ed_urls :: url_db

definition pg_event :: "redirect_event \<Rightarrow> redirect_event" where
  "pg_event e = e\<lparr>re_occurred_at := pg_time (re_occurred_at e)\<rparr>"

definition event_texts :: "redirect_event \<Rightarrow> string list" where
  "event_texts e = [re_id e, re_short_code e, re_workspace_id e, re_ip_hash e, re_user_agent e, re_device_type e,
     re_browser_family e, re_os_family e, re_country_code e, re_referrer_domain e, re_referrer_raw e, re_request_id e]"

definition event_row_checks :: "gotime \<Rightarrow> gotime \<Rightarrow> redirect_event \<Rightarrow> pgx_err option" where
  "event_row_checks lo hi e =
     (if \<not> list_all pg_text_ok (event_texts e) then Some (PgxError pg_invalid_text ''invalid byte sequence for encoding'' [])
      else if char_length (re_country_code e) > 2 then Some (PgxError ''22001'' ''value too long'' [])
      else if pg_time (re_occurred_at e) < lo \<or> hi \<le> pg_time (re_occurred_at e)
      then Some (PgxError pg_check_violation ''redirect_events partition'' [])
      else if char_length (re_short_code e) < 3
      then Some (PgxError pg_check_violation ''redirect_events_short_code_not_empty'' [])
      else if re_device_type e \<notin> set ([] # device_types)
      then Some (PgxError pg_check_violation ''redirect_events_device_type_check'' [])
      else None)"

definition event_key :: "redirect_event \<Rightarrow> string \<times> gotime" where "event_key e = (re_id e, re_occurred_at e)"

fun insert_events :: "gotime \<Rightarrow> gotime \<Rightarrow> redirect_event list \<Rightarrow> redirect_event list \<Rightarrow> pgx_err + redirect_event list" where
  "insert_events lo hi [] rows = Inr rows"
| "insert_events lo hi (e # es) rows =
     (case event_row_checks lo hi e of
        Some err \<Rightarrow> Inl err
      | None \<Rightarrow>
          if event_key (pg_event e) \<in> event_key ` set rows then insert_events lo hi es rows
          else insert_events lo hi es (rows @ [pg_event e]))"

definition event_wrap :: "string \<Rightarrow> (pgx_err + 'a) \<times> event_db \<Rightarrow> 'a result \<times> event_db" where
  "event_wrap pre r = (case r of (Inl e, db) \<Rightarrow> (Inl (EWrap pre (EOther (pgx_err_text e)) []), db) | (Inr x, db) \<Rightarrow> (Inr x, db))"

definition set_url_faults :: "faults \<Rightarrow> event_db \<Rightarrow> event_db" where
  "set_url_faults fs db = db\<lparr>ed_urls := (ed_urls db)\<lparr>udb_faults := fs\<rparr>\<rparr>"

definition write_many_events :: "(redirect_event, event_db) writer" where
  "write_many_events es db =
     (if es = [] then (Inr (), db)
      else event_wrap (''analytics: batch insert '' @ show_nat (length es) @ '' events: '')
        (case next_fault (udb_faults (ed_urls db)) of
           (Some err, fs) \<Rightarrow> (Inl err, set_url_faults fs db)
         | (None, fs) \<Rightarrow>
             (case insert_events (ed_from db) (ed_until db) es (ed_events db) of
                Inl err \<Rightarrow> (Inl err, set_url_faults fs db)
              | Inr rows \<Rightarrow> (Inr (), (set_url_faults fs db)\<lparr>ed_events := rows\<rparr>))))"

text \<open>One update for each code, in the order the map is iterated; the first failure ends the loop.\<close>

fun increment_click_counts :: "(string \<times> int) list \<Rightarrow> event_db \<Rightarrow> unit result \<times> event_db" where
  "increment_click_counts [] db = (Inr (), db)"
| "increment_click_counts ((sc, n) # cs) db =
     (case exec_update (ed_now db) (\<lambda>r. short_code r = sc \<and> deleted_at r = None)
             (\<lambda>r. r\<lparr>click_count := click_count r + n\<rparr>) (ed_urls db) of
        (Inl e, us) \<Rightarrow>
          (Inl (EWrap (''analytics: incrementing click_count for '' @ go_quote sc @ '': '') (EOther (pgx_err_text e)) []),
           db\<lparr>ed_urls := us\<rparr>)
      | (Inr k, us) \<Rightarrow> increment_click_counts cs (db\<lparr>ed_urls := us\<rparr>))"

section \<open>The flush\<close>

definition human_clicks :: "string \<Rightarrow> redirect_event list \<Rightarrow> int" where
  "human_clicks sc es = int (length (filter (\<lambda>e. \<not> re_is_bot e \<and> re_short_code e = sc) es))"

definition click_counts :: "redirect_event list \<Rightarrow> (string \<times> int) list" where
  "click_counts es = map (\<lambda>sc. (sc, human_clicks sc es)) (remdups (map re_short_code (filter (\<lambda>e. \<not> re_is_bot e) es)))"

text \<open>
  \<open>flush\<close> of a batch: insert, then count; an error of the second step is logged. \<open>ord\<close> is the order in which the
  map of counts is iterated.
\<close>

definition analytics_write :: "((string \<times> int) list \<Rightarrow> (string \<times> int) list) \<Rightarrow> (redirect_event, event_db) writer" where
  "analytics_write ord es db =
     (case write_many_events es db of
        (Inl err, db1) \<Rightarrow> (Inl err, db1)
      | (Inr _, db1) \<Rightarrow> (Inr (), snd (increment_click_counts (ord (click_counts es)) db1)))"

definition analytics_flush ::
  "((string \<times> int) list \<Rightarrow> (string \<times> int) list) \<Rightarrow> (redirect_event, event_db) buffered \<Rightarrow> (redirect_event, event_db) buffered" where
  "analytics_flush ord = flush_batch (analytics_write ord)"

definition analytics_receive ::
  "((string \<times> int) list \<Rightarrow> (string \<times> int) list) \<Rightarrow> (redirect_event, event_db) buffered \<Rightarrow> (redirect_event, event_db) buffered" where
  "analytics_receive ord = receive analytics_batch_size (analytics_write ord)"

text \<open>
  \<open>Shutdown\<close> waits for the drainer, which writes its batch, and then writes what is left on the channel; when the
  drainer does not return in time, it gives up.
\<close>

definition analytics_shutdown ::
  "((string \<times> int) list \<Rightarrow> (string \<times> int) list) \<Rightarrow> (redirect_event, event_db) buffered
     \<Rightarrow> (redirect_event, event_db) buffered \<times> int" where
  "analytics_shutdown ord b =
     (if bf_running b then (b, 0)
      else (write_events (analytics_write ord) (bf_channel b) (b\<lparr>bf_channel := []\<rparr>), 0))"

end
