(* ===== verification/GoPath.thy ===== *)
theory GoPath
  imports Prelude
begin

text \<open>What the program uses of the packages \<open>path\<close> and \<open>path/filepath\<close>, on paths with slashes.\<close>

text \<open>\<open>path.Clean\<close> of a rooted path: the second argument holds the segments kept so far, last first.\<close>

fun clean_segments :: "string list \<Rightarrow> string list \<Rightarrow> string list" where
  "clean_segments [] kept = rev kept"
| "clean_segments (p # ps) kept =
     (if p = [] \<or> p = ''.'' then clean_segments ps kept
      else if p = ''..'' then clean_segments ps (drop 1 kept)
      else clean_segments ps (p # kept))"

definition path_clean :: "string \<Rightarrow> string" where
  "path_clean p = CHR ''/'' # str_join ''/'' (clean_segments (split_on (CHR ''/'') p) [])"

text \<open>The part of a path up to its last slash.\<close>

definition path_dir :: "string \<Rightarrow> string" where
  "path_dir p = (case last_index_char p (CHR ''/'') of None \<Rightarrow> [] | Some i \<Rightarrow> take (Suc i) p)"

text \<open>\<open>filepath.Join(base, name)\<close> for an absolute base directory.\<close>

definition path_join :: "string \<Rightarrow> string \<Rightarrow> string" where
  "path_join base name = path_clean (if name = [] then base else base @ ''/'' @ name)"

section \<open>One file name under a directory\<close>

lemma clean_segments_snoc:
  "p \<noteq> [] \<Longrightarrow> p \<noteq> ''.'' \<Longrightarrow> p \<noteq> ''..'' \<Longrightarrow> clean_segments (ps @ [p]) kept = clean_segments ps kept @ [p]"
  by (induction ps kept rule: clean_segments.induct) auto

lemma split_on_snoc:
  "x \<notin> set b \<Longrightarrow> split_on x (a @ x # b) = split_on x a @ [b]"
  by (induction a) (auto simp: split_on_id split: list.splits)

lemma str_join_snoc_inject: "str_join sep (ps @ [a]) = str_join sep (ps @ [b]) \<longleftrightarrow> a = b"
  by (induction ps) (auto simp: str_join_Cons)

definition file_name :: "string \<Rightarrow> bool" where
  "file_name n \<longleftrightarrow> n \<noteq> [] \<and> n \<noteq> ''.'' \<and> n \<noteq> ''..'' \<and> CHR ''/'' \<notin> set n"

lemma path_join_inject:
  assumes "file_name m" and "file_name n"
  shows "path_join base m = path_join base n \<longleftrightarrow> m = n"
  using assms
  by (auto simp: path_join_def path_clean_def file_name_def split_on_snoc clean_segments_snoc str_join_snoc_inject)

end
