(* ===== verification/RedirectHttp.thy ===== *)
theory RedirectHttp
  imports HttpHandlers Resolve Analytics GoPath
begin

text \<open>
  \<open>internal/interfaces/http/handler/redirect.go\<close>: the handler of \<open>GET /{shortcode}\<close>, with what it uses of
  \<open>http.Redirect\<close>.
\<close>

section \<open>http.Redirect\<close>

text \<open>
  \<open>url.Parse\<close> of a reference: its scheme and host, or nothing when it is refused. Unlike \<open>ParseRequestURI\<close> it
  takes a fragment, unescaped like a path, and a path without a scheme.
\<close>

definition parse_relative :: "string \<Rightarrow> (string \<times> string) result" where
  "parse_relative raw =
     (if list_ex is_ctl raw then Inl (EOther ''net/url: invalid control character in URL'')
      else if raw = ''*'' then Inr ([], [])
      else bind_result (get_scheme raw) (\<lambda>(sch, rest0).
        let scheme = to_lower sch; (rest, q) = cut_query rest0 in
        if \<not> has_prefix rest ''/'' \<and> scheme \<noteq> [] then Inr (scheme, [])
        else if \<not> has_prefix rest ''/'' \<and> CHR '':'' \<in> set (hd (split_on (CHR ''/'') rest))
        then Inl (EOther ''first path segment in URL cannot contain colon'')
        else if (scheme \<noteq> [] \<or> \<not> has_prefix rest ''///'') \<and> has_prefix rest ''//'' then
          (let a = drop 2 rest;
               (auth, path) = (case str_index a ''/'' of None \<Rightarrow> (a, []) | Some i \<Rightarrow> (take i a, drop i a)) in
           bind_result (parse_authority auth) (\<lambda>(user, h).
           bind_result (unescape EncPath path) (\<lambda>p. Inr (scheme, h))))
        else bind_result (unescape EncPath rest) (\<lambda>p. Inr (scheme, []))))"

definition parse_reference :: "string \<Rightarrow> (string \<times> string) result" where
  "parse_reference raw =
     (case str_cut raw (CHR ''#'') of
        None \<Rightarrow> parse_relative raw
      | Some (u, frag) \<Rightarrow>
          bind_result (parse_relative u) (\<lambda>sh. bind_result (unescape EncPath frag) (\<lambda>f. Inr sh)))"

definition has_suffix_slash :: "string \<Rightarrow> bool" where
  "has_suffix_slash s = (s \<noteq> [] \<and> last s = CHR ''/'')"

text \<open>A target without scheme and host is made absolute against the path of the request.\<close>

definition redirect_target :: "request \<Rightarrow> string \<Rightarrow> string" where
  "redirect_target r target =
     (case parse_reference target of
        Inl e \<Rightarrow> target
      | Inr (scheme, h) \<Rightarrow>
          if scheme \<noteq> [] \<or> h \<noteq> [] then target
          else
            let full = (if target = [] \<or> hd target \<noteq> CHR ''/''
                        then path_dir (if rq_path r = [] then ''/'' else rq_path r) @ target else target);
                (u, query) = (case str_index full ''?'' of None \<Rightarrow> (full, []) | Some i \<Rightarrow> (take i full, drop i full));
                cleaned = path_clean u
            in (if has_suffix_slash u \<and> \<not> has_suffix_slash cleaned then cleaned @ ''/'' else cleaned) @ query)"

definition hex_escape_non_ascii :: "string \<Rightarrow> string" where
  "hex_escape_non_ascii s =
     concat (map (\<lambda>c. if byte c \<ge> 128 then [CHR ''%'', hex_digit (byte c div 16), hex_digit (byte c mod 16)] else [c]) s)"

definition html_escape_char :: "char \<Rightarrow> string" where
  "html_escape_char c =
     (if c = CHR ''&'' then ''&amp;'' else if c = CHR ''<'' then ''&lt;'' else if c = CHR ''>'' then ''&gt;''
      else if byte c = 34 then ''&#34;'' else if byte c = 39 then ''&#39;'' else [c])"

definition html_escape :: "string \<Rightarrow> string" where "html_escape s = concat (map html_escape_char s)"

definition http_redirect :: "request \<Rightarrow> string \<Rightarrow> (string \<times> string) list \<Rightarrow> response" where
  "http_redirect r target hs =
     (let u = redirect_target r target; quote = char_of (34::nat); get = (rq_method r = ''GET'') in
      \<lparr>rs_status = 302,
       rs_headers = hs @ [(''Location'', hex_escape_non_ascii u)]
         @ (if get \<or> rq_method r = ''HEAD'' then [(''Content-Type'', ''text/html; charset=utf-8'')] else []),
       rs_body = (if get then TextBody (''<a href='' @ [quote] @ html_escape u @ [quote] @ ''>Found</a>.'' @ [char_of (10::nat), char_of (10::nat)])
                  else NoBody)\<rparr>)"

section \<open>The handler\<close>

record 's redirect_deps =
  rdd_resolve :: "string \<Rightarrow> 's \<Rightarrow> resolve_result result \<times> 's"
  rdd_capture :: "(capture_request \<Rightarrow> 's \<Rightarrow> 's) option"
  rdd_webhooks :: "'s dispatcher"

definition capture_of :: "gotime \<Rightarrow> request \<Rightarrow> resolve_result \<Rightarrow> capture_request" where
  "capture_of now r x =
     \<lparr>cr_short_code = rr_short_code x, cr_workspace_id = rr_workspace_id x, cr_raw_ip = rq_remote_addr r,
      cr_user_agent = rq_header r ''User-Agent'', cr_referrer = rq_header r ''Referer'', cr_request_id = rq_id r,
      cr_occurred_at = Some now\<rparr>"

definition redirect_event_of :: "gotime \<Rightarrow> request \<Rightarrow> resolve_result \<Rightarrow> webhook_event" where
  "redirect_event_of now r x =
     \<lparr>we_type = event_redirect_received, we_event_id = rr_short_code x @ '':'' @ rq_id r,
      we_workspace_id = rr_workspace_id x, we_occurred_at = now,
      we_data = [(''short_code'', JStr (rr_short_code x)), (''original_url'', JStr (rr_original_url x)),
        (''user_agent'', JStr (rq_header r ''User-Agent'')), (''referrer'', JStr (rq_header r ''Referer'')),
        (''cache_status'', JStr (rr_cache_status x))]\<rparr>"

definition redirect_http :: "'s redirect_deps \<Rightarrow> gotime \<Rightarrow> 's handler" where
  "redirect_http h now r s =
     (let sc = rq_param r ''shortcode'' in
      if sc = [] then (resp_not_found (rq_path r), s)
      else (case rdd_resolve h sc s of
              (Inl err, s1) \<Rightarrow> (redirect_error_response r err, s1)
            | (Inr x, s1) \<Rightarrow>
                (let s2 = (case rdd_capture h of None \<Rightarrow> s1 | Some capture \<Rightarrow> capture (capture_of now r x) s1)
                 in (http_redirect r (rr_original_url x) [(''Cache-Control'', ''no-store'')],
                     fire (rdd_webhooks h) (redirect_event_of now r x) s2))))"

section \<open>Lemmas\<close>

lemma http_redirect_simps [simp]:
  "rs_status (http_redirect r u hs) = 302"
  "(k, v) \<in> set hs \<Longrightarrow> (k, v) \<in> set (rs_headers (http_redirect r u hs))"
  "(''Location'', hex_escape_non_ascii (redirect_target r u)) \<in> set (rs_headers (http_redirect r u hs))"
  by (simp_all add: http_redirect_def Let_def)

text \<open>A target with a scheme is sent as it is.\<close>

lemma get_scheme_loop_upto:
  "get_scheme_loop raw acc s = Inr (sch, rest) \<Longrightarrow> sch \<noteq> [] \<Longrightarrow>
     \<exists>pre. s = pre @ CHR '':'' # rest \<and> CHR ''#'' \<notin> set pre
       \<and> (\<forall>raw' rest'. get_scheme_loop raw' acc (pre @ CHR '':'' # rest') = Inr (sch, rest'))"
proof (induction raw acc s rule: get_scheme_loop.induct)
  case (2 raw acc c cs)
  show ?case
  proof (cases "c = CHR '':'' \<and> \<not> is_letter c \<and> \<not> (GoUrl.is_digit c \<or> c \<in> set ''+-.'')")
    case True
    with 2(3,4) show ?thesis by (intro exI [of _ "[]"]) (auto split: if_splits)
  next
    case False
    with 2(3,4) have go: "is_letter c \<or> GoUrl.is_digit c \<or> c \<in> set ''+-.''"
      and rec: "get_scheme_loop raw (acc @ [c]) cs = Inr (sch, rest)" by (auto split: if_splits)
    from go rec 2(3,4) have "is_letter c \<or> acc \<noteq> []" by (auto split: if_splits)
    moreover obtain pre where pre: "cs = pre @ CHR '':'' # rest" "CHR ''#'' \<notin> set pre"
      "\<And>raw' rest'. get_scheme_loop raw' (acc @ [c]) (pre @ CHR '':'' # rest') = Inr (sch, rest')"
    proof (cases "is_letter c")
      case True
      then show ?thesis using 2(1) rec 2(4) that by blast
    next
      case False
      with go rec 2(2-4) that \<open>is_letter c \<or> acc \<noteq> []\<close> show ?thesis by blast
    qed
    moreover from go have "c \<noteq> CHR ''#''" by (auto simp: is_letter_def GoUrl.is_digit_def byte_def)
    ultimately show ?thesis using go by (intro exI [of _ "c # pre"]) auto
  qed
qed simp

lemma get_scheme_before_fragment:
  assumes "get_scheme raw = Inr (sch, rest)" and "sch \<noteq> []" and "str_cut raw (CHR ''#'') = Some (u, f)"
  shows "\<exists>rest'. get_scheme u = Inr (sch, rest')"
proof -
  from get_scheme_loop_upto assms(1,2) obtain pre where pre: "raw = pre @ CHR '':'' # rest" "CHR ''#'' \<notin> set pre"
    "\<And>raw' rest'. get_scheme_loop raw' [] (pre @ CHR '':'' # rest') = Inr (sch, rest')"
    unfolding get_scheme_def by blast
  from assms(3) have "raw = u @ CHR ''#'' # f" "CHR ''#'' \<notin> set u" by (auto simp: str_cut_Some)
  with pre(1,2) obtain r1 where "u = pre @ CHR '':'' # r1"
    by (auto simp: append_eq_append_conv2 Cons_eq_append_conv append_eq_Cons_conv)
  with pre(3) show ?thesis by (auto simp: get_scheme_def)
qed

lemma parse_relative_scheme:
  assumes "get_scheme raw = Inr (sch, rest)" and "sch \<noteq> []" and "parse_relative raw = Inr (scheme, h)"
  shows "scheme = to_lower sch"
  using assms
  by (auto simp: parse_relative_def get_scheme_def is_letter_def GoUrl.is_digit_def byte_def bind_result_def Let_def
        split: sum.splits if_splits prod.splits option.splits)

lemma redirect_target_scheme:
  assumes "get_scheme target = Inr (sch, rest)" and "sch \<noteq> []"
  shows "redirect_target r target = target"
proof (cases "parse_reference target")
  case (Inl e)
  then show ?thesis by (simp add: redirect_target_def)
next
  case (Inr sh)
  obtain scheme h where sh: "sh = (scheme, h)" by (cases sh) auto
  have "scheme = to_lower sch"
  proof (cases "str_cut target (CHR ''#'')")
    case None
    with Inr sh assms show ?thesis by (auto simp: parse_reference_def intro: parse_relative_scheme)
  next
    case (Some a)
    obtain u f where a: "a = (u, f)" by (cases a) auto
    with Inr sh Some have "parse_relative u = Inr (scheme, h)"
      by (auto simp: parse_reference_def bind_result_def split: sum.splits)
    with Some a assms show ?thesis using get_scheme_before_fragment parse_relative_scheme by blast
  qed
  with assms(2) have "scheme \<noteq> []" by (simp add: to_lower_def)
  with Inr sh show ?thesis by (simp add: redirect_target_def)
qed

end
