(* ===== verification/RateLimit.thy ===== *)
theory RateLimit
  imports Complex_Main Errors
begin

text \<open>
  \<open>internal/domain/ratelimit/policy.go\<close>: tiers, endpoint classes, the policy matrix, the result of a check with
  its headers, and the keys of buckets; then the contract of a limiter, as the middleware relies on it, and
  the bound on admitted requests that follows from it. Token counts are exact rationals: the \<open>float64\<close> of the
  code and the Lua numbers round, the model does not.
\<close>

type_synonym tier = string
type_synonym endpoint_class = string

definition tier_unauthenticated :: tier where "tier_unauthenticated = ''unauthenticated''"
definition tier_free :: tier where "tier_free = ''free''"
definition tier_pro :: tier where "tier_pro = ''pro''"
definition tier_enterprise :: tier where "tier_enterprise = ''enterprise''"
definition class_redirect :: endpoint_class where "class_redirect = ''redirect''"
definition class_read :: endpoint_class where "class_read = ''read''"
definition class_write :: endpoint_class where "class_write = ''write''"

lemmas tier_defs = tier_unauthenticated_def tier_free_def tier_pro_def tier_enterprise_def
  class_redirect_def class_read_def class_write_def

record policy =
  pol_limit :: int
  pol_window :: duration
  pol_burst_factor :: int

definition bucket_capacity :: "policy \<Rightarrow> int" where
  "bucket_capacity p = (if pol_burst_factor p \<le> 1 then pol_limit p else pol_limit p * pol_burst_factor p)"

text \<open>\<open>float64(p.Limit) / p.Window.Seconds()\<close>\<close>

definition refill_rate_per_second :: "policy \<Rightarrow> rat" where
  "refill_rate_per_second p = of_int (pol_limit p) / (of_int (pol_window p) / of_int second)"

abbreviation pol :: "int \<Rightarrow> int \<Rightarrow> policy" where
  "pol l b \<equiv> \<lparr>pol_limit = l, pol_window = 60 * second, pol_burst_factor = b\<rparr>"

definition default_policies :: "tier \<rightharpoonup> endpoint_class \<rightharpoonup> policy" where
  "default_policies =
     [tier_unauthenticated \<mapsto> [class_redirect \<mapsto> pol 300 2, class_read \<mapsto> pol 10 1, class_write \<mapsto> pol 10 1],
      tier_free \<mapsto> [class_redirect \<mapsto> pol 1000 2, class_read \<mapsto> pol 100 1, class_write \<mapsto> pol 100 1],
      tier_pro \<mapsto> [class_redirect \<mapsto> pol 10000 2, class_read \<mapsto> pol 1000 1, class_write \<mapsto> pol 1000 1],
      tier_enterprise \<mapsto> [class_redirect \<mapsto> pol 100000 3, class_read \<mapsto> pol 10000 2, class_write \<mapsto> pol 10000 2]]"

text \<open>The fallback is the entry for unauthenticated writes.\<close>

definition get_policy :: "tier \<Rightarrow> endpoint_class \<Rightarrow> policy" where
  "get_policy tier cls =
     (case default_policies tier of
        Some tier_policies \<Rightarrow> (case tier_policies cls of Some p \<Rightarrow> p | None \<Rightarrow> pol 10 1)
      | None \<Rightarrow> pol 10 1)"

section \<open>Results\<close>

record rl_result =
  rl_allowed :: bool
  rl_remaining :: int
  rl_limit :: int
  rl_reset_at :: gotime
  rl_retry_after :: duration

text \<open>The verb \<open>%.0f\<close> of \<open>Seconds()\<close>: to the nearest integer, a tie to the even one.\<close>

definition round_seconds :: "duration \<Rightarrow> int" where
  "round_seconds d =
     (let q = d div second; r = d mod second in
      if 2 * r < second \<or> (2 * r = second \<and> even q) then q else q + 1)"

definition rl_headers :: "rl_result \<Rightarrow> (string \<times> string) list" where
  "rl_headers r =
     [(''RateLimit-Limit'', show_int (rl_limit r)),
      (''RateLimit-Remaining'', show_int (rl_remaining r)),
      (''RateLimit-Reset'', show_int (unix_seconds (rl_reset_at r)))]
     @ (if rl_allowed r then [] else [(''Retry-After'', show_int (round_seconds (rl_retry_after r)))])"

definition identity_key :: "string \<Rightarrow> tier \<Rightarrow> endpoint_class \<Rightarrow> string \<Rightarrow> string" where
  "identity_key service tier cls ident =
     ''rl:'' @ service @ '':'' @ tier @ '':'' @ cls @ '':'' @ replace_char (CHR '':'') (CHR ''_'') ident"

section \<open>Properties of policies and keys\<close>

lemma default_policies_ran:
  "default_policies tier = Some m \<Longrightarrow> m cls = Some p \<Longrightarrow>
     p \<in> {pol 300 2, pol 10 1, pol 1000 2, pol 100 1, pol 10000 2, pol 1000 1, pol 100000 3, pol 10000 2}"
  by (auto simp: default_policies_def split: if_splits)

lemma get_policy_cases:
  "get_policy tier cls \<in> {pol 300 2, pol 10 1, pol 1000 2, pol 100 1, pol 10000 2, pol 1000 1, pol 100000 3, pol 10000 2}"
proof (cases "default_policies tier")
  case (Some m)
  then show ?thesis using default_policies_ran [OF Some] by (cases "m cls") (auto simp: get_policy_def)
qed (simp add: get_policy_def)

lemma get_policy_burst:
  "get_policy tier cls = pol 100000 3 \<Longrightarrow> tier = tier_enterprise \<and> cls = class_redirect"
  by (auto simp: get_policy_def default_policies_def second_def split: if_splits option.splits)

text \<open>A policy whose bucket is full again after two windows, the time a bucket is kept.\<close>

definition policy_ok :: "policy \<Rightarrow> bool" where
  "policy_ok p = (0 < pol_limit p \<and> pol_window p = 60 * second \<and> pol_burst_factor p \<le> 2)"

lemma get_policy_ok:
  "\<not> (tier = tier_enterprise \<and> cls = class_redirect) \<Longrightarrow> policy_ok (get_policy tier cls)"
  using get_policy_cases [of tier cls] get_policy_burst [of tier cls] by (auto simp: policy_ok_def)

lemma bucket_capacity_bounds:
  "policy_ok p \<Longrightarrow> pol_limit p \<le> bucket_capacity p \<and> bucket_capacity p \<le> 2 * pol_limit p \<and> 0 < bucket_capacity p"
  by (auto simp: policy_ok_def bucket_capacity_def intro: order_trans [OF _ mult_left_mono])

text \<open>Keys keep services, tiers and classes apart; identities only up to \<open>:\<close> and \<open>_\<close>.\<close>

lemma identity_key_inject:
  assumes "CHR '':'' \<notin> set s" "CHR '':'' \<notin> set t" "CHR '':'' \<notin> set c"
    and "CHR '':'' \<notin> set s'" "CHR '':'' \<notin> set t'" "CHR '':'' \<notin> set c'"
  shows "identity_key s t c i = identity_key s' t' c' i' \<longleftrightarrow>
     s = s' \<and> t = t' \<and> c = c' \<and> replace_char (CHR '':'') (CHR ''_'') i = replace_char (CHR '':'') (CHR ''_'') i'"
  using assms by (auto simp: identity_key_def append_sep_inject)

section \<open>The contract of a limiter\<close>

text \<open>
  \<open>level p t k s\<close> is the number of tokens in the bucket of \<open>k\<close> at the instant \<open>t\<close>. A check admits the request
  iff a token is there and takes it; a failed check changes nothing; time adds at most the refill rate.
  \<open>good p k t s\<close> is the provider's invariant of a bucket at \<open>t\<close>.
\<close>

definition refill :: "policy \<Rightarrow> int \<Rightarrow> rat" where
  "refill p ms = of_int ms * (refill_rate_per_second p / 1000)"

locale limiter =
  fixes check :: "gotime \<Rightarrow> gotime \<Rightarrow> string \<Rightarrow> policy \<Rightarrow> 's \<Rightarrow> rl_result result \<times> 's"
    and level :: "policy \<Rightarrow> gotime \<Rightarrow> string \<Rightarrow> 's \<Rightarrow> rat"
    and good :: "policy \<Rightarrow> string \<Rightarrow> gotime \<Rightarrow> 's \<Rightarrow> bool"
  assumes level_bounds: "policy_ok p \<Longrightarrow> good p k t s \<Longrightarrow> 0 \<le> level p t k s \<and> level p t k s \<le> of_int (bucket_capacity p)"
    and level_refill: "policy_ok p \<Longrightarrow> good p k t s \<Longrightarrow> t \<le> t' \<Longrightarrow>
          level p t' k s \<le> level p t k s + refill p (unix_millis t' - unix_millis t)"
    and good_later: "good p k t s \<Longrightarrow> t \<le> t' \<Longrightarrow> good p k t' s"
    and check_good: "policy_ok p \<Longrightarrow> good p k now s \<Longrightarrow> check now later k p s = (rr, s') \<Longrightarrow> good p k now s'"
    and check_ok: "policy_ok p \<Longrightarrow> good p k now s \<Longrightarrow> check now later k p s = (Inr r, s') \<Longrightarrow>
          (rl_allowed r \<longleftrightarrow> level p now k s \<ge> 1)
          \<and> level p now k s' = level p now k s - (if rl_allowed r then 1 else 0)"
    and check_err: "check now later k p s = (Inl e, s') \<Longrightarrow> level p t k s' = level p t k s"
    and check_other: "check now later k p s = (rr, s') \<Longrightarrow> k \<noteq> k' \<Longrightarrow>
          level p' t k' s' = level p' t k' s \<and> (good p' k' t s \<longrightarrow> good p' k' t s')"

text \<open>Checks made one after the other: for each its instants, key and policy. The number of those on \<open>k\<close> that
  were admitted.\<close>

type_synonym check_event = "gotime \<times> gotime \<times> string \<times> policy"

fun admitted :: "(gotime \<Rightarrow> gotime \<Rightarrow> string \<Rightarrow> policy \<Rightarrow> 's \<Rightarrow> rl_result result \<times> 's) \<Rightarrow>
    string \<Rightarrow> check_event list \<Rightarrow> 's \<Rightarrow> nat" where
  "admitted check k [] s = 0"
| "admitted check k ((now, later, k', p) # es) s =
     (case check now later k' p s of
        (r, s') \<Rightarrow> (case r of Inr res \<Rightarrow> (if k' = k \<and> rl_allowed res then 1 else 0) | Inl e \<Rightarrow> 0)
                   + admitted check k es s')"

definition event_time :: "check_event \<Rightarrow> gotime" where "event_time e = fst e"

lemma refill_add: "refill p (a + b) = refill p a + refill p b"
  by (simp add: refill_def algebra_simps)

lemma refill_nonneg: "policy_ok p \<Longrightarrow> 0 \<le> ms \<Longrightarrow> 0 \<le> refill p ms"
  by (simp add: refill_def refill_rate_per_second_def policy_ok_def second_def)

context limiter
begin

text \<open>No sequence of checks admits more than the tokens there are and those that time adds.\<close>

lemma admitted_bound:
  assumes "policy_ok p" and "good p k t s"
    and "sorted (map event_time es)" and "\<forall>e \<in> set es. t \<le> event_time e \<and> event_time e \<le> t'"
    and "\<forall>now later q. (now, later, k, q) \<in> set es \<longrightarrow> q = p" and "t \<le> t'"
  shows "of_nat (admitted check k es s) \<le> level p t k s + refill p (unix_millis t' - unix_millis t)"
  using assms
proof (induction es arbitrary: s t)
  case Nil
  have "unix_millis t \<le> unix_millis t'" using Nil.prems(6) by (simp add: unix_millis_def zdiv_mono1 millisecond_def)
  with Nil level_bounds [of p k t s] refill_nonneg [of p "unix_millis t' - unix_millis t"] show ?case by simp
next
  case (Cons e es)
  obtain now later k' q where e: "e = (now, later, k', q)" by (cases e) auto
  obtain r s' where c: "check now later k' q s = (r, s')" by fastforce
  have t: "t \<le> now" "now \<le> t'" using Cons.prems(4) by (auto simp: e event_time_def)
  have g: "good p k now s" using good_later Cons.prems(2) t(1) by blast
  define n :: nat where "n = (case r of Inr res \<Rightarrow> (if k' = k \<and> rl_allowed res then 1 else 0) | Inl e \<Rightarrow> 0)"
  have step: "of_nat n + level p now k s' \<le> level p now k s \<and> good p k now s'"
  proof (cases "k' = k")
    case True
    with Cons.prems(5) have q: "q = p" by (auto simp: e)
    show ?thesis
    proof (cases r)
      case (Inl x)
      with c True q check_err [of now later k p s x s' now] check_good [OF Cons.prems(1) g] show ?thesis
        by (auto simp: n_def)
    next
      case (Inr res)
      with c True q check_ok [OF Cons.prems(1) g] check_good [OF Cons.prems(1) g] show ?thesis
        by (auto simp: n_def)
    qed
  next
    case False
    with c check_other [OF c False, of p now] g show ?thesis by (auto simp: n_def split: sum.splits)
  qed
  have "of_nat (admitted check k es s') \<le> level p now k s' + refill p (unix_millis t' - unix_millis now)"
    using Cons.prems step t by (intro Cons.IH) (auto simp: e event_time_def)
  moreover have "level p now k s \<le> level p t k s + refill p (unix_millis now - unix_millis t)"
    using level_refill [OF Cons.prems(1,2) t(1)] .
  moreover have "refill p (unix_millis t' - unix_millis t)
      = refill p (unix_millis now - unix_millis t) + refill p (unix_millis t' - unix_millis now)"
    by (simp flip: refill_add)
  moreover have "admitted check k (e # es) s = n + admitted check k es s'"
    by (simp add: e c n_def)
  ultimately show ?case using step by simp
qed

end

end
