(* ===== verification/RateLimiter.thy ===== *)
theory RateLimiter
  imports RateLimit Redis
begin

text \<open>
  \<open>internal/infrastructure/redis/ratelimit.go\<close>: the Lua script of the token bucket and \<open>TokenBucketLimiter.Check\<close>.
  A bucket is the value \<open>RBucket tokens last_refill_ms\<close>, the text \<open>tokens:last_refill_ms\<close> of the script. The script
  runs atomically; a value of another kind under its key is the runtime error Lua raises on it.
\<close>

definition ceil_div :: "int \<Rightarrow> int \<Rightarrow> int" where "ceil_div a b = - ((- a) div b)"

text \<open>The state the script loads: tokens and the instant of the last refill.\<close>

definition load_bucket :: "gotime \<Rightarrow> string \<Rightarrow> int \<Rightarrow> int \<Rightarrow> redis_db \<Rightarrow> (rat \<times> int) option" where
  "load_bucket now key capacity now_ms db =
     (case live_value now key db of
        None \<Rightarrow> Some (of_int capacity, now_ms)
      | Some (RBucket tokens last_refill_ms) \<Rightarrow> Some (tokens, last_refill_ms)
      | Some v \<Rightarrow> None)"

definition token_bucket_script ::
  "gotime \<Rightarrow> string \<Rightarrow> int \<Rightarrow> rat \<Rightarrow> int \<Rightarrow> int \<Rightarrow> int \<Rightarrow> redis_db \<Rightarrow> (gerr + int \<times> int \<times> int) \<times> redis_db" where
  "token_bucket_script now key capacity refill_rate now_ms cost ttl_ms db =
     (case load_bucket now key capacity now_ms db of
        None \<Rightarrow> (Inl (EOther ''ERR user_script: attempt to perform arithmetic on a nil value''), db)
      | Some (tokens0, last_refill_ms) \<Rightarrow>
          let elapsed_ms = max 0 (now_ms - last_refill_ms);
              new_tokens = of_int elapsed_ms * refill_rate;
              tokens1 = min (of_int capacity) (tokens0 + new_tokens);
              (tokens2, allowed, remaining) =
                (if tokens1 \<ge> of_int cost then (tokens1 - of_int cost, 1, \<lfloor>tokens1 - of_int cost\<rfloor>)
                 else (tokens1, 0, 0));
              ttl_s = ceil_div ttl_ms 1000;
              db' = put_value key (RBucket tokens2 now_ms) (expiry_of now (ttl_s * second)) db;
              tokens_needed = of_int capacity - tokens2;
              ms_to_full = (if refill_rate > 0 then \<lceil>tokens_needed / refill_rate\<rceil> else ttl_ms)
          in (Inr (allowed, remaining, now_ms + ms_to_full), db'))"

text \<open>\<open>later\<close> is the instant at which the wait is computed, after the script has run.\<close>

definition limiter_check :: "gotime \<Rightarrow> gotime \<Rightarrow> string \<Rightarrow> policy \<Rightarrow> redis_db \<Rightarrow> rl_result result \<times> redis_db" where
  "limiter_check now later key p db =
     (let now_ms = unix_millis now;
          capacity = bucket_capacity p;
          refill_per_ms = refill_rate_per_second p / 1000;
          ttl_ms = (pol_window p div millisecond) * 2
      in case redis_cmd (token_bucket_script now key capacity refill_per_ms now_ms 1 ttl_ms) db of
           (Inl e, db') \<Rightarrow> (Inl (EWrap ''ratelimit: executing token bucket script: '' e []), db')
         | (Inr (Inl e), db') \<Rightarrow> (Inl (EWrap ''ratelimit: executing token bucket script: '' e []), db')
         | (Inr (Inr (allowed, remaining, reset_ms)), db') \<Rightarrow>
             let reset_at = reset_ms * millisecond;
                 retry_after = (if allowed = 1 then 0 else max 0 (reset_at - later))
             in (Inr \<lparr>rl_allowed = (allowed = 1), rl_remaining = remaining, rl_limit = bucket_capacity p,
                      rl_reset_at = reset_at, rl_retry_after = retry_after\<rparr>, db'))"

section \<open>The limiter meets its contract\<close>

definition bucket_level :: "policy \<Rightarrow> gotime \<Rightarrow> string \<Rightarrow> redis_db \<Rightarrow> rat" where
  "bucket_level p t k db =
     (case live_value t k db of
        None \<Rightarrow> of_int (bucket_capacity p)
      | Some (RBucket tokens last_refill_ms) \<Rightarrow>
          min (of_int (bucket_capacity p)) (tokens + refill p (max 0 (unix_millis t - last_refill_ms)))
      | Some v \<Rightarrow> 0)"

text \<open>A bucket was written by a check at an instant \<open>w\<close> and runs out two windows after it.\<close>

definition bucket_good :: "policy \<Rightarrow> string \<Rightarrow> gotime \<Rightarrow> redis_db \<Rightarrow> bool" where
  "bucket_good p k t db =
     (case rdb_map db k of
        None \<Rightarrow> True
      | Some (RBucket tokens last_refill_ms, e) \<Rightarrow>
          0 \<le> tokens \<and> tokens \<le> of_int (bucket_capacity p)
          \<and> (\<exists>w \<le> t. last_refill_ms = unix_millis w \<and> e = Some (w + 120 * second))
      | Some v \<Rightarrow> False)"

lemma policy_ttl: "policy_ok p \<Longrightarrow> expiry_of now (ceil_div ((pol_window p div millisecond) * 2) 1000 * second) = Some (now + 120 * second)"
  by (simp add: policy_ok_def ceil_div_def expiry_of_def second_def millisecond_def)

text \<open>The script on a loaded bucket whose level is \<open>l\<close>.\<close>

lemma script_run:
  assumes "load_bucket now key capacity now_ms db = Some (t0, ms)"
    and "l = min (of_int capacity) (t0 + of_int (max 0 (now_ms - ms)) * rate)" and "0 < rate"
    and "l' = l - (if l \<ge> 1 then 1 else 0)"
  shows "token_bucket_script now key capacity rate now_ms 1 ttl_ms db =
     (Inr (if l \<ge> 1 then 1 else 0, if l \<ge> 1 then \<lfloor>l'\<rfloor> else 0, now_ms + \<lceil>(of_int capacity - l') / rate\<rceil>),
      put_value key (RBucket l' now_ms) (expiry_of now (ceil_div ttl_ms 1000 * second)) db)"
proof (cases "l \<ge> 1")
  case True
  with assms(4) have "l' = l - 1" by simp
  with True assms(1,3) show ?thesis
    unfolding token_bucket_script_def assms(1) option.case prod.case Let_def assms(2) [symmetric] by simp
next
  case False
  with assms(4) have "l' = l" by simp
  with False assms(1,3) show ?thesis
    unfolding token_bucket_script_def assms(1) option.case prod.case Let_def assms(2) [symmetric] by simp
qed

text \<open>The outcome of a check on a good bucket.\<close>

lemma limiter_check_good:
  assumes p: "policy_ok p" and g: "bucket_good p k now db" and c: "limiter_check now later k p db = (Inr r, db')"
  defines "l \<equiv> bucket_level p now k db"
  defines "l' \<equiv> l - (if l \<ge> 1 then 1 else 0)"
  shows "(rl_allowed r \<longleftrightarrow> l \<ge> 1) \<and> rl_remaining r = (if l \<ge> 1 then \<lfloor>l'\<rfloor> else 0) \<and> rl_limit r = bucket_capacity p
     \<and> rl_reset_at r = (unix_millis now + \<lceil>(of_int (bucket_capacity p) - l') / (refill_rate_per_second p / 1000)\<rceil>) * millisecond
     \<and> rl_retry_after r = (if l \<ge> 1 then 0 else max 0 (rl_reset_at r - later))
     \<and> rdb_map db' = (rdb_map db)(k \<mapsto> (RBucket l' (unix_millis now), Some (now + 120 * second)))"
proof -
  have rate: "0 < refill_rate_per_second p / 1000"
    using p by (simp add: policy_ok_def refill_rate_per_second_def second_def)
  from c obtain fs out db1 where n: "next_outcome (rdb_faults db) = (None, fs)"
    and s: "token_bucket_script now k (bucket_capacity p) (refill_rate_per_second p / 1000) (unix_millis now) 1
        ((pol_window p div millisecond) * 2) (db\<lparr>rdb_faults := fs\<rparr>) = (Inr out, db1)"
    and db': "db' = db1"
    and r: "r = (case out of (allowed, remaining, reset_ms) \<Rightarrow>
        \<lparr>rl_allowed = (allowed = 1), rl_remaining = remaining, rl_limit = bucket_capacity p,
         rl_reset_at = reset_ms * millisecond,
         rl_retry_after = (if allowed = 1 then 0 else max 0 (reset_ms * millisecond - later))\<rparr>)"
    by (auto simp: limiter_check_def redis_cmd_Inr Let_def split: prod.splits sum.splits)
  from g have lb: "\<exists>t0 ms. load_bucket now k (bucket_capacity p) (unix_millis now) db = Some (t0, ms)
      \<and> l = min (of_int (bucket_capacity p)) (t0 + refill p (max 0 (unix_millis now - ms)))"
    by (auto simp: bucket_good_def load_bucket_def l_def bucket_level_def live_value_def refill_def
          split: option.splits redis_val.splits prod.splits)
  then obtain t0 ms where t0: "load_bucket now k (bucket_capacity p) (unix_millis now) (db\<lparr>rdb_faults := fs\<rparr>) = Some (t0, ms)"
    and l: "l = min (of_int (bucket_capacity p)) (t0 + of_int (max 0 (unix_millis now - ms)) * (refill_rate_per_second p / 1000))"
    by (auto simp: load_bucket_def refill_def)
  have "l' = l - (if 1 \<le> l then 1 else 0)" by (simp only: l'_def)
  from script_run [OF t0 l rate this, of "(pol_window p div millisecond) * 2"] s
  have out: "out = (if l \<ge> 1 then 1 else 0, if l \<ge> 1 then \<lfloor>l'\<rfloor> else 0,
        unix_millis now + \<lceil>(of_int (bucket_capacity p) - l') / (refill_rate_per_second p / 1000)\<rceil>)"
    and db1: "db1 = put_value k (RBucket l' (unix_millis now)) (Some (now + 120 * second)) (db\<lparr>rdb_faults := fs\<rparr>)"
    unfolding policy_ttl [OF p] by (metis Pair_inject sum.inject(2))+
  show ?thesis unfolding r out db' db1 by (simp add: put_value_def)
qed

lemma limiter_check_map:
  "limiter_check now later k p db = (r, db') \<Longrightarrow> k' \<noteq> k \<Longrightarrow> rdb_map db' k' = rdb_map db k'"
  by (auto simp: limiter_check_def token_bucket_script_def redis_cmd_def Let_def put_value_def
        split: prod.splits option.splits sum.splits if_splits)

lemma limiter_check_Inl: "limiter_check now later k p db = (Inl e, db') \<Longrightarrow> rdb_map db' = rdb_map db"
  by (auto simp: limiter_check_def token_bucket_script_def redis_cmd_def Let_def
        split: prod.splits option.splits sum.splits if_splits)

lemma bucket_level_cong: "rdb_map db' k = rdb_map db k \<Longrightarrow> bucket_level p t k db' = bucket_level p t k db"
  by (simp add: bucket_level_def live_value_def)

lemma bucket_good_cong: "rdb_map db' k = rdb_map db k \<Longrightarrow> bucket_good p k t db' = bucket_good p k t db"
  by (simp add: bucket_good_def)

lemma unix_millis_mono: "s \<le> t \<Longrightarrow> unix_millis s \<le> unix_millis t"
  by (simp add: unix_millis_def millisecond_def zdiv_mono1)

lemma unix_millis_windows: "unix_millis (w + 120 * second) = unix_millis w + 120000"
  by (simp add: unix_millis_def millisecond_def second_def)

lemma refill_windows: "policy_ok p \<Longrightarrow> refill p 120000 = of_int (2 * pol_limit p)"
  by (simp add: refill_def refill_rate_per_second_def policy_ok_def second_def)

lemma refill_mono: "policy_ok p \<Longrightarrow> a \<le> b \<Longrightarrow> refill p a \<le> refill p b"
  by (simp add: refill_def refill_rate_per_second_def policy_ok_def second_def mult_right_mono)

lemma bucket_level_bounds:
  assumes "policy_ok p" and "bucket_good p k t db"
  shows "0 \<le> bucket_level p t k db \<and> bucket_level p t k db \<le> of_int (bucket_capacity p)"
  using assms bucket_capacity_bounds [OF assms(1)] refill_nonneg [OF assms(1)]
  by (auto simp: bucket_level_def bucket_good_def live_value_def split: option.splits redis_val.splits prod.splits)

lemma bucket_level_refill:
  assumes p: "policy_ok p" and g: "bucket_good p k t db" and t: "t \<le> t'"
  shows "bucket_level p t' k db \<le> bucket_level p t k db + refill p (unix_millis t' - unix_millis t)"
proof (cases "rdb_map db k")
  case None
  with refill_nonneg [OF p] unix_millis_mono [OF t] show ?thesis by (simp add: bucket_level_def live_value_def)
next
  case (Some ve)
  with g obtain tok w where ve: "ve = (RBucket tok (unix_millis w), Some (w + 120 * second))" and w: "w \<le> t"
    and tok: "0 \<le> tok" "tok \<le> of_int (bucket_capacity p)"
    by (cases ve; cases "fst ve") (auto simp: bucket_good_def)
  let ?cap = "of_int (bucket_capacity p) :: rat"
  have wt: "unix_millis w \<le> unix_millis t" "unix_millis t \<le> unix_millis t'" using w t unix_millis_mono by auto
  have add: "refill p (unix_millis t' - unix_millis w) = refill p (unix_millis t - unix_millis w) + refill p (unix_millis t' - unix_millis t)"
    by (simp flip: refill_add)
  have pos: "0 \<le> refill p (unix_millis t' - unix_millis t)" using refill_nonneg [OF p] wt by simp
  show ?thesis
  proof (cases "t' < w + 120 * second")
    case True
    then show ?thesis using t wt add pos
      by (simp add: bucket_level_def live_value_def Some ve min_def max_def)
  next
    case False
    have full: "?cap \<le> tok + refill p (unix_millis t' - unix_millis w)"
    proof -
      have "unix_millis w + 120000 \<le> unix_millis t'"
        using unix_millis_mono [of "w + 120 * second" t'] False by (simp add: unix_millis_windows)
      then have "refill p 120000 \<le> refill p (unix_millis t' - unix_millis w)" by (intro refill_mono [OF p]) simp
      moreover have "?cap \<le> of_int (2 * pol_limit p)" using bucket_capacity_bounds [OF p] by (metis of_int_le_iff)
      ultimately show ?thesis using refill_windows [OF p] tok(1) by linarith
    qed
    show ?thesis
    proof (cases "t < w + 120 * second")
      case True
      with False full add pos wt show ?thesis
        by (simp add: bucket_level_def live_value_def Some ve min_def max_def)
    next
      case F2: False
      with False pos show ?thesis by (simp add: bucket_level_def live_value_def Some ve)
    qed
  qed
qed

lemma bucket_good_after:
  assumes p: "policy_ok p" and g: "bucket_good p k now db" and c: "limiter_check now later k p db = (r, db')"
  shows "bucket_good p k now db'"
proof (cases r)
  case (Inl e)
  with c g show ?thesis by (auto simp: bucket_good_def dest: limiter_check_Inl)
next
  case (Inr x)
  with c limiter_check_good [OF p g, of later x db'] bucket_level_bounds [OF p g] show ?thesis
    by (auto simp: bucket_good_def)
qed

lemma bucket_good_later: "bucket_good p k t db \<Longrightarrow> t \<le> t' \<Longrightarrow> bucket_good p k t' db"
  by (cases "rdb_map db k"; cases "fst (the (rdb_map db k))") (fastforce simp: bucket_good_def)+

interpretation redis_limiter: limiter limiter_check bucket_level bucket_good
proof unfold_locales
  fix p k now later r and db db' :: redis_db
  assume p: "policy_ok p" and g: "bucket_good p k now db" and c: "limiter_check now later k p db = (Inr r, db')"
  note b = bucket_level_bounds [OF p g] bucket_capacity_bounds [OF p]
  from limiter_check_good [OF p g c] b show "(rl_allowed r \<longleftrightarrow> 1 \<le> bucket_level p now k db) \<and>
      bucket_level p now k db' = bucket_level p now k db - (if rl_allowed r then 1 else 0)"
    by (auto simp: bucket_level_def [of p now k db'] live_value_def second_def refill_def)
next
  fix p k t t' and db :: redis_db
  assume "bucket_good p k t db" "t \<le> t'"
  then show "bucket_good p k t' db" by (rule bucket_good_later)
next
  fix now later k p e t and db db' :: redis_db
  assume "limiter_check now later k p db = (Inl e, db')"
  then show "bucket_level p t k db' = bucket_level p t k db"
    by (intro bucket_level_cong) (simp add: limiter_check_Inl)
next
  fix now later k p r k' p' t and db db' :: redis_db
  assume "limiter_check now later k p db = (r, db')" and "k \<noteq> k'"
  then have "rdb_map db' k' = rdb_map db k'" by (intro limiter_check_map) auto
  then show "bucket_level p' t k' db' = bucket_level p' t k' db \<and> (bucket_good p' k' t db \<longrightarrow> bucket_good p' k' t db')"
    using bucket_level_cong bucket_good_cong by metis
qed (fact bucket_level_bounds, fact bucket_level_refill, fact bucket_good_after)

end
