(* ===== verification/RateGate.thy ===== *)
theory RateGate
  imports Http RateLimiter
begin

text \<open>
  The rate limiting middleware, \<open>internal/interfaces/http/middleware/ratelimit.go\<close>, around any handler, and the
  bounds that the token buckets in Redis give on the requests that reach it.
\<close>

section \<open>The middleware\<close>

record 's rate_limit_config =
  rc_check :: "gotime \<Rightarrow> gotime \<Rightarrow> string \<Rightarrow> policy \<Rightarrow> 's \<Rightarrow> rl_result result \<times> 's"
  rc_service_name :: string
  rc_endpoint_class :: endpoint_class
  rc_fail_open :: bool

definition resolve_identity :: "request \<Rightarrow> string \<times> tier" where
  "resolve_identity r =
     (case rq_claims r of
        None \<Rightarrow> (rq_remote_addr r, tier_unauthenticated)
      | Some claims \<Rightarrow>
          if cl_token_id claims \<noteq> [] then (cl_token_id claims, tier_free)
          else (cl_user_id claims, tier_free))"

definition request_key :: "string \<Rightarrow> endpoint_class \<Rightarrow> request \<Rightarrow> string" where
  "request_key service cls r = (case resolve_identity r of (ident, tier) \<Rightarrow> identity_key service tier cls ident)"

definition request_policy :: "endpoint_class \<Rightarrow> request \<Rightarrow> policy" where
  "request_policy cls r = get_policy (snd (resolve_identity r)) cls"

definition too_many_requests :: "string \<Rightarrow> response" where
  "too_many_requests inst = write_problem
     \<lparr>p_type = ''https://docs.shortener.example.com/errors/rate-limit-exceeded'', p_title = ''Too Many Requests'',
      p_status = 429, p_detail = ''You have exceeded the rate limit. Check the RateLimit-Reset header '' @
        ''to see when your quota resets, or the Retry-After header for how long to wait.'',
      p_instance = inst, p_errors = []\<rparr>"

definition rate_limit_unavailable :: "string \<Rightarrow> response" where
  "rate_limit_unavailable inst = write_problem
     \<lparr>p_type = problem_type_internal, p_title = ''Service Unavailable'', p_status = 503,
      p_detail = ''Rate limiting service is temporarily unavailable.'', p_instance = inst, p_errors = []\<rparr>"

definition rate_limit :: "'s rate_limit_config \<Rightarrow> gotime \<Rightarrow> gotime \<Rightarrow> 's handler \<Rightarrow> 's handler" where
  "rate_limit cfg now later next_h r s =
     (case resolve_identity r of
        (ident, tier) \<Rightarrow>
          let key = identity_key (rc_service_name cfg) tier (rc_endpoint_class cfg) ident;
              policy = get_policy tier (rc_endpoint_class cfg)
          in (case rc_check cfg now later key policy s of
                (Inl err, s1) \<Rightarrow>
                  (if \<not> rc_fail_open cfg then (rate_limit_unavailable (rq_path r), s1) else next_h r s1)
              | (Inr res, s1) \<Rightarrow>
                  (if \<not> rl_allowed res then (under_headers (rl_headers res) (too_many_requests (rq_path r)), s1)
                   else (case next_h r s1 of (resp, s2) \<Rightarrow> (under_headers (rl_headers res) resp, s2)))))"

text \<open>\<open>noopLimiter\<close> of \<open>cmd/api\<close>, used without Redis.\<close>

definition noop_check :: "gotime \<Rightarrow> gotime \<Rightarrow> string \<Rightarrow> policy \<Rightarrow> 's \<Rightarrow> rl_result result \<times> 's" where
  "noop_check now later key p s =
     (Inr \<lparr>rl_allowed = True, rl_remaining = bucket_capacity p, rl_limit = bucket_capacity p,
           rl_reset_at = now + pol_window p, rl_retry_after = 0\<rparr>, s)"

section \<open>A service behind it\<close>

text \<open>
  The limiter works on its part of Redis, the handlers on their own state. \<open>serve_all\<close> answers requests one
  after the other, each with the instants of its check.
\<close>

definition redis_check :: "gotime \<Rightarrow> gotime \<Rightarrow> string \<Rightarrow> policy \<Rightarrow> redis_db \<times> 'a \<Rightarrow> rl_result result \<times> (redis_db \<times> 'a)" where
  "redis_check now later key p s =
     (case s of (db, a) \<Rightarrow> (case limiter_check now later key p db of (r, db') \<Rightarrow> (r, (db', a))))"

definition behind :: "'a handler \<Rightarrow> (redis_db \<times> 'a) handler" where
  "behind h r s = (case s of (db, a) \<Rightarrow> (case h r a of (resp, a') \<Rightarrow> (resp, (db, a'))))"

definition gate_config :: "string \<Rightarrow> endpoint_class \<Rightarrow> bool \<Rightarrow> (redis_db \<times> 'a) rate_limit_config" where
  "gate_config service cls fail_open =
     \<lparr>rc_check = redis_check, rc_service_name = service, rc_endpoint_class = cls, rc_fail_open = fail_open\<rparr>"

fun serve_all :: "(gotime \<Rightarrow> gotime \<Rightarrow> 's handler) \<Rightarrow> (gotime \<times> gotime \<times> request) list \<Rightarrow> 's \<Rightarrow> (request \<times> response) list" where
  "serve_all h [] s = []"
| "serve_all h ((now, later, r) # rs) s = (case h now later r s of (resp, s') \<Rightarrow> (r, resp) # serve_all h rs s')"

text \<open>The answers that come from the handler for the bucket \<open>k\<close>.\<close>

definition served :: "(request \<Rightarrow> string) \<Rightarrow> string \<Rightarrow> (request \<times> response) list \<Rightarrow> nat" where
  "served key k answers = length (filter (\<lambda>(r, resp). key r = k \<and> rs_status resp \<notin> {429, 503}) answers)"

definition check_event_of :: "string \<Rightarrow> endpoint_class \<Rightarrow> gotime \<times> gotime \<times> request \<Rightarrow> check_event" where
  "check_event_of service cls e = (case e of (now, later, r) \<Rightarrow> (now, later, request_key service cls r, request_policy cls r))"

lemma served_le_admitted:
  "served (request_key service cls) k
       (serve_all (\<lambda>now later. rate_limit (gate_config service cls False) now later (behind h)) rs (db, a))
     \<le> admitted limiter_check k (map (check_event_of service cls) rs) db"
proof (induction rs arbitrary: db a)
  case (Cons e rs)
  obtain now later r where e: "e = (now, later, r)" by (cases e) auto
  obtain x db1 where c: "limiter_check now later (request_key service cls r) (request_policy cls r) db = (x, db1)" by fastforce
  obtain resp a' where h: "h r a = (resp, a')" by fastforce
  show ?case
  proof (cases "\<exists>res. x = Inr res \<and> rl_allowed res")
    case True
    then obtain res where "x = Inr res" "rl_allowed res" by blast
    then have "rate_limit (gate_config service cls False) now later (behind h) r (db, a)
        = (under_headers (rl_headers res) resp, (db1, a'))"
      using c h by (simp add: rate_limit_def gate_config_def redis_check_def behind_def request_key_def
            request_policy_def Let_def split: prod.splits)
    with Cons.IH [of db1 a'] c True show ?thesis
      by (auto simp: e served_def check_event_of_def)
  next
    case False
    then obtain resp1 where "rate_limit (gate_config service cls False) now later (behind h) r (db, a) = (resp1, (db1, a))"
      "rs_status resp1 \<in> {429, 503}"
      using c by (cases x) (auto simp: rate_limit_def gate_config_def redis_check_def request_key_def too_many_requests_def
            rate_limit_unavailable_def request_policy_def Let_def split: prod.splits)
    with Cons.IH [of db1 a] c False show ?thesis
      by (auto simp: e served_def check_event_of_def split: sum.splits)
  qed
qed (simp add: served_def)

lemma event_time_of [simp]: "event_time (check_event_of service cls e) = fst e"
  by (simp add: event_time_def check_event_of_def split: prod.splits)

text \<open>Requests of one bucket have one policy: the key spells out the tier.\<close>

lemma resolve_tier: "snd (resolve_identity r) \<in> {tier_unauthenticated, tier_free}"
  by (auto simp: resolve_identity_def split: option.splits)

lemma request_key_policy:
  assumes "CHR '':'' \<notin> set service" "CHR '':'' \<notin> set cls" and "request_key service cls r = request_key service cls r'"
  shows "request_policy cls r = request_policy cls r'"
proof -
  have c: "CHR '':'' \<notin> set (snd (resolve_identity x))" for x
    using resolve_tier [of x] by (auto simp: tier_defs)
  have "identity_key service (snd (resolve_identity r)) cls (fst (resolve_identity r))
      = identity_key service (snd (resolve_identity r')) cls (fst (resolve_identity r'))"
    using assms(3) by (simp add: request_key_def split_beta)
  then have "snd (resolve_identity r) = snd (resolve_identity r')"
    unfolding identity_key_inject [OF assms(1) c assms(2) assms(1) c assms(2)] by simp
  then show ?thesis by (simp add: request_policy_def)
qed

lemma request_policy_ok: "policy_ok (request_policy cls r)"
  using resolve_tier [of r] by (auto simp: request_policy_def tier_defs intro!: get_policy_ok)

section \<open>Properties\<close>


text \<open>An anonymous client and a handler that says yes.\<close>

definition anon_request :: "string \<Rightarrow> request" where
  "anon_request addr = \<lparr>rq_method = ''GET'', rq_path = ''/abc'', rq_query = [], rq_headers = [], rq_remote_addr = addr,
     rq_params = [], rq_body = BodyUnreadable, rq_claims = None, rq_member = None, rq_id = []\<rparr>"

definition ok_handler :: "unit handler" where
  "ok_handler r s = (\<lparr>rs_status = 200, rs_headers = [], rs_body = NoBody\<rparr>, s)"


text \<open>Waiting until the advertised reset fills the bucket.\<close>

lemma refilled_by_reset:
  fixes cap l rate :: rat
  assumes rate: "0 < rate" and low: "l < cap" and ms: "a + \<lceil>(cap - l) / rate\<rceil> \<le> b"
  shows "a < b" and "cap - l \<le> of_int (b - a) * rate"
proof -
  let ?n = "\<lceil>(cap - l) / rate\<rceil>"
  have "0 < (cap - l) / rate" using rate low by simp
  then have "0 < ?n" by (simp only: zero_less_ceiling)
  with ms show "a < b" by linarith
  have "(cap - l) / rate \<le> of_int ?n" by simp
  then have "cap - l \<le> of_int ?n * rate" using rate by (simp only: pos_divide_le_eq)
  also have "\<dots> \<le> of_int (b - a) * rate" using ms rate by (intro mult_right_mono) simp_all
  finally show "cap - l \<le> of_int (b - a) * rate" .
qed


definition demo_buckets :: redis_db where
  "demo_buckets = \<lparr>rdb_map = [''k'' \<mapsto> (RBucket 0 0, Some (120 * second))], rdb_faults = []\<rparr>"

definition demo_policy :: policy where "demo_policy = get_policy tier_free class_read"

lemma demo_refused: "fst (limiter_check 0 0 ''k'' demo_policy demo_buckets)
    = Inr \<lparr>rl_allowed = False, rl_remaining = 0, rl_limit = 100, rl_reset_at = 60 * second, rl_retry_after = 60 * second\<rparr>"
  by code_simp


text \<open>The bucket of an enterprise client on redirects is not bounded by its policy: the script keeps a
  bucket for two windows only, so a client that has emptied it and waits 120 seconds finds the full burst
  of 300000 tokens, where the refill rate of 100000 per 60 seconds has added 200000.\<close>

theorem enterprise_redirect_overfilled:
  fixes w :: gotime
  defines "p \<equiv> get_policy tier_enterprise class_redirect"
  assumes "rdb_map db k = Some (RBucket 0 (unix_millis w), Some (w + 120 * second))" and "rdb_faults db = []"
  shows "\<exists>r db'. limiter_check (w + 120 * second) later k p db = (Inr r, db') \<and> rl_remaining r = 299999
     \<and> of_int (rl_remaining r) > refill p 120000 \<and> refill p 120000 = 200000"
proof -
  have p: "p = pol 100000 3" by (simp add: p_def get_policy_def default_policies_def tier_defs)
  have "live_value (w + 120 * second) k db = None" using assms(2) by (simp add: live_value_def)
  moreover have "db\<lparr>rdb_faults := []\<rparr> = db" using assms(3) by simp
  ultimately show ?thesis
    using assms(3)
    by (simp add: limiter_check_def redis_cmd_def token_bucket_script_def load_bucket_def p bucket_capacity_def refill_def
          refill_rate_per_second_def second_def Let_def)
qed

theorem enterprise_redirect_overfilled_witness:
  "\<exists>r db'. limiter_check (120 * second) 0 ''k'' (get_policy tier_enterprise class_redirect) demo_buckets = (Inr r, db')
     \<and> rl_remaining r = 299999"
  using enterprise_redirect_overfilled [of demo_buckets "''k''" 0 0] by (auto simp: demo_buckets_def unix_millis_def)

text \<open>Anonymous callers are limited per connection, not per address, unless a proxy header replaces
  \<open>RemoteAddr\<close>: the \<open>RemoteAddr\<close> carries the port, and two ports of one address are two buckets.\<close>

theorem anonymous_bucket_per_port:
  assumes "rq_claims r = None" and "rq_claims r' = None"
    and "rq_remote_addr r = addr @ '':'' @ show_nat port" and "rq_remote_addr r' = addr @ '':'' @ show_nat port'"
    and "port \<noteq> port'"
  shows "request_key service cls r \<noteq> request_key service cls r'"
proof -
  have digits: "CHR '':'' \<notin> set (show_nat n)" for n
  proof
    assume "CHR '':'' \<in> set (show_nat n)"
    then obtain d where "d < 10" "CHR '':'' = digit_char d" using show_nat_digits by fastforce
    then have "(of_char (CHR '':'') :: nat) = 48 + d" by (simp add: digit_char_def)
    with \<open>d < 10\<close> show False by simp
  qed
  have "replace_char (CHR '':'') (CHR ''_'') (addr @ '':'' @ show_nat n)
      = replace_char (CHR '':'') (CHR ''_'') addr @ ''_'' @ show_nat n" for n
    using replace_char_id [OF digits [of n]] by (simp add: replace_char_def)
  with assms show ?thesis
    by (simp add: request_key_def resolve_identity_def identity_key_def)
qed

theorem anonymous_bucket_per_port_witness:
  "request_key ''redirect'' class_redirect (anon_request (''1.2.3.4'' @ '':'' @ show_nat 5000))
     \<noteq> request_key ''redirect'' class_redirect (anon_request (''1.2.3.4'' @ '':'' @ show_nat 5001))"
  by (rule anonymous_bucket_per_port [of _ _ "''1.2.3.4''" 5000 5001]) (simp_all add: anon_request_def)

end
