(* ===== verification/UrlCache.thy ===== *)
theory UrlCache
  imports Redis UrlPorts
begin

text \<open>
  \<open>internal/infrastructure/redis/url_cache.go\<close>: the positive and negative entries of a short code in
  Redis, with the two key prefixes of the source. \<open>json.Marshal\<close> and \<open>json.Unmarshal\<close> of a cache entry
  are inverse to each other (the value \<open>REntry\<close>); unmarshalling any other value fails, and \<open>Get\<close> then
  deletes the key.
\<close>

definition positive_key_prefix :: string where "positive_key_prefix = ''url:v1:''"
definition negative_key_prefix :: string where "negative_key_prefix = ''url:v1:notfound:''"

definition positive_key :: "string \<Rightarrow> string" where "positive_key sc = positive_key_prefix @ sc"
definition negative_key :: "string \<Rightarrow> string" where "negative_key sc = negative_key_prefix @ sc"

definition to_cache_entry :: "gotime \<Rightarrow> url \<Rightarrow> cache_entry" where
  "to_cache_entry now u =
     \<lparr>ce_id = url_id u, ce_workspace_id = workspace_id u, ce_short_code = short_code u,
      ce_original_url = original_url u, ce_title = title u, ce_status = url_status u,
      ce_expires_at = expires_at u, ce_created_by = created_by u, ce_created_at = created_at u,
      ce_updated_at = updated_at u, ce_click_count = click_count u, ce_cached_at = now\<rparr>"

definition to_domain_url :: "cache_entry \<Rightarrow> url" where
  "to_domain_url e =
     \<lparr>url_id = ce_id e, workspace_id = ce_workspace_id e, short_code = ce_short_code e,
      original_url = ce_original_url e, title = ce_title e, url_status = ce_status e,
      expires_at = ce_expires_at e, created_by = ce_created_by e, created_at = ce_created_at e,
      updated_at = ce_updated_at e, deleted_at = None, click_count = ce_click_count e\<rparr>"

definition unmarshal_entry :: "redis_val \<Rightarrow> cache_entry result" where
  "unmarshal_entry v = (case v of REntry e \<Rightarrow> Inr e | _ \<Rightarrow> Inl (EOther ''json: cannot unmarshal''))"

definition url_cache_get :: "gotime \<Rightarrow> string \<Rightarrow> redis_db \<Rightarrow> url option result \<times> redis_db" where
  "url_cache_get now sc db =
     (case redis_get now (positive_key sc) db of
        (Inl err, db') \<Rightarrow> (Inl (EWrap (''redis: GET '' @ positive_key sc @ '': '') err []), db')
      | (Inr None, db') \<Rightarrow> (Inr None, db')
      | (Inr (Some v), db') \<Rightarrow>
          (case unmarshal_entry v of
             Inl err \<Rightarrow>
               (Inl (EWrap (''redis: deserializing cache entry for '' @ sc @ '': '') err []),
                snd (redis_del [positive_key sc] db'))
           | Inr e \<Rightarrow> (Inr (Some (to_domain_url e)), db')))"

definition url_cache_set :: "gotime \<Rightarrow> url \<Rightarrow> int \<Rightarrow> redis_db \<Rightarrow> unit result \<times> redis_db" where
  "url_cache_set now u ttl_seconds db =
     (let key = positive_key (short_code u); ttl = ttl_seconds * second in
      case redis_set now key (REntry (to_cache_entry now u)) ttl db of
        (Inl err, db') \<Rightarrow> (Inl (EWrap (''redis: SET '' @ key @ '': '') err []), db')
      | (Inr x, db') \<Rightarrow> (Inr (), db'))"

definition url_cache_set_not_found :: "gotime \<Rightarrow> string \<Rightarrow> int \<Rightarrow> redis_db \<Rightarrow> unit result \<times> redis_db" where
  "url_cache_set_not_found now sc ttl_seconds db =
     (let key = negative_key sc; ttl = ttl_seconds * second in
      case redis_set now key (RString ''1'') ttl db of
        (Inl err, db') \<Rightarrow> (Inl (EWrap (''redis: SET notfound '' @ key @ '': '') err []), db')
      | (Inr x, db') \<Rightarrow> (Inr (), db'))"

definition url_cache_is_not_found :: "gotime \<Rightarrow> string \<Rightarrow> redis_db \<Rightarrow> bool result \<times> redis_db" where
  "url_cache_is_not_found now sc db =
     (case redis_exists now (negative_key sc) db of
        (Inl err, db') \<Rightarrow> (Inl (EWrap (''redis: EXISTS '' @ negative_key sc @ '': '') err []), db')
      | (Inr b, db') \<Rightarrow> (Inr b, db'))"

definition url_cache_delete :: "string \<Rightarrow> redis_db \<Rightarrow> unit result \<times> redis_db" where
  "url_cache_delete sc db =
     (case redis_del [positive_key sc, negative_key sc] db of
        (Inl err, db') \<Rightarrow> (Inl (EWrap (''redis: DEL '' @ sc @ '': '') err []), db')
      | (Inr x, db') \<Rightarrow> (Inr (), db'))"

definition url_cache_ttl :: "gotime \<Rightarrow> string \<Rightarrow> redis_db \<Rightarrow> duration result \<times> redis_db" where
  "url_cache_ttl now sc db =
     (case redis_ttl now (positive_key sc) db of
        (Inl err, db') \<Rightarrow> (Inl (EWrap (''redis: TTL '' @ positive_key sc @ '': '') err []), db')
      | (Inr d, db') \<Rightarrow> (Inr d, db'))"

definition redis_url_cache :: "redis_db cache_port" where
  "redis_url_cache =
     \<lparr>cache_get = url_cache_get, cache_set = url_cache_set, cache_set_not_found = url_cache_set_not_found,
      cache_is_not_found = url_cache_is_not_found, cache_delete = url_cache_delete\<rparr>"

section \<open>The views of the cache\<close>

definition cached_url :: "gotime \<Rightarrow> string \<Rightarrow> redis_db \<Rightarrow> url option" where
  "cached_url t sc db =
     (case live_value t (positive_key sc) db of Some (REntry e) \<Rightarrow> Some (to_domain_url e) | _ \<Rightarrow> None)"

definition cached_not_found :: "gotime \<Rightarrow> string \<Rightarrow> redis_db \<Rightarrow> bool" where
  "cached_not_found t sc db = (live_value t (negative_key sc) db \<noteq> None)"

lemma to_domain_to_cache [simp]: "to_domain_url (to_cache_entry now u) = as_cached u"
  by (simp add: to_domain_url_def to_cache_entry_def as_cached_def)

lemma positive_key_inject [simp]: "positive_key a = positive_key b \<longleftrightarrow> a = b"
  and negative_key_inject [simp]: "negative_key a = negative_key b \<longleftrightarrow> a = b"
  by (simp_all add: positive_key_def negative_key_def)

text \<open>The negative key of a code is the positive key of \<open>notfound:\<close> and the code, and of no plain code.\<close>

lemma negative_key_positive: "negative_key sc = positive_key (''notfound:'' @ sc)"
  by (simp add: positive_key_def negative_key_def positive_key_prefix_def negative_key_prefix_def)

lemma plain_code_keys [simp]:
  "plain_code a \<Longrightarrow> positive_key a \<noteq> negative_key b" "plain_code a \<Longrightarrow> negative_key b \<noteq> positive_key a"
  by (auto simp: negative_key_positive plain_code_def)

lemma expiry_alive:
  "(case expiry_of now (ttl * second) of None \<Rightarrow> Some v | Some e \<Rightarrow> if t < e then Some v else None)
     = (if alive_at now ttl t then Some v else None)"
  by (auto simp: expiry_of_def alive_at_def second_def zero_less_mult_iff)

lemmas url_cache_defs = url_cache_get_def url_cache_set_def url_cache_set_not_found_def
  url_cache_is_not_found_def url_cache_delete_def

lemmas cache_view_defs = cached_url_def cached_not_found_def

lemma views_cong:
  "rdb_map db' = rdb_map db \<Longrightarrow> cached_url t sc db' = cached_url t sc db"
  "rdb_map db' = rdb_map db \<Longrightarrow> cached_not_found t sc db' = cached_not_found t sc db"
  by (simp_all add: cache_view_defs live_value_def)

lemma live_value_map: "rdb_map db' = rdb_map db \<Longrightarrow> live_value t j db' = live_value t j db"
  by (simp add: live_value_def)

text \<open>What each operation does to the values a reader can see.\<close>

lemma redis_get_frame: "redis_get now k db = (r, db') \<Longrightarrow> rdb_map db' = rdb_map db"
  by (auto simp: redis_get_def redis_cmd_def split: prod.splits option.splits)

lemma redis_exists_frame: "redis_exists now k db = (r, db') \<Longrightarrow> rdb_map db' = rdb_map db"
  by (auto simp: redis_exists_def redis_cmd_def split: prod.splits option.splits)

lemma redis_set_live:
  "redis_set now k v ttl db = (Inr x, db') \<Longrightarrow>
     live_value t j db' = (if j = k then (case expiry_of now ttl of None \<Rightarrow> Some v | Some e \<Rightarrow> if t < e then Some v else None)
                           else live_value t j db)"
  by (auto simp: redis_set_def redis_cmd_Inr live_value_put)

lemma redis_del_live:
  "redis_del ks db = (Inr x, db') \<Longrightarrow> live_value t j db' = (if j \<in> set ks then None else live_value t j db)"
  by (auto simp: redis_del_def redis_cmd_Inr live_value_drop_all)

lemma redis_err_frame:
  "redis_set now k v ttl db = (Inl e, db') \<Longrightarrow> rdb_map db' = rdb_map db"
  "redis_del ks db = (Inl e, db') \<Longrightarrow> rdb_map db' = rdb_map db"
  by (auto simp: redis_cmd_defs dest: redis_cmd_Inl)

lemma redis_del_any:
  "live_value t j (snd (redis_del ks db)) = live_value t j db \<or> (j \<in> set ks \<and> live_value t j (snd (redis_del ks db)) = None)"
proof (cases "redis_del ks db")
  case (Pair r db')
  show ?thesis
  proof (cases r)
    case (Inl e)
    with Pair have "rdb_map db' = rdb_map db" by (simp add: redis_err_frame)
    with Pair show ?thesis by (simp add: live_value_def)
  next
    case (Inr v)
    with Pair have "live_value t j db' = (if j \<in> set ks then None else live_value t j db)"
      by (simp add: redis_del_live)
    with Pair show ?thesis by simp
  qed
qed

section \<open>The contract of the cache\<close>

lemma url_cache_get_Inr: "url_cache_get now sc db = (Inr r, db') \<Longrightarrow> r = cached_url now sc db \<and> rdb_map db' = rdb_map db"
  by (auto simp: url_cache_get_def unmarshal_entry_def cached_url_def redis_get_def redis_cmd_Inr
        dest: redis_cmd_Inl split: prod.splits sum.splits option.splits redis_val.splits)

text \<open>\<open>Get\<close> changes at most the entry it could not read, which no view shows as a link.\<close>

lemma url_cache_get_any:
  assumes "url_cache_get now sc db = (r, db')"
  shows "(\<forall>j. live_value t j db' = live_value t j db)
    \<or> ((\<forall>j. j \<noteq> positive_key sc \<longrightarrow> live_value t j db' = live_value t j db)
       \<and> live_value t (positive_key sc) db' = None \<and> cached_url t sc db = None)"
proof -
  obtain g db1 where g: "redis_get now (positive_key sc) db = (g, db1)" by fastforce
  then have eq: "rdb_map db1 = rdb_map db" by (rule redis_get_frame)
  show ?thesis
  proof (cases "rdb_map db' = rdb_map db")
    case True
    then show ?thesis by (simp add: live_value_def)
  next
    case False
    with assms g eq obtain v where v: "g = Inr (Some v)" and nv: "\<nexists>e. v = REntry e"
      and db': "db' = snd (redis_del [positive_key sc] db1)"
      by (auto simp: url_cache_get_def unmarshal_entry_def split: sum.splits option.splits redis_val.splits)
    from g v have "live_value now (positive_key sc) db = Some v"
      by (auto simp: redis_get_def redis_cmd_Inr)
    then have none: "cached_url t sc db = None"
      using nv by (auto simp: cached_url_def live_value_def split: option.splits if_splits redis_val.splits)
    have "live_value t j db1 = live_value t j db" for j using eq by (simp add: live_value_def)
    then have any: "live_value t j db' = live_value t j db \<or> (j = positive_key sc \<and> live_value t j db' = None)" for j
      using redis_del_any [of t j "[positive_key sc]" db1] by (auto simp: db')
    then show ?thesis using none by metis
  qed
qed

lemma url_cache_get_pos:
  assumes "url_cache_get now sc db = (r, db')"
  shows "cached_url t x db' = cached_url t x db"
  using url_cache_get_any [OF assms, of t]
proof
  assume "\<forall>j. live_value t j db' = live_value t j db"
  then show ?thesis by (simp add: cached_url_def)
next
  assume *: "(\<forall>j. j \<noteq> positive_key sc \<longrightarrow> live_value t j db' = live_value t j db)
       \<and> live_value t (positive_key sc) db' = None \<and> cached_url t sc db = None"
  show ?thesis
  proof (cases "x = sc")
    case True
    with * show ?thesis by (simp add: cached_url_def)
  next
    case False
    with * show ?thesis by (simp add: cached_url_def)
  qed
qed

lemma url_cache_get_neg:
  "url_cache_get now sc db = (r, db') \<Longrightarrow> plain_code sc \<Longrightarrow> cached_not_found t x db' = cached_not_found t x db"
  using url_cache_get_any [of now sc db r db' t] by (auto simp: cached_not_found_def)

lemma url_cache_set_Inr:
  "url_cache_set now u ttl db = (Inr v, db') \<Longrightarrow>
     live_value t j db' = (if j = positive_key (short_code u)
       then (if alive_at now ttl t then Some (REntry (to_cache_entry now u)) else None) else live_value t j db)"
  by (auto simp: url_cache_set_def Let_def expiry_alive dest!: redis_set_live [where t = t and j = j]
        split: prod.splits sum.splits)

lemma url_cache_set_Inl: "url_cache_set now u ttl db = (Inl e, db') \<Longrightarrow> live_value t j db' = live_value t j db"
  by (auto simp: url_cache_set_def Let_def intro!: live_value_map dest: redis_err_frame split: prod.splits sum.splits)

lemma url_cache_set_not_found_Inr:
  "url_cache_set_not_found now sc ttl db = (Inr v, db') \<Longrightarrow>
     live_value t j db' = (if j = negative_key sc
       then (if alive_at now ttl t then Some (RString ''1'') else None) else live_value t j db)"
  by (auto simp: url_cache_set_not_found_def Let_def expiry_alive dest!: redis_set_live [where t = t and j = j]
        split: prod.splits sum.splits)

lemma url_cache_set_not_found_Inl: "url_cache_set_not_found now sc ttl db = (Inl e, db') \<Longrightarrow> live_value t j db' = live_value t j db"
  by (auto simp: url_cache_set_not_found_def Let_def intro!: live_value_map dest: redis_err_frame split: prod.splits sum.splits)

lemma url_cache_is_not_found_frame: "url_cache_is_not_found now sc db = (r, db') \<Longrightarrow> live_value t j db' = live_value t j db"
  by (auto simp: url_cache_is_not_found_def intro!: live_value_map dest: redis_exists_frame split: prod.splits sum.splits)

lemma url_cache_is_not_found_Inr: "url_cache_is_not_found now sc db = (Inr b, db') \<Longrightarrow> b = cached_not_found now sc db"
  by (auto simp: url_cache_is_not_found_def cached_not_found_def redis_exists_def redis_cmd_Inr
        split: prod.splits sum.splits)

lemma url_cache_delete_Inr:
  "url_cache_delete sc db = (Inr v, db') \<Longrightarrow>
     live_value t j db' = (if j = positive_key sc \<or> j = negative_key sc then None else live_value t j db)"
  by (auto simp: url_cache_delete_def dest!: redis_del_live [where t = t and j = j] split: prod.splits sum.splits)

lemma url_cache_delete_Inl: "url_cache_delete sc db = (Inl e, db') \<Longrightarrow> live_value t j db' = live_value t j db"
  by (auto simp: url_cache_delete_def intro!: live_value_map dest: redis_err_frame split: prod.splits sum.splits)

interpretation redis_cache: url_cache redis_url_cache cached_url cached_not_found
proof unfold_locales
  fix now u ttl r t y and s s' :: redis_db
  assume "cache_set redis_url_cache now u ttl s = (r, s')" and "plain_code (short_code u)"
  then show "cached_not_found t y s' = cached_not_found t y s"
    by (cases r) (simp_all add: redis_url_cache_def cached_not_found_def url_cache_set_Inr url_cache_set_Inl)
next
  fix now sc ttl r t y and s s' :: redis_db
  assume "cache_set_not_found redis_url_cache now sc ttl s = (r, s')" and "plain_code y"
  then show "cached_url t y s' = cached_url t y s"
    by (cases r) (simp_all add: redis_url_cache_def cached_url_def url_cache_set_not_found_Inr
          url_cache_set_not_found_Inl)
next
  fix now sc g and s s' :: redis_db
  assume "cache_get redis_url_cache now sc s = (Inr g, s')"
  then show "g = cached_url now sc s" by (simp add: redis_url_cache_def url_cache_get_Inr)
next
  fix now sc b and s s' :: redis_db
  assume "cache_is_not_found redis_url_cache now sc s = (Inr b, s')"
  then show "b = cached_not_found now sc s" by (simp add: redis_url_cache_def url_cache_is_not_found_Inr)
next
  fix now sc rg t x and s s' :: redis_db
  assume "cache_get redis_url_cache now sc s = (rg, s')"
  then show "cached_url t x s' = cached_url t x s" by (simp add: redis_url_cache_def url_cache_get_pos)
next
  fix now sc rg t x and s s' :: redis_db
  assume "cache_get redis_url_cache now sc s = (rg, s')" and "plain_code sc"
  then show "cached_not_found t x s' = cached_not_found t x s" by (simp add: redis_url_cache_def url_cache_get_neg)
qed (simp_all add: redis_url_cache_def cache_view_defs url_cache_set_Inr
      url_cache_set_not_found_Inr url_cache_delete_Inr url_cache_set_Inl url_cache_set_not_found_Inl
      url_cache_is_not_found_frame url_cache_delete_Inl)

end
