(* ===== verification/Shorten.thy ===== *)
theory Shorten
  imports UrlPorts
begin

text \<open>
  \<open>internal/application/shorten\<close>: the ShortenURL use case. The handler runs over any repository and cache
  port; \<open>ulid.Make()\<close> (a library) is the argument \<open>ulid\<close>, the random source of the code generator a list
  of draws, and the clock is read twice, for the entity (\<open>now\<close>) and by the cache (\<open>later\<close>).
\<close>

definition max_retries :: nat where "max_retries = 3"

record 's shorten_handler =
  sh_repo :: "'s url_repository"
  sh_cache :: "'s cache_port option"
  sh_generator :: generator
  sh_base_url :: string
  sh_cache_ttl :: int

definition new_shorten_handler ::
  "'s url_repository \<Rightarrow> 's cache_port option \<Rightarrow> generator \<Rightarrow> string \<Rightarrow> int \<Rightarrow> 's shorten_handler" where
  "new_shorten_handler repo cache gen base ttl =
     \<lparr>sh_repo = repo, sh_cache = cache, sh_generator = gen,
      sh_base_url = trim_right (\<lambda>c. c = CHR ''/'') base, sh_cache_ttl = ttl\<rparr>"

record shorten_command =
  sc_original_url :: string
  sc_custom_code :: string
  sc_workspace_id :: string
  sc_created_by :: string
  sc_title :: string
  sc_expires_at :: "gotime option"

record shorten_result =
  sr_short_url :: string
  sr_short_code :: string
  sr_id :: string
  sr_original_url :: string
  sr_workspace_id :: string
  sr_created_at :: string

section \<open>Validation\<close>

definition is_blocked :: "string \<Rightarrow> bool" where
  "is_blocked raw = False"

definition web_scheme :: "string \<Rightarrow> bool" where
  "web_scheme s = (to_lower s = ''http'' \<or> to_lower s = ''https'')"

text \<open>\<open>validateURL\<close>; \<open>None\<close> is \<open>nil\<close>.\<close>

definition validate_url :: "string \<Rightarrow> gerr option" where
  "validate_url raw =
     (if raw = [] then Some (new_validation_error ''original_url is required'' None)
      else if length raw > max_url_length then
        Some (new_validation_error (''original_url exceeds maximum length of '' @ show_nat max_url_length @ '' characters'') None)
      else (case parse_request_uri raw of
              Inl err \<Rightarrow> Some (new_validation_error ''original_url is not a valid URL'' (Some err))
            | Inr parsed \<Rightarrow>
                if \<not> web_scheme (u_scheme parsed) then
                  Some (new_validation_error (''original_url scheme '' @ go_quote (u_scheme parsed)
                         @ '' is not allowed: only http and https are permitted'') None)
                else if u_host parsed = [] then
                  Some (new_validation_error ''original_url must include a valid host'' None)
                else if is_blocked raw then Some (EApp AppErrURLBlocked)
                else None))"

definition reserved_paths :: "string list" where
  "reserved_paths = [''healthz'', ''readyz'', ''metrics'', ''api'', ''admin'', ''static'', ''favicon.ico'', ''robots.txt'']"

definition is_alphanumeric_or_safe :: "char \<Rightarrow> bool" where
  "is_alphanumeric_or_safe c = (is_letter c \<or> is_digit c \<or> c = CHR ''-'' \<or> c = CHR ''_'')"

text \<open>
  \<open>validateCustomCode\<close>. The loop over runes stops at the first byte that is not safe, which is where the
  first unsafe rune starts; the message quotes that byte.
\<close>

definition validate_custom_code :: "string \<Rightarrow> gerr option" where
  "validate_custom_code code =
     (if length code < min_short_code_length \<or> length code > max_short_code_length then
        Some (new_validation_error (''custom short code must be between '' @ show_nat min_short_code_length
          @ '' and '' @ show_nat max_short_code_length @ '' characters'') None)
      else (case List.find (\<lambda>c. \<not> is_alphanumeric_or_safe c) code of
              Some c \<Rightarrow> Some (new_validation_error (''custom short code contains invalid character ''
                 @ [char_of (39::nat)] @ quote_byte (char_of (39::nat)) c @ [char_of (39::nat)]
                 @ '': only alphanumeric, hyphens, and underscores are allowed'') None)
            | None \<Rightarrow>
                if to_lower code \<in> set reserved_paths then
                  Some (new_validation_error (''short code '' @ go_quote code @ '' is reserved'') None)
                else None))"

section \<open>The use case\<close>

text \<open>
  The retry loop with \<open>n\<close> attempts left and the code of the next attempt (empty: to be generated). It
  gives the entity created or the error the handler returns.
\<close>

fun create_loop :: "'s shorten_handler \<Rightarrow> bool \<Rightarrow> url \<Rightarrow> nat \<Rightarrow> string \<Rightarrow> draws \<Rightarrow> 's \<Rightarrow> url result \<times> draws \<times> 's" where
  "create_loop h custom u 0 code ds s = (Inl (EApp AppErrShortCodeConflict), ds, s)"
| "create_loop h custom u (Suc n) code ds s =
     (case (if code = [] then generate (sh_generator h) ds else (Inr code, ds)) of
        (Inl err, ds1) \<Rightarrow> (Inl (EWrap ''generating short code: '' err []), ds1, s)
      | (Inr c, ds1) \<Rightarrow>
          let u1 = u\<lparr>short_code := c\<rparr> in
          (case validate_entity u1 of
             Some err \<Rightarrow> (Inl (new_validation_error ''url entity validation failed'' (Some err)), ds1, s)
           | None \<Rightarrow>
               (case repo_create (sh_repo h) u1 s of
                  (Inr v, s1) \<Rightarrow> (Inr u1, ds1, s1)
                | (Inl err, s1) \<Rightarrow>
                    if url_is_conflict err then
                      (if custom then (Inl (EApp AppErrShortCodeConflict), ds1, s1)
                       else create_loop h custom u n [] ds1 s1)
                    else (Inl (EWrap ''persisting url: '' err []), ds1, s1))))"

text \<open>The entity of step 3, still without a short code.\<close>

definition new_url_entity :: "gotime \<Rightarrow> string \<Rightarrow> shorten_command \<Rightarrow> url" where
  "new_url_entity now ulid cmd =
     \<lparr>url_id = ulid, workspace_id = sc_workspace_id cmd, short_code = [], original_url = sc_original_url cmd,
      title = sc_title cmd, url_status = status_active, expires_at = sc_expires_at cmd,
      created_by = sc_created_by cmd, created_at = now, updated_at = now, deleted_at = None, click_count = 0\<rparr>"

definition shorten_result_of :: "'s shorten_handler \<Rightarrow> url \<Rightarrow> shorten_result" where
  "shorten_result_of h u =
     \<lparr>sr_short_url = sh_base_url h @ ''/'' @ short_code u, sr_short_code = short_code u, sr_id = url_id u,
      sr_original_url = original_url u, sr_workspace_id = workspace_id u, sr_created_at = format_rfc3339 (created_at u)\<rparr>"

text \<open>The cache is written after the row; its failure is logged only.\<close>

definition prewarm :: "'s shorten_handler \<Rightarrow> gotime \<Rightarrow> url \<Rightarrow> 's \<Rightarrow> 's" where
  "prewarm h later u s =
     (case sh_cache h of None \<Rightarrow> s | Some c \<Rightarrow> snd (cache_set c later u (sh_cache_ttl h) s))"

definition shorten_handle ::
  "'s shorten_handler \<Rightarrow> gotime \<Rightarrow> gotime \<Rightarrow> string \<Rightarrow> shorten_command \<Rightarrow> draws \<Rightarrow> 's
   \<Rightarrow> shorten_result result \<times> draws \<times> 's" where
  "shorten_handle h now later ulid cmd ds s =
     (case validate_url (sc_original_url cmd) of
        Some err \<Rightarrow> (Inl err, ds, s)
      | None \<Rightarrow>
          (case (if sc_custom_code cmd = [] then None else validate_custom_code (sc_custom_code cmd)) of
             Some err \<Rightarrow> (Inl err, ds, s)
           | None \<Rightarrow>
               (case create_loop h (sc_custom_code cmd \<noteq> []) (new_url_entity now ulid cmd) max_retries
                       (sc_custom_code cmd) ds s of
                  (Inl err, ds1, s1) \<Rightarrow> (Inl err, ds1, s1)
                | (Inr u, ds1, s1) \<Rightarrow> (Inr (shorten_result_of h u), ds1, prewarm h later u s1))))"

section \<open>Properties\<close>

text \<open>An accepted URL is an absolute http or https URL with a host, of printable bytes and at most 8192 long.\<close>

lemma validate_url_ok:
  assumes "validate_url raw = None"
  obtains p sch rest where "parse_request_uri raw = Inr p" "raw = sch @ CHR '':'' # rest"
    "to_lower sch = ''http'' \<or> to_lower sch = ''https''" "u_host p \<noteq> []"
    "0 < length raw" "length raw \<le> 8192" "\<forall>c \<in> set raw. \<not> is_ctl c"
proof -
  from assms obtain p where p: "parse_request_uri raw = Inr p" and w: "web_scheme (u_scheme p)"
    and h: "u_host p \<noteq> []" and l: "length raw \<le> 8192" "raw \<noteq> []"
    by (auto simp: validate_url_def url_limits split: if_splits sum.splits)
  from w have "u_scheme p \<noteq> []" by (auto simp: web_scheme_def)
  with p obtain sch rest where raw: "raw = sch @ CHR '':'' # rest" and s: "u_scheme p = to_lower sch"
    by (rule parse_request_scheme)
  from w have "to_lower sch = ''http'' \<or> to_lower sch = ''https''" by (simp add: web_scheme_def s)
  with that [OF p raw] h l parse_request_uri_printable [OF p] show ?thesis by simp
qed

lemma safe_char_plain: "is_alphanumeric_or_safe c \<Longrightarrow> c \<noteq> CHR '':'' \<and> c \<noteq> CHR ''/''"
  by (auto simp: is_alphanumeric_or_safe_def is_letter_def is_digit_def byte_def Let_def)

lemma validate_custom_code_ok:
  "validate_custom_code code = None \<longleftrightarrow>
     3 \<le> length code \<and> length code \<le> 32 \<and> list_all is_alphanumeric_or_safe code \<and> to_lower code \<notin> set reserved_paths"
proof (cases "List.find (\<lambda>c. \<not> is_alphanumeric_or_safe c) code")
  case None
  then have "list_all is_alphanumeric_or_safe code" by (simp add: find_None_iff list_all_iff)
  with None show ?thesis by (auto simp: validate_custom_code_def url_limits)
next
  case (Some c)
  then have "\<not> list_all is_alphanumeric_or_safe code" by (auto simp: list_all_iff dest: find_Some)
  with Some show ?thesis by (auto simp: validate_custom_code_def url_limits)
qed

lemma validate_errors:
  "validate_url raw = Some e \<Longrightarrow> app_is_validation_error e"
  "validate_custom_code code = Some e \<Longrightarrow> app_is_validation_error e"
  by (auto simp: validate_url_def validate_custom_code_def is_blocked_def err_class_defs
        split: if_splits sum.splits option.splits)

lemma alphabet_safe: "c \<in> set alphabet \<Longrightarrow> is_alphanumeric_or_safe c"
proof -
  have "list_all is_alphanumeric_or_safe alphabet" by code_simp
  then show "c \<in> set alphabet \<Longrightarrow> is_alphanumeric_or_safe c" by (simp add: list_all_iff)
qed

text \<open>What the codes of created links look like.\<close>

definition issued_code :: "'s shorten_handler \<Rightarrow> shorten_command \<Rightarrow> string \<Rightarrow> bool" where
  "issued_code h cmd c =
     (if sc_custom_code cmd = [] then length c = gen_length (sh_generator h) \<and> set c \<subseteq> set alphabet
      else c = sc_custom_code cmd \<and> validate_custom_code c = None)"

lemma issued_code_plain: "issued_code h cmd c \<Longrightarrow> plain_code c"
  by (auto simp: issued_code_def plain_code_def validate_custom_code_ok list_all_iff
        dest: alphabet_safe safe_char_plain split: if_splits)

text \<open>One turn of the loop: it ends before the insertion, after it, or goes on with a fresh code.\<close>

lemma create_loop_step:
  assumes "create_loop h custom u (Suc n) code ds s = (r, ds', s')"
  obtains (stop) "s' = s"
    | (insert) c x s1 ds1 where "repo_create (sh_repo h) (u\<lparr>short_code := c\<rparr>) s = (x, s1)"
        "s' = s1 \<or> create_loop h custom u n [] ds1 s1 = (r, ds', s')"
proof -
  obtain g ds1 where g: "(if code = [] then generate (sh_generator h) ds else (Inr code, ds)) = (g, ds1)"
    by fastforce
  show ?thesis
  proof (cases "s' = s")
    case False
    then obtain c where c: "g = Inr c" "validate_entity (u\<lparr>short_code := c\<rparr>) = None"
      using g assms by (cases g) (auto simp: Let_def split: option.splits)
    obtain x s1 where x: "repo_create (sh_repo h) (u\<lparr>short_code := c\<rparr>) s = (x, s1)" by fastforce
    from assms g c x have "s' = s1 \<or> create_loop h custom u n [] ds1 s1 = (r, ds', s')"
      by (auto simp: Let_def split: sum.splits if_splits)
    with insert [OF x] show ?thesis .
  qed (rule stop)
qed

text \<open>What every insertion leaves alone, the loop leaves alone.\<close>

lemma create_loop_invariant:
  assumes "\<And>u s. g (snd (repo_create (sh_repo h) u s)) = g s"
    and "create_loop h custom u n code ds s = (r, ds', s')"
  shows "g s' = g s"
  using assms(2)
proof (induction n arbitrary: code ds s)
  case (Suc n)
  from Suc.prems show ?case
  proof (cases rule: create_loop_step)
    case (insert c x s1 ds1)
    then have "g s1 = g s" using assms(1) [of "u\<lparr>short_code := c\<rparr>" s] by simp
    with insert(2) Suc.IH show ?thesis by auto
  qed simp
qed simp

context url_system
begin

text \<open>The loop creates one row, with the code of its last attempt, or none at all.\<close>

lemma create_loop_Inr:
  assumes "create_loop h custom u n code ds s = (Inr u', ds', s')" and "sh_repo h = repo"
    and "draws_ok ds"
  shows "\<exists>c. u' = u\<lparr>short_code := c\<rparr> \<and> validate_entity u' = None
     \<and> (c = code \<and> code \<noteq> [] \<or> length c = gen_length (sh_generator h) \<and> set c \<subseteq> set alphabet \<and> \<not> (custom \<and> code \<noteq> []))
     \<and> prim s' = prim s @ [stored u'] \<and> c \<notin> short_code ` set (prim s) \<and> url_id u \<notin> url_id ` set (prim s)
     \<and> pos t y s' = pos t y s \<and> neg t y s' = neg t y s"
  using assms
proof (induction n arbitrary: code ds s)
  case (Suc n)
  obtain g ds1 where g: "(if code = [] then generate (sh_generator h) ds else (Inr code, ds)) = (g, ds1)"
    by fastforce
  with Suc.prems obtain c where c: "g = Inr c" by (cases g) auto
  have shape: "c = code \<and> code \<noteq> [] \<or> code = [] \<and> length c = gen_length (sh_generator h) \<and> set c \<subseteq> set alphabet"
    and ok1: "draws_ok ds1"
    using g c Suc.prems(3) generate_ok by (auto split: if_splits)
  let ?u = "u\<lparr>short_code := c\<rparr>"
  from Suc.prems(1) g c have v: "validate_entity ?u = None"
    by (auto simp: Let_def split: option.splits)
  obtain r s1 where r: "repo_create repo ?u s = (r, s1)" by fastforce
  note frame = create_cache [OF r, of t y]
  show ?case
  proof (cases r)
    case (Inr x)
    with Suc.prems g c v r have "u' = ?u" "s' = s1" by (simp_all add: Let_def)
    with create_ok [of ?u s x s1] r Inr frame v shape show ?thesis by auto
  next
    case (Inl e)
    with Suc.prems g c v r have rest: "create_loop h custom u n [] ds1 s1 = (Inr u', ds', s')" "\<not> custom"
      by (auto simp: Let_def split: if_splits)
    from r Inl have same: "prim s1 = prim s" using create_err by blast
    from Suc.IH [OF rest(1) Suc.prems(2) ok1] same frame rest(2) show ?thesis by auto
  qed
qed simp

lemma create_loop_Inl:
  assumes "create_loop h custom u n code ds s = (Inl e, ds', s')" and "sh_repo h = repo"
  shows "prim s' = prim s \<and> pos t y s' = pos t y s \<and> neg t y s' = neg t y s"
  using assms
proof (induction n arbitrary: code ds s)
  case (Suc n)
  obtain g ds1 where g: "(if code = [] then generate (sh_generator h) ds else (Inr code, ds)) = (g, ds1)"
    by fastforce
  show ?case
  proof (cases g)
    case (Inl err)
    with g Suc.prems show ?thesis by (auto split: if_splits)
  next
    case (Inr c)
    obtain r s1 where r: "repo_create repo (u\<lparr>short_code := c\<rparr>) s = (r, s1)" by fastforce
    note frame = create_cache [OF r, of t y]
    show ?thesis
    proof (cases "validate_entity (u\<lparr>short_code := c\<rparr>)")
      case (Some err)
      with g Inr Suc.prems show ?thesis by (auto simp: Let_def)
    next
      case None
      with g Inr r Suc.prems obtain e1 where e1: "r = Inl e1" by (cases r) (auto simp: Let_def)
      then have same: "prim s1 = prim s" using r create_err by blast
      show ?thesis
      proof (cases "url_is_conflict e1 \<and> \<not> custom")
        case True
        with g Inr r None e1 Suc.prems have "create_loop h custom u n [] ds1 s1 = (Inl e, ds', s')"
          by (simp add: Let_def)
        from Suc.IH [OF this Suc.prems(2)] same frame show ?thesis by simp
      next
        case False
        with g Inr r None e1 Suc.prems have "s' = s1" by (auto simp: Let_def split: if_splits)
        with same frame show ?thesis by simp
      qed
    qed
  qed
qed simp

lemma prewarm_frame:
  assumes "sh_cache h = Some cache \<or> sh_cache h = None"
  shows "prim (prewarm h later u s) = prim s"
  using assms
  by (cases "cache_set cache later u (sh_cache_ttl h) s") (auto simp: prewarm_def cache_set_rows)

theorem shorten_ok:
  assumes "shorten_handle h now later ulid cmd ds s = (Inr res, ds', s')"
    and "sh_repo h = repo" and "sh_cache h = Some cache \<or> sh_cache h = None" and "draws_ok ds"
  obtains u where "res = shorten_result_of h u" "u = (new_url_entity now ulid cmd)\<lparr>short_code := sr_short_code res\<rparr>"
    "prim s' = prim s @ [stored u]" "sr_short_code res \<notin> short_code ` set (prim s)" "ulid \<notin> url_id ` set (prim s)"
    "issued_code h cmd (sr_short_code res)" "validate_url (original_url u) = None" "validate_entity u = None"
proof -
  from assms(1) obtain u s1 where v: "validate_url (sc_original_url cmd) = None"
    and cc: "sc_custom_code cmd = [] \<or> validate_custom_code (sc_custom_code cmd) = None"
    and loop: "create_loop h (sc_custom_code cmd \<noteq> []) (new_url_entity now ulid cmd) max_retries
          (sc_custom_code cmd) ds s = (Inr u, ds', s1)"
    and res: "res = shorten_result_of h u" and s': "s' = prewarm h later u s1"
    by (auto simp: shorten_handle_def split: option.splits sum.splits prod.splits if_splits)
  have id: "url_id (new_url_entity now ulid cmd) = ulid" by (simp add: new_url_entity_def)
  from create_loop_Inr [where t = 0 and y = "[]", OF loop assms(2,4)] obtain c where u: "u = (new_url_entity now ulid cmd)\<lparr>short_code := c\<rparr>"
    and ve: "validate_entity u = None" and row: "prim s1 = prim s @ [stored u]"
    and fresh: "c \<notin> short_code ` set (prim s)" "ulid \<notin> url_id ` set (prim s)"
    and c: "c = sc_custom_code cmd \<and> sc_custom_code cmd \<noteq> [] \<or>
       length c = gen_length (sh_generator h) \<and> set c \<subseteq> set alphabet \<and> sc_custom_code cmd = []"
    unfolding id by blast
  have "sr_short_code res = c" by (simp add: res shorten_result_of_def u)
  with that [OF res] u ve row fresh c cc v prewarm_frame [OF assms(3)] show ?thesis
    by (auto simp: s' issued_code_def new_url_entity_def)
qed

theorem shorten_error:
  assumes "shorten_handle h now later ulid cmd ds s = (Inl e, ds', s')" and "sh_repo h = repo"
  shows "prim s' = prim s \<and> pos t y s' = pos t y s \<and> neg t y s' = neg t y s"
  using assms create_loop_Inl [OF _ assms(2)]
  by (auto simp: shorten_handle_def split: option.splits sum.splits prod.splits if_splits)

text \<open>What readers of the replica and of the cache can see afterwards.\<close>

lemma create_loop_seen:
  assumes "create_loop h custom u n code ds s = (r, ds', s')" and "sh_repo h = repo"
  shows "set (repl s') \<subseteq> set (repl s) \<union> set (prim s') \<and> set (prim s) \<subseteq> set (prim s')"
  using assms
proof (induction n arbitrary: code ds s)
  case (Suc n)
  from Suc.prems(1) show ?case
  proof (cases rule: create_loop_step)
    case (insert c x s1 ds1)
    then have c: "repo_create repo (u\<lparr>short_code := c\<rparr>) s = (x, s1)" using Suc.prems(2) by simp
    have one: "set (repl s1) \<subseteq> set (repl s) \<union> set (prim s1)" "set (prim s) \<subseteq> set (prim s1)"
      using create_repl [OF c] create_ok [of "u\<lparr>short_code := c\<rparr>" s _ s1] create_err [of "u\<lparr>short_code := c\<rparr>" s _ s1] c
      by (cases x; auto)+
    from insert(2) show ?thesis using one Suc.IH [OF _ Suc.prems(2), of "[]" ds1 s1] by blast
  qed simp
qed simp

lemma prewarm_repl:
  assumes "sh_cache h = Some cache \<or> sh_cache h = None"
  shows "repl (prewarm h later u s) = repl s"
  using assms
  by (cases "cache_set cache later u (sh_cache_ttl h) s") (auto simp: prewarm_def cache_set_rows)

lemma prewarm_pos:
  assumes "sh_cache h = Some cache \<or> sh_cache h = None" and "plain_code y"
    and "pos t y (prewarm h later u s) = Some v"
  shows "pos t y s = Some v \<or> (y = short_code u \<and> v = as_cached u)"
proof -
  obtain r s' where r: "cache_set cache later u (sh_cache_ttl h) s = (r, s')" by fastforce
  show ?thesis
  proof (cases r)
    case (Inl e)
    with r set_err [of later u "sh_cache_ttl h" s e s' t y] assms show ?thesis
      by (auto simp: prewarm_def)
  next
    case (Inr w)
    with r set_ok [of later u "sh_cache_ttl h" s w s' y t] assms show ?thesis
      by (auto simp: prewarm_def split: if_splits)
  qed
qed

lemma shorten_seen:
  assumes "shorten_handle h now later ulid cmd ds s = (r, ds', s')"
    and "sh_repo h = repo" and "sh_cache h = Some cache \<or> sh_cache h = None" and "draws_ok ds" and "plain_code y"
  shows "set (repl s') \<subseteq> set (repl s) \<union> set (prim s')"
    and "pos t y s' = Some v \<Longrightarrow> pos t y s = Some v
       \<or> (\<exists>u. stored u \<in> set (prim s') \<and> deleted_at u = None \<and> y = short_code u \<and> v = as_cached u)"
proof -
  obtain l ds1 s1 where loop: "create_loop h (sc_custom_code cmd \<noteq> []) (new_url_entity now ulid cmd) max_retries
       (sc_custom_code cmd) ds s = (l, ds1, s1)" using prod_cases3 by blast
  have cases: "s' = s \<or> s' = s1 \<or> (\<exists>u. l = Inr u \<and> s' = prewarm h later u s1)"
    using assms(1) loop by (auto simp: shorten_handle_def split: option.splits sum.splits if_splits)
  have frame: "pos t y s1 = pos t y s"
  proof (cases l)
    case (Inl e)
    with loop create_loop_Inl [OF _ assms(2)] show ?thesis by blast
  next
    case (Inr u)
    with loop create_loop_Inr [where t = t and y = y, OF _ assms(2,4)] show ?thesis by blast
  qed
  have new: "stored u \<in> set (prim s1) \<and> deleted_at u = None" if "l = Inr u" for u
  proof -
    from create_loop_Inr [where t = t and y = y, OF _ assms(2,4)] loop that
    obtain c where "u = (new_url_entity now ulid cmd)\<lparr>short_code := c\<rparr>" "prim s1 = prim s @ [stored u]" by blast
    then show ?thesis by (simp add: new_url_entity_def)
  qed
  show "set (repl s') \<subseteq> set (repl s) \<union> set (prim s')"
    using cases create_loop_seen [OF loop assms(2)] prewarm_repl [OF assms(3)] prewarm_frame [OF assms(3)] by auto
  show "pos t y s' = Some v \<Longrightarrow> pos t y s = Some v
       \<or> (\<exists>u. stored u \<in> set (prim s') \<and> deleted_at u = None \<and> y = short_code u \<and> v = as_cached u)"
    using cases frame new prewarm_pos [OF assms(3,5)] prewarm_frame [OF assms(3)] by metis
qed

lemma create_loop_table:
  assumes "create_loop h custom u n code ds s = (r, ds', s')" and "sh_repo h = repo" and "table_ok (prim s)"
  shows "table_ok (prim s')"
  using assms
proof (induction n arbitrary: code ds s)
  case (Suc n)
  from Suc.prems(1) show ?case
  proof (cases rule: create_loop_step)
    case (insert c x s1 ds1)
    with Suc.prems create_table have "table_ok (prim s1)" by metis
    with insert(2) Suc.IH [OF _ Suc.prems(2)] show ?thesis by auto
  qed (use Suc.prems in simp)
qed simp

lemma shorten_table:
  assumes "shorten_handle h now later ulid cmd ds s = (r, ds', s')"
    and "sh_repo h = repo" and "sh_cache h = Some cache \<or> sh_cache h = None" and "table_ok (prim s)"
  shows "table_ok (prim s')"
  using assms create_loop_table [OF _ assms(2,4)] prewarm_frame [OF assms(3)]
  by (auto simp: shorten_handle_def split: option.splits sum.splits prod.splits)

end

end
