(* ===== verification/UrlManage.thy ===== *)
theory UrlManage
  imports UrlPorts Shorten
begin

text \<open>
  \<open>internal/application/url\<close>: GetURL, ListURLs, UpdateURL and DeleteURL over the ports. Every call is
  scoped to the workspace of the request; the clock is read once, by the update itself.
\<close>

record url_result =
  ur_id :: string
  ur_short_url :: string
  ur_short_code :: string
  ur_original_url :: string
  ur_title :: string
  ur_status :: string
  ur_workspace_id :: string
  ur_created_by :: string
  ur_created_at :: string
  ur_updated_at :: string
  ur_expires_at :: "gotime option"
  ur_click_count :: int

definition to_url_result :: "string \<Rightarrow> url \<Rightarrow> url_result" where
  "to_url_result base u =
     \<lparr>ur_id = url_id u, ur_short_url = base @ ''/'' @ short_code u, ur_short_code = short_code u,
      ur_original_url = original_url u, ur_title = title u, ur_status = url_status u,
      ur_workspace_id = workspace_id u, ur_created_by = created_by u,
      ur_created_at = format_rfc3339 (created_at u), ur_updated_at = format_rfc3339 (updated_at u),
      ur_expires_at = expires_at u, ur_click_count = click_count u\<rparr>"

section \<open>GetURL and ListURLs\<close>

definition get_url_handle ::
  "'s url_repository \<Rightarrow> string \<Rightarrow> string \<Rightarrow> string \<Rightarrow> 's \<Rightarrow> url_result result \<times> 's" where
  "get_url_handle repo base i ws s =
     (case repo_get_by_id repo i ws s of
        (Inl err, s1) \<Rightarrow>
          (if url_is_not_found err then Inl (EApp AppErrNotFound)
           else if url_is_gone err then Inl (EApp AppErrNotFound)
           else Inl (EWrap ''getting url: '' err []), s1)
      | (Inr u, s1) \<Rightarrow> (Inr (to_url_result base u), s1))"

record list_result =
  lr_urls :: "url_result list"
  lr_next_cursor :: string
  lr_has_more :: bool

definition list_urls_handle ::
  "'s url_repository \<Rightarrow> string \<Rightarrow> list_filter \<Rightarrow> 's \<Rightarrow> list_result result \<times> 's" where
  "list_urls_handle repo base q s =
     (case repo_list repo q s of
        (Inl err, s1) \<Rightarrow> (Inl (EWrap ''listing urls: '' err []), s1)
      | (Inr (urls, next), s1) \<Rightarrow>
          (Inr \<lparr>lr_urls = map (to_url_result base) urls, lr_next_cursor = next, lr_has_more = (next \<noteq> [])\<rparr>, s1))"

section \<open>UpdateURL\<close>

text \<open>The optional fields of a PATCH; \<open>uc_expires_at = Some None\<close> removes the expiry.\<close>

record update_command =
  uc_url_id :: string
  uc_workspace_id :: string
  uc_original_url :: "string option"
  uc_title :: "string option"
  uc_expires_at :: "gotime option option"

definition validate_update_url :: "string \<Rightarrow> gerr option" where
  "validate_update_url raw =
     (if raw = [] then Some (new_validation_error ''original_url cannot be empty'' None)
      else if length raw > max_url_length then
        Some (new_validation_error (''original_url exceeds maximum length of '' @ show_nat max_url_length @ '' characters'') None)
      else (case parse_request_uri raw of
              Inl err \<Rightarrow> Some (new_validation_error ''original_url is not a valid URL'' (Some err))
            | Inr parsed \<Rightarrow>
                if \<not> web_scheme (u_scheme parsed) then
                  Some (new_validation_error (''original_url scheme '' @ go_quote (u_scheme parsed) @ '' is not allowed'') None)
                else None))"

definition apply_update :: "gotime \<Rightarrow> update_command \<Rightarrow> url \<Rightarrow> url" where
  "apply_update now cmd u =
     (let u1 = (case uc_original_url cmd of None \<Rightarrow> u | Some raw \<Rightarrow> u\<lparr>original_url := raw\<rparr>);
          u2 = (case uc_title cmd of None \<Rightarrow> u1 | Some t \<Rightarrow> u1\<lparr>title := t\<rparr>);
          u3 = (case uc_expires_at cmd of None \<Rightarrow> u2 | Some e \<Rightarrow> u2\<lparr>expires_at := e\<rparr>)
      in u3\<lparr>updated_at := now\<rparr>)"

definition invalidate :: "'s cache_port option \<Rightarrow> string \<Rightarrow> 's \<Rightarrow> 's" where
  "invalidate cache sc s = (case cache of None \<Rightarrow> s | Some c \<Rightarrow> snd (cache_delete c sc s))"

text \<open>Read, modify, write, then invalidate the cache; the failure of the last step is logged only.\<close>

definition update_url_handle ::
  "'s url_repository \<Rightarrow> 's cache_port option \<Rightarrow> string \<Rightarrow> gotime \<Rightarrow> update_command \<Rightarrow> 's \<Rightarrow> url_result result \<times> 's" where
  "update_url_handle repo cache base now cmd s =
     (case repo_get_by_id repo (uc_url_id cmd) (uc_workspace_id cmd) s of
        (Inl err, s1) \<Rightarrow>
          (if url_is_not_found err then Inl (EApp AppErrNotFound)
           else Inl (EWrap ''fetching url for update: '' err []), s1)
      | (Inr u, s1) \<Rightarrow>
          (case Option.bind (uc_original_url cmd) validate_update_url of
             Some err \<Rightarrow> (Inl err, s1)
           | None \<Rightarrow>
               let u' = apply_update now cmd u in
               (case repo_update repo now u' s1 of
                  (Inl err, s2) \<Rightarrow>
                    (if url_is_not_found err then Inl (EApp AppErrNotFound)
                     else Inl (EWrap ''updating url: '' err []), s2)
                | (Inr v, s2) \<Rightarrow> (Inr (to_url_result base u'), invalidate cache (short_code u') s2))))"

section \<open>DeleteURL\<close>

definition delete_url_handle ::
  "'s url_repository \<Rightarrow> 's cache_port option \<Rightarrow> gotime \<Rightarrow> string \<Rightarrow> string \<Rightarrow> 's \<Rightarrow> unit result \<times> 's" where
  "delete_url_handle repo cache now i ws s =
     (case repo_get_by_id repo i ws s of
        (Inl err, s1) \<Rightarrow>
          (if url_is_not_found err then Inl (EApp AppErrNotFound)
           else Inl (EWrap ''fetching url for delete: '' err []), s1)
      | (Inr u, s1) \<Rightarrow>
          (case repo_soft_delete repo now i ws s1 of
             (Inl err, s2) \<Rightarrow>
               (if url_is_not_found err then Inl (EApp AppErrNotFound)
                else Inl (EWrap ''soft deleting url: '' err []), s2)
           | (Inr v, s2) \<Rightarrow> (Inr (), invalidate cache (short_code u) s2)))"

section \<open>Properties\<close>

lemma apply_update_simps [simp]:
  "url_key (apply_update now cmd u) = url_key u" "short_code (apply_update now cmd u) = short_code u"
  "url_id (apply_update now cmd u) = url_id u" "workspace_id (apply_update now cmd u) = workspace_id u"
  "url_status (apply_update now cmd u) = url_status u" "deleted_at (apply_update now cmd u) = deleted_at u"
  by (auto simp: apply_update_def url_key_def Let_def split: option.splits)

lemma apply_update_fields [simp]:
  "original_url (apply_update now cmd u) = (case uc_original_url cmd of None \<Rightarrow> original_url u | Some r \<Rightarrow> r)"
  "title (apply_update now cmd u) = (case uc_title cmd of None \<Rightarrow> title u | Some r \<Rightarrow> r)"
  "expires_at (apply_update now cmd u) = (case uc_expires_at cmd of None \<Rightarrow> expires_at u | Some r \<Rightarrow> r)"
  by (auto simp: apply_update_def Let_def split: option.splits)

lemma to_url_result_simps [simp]:
  "ur_workspace_id (to_url_result b u) = workspace_id u" "ur_id (to_url_result b u) = url_id u"
  "ur_short_code (to_url_result b u) = short_code u" "ur_original_url (to_url_result b u) = original_url u"
  by (simp_all add: to_url_result_def)

text \<open>Every URL the creation accepts is accepted by the update.\<close>

lemma validate_update_weaker: "validate_url raw = None \<Longrightarrow> validate_update_url raw = None"
  by (auto simp: validate_url_def validate_update_url_def split: if_splits sum.splits)

lemma url_key_eq: "url_key u = (url_id u, workspace_id u, short_code u)"
  by (simp add: url_key_def)

lemma replace_rows_in: "r \<in> set rows \<Longrightarrow> p r \<Longrightarrow> f r \<in> set (replace_rows p f rows)"
  by (force simp: replace_rows_def)

lemma replace_rows_cases: "r' \<in> set (replace_rows p f rows) \<Longrightarrow>
    (r' \<in> set rows \<and> \<not> p r') \<or> (\<exists>r \<in> set rows. p r \<and> r' = f r)"
  by (auto simp: replace_rows_def)

context url_system
begin

lemma invalidate_rows:
  assumes "co = Some cache \<or> co = None"
  shows "prim (invalidate co sc s) = prim s" and "repl (invalidate co sc s) = repl s"
proof -
  obtain r s' where "cache_delete cache sc s = (r, s')" by fastforce
  with assms show "prim (invalidate co sc s) = prim s" and "repl (invalidate co sc s) = repl s"
    by (auto simp: invalidate_def cache_del_rows)
qed

text \<open>Invalidation removes the link of the code, or changes nothing when the cache fails.\<close>

lemma invalidate_pos:
  assumes "plain_code sc" "plain_code y"
  shows "pos t y (invalidate (Some cache) sc s) = pos t y s
     \<or> (y = sc \<and> pos t y (invalidate (Some cache) sc s) = None)"
proof -
  obtain r s' where r: "cache_delete cache sc s = (r, s')" by fastforce
  then show ?thesis
    using assms del_ok [of sc s _ s' y t] del_err [of sc s _ s' t y] by (cases r) (auto simp: invalidate_def)
qed

lemma invalidate_none: "invalidate None sc s = s"
  by (simp add: invalidate_def)

theorem get_url_scoped:
  assumes "get_url_handle repo base i ws s = (Inr res, s')"
  shows "\<exists>u \<in> set (repl s). live_in i ws u \<and> res = to_url_result base u"
  using assms by (auto simp: get_url_handle_def dest!: id_get split: prod.splits sum.splits if_splits)

theorem list_urls_scoped:
  assumes "list_urls_handle repo base q s = (Inr res, s')" and "x \<in> set (lr_urls res)"
  shows "ur_workspace_id x = lf_workspace_id q
     \<and> (\<exists>u \<in> set (repl s). deleted_at u = None \<and> x = to_url_result base u)"
proof -
  from assms obtain urls "next" where l: "repo_list repo q s = (Inr (urls, next), s')"
    and x: "x \<in> to_url_result base ` set urls"
    by (auto simp: list_urls_handle_def split: prod.splits sum.splits)
  from list_ok [OF l] x show ?thesis by auto
qed

lemma update_Inr:
  assumes "update_url_handle repo co base now cmd s = (Inr res, s')" and "co = Some cache \<or> co = None"
  obtains u where "u \<in> set (repl s)" "live_in (uc_url_id cmd) (uc_workspace_id cmd) u"
    "res = to_url_result base (apply_update now cmd u)"
    "\<forall>raw. uc_original_url cmd = Some raw \<longrightarrow> validate_update_url raw = None"
    "prim s' = replace_rows (live_in (uc_url_id cmd) (uc_workspace_id cmd))
       (stored \<circ> set_mutable now (apply_update now cmd u)) (prim s)"
    "\<exists>r \<in> set (prim s). live_in (uc_url_id cmd) (uc_workspace_id cmd) r"
proof -
  from assms(1) obtain u s1 s2 where g: "repo_get_by_id repo (uc_url_id cmd) (uc_workspace_id cmd) s = (Inr u, s1)"
    and v: "Option.bind (uc_original_url cmd) validate_update_url = None"
    and w: "repo_update repo now (apply_update now cmd u) s1 = (Inr (), s2)"
    and res: "res = to_url_result base (apply_update now cmd u)"
    and s': "s' = invalidate co (short_code (apply_update now cmd u)) s2"
    by (auto simp: update_url_handle_def Let_def split: prod.splits sum.splits option.splits if_splits)
  from id_get [OF g] have u: "u \<in> set (repl s)" "live_in (uc_url_id cmd) (uc_workspace_id cmd) u" by simp_all
  then have ids: "url_id u = uc_url_id cmd" "workspace_id u = uc_workspace_id cmd" by (simp_all add: live_in_def)
  from v have val: "\<forall>raw. uc_original_url cmd = Some raw \<longrightarrow> validate_update_url raw = None"
    by auto
  from update_ok [OF w] id_get_frame [OF g] invalidate_rows(1) [OF assms(2)] ids
  have "prim s' = replace_rows (live_in (uc_url_id cmd) (uc_workspace_id cmd))
       (stored \<circ> set_mutable now (apply_update now cmd u)) (prim s)"
    "\<exists>r \<in> set (prim s). live_in (uc_url_id cmd) (uc_workspace_id cmd) r"
    by (simp_all add: s')
  with that [OF u res val] show ?thesis by blast
qed

lemma update_Inl:
  assumes "update_url_handle repo co base now cmd s = (Inl e, s')"
  shows "prim s' = prim s"
  using assms
  by (auto simp: update_url_handle_def Let_def dest!: id_get_frame update_err
        split: prod.splits sum.splits option.splits)

lemma delete_Inr:
  assumes "delete_url_handle repo co now i ws s = (Inr v, s')" and "co = Some cache \<or> co = None"
  obtains u s2 where "u \<in> set (repl s)" "live_in i ws u"
    "prim s' = replace_rows (live_in i ws) (stored \<circ> set_deleted now) (prim s)"
    "\<exists>r \<in> set (prim s). live_in i ws r" "s' = invalidate co (short_code u) s2"
    "\<And>t y. pos t y s2 = pos t y s"
proof -
  from assms(1) obtain u s1 s2 where g: "repo_get_by_id repo i ws s = (Inr u, s1)"
    and w: "repo_soft_delete repo now i ws s1 = (Inr (), s2)"
    and s': "s' = invalidate co (short_code u) s2"
    by (auto simp: delete_url_handle_def split: prod.splits sum.splits if_splits)
  have rows: "prim s' = replace_rows (live_in i ws) (stored \<circ> set_deleted now) (prim s)"
    "\<exists>r \<in> set (prim s). live_in i ws r"
    using delete_ok [OF w] id_get_frame [OF g] invalidate_rows(1) [OF assms(2)] by (simp_all add: s')
  have "pos t y s2 = pos t y s" for t y
    using delete_cache [OF w, of t y] id_get_cache [OF g, of t y] by simp
  with that id_get [OF g] rows s' show ?thesis by blast
qed

lemma delete_Inl:
  assumes "delete_url_handle repo co now i ws s = (Inl e, s')"
  shows "prim s' = prim s"
  using assms
  by (auto simp: delete_url_handle_def dest!: id_get_frame delete_err split: prod.splits sum.splits)

text \<open>After a deletion no live row answers to the id.\<close>

theorem delete_removes:
  assumes "delete_url_handle repo co now i ws s = (Inr v, s')" and "co = Some cache \<or> co = None"
  shows "\<not> (\<exists>r \<in> set (prim s'). live_in i ws r)"
proof -
  from delete_Inr [OF assms] have
    p: "prim s' = replace_rows (live_in i ws) (stored \<circ> set_deleted now) (prim s)" by blast
  have "\<not> live_in i ws (stored (set_deleted now r))" for r
    using stored_live [of "set_deleted now r"] by (simp add: live_in_def)
  then show ?thesis by (auto simp: p dest!: replace_rows_cases)
qed

text \<open>What readers of the replica and of the cache can see afterwards.\<close>

lemma invalidate_pos_Some:
  assumes "co = Some cache \<or> co = None" "plain_code sc" "plain_code y" "pos t y (invalidate co sc s) = Some v"
  shows "pos t y s = Some v"
  using assms invalidate_pos [OF assms(2,3), of t s] by (auto simp: invalidate_def)

lemma update_seen:
  assumes "update_url_handle repo co base now cmd s = (r, s')" and "co = Some cache \<or> co = None"
    and "\<forall>u \<in> set (repl s). plain_code (short_code u)" and "plain_code y"
  shows "set (repl s') \<subseteq> set (repl s) \<union> set (prim s')"
    and "pos t y s' = Some v \<Longrightarrow> pos t y s = Some v"
proof -
  obtain g s1 where g: "repo_get_by_id repo (uc_url_id cmd) (uc_workspace_id cmd) s = (g, s1)" by fastforce
  note same = id_get_frame [OF g] id_get_cache [OF g, of t y]
  have "set (repl s') \<subseteq> set (repl s) \<union> set (prim s') \<and> (pos t y s' = Some v \<longrightarrow> pos t y s = Some v)"
  proof (cases "s' = s1")
    case False
    then obtain u where u: "g = Inr u" "Option.bind (uc_original_url cmd) validate_update_url = None"
      using assms(1) g by (cases g) (auto simp: update_url_handle_def split: option.splits)
    obtain w s2 where w: "repo_update repo now (apply_update now cmd u) s1 = (w, s2)" by fastforce
    note w_same = update_repl [OF w] update_cache [OF w, of t y]
    have "s' = s2 \<or> s' = invalidate co (short_code u) s2"
      using assms(1) g u w by (auto simp: update_url_handle_def Let_def split: sum.splits)
    moreover have "plain_code (short_code u)" using id_get g u assms(3) by blast
    ultimately show ?thesis
      using w_same same invalidate_rows [OF assms(2), of "short_code u" s2]
        invalidate_pos_Some [OF assms(2) _ assms(4), of "short_code u" t s2 v] by auto
  qed (use same in simp)
  then show "set (repl s') \<subseteq> set (repl s) \<union> set (prim s')" and "pos t y s' = Some v \<Longrightarrow> pos t y s = Some v" by auto
qed

lemma delete_seen:
  assumes "delete_url_handle repo co now i ws s = (r, s')" and "co = Some cache \<or> co = None"
    and "\<forall>u \<in> set (repl s). plain_code (short_code u)" and "plain_code y"
  shows "set (repl s') \<subseteq> set (repl s) \<union> set (prim s')"
    and "pos t y s' = Some v \<Longrightarrow> pos t y s = Some v"
proof -
  obtain g s1 where g: "repo_get_by_id repo i ws s = (g, s1)" by fastforce
  note same = id_get_frame [OF g] id_get_cache [OF g, of t y]
  have "set (repl s') \<subseteq> set (repl s) \<union> set (prim s') \<and> (pos t y s' = Some v \<longrightarrow> pos t y s = Some v)"
  proof (cases "s' = s1")
    case False
    then obtain u where u: "g = Inr u"
      using assms(1) g by (cases g) (auto simp: delete_url_handle_def)
    obtain w s2 where w: "repo_soft_delete repo now i ws s1 = (w, s2)" by fastforce
    note w_same = delete_repl [OF w] delete_cache [OF w, of t y]
    have "s' = s2 \<or> s' = invalidate co (short_code u) s2"
      using assms(1) g u w by (auto simp: delete_url_handle_def split: sum.splits)
    moreover have "plain_code (short_code u)" using id_get g u assms(3) by blast
    ultimately show ?thesis
      using w_same same invalidate_rows [OF assms(2), of "short_code u" s2]
        invalidate_pos_Some [OF assms(2) _ assms(4), of "short_code u" t s2 v] by auto
  qed (use same in simp)
  then show "set (repl s') \<subseteq> set (repl s) \<union> set (prim s')" and "pos t y s' = Some v \<Longrightarrow> pos t y s = Some v" by auto
qed

lemma manage_table:
  assumes "co = Some cache \<or> co = None" and "table_ok (prim s)"
  shows "update_url_handle repo co base now cmd s = (ru, s') \<Longrightarrow> table_ok (prim s')"
    and "delete_url_handle repo co now i ws s = (rd, s') \<Longrightarrow> table_ok (prim s')"
  using assms(2)
  by (auto simp: update_url_handle_def delete_url_handle_def Let_def invalidate_rows [OF assms(1)]
        dest!: id_get_frame update_table delete_table split: prod.splits sum.splits option.splits if_splits)

end

end
