(* ===== verification/UrlWorld.thy ===== *)
theory UrlWorld
  imports UrlRepo UrlCache Resolve UrlManage
begin

text \<open>
  The links of one deployment: the PostgreSQL table and the Redis store side by side, with the two
  implementations of the ports working each on its own part (the wiring of \<open>cmd/api/main.go\<close> and
  \<open>cmd/redirector/main.go\<close>). The contract \<open>url_system\<close> holds of this pair, so the lemmas of the use cases
  hold of the code's own repository and cache.
\<close>

record world =
  w_urls :: url_db
  w_redis :: redis_db

definition on_urls :: "(url_db \<Rightarrow> 'a \<times> url_db) \<Rightarrow> world \<Rightarrow> 'a \<times> world" where
  "on_urls f w = (case f (w_urls w) of (r, db) \<Rightarrow> (r, w\<lparr>w_urls := db\<rparr>))"

definition on_redis :: "(redis_db \<Rightarrow> 'a \<times> redis_db) \<Rightarrow> world \<Rightarrow> 'a \<times> world" where
  "on_redis f w = (case f (w_redis w) of (r, db) \<Rightarrow> (r, w\<lparr>w_redis := db\<rparr>))"

definition world_repo :: "world url_repository" where
  "world_repo =
     \<lparr>repo_create = \<lambda>u. on_urls (create_url u),
      repo_get_by_short_code = \<lambda>sc. on_urls (get_by_short_code sc),
      repo_get_by_id = \<lambda>i ws. on_urls (get_by_id i ws),
      repo_update = \<lambda>now u. on_urls (update_url now u),
      repo_soft_delete = \<lambda>now i ws. on_urls (soft_delete_url now i ws),
      repo_list = \<lambda>f. on_urls (list_urls f),
      repo_increment = \<lambda>now sc. on_urls (increment_click_count now sc)\<rparr>"

definition world_cache :: "world cache_port" where
  "world_cache =
     \<lparr>cache_get = \<lambda>now sc. on_redis (url_cache_get now sc),
      cache_set = \<lambda>now u ttl. on_redis (url_cache_set now u ttl),
      cache_set_not_found = \<lambda>now sc ttl. on_redis (url_cache_set_not_found now sc ttl),
      cache_is_not_found = \<lambda>now sc. on_redis (url_cache_is_not_found now sc),
      cache_delete = \<lambda>sc. on_redis (url_cache_delete sc)\<rparr>"

definition w_rows :: "world \<Rightarrow> url list" where "w_rows w = udb_rows (w_urls w)"
definition w_seen :: "world \<Rightarrow> url list" where "w_seen w = replica_rows (w_urls w)"

definition w_cached :: "gotime \<Rightarrow> string \<Rightarrow> world \<Rightarrow> url option" where
  "w_cached t sc w = cached_url t sc (w_redis w)"

definition w_cached_not_found :: "gotime \<Rightarrow> string \<Rightarrow> world \<Rightarrow> bool" where
  "w_cached_not_found t sc w = cached_not_found t sc (w_redis w)"

lemmas world_view_defs = w_rows_def w_seen_def w_cached_def w_cached_not_found_def

lemma on_urls_eq: "on_urls f w = (r, w') \<longleftrightarrow> (\<exists>db. f (w_urls w) = (r, db) \<and> w' = w\<lparr>w_urls := db\<rparr>)"
  by (auto simp: on_urls_def split: prod.splits)

lemma on_redis_eq: "on_redis f w = (r, w') \<longleftrightarrow> (\<exists>db. f (w_redis w) = (r, db) \<and> w' = w\<lparr>w_redis := db\<rparr>)"
  by (auto simp: on_redis_def split: prod.splits)

lemmas pg_laws = pg_urls.create_ok pg_urls.create_err pg_urls.create_repl pg_urls.code_get
  pg_urls.code_get_err pg_urls.code_get_frame pg_urls.id_get pg_urls.id_get_frame pg_urls.update_ok
  pg_urls.update_err pg_urls.update_repl pg_urls.delete_ok pg_urls.delete_err pg_urls.delete_repl
  pg_urls.create_table pg_urls.update_table pg_urls.delete_table pg_urls.list_ok pg_urls.list_frame

lemmas pg_call_laws = pg_laws [unfolded pg_url_repository_def url_repository.simps]

lemmas redis_laws = redis_cache.get_ok redis_cache.get_pos redis_cache.get_neg redis_cache.set_ok redis_cache.set_neg
  redis_cache.set_err redis_cache.set_nf_ok redis_cache.set_nf_pos redis_cache.set_nf_err redis_cache.is_nf_ok
  redis_cache.is_nf_frame redis_cache.del_ok redis_cache.del_err

lemmas redis_call_laws = redis_laws [unfolded redis_url_cache_def cache_port.simps]

lemma world_store: "url_store world_repo w_rows w_seen pg_row url_table_ok"
  by unfold_locales (auto simp: world_repo_def w_rows_def w_seen_def on_urls_eq dest: pg_call_laws)

interpretation links: url_system world_repo w_rows w_seen pg_row url_table_ok world_cache w_cached w_cached_not_found
proof (intro url_system.intro url_system_axioms.intro)
  show "url_store world_repo w_rows w_seen pg_row url_table_ok" by (rule world_store)
  show "url_cache world_cache w_cached w_cached_not_found"
    by unfold_locales (auto simp: world_cache_def w_cached_def w_cached_not_found_def on_redis_eq redis_call_laws dest: redis_call_laws(1,10))
qed (auto simp: world_repo_def world_cache_def world_view_defs on_urls_eq on_redis_eq)

end
