(* ===== verification/LinkSystem.thy ===== *)
theory LinkSystem
  imports UrlWorld
begin

text \<open>
  The running system: API and redirector requests, the goroutines the resolver leaves behind, the replica
  catching up and the failures of both stores, interleaved in any order. A state is the stores, the
  pending cache tasks, the clock and, as a ghost, every version of a row the primary has held
  (\<open>sys_history\<close>). The step relation runs the handlers as they are on that state; the safety theorem
  says what a redirect can answer in every reachable state.
\<close>

record sys =
  sys_world :: world
  sys_tasks :: "cache_task list"
  sys_now :: gotime
  sys_history :: "url list"

text \<open>The handlers of a deployment, wired as in the two \<open>main.go\<close>.\<close>

record sys_config =
  cfg_generator :: generator
  cfg_base_url :: string
  cfg_use_cache :: bool
  cfg_cache_ttl :: int
  cfg_negative_ttl :: int

definition cfg_cache :: "sys_config \<Rightarrow> world cache_port option" where
  "cfg_cache c = (if cfg_use_cache c then Some world_cache else None)"

definition cfg_shorten :: "sys_config \<Rightarrow> world shorten_handler" where
  "cfg_shorten c = new_shorten_handler world_repo (cfg_cache c) (cfg_generator c) (cfg_base_url c) (cfg_cache_ttl c)"

definition cfg_resolve :: "sys_config \<Rightarrow> world resolve_handler" where
  "cfg_resolve c = \<lparr>rh_get_by_short_code = repo_get_by_short_code world_repo, rh_cache = cfg_cache c,
     rh_cache_ttl = cfg_cache_ttl c, rh_negative_ttl = cfg_negative_ttl c\<rparr>"

text \<open>A step ends with the rows it left added to the history.\<close>

definition commit :: "world \<Rightarrow> cache_task list \<Rightarrow> sys \<Rightarrow> sys" where
  "commit w ts s = s\<lparr>sys_world := w, sys_tasks := ts, sys_history := sys_history s @ w_rows w\<rparr>"

definition set_faults :: "faults \<Rightarrow> string option list \<Rightarrow> world \<Rightarrow> world" where
  "set_faults fs rs w = w\<lparr>w_urls := (w_urls w)\<lparr>udb_faults := fs\<rparr>, w_redis := (w_redis w)\<lparr>rdb_faults := rs\<rparr>\<rparr>"

definition replicate_world :: "world \<Rightarrow> world" where
  "replicate_world w = w\<lparr>w_urls := replicate_urls (w_urls w)\<rparr>"

definition drop_nth :: "nat \<Rightarrow> 'a list \<Rightarrow> 'a list" where
  "drop_nth i xs = take i xs @ drop (Suc i) xs"

inductive sys_step :: "sys_config \<Rightarrow> sys \<Rightarrow> sys \<Rightarrow> bool" for c :: sys_config where
  tick: "t \<ge> sys_now s \<Longrightarrow> sys_step c s (s\<lparr>sys_now := t\<rparr>)"
| shorten: "shorten_handle (cfg_shorten c) (sys_now s) later ulid cmd ds (sys_world s) = (r, ds', w) \<Longrightarrow>
     draws_ok ds \<Longrightarrow> sys_step c s (commit w (sys_tasks s) s)"
| resolve: "resolve_handle (cfg_resolve c) (sys_now s) later sc (sys_world s) = (r, ts, w) \<Longrightarrow>
     sys_step c s (commit w (sys_tasks s @ ts) s)"
| task: "i < length (sys_tasks s) \<Longrightarrow>
     sys_step c s (commit (run_task (cfg_resolve c) (sys_now s) (sys_tasks s ! i) (sys_world s)) (drop_nth i (sys_tasks s)) s)"
| update: "update_url_handle world_repo (cfg_cache c) (cfg_base_url c) (sys_now s) ucmd (sys_world s) = (ru, w) \<Longrightarrow>
     sys_step c s (commit w (sys_tasks s) s)"
| delete: "delete_url_handle world_repo (cfg_cache c) (sys_now s) i ws (sys_world s) = (rd, w) \<Longrightarrow>
     sys_step c s (commit w (sys_tasks s) s)"
| click: "repo_increment world_repo (sys_now s) sc (sys_world s) = (rd, w) \<Longrightarrow>
     sys_step c s (commit w (sys_tasks s) s)"
| replicate: "sys_step c s (s\<lparr>sys_world := replicate_world (sys_world s)\<rparr>)"
| faults: "sys_step c s (s\<lparr>sys_world := set_faults fs rs (sys_world s)\<rparr>)"

inductive_cases sys_stepE: "sys_step c s s'"

inductive reachable :: "sys_config \<Rightarrow> sys \<Rightarrow> sys \<Rightarrow> bool" for c s0 where
  start: "reachable c s0 s0"
| more: "reachable c s0 s \<Longrightarrow> sys_step c s s' \<Longrightarrow> reachable c s0 s'"

text \<open>A deployment before its first link, with or without a replica.\<close>

definition init_sys :: "string list \<Rightarrow> bool \<Rightarrow> gotime \<Rightarrow> sys" where
  "init_sys workspaces with_replica t =
     \<lparr>sys_world = \<lparr>w_urls = \<lparr>udb_rows = [], udb_replica = (if with_replica then Some [] else None),
        udb_workspaces = workspaces, udb_faults = []\<rparr>, w_redis = empty_redis\<rparr>,
      sys_tasks = [], sys_now = t, sys_history = []\<rparr>"

section \<open>The invariant\<close>

text \<open>A link some version of whose row had this target, under the same id, workspace and code.\<close>

definition known :: "url list \<Rightarrow> url \<Rightarrow> bool" where
  "known H u = (\<exists>v \<in> set H. url_key v = url_key u \<and> original_url v = original_url u)"

text \<open>A target the redirector may send a browser to.\<close>

definition web_target :: "string \<Rightarrow> bool" where
  "web_target raw = (validate_update_url raw = None)"

definition sys_inv :: "sys \<Rightarrow> bool" where
  "sys_inv s =
     (url_table_ok (w_rows (sys_world s))
      \<and> set (w_rows (sys_world s)) \<subseteq> set (sys_history s)
      \<and> set (w_seen (sys_world s)) \<subseteq> set (sys_history s)
      \<and> (\<forall>v \<in> set (sys_history s). plain_code (short_code v) \<and> web_target (original_url v) \<and> (\<exists>r \<in> set (w_rows (sys_world s)). url_key r = url_key v))
      \<and> (\<forall>t y u. plain_code y \<longrightarrow> w_cached t y (sys_world s) = Some u \<longrightarrow> short_code u = y \<and> known (sys_history s) u)
      \<and> (\<forall>u. TaskSet u \<in> set (sys_tasks s) \<longrightarrow> known (sys_history s) u))"

lemma cfg_cache_cases: "cfg_cache c = Some world_cache \<or> cfg_cache c = None"
  by (simp add: cfg_cache_def)

lemma cfg_resolves_over: "resolves_over world_repo world_cache (cfg_resolve c)"
  by (simp add: resolves_over_def cfg_resolve_def cfg_cache_def)

lemma cfg_shorten_simps [simp]:
  "sh_repo (cfg_shorten c) = world_repo" "sh_cache (cfg_shorten c) = cfg_cache c"
  by (simp_all add: cfg_shorten_def new_shorten_handler_def)

lemma known_mono: "set H \<subseteq> set H' \<Longrightarrow> known H u \<Longrightarrow> known H' u"
  by (auto simp: known_def)

lemma commit_simps [simp]:
  "sys_world (commit w ts s) = w" "sys_tasks (commit w ts s) = ts"
  "sys_history (commit w ts s) = sys_history s @ w_rows w" "sys_now (commit w ts s) = sys_now s"
  by (simp_all add: commit_def)

text \<open>
  What a step has to show: the table stays well formed, keeps the keys of its rows, gets only plain codes, and
  what becomes visible was known before or is in the table.
\<close>

lemma sys_inv_commit:
  assumes inv: "sys_inv s"
    and ok: "url_table_ok (w_rows w)"
    and keep: "\<And>r. r \<in> set (w_rows (sys_world s)) \<Longrightarrow> \<exists>r' \<in> set (w_rows w). url_key r' = url_key r"
    and plain: "\<And>r. r \<in> set (w_rows w) \<Longrightarrow> plain_code (short_code r) \<and> web_target (original_url r)"
    and seen: "set (w_seen w) \<subseteq> set (w_seen (sys_world s)) \<union> set (w_rows w)"
    and cached: "\<And>t y u. plain_code y \<Longrightarrow> w_cached t y w = Some u \<Longrightarrow>
        w_cached t y (sys_world s) = Some u \<or> (short_code u = y \<and> known (sys_history s @ w_rows w) u)"
    and tasks: "\<And>u. TaskSet u \<in> set ts \<Longrightarrow> TaskSet u \<in> set (sys_tasks s) \<or> known (sys_history s) u"
  shows "sys_inv (commit w ts s)"
proof -
  have mono: "known (sys_history s) u \<Longrightarrow> known (sys_history s @ w_rows w) u" for u
    by (auto simp: known_def)
  have "\<exists>r \<in> set (w_rows w). url_key r = url_key v" if "v \<in> set (sys_history s @ w_rows w)" for v
    using that inv keep by (fastforce simp: sys_inv_def)
  moreover have "plain_code (short_code v) \<and> web_target (original_url v)" if "v \<in> set (sys_history s @ w_rows w)" for v
    using that inv plain by (auto simp: sys_inv_def)
  moreover have "short_code u = y \<and> known (sys_history s @ w_rows w) u"
    if "plain_code y" "w_cached t y w = Some u" for t y u
    using cached [OF that] inv that(1) mono by (auto simp: sys_inv_def)
  moreover have "known (sys_history s @ w_rows w) u" if "TaskSet u \<in> set ts" for u
    using tasks [OF that] inv mono by (auto simp: sys_inv_def)
  moreover have "set (w_seen w) \<subseteq> set (sys_history s @ w_rows w)"
    using seen inv by (auto simp: sys_inv_def)
  ultimately show ?thesis using ok by (simp add: sys_inv_def)
qed

text \<open>The case of a step that changes no row.\<close>

lemma sys_inv_commit_same:
  assumes inv: "sys_inv s" and rows: "w_rows w = w_rows (sys_world s)"
    and seen: "set (w_seen w) \<subseteq> set (w_seen (sys_world s)) \<union> set (w_rows w)"
    and cached: "\<And>t y u. plain_code y \<Longrightarrow> w_cached t y w = Some u \<Longrightarrow>
        w_cached t y (sys_world s) = Some u \<or> (short_code u = y \<and> known (sys_history s @ w_rows w) u)"
    and tasks: "\<And>u. TaskSet u \<in> set ts \<Longrightarrow> TaskSet u \<in> set (sys_tasks s) \<or> known (sys_history s) u"
  shows "sys_inv (commit w ts s)"
  by (rule sys_inv_commit [OF inv _ _ _ seen]) (use inv cached tasks in \<open>auto simp: rows sys_inv_def\<close>)

section \<open>Every step keeps the invariant\<close>

lemma keys_replaced:
  assumes "\<And>r. url_key (f r) = url_key r"
  shows "r \<in> set rows \<Longrightarrow> \<exists>r' \<in> set (replace_rows p f rows). url_key r' = url_key r"
    and "r' \<in> set (replace_rows p f rows) \<Longrightarrow> \<exists>r \<in> set rows. url_key r = url_key r'"
  using assms by (auto simp: replace_rows_def)

lemma plain_of_key: "url_key r = url_key r' \<Longrightarrow> plain_code (short_code r) \<longleftrightarrow> plain_code (short_code r')"
  by (simp add: url_key_def)

lemma known_in: "u \<in> set H \<Longrightarrow> known H u"
  by (auto simp: known_def)

lemma sys_inv_replaced:
  assumes inv: "sys_inv s" and ok: "url_table_ok (w_rows w)"
    and rows: "w_rows w = replace_rows p f (w_rows (sys_world s))" and key: "\<And>r. url_key (f r) = url_key r"
    and web: "\<And>r. r \<in> set (w_rows (sys_world s)) \<Longrightarrow> web_target (original_url (f r))"
    and seen: "set (w_seen w) \<subseteq> set (w_seen (sys_world s)) \<union> set (w_rows w)"
    and cached: "\<And>t y u. plain_code y \<Longrightarrow> w_cached t y w = Some u \<Longrightarrow> w_cached t y (sys_world s) = Some u"
  shows "sys_inv (commit w (sys_tasks s) s)"
proof (rule sys_inv_commit [OF inv ok _ _ seen])
  fix r assume "r \<in> set (w_rows (sys_world s))"
  then show "\<exists>r' \<in> set (w_rows w). url_key r' = url_key r"
    unfolding rows by (rule keys_replaced(1) [of f, OF key])
next
  fix r assume "r \<in> set (w_rows w)"
  then obtain r0 where "r0 \<in> set (w_rows (sys_world s))" "url_key r0 = url_key r"
    unfolding rows using keys_replaced(2) [of f, OF key] by blast
  with inv have "plain_code (short_code r)" by (auto simp: sys_inv_def dest: plain_of_key)
  moreover have "web_target (original_url r)"
    using \<open>r \<in> set (w_rows w)\<close> inv web unfolding rows by (auto simp: sys_inv_def dest!: replace_rows_cases)
  ultimately show "plain_code (short_code r) \<and> web_target (original_url r)" ..
qed (use cached in auto)

lemma rows_plain: "sys_inv s \<Longrightarrow> r \<in> set (w_rows (sys_world s)) \<Longrightarrow>
    plain_code (short_code r) \<and> web_target (original_url r)"
  by (auto simp: sys_inv_def)

lemma step_shorten:
  assumes inv: "sys_inv s" and ds: "draws_ok ds"
    and h: "shorten_handle (cfg_shorten c) (sys_now s) later ulid cmd ds (sys_world s) = (r, ds', w)"
  shows "sys_inv (commit w (sys_tasks s) s)"
proof -
  note hyps = cfg_shorten_simps(1) [of c] cfg_cache_cases [of c, folded cfg_shorten_simps(2)]
  have ok: "url_table_ok (w_rows w)"
    using links.shorten_table [OF h hyps] inv by (simp add: sys_inv_def)
  have seen: "set (w_seen w) \<subseteq> set (w_seen (sys_world s)) \<union> set (w_rows w)"
    by (rule links.shorten_seen(1) [OF h hyps ds, of "[]"]) (simp add: plain_code_def)
  have rows: "w_rows w = w_rows (sys_world s) \<or>
     (\<exists>u. w_rows w = w_rows (sys_world s) @ [pg_row u] \<and> plain_code (short_code u) \<and> web_target (original_url u))"
  proof (cases r)
    case (Inl e)
    with links.shorten_error [of "cfg_shorten c"] h show ?thesis by simp
  next
    case (Inr res)
    with h links.shorten_ok [OF _ hyps ds] obtain u where "w_rows w = w_rows (sys_world s) @ [pg_row u]"
      "issued_code (cfg_shorten c) cmd (sr_short_code res)"
      "u = (new_url_entity (sys_now s) ulid cmd)\<lparr>short_code := sr_short_code res\<rparr>"
      "validate_url (original_url u) = None" by metis
    moreover from this(2,3,4) have "plain_code (short_code u)" "web_target (original_url u)"
      by (simp_all add: issued_code_plain web_target_def validate_update_weaker)
    ultimately show ?thesis by blast
  qed
  have cached: "w_cached t y (sys_world s) = Some u \<or> (short_code u = y \<and> known (sys_history s @ w_rows w) u)"
    if "plain_code y" "w_cached t y w = Some u" for t y u
    using links.shorten_seen(2) [OF h hyps ds that(1) that(2)]
  proof
    assume "\<exists>v. pg_row v \<in> set (w_rows w) \<and> deleted_at v = None \<and> y = short_code v \<and> u = as_cached v"
    then obtain v where "pg_row v \<in> set (w_rows w)" "y = short_code v" "u = as_cached v" by blast
    then have "short_code u = y" "known (sys_history s @ w_rows w) u"
      by (auto simp: known_def intro!: bexI [of _ "pg_row v"])
    then show ?thesis by blast
  qed simp
  show ?thesis
    by (rule sys_inv_commit [OF inv ok _ _ seen cached]) (use rows rows_plain [OF inv] in auto)
qed

lemma step_resolve:
  assumes inv: "sys_inv s"
    and h: "resolve_handle (cfg_resolve c) (sys_now s) later sc (sys_world s) = (r, ts, w)"
  shows "sys_inv (commit w (sys_tasks s @ ts) s)"
proof (rule sys_inv_commit_same [OF inv])
  note frame = links.resolve_frame [OF cfg_resolves_over h]
  show "w_rows w = w_rows (sys_world s)" and "set (w_seen w) \<subseteq> set (w_seen (sys_world s)) \<union> set (w_rows w)"
    using frame by auto
  show "w_cached t y (sys_world s) = Some u \<or> (short_code u = y \<and> known (sys_history s @ w_rows w) u)"
    if "w_cached t y w = Some u" for t y u using frame that by metis
  fix u assume "TaskSet u \<in> set (sys_tasks s @ ts)"
  then have "TaskSet u \<in> set (sys_tasks s) \<or> u \<in> set (w_seen (sys_world s))"
    using links.resolve_tasks [OF cfg_resolves_over h] by fastforce
  then show "TaskSet u \<in> set (sys_tasks s) \<or> known (sys_history s) u"
    using inv by (auto simp: sys_inv_def intro: known_in)
qed

lemma drop_nth_subset: "set (drop_nth i xs) \<subseteq> set xs"
  by (auto simp: drop_nth_def dest: in_set_takeD in_set_dropD)

lemma step_task:
  assumes inv: "sys_inv s" and i: "i < length (sys_tasks s)"
  shows "sys_inv (commit (run_task (cfg_resolve c) (sys_now s) (sys_tasks s ! i) (sys_world s)) (drop_nth i (sys_tasks s)) s)"
proof (rule sys_inv_commit_same [OF inv])
  have c: "rh_cache (cfg_resolve c) = Some world_cache \<or> rh_cache (cfg_resolve c) = None"
    using cfg_cache_cases by (simp add: cfg_resolve_def)
  let ?w = "run_task (cfg_resolve c) (sys_now s) (sys_tasks s ! i) (sys_world s)"
  show "w_rows ?w = w_rows (sys_world s)" and "set (w_seen ?w) \<subseteq> set (w_seen (sys_world s)) \<union> set (w_rows ?w)"
    using links.run_task_rows [OF c] by auto
  show "w_cached t y (sys_world s) = Some u \<or> (short_code u = y \<and> known (sys_history s @ w_rows ?w) u)"
    if "plain_code y" "w_cached t y ?w = Some u" for t y u
    using links.run_task_pos [OF c that]
  proof
    assume "\<exists>v. sys_tasks s ! i = TaskSet v \<and> short_code v = y \<and> u = as_cached v"
    then obtain v where v: "TaskSet v \<in> set (sys_tasks s)" "short_code v = y" "u = as_cached v"
      using i by (metis nth_mem)
    with inv have "known (sys_history s) v" by (auto simp: sys_inv_def)
    with v have "short_code u = y" "known (sys_history s @ w_rows ?w) u" by (auto simp: known_def)
    then show ?thesis by blast
  qed simp
qed (use drop_nth_subset in fastforce)

lemma seen_plain: "sys_inv s \<Longrightarrow> \<forall>u \<in> set (w_seen (sys_world s)). plain_code (short_code u)"
  by (auto simp: sys_inv_def)

lemma step_update:
  assumes inv: "sys_inv s"
    and h: "update_url_handle world_repo (cfg_cache c) b (sys_now s) ucmd (sys_world s) = (r, w)"
  shows "sys_inv (commit w (sys_tasks s) s)"
proof -
  have key: "url_key ((pg_row \<circ> set_mutable now v) x) = url_key x" for now v x by simp
  have id: "replace_rows (\<lambda>_. False) (\<lambda>r. r) xs = xs" for xs by (simp add: replace_rows_def)
  obtain p f where rows: "w_rows w = replace_rows p f (w_rows (sys_world s))" "\<And>x. url_key (f x) = url_key x"
    and web: "\<And>r. r \<in> set (w_rows (sys_world s)) \<Longrightarrow> web_target (original_url (f r))"
  proof (cases r)
    case (Inl e)
    with h links.update_Inl have "w_rows w = w_rows (sys_world s)" by blast
    with that [of "\<lambda>_. False" "\<lambda>r. r"] id rows_plain [OF inv] show ?thesis by simp
  next
    case (Inr res)
    with h links.update_Inr [OF _ cfg_cache_cases] obtain q u
      where q: "w_rows w = replace_rows q (pg_row \<circ> set_mutable (sys_now s) (apply_update (sys_now s) ucmd u)) (w_rows (sys_world s))"
        and u: "u \<in> set (w_seen (sys_world s))" "\<forall>raw. uc_original_url ucmd = Some raw \<longrightarrow> validate_update_url raw = None"
      by metis
    from u(1) inv have "web_target (original_url u)" by (auto simp: sys_inv_def)
    with u(2) have "web_target (original_url (apply_update (sys_now s) ucmd u))"
      by (simp add: web_target_def split: option.splits)
    with that [OF q key] show ?thesis by simp
  qed
  have seen: "set (w_seen w) \<subseteq> set (w_seen (sys_world s)) \<union> set (w_rows w)"
    by (rule links.update_seen(1) [OF h cfg_cache_cases seen_plain [OF inv], of "[]"]) (simp add: plain_code_def)
  have ok: "url_table_ok (w_rows w)"
    using links.manage_table(1) [OF cfg_cache_cases _ h] inv by (simp add: sys_inv_def)
  show ?thesis
    by (rule sys_inv_replaced [OF inv ok rows web seen links.update_seen(2) [OF h cfg_cache_cases seen_plain [OF inv]]])
qed

lemma step_delete:
  assumes inv: "sys_inv s"
    and h: "delete_url_handle world_repo (cfg_cache c) (sys_now s) i ws (sys_world s) = (r, w)"
  shows "sys_inv (commit w (sys_tasks s) s)"
proof -
  have key: "url_key ((pg_row \<circ> set_deleted now) x) = url_key x" for now x by simp
  have id: "replace_rows (\<lambda>_. False) (\<lambda>r. r) xs = xs" for xs by (simp add: replace_rows_def)
  obtain p f where rows: "w_rows w = replace_rows p f (w_rows (sys_world s))" "\<And>x. url_key (f x) = url_key x"
    and web: "\<And>r. r \<in> set (w_rows (sys_world s)) \<Longrightarrow> web_target (original_url (f r))"
  proof (cases r)
    case (Inl e)
    with h links.delete_Inl have "w_rows w = w_rows (sys_world s)" by blast
    with that [of "\<lambda>_. False" "\<lambda>r. r"] id rows_plain [OF inv] show ?thesis by simp
  next
    case (Inr v)
    with h links.delete_Inr [OF _ cfg_cache_cases]
    have q: "w_rows w = replace_rows (live_in i ws) (pg_row \<circ> set_deleted (sys_now s)) (w_rows (sys_world s))" by metis
    with that [OF q key] rows_plain [OF inv] show ?thesis by simp
  qed
  have seen: "set (w_seen w) \<subseteq> set (w_seen (sys_world s)) \<union> set (w_rows w)"
    by (rule links.delete_seen(1) [OF h cfg_cache_cases seen_plain [OF inv], of "[]"]) (simp add: plain_code_def)
  have ok: "url_table_ok (w_rows w)"
    using links.manage_table(2) [OF cfg_cache_cases _ h] inv by (simp add: sys_inv_def)
  show ?thesis
    by (rule sys_inv_replaced [OF inv ok rows web seen links.delete_seen(2) [OF h cfg_cache_cases seen_plain [OF inv]]])
qed

lemma step_click:
  assumes inv: "sys_inv s" and h: "repo_increment world_repo (sys_now s) sc (sys_world s) = (r, w)"
  shows "sys_inv (commit w (sys_tasks s) s)"
proof -
  obtain db where d: "increment_click_count (sys_now s) sc (w_urls (sys_world s)) = (r, db)"
    and w: "w = (sys_world s)\<lparr>w_urls := db\<rparr>"
    using h by (auto simp: world_repo_def on_urls_eq)
  let ?p = "\<lambda>r. short_code r = sc \<and> deleted_at r = None"
  let ?f = "\<lambda>r. r\<lparr>click_count := click_count r + 1\<rparr>"
  have id: "replace_rows (\<lambda>_. False) (\<lambda>r. r) xs = xs" for xs by (simp add: replace_rows_def)
  obtain x where x: "exec_update (sys_now s) ?p ?f (w_urls (sys_world s)) = (x, db)"
    using d by (auto simp: increment_click_count_def split: prod.splits sum.splits)
  have seen: "set (w_seen w) \<subseteq> set (w_seen (sys_world s)) \<union> set (w_rows w)"
    using replica_rows_step [of db "w_urls (sys_world s)"] exec_update_frame [OF x] by (auto simp: w world_view_defs)
  have ok: "url_table_ok (w_rows w)"
    using write_table_ok(3) [of "w_urls (sys_world s)" "sys_now s" sc] inv d by (simp add: sys_inv_def world_view_defs w)
  obtain p f where rows: "w_rows w = replace_rows p f (w_rows (sys_world s))" "\<And>x. url_key (f x) = url_key x"
    and web: "\<And>r. r \<in> set (w_rows (sys_world s)) \<Longrightarrow> web_target (original_url (f r))"
  proof (cases x)
    case (Inl e)
    with x have "w_rows w = w_rows (sys_world s)" by (simp add: w world_view_defs exec_update_Inl)
    with that [of "\<lambda>_. False" "\<lambda>r. r"] id rows_plain [OF inv] show ?thesis by simp
  next
    case (Inr n)
    with x have q: "w_rows w = replace_rows ?p (\<lambda>r. pg_row ((?f r)\<lparr>updated_at := sys_now s\<rparr>)) (w_rows (sys_world s))"
      using exec_update_Inr by (simp add: w world_view_defs)
    with that [OF q] rows_plain [OF inv] show ?thesis by (simp add: url_key_def)
  qed
  have cached: "w_cached t y w = w_cached t y (sys_world s)" for t y by (simp add: w w_cached_def)
  show ?thesis by (rule sys_inv_replaced [OF inv ok rows web seen]) (simp_all add: cached)
qed

lemma replicate_inv: "sys_inv s \<Longrightarrow> sys_inv (s\<lparr>sys_world := replicate_world (sys_world s)\<rparr>)"
  by (auto simp: sys_inv_def world_view_defs replicate_world_def replicate_urls_def replica_rows_def
        split: option.splits)

lemma faults_inv: "sys_inv s \<Longrightarrow> sys_inv (s\<lparr>sys_world := set_faults fs rs (sys_world s)\<rparr>)"
  by (simp add: sys_inv_def world_view_defs set_faults_def replica_rows_def cached_url_def split: option.splits)

lemma sys_step_inv: "sys_step c s s' \<Longrightarrow> sys_inv s \<Longrightarrow> sys_inv s'"
  by (induction rule: sys_step.induct)
     (auto intro: step_shorten step_resolve step_task step_update step_delete step_click replicate_inv faults_inv
       simp: sys_inv_def [of "_\<lparr>sys_now := _\<rparr>"], auto simp: sys_inv_def)

lemma init_inv: "sys_inv (init_sys workspaces with_replica t)"
  by (auto simp: sys_inv_def init_sys_def world_view_defs replica_rows_def url_table_ok_def cached_url_def
        live_value_def empty_redis_def)

lemma reachable_inv: "reachable c s0 s \<Longrightarrow> sys_inv s0 \<Longrightarrow> sys_inv s"
  by (induction rule: reachable.induct) (auto intro: sys_step_inv)

section \<open>Dead codes\<close>

text \<open>
  A code whose row is deleted in the primary and in what readers see, that is not in the cache at any
  instant and that no pending task is about to cache.
\<close>

definition dead_code :: "string \<Rightarrow> sys \<Rightarrow> bool" where
  "dead_code sc s =
     (plain_code sc
      \<and> (\<exists>r \<in> set (w_rows (sys_world s)). short_code r = sc)
      \<and> (\<forall>r \<in> set (w_rows (sys_world s)) \<union> set (w_seen (sys_world s)). short_code r = sc \<longrightarrow> deleted_at r \<noteq> None)
      \<and> (\<forall>t. w_cached t sc (sys_world s) = None)
      \<and> (\<forall>u. TaskSet u \<in> set (sys_tasks s) \<longrightarrow> short_code u \<noteq> sc))"

lemma dead_code_commit:
  assumes dead: "dead_code sc s"
    and keep: "\<exists>r \<in> set (w_rows w). short_code r = sc"
    and rows: "\<And>r. r \<in> set (w_rows w) \<Longrightarrow> short_code r = sc \<Longrightarrow> deleted_at r \<noteq> None"
    and seen: "set (w_seen w) \<subseteq> set (w_seen (sys_world s)) \<union> set (w_rows w)"
    and cached: "\<And>t u. w_cached t sc w = Some u \<Longrightarrow> w_cached t sc (sys_world s) \<noteq> None"
    and tasks: "\<And>u. TaskSet u \<in> set ts \<Longrightarrow> short_code u = sc \<Longrightarrow> TaskSet u \<in> set (sys_tasks s)"
  shows "dead_code sc (commit w ts s)"
proof -
  have "w_cached t sc w = None" for t
    using cached [of t] dead by (cases "w_cached t sc w") (auto simp: dead_code_def)
  moreover have "deleted_at r \<noteq> None" if "r \<in> set (w_seen w)" "short_code r = sc" for r
    using that seen rows dead by (auto simp: dead_code_def)
  moreover have "short_code u \<noteq> sc" if "TaskSet u \<in> set ts" for u
    using that tasks dead by (auto simp: dead_code_def)
  ultimately show ?thesis
    using dead keep rows by (auto simp: dead_code_def)
qed

lemma dead_code_replaced:
  assumes dead: "dead_code sc s"
    and rows: "w_rows w = replace_rows p f (w_rows (sys_world s))" and key: "\<And>r. url_key (f r) = url_key r"
    and live: "\<And>r. deleted_at r \<noteq> None \<Longrightarrow> p r \<Longrightarrow> deleted_at (f r) \<noteq> None"
    and seen: "set (w_seen w) \<subseteq> set (w_seen (sys_world s)) \<union> set (w_rows w)"
    and cached: "\<And>t u. w_cached t sc w = Some u \<Longrightarrow> w_cached t sc (sys_world s) = Some u"
  shows "dead_code sc (commit w (sys_tasks s) s)"
proof (rule dead_code_commit [OF dead _ _ seen])
  have code: "short_code (f r) = short_code r" for r using key [of r] by (simp add: url_key_def)
  from dead obtain r where "r \<in> set (w_rows (sys_world s))" "short_code r = sc" by (auto simp: dead_code_def)
  then show "\<exists>r \<in> set (w_rows w). short_code r = sc"
    using keys_replaced(1) [of f, OF key] unfolding rows by (force simp: url_key_def)
  show "deleted_at r \<noteq> None" if "r \<in> set (w_rows w)" "short_code r = sc" for r
    using that dead live unfolding rows by (auto simp: dead_code_def code dest!: replace_rows_cases)
qed (use cached in auto)

text \<open>The rows after a management call or a click: some are changed, none comes back to life.\<close>

definition rows_change :: "world \<Rightarrow> world \<Rightarrow> bool" where
  "rows_change w w' =
     (\<exists>p f. w_rows w' = replace_rows p f (w_rows w) \<and> (\<forall>x. url_key (f x) = url_key x)
        \<and> (\<forall>r. deleted_at r \<noteq> None \<longrightarrow> p r \<longrightarrow> deleted_at (f r) \<noteq> None))"

lemma rows_change_same: "w_rows w' = w_rows w \<Longrightarrow> rows_change w w'"
  unfolding rows_change_def
  by (rule exI [of _ "\<lambda>_. False"], rule exI [of _ "\<lambda>r. r"]) (simp add: replace_rows_def)

lemma update_rows_change:
  assumes "update_url_handle world_repo (cfg_cache c) b t ucmd w = (r, w')"
  shows "rows_change w w'"
proof (cases r)
  case (Inl e)
  with assms links.update_Inl show ?thesis by (blast intro: rows_change_same)
next
  case (Inr res)
  with assms links.update_Inr [OF _ cfg_cache_cases] obtain v i ws
    where "w_rows w' = replace_rows (live_in i ws) (pg_row \<circ> set_mutable t v) (w_rows w)" by metis
  then show ?thesis
    unfolding rows_change_def
    by (intro exI [of _ "live_in i ws"] exI [of _ "pg_row \<circ> set_mutable t v"]) (simp add: live_in_def)
qed

lemma delete_rows_change:
  assumes "delete_url_handle world_repo (cfg_cache c) t i ws w = (r, w')"
  shows "rows_change w w'"
proof (cases r)
  case (Inl e)
  with assms links.delete_Inl show ?thesis by (blast intro: rows_change_same)
next
  case (Inr res)
  with assms links.delete_Inr [OF _ cfg_cache_cases]
  have "w_rows w' = replace_rows (live_in i ws) (pg_row \<circ> set_deleted t) (w_rows w)" by metis
  then show ?thesis
    unfolding rows_change_def
    by (intro exI [of _ "live_in i ws"] exI [of _ "pg_row \<circ> set_deleted t"]) (simp add: live_in_def)
qed

lemma click_world:
  assumes "repo_increment world_repo t sc w = (r, w')"
  obtains x db where "exec_update t (\<lambda>r. short_code r = sc \<and> deleted_at r = None)
      (\<lambda>r. r\<lparr>click_count := click_count r + 1\<rparr>) (w_urls w) = (x, db)" "w' = w\<lparr>w_urls := db\<rparr>"
  using assms that
  by (auto simp: world_repo_def on_urls_eq increment_click_count_def split: prod.splits sum.splits)

lemma click_rows_change:
  assumes "repo_increment world_repo t sc w = (r, w')"
  shows "rows_change w w'" and "set (w_seen w') \<subseteq> set (w_seen w) \<union> set (w_rows w')"
    and "w_cached t' y w' = w_cached t' y w"
proof -
  from assms obtain x db where x: "exec_update t (\<lambda>r. short_code r = sc \<and> deleted_at r = None)
      (\<lambda>r. r\<lparr>click_count := click_count r + 1\<rparr>) (w_urls w) = (x, db)" and w': "w' = w\<lparr>w_urls := db\<rparr>"
    by (rule click_world)
  show "set (w_seen w') \<subseteq> set (w_seen w) \<union> set (w_rows w')"
    using replica_rows_step [of db "w_urls w"] exec_update_frame [OF x] by (auto simp: w' world_view_defs)
  show "w_cached t' y w' = w_cached t' y w" by (simp add: w' w_cached_def)
  show "rows_change w w'"
  proof (cases x)
    case (Inl e)
    with x show ?thesis by (intro rows_change_same) (simp add: w' world_view_defs exec_update_Inl)
  next
    case (Inr n)
    then have rows: "w_rows w' = replace_rows (\<lambda>r. short_code r = sc \<and> deleted_at r = None)
        (\<lambda>r. pg_row (r\<lparr>click_count := click_count r + 1, updated_at := t\<rparr>)) (w_rows w)"
      using exec_update_Inr x by (simp add: w' world_view_defs)
    show ?thesis
      unfolding rows_change_def rows
      by (intro exI conjI, rule refl) (simp_all add: url_key_def)
  qed
qed

lemma dead_code_change:
  assumes dead: "dead_code sc s" and change: "rows_change (sys_world s) w"
    and seen: "set (w_seen w) \<subseteq> set (w_seen (sys_world s)) \<union> set (w_rows w)"
    and cached: "\<And>t u. w_cached t sc w = Some u \<Longrightarrow> w_cached t sc (sys_world s) = Some u"
  shows "dead_code sc (commit w (sys_tasks s) s)"
proof -
  from change obtain p f where "w_rows w = replace_rows p f (w_rows (sys_world s))" "\<And>x. url_key (f x) = url_key x"
    "\<And>r. deleted_at r \<noteq> None \<Longrightarrow> p r \<Longrightarrow> deleted_at (f r) \<noteq> None"
    unfolding rows_change_def by metis
  from dead_code_replaced [OF dead this seen cached] show ?thesis by blast
qed

lemma dead_shorten:
  assumes dead: "dead_code sc s" and ds: "draws_ok ds"
    and h: "shorten_handle (cfg_shorten c) (sys_now s) later ulid cmd ds (sys_world s) = (r, ds', w)"
  shows "dead_code sc (commit w (sys_tasks s) s)"
proof -
  note hyps = cfg_shorten_simps(1) [of c] cfg_cache_cases [of c, folded cfg_shorten_simps(2)]
  have plain: "plain_code sc" using dead by (simp add: dead_code_def)
  have rows: "w_rows w = w_rows (sys_world s) \<or>
     (\<exists>u. w_rows w = w_rows (sys_world s) @ [pg_row u] \<and> short_code u \<notin> short_code ` set (w_rows (sys_world s)))"
  proof (cases r)
    case (Inl e)
    with links.shorten_error [of "cfg_shorten c"] h show ?thesis by simp
  next
    case (Inr res)
    with h links.shorten_ok [OF _ hyps ds] obtain u where "w_rows w = w_rows (sys_world s) @ [pg_row u]"
      "sr_short_code res \<notin> short_code ` set (w_rows (sys_world s))"
      "u = (new_url_entity (sys_now s) ulid cmd)\<lparr>short_code := sr_short_code res\<rparr>" by metis
    then show ?thesis by auto
  qed
  have "sc \<in> short_code ` set (w_rows (sys_world s))" using dead by (auto simp: dead_code_def)
  with rows have old_row: "r \<in> set (w_rows (sys_world s))" if "r \<in> set (w_rows w)" "short_code r = sc" for r
    using that by auto
  have old: "deleted_at r \<noteq> None" if "r \<in> set (w_rows w)" "short_code r = sc" for r
    using old_row [OF that] that(2) dead by (auto simp: dead_code_def)
  have cached: "w_cached t sc (sys_world s) \<noteq> None" if "w_cached t sc w = Some u" for t u
    using links.shorten_seen(2) [OF h hyps ds plain that]
  proof
    assume "\<exists>v. pg_row v \<in> set (w_rows w) \<and> deleted_at v = None \<and> sc = short_code v \<and> u = as_cached v"
    then obtain v where "pg_row v \<in> set (w_rows w)" "deleted_at v = None" "sc = short_code v" by blast
    with old [of "pg_row v"] show ?thesis by simp
  qed simp
  show ?thesis
    by (rule dead_code_commit [OF dead _ old links.shorten_seen(1) [OF h hyps ds plain] cached])
       (use rows dead in \<open>auto simp: dead_code_def\<close>)
qed

lemma dead_resolve:
  assumes dead: "dead_code sc s"
    and h: "resolve_handle (cfg_resolve c) (sys_now s) later sc' (sys_world s) = (r, ts, w)"
  shows "dead_code sc (commit w (sys_tasks s @ ts) s)"
proof -
  note frame = links.resolve_frame [OF cfg_resolves_over h]
  have tasks: "TaskSet u \<in> set (sys_tasks s)" if "TaskSet u \<in> set (sys_tasks s @ ts)" "short_code u = sc" for u
    using that dead links.resolve_tasks [OF cfg_resolves_over h, of "TaskSet u"] by (auto simp: dead_code_def)
  show ?thesis
    by (rule dead_code_commit [OF dead _ _ _ _ tasks]) (use frame dead in \<open>auto simp: dead_code_def\<close>)
qed

lemma dead_task:
  assumes dead: "dead_code sc s" and i: "i < length (sys_tasks s)"
  shows "dead_code sc (commit (run_task (cfg_resolve c) (sys_now s) (sys_tasks s ! i) (sys_world s)) (drop_nth i (sys_tasks s)) s)"
proof -
  have c: "rh_cache (cfg_resolve c) = Some world_cache \<or> rh_cache (cfg_resolve c) = None"
    using cfg_cache_cases by (simp add: cfg_resolve_def)
  note frame = links.run_task_rows [OF c]
  have plain: "plain_code sc" using dead by (simp add: dead_code_def)
  have cached: "w_cached t sc (sys_world s) \<noteq> None"
    if "w_cached t sc (run_task (cfg_resolve c) (sys_now s) (sys_tasks s ! i) (sys_world s)) = Some u" for t u
    using links.run_task_pos [OF c plain that] dead nth_mem [OF i] by (auto simp: dead_code_def)
  show ?thesis
    by (rule dead_code_commit [OF dead _ _ _ cached])
       (use frame dead drop_nth_subset [of i "sys_tasks s"] in \<open>auto simp: dead_code_def\<close>)
qed

lemma dead_step:
  assumes "sys_step c s s'" and inv: "sys_inv s" and dead: "dead_code sc s"
  shows "dead_code sc s'"
  using assms(1)
proof cases
  case (update ucmd ru w)
  have "plain_code sc" using dead by (simp add: dead_code_def)
  with update links.update_seen [OF update(2) cfg_cache_cases seen_plain [OF inv]] show ?thesis
    using dead_code_change [OF dead update_rows_change [OF update(2)]] by simp
next
  case (delete i ws rd w)
  have "plain_code sc" using dead by (simp add: dead_code_def)
  with delete links.delete_seen [OF delete(2) cfg_cache_cases seen_plain [OF inv]] show ?thesis
    using dead_code_change [OF dead delete_rows_change [OF delete(2)]] by simp
next
  case (click sc' rd w)
  with dead_code_change [OF dead click_rows_change(1,2) [OF click(2)]] click_rows_change(3) [OF click(2)]
  show ?thesis by simp
next
  case (tick t)
  with dead show ?thesis by (simp add: dead_code_def)
next
  case replicate
  with dead show ?thesis
    by (auto simp: dead_code_def world_view_defs replicate_world_def replicate_urls_def replica_rows_def
          split: option.splits)
next
  case (faults fs rs)
  with dead show ?thesis
    by (simp add: dead_code_def world_view_defs set_faults_def replica_rows_def cached_url_def split: option.splits)
qed (use dead dead_shorten dead_resolve dead_task in metis)+

text \<open>A dead code stays dead, and resolving it never redirects.\<close>

lemma dead_reachable:
  assumes "reachable c s s'" and "sys_inv s" and "dead_code sc s"
  shows "dead_code sc s'"
  using assms
proof (induction rule: reachable.induct)
  case (more s' s'')
  then show ?case by (meson dead_step reachable_inv)
qed simp

lemma dead_no_redirect:
  assumes "dead_code sc s"
  shows "resolve_handle (cfg_resolve c) now later sc (sys_world s) \<noteq> (Inr res, ts, w)"
proof
  assume "resolve_handle (cfg_resolve c) now later sc (sys_world s) = (Inr res, ts, w)"
  then show False
  proof (rule links.resolve_Inr [OF cfg_resolves_over])
    fix u assume "w_cached now sc (sys_world s) = Some u"
    with assms show False by (simp add: dead_code_def)
  next
    fix u assume "u \<in> set (w_seen (sys_world s))" "short_code u = sc" "deleted_at u = None"
    with assms show False by (auto simp: dead_code_def)
  qed
qed

end
