(* ===== verification/LinkDemo.thy ===== *)
theory LinkDemo
  imports LinkSystem
begin

text \<open>
  A small deployment on which the theorems about links are evaluated: one workspace, one link with a
  custom code created through ShortenURL, with and without its entry in the cache.
\<close>

section \<open>A deployment to evaluate the theorems on\<close>

definition demo_cfg :: sys_config where
  "demo_cfg = \<lparr>cfg_generator = \<lparr>gen_length = 7\<rparr>, cfg_base_url = ''http://s/'', cfg_use_cache = True,
     cfg_cache_ttl = 3600, cfg_negative_ttl = 60\<rparr>"

definition demo_cmd :: shorten_command where
  "demo_cmd = \<lparr>sc_original_url = ''http://a'', sc_custom_code = ''abc'', sc_workspace_id = ''w'', sc_created_by = ''u'',
     sc_title = [], sc_expires_at = None\<rparr>"

definition demo_url :: url where
  "demo_url = \<lparr>url_id = ''id'', workspace_id = ''w'', short_code = ''abc'', original_url = ''http://a'', title = [],
     url_status = ''active'', expires_at = None, created_by = ''u'', created_at = 0, updated_at = 0, deleted_at = None,
     click_count = 0\<rparr>"

definition demo_result :: shorten_result where
  "demo_result = \<lparr>sr_short_url = ''http://s/abc'', sr_short_code = ''abc'', sr_id = ''id'', sr_original_url = ''http://a'',
     sr_workspace_id = ''w'', sr_created_at = ''1970-01-01T00:00:00Z''\<rparr>"

definition demo_world :: world where
  "demo_world = snd (snd (shorten_handle (cfg_shorten demo_cfg) 0 0 ''id'' demo_cmd [] (sys_world (init_sys [''w''] False 0))))"

definition demo_view :: "shorten_result result \<times> draws \<times> url_db \<times> string option list \<times> unit result \<times> shorten_result result" where
  "demo_view =
     (case shorten_handle (cfg_shorten demo_cfg) 0 0 ''id'' demo_cmd [] (sys_world (init_sys [''w''] False 0)) of
        (r, ds, w) \<Rightarrow> (r, ds, w_urls w, rdb_faults (w_redis w), fst (delete_url_handle world_repo (cfg_cache demo_cfg) 0 ''id'' ''w'' w),
          fst (shorten_handle (cfg_shorten demo_cfg) 0 0 ''id2'' demo_cmd [] w)))"

lemma demo_view: "demo_view = (Inr demo_result, [],
    \<lparr>udb_rows = [demo_url], udb_replica = None, udb_workspaces = [''w''], udb_faults = []\<rparr>, [], Inr (), Inl (EApp AppErrShortCodeConflict))"
  by code_simp

lemma demo_shorten:
  "shorten_handle (cfg_shorten demo_cfg) 0 0 ''id'' demo_cmd [] (sys_world (init_sys [''w''] False 0)) =
     (Inr demo_result, [], demo_world)"
  using demo_view by (auto simp: demo_view_def demo_world_def split: prod.splits)

lemma demo_world:
  "w_rows demo_world = [demo_url]" "udb_replica (w_urls demo_world) = None" "rdb_faults (w_redis demo_world) = []"
  "fst (delete_url_handle world_repo (cfg_cache demo_cfg) 0 ''id'' ''w'' demo_world) = Inr ()"
  using demo_view by (auto simp: demo_view_def demo_world_def w_rows_def split: prod.splits)

lemma demo_taken:
  "fst (shorten_handle (cfg_shorten demo_cfg) 0 0 ''id2'' demo_cmd [] demo_world) = Inl (EApp AppErrShortCodeConflict)"
  using demo_view by (auto simp: demo_view_def demo_world_def split: prod.splits)

definition demo_sys :: sys where
  "demo_sys = commit demo_world [] (init_sys [''w''] False 0)"

lemma init_sys_simps [simp]: "sys_now (init_sys wss b t) = t" "sys_tasks (init_sys wss b t) = []"
  by (simp_all add: init_sys_def)

lemma demo_sys_simps [simp]: "sys_now demo_sys = 0" "sys_tasks demo_sys = []" "sys_world demo_sys = demo_world"
  by (simp_all add: demo_sys_def)

lemma demo_reachable: "reachable demo_cfg (init_sys [''w''] False 0) demo_sys"
proof -
  have "sys_step demo_cfg (init_sys [''w''] False 0) (commit demo_world (sys_tasks (init_sys [''w''] False 0)) (init_sys [''w''] False 0))"
    by (rule sys_step.shorten) (use demo_shorten in \<open>auto simp: draws_ok_def\<close>)
  then show ?thesis by (auto simp: demo_sys_def intro: reachable.intros)
qed

text \<open>
  The same link at a time when its cache entry is gone: a request leaves its goroutine pending, the owner
  deletes the link, and the goroutine runs after the invalidation.
\<close>

definition demo_race :: "unit result \<times> nat \<times> resolve_result result" where
  "demo_race =
    (let t = 4000 * second in
     case shorten_handle (cfg_shorten demo_cfg) 0 0 ''id'' demo_cmd [] (sys_world (init_sys [''w''] False 0)) of
       (r1, ds, w1) \<Rightarrow>
     case resolve_handle (cfg_resolve demo_cfg) t t ''abc'' w1 of
       (r2, ts, w2) \<Rightarrow>
     case delete_url_handle world_repo (cfg_cache demo_cfg) t ''id'' ''w'' w2 of
       (r3, w3) \<Rightarrow>
     (r3, length ts, fst (resolve_handle (cfg_resolve demo_cfg) t t ''abc'' (run_task (cfg_resolve demo_cfg) t (ts ! 0) w3))))"

lemma demo_race: "demo_race = (Inr (), 1,
    Inr \<lparr>rr_original_url = ''http://a'', rr_short_code = ''abc'', rr_workspace_id = ''w'', rr_cache_status = ''hit''\<rparr>)"
  by code_simp

end
