(* ===== verification/Redirector.thy ===== *)
theory Redirector
  imports RedirectHttp RateGate LinkDemo
begin

text \<open>
  The redirector, \<open>cmd/redirector/main.go\<close>: its handlers wired to the stores, and its three routes. The rate
  limiter works on its keys of Redis, which no other part reads or writes, so they stand beside the state here.
\<close>

section \<open>State\<close>

text \<open>
  The links, the analytics service, the clicks whose goroutines have yet to publish them, and what the webhook
  dispatcher works on.
\<close>

record ('db, 'h) redirector =
  rx_sys :: sys
  rx_events :: "(redirect_event, 'db) buffered"
  rx_clicks :: "click_event list"
  rx_hooks :: 'h

definition rx_resolve :: "sys_config \<Rightarrow> gotime \<Rightarrow> gotime \<Rightarrow> string \<Rightarrow> ('db, 'h) redirector \<Rightarrow> resolve_result result \<times> ('db, 'h) redirector" where
  "rx_resolve c now later sc st =
     (case resolve_handle (cfg_resolve c) now later sc (sys_world (rx_sys st)) of
        (r, ts, w) \<Rightarrow> (r, st\<lparr>rx_sys := commit w (sys_tasks (rx_sys st) @ ts) (rx_sys st)\<rparr>))"

text \<open>\<open>pub\<close>: a click publisher is wired in.\<close>

definition rx_capture :: "bool \<Rightarrow> string \<Rightarrow> gotime \<Rightarrow> string \<Rightarrow> capture_request \<Rightarrow> ('db, 'h) redirector \<Rightarrow> ('db, 'h) redirector" where
  "rx_capture pub key now ulid q st =
     (case analytics_capture pub (build_redirect_event key now ulid q) (rx_events st) of
        (b, click) \<Rightarrow> st\<lparr>rx_events := b, rx_clicks := rx_clicks st @ (case click of None \<Rightarrow> [] | Some e \<Rightarrow> [e])\<rparr>)"

definition rx_dispatch :: "'h dispatcher \<Rightarrow> ('db, 'h) redirector dispatcher" where
  "rx_dispatch d = map_option (\<lambda>f ev st. case f ev (rx_hooks st) of (r, h) \<Rightarrow> (r, st\<lparr>rx_hooks := h\<rparr>)) d"

definition redirector_deps ::
  "sys_config \<Rightarrow> bool \<Rightarrow> string \<Rightarrow> 'h dispatcher \<Rightarrow> gotime \<Rightarrow> gotime \<Rightarrow> string \<Rightarrow> ('db, 'h) redirector redirect_deps" where
  "redirector_deps c pub key d now later ulid =
     \<lparr>rdd_resolve = rx_resolve c now later, rdd_capture = Some (rx_capture pub key later ulid),
      rdd_webhooks = rx_dispatch d\<rparr>"

section \<open>Routes\<close>

datatype redirector_route = RouteHealthz | RouteReadyz | RouteShortcode

definition redirector_pattern :: "redirector_route \<Rightarrow> string \<times> string" where
  "redirector_pattern e =
     (case e of
        RouteHealthz \<Rightarrow> (''GET'', ''/healthz'')
      | RouteReadyz \<Rightarrow> (''GET'', ''/readyz'')
      | RouteShortcode \<Rightarrow> (''GET'', ''/{shortcode}''))"

text \<open>The readiness probe: the answers of the two pings, where the client exists.\<close>

definition ready_response :: "unit result option \<Rightarrow> unit result option \<Rightarrow> response" where
  "ready_response db cache =
     (let not_ready = (\<lambda>detail. write_problem \<lparr>p_type = problem_type_internal, p_title = ''Not Ready'', p_status = 503,
            p_detail = detail, p_instance = [], p_errors = []\<rparr>);
          failed = (\<lambda>p. case p of Some (Inl e) \<Rightarrow> True | _ \<Rightarrow> False)
      in if failed db then not_ready ''database unreachable''
         else if failed cache then not_ready ''cache unreachable''
         else write_json 200 (JObj [(''status'', JStr ''ready'')]))"

definition alive_response :: response where
  "alive_response = write_json 200 (JObj [(''status'', JStr ''alive'')])"

definition redirector_serve ::
  "(redis_db \<times> ('db, 'h) redirector) rate_limit_config \<Rightarrow> ('db, 'h) redirector redirect_deps \<Rightarrow> unit result option
     \<Rightarrow> unit result option \<Rightarrow> gotime \<Rightarrow> gotime \<Rightarrow> redirector_route \<Rightarrow> (redis_db \<times> ('db, 'h) redirector) handler" where
  "redirector_serve limit h db_ping cache_ping now later e r st =
     (case e of
        RouteHealthz \<Rightarrow> (alive_response, st)
      | RouteReadyz \<Rightarrow> (ready_response db_ping cache_ping, st)
      | RouteShortcode \<Rightarrow> rate_limit limit now later (behind (redirect_http h later)) r st)"

text \<open>\<open>rlRedirect\<close>.\<close>

definition redirector_limit :: "(redis_db \<times> 'a) rate_limit_config" where
  "redirector_limit = gate_config ''redirect-service'' class_redirect True"

section \<open>Lemmas\<close>

lemma redirector_deps_simps [simp]:
  "rdd_resolve (redirector_deps c pub key d now later ulid) = rx_resolve c now later"
  "rdd_capture (redirector_deps c pub key d now later ulid) = Some (rx_capture pub key later ulid)"
  "rdd_webhooks (redirector_deps c pub key d now later ulid) = rx_dispatch d"
  by (simp_all add: redirector_deps_def)

lemma rx_capture_simps [simp]:
  "rx_sys (rx_capture pub key now ulid q st) = rx_sys st" "rx_hooks (rx_capture pub key now ulid q st) = rx_hooks st"
  "rx_events (rx_capture pub key now ulid q st) = offer analytics_channel_size (build_redirect_event key now ulid q) (rx_events st)"
  by (auto simp: rx_capture_def analytics_capture_def split: prod.splits)

lemma fire_rx_simps [simp]:
  "rx_sys (fire (rx_dispatch d) ev st) = rx_sys st" "rx_events (fire (rx_dispatch d) ev st) = rx_events st"
  "rx_clicks (fire (rx_dispatch d) ev st) = rx_clicks st"
  by (auto simp: fire_def rx_dispatch_def split: option.splits prod.splits)

text \<open>What the limiter lets through: its headers aside, the answer and the state are those of the handler.\<close>

lemma rate_limit_gate:
  assumes "rate_limit (gate_config service cls fo) now later (behind h) r (db, st) = (resp, (db', st'))"
  shows "(rs_status resp \<in> {429, 503} \<and> st' = st) \<or> (\<exists>answer hs. h r st = (answer, st') \<and> (resp = answer \<or> resp = under_headers hs answer))"
  using assms
  by (auto simp: rate_limit_def gate_config_def redis_check_def behind_def too_many_requests_def rate_limit_unavailable_def Let_def
        split: prod.splits sum.splits if_splits)

lemma under_headers_keeps: "(k, v) \<in> set (rs_headers r) \<Longrightarrow> (k, v) \<in> set (rs_headers (under_headers hs r))"
  by (simp add: under_headers_def)

text \<open>A link's target is sent as it stands, with the bytes from 128 on escaped.\<close>

lemma web_target_sent:
  assumes "web_target raw"
  shows "redirect_target r raw = raw"
proof -
  from assms obtain p where p: "parse_request_uri raw = Inr p" "web_scheme (u_scheme p)"
    by (auto simp: web_target_def validate_update_url_def split: sum.splits if_splits)
  then obtain sch rest where gs: "get_scheme raw = Inr (sch, rest)" and s: "u_scheme p = to_lower sch"
    by (auto simp: parse_request_uri_def parse_request_def empty_parsed_url_def web_scheme_def bind_result_def Let_def
          split: sum.splits if_splits prod.splits option.splits)
  from p(2) s have "sch \<noteq> []" by (auto simp: web_scheme_def to_lower_def)
  with gs show ?thesis by (rule redirect_target_scheme)
qed

end
