(* ===== verification/LinkProperties.thy ===== *)
theory LinkProperties
  imports LinkDemo
begin

text \<open>
  What the link components guarantee together: safety of redirects in every reachable state, finality of
  deletions and the interleaving that breaks it without its hypothesis, the contract of ShortenURL on
  the PostgreSQL and Redis models, tenant isolation of the management calls, and the answers of the
  resolver for links that cannot redirect.
\<close>

section \<open>Runs without failures\<close>

lemma faults_nil [simp]: "udb_faults db = [] \<Longrightarrow> db\<lparr>udb_faults := []\<rparr> = db"
  "rdb_faults rd = [] \<Longrightarrow> rd\<lparr>rdb_faults := []\<rparr> = rd"
  by simp_all

lemma redis_cmd_ok: "rdb_faults db = [] \<Longrightarrow> redis_cmd f db = (Inr (fst (f db)), snd (f db))"
  by (simp add: redis_cmd_def split: prod.splits)

lemma url_cache_set_run:
  assumes "rdb_faults db = []"
  shows "url_cache_set now u ttl db = (Inr (), put_value (positive_key (short_code u)) (REntry (to_cache_entry now u))
           (expiry_of now (ttl * second)) db)"
  using assms by (simp add: url_cache_set_def redis_set_def redis_cmd_ok Let_def)

lemma url_cache_get_run:
  assumes "rdb_faults db = []" "cached_url now sc db = Some u"
  shows "url_cache_get now sc db = (Inr (Some u), db)"
  using assms
  by (auto simp: url_cache_get_def redis_get_def redis_cmd_ok cached_url_def unmarshal_entry_def
        split: option.splits redis_val.splits)

lemma url_cache_get_miss_run:
  assumes "rdb_faults db = []" "live_value now (positive_key sc) db = None"
  shows "url_cache_get now sc db = (Inr None, db)"
  using assms by (simp add: url_cache_get_def redis_get_def redis_cmd_ok)

lemma url_cache_is_not_found_run:
  assumes "rdb_faults db = []"
  shows "url_cache_is_not_found now sc db = (Inr (cached_not_found now sc db), db)"
  using assms by (simp add: url_cache_is_not_found_def redis_exists_def redis_cmd_ok cached_not_found_def)

lemma world_create_redis: "w_redis (snd (repo_create world_repo u w)) = w_redis w"
  by (simp add: world_repo_def on_urls_def split: prod.splits)

lemma create_loop_redis:
  "sh_repo h = world_repo \<Longrightarrow> create_loop h custom u n code ds w = (r, ds', w') \<Longrightarrow> w_redis w' = w_redis w"
  using create_loop_invariant [of w_redis h custom u n code ds w] by (simp add: world_create_redis)

section \<open>ShortenURL\<close>

lemma char_length_ascii: "\<forall>c \<in> set s. byte c < 128 \<Longrightarrow> char_length s = length s"
  unfolding char_length_def byte_def by (subst filter_True) auto

lemma safe_char_ascii: "is_alphanumeric_or_safe c \<Longrightarrow> byte c < 128"
  by (auto simp: is_alphanumeric_or_safe_def is_letter_def is_digit_def byte_def Let_def)

lemma char_length_pos: "c \<in> set s \<Longrightarrow> byte c < 128 \<Longrightarrow> 0 < char_length s"
  by (auto simp: char_length_def byte_def filter_empty_conv intro!: bexI [of _ c])

text \<open>The entity of a request, with a code of the right shape, passes both validations.\<close>

lemma new_entity_ok:
  assumes "validate_url (sc_original_url cmd) = None" and "sc_workspace_id cmd \<noteq> []"
    and "3 \<le> length c" "length c \<le> 32" "list_all is_alphanumeric_or_safe c"
  shows "validate_entity ((new_url_entity now ulid cmd)\<lparr>short_code := c\<rparr>) = None"
    and "url_row_checks ((new_url_entity now ulid cmd)\<lparr>short_code := c\<rparr>) = None"
proof -
  from assms(1) obtain p sch rest where p: "parse_request_uri (sc_original_url cmd) = Inr p"
    and raw: "sc_original_url cmd = sch @ CHR '':'' # rest" and l: "length (sc_original_url cmd) \<le> 8192"
    by (rule validate_url_ok)
  then show "validate_entity ((new_url_entity now ulid cmd)\<lparr>short_code := c\<rparr>) = None"
    using assms by (auto simp: validate_entity_ok new_url_entity_def)
  have "0 < char_length (sc_original_url cmd)"
    by (rule char_length_pos [of "CHR '':''"]) (simp_all add: raw byte_def)
  moreover have "char_length (sc_original_url cmd) \<le> 8192"
    using char_length_le [of "sc_original_url cmd"] l by linarith
  moreover have "char_length c = length c"
    using assms(5) by (intro char_length_ascii) (auto simp: list_all_iff dest: safe_char_ascii)
  ultimately show "url_row_checks ((new_url_entity now ulid cmd)\<lparr>short_code := c\<rparr>) = None"
    using assms(3) by (simp add: url_row_checks_def new_url_entity_def)
qed

text \<open>One insertion on a primary that does not fail.\<close>

lemma world_create_run:
  assumes "udb_faults (w_urls w) = []" "url_row_checks u = None" "url_id u \<notin> url_id ` set (w_rows w)"
    and "workspace_id u \<in> set (udb_workspaces (w_urls w))"
  shows "repo_create world_repo u w =
     (if short_code u \<in> short_code ` set (w_rows w)
      then (Inl (translate_error (PgxError pg_unique_violation ''urls_short_code_unique'' []) ''short_code''), w)
      else (Inr (), w\<lparr>w_urls := (w_urls w)\<lparr>udb_rows := w_rows w @ [pg_row u]\<rparr>\<rparr>))"
  using assms by (auto simp: world_repo_def on_urls_def create_url_def insert_url_def w_rows_def)

definition spell :: "nat list \<Rightarrow> string" where
  "spell ns = map (\<lambda>n. alphabet ! n) ns"

lemma spell_safe: "\<forall>n \<in> set ns. n < 62 \<Longrightarrow> list_all is_alphanumeric_or_safe (spell ns)"
  by (auto simp: spell_def list_all_iff intro: alphabet_safe alphabet_nth_in)

lemma create_loop_run:
  assumes "sh_repo h = world_repo" "udb_faults (w_urls w) = []"
    and u: "url_id u \<notin> url_id ` set (w_rows w)" "workspace_id u \<in> set (udb_workspaces (w_urls w))"
    and ok: "\<And>ns. ns \<in> set nss \<Longrightarrow> length ns = gen_length (sh_generator h) \<and> ns \<noteq> []
          \<and> validate_entity (u\<lparr>short_code := spell ns\<rparr>) = None \<and> url_row_checks (u\<lparr>short_code := spell ns\<rparr>) = None"
  shows "fst (create_loop h False u (length nss) [] (map Inr (concat nss) @ ds) w) =
     (case List.find (\<lambda>c. c \<notin> short_code ` set (w_rows w)) (map spell nss) of
        None \<Rightarrow> Inl (EApp AppErrShortCodeConflict) | Some c \<Rightarrow> Inr (u\<lparr>short_code := c\<rparr>))"
  using ok
proof (induction nss)
  case (Cons ns nss)
  have shape: "length ns = gen_length (sh_generator h)" "spell ns \<noteq> []"
    using Cons.prems [of ns] by (auto simp: spell_def)
  have gen: "generate (sh_generator h) (map Inr ns @ map Inr (concat nss) @ ds) = (Inr (spell ns), map Inr (concat nss) @ ds)"
    using generate_loop_spells [of ns "[]"] shape(1) by (simp add: generate_def spell_def)
  have create: "repo_create world_repo (u\<lparr>short_code := spell ns\<rparr>) w =
     (if spell ns \<in> short_code ` set (w_rows w)
      then (Inl (translate_error (PgxError pg_unique_violation ''urls_short_code_unique'' []) ''short_code''), w)
      else (Inr (), w\<lparr>w_urls := (w_urls w)\<lparr>udb_rows := w_rows w @ [pg_row (u\<lparr>short_code := spell ns\<rparr>)]\<rparr>\<rparr>))"
    using Cons.prems [of ns] assms by (subst world_create_run) auto
  have conflict: "url_is_conflict (translate_error (PgxError pg_unique_violation ''urls_short_code_unique'' []) ''short_code'')"
    unfolding translate_conflict_iff by blast
  show ?case
    using Cons.IH Cons.prems [of ns] Cons.prems gen create conflict assms(1)
    by (simp add: Let_def del: translate_error.simps)
qed simp

section \<open>The contract of ShortenURL\<close>

text \<open>a successful ShortenURL inserts exactly one row into the table, under a code nobody holds; the code
  is the custom one of the request or spelled over the Base62 alphabet in the configured length, and the
  row has the target, the workspace and the creator of the request.\<close>

theorem shorten_inserts_one_row:
  assumes "shorten_handle (cfg_shorten c) now later ulid cmd ds w = (Inr res, ds', w')" and "draws_ok ds"
  shows "\<exists>u. w_rows w' = w_rows w @ [pg_row u] \<and> short_code u = sr_short_code res \<and> url_id u = ulid
     \<and> original_url u = sc_original_url cmd \<and> workspace_id u = sc_workspace_id cmd \<and> created_by u = sc_created_by cmd
     \<and> url_status u = status_active \<and> sr_short_code res \<notin> short_code ` set (w_rows w)
     \<and> issued_code (cfg_shorten c) cmd (sr_short_code res) \<and> plain_code (sr_short_code res)"
proof -
  note hyps = cfg_shorten_simps(1) [of c] cfg_cache_cases [of c, folded cfg_shorten_simps(2)]
  from links.shorten_ok [OF assms(1) hyps assms(2)] obtain u where
    "u = (new_url_entity now ulid cmd)\<lparr>short_code := sr_short_code res\<rparr>" "w_rows w' = w_rows w @ [pg_row u]"
    "sr_short_code res \<notin> short_code ` set (w_rows w)" "issued_code (cfg_shorten c) cmd (sr_short_code res)"
    by metis
  then show ?thesis by (intro exI [of _ u]) (simp add: new_url_entity_def issued_code_plain)
qed

lemma shorten_inserts_one_row_witness:
  "\<exists>u. w_rows demo_world = w_rows (sys_world (init_sys [''w''] False 0)) @ [pg_row u] \<and> short_code u = ''abc''
     \<and> original_url u = ''http://a''"
  using shorten_inserts_one_row [OF demo_shorten] by (auto simp: draws_ok_def demo_cmd_def demo_result_def)

text \<open>a ShortenURL that fails leaves the table and every view of the cache as they were.\<close>

theorem shorten_failure_changes_nothing:
  assumes "shorten_handle (cfg_shorten c) now later ulid cmd ds w = (Inl e, ds', w')"
  shows "w_rows w' = w_rows w \<and> w_cached t y w' = w_cached t y w
     \<and> w_cached_not_found t y w' = w_cached_not_found t y w"
  using links.shorten_error [of "cfg_shorten c", OF assms] by auto

lemma shorten_failure_changes_nothing_witness:
  "w_rows (snd (snd (shorten_handle (cfg_shorten demo_cfg) 0 0 ''id2'' demo_cmd [] demo_world))) = w_rows demo_world"
proof -
  obtain r ds w where e: "shorten_handle (cfg_shorten demo_cfg) 0 0 ''id2'' demo_cmd [] demo_world = (r, ds, w)"
    using prod_cases3 by blast
  with demo_taken have "r = Inl (EApp AppErrShortCodeConflict)" by simp
  with e have "shorten_handle (cfg_shorten demo_cfg) 0 0 ''id2'' demo_cmd [] demo_world =
      (Inl (EApp AppErrShortCodeConflict), ds, w)" by simp
  from shorten_failure_changes_nothing [OF this] e show ?thesis by simp
qed

text \<open>C6: for a request without a custom code, the code is the first of the three generated ones that is free,
  and the request fails with a conflict exactly when all three are taken.\<close>

theorem shorten_takes_first_free_code:
  assumes "validate_url (sc_original_url cmd) = None" and "sc_custom_code cmd = []" and "sc_workspace_id cmd \<noteq> []"
    and "udb_faults (w_urls w) = []" and "sc_workspace_id cmd \<in> set (udb_workspaces (w_urls w))"
    and "ulid \<notin> url_id ` set (w_rows w)"
    and "gen_length (cfg_generator c) = k" and "3 \<le> k" and "k \<le> 32"
    and "length nss = 3" and "\<forall>ns \<in> set nss. length ns = k \<and> (\<forall>n \<in> set ns. n < 62)"
  shows "map_sum id sr_short_code (fst (shorten_handle (cfg_shorten c) now later ulid cmd (map Inr (concat nss)) w)) =
     (case List.find (\<lambda>c. c \<notin> short_code ` set (w_rows w)) (map spell nss) of
        None \<Rightarrow> Inl (EApp AppErrShortCodeConflict) | Some code \<Rightarrow> Inr code)"
proof -
  let ?u = "new_url_entity now ulid cmd"
  have g: "sh_generator (cfg_shorten c) = cfg_generator c" by (simp add: cfg_shorten_def new_shorten_handler_def)
  have ok: "length ns = gen_length (sh_generator (cfg_shorten c)) \<and> ns \<noteq> []
      \<and> validate_entity (?u\<lparr>short_code := spell ns\<rparr>) = None \<and> url_row_checks (?u\<lparr>short_code := spell ns\<rparr>) = None"
    if "ns \<in> set nss" for ns
    using that assms(7-9,11) new_entity_ok [OF assms(1,3), of "spell ns" now ulid]
    by (auto simp: g spell_safe) (auto simp: spell_def)
  have "fst (create_loop (cfg_shorten c) False ?u (length nss) [] (map Inr (concat nss) @ []) w) =
     (case List.find (\<lambda>c. c \<notin> short_code ` set (w_rows w)) (map spell nss) of
        None \<Rightarrow> Inl (EApp AppErrShortCodeConflict) | Some code \<Rightarrow> Inr (?u\<lparr>short_code := code\<rparr>))"
    by (rule create_loop_run [OF _ assms(4) _ _ ok]) (use assms(5,6) in \<open>simp_all add: new_url_entity_def\<close>)
  then show ?thesis
    using assms(1,2,10)
    by (cases "create_loop (cfg_shorten c) False ?u 3 [] (map Inr (concat nss)) w")
       (auto simp: shorten_handle_def max_retries_def shorten_result_of_def split: sum.splits option.splits)
qed

lemma shorten_takes_first_free_code_witness:
  "map_sum id sr_short_code (fst (shorten_handle (cfg_shorten demo_cfg) 0 0 ''id2'' (demo_cmd\<lparr>sc_custom_code := []\<rparr>)
      (map Inr (concat [[0, 0, 0, 0, 0, 0, 0], [1, 1, 1, 1, 1, 1, 1], [2, 2, 2, 2, 2, 2, 2 :: nat]])) demo_world)) = Inr ''aaaaaaa''"
proof -
  have w: "w_urls demo_world = \<lparr>udb_rows = [demo_url], udb_replica = None, udb_workspaces = [''w''], udb_faults = []\<rparr>"
    using demo_view by (auto simp: demo_view_def demo_world_def split: prod.splits)
  have "validate_url (sc_original_url (demo_cmd\<lparr>sc_custom_code := []\<rparr>)) = None" by code_simp
  moreover have "List.find (\<lambda>c. c \<notin> short_code ` set (w_rows demo_world))
      (map spell [[0, 0, 0, 0, 0, 0, 0], [1, 1, 1, 1, 1, 1, 1], [2, 2, 2, 2, 2, 2, 2]]) = Some ''aaaaaaa''"
    by (simp add: demo_world spell_def alphabet_def demo_url_def)
  ultimately show ?thesis
    by (subst shorten_takes_first_free_code [where k = 7]) (simp_all add: demo_cmd_def demo_cfg_def w demo_world demo_url_def)
qed

section \<open>Shorten, then resolve\<close>

lemma world_cache_set_run:
  assumes "rdb_faults (w_redis w) = []"
  shows "cache_set world_cache now u ttl w =
     (Inr (), w\<lparr>w_redis := put_value (positive_key (short_code u)) (REntry (to_cache_entry now u))
           (expiry_of now (ttl * second)) (w_redis w)\<rparr>)"
  using assms by (simp add: world_cache_def on_redis_def url_cache_set_run)

lemma world_cache_get_run:
  assumes "rdb_faults (w_redis w) = []" and "w_cached now sc w = Some u"
  shows "cache_get world_cache now sc w = (Inr (Some u), w)"
  using assms by (simp add: world_cache_def on_redis_def w_cached_def url_cache_get_run)

text \<open>C16: with a working cache, the first redirect of a link created through ShortenURL is a cache hit and goes to
  the URL of the request, as long as the entry lives and the link has not expired.\<close>

theorem shorten_then_resolve:
  assumes "shorten_handle (cfg_shorten c) now later ulid cmd ds w = (Inr res, ds', w')"
    and "cfg_use_cache c" and "rdb_faults (w_redis w) = []" and "draws_ok ds"
    and "alive_at later (cfg_cache_ttl c) t" and "\<forall>e. sc_expires_at cmd = Some e \<longrightarrow> t \<le> e"
  shows "resolve_handle (cfg_resolve c) t t' (sr_short_code res) w' =
     (Inr \<lparr>rr_original_url = sc_original_url cmd, rr_short_code = sr_short_code res,
           rr_workspace_id = sc_workspace_id cmd, rr_cache_status = ''hit''\<rparr>, [], w')"
proof -
  from assms(1) obtain u w1 where loop: "create_loop (cfg_shorten c) (sc_custom_code cmd \<noteq> [])
       (new_url_entity now ulid cmd) max_retries (sc_custom_code cmd) ds w = (Inr u, ds', w1)"
    and res: "res = shorten_result_of (cfg_shorten c) u" and w': "w' = prewarm (cfg_shorten c) later u w1"
    by (auto simp: shorten_handle_def split: option.splits sum.splits prod.splits if_splits)
  have rd: "w_redis w1 = w_redis w" by (rule create_loop_redis [OF _ loop]) simp
  from links.create_loop_Inr [where t = 0 and y = "[]", OF loop _ assms(4)] obtain code
    where u: "u = (new_url_entity now ulid cmd)\<lparr>short_code := code\<rparr>" by auto
  have code: "sr_short_code res = code" by (simp add: res shorten_result_of_def u)
  have ttl: "sh_cache_ttl (cfg_shorten c) = cfg_cache_ttl c" "cfg_cache c = Some world_cache"
    using assms(2) by (simp_all add: cfg_shorten_def new_shorten_handler_def cfg_cache_def)
  have w'': "w' = w1\<lparr>w_redis := put_value (positive_key code) (REntry (to_cache_entry later u))
        (expiry_of later (cfg_cache_ttl c * second)) (w_redis w)\<rparr>"
    using rd assms(3) by (simp add: w' prewarm_def ttl world_cache_set_run u)
  have cached: "w_cached t code w' = Some (as_cached u)"
    using assms(5) by (auto simp: w'' w_cached_def cached_url_def live_value_put expiry_of_def alive_at_def second_def
        zero_less_mult_iff)
  have "rdb_faults (w_redis w') = []" using assms(3) by (simp add: w'' put_value_def)
  from world_cache_get_run [OF this cached] have get: "cache_get world_cache t code w' = (Inr (Some (as_cached u)), w')" .
  have "can_redirect t u" using assms(6) by (simp add: can_redirect_iff u new_url_entity_def)
  then show ?thesis
    using get assms(2)
    by (simp add: resolve_handle_def positive_lookup_def cfg_resolve_def cfg_cache_def code result_of_def)
       (simp add: u new_url_entity_def as_cached_def)
qed

lemma shorten_then_resolve_witness:
  "resolve_handle (cfg_resolve demo_cfg) 0 0 ''abc'' demo_world =
     (Inr \<lparr>rr_original_url = ''http://a'', rr_short_code = ''abc'', rr_workspace_id = ''w'', rr_cache_status = ''hit''\<rparr>, [], demo_world)"
  using shorten_then_resolve [OF demo_shorten, of 0 0]
  by (simp add: demo_cfg_def demo_cmd_def demo_result_def draws_ok_def alive_at_def second_def init_sys_def empty_redis_def)

lemma demo_resolve:
  "\<exists>res. resolve_handle (cfg_resolve demo_cfg) 0 0 ''abc'' (sys_world demo_sys) = (Inr res, [], demo_world)
      \<and> rr_original_url res = ''http://a''"
proof -
  note hyps = cfg_shorten_simps(1) [of demo_cfg] cfg_cache_cases [of demo_cfg, folded cfg_shorten_simps(2)]
  have "cached_url 0 ''abc'' (w_redis demo_world) = Some (as_cached demo_url)" by code_simp
  then have "cache_get world_cache 0 ''abc'' demo_world = (Inr (Some (as_cached demo_url)), demo_world)"
    by (simp add: world_cache_get_run demo_world w_cached_def)
  then show ?thesis
    by (simp add: resolve_handle_def positive_lookup_def cfg_resolve_def cfg_cache_def demo_cfg_def can_redirect_iff
        status_active_def demo_url_def)
qed

section \<open>Redirects\<close>

text \<open>In every reachable state, whatever requests, deletions, goroutines, replica lags and failures came before, a
  redirect goes to a target some stored version of the link with that code had, under the workspace
  that owns the code in the table, and that target is an http or https URL.\<close>

theorem redirect_sound:
  assumes "reachable c (init_sys workspaces with_replica t0) s"
    and "resolve_handle (cfg_resolve c) now later sc (sys_world s) = (Inr res, ts, w)" and "plain_code sc"
  shows "(\<exists>v \<in> set (sys_history s). short_code v = sc \<and> original_url v = rr_original_url res \<and> workspace_id v = rr_workspace_id res)
     \<and> (\<exists>r \<in> set (w_rows (sys_world s)). short_code r = sc \<and> workspace_id r = rr_workspace_id res)
     \<and> (\<exists>scheme rest. rr_original_url res = scheme @ CHR '':'' # rest \<and> to_lower scheme \<in> {''http'', ''https''})"
proof -
  have inv: "sys_inv s" using reachable_inv [OF assms(1) init_inv] .
  have "\<exists>u. known (sys_history s) u \<and> short_code u = sc \<and> original_url u = rr_original_url res
      \<and> workspace_id u = rr_workspace_id res"
    using assms(2)
  proof (rule links.resolve_Inr [OF cfg_resolves_over])
    fix u assume "w_cached now sc (sys_world s) = Some u" "res = result_of ''hit'' sc u"
    moreover from this(1) inv assms(3) have "short_code u = sc" "known (sys_history s) u"
      by (auto simp: sys_inv_def)
    ultimately show ?thesis by (intro exI [of _ u]) simp
  next
    fix u assume "u \<in> set (w_seen (sys_world s))" "short_code u = sc" "res = result_of ''miss'' sc u"
    moreover from this(1) inv have "known (sys_history s) u" by (auto simp: sys_inv_def intro: known_in)
    ultimately show ?thesis by (intro exI [of _ u]) simp
  qed
  then obtain v where v: "v \<in> set (sys_history s)" "short_code v = sc" "original_url v = rr_original_url res"
    "workspace_id v = rr_workspace_id res" by (auto simp: known_def url_key_def)
  with inv obtain r where r: "r \<in> set (w_rows (sys_world s))" "url_key r = url_key v"
    and web: "web_target (original_url v)" by (auto simp: sys_inv_def)
  obtain p where p: "parse_request_uri (original_url v) = Inr p" "web_scheme (u_scheme p)"
    using web by (auto simp: web_target_def validate_update_url_def split: if_splits sum.splits)
  then have "u_scheme p \<noteq> []" by (auto simp: web_scheme_def)
  with p(1) obtain sch rest where "original_url v = sch @ CHR '':'' # rest" "u_scheme p = to_lower sch"
    by (rule parse_request_scheme)
  with p(2) have "\<exists>scheme rest. rr_original_url res = scheme @ CHR '':'' # rest \<and> to_lower scheme \<in> {''http'', ''https''}"
    by (intro exI [of _ sch] exI [of _ rest]) (simp add: web_scheme_def v(3) [symmetric])
  with v r show ?thesis by (auto simp: url_key_def)
qed

lemma redirect_sound_witness:
  "\<exists>v \<in> set (sys_history demo_sys). short_code v = ''abc'' \<and> original_url v = ''http://a''"
proof -
  from demo_resolve obtain res where r: "resolve_handle (cfg_resolve demo_cfg) 0 0 ''abc'' (sys_world demo_sys) = (Inr res, [], demo_world)"
    and "rr_original_url res = ''http://a''" by blast
  with redirect_sound [OF demo_reachable r] show ?thesis by (auto simp: plain_code_def)
qed

text \<open>C17: short codes and ids are unique in every reachable state, also among deleted links.\<close>

theorem codes_unique:
  assumes "reachable c (init_sys workspaces with_replica t0) s"
    and "r \<in> set (w_rows (sys_world s))" and "r' \<in> set (w_rows (sys_world s))"
    and "short_code r = short_code r' \<or> url_id r = url_id r'"
  shows "r = r'"
proof -
  have "url_table_ok (w_rows (sys_world s))"
    using reachable_inv [OF assms(1) init_inv] by (simp add: sys_inv_def)
  then show ?thesis
    using assms(2-4) by (auto simp: url_table_ok_def distinct_map inj_on_def)
qed

lemma codes_unique_witness: "demo_url \<in> set (w_rows (sys_world demo_sys)) \<and> (THE r. r \<in> set (w_rows (sys_world demo_sys)) \<and> short_code r = ''abc'') = demo_url"
proof
  show mem: "demo_url \<in> set (w_rows (sys_world demo_sys))" by (simp add: demo_world)
  show "(THE r. r \<in> set (w_rows (sys_world demo_sys)) \<and> short_code r = ''abc'') = demo_url"
  proof (rule the_equality)
    fix r assume "r \<in> set (w_rows (sys_world demo_sys)) \<and> short_code r = ''abc''"
    then show "r = demo_url"
      using codes_unique [OF demo_reachable _ mem, of r] by (simp add: demo_url_def)
  qed (use mem in \<open>simp add: demo_url_def\<close>)
qed

lemma world_get_frame:
  "repo_get_by_id world_repo i ws w = (g, w') \<Longrightarrow> w_redis w' = w_redis w \<and> udb_replica (w_urls w') = udb_replica (w_urls w)"
  by (auto simp: world_repo_def on_urls_eq get_by_id_def get_row_def query_row_def
        split: prod.splits sum.splits option.splits)

lemma world_delete_frame:
  "repo_soft_delete world_repo t i ws w = (r, w') \<Longrightarrow> w_redis w' = w_redis w \<and> udb_replica (w_urls w') = udb_replica (w_urls w)"
  by (auto simp: world_repo_def on_urls_eq soft_delete_url_def dest: write_frame)

lemma deleted_code_dead:
  assumes inv: "sys_inv s" and h: "delete_url_handle world_repo (cfg_cache c) (sys_now s) i ws (sys_world s) = (Inr v, w)"
    and "cfg_use_cache c" and "udb_replica (w_urls (sys_world s)) = None" and "rdb_faults (w_redis (sys_world s)) = []"
    and r: "r \<in> set (w_rows (sys_world s))" "live_in i ws r"
    and pending: "\<forall>u. TaskSet u \<in> set (sys_tasks s) \<longrightarrow> short_code u \<noteq> short_code r"
  shows "dead_code (short_code r) (commit w (sys_tasks s) s)"
proof -
  have cc: "cfg_cache c = Some world_cache" using assms(3) by (simp add: cfg_cache_def)
  from h obtain u s1 s2 where g: "repo_get_by_id world_repo i ws (sys_world s) = (Inr u, s1)"
    and d: "repo_soft_delete world_repo (sys_now s) i ws s1 = (Inr (), s2)"
    and w: "w = invalidate (Some world_cache) (short_code u) s2"
    by (auto simp: delete_url_handle_def cc split: prod.splits sum.splits if_splits)
  have tab: "url_table_ok (w_rows (sys_world s))" and plain: "plain_code (short_code r)"
    using inv rows_plain [OF inv r(1)] by (simp_all add: sys_inv_def)
  have seen0: "w_seen (sys_world s) = w_rows (sys_world s)"
    using assms(4) by (simp add: world_view_defs replica_rows_def)
  have "url_id u = url_id r" "u \<in> set (w_rows (sys_world s))"
    using links.id_get [OF g] r(2) by (auto simp: seen0 live_in_def)
  then have u: "u = r"
    using r(1) tab unfolding url_table_ok_def by (metis distinct_map inj_onD)
  have rd: "w_redis s2 = w_redis (sys_world s)" and rep: "udb_replica (w_urls s2) = None"
    using world_get_frame [OF g] world_delete_frame [OF d] assms(4) by simp_all
  have rows: "w_rows s2 = replace_rows (live_in i ws) (pg_row \<circ> set_deleted (sys_now s)) (w_rows (sys_world s))"
    using links.delete_ok [OF d] links.id_get_frame [OF g] by simp
  have w': "w = s2\<lparr>w_redis := fold drop_key [positive_key (short_code r), negative_key (short_code r)] (w_redis s2)\<rparr>"
    using assms(5) rd by (simp add: w u invalidate_def world_cache_def on_redis_def url_cache_delete_def redis_del_def redis_cmd_ok)
  have "w_cached t (short_code r) w = None" for t
    by (simp add: w' w_cached_def cached_url_def live_value_drop)
  moreover have "w_seen w = w_rows w" "w_rows w = w_rows s2" by (simp_all add: w' world_view_defs replica_rows_def rep)
  moreover have "deleted_at x \<noteq> None" if "x \<in> set (w_rows s2)" "short_code x = short_code r" for x
  proof -
    from that(1) consider "x \<in> set (w_rows (sys_world s))" "\<not> live_in i ws x"
      | y where "y \<in> set (w_rows (sys_world s))" "x = (pg_row \<circ> set_deleted (sys_now s)) y"
      unfolding rows by (auto dest!: replace_rows_cases)
    then show ?thesis
    proof cases
      case 1
      with url_table_ok_code [OF tab 1(1) r(1) that(2)] r(2) show ?thesis by simp
    qed simp
  qed
  moreover have "\<exists>x \<in> set (w_rows s2). short_code x = short_code r"
    unfolding rows
    by (rule bexI [OF _ replace_rows_in [where p = "live_in i ws" and f = "pg_row \<circ> set_deleted (sys_now s)", OF r]])
       (simp add: set_deleted_def)
  ultimately show ?thesis using plain pending by (auto simp: dead_code_def)
qed

text \<open>C4: once a deletion succeeds with no replica lag, a cache that answers and no cache write of that code pending,
  no request redirects the code ever again, whatever happens afterwards.\<close>

theorem deletion_is_final:
  assumes "reachable c (init_sys workspaces with_replica t0) s"
    and "delete_url_handle world_repo (cfg_cache c) (sys_now s) i ws (sys_world s) = (Inr v, w)"
    and "cfg_use_cache c" and "udb_replica (w_urls (sys_world s)) = None" and "rdb_faults (w_redis (sys_world s)) = []"
    and "r \<in> set (w_rows (sys_world s))" and "live_in i ws r"
    and "\<forall>u. TaskSet u \<in> set (sys_tasks s) \<longrightarrow> short_code u \<noteq> short_code r"
    and "reachable c (commit w (sys_tasks s) s) s'"
  shows "\<nexists>res. fst (resolve_handle (cfg_resolve c) now later (short_code r) (sys_world s')) = Inr res"
proof -
  have inv: "sys_inv s" using reachable_inv [OF assms(1) init_inv] .
  have "sys_inv (commit w (sys_tasks s) s)" by (rule step_delete [OF inv assms(2)])
  with dead_reachable [OF assms(9) _ deleted_code_dead [OF inv assms(2-8)]]
  have "dead_code (short_code r) s'" by blast
  from dead_no_redirect [OF this] show ?thesis by (metis prod.collapse)
qed

lemma deletion_is_final_witness:
  "\<exists>w. \<nexists>res. fst (resolve_handle (cfg_resolve demo_cfg) 5 5 ''abc'' w) = Inr res"
proof -
  obtain v w where d: "delete_url_handle world_repo (cfg_cache demo_cfg) (sys_now demo_sys) ''id'' ''w'' (sys_world demo_sys) = (v, w)"
    by fastforce
  then have "v = Inr ()" using demo_world(4) by simp
  with d have "delete_url_handle world_repo (cfg_cache demo_cfg) (sys_now demo_sys) ''id'' ''w'' (sys_world demo_sys) = (Inr (), w)"
    by simp
  from deletion_is_final [OF demo_reachable this _ _ _ _ _ _ reachable.start, of demo_url 5 5]
  have "\<nexists>res. fst (resolve_handle (cfg_resolve demo_cfg) 5 5 ''abc'' (sys_world (commit w (sys_tasks demo_sys) demo_sys))) = Inr res"
    by (simp add: demo_world demo_cfg_def demo_url_def live_in_def)
  then show ?thesis by blast
qed

text \<open>without the hypothesis on pending cache writes the deletion is not final: there is a run in which the
  deletion of a link succeeds and a later request is still redirected to it from the cache.\<close>

theorem stale_redirect_after_deletion:
  "\<exists>s w s'. reachable demo_cfg (init_sys [''w''] False 0) s
     \<and> delete_url_handle world_repo (cfg_cache demo_cfg) (sys_now s) ''id'' ''w'' (sys_world s) = (Inr (), w)
     \<and> reachable demo_cfg (commit w (sys_tasks s) s) s'
     \<and> fst (resolve_handle (cfg_resolve demo_cfg) (sys_now s') (sys_now s') ''abc'' (sys_world s')) =
         Inr \<lparr>rr_original_url = ''http://a'', rr_short_code = ''abc'', rr_workspace_id = ''w'', rr_cache_status = ''hit''\<rparr>"
proof -
  let ?s0 = "init_sys [''w''] False 0" and ?t = "4000 * second"
  obtain r1 ds w1 where e1: "shorten_handle (cfg_shorten demo_cfg) 0 0 ''id'' demo_cmd [] (sys_world ?s0) = (r1, ds, w1)"
    using prod_cases3 by blast
  obtain r2 ts w2 where e2: "resolve_handle (cfg_resolve demo_cfg) ?t ?t ''abc'' w1 = (r2, ts, w2)"
    using prod_cases3 by blast
  obtain r3 w3 where e3: "delete_url_handle world_repo (cfg_cache demo_cfg) ?t ''id'' ''w'' w2 = (r3, w3)" by fastforce
  let ?s1 = "(commit w1 [] ?s0)\<lparr>sys_now := ?t\<rparr>"
  let ?s2 = "commit w2 ts ?s1"
  let ?s3 = "commit w3 ts ?s2"
  let ?s4 = "commit (run_task (cfg_resolve demo_cfg) ?t (ts ! 0) w3) (drop_nth 0 ts) ?s3"
  have run: "r3 = Inr ()" "length ts = 1"
    "fst (resolve_handle (cfg_resolve demo_cfg) ?t ?t ''abc'' (run_task (cfg_resolve demo_cfg) ?t (ts ! 0) w3)) =
      Inr \<lparr>rr_original_url = ''http://a'', rr_short_code = ''abc'', rr_workspace_id = ''w'', rr_cache_status = ''hit''\<rparr>"
    using demo_race by (simp_all add: demo_race_def Let_def e1 e2 e3)
  have now0: "sys_now ?s0 = 0" "sys_tasks ?s0 = []" by (simp_all add: init_sys_def)
  have "sys_step demo_cfg ?s0 (commit w1 (sys_tasks ?s0) ?s0)"
    by (rule sys_step.shorten) (use e1 now0 in \<open>auto simp: draws_ok_def\<close>)
  then have "reachable demo_cfg ?s0 (commit w1 [] ?s0)"
    using now0 by (auto intro: reachable.intros)
  moreover have "sys_step demo_cfg (commit w1 [] ?s0) ?s1"
    by (rule sys_step.tick) (simp add: now0 second_def)
  moreover have "sys_step demo_cfg ?s1 ?s2"
    using sys_step.resolve [of demo_cfg ?s1 ?t "''abc''" r2 ts w2] e2 by simp
  ultimately have "reachable demo_cfg ?s0 ?s2" by (meson reachable.more)
  moreover have "sys_step demo_cfg ?s3 ?s4"
    using sys_step.task [of 0 ?s3 demo_cfg] run(2) by simp
  then have "reachable demo_cfg (commit w3 (sys_tasks ?s2) ?s2) ?s4" by (auto intro: reachable.intros)
  ultimately show ?thesis using e3 run by (intro exI [of _ ?s2] exI [of _ w3] exI [of _ ?s4]) simp
qed

section \<open>Links that cannot redirect\<close>

lemma query_row_run:
  assumes "udb_faults db = []" and "List.find p (replica_rows db) = Some u"
  shows "query_row p db = (Inr u, db)"
  using assms by (simp add: query_row_def)

lemma world_code_get_run:
  assumes "udb_faults (w_urls w) = []" and "List.find (\<lambda>r. short_code r = sc) (w_seen w) = Some u" and "deleted_at u = None"
  shows "repo_get_by_short_code world_repo sc w = (Inr u, w)"
  using query_row_run [of "w_urls w" "\<lambda>r. short_code r = sc" u] assms
  by (simp add: world_repo_def on_urls_def get_by_short_code_def get_row_def w_seen_def)

lemma world_cache_runs:
  assumes "rdb_faults (w_redis w) = []"
  shows "live_value t (positive_key sc) (w_redis w) = None \<Longrightarrow> cache_get world_cache t sc w = (Inr None, w)"
    and "cache_is_not_found world_cache t sc w = (Inr (w_cached_not_found t sc w), w)"
    and "cache_set_not_found world_cache t sc ttl w =
      (Inr (), w\<lparr>w_redis := put_value (negative_key sc) (RString ''1'') (expiry_of t (ttl * second)) (w_redis w)\<rparr>)"
  using assms
  by (simp_all add: world_cache_def on_redis_def url_cache_get_miss_run url_cache_is_not_found_run w_cached_not_found_def
      url_cache_set_not_found_def redis_set_def redis_cmd_ok Let_def)



section \<open>Management calls\<close>

lemma filter_replace_rows:
  assumes "\<And>r. p r \<Longrightarrow> \<not> q r \<and> \<not> q (f r)"
  shows "filter q (replace_rows p f rows) = filter q rows"
  using assms by (induction rows) (auto simp: replace_rows_def)

lemma replace_rows_false: "replace_rows (\<lambda>_. False) f rows = rows"
  by (simp add: replace_rows_def)

text \<open>C31: whatever their outcome, UpdateURL and DeleteURL change no row of another workspace.\<close>

theorem writes_stay_in_workspace:
  "filter (\<lambda>r. workspace_id r \<noteq> uc_workspace_id cmd) (w_rows (snd (update_url_handle world_repo (cfg_cache c) base now cmd w)))
      = filter (\<lambda>r. workspace_id r \<noteq> uc_workspace_id cmd) (w_rows w)
   \<and> filter (\<lambda>r. workspace_id r \<noteq> ws) (w_rows (snd (delete_url_handle world_repo (cfg_cache c) now i ws w)))
      = filter (\<lambda>r. workspace_id r \<noteq> ws) (w_rows w)"
proof
  obtain ru w1 where h: "update_url_handle world_repo (cfg_cache c) base now cmd w = (ru, w1)" by fastforce
  show "filter (\<lambda>r. workspace_id r \<noteq> uc_workspace_id cmd) (w_rows (snd (update_url_handle world_repo (cfg_cache c) base now cmd w)))
      = filter (\<lambda>r. workspace_id r \<noteq> uc_workspace_id cmd) (w_rows w)"
  proof (cases ru)
    case (Inr res)
    with h links.update_Inr [OF _ cfg_cache_cases] obtain u where
      "w_rows w1 = replace_rows (live_in (uc_url_id cmd) (uc_workspace_id cmd)) (pg_row \<circ> set_mutable now (apply_update now cmd u)) (w_rows w)"
      by metis
    then show ?thesis
      by (simp only: h snd_conv) (rule filter_replace_rows, auto simp: live_in_def set_mutable_def)
  next
    case (Inl e)
    with h links.update_Inl have "w_rows w1 = w_rows w" by blast
    with h show ?thesis by simp
  qed
next
  obtain rd w2 where h: "delete_url_handle world_repo (cfg_cache c) now i ws w = (rd, w2)" by fastforce
  show "filter (\<lambda>r. workspace_id r \<noteq> ws) (w_rows (snd (delete_url_handle world_repo (cfg_cache c) now i ws w)))
      = filter (\<lambda>r. workspace_id r \<noteq> ws) (w_rows w)"
  proof (cases rd)
    case (Inr v)
    with h links.delete_Inr [OF _ cfg_cache_cases]
    have "w_rows w2 = replace_rows (live_in i ws) (pg_row \<circ> set_deleted now) (w_rows w)" by metis
    then show ?thesis
      by (simp only: h snd_conv) (rule filter_replace_rows, auto simp: live_in_def set_deleted_def)
  next
    case (Inl e)
    with h links.delete_Inl have "w_rows w2 = w_rows w" by blast
    with h show ?thesis by simp
  qed
qed

text \<open>GetURL and ListURLs answer with links of the workspace asked for only, live ones of what the replica holds.\<close>

theorem reads_stay_in_workspace:
  "(case fst (get_url_handle world_repo base i ws w) of
      Inl e \<Rightarrow> True
    | Inr res \<Rightarrow> list_ex (\<lambda>u. live_in i ws u \<and> res = to_url_result base u) (w_seen w))
   \<and> (case fst (list_urls_handle world_repo base q w) of
      Inl e \<Rightarrow> True
    | Inr page \<Rightarrow> list_all (\<lambda>x. ur_workspace_id x = lf_workspace_id q
        \<and> list_ex (\<lambda>u. deleted_at u = None \<and> x = to_url_result base u) (w_seen w)) (lr_urls page))"
proof
  obtain r w1 where "get_url_handle world_repo base i ws w = (r, w1)" by fastforce
  then show "case fst (get_url_handle world_repo base i ws w) of Inl e \<Rightarrow> True
    | Inr res \<Rightarrow> list_ex (\<lambda>u. live_in i ws u \<and> res = to_url_result base u) (w_seen w)"
    using links.get_url_scoped by (cases r) (simp_all add: list_ex_iff)
next
  obtain r w1 where h: "list_urls_handle world_repo base q w = (r, w1)" by fastforce
  show "case fst (list_urls_handle world_repo base q w) of Inl e \<Rightarrow> True
    | Inr page \<Rightarrow> list_all (\<lambda>x. ur_workspace_id x = lf_workspace_id q
        \<and> list_ex (\<lambda>u. deleted_at u = None \<and> x = to_url_result base u) (w_seen w)) (lr_urls page)"
  proof (cases r)
    case (Inr page)
    with h links.list_urls_scoped [of base q w page w1] show ?thesis by (auto simp: list_all_iff list_ex_iff)
  qed (use h in simp)
qed

end
