(* ===== verification/RedirectorProperties.thy ===== *)
theory RedirectorProperties
  imports Redirector LinkProperties
begin

text \<open>
  What the redirector answers over HTTP, in every state the requests, goroutines, replica lags and failures of
  \<open>LinkSystem\<close> can lead to.
\<close>

lemma rx_resolve_step:
  assumes "reachable c s0 (rx_sys st)" and "rx_resolve c (sys_now (rx_sys st)) later sc st = (res, st1)"
  shows "reachable c s0 (rx_sys st1)" and "rx_events st1 = rx_events st" and "rx_clicks st1 = rx_clicks st"
    and "rx_hooks st1 = rx_hooks st"
  using assms by (auto simp: rx_resolve_def split: prod.splits intro: reachable.more [OF _ sys_step.resolve])

lemma redirect_known_target:
  assumes "reachable c (init_sys wss rep t0) (rx_sys st)" and "rx_resolve c now later sc st = (Inr x, st1)" and "plain_code sc"
  shows "\<exists>v \<in> set (sys_history (rx_sys st)). short_code v = sc \<and> original_url v = rr_original_url x \<and> workspace_id v = rr_workspace_id x
     \<and> web_target (original_url v)"
    and "rr_short_code x = sc"
proof -
  obtain ts w where "resolve_handle (cfg_resolve c) now later sc (sys_world (rx_sys st)) = (Inr x, ts, w)"
    using assms(2) by (auto simp: rx_resolve_def split: prod.splits)
  note run = this
  from redirect_sound [OF assms(1) run assms(3)] obtain v where
    v: "v \<in> set (sys_history (rx_sys st))" "short_code v = sc" "original_url v = rr_original_url x" "workspace_id v = rr_workspace_id x"
    by blast
  moreover have "web_target (original_url v)"
    using reachable_inv [OF assms(1) init_inv] v(1) by (auto simp: sys_inv_def)
  ultimately show "\<exists>v \<in> set (sys_history (rx_sys st)). short_code v = sc \<and> original_url v = rr_original_url x \<and> workspace_id v = rr_workspace_id x
     \<and> web_target (original_url v)" by blast
  show "rr_short_code x = sc"
    using run by (auto elim!: links.resolve_Inr [OF cfg_resolves_over])
qed

text \<open>The two outcomes of a request: what is answered, and what is left beside the links.\<close>

definition redirected ::
  "string \<Rightarrow> gotime \<Rightarrow> string \<Rightarrow> request \<Rightarrow> ('db, 'h) redirector \<Rightarrow> response \<Rightarrow> ('db, 'h) redirector \<Rightarrow> bool" where
  "redirected key later ulid r st resp st' \<longleftrightarrow>
     rs_status resp = 302 \<and> (''Cache-Control'', ''no-store'') \<in> set (rs_headers resp)
     \<and> (\<exists>v \<in> set (sys_history (rx_sys st)). \<exists>q.
          short_code v = rq_param r ''shortcode'' \<and> web_target (original_url v)
          \<and> (''Location'', hex_escape_non_ascii (original_url v)) \<in> set (rs_headers resp)
          \<and> cr_short_code q = short_code v \<and> cr_workspace_id q = workspace_id v
          \<and> rx_events st' = offer analytics_channel_size (build_redirect_event key later ulid q) (rx_events st))"

definition turned_down :: "('db, 'h) redirector \<Rightarrow> response \<Rightarrow> ('db, 'h) redirector \<Rightarrow> bool" where
  "turned_down st resp st' \<longleftrightarrow>
     rs_status resp \<in> {404, 410, 429, 500, 503}
     \<and> rx_events st' = rx_events st \<and> rx_clicks st' = rx_clicks st \<and> rx_hooks st' = rx_hooks st"

lemma outcome_under_headers:
  "redirected key later ulid r st answer st' \<Longrightarrow> redirected key later ulid r st (under_headers hs answer) st'"
  "turned_down st answer st' \<Longrightarrow> turned_down st (under_headers hs answer) st'"
  by (auto simp: redirected_def turned_down_def intro: under_headers_keeps)

lemma redirect_error_status: "rs_status (redirect_error_response r e) \<in> {404, 410, 500}"
  by (simp add: redirect_error_response_def resp_defs)

lemma redirect_handler_outcome:
  assumes "reachable c (init_sys wss rep t0) (rx_sys st)" and "now = sys_now (rx_sys st)"
    and "plain_code (rq_param r ''shortcode'')"
    and "redirect_http (redirector_deps c pub key d now later ulid) later r st = (answer, st')"
  shows "reachable c (init_sys wss rep t0) (rx_sys st')
     \<and> (redirected key later ulid r st answer st' \<or> turned_down st answer st')"
proof (cases "rq_param r ''shortcode'' = []")
  case True
  with assms(1,4) show ?thesis by (auto simp: redirect_http_def turned_down_def resp_defs)
next
  case False
  obtain res st1 where res: "rx_resolve c now later (rq_param r ''shortcode'') st = (res, st1)" by (metis surj_pair)
  with rx_resolve_step [OF assms(1)] assms(2) have st1: "reachable c (init_sys wss rep t0) (rx_sys st1)" "rx_events st1 = rx_events st"
    "rx_clicks st1 = rx_clicks st" "rx_hooks st1 = rx_hooks st" by auto
  show ?thesis
  proof (cases res)
    case (Inl e)
    with False res assms(4) have "answer = redirect_error_response r e" "st' = st1" by (auto simp: redirect_http_def)
    with st1 redirect_error_status [of r e] show ?thesis by (auto simp: turned_down_def)
  next
    case (Inr x)
    with redirect_known_target [OF assms(1) _ assms(3)] res obtain v where v: "v \<in> set (sys_history (rx_sys st))"
      "short_code v = rq_param r ''shortcode''" "original_url v = rr_original_url x" "workspace_id v = rr_workspace_id x"
      "web_target (original_url v)" "rr_short_code x = rq_param r ''shortcode''" by blast
    from False res Inr assms(4) have a: "answer = http_redirect r (rr_original_url x) [(''Cache-Control'', ''no-store'')]"
      and e: "rx_events st' = offer analytics_channel_size (build_redirect_event key later ulid (capture_of later r x)) (rx_events st1)"
      and sys: "rx_sys st' = rx_sys st1" by (auto simp: redirect_http_def Let_def)
    from v(3,5) have "(''Location'', hex_escape_non_ascii (original_url v)) \<in> set (rs_headers answer)"
      using http_redirect_simps(3) [of r "rr_original_url x"] by (simp add: a web_target_sent)
    with v e a st1 have "redirected key later ulid r st answer st'"
      unfolding redirected_def by (intro conjI bexI [of _ v] exI [of _ "capture_of later r x"]) (simp_all add: capture_of_def)
    with sys st1(1) show ?thesis by simp
  qed
qed

text \<open>C1: in every reachable state, a request for a short code is either redirected with 302, uncacheable, to an http or
  https target that some stored version of the link had, and exactly one analytics event, for that code and the
  link's workspace, is handed to the analytics service; or it is answered 404, 410, 429, 500 or 503, and no event
  is recorded, no click published and no webhook dispatched. The links stay in a reachable state.\<close>

theorem redirect_over_http:
  assumes "reachable c (init_sys wss rep t0) (rx_sys st)" and "now = sys_now (rx_sys st)"
    and "plain_code (rq_param r ''shortcode'')"
    and "redirector_serve redirector_limit (redirector_deps c pub key d now later ulid) p1 p2 now later RouteShortcode r (db, st)
           = (resp, (db', st'))"
  shows "reachable c (init_sys wss rep t0) (rx_sys st')
    \<and> (redirected key later ulid r st resp st' \<or> turned_down st resp st')"
proof -
  from assms(4) have "(rs_status resp \<in> {429, 503} \<and> st' = st)
      \<or> (\<exists>answer hs. redirect_http (redirector_deps c pub key d now later ulid) later r st = (answer, st')
           \<and> (resp = answer \<or> resp = under_headers hs answer))"
    by (intro rate_limit_gate) (simp add: redirector_serve_def redirector_limit_def)
  then show ?thesis
  proof
    assume "rs_status resp \<in> {429, 503} \<and> st' = st"
    with assms(1) show ?thesis by (auto simp: turned_down_def)
  next
    assume "\<exists>answer hs. redirect_http (redirector_deps c pub key d now later ulid) later r st = (answer, st')
           \<and> (resp = answer \<or> resp = under_headers hs answer)"
    with redirect_handler_outcome [OF assms(1-3)] outcome_under_headers show ?thesis by blast
  qed
qed

section \<open>A request for the link of \<open>LinkDemo\<close>\<close>

definition demo_get :: request where
  "demo_get = \<lparr>rq_method = ''GET'', rq_path = ''/abc'', rq_query = [], rq_headers = [], rq_remote_addr = ''1.2.3.4:5'',
     rq_params = [(''shortcode'', ''abc'')], rq_body = BodyUnreadable, rq_claims = None, rq_member = None, rq_id = ''r''\<rparr>"

definition demo_redirector :: "(unit, unit) redirector" where
  "demo_redirector = \<lparr>rx_sys = demo_sys, rx_events = new_buffer (), rx_clicks = [], rx_hooks = ()\<rparr>"

definition no_limiter :: redis_db where "no_limiter = empty_redis\<lparr>rdb_faults := [Some ''down'']\<rparr>"

lemma redirect_over_http_witness:
  "\<exists>resp db' st'. redirector_serve redirector_limit (redirector_deps demo_cfg True ''k'' None 0 0 ''e'') None None 0 0 RouteShortcode
       demo_get (no_limiter, demo_redirector) = (resp, (db', st'))
     \<and> redirected ''k'' 0 ''e'' demo_get demo_redirector resp st' \<and> reachable demo_cfg (init_sys [''w''] False 0) (rx_sys st')"
proof -
  let ?d = "redirector_deps demo_cfg True ''k'' None 0 0 ''e'' :: (unit, unit) redirector redirect_deps"
  obtain resp db' st' where run: "redirector_serve redirector_limit ?d None None 0 0 RouteShortcode demo_get (no_limiter, demo_redirector)
      = (resp, (db', st'))" by (metis surj_pair)
  from demo_resolve obtain res where "resolve_handle (cfg_resolve demo_cfg) 0 0 ''abc'' (sys_world demo_sys) = (Inr res, [], demo_world)"
    by blast
  then have "rs_status (fst (redirect_http ?d 0 demo_get demo_redirector)) = 302"
    by (simp add: redirect_http_def demo_get_def rq_param_def lookup_str_def rx_resolve_def demo_redirector_def Let_def)
  with run have "rs_status resp = 302"
    by (auto simp: redirector_serve_def redirector_limit_def gate_config_def rate_limit_def redis_check_def limiter_check_def
          redis_cmd_def no_limiter_def empty_redis_def behind_def Let_def split: prod.splits)
  moreover have "reachable demo_cfg (init_sys [''w''] False 0) (rx_sys st')
      \<and> (redirected ''k'' 0 ''e'' demo_get demo_redirector resp st' \<or> turned_down demo_redirector resp st')"
    by (rule redirect_over_http [OF _ _ _ run])
       (use demo_reachable in \<open>simp_all add: demo_redirector_def demo_get_def rq_param_def lookup_str_def plain_code_def\<close>)
  ultimately have "redirected ''k'' 0 ''e'' demo_get demo_redirector resp st'" "reachable demo_cfg (init_sys [''w''] False 0) (rx_sys st')"
    by (auto simp: turned_down_def)
  with run show ?thesis by blast
qed

end
