(* ===== verification/WorkspaceApp.thy ===== *)
theory WorkspaceApp
  imports Workspace
begin

text \<open>
  The use cases of \<open>internal/application/workspace\<close>: creating, reading and listing workspaces, inviting and
  listing members. Each handler is a function of its ports over a state type; its lemmas are proved once, in
  the locale \<open>workspace_store\<close>.
\<close>

section \<open>CreateWorkspace\<close>

record ws_create_command =
  wc_name :: string
  wc_slug :: string
  wc_owner_id :: string

record ws_create_result =
  wcr_id :: string
  wcr_name :: string
  wcr_slug :: string
  wcr_plan_tier :: string
  wcr_owner_id :: string
  wcr_created_at :: string

definition command_slug :: "ws_create_command \<Rightarrow> string" where
  "command_slug cmd = (if wc_slug cmd = [] then generate_slug (wc_name cmd) else to_lower (wc_slug cmd))"

definition new_workspace :: "gotime \<Rightarrow> string \<Rightarrow> ws_create_command \<Rightarrow> workspace" where
  "new_workspace now ulid cmd =
     \<lparr>w_id = ulid, w_name = wc_name cmd, w_slug = command_slug cmd, w_plan_tier = ''free'',
      w_owner_id = wc_owner_id cmd, w_created_at = now, w_updated_at = now\<rparr>"

definition new_owner :: "gotime \<Rightarrow> string \<Rightarrow> ws_create_command \<Rightarrow> member" where
  "new_owner now ulid cmd =
     \<lparr>m_workspace_id = ulid, m_user_id = wc_owner_id cmd, m_role = role_owner, m_invited_by = [], m_joined_at = now\<rparr>"

definition create_workspace_handle ::
  "'s workspace_repository \<Rightarrow> gotime \<Rightarrow> string \<Rightarrow> ws_create_command \<Rightarrow> 's \<Rightarrow> ws_create_result result \<times> 's" where
  "create_workspace_handle repo now ulid cmd s =
     (if wc_name cmd = [] then (Inl (new_validation_error ''name is required'' None), s)
      else if length (wc_name cmd) > 100
      then (Inl (new_validation_error ''name must be 100 characters or fewer'' None), s)
      else if wc_owner_id cmd = [] then (Inl (new_validation_error ''owner_id is required'' None), s)
      else
     (case ws_count_owned repo (wc_owner_id cmd) s of
        (Inl err, s1) \<Rightarrow> (Inl (EWrap ''counting owned workspaces: '' err []), s1)
      | (Inr count, s1) \<Rightarrow>
          if count \<ge> max_workspaces_per_user
          then (Inl (new_validation_error (''you have reached the maximum of '' @ show_nat max_workspaces_per_user
                  @ '' workspaces'') None), s1)
          else
            let w = new_workspace now ulid cmd in
            (case validate_workspace w of
               Some err \<Rightarrow> (Inl (new_validation_error (err_text err) (Some err)), s1)
             | None \<Rightarrow>
                 (case ws_create repo w (new_owner now ulid cmd) s1 of
                    (Inl err, s2) \<Rightarrow>
                      (if ws_is_conflict err then Inl (EApp AppErrShortCodeConflict)
                       else Inl (EWrap ''creating workspace: '' err []), s2)
                  | (Inr _, s2) \<Rightarrow>
                      (Inr \<lparr>wcr_id = w_id w, wcr_name = w_name w, wcr_slug = w_slug w, wcr_plan_tier = w_plan_tier w,
                            wcr_owner_id = w_owner_id w, wcr_created_at = format_rfc3339 (w_created_at w)\<rparr>, s2)))))"

section \<open>GetWorkspace and ListWorkspaces\<close>

record ws_get_result =
  wg_id :: string
  wg_name :: string
  wg_slug :: string
  wg_plan_tier :: string
  wg_owner_id :: string
  wg_created_at :: string
  wg_user_role :: string

definition get_workspace_handle ::
  "'s workspace_repository \<Rightarrow> 's member_repository \<Rightarrow> string \<Rightarrow> string \<Rightarrow> 's \<Rightarrow> ws_get_result result \<times> 's" where
  "get_workspace_handle repo mrepo ws uid s =
     (case mr_get_member mrepo ws uid s of
        (Inl err, s1) \<Rightarrow>
          (if ws_is_not_found err then Inl (EWs WsErrNotMember)
           else Inl (EWrap ''checking membership: '' err []), s1)
      | (Inr m, s1) \<Rightarrow>
          (case ws_get_by_id repo ws s1 of
             (Inl err, s2) \<Rightarrow>
               (if ws_is_not_found err then Inl (EWs WsErrNotFound)
                else Inl (EWrap ''fetching workspace: '' err []), s2)
           | (Inr w, s2) \<Rightarrow>
               (Inr \<lparr>wg_id = w_id w, wg_name = w_name w, wg_slug = w_slug w, wg_plan_tier = w_plan_tier w,
                     wg_owner_id = w_owner_id w, wg_created_at = format_rfc3339 (w_created_at w),
                     wg_user_role = m_role m\<rparr>, s2)))"

record ws_list_result =
  wl_id :: string
  wl_name :: string
  wl_slug :: string
  wl_plan_tier :: string
  wl_user_role :: string

text \<open>One membership query per workspace; a workspace whose query fails is left out.\<close>

fun list_roles :: "'s member_repository \<Rightarrow> string \<Rightarrow> workspace list \<Rightarrow> 's \<Rightarrow> ws_list_result list \<times> 's" where
  "list_roles mrepo uid [] s = ([], s)"
| "list_roles mrepo uid (w # ws) s =
     (case mr_get_member mrepo (w_id w) uid s of
        (Inl err, s1) \<Rightarrow> list_roles mrepo uid ws s1
      | (Inr m, s1) \<Rightarrow>
          (case list_roles mrepo uid ws s1 of
             (rs, s2) \<Rightarrow>
               (\<lparr>wl_id = w_id w, wl_name = w_name w, wl_slug = w_slug w, wl_plan_tier = w_plan_tier w,
                 wl_user_role = m_role m\<rparr> # rs, s2)))"

definition list_workspaces_handle ::
  "'s workspace_repository \<Rightarrow> 's member_repository \<Rightarrow> string \<Rightarrow> 's \<Rightarrow> ws_list_result list result \<times> 's" where
  "list_workspaces_handle repo mrepo uid s =
     (case ws_list_for_user repo uid s of
        (Inl err, s1) \<Rightarrow> (Inl (EWrap ''listing workspaces: '' err []), s1)
      | (Inr ws, s1) \<Rightarrow> (case list_roles mrepo uid ws s1 of (rs, s2) \<Rightarrow> (Inr rs, s2)))"

section \<open>AddMember and ListMembers\<close>

record add_member_command =
  am_workspace_id :: string
  am_invited_user_id :: string
  am_role :: string
  am_requesting_user_id :: string

record add_member_result =
  amr_workspace_id :: string
  amr_user_id :: string
  amr_role :: string
  amr_joined_at :: string

definition new_member :: "gotime \<Rightarrow> add_member_command \<Rightarrow> member" where
  "new_member now cmd =
     \<lparr>m_workspace_id = am_workspace_id cmd, m_user_id = am_invited_user_id cmd, m_role = am_role cmd,
      m_invited_by = am_requesting_user_id cmd, m_joined_at = now\<rparr>"

definition add_member_handle ::
  "'s member_repository \<Rightarrow> gotime \<Rightarrow> add_member_command \<Rightarrow> 's \<Rightarrow> add_member_result result \<times> 's" where
  "add_member_handle mrepo now cmd s =
     (if \<not> role_is_valid (am_role cmd)
      then (Inl (new_validation_error ''role must be one of: admin, editor, viewer'' None), s)
      else if am_role cmd = role_owner
      then (Inl (new_validation_error ''the owner role cannot be assigned via invitation'' None), s)
      else
     (case mr_get_member mrepo (am_workspace_id cmd) (am_requesting_user_id cmd) s of
        (Inl err, s1) \<Rightarrow>
          (if ws_is_not_found err then Inl (EApp AppErrUnauthorized)
           else Inl (EWrap ''fetching requesting member: '' err []), s1)
      | (Inr requesting, s1) \<Rightarrow>
          if \<not> role_can (m_role requesting) action_manage_members then (Inl (EApp AppErrUnauthorized), s1)
          else
            let m = new_member now cmd in
            (case validate_member m of
               Some err \<Rightarrow> (Inl (new_validation_error (err_text err) (Some err)), s1)
             | None \<Rightarrow>
                 (case mr_add_member mrepo m s1 of
                    (Inl err, s2) \<Rightarrow>
                      (if ws_is_conflict err
                       then Inl (new_validation_error ''user is already a member of this workspace'' (Some err))
                       else Inl (EWrap ''adding member: '' err []), s2)
                  | (Inr _, s2) \<Rightarrow>
                      (Inr \<lparr>amr_workspace_id = am_workspace_id cmd, amr_user_id = am_invited_user_id cmd,
                            amr_role = am_role cmd, amr_joined_at = format_rfc3339 now\<rparr>, s2)))))"

record member_result =
  mres_user_id :: string
  mres_role :: string
  mres_joined_at :: string
  mres_invited_by :: string

definition to_member_result :: "member \<Rightarrow> member_result" where
  "to_member_result m = \<lparr>mres_user_id = m_user_id m, mres_role = m_role m,
     mres_joined_at = format_rfc3339 (m_joined_at m), mres_invited_by = m_invited_by m\<rparr>"

definition list_members_handle ::
  "'s member_repository \<Rightarrow> string \<Rightarrow> string \<Rightarrow> 's \<Rightarrow> member_result list result \<times> 's" where
  "list_members_handle mrepo ws uid s =
     (case mr_get_member mrepo ws uid s of
        (Inl err, s1) \<Rightarrow>
          (if ws_is_not_found err then Inl (EApp AppErrUnauthorized)
           else Inl (EWrap ''verifying membership: '' err []), s1)
      | (Inr requesting, s1) \<Rightarrow>
          if \<not> role_can (m_role requesting) action_view_members then (Inl (EApp AppErrUnauthorized), s1)
          else
            (case mr_list_members mrepo ws s1 of
               (Inl err, s2) \<Rightarrow> (Inl (EWrap ''listing members: '' err []), s2)
             | (Inr ms, s2) \<Rightarrow> (Inr (map to_member_result ms), s2)))"

section \<open>What every handler keeps\<close>

text \<open>Every workspace has its owner among its members, and only its owner has the owner's role.\<close>

definition owners_ok :: "workspace list \<Rightarrow> member list \<Rightarrow> bool" where
  "owners_ok ws ms =
     (distinct (map w_id ws)
      \<and> (\<forall>w \<in> set ws. \<exists>m \<in> set ms. m_workspace_id m = w_id w \<and> m_user_id m = w_owner_id w \<and> m_role m = role_owner)
      \<and> (\<forall>m \<in> set ms. m_role m = role_owner \<longrightarrow>
            (\<exists>w \<in> set ws. m_workspace_id m = w_id w \<and> m_user_id m = w_owner_id w)))"

lemma new_workspace_simps [simp]:
  "w_id (new_workspace now ulid cmd) = ulid" "w_owner_id (new_workspace now ulid cmd) = wc_owner_id cmd"
  "w_name (new_workspace now ulid cmd) = wc_name cmd" "w_slug (new_workspace now ulid cmd) = command_slug cmd"
  by (simp_all add: new_workspace_def)

lemma new_owner_simps [simp]:
  "m_workspace_id (new_owner now ulid cmd) = ulid" "m_user_id (new_owner now ulid cmd) = wc_owner_id cmd"
  "m_role (new_owner now ulid cmd) = role_owner"
  by (simp_all add: new_owner_def)

lemma new_member_simps [simp]:
  "m_workspace_id (new_member now cmd) = am_workspace_id cmd" "m_user_id (new_member now cmd) = am_invited_user_id cmd"
  "m_role (new_member now cmd) = am_role cmd" "m_invited_by (new_member now cmd) = am_requesting_user_id cmd"
  by (simp_all add: new_member_def)

context workspace_store
begin

lemma member_got:
  "mr_get_member mrepo ws uid s = (Inr m, s') \<Longrightarrow>
     (m \<in> set (seen_m s) \<and> m_workspace_id m = ws \<and> m_user_id m = uid)
     \<and> wss s' = wss s \<and> mems s' = mems s \<and> seen_w s' = seen_w s \<and> seen_m s' = seen_m s"
  using member_ok member_frame by blast

lemma owned_got:
  "ws_count_owned repo uid s = (Inr n, s') \<Longrightarrow>
     n = length (filter (\<lambda>w. w_owner_id w = uid) (seen_w s))
     \<and> wss s' = wss s \<and> mems s' = mems s \<and> seen_w s' = seen_w s \<and> seen_m s' = seen_m s"
  using count_ok count_frame by blast

lemma create_handle_Inr:
  assumes "create_workspace_handle repo now ulid cmd s = (Inr res, s')"
  shows "wss s' = wss s @ [row_w (new_workspace now ulid cmd)] \<and> mems s' = mems s @ [row_m (new_owner now ulid cmd)]
     \<and> ulid \<notin> w_id ` set (wss s) \<and> validate_workspace (new_workspace now ulid cmd) = None
     \<and> length (filter (\<lambda>w. w_owner_id w = wc_owner_id cmd) (seen_w s)) < max_workspaces_per_user
     \<and> wcr_slug res = command_slug cmd \<and> wcr_id res = ulid"
  using assms
  by (auto simp: create_workspace_handle_def Let_def dest!: create_ok owned_got
        split: if_splits prod.splits sum.splits option.splits)

lemma create_handle_Inl:
  assumes "create_workspace_handle repo now ulid cmd s = (Inl e, s')"
  shows "wss s' = wss s \<and> mems s' = mems s"
  using assms
  by (auto simp: create_workspace_handle_def Let_def dest!: create_err count_frame
        split: if_splits prod.splits sum.splits option.splits)

lemma add_handle_Inr:
  assumes "add_member_handle mrepo now cmd s = (Inr res, s')"
  shows "wss s' = wss s \<and> mems s' = mems s @ [row_m (new_member now cmd)]
     \<and> role_is_valid (am_role cmd) \<and> am_role cmd \<noteq> role_owner
     \<and> (\<exists>m \<in> set (seen_m s). m_workspace_id m = am_workspace_id cmd \<and> m_user_id m = am_requesting_user_id cmd
          \<and> role_can (m_role m) action_manage_members)
     \<and> (\<forall>m \<in> set (mems s). \<not> (m_workspace_id m = am_workspace_id cmd \<and> m_user_id m = am_invited_user_id cmd))"
  using assms
  by (auto simp: add_member_handle_def Let_def dest!: add_ok member_got
        split: if_splits prod.splits sum.splits option.splits)

lemma add_handle_Inl:
  assumes "add_member_handle mrepo now cmd s = (Inl e, s')"
  shows "wss s' = wss s \<and> mems s' = mems s"
  using assms
  by (auto simp: add_member_handle_def Let_def dest!: add_err member_frame
        split: if_splits prod.splits sum.splits option.splits)

lemma get_handle_Inr:
  assumes "get_workspace_handle repo mrepo ws uid s = (Inr res, s')"
  shows "(\<exists>m \<in> set (seen_m s). m_workspace_id m = ws \<and> m_user_id m = uid \<and> wg_user_role res = m_role m)
     \<and> (\<exists>w \<in> set (seen_w s). w_id w = ws \<and> wg_id res = ws)"
  using assms
  by (fastforce simp: get_workspace_handle_def dest!: member_got id_ok
        split: prod.splits sum.splits if_splits)

lemma list_roles_frame: "wss (snd (list_roles mrepo uid ws s)) = wss s \<and> mems (snd (list_roles mrepo uid ws s)) = mems s"
proof (induction ws arbitrary: s)
  case (Cons w ws)
  obtain r s1 where g: "mr_get_member mrepo (w_id w) uid s = (r, s1)" by fastforce
  with member_frame [OF g] Cons [of s1] show ?case by (cases r) (auto split: prod.splits)
qed simp

lemma members_handle_Inr:
  assumes "list_members_handle mrepo ws uid s = (Inr res, s')"
  shows "(\<exists>m \<in> set (seen_m s). m_workspace_id m = ws \<and> m_user_id m = uid \<and> role_is_valid (m_role m))
     \<and> set res = to_member_result ` {m \<in> set (seen_m s). m_workspace_id m = ws}"
  using assms
  by (fastforce simp: list_members_handle_def view_members_roles dest!: member_got members_ok
        split: prod.splits sum.splits if_splits)

lemma read_frames:
  "get_workspace_handle repo mrepo ws uid s = (rg, s') \<Longrightarrow> wss s' = wss s \<and> mems s' = mems s"
  "list_workspaces_handle repo mrepo uid s = (rl, s') \<Longrightarrow> wss s' = wss s \<and> mems s' = mems s"
  "list_members_handle mrepo ws uid s = (rm, s') \<Longrightarrow> wss s' = wss s \<and> mems s' = mems s"
proof -
  show "get_workspace_handle repo mrepo ws uid s = (rg, s') \<Longrightarrow> wss s' = wss s \<and> mems s' = mems s"
    by (auto simp: get_workspace_handle_def dest!: member_frame id_frame split: prod.splits sum.splits)
  show "list_members_handle mrepo ws uid s = (rm, s') \<Longrightarrow> wss s' = wss s \<and> mems s' = mems s"
    by (auto simp: list_members_handle_def dest!: member_frame members_frame split: prod.splits sum.splits if_splits)
  show "wss s' = wss s \<and> mems s' = mems s" if l: "list_workspaces_handle repo mrepo uid s = (rl, s')"
  proof -
    obtain r s1 where u: "ws_list_for_user repo uid s = (r, s1)" by fastforce
    with l have "s' = s1 \<or> (\<exists>ws. s' = snd (list_roles mrepo uid ws s1))"
      by (cases r) (auto simp: list_workspaces_handle_def split: prod.splits, metis snd_conv)
    with user_frame [OF u] list_roles_frame show ?thesis by auto
  qed
qed

lemma create_keeps_owners:
  assumes "owners_ok (wss s) (mems s)" and "create_workspace_handle repo now ulid cmd s = (r, s')"
  shows "owners_ok (wss s') (mems s')"
proof (cases r)
  case (Inl e)
  with assms create_handle_Inl show ?thesis by simp
next
  case (Inr res)
  with assms(2) create_handle_Inr [of now ulid cmd s res s'] have
    "wss s' = wss s @ [row_w (new_workspace now ulid cmd)]" "mems s' = mems s @ [row_m (new_owner now ulid cmd)]"
    "ulid \<notin> w_id ` set (wss s)" by simp_all
  with assms(1) show ?thesis
    by (auto simp: owners_ok_def row_w row_m)
qed

lemma add_keeps_owners:
  assumes "owners_ok (wss s) (mems s)" and "add_member_handle mrepo now cmd s = (r, s')"
  shows "owners_ok (wss s') (mems s')"
proof (cases r)
  case (Inl e)
  with assms add_handle_Inl show ?thesis by simp
next
  case (Inr res)
  with assms(2) add_handle_Inr [of now cmd s res s'] have
    "wss s' = wss s" "mems s' = mems s @ [row_m (new_member now cmd)]" "am_role cmd \<noteq> role_owner" by simp_all
  with assms(1) show ?thesis by (auto simp: owners_ok_def row_m)
qed

text \<open>With readers that see the primary, nobody comes to own more than five.\<close>

lemma create_keeps_limit:
  assumes "seen_w s = wss s" and "\<forall>u. length (filter (\<lambda>w. w_owner_id w = u) (wss s)) \<le> max_workspaces_per_user"
    and "create_workspace_handle repo now ulid cmd s = (r, s')"
  shows "length (filter (\<lambda>w. w_owner_id w = u) (wss s')) \<le> max_workspaces_per_user"
proof (cases r)
  case (Inl e)
  with assms create_handle_Inl show ?thesis by simp
next
  case (Inr res)
  with assms(1,3) create_handle_Inr [of now ulid cmd s res s'] have
    "wss s' = wss s @ [row_w (new_workspace now ulid cmd)]"
    "length (filter (\<lambda>w. w_owner_id w = wc_owner_id cmd) (wss s)) < max_workspaces_per_user" by simp_all
  with assms(2) show ?thesis by (auto simp: row_w)
qed

end

end
