(* ===== verification/WorkspaceRepo.thy ===== *)
theory WorkspaceRepo
  imports WorkspaceApp Postgres
begin

text \<open>
  \<open>internal/infrastructure/postgres/workspace_repository.go\<close> over the tables \<open>workspaces\<close> and
  \<open>workspace_members\<close> of \<open>deployments/migrations/000002_create_workspaces.up.sql\<close>. The creation of a
  workspace is a transaction: its statements work on a copy of the tables that replaces the primary at the
  commit, and any failure before it rolls back. Reads use the replica when there is one.
\<close>

record ws_tables =
  t_workspaces :: "workspace list"
  t_members :: "member list"

record ws_db =
  wdb_primary :: ws_tables
  wdb_replica :: "ws_tables option"
  wdb_faults :: faults

definition ws_view :: "ws_db \<Rightarrow> ws_tables" where
  "ws_view db = (case wdb_replica db of None \<Rightarrow> wdb_primary db | Some t \<Rightarrow> t)"

text \<open>A replica that has caught up.\<close>

definition replicate_ws :: "ws_db \<Rightarrow> ws_db" where
  "replicate_ws db = db\<lparr>wdb_replica := map_option (\<lambda>_. wdb_primary db) (wdb_replica db)\<rparr>"

section \<open>Error translation\<close>

text \<open>\<open>containsString\<close> and \<open>containsAt\<close> are \<open>strings.Contains\<close> written out.\<close>

definition is_constraint_error :: "pgx_err \<Rightarrow> string \<Rightarrow> bool" where
  "is_constraint_error e con = str_contains (pgx_err_text e) con"

definition translate_workspace_error :: "pgx_err \<Rightarrow> gerr" where
  "translate_workspace_error e =
     (if e = PgxNoRows then EWs WsErrNotFound
      else if is_constraint_error e ''workspaces_slug_unique'' then EWs WsErrSlugConflict
      else if is_constraint_error e ''workspaces_name_unique'' then EWs WsErrNameConflict
      else if is_constraint_error e ''workspace_members_pkey'' then EWs WsErrMemberAlreadyExists
      else translate_error e ''workspace'')"

section \<open>Statements\<close>

definition pg_workspace :: "workspace \<Rightarrow> workspace" where
  "pg_workspace w = w\<lparr>w_created_at := pg_time (w_created_at w), w_updated_at := pg_time (w_updated_at w)\<rparr>"

text \<open>An empty \<open>invited_by\<close> is stored as \<open>NULL\<close> and read back as the empty string.\<close>

definition pg_member :: "member \<Rightarrow> member" where
  "pg_member m = m\<lparr>m_joined_at := pg_time (m_joined_at m)\<rparr>"

text \<open>The check constraints, by name.\<close>

definition workspace_row_checks :: "workspace \<Rightarrow> pgx_err option" where
  "workspace_row_checks w =
     (if char_length (w_name w) < 1 \<or> char_length (w_name w) > 100
      then Some (PgxError pg_check_violation ''workspaces_name_length'' [])
      else if w_plan_tier w \<notin> set plan_tiers
      then Some (PgxError pg_check_violation ''workspaces_plan_tier_check'' [])
      else if \<not> (slug_matches (w_slug w) \<and> length (w_slug w) \<ge> 2 \<or> char_length (w_slug w) = 1)
      then Some (PgxError pg_check_violation ''workspaces_slug_format'' [])
      else if char_length (w_slug w) < 1 \<or> char_length (w_slug w) > 63
      then Some (PgxError pg_check_violation ''workspaces_slug_length'' [])
      else None)"

definition insert_workspace :: "workspace \<Rightarrow> ws_tables \<Rightarrow> pgx_err + ws_tables" where
  "insert_workspace w t =
     (case workspace_row_checks w of
        Some e \<Rightarrow> Inl e
      | None \<Rightarrow>
          if w_id w \<in> w_id ` set (t_workspaces t) then Inl (PgxError pg_unique_violation ''workspaces_pkey'' [])
          else if w_name w \<in> w_name ` set (t_workspaces t)
          then Inl (PgxError pg_unique_violation ''workspaces_name_unique'' [])
          else if w_slug w \<in> w_slug ` set (t_workspaces t)
          then Inl (PgxError pg_unique_violation ''workspaces_slug_unique'' [])
          else Inr (t\<lparr>t_workspaces := t_workspaces t @ [pg_workspace w]\<rparr>))"

definition member_key :: "member \<Rightarrow> string \<times> string" where
  "member_key m = (m_workspace_id m, m_user_id m)"

definition insert_member :: "member \<Rightarrow> ws_tables \<Rightarrow> pgx_err + ws_tables" where
  "insert_member m t =
     (if \<not> role_is_valid (m_role m) then Inl (PgxError pg_check_violation ''workspace_members_role_check'' [])
      else if member_key m \<in> member_key ` set (t_members t)
      then Inl (PgxError pg_unique_violation ''workspace_members_pkey'' [])
      else if m_workspace_id m \<notin> w_id ` set (t_workspaces t)
      then Inl (PgxError pg_foreign_key_violation ''workspace_members_workspace_fk'' [])
      else Inr (t\<lparr>t_members := t_members t @ [pg_member m]\<rparr>))"

text \<open>A statement on given tables that may fail in the driver.\<close>

definition run_stmt :: "(ws_tables \<Rightarrow> pgx_err + ws_tables) \<Rightarrow> ws_tables \<Rightarrow> faults \<Rightarrow> (pgx_err + ws_tables) \<times> faults" where
  "run_stmt f t fs = (case next_fault fs of (Some e, fs') \<Rightarrow> (Inl e, fs') | (None, fs') \<Rightarrow> (f t, fs'))"

text \<open>A query on the replica.\<close>

definition run_query :: "(ws_tables \<Rightarrow> pgx_err + 'a) \<Rightarrow> ws_db \<Rightarrow> (pgx_err + 'a) \<times> ws_db" where
  "run_query q db =
     (case next_fault (wdb_faults db) of
        (Some e, fs) \<Rightarrow> (Inl e, db\<lparr>wdb_faults := fs\<rparr>)
      | (None, fs) \<Rightarrow> (q (ws_view db), db\<lparr>wdb_faults := fs\<rparr>))"

definition first_row :: "'a option \<Rightarrow> pgx_err + 'a" where
  "first_row r = (case r of None \<Rightarrow> Inl PgxNoRows | Some x \<Rightarrow> Inr x)"

definition map_err :: "('e \<Rightarrow> gerr) \<Rightarrow> ('e + 'a) \<times> 's \<Rightarrow> 'a result \<times> 's" where
  "map_err f r = (case r of (Inl e, s) \<Rightarrow> (Inl (f e), s) | (Inr x, s) \<Rightarrow> (Inr x, s))"

text \<open>\<open>fmt.Errorf("pre: %w", err)\<close> around a driver error.\<close>

definition pg_wrap :: "string \<Rightarrow> pgx_err \<Rightarrow> gerr" where
  "pg_wrap pre e = EWrap pre (EOther (pgx_err_text e)) []"

section \<open>Workspace operations\<close>

definition ws_repo_create :: "workspace \<Rightarrow> member \<Rightarrow> ws_db \<Rightarrow> unit result \<times> ws_db" where
  "ws_repo_create w m db =
     (case next_fault (wdb_faults db) of
        (Some e, fs) \<Rightarrow> (Inl (pg_wrap ''beginning transaction: '' e), db\<lparr>wdb_faults := fs\<rparr>)
      | (None, fs) \<Rightarrow>
     (case run_stmt (insert_workspace w) (wdb_primary db) fs of
        (Inl e, fs) \<Rightarrow> (Inl (translate_workspace_error e), db\<lparr>wdb_faults := fs\<rparr>)
      | (Inr t, fs) \<Rightarrow>
     (case run_stmt (insert_member m) t fs of
        (Inl e, fs) \<Rightarrow> (Inl (translate_workspace_error e), db\<lparr>wdb_faults := fs\<rparr>)
      | (Inr t, fs) \<Rightarrow>
     (case next_fault fs of
        (Some e, fs) \<Rightarrow> (Inl (pg_wrap ''committing workspace creation: '' e), db\<lparr>wdb_faults := fs\<rparr>)
      | (None, fs) \<Rightarrow> (Inr (), db\<lparr>wdb_primary := t, wdb_faults := fs\<rparr>)))))"

definition ws_repo_get_by_id :: "string \<Rightarrow> ws_db \<Rightarrow> workspace result \<times> ws_db" where
  "ws_repo_get_by_id i db =
     map_err translate_workspace_error
       (run_query (\<lambda>t. first_row (List.find (\<lambda>w. w_id w = i) (t_workspaces t))) db)"

definition ws_repo_get_by_slug :: "string \<Rightarrow> ws_db \<Rightarrow> workspace result \<times> ws_db" where
  "ws_repo_get_by_slug sl db =
     map_err translate_workspace_error
       (run_query (\<lambda>t. first_row (List.find (\<lambda>w. w_slug w = sl) (t_workspaces t))) db)"

text \<open>The join has a row for every workspace and membership that match; newest workspace first.\<close>

definition workspaces_of :: "string \<Rightarrow> ws_tables \<Rightarrow> workspace list" where
  "workspaces_of uid t =
     sort_key (\<lambda>w. - w_created_at w)
       [w. w \<leftarrow> t_workspaces t, m \<leftarrow> t_members t, m_workspace_id m = w_id w \<and> m_user_id m = uid]"

definition ws_repo_list_for_user :: "string \<Rightarrow> ws_db \<Rightarrow> workspace list result \<times> ws_db" where
  "ws_repo_list_for_user uid db =
     map_err (pg_wrap ''querying workspaces for user: '') (run_query (\<lambda>t. Inr (workspaces_of uid t)) db)"

definition owned_count :: "string \<Rightarrow> ws_tables \<Rightarrow> nat" where
  "owned_count uid t = length (filter (\<lambda>w. w_owner_id w = uid) (t_workspaces t))"

definition ws_repo_count_owned :: "string \<Rightarrow> ws_db \<Rightarrow> nat result \<times> ws_db" where
  "ws_repo_count_owned uid db =
     map_err (pg_wrap ''counting owned workspaces: '') (run_query (\<lambda>t. Inr (owned_count uid t)) db)"

section \<open>Member operations\<close>

text \<open>A statement on the primary outside a transaction.\<close>

definition exec_primary :: "(ws_tables \<Rightarrow> pgx_err + ws_tables) \<Rightarrow> ws_db \<Rightarrow> (pgx_err + unit) \<times> ws_db" where
  "exec_primary f db =
     (case run_stmt f (wdb_primary db) (wdb_faults db) of
        (Inl e, fs) \<Rightarrow> (Inl e, db\<lparr>wdb_faults := fs\<rparr>)
      | (Inr t, fs) \<Rightarrow> (Inr (), db\<lparr>wdb_primary := t, wdb_faults := fs\<rparr>))"

definition ws_repo_add_member :: "member \<Rightarrow> ws_db \<Rightarrow> unit result \<times> ws_db" where
  "ws_repo_add_member m db = map_err translate_workspace_error (exec_primary (insert_member m) db)"

definition find_member :: "string \<Rightarrow> string \<Rightarrow> ws_tables \<Rightarrow> member option" where
  "find_member ws uid t = List.find (\<lambda>m. m_workspace_id m = ws \<and> m_user_id m = uid) (t_members t)"

definition ws_repo_get_member :: "string \<Rightarrow> string \<Rightarrow> ws_db \<Rightarrow> member result \<times> ws_db" where
  "ws_repo_get_member ws uid db =
     map_err (\<lambda>e. if e = PgxNoRows then EWs WsErrMemberNotFound else pg_wrap ''getting member: '' e)
       (run_query (\<lambda>t. first_row (find_member ws uid t)) db)"

definition members_of :: "string \<Rightarrow> ws_tables \<Rightarrow> member list" where
  "members_of ws t = sort_key m_joined_at (filter (\<lambda>m. m_workspace_id m = ws) (t_members t))"

definition ws_repo_list_members :: "string \<Rightarrow> ws_db \<Rightarrow> member list result \<times> ws_db" where
  "ws_repo_list_members ws db =
     map_err (pg_wrap ''listing members: '') (run_query (\<lambda>t. Inr (members_of ws t)) db)"

text \<open>The row of a member, for the statements that address it.\<close>

definition is_member_row :: "string \<Rightarrow> string \<Rightarrow> member \<Rightarrow> bool" where
  "is_member_row ws uid m = (m_workspace_id m = ws \<and> m_user_id m = uid)"

definition update_role_rows :: "string \<Rightarrow> string \<Rightarrow> role \<Rightarrow> ws_tables \<Rightarrow> pgx_err + ws_tables" where
  "update_role_rows ws uid r t =
     (if \<not> role_is_valid r \<and> (\<exists>m \<in> set (t_members t). is_member_row ws uid m)
      then Inl (PgxError pg_check_violation ''workspace_members_role_check'' [])
      else Inr (t\<lparr>t_members := map (\<lambda>m. if is_member_row ws uid m then m\<lparr>m_role := r\<rparr> else m) (t_members t)\<rparr>))"

definition remove_rows :: "string \<Rightarrow> string \<Rightarrow> ws_tables \<Rightarrow> pgx_err + ws_tables" where
  "remove_rows ws uid t = Inr (t\<lparr>t_members := filter (\<lambda>m. \<not> is_member_row ws uid m) (t_members t)\<rparr>)"

text \<open>No row affected is \<open>ErrMemberNotFound\<close>.\<close>

definition member_write ::
  "string \<Rightarrow> string \<Rightarrow> string \<Rightarrow> (ws_tables \<Rightarrow> pgx_err + ws_tables) \<Rightarrow> ws_db \<Rightarrow> unit result \<times> ws_db" where
  "member_write ctx ws uid f db =
     (case exec_primary f db of
        (Inl e, db') \<Rightarrow> (Inl (pg_wrap ctx e), db')
      | (Inr _, db') \<Rightarrow>
          (if \<exists>m \<in> set (t_members (wdb_primary db)). is_member_row ws uid m then (Inr (), db')
           else (Inl (EWs WsErrMemberNotFound), db')))"

definition ws_repo_update_role :: "string \<Rightarrow> string \<Rightarrow> role \<Rightarrow> ws_db \<Rightarrow> unit result \<times> ws_db" where
  "ws_repo_update_role ws uid r db = member_write ''updating role: '' ws uid (update_role_rows ws uid r) db"

definition ws_repo_remove_member :: "string \<Rightarrow> string \<Rightarrow> ws_db \<Rightarrow> unit result \<times> ws_db" where
  "ws_repo_remove_member ws uid db = member_write ''removing member: '' ws uid (remove_rows ws uid) db"

text \<open>\<open>WorkspaceRepository\<close> implements both ports.\<close>

definition pg_workspaces :: "ws_db workspace_repository" where
  "pg_workspaces =
     \<lparr>ws_create = ws_repo_create, ws_get_by_id = ws_repo_get_by_id, ws_get_by_slug = ws_repo_get_by_slug,
      ws_list_for_user = ws_repo_list_for_user, ws_count_owned = ws_repo_count_owned\<rparr>"

definition pg_members :: "ws_db member_repository" where
  "pg_members =
     \<lparr>mr_add_member = ws_repo_add_member, mr_get_member = ws_repo_get_member,
      mr_list_members = ws_repo_list_members, mr_update_role = ws_repo_update_role,
      mr_remove_member = ws_repo_remove_member\<rparr>"

section \<open>The repository meets its contract\<close>

lemma map_err_simps [simp]:
  "map_err f (Inl e, s) = (Inl (f e), s)" "map_err f (Inr x, s) = (Inr x, s)"
  by (simp_all add: map_err_def)

lemma map_err_Inr [simp]: "map_err f r = (Inr x, s') \<longleftrightarrow> r = (Inr x, s')"
  by (cases r; cases "fst r") auto

lemma map_err_Inl: "map_err f r = (Inl e, s') \<longleftrightarrow> (\<exists>x. r = (Inl x, s') \<and> e = f x)"
  by (cases r; cases "fst r") auto

lemma snd_map_err [simp]: "snd (map_err f r) = snd r"
  by (cases r; cases "fst r") auto

lemma run_query_frame:
  "snd (run_query q db) = db\<lparr>wdb_faults := snd (next_fault (wdb_faults db))\<rparr>"
  by (simp add: run_query_def split: prod.split option.split)

lemma query_frame:
  "map_err f (run_query q db) = (r, db') \<Longrightarrow> wdb_primary db' = wdb_primary db \<and> ws_view db' = ws_view db"
  using run_query_frame [of q db] snd_map_err [of f "run_query q db"]
  by (auto simp: ws_view_def split: option.split)

lemma run_query_Inr: "run_query q db = (Inr x, db') \<Longrightarrow> q (ws_view db) = Inr x"
  by (auto simp: run_query_def split: prod.splits option.splits)

lemma first_row_simps [simp]:
  "first_row r = Inr x \<longleftrightarrow> r = Some x" "first_row r = Inl e \<longleftrightarrow> r = None \<and> e = PgxNoRows"
  by (auto simp: first_row_def split: option.splits)

lemma run_stmt_Inr: "run_stmt f t fs = (Inr t', fs') \<Longrightarrow> f t = Inr t'"
  by (auto simp: run_stmt_def split: prod.splits option.splits)

lemma insert_workspace_Inr:
  "insert_workspace w t = Inr t' \<longleftrightarrow>
     workspace_row_checks w = None \<and> w_id w \<notin> w_id ` set (t_workspaces t) \<and> w_name w \<notin> w_name ` set (t_workspaces t)
     \<and> w_slug w \<notin> w_slug ` set (t_workspaces t) \<and> t' = t\<lparr>t_workspaces := t_workspaces t @ [pg_workspace w]\<rparr>"
  by (auto simp: insert_workspace_def split: option.splits)

lemma insert_member_Inr:
  "insert_member m t = Inr t' \<longleftrightarrow>
     role_is_valid (m_role m) \<and> member_key m \<notin> member_key ` set (t_members t)
     \<and> m_workspace_id m \<in> w_id ` set (t_workspaces t) \<and> t' = t\<lparr>t_members := t_members t @ [pg_member m]\<rparr>"
  by (auto simp: insert_member_def)

text \<open>The transaction: both rows and the commit, or nothing.\<close>

lemma ws_repo_create_Inr:
  assumes "ws_repo_create w m db = (Inr v, db')"
  obtains t where "insert_workspace w (wdb_primary db) = Inr t" "insert_member m t = Inr (wdb_primary db')"
    "wdb_replica db' = wdb_replica db"
  using assms by (auto simp: ws_repo_create_def split: prod.splits option.splits sum.splits dest!: run_stmt_Inr)

lemma ws_repo_create_Inl:
  "ws_repo_create w m db = (Inl e, db') \<Longrightarrow> wdb_primary db' = wdb_primary db \<and> wdb_replica db' = wdb_replica db"
  by (auto simp: ws_repo_create_def split: prod.splits option.splits sum.splits)

lemma exec_primary_Inr: "exec_primary f db = (Inr v, db') \<Longrightarrow> f (wdb_primary db) = Inr (wdb_primary db')"
  by (auto simp: exec_primary_def split: prod.splits sum.splits dest!: run_stmt_Inr)

lemma exec_primary_Inl: "exec_primary f db = (Inl e, db') \<Longrightarrow> wdb_primary db' = wdb_primary db"
  by (auto simp: exec_primary_def split: prod.splits sum.splits)

lemma find_member_Some:
  "find_member ws uid t = Some m \<Longrightarrow> m \<in> set (t_members t) \<and> m_workspace_id m = ws \<and> m_user_id m = uid"
  by (auto simp: find_member_def dest: find_Some)

lemma find_member_None:
  "find_member ws uid t = None \<longleftrightarrow> (\<forall>m \<in> set (t_members t). \<not> (m_workspace_id m = ws \<and> m_user_id m = uid))"
  by (auto simp: find_member_def find_None_iff)

interpretation pg_ws: workspace_store pg_workspaces pg_members
  "\<lambda>db. t_workspaces (wdb_primary db)" "\<lambda>db. t_workspaces (ws_view db)"
  "\<lambda>db. t_members (wdb_primary db)" "\<lambda>db. t_members (ws_view db)" pg_workspace pg_member
proof unfold_locales
  fix w m v and db db' :: ws_db
  assume "ws_create pg_workspaces w m db = (Inr v, db')"
  then obtain t where "insert_workspace w (wdb_primary db) = Inr t" "insert_member m t = Inr (wdb_primary db')"
    by (auto simp: pg_workspaces_def elim: ws_repo_create_Inr)
  then show "t_workspaces (wdb_primary db') = t_workspaces (wdb_primary db) @ [pg_workspace w] \<and>
      t_members (wdb_primary db') = t_members (wdb_primary db) @ [pg_member m] \<and>
      w_id w \<notin> w_id ` set (t_workspaces (wdb_primary db))"
    by (auto simp: insert_workspace_Inr insert_member_Inr)
next
  fix w m r and db db' :: ws_db
  assume c: "ws_create pg_workspaces w m db = (r, db')"
  then have "wdb_replica db' = wdb_replica db"
    by (cases r) (auto simp: pg_workspaces_def dest: ws_repo_create_Inl elim!: ws_repo_create_Inr)
  then show "t_workspaces (ws_view db') = t_workspaces (ws_view db) \<and> t_members (ws_view db') = t_members (ws_view db) \<or>
      t_workspaces (ws_view db') = t_workspaces (wdb_primary db') \<and> t_members (ws_view db') = t_members (wdb_primary db')"
    by (cases "wdb_replica db") (auto simp: ws_view_def)
next
  fix m v and db db' :: ws_db
  assume "mr_add_member pg_members m db = (Inr v, db')"
  then have "insert_member m (wdb_primary db) = Inr (wdb_primary db')"
    by (auto simp: pg_members_def ws_repo_add_member_def dest: exec_primary_Inr)
  then show "t_workspaces (wdb_primary db') = t_workspaces (wdb_primary db) \<and>
      t_members (wdb_primary db') = t_members (wdb_primary db) @ [pg_member m] \<and>
      (\<forall>x \<in> set (t_members (wdb_primary db)). \<not> (m_workspace_id x = m_workspace_id m \<and> m_user_id x = m_user_id m))"
    by (auto simp: insert_member_Inr member_key_def image_iff)
next
  fix ws uid m and db db' :: ws_db
  assume "mr_get_member pg_members ws uid db = (Inr m, db')"
  then show "m \<in> set (t_members (ws_view db)) \<and> m_workspace_id m = ws \<and> m_user_id m = uid"
    by (auto simp: pg_members_def ws_repo_get_member_def dest!: run_query_Inr dest: find_member_Some)
next
  fix i w and db db' :: ws_db
  assume "ws_get_by_id pg_workspaces i db = (Inr w, db')"
  then show "w \<in> set (t_workspaces (ws_view db)) \<and> w_id w = i"
    by (auto simp: pg_workspaces_def ws_repo_get_by_id_def dest!: run_query_Inr dest: find_Some)
next
  fix ws ms and db db' :: ws_db
  assume "mr_list_members pg_members ws db = (Inr ms, db')"
  then show "set ms = {m \<in> set (t_members (ws_view db)). m_workspace_id m = ws}"
    by (auto simp: pg_members_def ws_repo_list_members_def members_of_def dest!: run_query_Inr)
next
  fix uid n and db db' :: ws_db
  assume "ws_count_owned pg_workspaces uid db = (Inr n, db')"
  then show "n = length (filter (\<lambda>w. w_owner_id w = uid) (t_workspaces (ws_view db)))"
    by (auto simp: pg_workspaces_def ws_repo_count_owned_def owned_count_def dest!: run_query_Inr)
qed (auto simp: pg_workspaces_def pg_members_def pg_workspace_def pg_member_def ws_repo_add_member_def
       ws_repo_get_member_def ws_repo_list_members_def ws_repo_count_owned_def ws_repo_get_by_id_def
       ws_repo_list_for_user_def map_err_Inl dest: ws_repo_create_Inl query_frame exec_primary_Inl)

end
