(* ===== verification/WorkspaceSystem.thy ===== *)
theory WorkspaceSystem
  imports WorkspaceRepo
begin

text \<open>
  Workspaces as the API serves them: the use cases on the PostgreSQL model, interleaved with the replica
  catching up and with failures of the database, from the tables the migrations leave behind. The
  properties of the component follow.
\<close>

section \<open>The system\<close>

text \<open>The rows the migration seeds.\<close>

definition seed_workspace :: "gotime \<Rightarrow> workspace" where
  "seed_workspace t = \<lparr>w_id = ''ws_default'', w_name = ''Default Workspace'', w_slug = ''default'',
     w_plan_tier = ''free'', w_owner_id = ''usr_default'', w_created_at = t, w_updated_at = t\<rparr>"

definition seed_member :: "gotime \<Rightarrow> member" where
  "seed_member t = \<lparr>m_workspace_id = ''ws_default'', m_user_id = ''usr_default'', m_role = role_owner,
     m_invited_by = [], m_joined_at = t\<rparr>"

definition seed_db :: "bool \<Rightarrow> gotime \<Rightarrow> ws_db" where
  "seed_db with_replica t =
     (let tables = \<lparr>t_workspaces = [seed_workspace t], t_members = [seed_member t]\<rparr> in
      \<lparr>wdb_primary = tables, wdb_replica = (if with_replica then Some tables else None), wdb_faults = []\<rparr>)"

inductive ws_step :: "ws_db \<Rightarrow> ws_db \<Rightarrow> bool" where
  create: "create_workspace_handle pg_workspaces now ulid cmd db = (r, db') \<Longrightarrow> ws_step db db'"
| get: "get_workspace_handle pg_workspaces pg_members ws uid db = (rg, db') \<Longrightarrow> ws_step db db'"
| list: "list_workspaces_handle pg_workspaces pg_members uid db = (rl, db') \<Longrightarrow> ws_step db db'"
| add: "add_member_handle pg_members now acmd db = (ra, db') \<Longrightarrow> ws_step db db'"
| members: "list_members_handle pg_members ws uid db = (rm, db') \<Longrightarrow> ws_step db db'"
| replicate: "ws_step db (replicate_ws db)"
| faults: "ws_step db (db\<lparr>wdb_faults := fs\<rparr>)"

inductive ws_reachable :: "ws_db \<Rightarrow> ws_db \<Rightarrow> bool" for db0 where
  start: "ws_reachable db0 db0"
| more: "ws_reachable db0 db \<Longrightarrow> ws_step db db' \<Longrightarrow> ws_reachable db0 db'"

inductive_cases ws_stepE: "ws_step db db'"

abbreviation db_owners_ok :: "ws_db \<Rightarrow> bool" where
  "db_owners_ok db \<equiv> owners_ok (t_workspaces (wdb_primary db)) (t_members (wdb_primary db))"

lemma owners_step: "ws_step db db' \<Longrightarrow> db_owners_ok db \<Longrightarrow> db_owners_ok db'"
proof (erule ws_stepE, goal_cases create get list add members replicate faults)
  case (create now ulid cmd r)
  then show ?case by (auto intro: pg_ws.create_keeps_owners)
next
  case (add now acmd ra)
  then show ?case by (auto intro: pg_ws.add_keeps_owners)
qed (auto dest!: pg_ws.read_frames simp: replicate_ws_def)

lemma seed_owners_ok: "db_owners_ok (seed_db b t)"
  by (simp add: seed_db_def owners_ok_def seed_workspace_def seed_member_def Let_def)

text \<open>C11: In every state the API can reach from a migrated database, whatever the interleaving with the
  replica and whatever statement fails, every workspace has its owner among its members with the owner's
  role, nobody else holds that role in it, and ids are unique: the creation is atomic and invitations
  cannot hand out ownership.\<close>

theorem workspaces_keep_their_owner:
  assumes "ws_reachable (seed_db with_replica t) db"
  shows "owners_ok (t_workspaces (wdb_primary db)) (t_members (wdb_primary db))"
  using assms by (induction rule: ws_reachable.induct) (auto simp: seed_owners_ok intro: owners_step)

lemma seed_reach: "ws_step (seed_db b t) db \<Longrightarrow> ws_reachable (seed_db b t) db"
  by (rule ws_reachable.more [OF ws_reachable.start])

section \<open>A deployment to evaluate on\<close>

definition demo_create :: "string \<Rightarrow> ws_create_command" where
  "demo_create n = \<lparr>wc_name = n, wc_slug = [], wc_owner_id = ''u1''\<rparr>"

definition demo_add :: "string \<Rightarrow> string \<Rightarrow> string \<Rightarrow> add_member_command" where
  "demo_add by_user invited r = \<lparr>am_workspace_id = ''ws_default'', am_invited_user_id = invited, am_role = r,
     am_requesting_user_id = by_user\<rparr>"

definition run_create :: "string \<Rightarrow> ws_db \<Rightarrow> ws_db" where
  "run_create n db = snd (create_workspace_handle pg_workspaces 0 n (demo_create n) db)"

lemma run_create_step: "ws_step db (run_create n db)"
  by (rule ws_step.create [of 0 n "demo_create n" db "fst (create_workspace_handle pg_workspaces 0 n (demo_create n) db)"])
     (simp add: run_create_def)

theorem workspaces_keep_their_owner_witness:
  "owners_ok (t_workspaces (wdb_primary (run_create ''a'' (seed_db True 0))))
     (t_members (wdb_primary (run_create ''a'' (seed_db True 0))))"
  by (rule workspaces_keep_their_owner [of True 0, OF seed_reach [OF run_create_step]])

section \<open>Membership\<close>

text \<open>C12: AddMember changes the tables only by one membership, of the invited user in the requested
  workspace, and only when the requesting user is, in the database the reader sees, an owner or admin of
  that workspace and the role asked for is admin, editor or viewer; in every other case, the database's
  failures included, both tables stay as they are.\<close>

theorem add_member_authorised:
  "(case add_member_handle pg_members now cmd db of
      (Inl e, db') \<Rightarrow> wdb_primary db' = wdb_primary db
    | (Inr res, db') \<Rightarrow>
        am_role cmd \<in> {role_admin, role_editor, role_viewer}
        \<and> (\<exists>m \<in> set (t_members (ws_view db)). m_workspace_id m = am_workspace_id cmd
             \<and> m_user_id m = am_requesting_user_id cmd \<and> m_role m \<in> {role_owner, role_admin})
        \<and> wdb_primary db' = (wdb_primary db)\<lparr>t_members := t_members (wdb_primary db) @ [pg_member (new_member now cmd)]\<rparr>)"
proof (cases "add_member_handle pg_members now cmd db")
  case (Pair r db')
  show ?thesis
  proof (cases r)
    case (Inl e)
    with Pair pg_ws.add_handle_Inl [of now cmd db e db'] show ?thesis
      by (cases "wdb_primary db"; cases "wdb_primary db'") auto
  next
    case (Inr res)
    with Pair pg_ws.add_handle_Inr [of now cmd db res db'] show ?thesis
      by (cases "wdb_primary db"; cases "wdb_primary db'")
         (auto simp: manage_members_roles role_is_valid_def)
  qed
qed

text \<open>Whoever is not a member learns nothing from GetWorkspace: the answer is the same for a workspace
  that exists and for an id nobody uses, and it leaves the tables unread and unchanged.\<close>

theorem get_workspace_hides_existence:
  assumes "\<forall>m \<in> set (t_members (ws_view db)). \<not> (m_workspace_id m = ws \<and> m_user_id m = uid)"
    and "wdb_faults db = []"
  shows "get_workspace_handle pg_workspaces pg_members ws uid db = (Inl (EWs WsErrNotMember), db)"
proof -
  have "find_member ws uid (ws_view db) = None" using assms(1) by (simp add: find_member_None)
  moreover have "db\<lparr>wdb_faults := []\<rparr> = db" using assms(2) by simp
  ultimately show ?thesis
    using assms(2)
    by (simp add: get_workspace_handle_def pg_members_def ws_repo_get_member_def run_query_def first_row_def
          err_class_defs)
qed

theorem get_workspace_hides_existence_witness:
  "get_workspace_handle pg_workspaces pg_members ''ws_default'' ''eve'' (seed_db True 0)
     = (Inl (EWs WsErrNotMember), seed_db True 0)"
  by (rule get_workspace_hides_existence) (simp_all add: seed_db_def ws_view_def seed_member_def Let_def)


section \<open>The limit of workspaces\<close>

text \<open>The database of a deployment without a replica: readers see every write.\<close>

definition no_replica :: "ws_db \<Rightarrow> bool" where
  "no_replica db = (wdb_replica db = None)"

lemma no_replica_view: "no_replica db \<Longrightarrow> ws_view db = wdb_primary db"
  by (simp add: no_replica_def ws_view_def)

abbreviation within_limit :: "ws_db \<Rightarrow> bool" where
  "within_limit db \<equiv> \<forall>u. owned_count u (wdb_primary db) \<le> max_workspaces_per_user"

lemma ws_repo_replica:
  "wdb_replica (snd (ws_repo_create w m db)) = wdb_replica db"
  "wdb_replica (snd (run_query q db)) = wdb_replica db"
  "wdb_replica (snd (exec_primary g db)) = wdb_replica db"
proof -
  show "wdb_replica (snd (ws_repo_create w m db)) = wdb_replica db"
    by (cases "ws_repo_create w m db"; cases "fst (ws_repo_create w m db)")
       (auto dest: ws_repo_create_Inl elim!: ws_repo_create_Inr)
  show "wdb_replica (snd (run_query q db)) = wdb_replica db"
    by (simp add: run_query_frame)
  show "wdb_replica (snd (exec_primary g db)) = wdb_replica db"
    by (simp add: exec_primary_def split: prod.splits sum.splits)
qed

lemma no_replica_ports:
  assumes "no_replica db"
  shows "no_replica (snd (ws_create pg_workspaces w m db))" "no_replica (snd (ws_count_owned pg_workspaces u db))"
    "no_replica (snd (ws_get_by_id pg_workspaces i db))" "no_replica (snd (ws_list_for_user pg_workspaces u db))"
    "no_replica (snd (mr_add_member pg_members m db))" "no_replica (snd (mr_get_member pg_members ws u db))"
    "no_replica (snd (mr_list_members pg_members ws db))"
  using assms
  by (simp_all add: no_replica_def pg_workspaces_def pg_members_def ws_repo_count_owned_def ws_repo_get_by_id_def
       ws_repo_list_for_user_def ws_repo_add_member_def ws_repo_get_member_def ws_repo_list_members_def ws_repo_replica)

lemma list_roles_no_replica: "no_replica db \<Longrightarrow> no_replica (snd (list_roles pg_members uid ws db))"
proof (induction ws arbitrary: db)
  case (Cons w ws)
  obtain r db1 where g: "mr_get_member pg_members (w_id w) uid db = (r, db1)" by fastforce
  with no_replica_ports(6) [OF Cons.prems, of "w_id w" uid] have "no_replica db1" by simp
  with g Cons.IH [of db1] show ?case by (cases r) (auto split: prod.splits)
qed simp

lemma no_replica_step: "ws_step db db' \<Longrightarrow> no_replica db \<Longrightarrow> no_replica db'"
proof (erule ws_stepE, goal_cases create get list add members replicate faults)
  case (create now ulid cmd r)
  then show ?case
    using no_replica_ports(2) [of db "wc_owner_id cmd"] no_replica_ports(1)
    by (auto simp: create_workspace_handle_def Let_def split: if_splits prod.splits sum.splits option.splits) (metis snd_conv)+
next
  case (get ws uid rg)
  then show ?case
    using no_replica_ports(6) [of db ws uid] no_replica_ports(3)
    by (auto simp: get_workspace_handle_def split: prod.splits sum.splits) (metis snd_conv)+
next
  case (list uid rl)
  then show ?case
    using no_replica_ports(4) [of db uid] list_roles_no_replica
    by (auto simp: list_workspaces_handle_def split: prod.splits sum.splits) (metis snd_conv)+
next
  case (add now acmd ra)
  then show ?case
    using no_replica_ports(6) [of db "am_workspace_id acmd" "am_requesting_user_id acmd"] no_replica_ports(5)
    by (auto simp: add_member_handle_def Let_def split: if_splits prod.splits sum.splits option.splits) (metis snd_conv)+
next
  case (members ws uid rm)
  then show ?case
    using no_replica_ports(6) [of db ws uid] no_replica_ports(7)
    by (auto simp: list_members_handle_def split: if_splits prod.splits sum.splits) (metis snd_conv)+
qed (auto simp: no_replica_def replicate_ws_def)

lemma limit_step: "ws_step db db' \<Longrightarrow> no_replica db \<Longrightarrow> within_limit db \<Longrightarrow> within_limit db'"
proof (erule ws_stepE, goal_cases create get list add members replicate faults)
  case (create now ulid cmd r)
  then show ?case
    using pg_ws.create_keeps_limit [of db now ulid cmd r db'] by (simp add: no_replica_view owned_count_def)
next
  case (add now acmd ra)
  then show ?case
    using pg_ws.add_handle_Inl [of now acmd db _ db'] pg_ws.add_handle_Inr [of now acmd db _ db']
    by (cases ra) (auto simp: owned_count_def)
qed (auto dest!: pg_ws.read_frames simp: replicate_ws_def owned_count_def)

text \<open>Without a replica no user ever owns more than \<open>MaxWorkspacesPerUser\<close> workspaces, in any reachable
  state: a creation counts what the ones before it wrote.\<close>

theorem workspace_limit_holds:
  assumes "ws_reachable (seed_db False t) db"
  shows "owned_count user (wdb_primary db) \<le> max_workspaces_per_user"
proof -
  have "no_replica db \<and> within_limit db"
    using assms
  proof (induction rule: ws_reachable.induct)
    case start
    then show ?case by (simp add: no_replica_def seed_db_def owned_count_def max_workspaces_per_user_def Let_def)
  next
    case (more db db')
    then show ?case using no_replica_step limit_step by blast
  qed
  then show ?thesis by simp
qed

theorem workspace_limit_holds_witness:
  "owned_count ''u1'' (wdb_primary (run_create ''a'' (seed_db False 0))) \<le> max_workspaces_per_user"
  by (rule workspace_limit_holds [of 0, OF seed_reach [OF run_create_step]])

definition six_creates :: "ws_db \<Rightarrow> ws_db" where
  "six_creates db = fold run_create [''a'', ''b'', ''c'', ''d'', ''e'', ''f''] db"

lemma six_creates_count: "owned_count ''u1'' (wdb_primary (six_creates (seed_db True 0))) = 6"
  by code_simp

lemma fold_create_reachable: "ws_reachable db0 db \<Longrightarrow> ws_reachable db0 (fold run_create ns db)"
  by (induction ns arbitrary: db) (auto intro: ws_reachable.more run_create_step)

text \<open>With a replica that has not caught up, the limit does not hold: the count is read from the replica,
  so one user creates six workspaces one after the other.\<close>

theorem workspace_limit_fails_behind_replica:
  "\<exists>db. ws_reachable (seed_db True 0) db \<and> owned_count ''u1'' (wdb_primary db) > max_workspaces_per_user"
proof (intro exI conjI)
  show "ws_reachable (seed_db True 0) (six_creates (seed_db True 0))"
    unfolding six_creates_def by (intro fold_create_reachable ws_reachable.start)
  show "owned_count ''u1'' (wdb_primary (six_creates (seed_db True 0))) > max_workspaces_per_user"
    by (simp add: six_creates_count max_workspaces_per_user_def)
qed

end
