(* ===== verification/WorkspaceProperties.thy ===== *)
theory WorkspaceProperties
  imports WorkspaceSystem
begin

text \<open>
  What the creation of a workspace guarantees: which names have a slug, and that the owner reads back what
  was created.
\<close>

section \<open>Creation\<close>

lemma generate_slug_le: "length name \<le> 63 \<Longrightarrow> length (generate_slug name) \<le> 63"
  using generate_slug_length [of name] by simp

lemma slug_matches_nonempty: "slug_matches s \<Longrightarrow> s \<noteq> []"
  by (auto simp: slug_matches_def)

text \<open>A name of at most 63 bytes always has a usable slug: when the request names none, the generated slug
  passes every check of the entity, so the request never fails for its slug.\<close>

theorem generated_slug_accepted:
  assumes "0 < length (wc_name cmd)" and "length (wc_name cmd) \<le> 63" and "wc_slug cmd = []" and "wc_owner_id cmd \<noteq> []"
  shows "validate_workspace (new_workspace now ulid cmd) = None"
  using assms generate_slug_matches [of "wc_name cmd"] slug_matches_nonempty [OF generate_slug_matches]
    generate_slug_le [of "wc_name cmd"]
  by (auto simp: validate_workspace_def command_slug_def)

theorem generated_slug_accepted_witness:
  "validate_workspace (new_workspace 0 ''id'' (demo_create ''Acme Corp'')) = None"
  by (rule generated_slug_accepted) (simp_all add: demo_create_def)

text \<open>A name of 64 to 100 lower case letters and digits, which the request validation accepts, has no
  slug: the generated one is not cut to 63 bytes, and the creation is refused with a validation error about a
  slug the client did not send.\<close>

theorem long_name_refused:
  assumes "list_all slug_char (wc_name cmd)" and "63 < length (wc_name cmd)" and "length (wc_name cmd) \<le> 100"
    and "wc_slug cmd = []" and "wc_owner_id cmd \<noteq> []"
    and "wdb_faults db = []" and "owned_count (wc_owner_id cmd) (ws_view db) < max_workspaces_per_user"
  shows "create_workspace_handle pg_workspaces now ulid cmd db
     = (Inl (EValidation ''workspace: slug exceeds 63 characters'' (Some (EWs WsErrSlugTooLong))), db)"
proof -
  have "wc_name cmd \<noteq> []" using assms(2) by auto
  then have "command_slug cmd = wc_name cmd" using assms(1,4) by (simp add: command_slug_def generate_slug_id)
  then have v: "validate_workspace (new_workspace now ulid cmd) = Some (EWs WsErrSlugTooLong)"
    using assms(2,3) by (auto simp: validate_workspace_def)
  have db: "db\<lparr>wdb_faults := []\<rparr> = db" using assms(6) by simp
  have "ws_count_owned pg_workspaces (wc_owner_id cmd) db = (Inr (owned_count (wc_owner_id cmd) (ws_view db)), db)"
    using assms(6) db by (simp add: pg_workspaces_def ws_repo_count_owned_def run_query_def)
  with assms(2-7) v \<open>wc_name cmd \<noteq> []\<close> show ?thesis
    by (simp add: create_workspace_handle_def new_validation_error_def Let_def)
qed

theorem long_name_refused_witness:
  "create_workspace_handle pg_workspaces 0 ''id'' (demo_create (replicate 64 (CHR ''a''))) (seed_db True 0)
     = (Inl (EValidation ''workspace: slug exceeds 63 characters'' (Some (EWs WsErrSlugTooLong))), seed_db True 0)"
  by (rule long_name_refused)
     (simp_all add: demo_create_def slug_char_def seed_db_def ws_view_def owned_count_def seed_workspace_def
        max_workspaces_per_user_def list_all_iff Let_def del: replicate.simps)

lemma find_append: "List.find p (xs @ ys) = (case List.find p xs of None \<Rightarrow> List.find p ys | Some x \<Rightarrow> Some x)"
  by (induction xs) auto

lemma pg_time_format [simp]: "format_rfc3339 (pg_time t) = format_rfc3339 t"
proof -
  have "unix_seconds (pg_time t) = unix_seconds t"
    by (simp add: unix_seconds_def pg_time_def second_def div_mult2_eq' flip: div_mult2_eq)
  then show ?thesis by (simp add: format_rfc3339_def format_date_def)
qed

lemma replicate_view [simp]: "ws_view (replicate_ws db) = wdb_primary db" "wdb_faults (replicate_ws db) = wdb_faults db"
  by (auto simp: ws_view_def replicate_ws_def split: option.split)

lemma ws_view_faults [simp]: "ws_view (db\<lparr>wdb_faults := fs\<rparr>) = ws_view db"
  by (simp add: ws_view_def split: option.split)

lemma created_rows:
  assumes "create_workspace_handle pg_workspaces now ulid cmd db = (Inr res, db')"
  shows "List.find (\<lambda>w. w_id w = ulid) (t_workspaces (wdb_primary db')) = Some (pg_workspace (new_workspace now ulid cmd))"
    and "find_member ulid (wc_owner_id cmd) (wdb_primary db') = Some (pg_member (new_owner now ulid cmd))"
    and "res = \<lparr>wcr_id = ulid, wcr_name = wc_name cmd, wcr_slug = command_slug cmd, wcr_plan_tier = ''free'',
       wcr_owner_id = wc_owner_id cmd, wcr_created_at = format_rfc3339 now\<rparr>"
proof -
  from assms obtain s1 where c: "ws_repo_create (new_workspace now ulid cmd) (new_owner now ulid cmd) s1 = (Inr (), db')"
    and res: "res = \<lparr>wcr_id = ulid, wcr_name = wc_name cmd, wcr_slug = command_slug cmd, wcr_plan_tier = ''free'',
       wcr_owner_id = wc_owner_id cmd, wcr_created_at = format_rfc3339 now\<rparr>"
    by (auto simp: create_workspace_handle_def Let_def pg_workspaces_def new_workspace_def
          split: if_splits prod.splits sum.splits option.splits)
  from c obtain t where t: "insert_workspace (new_workspace now ulid cmd) (wdb_primary s1) = Inr t"
    "insert_member (new_owner now ulid cmd) t = Inr (wdb_primary db')" by (rule ws_repo_create_Inr)
  then have w: "t_workspaces (wdb_primary db') = t_workspaces (wdb_primary s1) @ [pg_workspace (new_workspace now ulid cmd)]"
    "ulid \<notin> w_id ` set (t_workspaces (wdb_primary s1))" by (auto simp: insert_workspace_Inr insert_member_Inr)
  then have "List.find (\<lambda>w. w_id w = ulid) (t_workspaces (wdb_primary s1)) = None"
    by (auto simp: find_None_iff)
  with w show "List.find (\<lambda>w. w_id w = ulid) (t_workspaces (wdb_primary db')) = Some (pg_workspace (new_workspace now ulid cmd))"
    by (simp add: find_append pg_ws.row_w)
  from t(2) have m: "t_members (wdb_primary db') = t_members t @ [pg_member (new_owner now ulid cmd)]"
    "(ulid, wc_owner_id cmd) \<notin> member_key ` set (t_members t)"
    by (auto simp: insert_member_Inr member_key_def)
  then have "List.find (\<lambda>m. m_workspace_id m = ulid \<and> m_user_id m = wc_owner_id cmd) (t_members t) = None"
    by (auto simp: find_None_iff member_key_def image_iff)
  with m show "find_member ulid (wc_owner_id cmd) (wdb_primary db') = Some (pg_member (new_owner now ulid cmd))"
    by (simp add: find_member_def find_append pg_ws.row_m)
  show "res = \<lparr>wcr_id = ulid, wcr_name = wc_name cmd, wcr_slug = command_slug cmd, wcr_plan_tier = ''free'',
       wcr_owner_id = wc_owner_id cmd, wcr_created_at = format_rfc3339 now\<rparr>" by (rule res)
qed

text \<open>What CreateWorkspace returned is what its owner reads back: the workspace with the id, name, slug,
  plan and creation time of the response, and the role of owner.\<close>

theorem create_then_get:
  assumes "create_workspace_handle pg_workspaces now ulid cmd db = (Inr res, db')" and "wdb_faults db' = []"
  shows "fst (get_workspace_handle pg_workspaces pg_members (wcr_id res) (wc_owner_id cmd) (replicate_ws db'))
     = Inr \<lparr>wg_id = wcr_id res, wg_name = wcr_name res, wg_slug = wcr_slug res, wg_plan_tier = wcr_plan_tier res,
            wg_owner_id = wc_owner_id cmd, wg_created_at = wcr_created_at res, wg_user_role = role_owner\<rparr>"
proof -
  show ?thesis
    using assms(2) created_rows [OF assms(1)]
    by (simp add: get_workspace_handle_def pg_workspaces_def pg_members_def ws_repo_get_member_def ws_repo_get_by_id_def
          run_query_def first_row_def pg_workspace_def pg_member_def) (simp add: new_workspace_def new_owner_def)
qed

theorem create_then_get_witness:
  "fst (get_workspace_handle pg_workspaces pg_members ''a'' ''u1'' (replicate_ws (run_create ''a'' (seed_db True 0))))
     = Inr \<lparr>wg_id = ''a'', wg_name = ''a'', wg_slug = ''a'', wg_plan_tier = ''free'', wg_owner_id = ''u1'',
            wg_created_at = ''1970-01-01T00:00:00Z'', wg_user_role = role_owner\<rparr>"
proof -
  define res :: ws_create_result where "res = \<lparr>wcr_id = ''a'', wcr_name = ''a'', wcr_slug = ''a'', wcr_plan_tier = ''free'',
     wcr_owner_id = ''u1'', wcr_created_at = ''1970-01-01T00:00:00Z''\<rparr>"
  have run: "fst (create_workspace_handle pg_workspaces 0 ''a'' (demo_create ''a'') (seed_db True 0)) = Inr res
      \<and> wdb_faults (run_create ''a'' (seed_db True 0)) = []"
    unfolding res_def by code_simp
  have "create_workspace_handle pg_workspaces 0 ''a'' (demo_create ''a'') (seed_db True 0)
      = (Inr res, run_create ''a'' (seed_db True 0))"
    using run by (simp add: run_create_def prod_eq_iff)
  from create_then_get [OF this] run show ?thesis
    by (simp add: res_def demo_create_def)
qed
end
