(* ===== verification/AuthProperties.thy ===== *)
theory AuthProperties
  imports Auth AuditLog
begin

text \<open>
  What the JWT middleware guarantees: who reaches a protected handler, what revoking a token through
  \<open>DELETE /api/v1/auth/token\<close> (\<open>revokeTokenHandler\<close> of \<open>cmd/api/main.go\<close>) does to later requests, and the two
  cases in which a request passes without a valid token.
\<close>

section \<open>The service\<close>

text \<open>
  The deny list lives in Redis, what the handlers work on beside it. The audit trail is left out here: it changes
  neither responses nor the deny list (\<open>AuditLog.audit_action_transparent\<close>).
\<close>

definition redis_revoked :: "gotime \<Rightarrow> string \<Rightarrow> redis_db \<times> 'a \<Rightarrow> bool result \<times> (redis_db \<times> 'a)" where
  "redis_revoked now jti s =
     (case s of (db, a) \<Rightarrow> (case deny_is_revoked now jti db of (r, db') \<Rightarrow> (r, (db', a))))"

definition over_redis :: "'a handler \<Rightarrow> (redis_db \<times> 'a) handler" where
  "over_redis h r s = (case s of (db, a) \<Rightarrow> (case h r a of (resp, a') \<Rightarrow> (resp, (db, a'))))"

definition revoke_token_handler :: "gotime \<Rightarrow> (redis_db \<times> 'a) pending handler" where
  "revoke_token_handler now r s =
     (case rq_claims r of
        None \<Rightarrow> (write_problem \<lparr>p_type = problem_type_unauthenticated, p_title = ''Unauthorized'', p_status = 401,
                   p_detail = [], p_instance = [], p_errors = []\<rparr>, s)
      | Some c \<Rightarrow>
          (case s of (pend, db, a) \<Rightarrow>
            (case deny_revoke now (cl_token_id c) (cl_expires_at c) db of
               (Inl err, db') \<Rightarrow> (resp_internal_error (rq_path r), (pend, db', a))
             | (Inr _, db') \<Rightarrow>
                 (\<lparr>rs_status = 204, rs_headers = [], rs_body = NoBody\<rparr>,
                  annotate_context resource_token (cl_token_id c) [(''revoked_by'', JStr (cl_user_id c))] (pend, db', a)))))"

definition revoke_path :: string where "revoke_path = ''/api/v1/auth/token''"

definition auth_service :: "('k, redis_db \<times> 'a) auth_config \<Rightarrow> 'a handler \<Rightarrow> gotime \<Rightarrow> (redis_db \<times> 'a) handler" where
  "auth_service cfg h now r s =
     (if rq_method r = ''DELETE'' \<and> rq_path r = revoke_path
      then authenticate cfg now (unaudited (revoke_token_handler now)) r s
      else authenticate cfg now (over_redis h) r s)"

fun auth_run :: "('k, redis_db \<times> 'a) auth_config \<Rightarrow> 'a handler \<Rightarrow> (gotime \<times> request) list \<Rightarrow> redis_db \<times> 'a
     \<Rightarrow> (gotime \<times> request \<times> response) list" where
  "auth_run cfg h [] s = []"
| "auth_run cfg h ((now, r) # rs) s =
     (case auth_service cfg h now r s of (resp, s') \<Rightarrow> (now, r, resp) # auth_run cfg h rs s')"

text \<open>The ID of the token a request is authenticated by, when it is by a bearer token.\<close>

definition bearer_jti :: "('k, 's) auth_config \<Rightarrow> gotime \<Rightarrow> request \<Rightarrow> string option" where
  "bearer_jti cfg now r =
     (if rq_claims r \<noteq> None \<or> gateway_claims now r \<noteq> None then None
      else (case extract_bearer_token r of
              None \<Rightarrow> None
            | Some token \<Rightarrow> (case parse_jwt cfg now token of Inl e \<Rightarrow> None | Inr t \<Rightarrow> Some (jw_jti t))))"

text \<open>What the parser and the token say when a request passes.\<close>

definition token_accepted :: "('k, 's) auth_config \<Rightarrow> gotime \<Rightarrow> string \<Rightarrow> jwt \<Rightarrow> string \<Rightarrow> bool" where
  "token_accepted cfg now token t ws \<longleftrightarrow>
     (\<exists>ks. (ks = ac_key_set cfg \<or> ac_additional_key_set cfg = Some ks)
         \<and> ac_parse cfg ks (ac_audience cfg) acceptable_skew now token = Inr t)
     \<and> jw_issuer t \<in> set (configured_issuers cfg) \<and> jw_jti t \<noteq> []
     \<and> ws \<noteq> [] \<and> string_claim t [''workspace_id'', ''http://wso2.org/claims/workspace_id''] = Some ws"

lemma authenticate_cases:
  assumes "authenticate cfg now h r s = (resp, s')"
  obtains (Refused) "resp = write_auth_error r" "s' = s \<or> (\<exists>jti b. deny_check cfg now jti s = (b, s'))"
  | (Context) "rq_claims r \<noteq> None" "h r s = (resp, s')"
  | (Gateway) c where "rq_claims r = None" "gateway_claims now r = Some c" "h (with_claims c r) s = (resp, s')"
  | (Token) token t ws s1 where "rq_claims r = None" "gateway_claims now r = None"
      "extract_bearer_token r = Some token" "parse_jwt cfg now token = Inr t" "token_accepted cfg now token t ws"
      "deny_check cfg now (jw_jti t) s = (False, s1)" "h (with_claims (claims_of_jwt t ws) r) s1 = (resp, s')"
proof -
  consider "rq_claims r \<noteq> None" | c where "rq_claims r = None" "gateway_claims now r = Some c"
    | "rq_claims r = None" "gateway_claims now r = None" by fastforce
  then show thesis
  proof cases
    case 1
    with assms Context show thesis by (auto simp: authenticate_def)
  next
    case 2
    with assms Gateway show thesis by (auto simp: authenticate_def)
  next
    case 3
    show thesis
    proof (cases "\<exists>token t ws s1. extract_bearer_token r = Some token \<and> parse_jwt cfg now token = Inr t
        \<and> issuer_allowed (jw_issuer t) cfg \<and> jw_jti t \<noteq> []
        \<and> string_claim t [''workspace_id'', ''http://wso2.org/claims/workspace_id''] = Some ws
        \<and> deny_check cfg now (jw_jti t) s = (False, s1)")
      case True
      then obtain token t ws s1 where t: "extract_bearer_token r = Some token" "parse_jwt cfg now token = Inr t"
        "issuer_allowed (jw_issuer t) cfg" "jw_jti t \<noteq> []"
        "string_claim t [''workspace_id'', ''http://wso2.org/claims/workspace_id''] = Some ws"
        "deny_check cfg now (jw_jti t) s = (False, s1)" by blast
      then have "token_accepted cfg now token t ws"
        using parse_jwt_Inr [OF t(2)] string_claim_nonempty [OF t(5)]
        by (auto simp: token_accepted_def issuer_allowed_def simp del: string_claim.simps)
      moreover from 3 t assms have "h (with_claims (claims_of_jwt t ws) r) s1 = (resp, s')"
        by (simp add: authenticate_def del: string_claim.simps)
      ultimately show thesis using Token 3 t by blast
    next
      case False
      then have "resp = write_auth_error r \<and> (s' = s \<or> (\<exists>jti b. deny_check cfg now jti s = (b, s')))"
        using 3 assms
        by (auto simp: authenticate_def simp del: string_claim.simps split: option.splits sum.splits if_splits prod.splits bool.splits)
      with Refused show thesis by blast
    qed
  qed
qed

section \<open>A revoked token\<close>

lemma deny_is_revoked_ok:
  "rdb_faults db = [] \<Longrightarrow> deny_is_revoked now j db = (Inr (live_value now (deny_list_key_prefix @ j) db \<noteq> None), db)"
  by (simp add: deny_is_revoked_def redis_exists_def redis_cmd_def live_value_def)

lemma deny_revoke_ok:
  assumes "rdb_faults db = []"
  shows "\<exists>db'. deny_revoke now j e db = (Inr (), db') \<and> rdb_faults db' = []"
  using assms by (simp add: deny_revoke_def redis_set_def redis_cmd_def put_value_def Let_def)

lemma go_redis_ttl_gt: "0 < d \<Longrightarrow> d - millisecond < go_redis_ttl d"
proof -
  assume "0 < d"
  have "d - d mod millisecond = d div millisecond * millisecond" by (simp add: minus_mod_eq_div_mult)
  moreover have "d mod millisecond < millisecond" by (simp add: millisecond_def)
  moreover have "0 < millisecond" by (simp add: millisecond_def)
  ultimately show "d - millisecond < go_redis_ttl d" unfolding go_redis_ttl_def
    by (smt (verit) max.cobounded2)
qed

text \<open>The entry stands until less than a millisecond before the instant the token runs out.\<close>

definition revoked_until :: "string \<Rightarrow> gotime \<Rightarrow> redis_db \<Rightarrow> bool" where
  "revoked_until j e db \<longleftrightarrow>
     rdb_faults db = [] \<and> (\<forall>t. t < e - millisecond \<longrightarrow> live_value t (deny_list_key_prefix @ j) db \<noteq> None)"

lemma revoke_keeps:
  assumes "revoked_until j e db" and "i = j \<longrightarrow> x = e" and "deny_revoke now i x db = (r, db')"
  shows "revoked_until j e db'"
proof -
  from assms deny_revoke_ok [of db now i x] have r: "deny_revoke now i x db = (Inr (), db')" and f: "rdb_faults db' = []"
    by (auto simp: revoked_until_def)
  show ?thesis
  proof (cases "now < x")
    case True
    from redis_deny.revoke_ok [OF r True] assms(1,2) go_redis_ttl_gt [of "x - now"] True f
    show ?thesis by (fastforce simp: revoked_until_def)
  next
    case False
    with redis_deny.revoke_late [OF r] assms(1) show ?thesis by simp
  qed
qed

lemma revoke_starts:
  assumes "rdb_faults db = []" and "now < e" and "deny_revoke now j e db = (r, db')"
  shows "revoked_until j e db'"
proof -
  from assms deny_revoke_ok [of db now j e] have r: "deny_revoke now j e db = (Inr (), db')" and f: "rdb_faults db' = []"
    by auto
  from redis_deny.revoke_ok [OF r assms(2)] go_redis_ttl_gt [of "e - now"] assms(2) f
  show ?thesis by (fastforce simp: revoked_until_def)
qed

lemma deny_check_redis:
  "ac_deny_list cfg = Some redis_revoked \<Longrightarrow> rdb_faults db = [] \<Longrightarrow>
     deny_check cfg now i (db, a) = (live_value now (deny_list_key_prefix @ i) db \<noteq> None, (db, a))"
  by (simp add: deny_check_def redis_revoked_def deny_is_revoked_ok)

lemma authenticate_redis_state:
  assumes "ac_deny_list cfg = Some redis_revoked" and "rdb_faults db = []"
    and "authenticate cfg now h r (db, a) = (resp, s')"
  shows "s' = (db, a) \<or> (\<exists>r'. h r' (db, a) = (resp, s') \<and> (rq_claims r = None \<longrightarrow>
      (\<exists>c. gateway_claims now r = Some c \<and> r' = with_claims c r)
    \<or> (\<exists>token t ws. parse_jwt cfg now token = Inr t \<and> extract_bearer_token r = Some token
         \<and> r' = with_claims (claims_of_jwt t ws) r)))"
  using assms(3)
  by (cases rule: authenticate_cases) (auto simp: deny_check_redis [OF assms(1,2)])

text \<open>Nothing under \<open>/api/v1/auth/token\<close> names a workspace, so the gateway rule does not apply to it.\<close>

lemma revoke_path_no_gateway: "rq_path r = revoke_path \<Longrightarrow> gateway_claims now r = None"
proof -
  have "workspace_from_path revoke_path = []" by code_simp
  then show "rq_path r = revoke_path \<Longrightarrow> gateway_claims now r = None" by (simp add: gateway_claims_def)
qed

lemma auth_service_keeps:
  assumes c: "ac_deny_list cfg = Some redis_revoked" and r: "revoked_until j e db"
    and x: "\<And>now token t. parse_jwt cfg now token = Inr t \<Longrightarrow> jw_jti t = j \<Longrightarrow> jw_expiration t = e"
    and n: "rq_claims rq = None" and run: "auth_service cfg h now rq (db, a) = (resp, (db', a'))"
  shows "revoked_until j e db'"
proof (cases "rq_method rq = ''DELETE'' \<and> rq_path rq = revoke_path")
  case True
  with run have "authenticate cfg now (unaudited (revoke_token_handler now)) rq (db, a) = (resp, (db', a'))"
    by (simp add: auth_service_def)
  from authenticate_redis_state [OF c _ this] r n True revoke_path_no_gateway [of rq now]
  consider "db' = db" | token t ws where "parse_jwt cfg now token = Inr t"
    "unaudited (revoke_token_handler now) (with_claims (claims_of_jwt t ws) rq) (db, a) = (resp, (db', a'))"
    by (auto simp: revoked_until_def)
  then show ?thesis
  proof cases
    case 2
    then obtain v where v: "deny_revoke now (jw_jti t) (jw_expiration t) db = (v, db')"
      by (auto simp: unaudited_def annotate_context_def revoke_token_handler_def with_claims_def claims_of_jwt_def split: prod.splits sum.splits)
    show ?thesis by (rule revoke_keeps [OF r _ v]) (use x [OF 2(1)] in auto)
  qed (use r in simp)
next
  case False
  then have "authenticate cfg now (over_redis h) rq (db, a) = (resp, (db', a'))" using run by (auto simp: auth_service_def)
  from authenticate_redis_state [OF c _ this] r n show ?thesis
    by (auto simp: revoked_until_def over_redis_def split_beta)
qed

lemma auth_service_refuses:
  assumes c: "ac_deny_list cfg = Some redis_revoked" and r: "revoked_until j e db"
    and j: "bearer_jti cfg now rq = Some j" and e: "now < e - millisecond"
  shows "fst (auth_service cfg h now rq (db, a)) = write_auth_error rq"
proof -
  from j obtain token t where t: "rq_claims rq = None" "gateway_claims now rq = None" "extract_bearer_token rq = Some token"
    "parse_jwt cfg now token = Inr t" "jw_jti t = j"
    by (auto simp: bearer_jti_def split: if_splits option.splits sum.splits)
  from r e have "live_value now (deny_list_key_prefix @ j) db \<noteq> None" and "rdb_faults db = []" by (auto simp: revoked_until_def)
  with t c show ?thesis
    by (auto simp: auth_service_def authenticate_def deny_check_redis simp del: string_claim.simps split: option.splits)
qed

lemma auth_run_refuses:
  assumes c: "ac_deny_list cfg = Some redis_revoked"
    and x: "\<And>now token t. parse_jwt cfg now token = Inr t \<Longrightarrow> jw_jti t = j \<Longrightarrow> jw_expiration t = e"
  shows "revoked_until j e db \<Longrightarrow> \<forall>(now, r) \<in> set rs. rq_claims r = None \<Longrightarrow>
     (now, r, resp) \<in> set (auth_run cfg h rs (db, a)) \<Longrightarrow> bearer_jti cfg now r = Some j \<Longrightarrow> now < e - millisecond \<Longrightarrow>
     resp = write_auth_error r"
proof (induction rs arbitrary: db a)
  case (Cons q rs)
  obtain now' r' where q: "q = (now', r')" by (cases q)
  obtain resp' db' a' where run: "auth_service cfg h now' r' (db, a) = (resp', (db', a'))" by (metis prod.collapse)
  have keep: "revoked_until j e db'"
    using auth_service_keeps [OF c Cons.prems(1) x _ run] Cons.prems(2) q by simp
  from Cons.prems(3) q run consider (here) "now = now'" "r = r'" "resp = resp'" | (later) "(now, r, resp) \<in> set (auth_run cfg h rs (db', a'))"
    by auto
  then show ?case
  proof cases
    case here
    with auth_service_refuses [OF c Cons.prems(1), of now' r' h a] run Cons.prems(4,5) show ?thesis by simp
  next
    case later
    with Cons.IH [OF keep] Cons.prems show ?thesis by simp
  qed
qed simp

section \<open>The gateway rule\<close>

lemma workspace_from_path_urls:
  assumes "ws \<noteq> []" and "CHR ''/'' \<notin> set ws" and "rest = [] \<or> (\<exists>q. rest = CHR ''/'' # q)"
  shows "workspace_from_path (''/api/v1/workspaces/'' @ ws @ rest) = ws"
proof -
  let ?slash = "\<lambda>c. c = CHR ''/''"
  obtain t q where rest: "rest = t @ q" "\<forall>c \<in> set q. ?slash c" "t = [] \<or> \<not> ?slash (last t)"
  proof -
    have "rest = trim_right ?slash rest @ rev (takeWhile ?slash (rev rest))"
      by (metis rev_append rev_rev_ident takeWhile_dropWhile_id trim_right_def)
    moreover have "\<forall>c \<in> set (rev (takeWhile ?slash (rev rest))). ?slash c" by (auto dest: set_takeWhileD)
    moreover have "trim_right ?slash rest = [] \<or> \<not> ?slash (last (trim_right ?slash rest))"
      by (metis (mono_tags, lifting) hd_dropWhile last_rev rev_is_Nil_conv trim_right_def)
    ultimately show thesis using that by blast
  qed
  let ?s = "''api/v1/workspaces/'' @ ws @ t"
  have "?s \<noteq> []" "\<not> ?slash (last ?s)" using assms(1,2) rest(3) last_in_set [OF assms(1)] by (auto simp: last_append simp del: last_in_set)
  then have trim: "trim_slashes (''/api/v1/workspaces/'' @ ws @ rest) = ?s"
    using trim_right_append [OF rest(2), of ?s] by (simp add: trim_slashes_def trim_left_def rest(1))
  have t: "t = [] \<or> (\<exists>u. t = CHR ''/'' # u)"
    using assms(3) rest by (cases t) auto
  obtain ps where "split_on (CHR ''/'') (ws @ t) = ws # ps"
    using t assms(2) by (auto simp: split_on_id split_on_append_sep)
  then have "split_on (CHR ''/'') ?s = ''api'' # ''v1'' # ''workspaces'' # ws # ps" by simp
  then show ?thesis by (simp only: workspace_from_path_def trim after_workspaces.simps) simp
qed

section \<open>Properties\<close>


text \<open>A token issuer for examples: the text of a token names its claims by its first letter, and a token is accepted
  until its expiry plus the skew.\<close>

definition demo_token :: "gotime \<Rightarrow> jwt" where
  "demo_token exp_at = \<lparr>jw_issuer = ''iss'', jw_subject = ''usr_1'', jw_jti = ''j1'', jw_audience = [''api''],
     jw_issued_at = 0, jw_expiration = exp_at,
     jw_private = [(''workspace_id'', JStr ''ws_1''), (''scope'', JStr ''read'')]\<rparr>"

definition demo_parser :: "gotime \<Rightarrow> unit jwt_parser" where
  "demo_parser exp_at ks aud skew now token =
     (if token = ''a.b.c'' \<and> now < exp_at + skew then Inr (demo_token exp_at) else Inl ''bad token'')"

definition demo_auth :: "gotime \<Rightarrow> (unit, redis_db \<times> unit) auth_config" where
  "demo_auth exp_at = \<lparr>ac_issuer = ''iss'', ac_audience = ''api'', ac_key_set = (), ac_additional_key_set = None,
     ac_allowed_issuers = [], ac_deny_list = Some redis_revoked, ac_parse = demo_parser exp_at\<rparr>"

definition bearer_request :: "string \<Rightarrow> string \<Rightarrow> request" where
  "bearer_request method path = \<lparr>rq_method = method, rq_path = path, rq_query = [],
     rq_headers = [(''Authorization'', ''Bearer a.b.c'')], rq_remote_addr = ''10.0.0.1:5'',
     rq_params = [], rq_body = BodyUnreadable, rq_claims = None, rq_member = None, rq_id = []\<rparr>"

definition say_ok :: "unit handler" where
  "say_ok r s = (\<lparr>rs_status = 200, rs_headers = [], rs_body = TextBody (user_id_from_context r)\<rparr>, s)"


text \<open>C20: Revoking a token by \<open>DELETE /api/v1/auth/token\<close> takes effect at once and lasts as long as the token: when the
  request is answered 204 before the token runs out, every later request that carries a token with that ID is
  answered 401 up to less than a millisecond before its expiry, whatever other requests (other revocations, and
  repeated ones, included) come in between and whatever the handlers do, as long as Redis answers.\<close>

theorem revoked_token_refused:
  assumes "ac_deny_list cfg = Some redis_revoked"
    and "\<forall>now token t. parse_jwt cfg now token = Inr t \<and> jw_jti t = j \<longrightarrow> jw_expiration t = e"
    and "rdb_faults db = []" and "t0 < e"
    and "rq_claims r0 = None" and "rq_method r0 = ''DELETE''" and "rq_path r0 = revoke_path"
    and "bearer_jti cfg t0 r0 = Some j"
    and "auth_service cfg h t0 r0 (db, a) = (resp0, (db', a'))" and "rs_status resp0 = 204"
    and "\<forall>(now, r) \<in> set rs. rq_claims r = None"
    and "(now, r, resp) \<in> set (auth_run cfg h rs (db', a'))"
    and "bearer_jti cfg now r = Some j" and "now < e - millisecond"
  shows "resp = write_auth_error r"
proof -
  from assms(5-9) have run: "authenticate cfg t0 (unaudited (revoke_token_handler t0)) r0 (db, a) = (resp0, (db', a'))"
    by (simp add: auth_service_def)
  have "revoked_until j e db'"
    using run
  proof (cases rule: authenticate_cases)
    case Refused
    with assms(10) show ?thesis by (simp add: write_auth_error_def)
  next
    case (Token token t ws s1)
    with assms(8) have "jw_jti t = j" by (simp add: bearer_jti_def)
    moreover from Token(6) assms(1,3) have "s1 = (db, a)" by (auto simp: deny_check_redis)
    ultimately obtain v where "deny_revoke t0 j e db = (v, db')"
      using Token(4,7) assms(2)
      by (auto simp: unaudited_def annotate_context_def revoke_token_handler_def with_claims_def claims_of_jwt_def split: prod.splits sum.splits)
    then show ?thesis by (rule revoke_starts [OF assms(3,4)])
  qed (use assms(5) revoke_path_no_gateway [OF assms(7)] in auto)
  then show ?thesis
    by (rule auth_run_refuses [OF assms(1) _ _ assms(11,12,13,14), rotated]) (use assms(2) in blast)
qed

theorem revoked_token_refused_witness:
  "\<exists>resp0 db' resp. rs_status resp0 = 204
     \<and> auth_service (demo_auth (60 * second)) say_ok 0 (bearer_request ''DELETE'' revoke_path) (empty_redis, ()) = (resp0, (db', ()))
     \<and> (30 * second, bearer_request ''GET'' ''/api/v1/workspaces'', resp)
        \<in> set (auth_run (demo_auth (60 * second)) say_ok [(30 * second, bearer_request ''GET'' ''/api/v1/workspaces'')] (db', ()))
     \<and> resp = write_auth_error (bearer_request ''GET'' ''/api/v1/workspaces'')"
proof -
  let ?cfg = "demo_auth (60 * second)" and ?d = "bearer_request ''DELETE'' revoke_path"
  let ?g = "bearer_request ''GET'' ''/api/v1/workspaces''"
  let ?rs = "[(30 * second, ?g)]"
  have ok: "rs_status (fst (auth_service ?cfg say_ok 0 ?d (empty_redis, ()))) = 204" by code_simp
  obtain resp0 db' where run: "auth_service ?cfg say_ok 0 ?d (empty_redis, ()) = (resp0, (db', ()))"
    by (rule prod.exhaust [where y = "auth_service ?cfg say_ok 0 ?d (empty_redis, ())"]) (simp add: prod_eq_iff)
  with ok have ok: "rs_status resp0 = 204" by simp
  obtain resp s1 where "auth_service ?cfg say_ok (30 * second) ?g (db', ()) = (resp, s1)" by (rule prod.exhaust)
  then have m: "(30 * second, ?g, resp) \<in> set (auth_run ?cfg say_ok ?rs (db', ()))" by simp
  have parse: "\<forall>now token t. parse_jwt ?cfg now token = Inr t \<and> jw_jti t = ''j1'' \<longrightarrow> jw_expiration t = 60 * second"
    by (auto simp: parse_jwt_def parse_jwt_with_key_set_def demo_auth_def demo_parser_def demo_token_def
        split: if_splits sum.splits)
  have "bearer_jti ?cfg 0 ?d = Some ''j1''" "bearer_jti ?cfg (30 * second) ?g = Some ''j1''" by code_simp+
  then have "resp = write_auth_error ?g"
    using ok revoked_token_refused [where cfg = ?cfg and j = "''j1''" and e = "60 * second", OF _ parse _ _ _ _ _ _ run _ _ m]
    by (simp add: bearer_request_def demo_auth_def empty_redis_def second_def millisecond_def)
  with run ok m show ?thesis by blast
qed

text \<open>A revoked token works again once it has run out: the deny list keeps its ID until the token's expiry, but the
  parser accepts tokens for another 30 seconds. A request with a revoked token that arrives in that time reaches
  the handler with the claims of the token, although the revocation was answered 204 and Redis works.\<close>

theorem revoked_token_passes_in_skew:
  assumes "ac_deny_list cfg = Some redis_revoked" and "rdb_faults db = []"
    and "rq_claims r = None" and "gateway_claims now r = None" and "rq_path r \<noteq> revoke_path"
    and "extract_bearer_token r = Some token" and "parse_jwt cfg now token = Inr t"
    and "issuer_allowed (jw_issuer t) cfg" and "jw_jti t \<noteq> []"
    and "string_claim t [''workspace_id'', ''http://wso2.org/claims/workspace_id''] = Some ws"
    and "deny_revoke t0 (jw_jti t) (jw_expiration t) db = (Inr (), db')"
    and "t0 + millisecond \<le> jw_expiration t" and "jw_expiration t \<le> now"
  shows "auth_service cfg h now r (db', a) = over_redis h (with_claims (claims_of_jwt t ws) r) (db', a)"
proof -
  have "t0 < jw_expiration t" using assms(12) by (simp add: millisecond_def)
  then have "go_redis_ttl (jw_expiration t - t0) \<le> jw_expiration t - t0"
    using go_redis_ttl_le [of "jw_expiration t - t0"] assms(12) by simp
  then have "live_value now (deny_list_key_prefix @ jw_jti t) db' = None"
    using redis_deny.revoke_ok [OF assms(11) \<open>t0 < jw_expiration t\<close>, of now "jw_jti t"] assms(13) by auto
  moreover have "rdb_faults db' = []" using deny_revoke_ok [OF assms(2), of t0 "jw_jti t" "jw_expiration t"] assms(11) by auto
  ultimately show ?thesis
    using assms(3-10) deny_check_redis [OF assms(1)]
    by (simp add: auth_service_def authenticate_def del: string_claim.simps)
qed

theorem revoked_token_passes_in_skew_witness:
  "\<exists>db'. deny_revoke 0 ''j1'' (60 * second) empty_redis = (Inr (), db')
     \<and> rs_status (fst (auth_service (demo_auth (60 * second)) say_ok (61 * second)
          (bearer_request ''GET'' ''/api/v1/workspaces'') (db', ()))) = 200"
proof -
  let ?cfg = "demo_auth (60 * second)" and ?g = "bearer_request ''GET'' ''/api/v1/workspaces''"
  let ?t = "demo_token (60 * second)"
  obtain db' where db': "deny_revoke 0 (jw_jti ?t) (jw_expiration ?t) empty_redis = (Inr (), db')"
    using deny_revoke_ok [of empty_redis 0 "jw_jti ?t" "jw_expiration ?t"] by (auto simp: empty_redis_def)
  have c: "gateway_claims (61 * second) ?g = None" "extract_bearer_token ?g = Some ''a.b.c''"
    "issuer_allowed (jw_issuer ?t) ?cfg" by code_simp+
  have "auth_service ?cfg say_ok (61 * second) ?g (db', ())
      = over_redis say_ok (with_claims (claims_of_jwt ?t ''ws_1'') ?g) (db', ())"
    using revoked_token_passes_in_skew [where cfg = ?cfg and r = ?g and t = ?t and now = "61 * second" and token = "''a.b.c''"
        and ws = "''ws_1''" and h = say_ok and a = "()", OF _ _ _ c(1) _ c(2) _ c(3) _ _ db']
    by (simp add: demo_auth_def bearer_request_def revoke_path_def parse_jwt_def parse_jwt_with_key_set_def demo_parser_def
        demo_token_def acceptable_skew_def second_def millisecond_def empty_redis_def)
  with db' show ?thesis by (auto simp: demo_token_def over_redis_def say_ok_def)
qed

text \<open>The gateway rule needs no token at all: any client whose \<open>User-Agent\<close> contains the gateway's product name is
  served, under every path below a workspace, as \<open>usr_default\<close> of that workspace with scopes read and write,
  whatever the key sets, the issuers and the deny list are.\<close>

theorem gateway_header_authenticates:
  assumes "rq_claims r = None" and "rq_path r = ''/api/v1/workspaces/'' @ ws @ rest" and "ws \<noteq> []"
    and "CHR ''/'' \<notin> set ws" and "rest = [] \<or> (\<exists>q. rest = CHR ''/'' # q)"
    and "str_contains (rq_header r ''User-Agent'') ''Synapse-PT-HttpComponents-NIO''"
  shows "\<exists>c. authenticate cfg now h r s = h (with_claims c r) s \<and> cl_workspace_id c = ws \<and> cl_user_id c = ''usr_default''
     \<and> has_scope (Some c) ''read'' \<and> has_scope (Some c) ''write''"
proof -
  have "has_prefix (rq_path r) ''/api/v1/''" using assms(2) by (simp add: has_prefix_def)
  then obtain c where "gateway_claims now r = Some c" "cl_workspace_id c = ws" "cl_user_id c = ''usr_default''"
    "cl_scope c = ''read write''"
    using assms workspace_from_path_urls [OF assms(3,4,5)] by (auto simp: gateway_claims_def trusted_gateway_request_def)
  with assms(1) show ?thesis by (auto simp: authenticate_def has_scope_def)
qed

definition gateway_request :: request where
  "gateway_request = (bearer_request ''DELETE'' ''/api/v1/workspaces/ws_1/urls/u1'')
     \<lparr>rq_headers := [(''User-Agent'', ''curl Synapse-PT-HttpComponents-NIO'')]\<rparr>"

theorem gateway_header_authenticates_witness:
  "\<exists>c. authenticate (demo_auth 0) 5 (over_redis say_ok) gateway_request (empty_redis, ())
      = over_redis say_ok (with_claims c gateway_request) (empty_redis, ()) \<and> cl_workspace_id c = ''ws_1''"
proof -
  have "rq_claims gateway_request = None" "rq_path gateway_request = ''/api/v1/workspaces/'' @ ''ws_1'' @ ''/urls/u1''"
    by (simp_all add: gateway_request_def bearer_request_def)
  moreover have "str_contains (rq_header gateway_request ''User-Agent'') ''Synapse-PT-HttpComponents-NIO''" by code_simp
  ultimately show ?thesis
    using gateway_header_authenticates [of gateway_request "''ws_1''" "''/urls/u1''" "demo_auth 0" 5 "over_redis say_ok" "(empty_redis, ())"]
    by auto
qed

end
