(* ===== verification/ApiKey.thy ===== *)
theory ApiKey
  imports WorkspaceApp Crypto
begin

text \<open>
  API keys: the entity and its scopes (\<open>internal/domain/apikey\<close>), the generation and hashing of keys
  (\<open>pkg/keyutil/hash.go\<close>), the port of the repository with its contract, and the use cases of
  \<open>internal/application/apikey\<close>. bcrypt is not part of the program: hashing and comparing are parameters.
\<close>

section \<open>The entity\<close>

record api_key =
  k_id :: string
  k_workspace_id :: string
  k_name :: string
  k_hash :: string
  k_prefix :: string
  k_scopes :: "string list"
  k_created_by :: string
  k_created_at :: gotime
  k_expires_at :: "gotime option"
  k_revoked_at :: "gotime option"
  k_last_used_at :: "gotime option"
  k_raw_key :: string

definition api_key_prefix :: string where "api_key_prefix = ''urlsk_''"
definition raw_key_prefix_length :: nat where "raw_key_prefix_length = 14"

definition scope_read :: string where "scope_read = ''read''"
definition scope_write :: string where "scope_write = ''write''"
definition scope_admin :: string where "scope_admin = ''admin''"

definition key_is_active :: "gotime \<Rightarrow> api_key \<Rightarrow> bool" where
  "key_is_active now k =
     (if k_revoked_at k \<noteq> None then False
      else (case k_expires_at k of None \<Rightarrow> True | Some e \<Rightarrow> \<not> now > e))"

fun scope_among :: "string list \<Rightarrow> string \<Rightarrow> bool" where
  "scope_among [] scope = False"
| "scope_among (s # ss) scope = (if s = scope then True else scope_among ss scope)"

definition key_has_scope :: "api_key \<Rightarrow> string \<Rightarrow> bool" where
  "key_has_scope k = scope_among (k_scopes k)"

definition scope_string :: "api_key \<Rightarrow> string" where
  "scope_string k = str_join '' '' (k_scopes k)"

definition extract_prefix :: "string \<Rightarrow> string" where
  "extract_prefix raw =
     (if length raw < raw_key_prefix_length then []
      else if \<not> has_prefix raw api_key_prefix then []
      else take raw_key_prefix_length raw)"

text \<open>\<open>ValidateScopes\<close>: the empty string when all is well.\<close>

fun first_bad_scope :: "string list \<Rightarrow> string option" where
  "first_bad_scope [] = None"
| "first_bad_scope (s # ss) = (if s \<notin> {scope_read, scope_write, scope_admin} then Some s else first_bad_scope ss)"

definition validate_scopes :: "string list \<Rightarrow> string" where
  "validate_scopes scopes =
     (case first_bad_scope scopes of
        Some s \<Rightarrow> ''invalid scope: '' @ s @ '' (must be one of: read, write, admin)''
      | None \<Rightarrow> if scopes = [] then ''at least one scope is required'' else [])"

section \<open>Generating and hashing keys\<close>

text \<open>\<open>GenerateFromPassword\<close> with its salt, and \<open>CompareHashAndPassword\<close>.\<close>

record 'salt bcrypt =
  bc_generate :: "'salt \<Rightarrow> string \<Rightarrow> nat \<Rightarrow> string + string"
  bc_compare :: "string \<Rightarrow> string \<Rightarrow> bool"

definition bcrypt_cost :: nat where "bcrypt_cost = 12"
definition raw_key_random_bytes :: nat where "raw_key_random_bytes = 32"

text \<open>\<open>rand.Read\<close> gives 32 bytes or fails.\<close>

definition generate_raw :: "string + nat list \<Rightarrow> string \<Rightarrow> string result" where
  "generate_raw rand ws =
     (let ws_prefix = (if length ws > 8 then take 8 ws else ws) in
      case rand of
        Inl m \<Rightarrow> Inl (EWrap ''keyutil: generating random bytes: '' (EOther m) [])
      | Inr bs \<Rightarrow> Inr (''urlsk_'' @ ws_prefix @ hex_encode bs))"

definition sha256sum :: "string \<Rightarrow> string" where
  "sha256sum s = hex_encode (sha256 (string_bytes s))"

definition hash_key :: "'salt bcrypt \<Rightarrow> 'salt \<Rightarrow> string \<Rightarrow> string result" where
  "hash_key bc salt raw =
     (case bc_generate bc salt (sha256sum raw) bcrypt_cost of
        Inl m \<Rightarrow> Inl (EWrap ''keyutil: bcrypt hashing: '' (EOther m) [])
      | Inr h \<Rightarrow> Inr h)"

definition verify_key :: "'salt bcrypt \<Rightarrow> string \<Rightarrow> string \<Rightarrow> bool" where
  "verify_key bc raw stored = bc_compare bc stored (sha256sum raw)"

section \<open>The port\<close>

record 's apikey_repository =
  kr_create :: "api_key \<Rightarrow> 's \<Rightarrow> unit result \<times> 's"
  kr_get_by_prefix :: "gotime \<Rightarrow> string \<Rightarrow> 's \<Rightarrow> api_key list result \<times> 's"
  kr_get_by_id :: "string \<Rightarrow> string \<Rightarrow> 's \<Rightarrow> api_key result \<times> 's"
  kr_list :: "string \<Rightarrow> 's \<Rightarrow> api_key list result \<times> 's"
  kr_revoke :: "gotime \<Rightarrow> string \<Rightarrow> string \<Rightarrow> 's \<Rightarrow> unit result \<times> 's"
  kr_update_last_used :: "gotime \<Rightarrow> string \<Rightarrow> 's \<Rightarrow> unit result \<times> 's"

text \<open>The condition of the look-up: not revoked, and not past its expiry.\<close>

definition key_live :: "gotime \<Rightarrow> api_key \<Rightarrow> bool" where
  "key_live now k = (k_revoked_at k = None \<and> (case k_expires_at k of None \<Rightarrow> True | Some e \<Rightarrow> e > now))"

definition key_at :: "string \<Rightarrow> string \<Rightarrow> api_key \<Rightarrow> bool" where
  "key_at i ws k = (k_id k = i \<and> k_workspace_id k = ws)"

definition set_revoked :: "gotime \<Rightarrow> string \<Rightarrow> string \<Rightarrow> api_key list \<Rightarrow> api_key list" where
  "set_revoked t i ws = map (\<lambda>k. if key_at i ws k \<and> k_revoked_at k = None then k\<lparr>k_revoked_at := Some t\<rparr> else k)"

definition set_last_used :: "gotime \<Rightarrow> string \<Rightarrow> api_key list \<Rightarrow> api_key list" where
  "set_last_used t i = map (\<lambda>k. if k_id k = i then k\<lparr>k_last_used_at := Some t\<rparr> else k)"

section \<open>Use cases\<close>

record create_key_command =
  ck_workspace_id :: string
  ck_name :: string
  ck_scopes :: "string list"
  ck_expires_at :: "gotime option"
  ck_created_by :: string

record create_key_result =
  ckr_id :: string
  ckr_name :: string
  ckr_key_prefix :: string
  ckr_raw_key :: string
  ckr_scopes :: "string list"
  ckr_workspace_id :: string
  ckr_created_at :: string
  ckr_expires_at :: "gotime option"

definition validate_create_key :: "create_key_command \<Rightarrow> gerr option" where
  "validate_create_key cmd =
     (if ck_name cmd = [] then Some (new_validation_error ''name is required'' None)
      else if length (ck_name cmd) > 100
      then Some (new_validation_error ''name must be 100 characters or fewer'' None)
      else if validate_scopes (ck_scopes cmd) \<noteq> []
      then Some (new_validation_error (validate_scopes (ck_scopes cmd)) None)
      else if ck_workspace_id cmd = [] then Some (new_validation_error ''workspace_id is required'' None)
      else if ck_created_by cmd = [] then Some (new_validation_error ''created_by is required'' None)
      else None)"

definition new_key :: "gotime \<Rightarrow> string \<Rightarrow> string \<Rightarrow> string \<Rightarrow> create_key_command \<Rightarrow> api_key" where
  "new_key now ulid raw h cmd =
     \<lparr>k_id = ulid, k_workspace_id = ck_workspace_id cmd, k_name = ck_name cmd, k_hash = h,
      k_prefix = extract_prefix raw, k_scopes = ck_scopes cmd, k_created_by = ck_created_by cmd,
      k_created_at = now, k_expires_at = ck_expires_at cmd, k_revoked_at = None, k_last_used_at = None,
      k_raw_key = []\<rparr>"

definition create_key_handle ::
  "'salt bcrypt \<Rightarrow> 's apikey_repository \<Rightarrow> gotime \<Rightarrow> string \<Rightarrow> string + nat list \<Rightarrow> 'salt \<Rightarrow> create_key_command
     \<Rightarrow> 's \<Rightarrow> create_key_result result \<times> 's" where
  "create_key_handle bc repo now ulid rand salt cmd s =
     (case validate_create_key cmd of
        Some err \<Rightarrow> (Inl err, s)
      | None \<Rightarrow>
     (case generate_raw rand (ck_workspace_id cmd) of
        Inl err \<Rightarrow> (Inl (EWrap ''generating api key: '' err []), s)
      | Inr raw \<Rightarrow>
     (case hash_key bc salt raw of
        Inl err \<Rightarrow> (Inl (EWrap ''hashing api key: '' err []), s)
      | Inr h \<Rightarrow>
          let ak = new_key now ulid raw h cmd in
          (case kr_create repo ak s of
             (Inl err, s1) \<Rightarrow> (Inl (EWrap ''creating api key: '' err []), s1)
           | (Inr _, s1) \<Rightarrow>
               (Inr \<lparr>ckr_id = k_id ak, ckr_name = k_name ak, ckr_key_prefix = k_prefix ak, ckr_raw_key = raw,
                     ckr_scopes = k_scopes ak, ckr_workspace_id = k_workspace_id ak,
                     ckr_created_at = format_rfc3339 now, ckr_expires_at = k_expires_at ak\<rparr>, s1)))))"

record key_summary =
  ks_id :: string
  ks_name :: string
  ks_key_prefix :: string
  ks_scopes :: "string list"
  ks_created_at :: string
  ks_expires_at :: "gotime option"
  ks_last_used_at :: "gotime option"

definition to_key_summary :: "api_key \<Rightarrow> key_summary" where
  "to_key_summary k = \<lparr>ks_id = k_id k, ks_name = k_name k, ks_key_prefix = k_prefix k, ks_scopes = k_scopes k,
     ks_created_at = format_rfc3339 (k_created_at k), ks_expires_at = k_expires_at k,
     ks_last_used_at = k_last_used_at k\<rparr>"

definition list_keys_handle ::
  "'s apikey_repository \<Rightarrow> 's member_repository \<Rightarrow> string \<Rightarrow> string \<Rightarrow> 's \<Rightarrow> key_summary list result \<times> 's" where
  "list_keys_handle repo mrepo ws uid s =
     (case mr_get_member mrepo ws uid s of
        (Inl err, s1) \<Rightarrow>
          (if ws_is_not_found err then Inl (EApp AppErrUnauthorized)
           else Inl (EWrap ''checking membership: '' err []), s1)
      | (Inr m, s1) \<Rightarrow>
          (case kr_list repo ws s1 of
             (Inl err, s2) \<Rightarrow> (Inl (EWrap ''listing api keys: '' err []), s2)
           | (Inr ks, s2) \<Rightarrow> (Inr (map to_key_summary ks), s2)))"

record revoke_key_command =
  rk_key_id :: string
  rk_workspace_id :: string
  rk_requesting_user_id :: string

definition revoke_key_handle ::
  "'s apikey_repository \<Rightarrow> 's member_repository \<Rightarrow> gotime \<Rightarrow> revoke_key_command \<Rightarrow> 's \<Rightarrow> unit result \<times> 's" where
  "revoke_key_handle repo mrepo now cmd s =
     (case mr_get_member mrepo (rk_workspace_id cmd) (rk_requesting_user_id cmd) s of
        (Inl err, s1) \<Rightarrow>
          (if ws_is_not_found err then Inl (EApp AppErrUnauthorized)
           else Inl (EWrap ''checking membership: '' err []), s1)
      | (Inr m, s1) \<Rightarrow>
          if \<not> role_can (m_role m) action_manage_members then (Inl (EApp AppErrUnauthorized), s1)
          else
            (case kr_revoke repo now (rk_key_id cmd) (rk_workspace_id cmd) s1 of
               (Inl err, s2) \<Rightarrow>
                 (if err = EKey KeyErrNotFound then Inl (EApp AppErrNotFound)
                  else if err = EKey KeyErrAlreadyRevoked
                  then Inl (new_validation_error ''this API key has already been revoked'' (Some err))
                  else Inl (EWrap ''revoking api key: '' err []), s2)
             | (Inr _, s2) \<Rightarrow> (Inr (), s2)))"

section \<open>Lemmas\<close>

lemma first_bad_scope_None: "first_bad_scope ss = None \<longleftrightarrow> set ss \<subseteq> {scope_read, scope_write, scope_admin}"
  by (induction ss) auto

lemma validate_scopes_iff: "validate_scopes ss = [] \<longleftrightarrow> ss \<noteq> [] \<and> set ss \<subseteq> {scope_read, scope_write, scope_admin}"
  using first_bad_scope_None [of ss] by (auto simp: validate_scopes_def split: option.splits)

lemma scope_among_iff: "scope_among ss scope \<longleftrightarrow> scope \<in> set ss"
  by (induction ss) auto

text \<open>What a key looks like: the first 14 bytes are the fixed prefix and the start of the workspace's ID.\<close>

lemma extract_prefix_raw:
  "extract_prefix raw \<noteq> [] \<Longrightarrow> extract_prefix raw = take 14 raw \<and> has_prefix raw ''urlsk_'' \<and> 14 \<le> length raw"
  by (auto simp: extract_prefix_def raw_key_prefix_length_def api_key_prefix_def split: if_splits)

lemma generate_raw_prefix:
  assumes "generate_raw rand ws = Inr raw" and "8 \<le> length ws"
  shows "extract_prefix raw = ''urlsk_'' @ take 8 ws"
  using assms
  by (cases "length ws = 8")
     (auto simp: generate_raw_def extract_prefix_def raw_key_prefix_length_def api_key_prefix_def has_prefix_def
       split: sum.splits)

lemma hash_key_Inr: "hash_key bc salt raw = Inr h \<longleftrightarrow> bc_generate bc salt (sha256sum raw) bcrypt_cost = Inr h"
  by (auto simp: hash_key_def split: sum.splits)

lemma length_sha256sum [simp]: "length (sha256sum s) = 64"
  by (simp add: sha256sum_def)

lemma create_key_Inr:
  assumes "create_key_handle bc repo now ulid rand salt cmd s = (Inr res, s')"
  obtains h v where "validate_create_key cmd = None" "generate_raw rand (ck_workspace_id cmd) = Inr (ckr_raw_key res)"
    "hash_key bc salt (ckr_raw_key res) = Inr h"
    "kr_create repo (new_key now ulid (ckr_raw_key res) h cmd) s = (Inr v, s')"
    "ckr_id res = ulid" "ckr_workspace_id res = ck_workspace_id cmd"
  using assms
  by (auto simp: create_key_handle_def Let_def new_key_def split: option.splits sum.splits prod.splits)

lemma create_key_Inl:
  assumes "create_key_handle bc repo now ulid rand salt cmd s = (Inl e, s')"
  shows "s' = s \<or> (\<exists>k e'. kr_create repo k s = (Inl e', s'))"
  using assms
  by (auto simp: create_key_handle_def Let_def split: option.splits sum.splits prod.splits)

lemma key_live_active: "key_live now k \<Longrightarrow> key_is_active now k"
  by (auto simp: key_live_def key_is_active_def split: option.splits)

section \<open>The contract of the repository\<close>

text \<open>The stored key keeps what authentication reads.\<close>

definition same_credential :: "api_key \<Rightarrow> api_key \<Rightarrow> bool" where
  "same_credential k r \<longleftrightarrow> k_id r = k_id k \<and> k_workspace_id r = k_workspace_id k \<and> k_hash r = k_hash k
     \<and> k_prefix r = k_prefix k \<and> k_scopes r = k_scopes k \<and> k_created_by r = k_created_by k"

locale apikey_store =
  fixes repo :: "'s apikey_repository"
    and keys :: "'s \<Rightarrow> api_key list"
    and row_k :: "api_key \<Rightarrow> api_key"
  assumes row: "same_credential k (row_k k) \<and> k_revoked_at (row_k k) = None
        \<and> k_expires_at (row_k k) = map_option (\<lambda>t. t div 1000 * 1000) (k_expires_at k)"
    and create_ok: "kr_create repo k s = (Inr v, s') \<Longrightarrow> keys s' = keys s @ [row_k k] \<and> k_id k \<notin> k_id ` set (keys s)"
    and create_err: "kr_create repo k s = (Inl e, s') \<Longrightarrow> keys s' = keys s"
    and prefix_ok: "kr_get_by_prefix repo now p s = (Inr ks, s') \<Longrightarrow>
        ks = filter (\<lambda>k. k_prefix k = p \<and> key_live now k) (keys s)"
    and prefix_frame: "kr_get_by_prefix repo now p s = (rp, s') \<Longrightarrow> keys s' = keys s"
    and list_frame: "kr_list repo ws s = (rl, s') \<Longrightarrow> keys s' = keys s"
    and revoke_ok: "kr_revoke repo now i ws s = (Inr v, s') \<Longrightarrow>
        (\<exists>k \<in> set (keys s). key_at i ws k \<and> k_revoked_at k = None) \<and> (\<exists>t. keys s' = set_revoked t i ws (keys s))"
    and revoke_err: "kr_revoke repo now i ws s = (Inl e, s') \<Longrightarrow> keys s' = keys s"
    and touch_ok: "kr_update_last_used repo now i s = (ru, s') \<Longrightarrow> keys s' = keys s \<or> (\<exists>t. keys s' = set_last_used t i (keys s))"

text \<open>Revoked keys stay in the table, revoked.\<close>

definition revoked_in :: "string \<Rightarrow> api_key list \<Rightarrow> bool" where
  "revoked_in i ks \<longleftrightarrow> i \<in> set (map k_id ks) \<and> (\<forall>k \<in> set ks. k_id k = i \<longrightarrow> k_revoked_at k \<noteq> None)"

lemma ids_set_revoked [simp]: "map k_id (set_revoked t i ws ks) = map k_id ks"
  by (simp add: set_revoked_def comp_def if_distrib cong: if_cong)

lemma ids_set_last_used [simp]: "map k_id (set_last_used t i ks) = map k_id ks"
  by (simp add: set_last_used_def comp_def if_distrib cong: if_cong)

lemma revoked_in_set_revoked: "revoked_in i ks \<Longrightarrow> revoked_in i (set_revoked t j ws ks)"
  unfolding revoked_in_def ids_set_revoked by (auto simp: set_revoked_def)

lemma revoked_in_set_last_used: "revoked_in i ks \<Longrightarrow> revoked_in i (set_last_used t j ks)"
  unfolding revoked_in_def ids_set_last_used by (auto simp: set_last_used_def)

context apikey_store
begin

lemma row_id [simp]: "k_id (row_k k) = k_id k"
  using row by (simp add: same_credential_def)

lemma create_handle_keeps:
  assumes "create_key_handle bc repo now ulid rand salt cmd s = (r, s')" and "revoked_in i (keys s)"
  shows "revoked_in i (keys s')"
proof (cases r)
  case (Inl e)
  with assms create_key_Inl [of bc repo now ulid rand salt cmd s e s'] show ?thesis
    by (auto dest: create_err)
next
  case (Inr res)
  with assms(1) obtain h v where "kr_create repo (new_key now ulid (ckr_raw_key res) h cmd) s = (Inr v, s')"
    by (auto elim: create_key_Inr)
  from create_ok [OF this] have k: "keys s' = keys s @ [row_k (new_key now ulid (ckr_raw_key res) h cmd)]"
    and u: "ulid \<notin> k_id ` set (keys s)" by (simp_all add: new_key_def)
  have "i \<noteq> ulid" using assms(2) u by (auto simp: revoked_in_def)
  moreover have "k_id (new_key now ulid (ckr_raw_key res) h cmd) = ulid" by (simp add: new_key_def)
  ultimately show ?thesis using assms(2) by (auto simp: revoked_in_def k)
qed

lemma create_handle_distinct:
  assumes "create_key_handle bc repo now ulid rand salt cmd s = (r, s')" and "distinct (map k_id (keys s))"
  shows "distinct (map k_id (keys s'))"
proof (cases r)
  case (Inl e)
  with assms create_key_Inl [of bc repo now ulid rand salt cmd s e s'] show ?thesis
    by (auto dest: create_err)
next
  case (Inr res)
  with assms(1) obtain h v where "kr_create repo (new_key now ulid (ckr_raw_key res) h cmd) s = (Inr v, s')"
    by (auto elim: create_key_Inr)
  from create_ok [OF this] assms(2) show ?thesis by auto
qed

text \<open>After a successful revocation no live key has the ID.\<close>

lemma revoke_marks:
  assumes "kr_revoke repo now i ws s = (Inr v, s')" and "distinct (map k_id (keys s))"
  shows "revoked_in i (keys s')"
proof -
  from revoke_ok [OF assms(1)] obtain k t where k: "k \<in> set (keys s)" "key_at i ws k" "k_revoked_at k = None"
    and s': "keys s' = set_revoked t i ws (keys s)" by blast
  have "x = k" if "x \<in> set (keys s)" "k_id x = i" for x
    using assms(2) k(1,2) that by (auto simp: key_at_def distinct_map inj_on_def)
  with k have "\<forall>x \<in> set (keys s). k_id x = i \<longrightarrow> key_at i ws x \<and> k_revoked_at x = None" by blast
  moreover have "i \<in> set (map k_id (keys s))" using k by (auto simp: key_at_def)
  ultimately show ?thesis unfolding s' revoked_in_def ids_set_revoked by (auto simp: set_revoked_def)
qed

lemma revoked_not_found:
  assumes "revoked_in i (keys s)" and "kr_get_by_prefix repo now p s = (Inr ks, s')"
  shows "i \<notin> k_id ` set ks"
  using assms(1) prefix_ok [OF assms(2)] by (auto simp: revoked_in_def key_live_def)

end

end
