(* ===== verification/ApiKeyRepo.thy ===== *)
theory ApiKeyRepo
  imports ApiKey Postgres
begin

text \<open>
  \<open>internal/infrastructure/postgres/apikey_repository.go\<close> over the table \<open>api_keys\<close> of
  \<open>deployments/migrations/000003_create_api_keys.up.sql\<close>. Authentication reads the primary, the other reads
  the replica when there is one.
\<close>

record key_db =
  kdb_rows :: "api_key list"
  kdb_replica :: "api_key list option"
  kdb_workspaces :: "string list"
  kdb_faults :: faults

definition key_view :: "key_db \<Rightarrow> api_key list" where
  "key_view db = (case kdb_replica db of None \<Rightarrow> kdb_rows db | Some rs \<Rightarrow> rs)"

definition replicate_keys :: "key_db \<Rightarrow> key_db" where
  "replicate_keys db = db\<lparr>kdb_replica := map_option (\<lambda>_. kdb_rows db) (kdb_replica db)\<rparr>"

section \<open>Statements\<close>

definition pg_key :: "api_key \<Rightarrow> api_key" where
  "pg_key k = k\<lparr>k_created_at := pg_time (k_created_at k), k_expires_at := map_option pg_time (k_expires_at k),
     k_revoked_at := map_option pg_time (k_revoked_at k), k_last_used_at := map_option pg_time (k_last_used_at k),
     k_raw_key := []\<rparr>"

definition ascii_alnum :: "char \<Rightarrow> bool" where
  "ascii_alnum c = (let n = (of_char c :: nat) in (48 \<le> n \<and> n \<le> 57) \<or> (65 \<le> n \<and> n \<le> 90) \<or> (97 \<le> n \<and> n \<le> 122))"

text \<open>\<open>key_prefix ~ '^urlsk_[a-zA-Z0-9]{8}$'\<close>\<close>

definition prefix_format_ok :: "string \<Rightarrow> bool" where
  "prefix_format_ok p = (has_prefix p ''urlsk_'' \<and> length p = 14 \<and> list_all ascii_alnum (drop 6 p))"

definition key_row_checks :: "api_key \<Rightarrow> pgx_err option" where
  "key_row_checks k =
     (if char_length (k_name k) < 1 \<or> char_length (k_name k) > 100
      then Some (PgxError pg_check_violation ''api_keys_name_length'' [])
      else if \<not> prefix_format_ok (k_prefix k)
      then Some (PgxError pg_check_violation ''api_keys_prefix_format'' [])
      else if \<not> set (k_scopes k) \<subseteq> {''read'', ''write'', ''admin''}
      then Some (PgxError pg_check_violation ''api_keys_scopes_valid'' [])
      else None)"

text \<open>The two parameters \<open>NULL\<close> of the statement: a new key is neither revoked nor used.\<close>

definition insert_key :: "api_key \<Rightarrow> key_db \<Rightarrow> (pgx_err + unit) \<times> key_db" where
  "insert_key k db =
     (case key_row_checks k of
        Some e \<Rightarrow> (Inl e, db)
      | None \<Rightarrow>
          if k_id k \<in> k_id ` set (kdb_rows db) then (Inl (PgxError pg_unique_violation ''api_keys_pkey'' []), db)
          else if k_workspace_id k \<notin> set (kdb_workspaces db)
          then (Inl (PgxError pg_foreign_key_violation ''api_keys_workspace_fk'' []), db)
          else (Inr (), db\<lparr>kdb_rows := kdb_rows db @ [pg_key (k\<lparr>k_revoked_at := None, k_last_used_at := None\<rparr>)]\<rparr>))"

text \<open>A statement that fails in the driver, or runs.\<close>

definition key_stmt :: "(key_db \<Rightarrow> (pgx_err + 'a) \<times> key_db) \<Rightarrow> key_db \<Rightarrow> (pgx_err + 'a) \<times> key_db" where
  "key_stmt f db =
     (case next_fault (kdb_faults db) of
        (Some e, fs) \<Rightarrow> (Inl e, db\<lparr>kdb_faults := fs\<rparr>)
      | (None, fs) \<Rightarrow> f (db\<lparr>kdb_faults := fs\<rparr>))"

definition key_wrap :: "string \<Rightarrow> pgx_err \<Rightarrow> gerr" where
  "key_wrap pre e = EWrap pre (EOther (pgx_err_text e)) []"

section \<open>Repository methods\<close>

definition key_repo_create :: "api_key \<Rightarrow> key_db \<Rightarrow> unit result \<times> key_db" where
  "key_repo_create k db =
     (case key_stmt (insert_key k) db of
        (Inl e, db') \<Rightarrow> (Inl (EWrap ''inserting api key: '' (translate_error e ''api_keys'') []), db')
      | (Inr _, db') \<Rightarrow> (Inr (), db'))"

definition key_repo_get_by_prefix :: "gotime \<Rightarrow> string \<Rightarrow> key_db \<Rightarrow> api_key list result \<times> key_db" where
  "key_repo_get_by_prefix now p db =
     (case key_stmt (\<lambda>d. (Inr (filter (\<lambda>k. k_prefix k = p \<and> key_live now k) (kdb_rows d)), d)) db of
        (Inl e, db') \<Rightarrow> (Inl (key_wrap ''querying api keys by prefix: '' e), db')
      | (Inr ks, db') \<Rightarrow> (Inr ks, db'))"

definition key_repo_get_by_id :: "string \<Rightarrow> string \<Rightarrow> key_db \<Rightarrow> api_key result \<times> key_db" where
  "key_repo_get_by_id i ws db =
     (case key_stmt (\<lambda>d. (case List.find (key_at i ws) (key_view d) of None \<Rightarrow> Inl PgxNoRows | Some k \<Rightarrow> Inr k, d)) db of
        (Inl e, db') \<Rightarrow>
          (if e = PgxNoRows then Inl (EKey KeyErrNotFound) else Inl (key_wrap ''getting api key by id: '' e), db')
      | (Inr k, db') \<Rightarrow> (Inr k, db'))"

definition key_repo_list :: "string \<Rightarrow> key_db \<Rightarrow> api_key list result \<times> key_db" where
  "key_repo_list ws db =
     (case key_stmt (\<lambda>d. (Inr (sort_key (\<lambda>k. - k_created_at k)
                (filter (\<lambda>k. k_workspace_id k = ws \<and> k_revoked_at k = None) (key_view d))), d)) db of
        (Inl e, db') \<Rightarrow> (Inl (key_wrap ''listing api keys: '' e), db')
      | (Inr ks, db') \<Rightarrow> (Inr ks, db'))"

text \<open>No row affected: a second query on the primary tells a revoked key from a missing one.\<close>

definition key_repo_revoke :: "gotime \<Rightarrow> string \<Rightarrow> string \<Rightarrow> key_db \<Rightarrow> unit result \<times> key_db" where
  "key_repo_revoke now i ws db =
     (case key_stmt (\<lambda>d. (Inr (length (filter (\<lambda>k. key_at i ws k \<and> k_revoked_at k = None) (kdb_rows d))),
                          d\<lparr>kdb_rows := set_revoked (pg_time now) i ws (kdb_rows d)\<rparr>)) db of
        (Inl e, db1) \<Rightarrow> (Inl (key_wrap ''revoking api key: '' e), db1)
      | (Inr n, db1) \<Rightarrow>
          if n \<noteq> 0 then (Inr (), db1)
          else
            (case key_stmt (\<lambda>d. (case List.find (key_at i ws) (kdb_rows d) of
                                   None \<Rightarrow> Inl PgxNoRows | Some k \<Rightarrow> Inr (k_revoked_at k), d)) db1 of
               (Inl e, db2) \<Rightarrow> (Inl (EKey KeyErrNotFound), db2)
             | (Inr r, db2) \<Rightarrow>
                 (if r \<noteq> None then Inl (EKey KeyErrAlreadyRevoked) else Inl (EKey KeyErrNotFound), db2)))"

definition key_repo_update_last_used :: "gotime \<Rightarrow> string \<Rightarrow> key_db \<Rightarrow> unit result \<times> key_db" where
  "key_repo_update_last_used now i db =
     (case key_stmt (\<lambda>d. (Inr (), d\<lparr>kdb_rows := set_last_used (pg_time now) i (kdb_rows d)\<rparr>)) db of
        (Inl e, db') \<Rightarrow> (Inl (EOther (pgx_err_text e)), db')
      | (Inr _, db') \<Rightarrow> (Inr (), db'))"

definition pg_keys :: "key_db apikey_repository" where
  "pg_keys = \<lparr>kr_create = key_repo_create, kr_get_by_prefix = key_repo_get_by_prefix, kr_get_by_id = key_repo_get_by_id,
     kr_list = key_repo_list, kr_revoke = key_repo_revoke, kr_update_last_used = key_repo_update_last_used\<rparr>"

section \<open>The repository meets its contract\<close>

lemma key_stmt_Inr: "key_stmt f db = (Inr x, db') \<Longrightarrow> \<exists>fs. f (db\<lparr>kdb_faults := fs\<rparr>) = (Inr x, db')"
  by (auto simp: key_stmt_def split: prod.splits option.splits)

lemma key_stmt_cases:
  "key_stmt f db = (r, db') \<Longrightarrow> \<exists>fs. (db' = db\<lparr>kdb_faults := fs\<rparr> \<and> isl r) \<or> f (db\<lparr>kdb_faults := fs\<rparr>) = (r, db')"
  by (auto simp: key_stmt_def split: prod.splits option.splits)

lemma key_stmt_read:
  "key_stmt (\<lambda>d. (g d, d)) db = (r, db') \<Longrightarrow> kdb_rows db' = kdb_rows db \<and> kdb_replica db' = kdb_replica db
     \<and> kdb_workspaces db' = kdb_workspaces db"
  by (auto simp: key_stmt_def split: prod.splits option.splits)

lemma insert_key_rows:
  "insert_key k db = (Inr v, db') \<Longrightarrow> kdb_rows db' = kdb_rows db @ [pg_key (k\<lparr>k_revoked_at := None, k_last_used_at := None\<rparr>)]
     \<and> k_id k \<notin> k_id ` set (kdb_rows db) \<and> key_row_checks k = None \<and> k_workspace_id k \<in> set (kdb_workspaces db)"
  "insert_key k db = (Inl e, db') \<Longrightarrow> kdb_rows db' = kdb_rows db"
  by (auto simp: insert_key_def split: option.splits if_splits)

lemma key_repo_create_Inr:
  "key_repo_create k db = (Inr v, db') \<Longrightarrow>
     kdb_rows db' = kdb_rows db @ [pg_key (k\<lparr>k_revoked_at := None, k_last_used_at := None\<rparr>)]
     \<and> k_id k \<notin> k_id ` set (kdb_rows db) \<and> key_row_checks k = None \<and> k_workspace_id k \<in> set (kdb_workspaces db)"
  by (auto simp: key_repo_create_def split: prod.splits sum.splits dest!: key_stmt_Inr insert_key_rows(1))

lemma key_repo_create_Inl: "key_repo_create k db = (Inl e, db') \<Longrightarrow> kdb_rows db' = kdb_rows db"
  by (auto simp: key_repo_create_def split: prod.splits sum.splits dest!: key_stmt_cases insert_key_rows(2))

lemma set_revoked_none: "filter (\<lambda>k. key_at i ws k \<and> k_revoked_at k = None) ks = [] \<Longrightarrow> set_revoked t i ws ks = ks"
  by (induction ks) (auto simp: set_revoked_def split: if_splits)

text \<open>The revocation: either one row is affected and marked, or the table stays.\<close>

lemma key_repo_revoke_cases:
  assumes "key_repo_revoke now i ws db = (r, db')"
  shows "(isl r \<and> kdb_rows db' = kdb_rows db)
    \<or> (r = Inr () \<and> kdb_rows db' = set_revoked (pg_time now) i ws (kdb_rows db)
       \<and> (\<exists>k \<in> set (kdb_rows db). key_at i ws k \<and> k_revoked_at k = None))"
  using assms
  by (auto simp: key_repo_revoke_def filter_empty_conv set_revoked_none filter_eq_Cons_iff split: prod.splits sum.splits if_splits
      dest!: key_stmt_cases key_stmt_read)

definition key_row :: "api_key \<Rightarrow> api_key" where
  "key_row k = pg_key (k\<lparr>k_revoked_at := None, k_last_used_at := None\<rparr>)"

interpretation pg_keys: apikey_store pg_keys kdb_rows key_row
proof unfold_locales
  fix k
  have "pg_time = (\<lambda>t. t div 1000 * 1000)" by (simp add: pg_time_def fun_eq_iff)
  then show "same_credential k (key_row k) \<and> k_revoked_at (key_row k) = None
      \<and> k_expires_at (key_row k) = map_option (\<lambda>t. t div 1000 * 1000) (k_expires_at k)"
    by (simp add: key_row_def pg_key_def same_credential_def)
next
  fix k v and db db' :: key_db
  assume "kr_create pg_keys k db = (Inr v, db')"
  then show "kdb_rows db' = kdb_rows db @ [key_row k] \<and> k_id k \<notin> k_id ` set (kdb_rows db)"
    by (auto simp: pg_keys_def key_row_def dest!: key_repo_create_Inr)
next
  fix now p ks and db db' :: key_db
  assume "kr_get_by_prefix pg_keys now p db = (Inr ks, db')"
  then show "ks = filter (\<lambda>k. k_prefix k = p \<and> key_live now k) (kdb_rows db)"
    by (auto simp: pg_keys_def key_repo_get_by_prefix_def split: prod.splits sum.splits dest!: key_stmt_Inr)
next
  fix now i ws v and db db' :: key_db
  assume "kr_revoke pg_keys now i ws db = (Inr v, db')"
  then show "(\<exists>k \<in> set (kdb_rows db). key_at i ws k \<and> k_revoked_at k = None)
      \<and> (\<exists>t. kdb_rows db' = set_revoked t i ws (kdb_rows db))"
    by (auto simp: pg_keys_def dest!: key_repo_revoke_cases)
next
  fix now i ws e and db db' :: key_db
  assume "kr_revoke pg_keys now i ws db = (Inl e, db')"
  then show "kdb_rows db' = kdb_rows db"
    by (auto simp: pg_keys_def dest!: key_repo_revoke_cases)
next
  fix now i ru and db db' :: key_db
  assume "kr_update_last_used pg_keys now i db = (ru, db')"
  then show "kdb_rows db' = kdb_rows db \<or> (\<exists>t. kdb_rows db' = set_last_used t i (kdb_rows db))"
    by (auto simp: pg_keys_def key_repo_update_last_used_def split: prod.splits sum.splits dest!: key_stmt_cases)
qed (auto simp: pg_keys_def key_repo_get_by_prefix_def key_repo_list_def key_repo_create_Inl split: prod.splits sum.splits
       dest!: key_stmt_read)

end
