(* ===== verification/ApiKeyAuth.thy ===== *)
theory ApiKeyAuth
  imports ApiKeyRepo Http
begin

text \<open>
  The API key middleware, \<open>internal/interfaces/http/middleware/apikey.go\<close>: a key in the \<open>X-API-Key\<close> or
  \<open>Authorization\<close> header becomes the claims of the request, a request without one goes on to the JWT
  middleware. The update of \<open>last_used_at\<close> runs in a goroutine of its own: starting it is a function of
  the state, what it does a step that comes later.
\<close>

section \<open>The middleware\<close>

definition extract_api_key :: "request \<Rightarrow> string option" where
  "extract_api_key r =
     (let v = rq_header r ''X-API-Key'';
          auth = rq_header r ''Authorization''
      in if v \<noteq> [] \<and> has_prefix v api_key_prefix then Some v
         else if auth \<noteq> [] then
           (case str_cut auth (CHR '' '') of
              None \<Rightarrow> None
            | Some (scheme, token) \<Rightarrow>
                if to_lower scheme = ''bearer'' \<and> has_prefix token api_key_prefix then Some token else None)
         else None)"

definition write_api_key_error :: "request \<Rightarrow> response" where
  "write_api_key_error r = write_problem
     \<lparr>p_type = problem_type_unauthenticated, p_title = ''Unauthorized'', p_status = 401,
      p_detail = ''Your request could not be authenticated. Provide a valid API key.'', p_instance = rq_path r,
      p_errors = []\<rparr>"

definition expires_at_or_far :: "gotime \<Rightarrow> gotime option \<Rightarrow> gotime" where
  "expires_at_or_far now t = (case t of None \<Rightarrow> now + 100 * 365 * 24 * hour | Some e \<Rightarrow> e)"

definition claims_of_key :: "gotime \<Rightarrow> api_key \<Rightarrow> claims" where
  "claims_of_key now k =
     \<lparr>cl_user_id = k_created_by k, cl_token_id = k_id k, cl_workspace_id = k_workspace_id k,
      cl_scope = scope_string k, cl_issuer = ''apikey'', cl_audiences = [], cl_issued_at = k_created_at k,
      cl_expires_at = expires_at_or_far now (k_expires_at k)\<rparr>"

definition apikey_auth ::
  "'salt bcrypt \<Rightarrow> 's apikey_repository \<Rightarrow> (string \<Rightarrow> 's \<Rightarrow> 's) \<Rightarrow> gotime \<Rightarrow> 's handler \<Rightarrow> 's handler" where
  "apikey_auth bc lookup spawn_touch now next_h r s =
     (case extract_api_key r of
        None \<Rightarrow> next_h r s
      | Some raw \<Rightarrow>
          let p = extract_prefix raw in
          if p = [] then (write_api_key_error r, s)
          else
            (case kr_get_by_prefix lookup now p s of
               (Inl err, s1) \<Rightarrow> (resp_internal_error (rq_path r), s1)
             | (Inr candidates, s1) \<Rightarrow>
                 (case List.find (\<lambda>k. verify_key bc raw (k_hash k)) candidates of
                    None \<Rightarrow> (write_api_key_error r, s1)
                  | Some matched \<Rightarrow>
                      next_h (with_claims (claims_of_key now matched) r) (spawn_touch (k_id matched) s1))))"

text \<open>The goroutine, once it runs; its error is only logged.\<close>

definition touch_task :: "'s apikey_repository \<Rightarrow> gotime \<Rightarrow> string \<Rightarrow> 's \<Rightarrow> 's" where
  "touch_task lookup now i s = snd (kr_update_last_used lookup now i s)"

section \<open>Lemmas\<close>

lemma apikey_auth_cases:
  assumes "apikey_auth bc lookup spawn now h r s = (resp, s')"
  obtains (No_key) "extract_api_key r = None" "h r s = (resp, s')"
  | (Refused) raw where "extract_api_key r = Some raw" "rs_status resp \<in> {401, 500}"
      "s' = s \<or> (\<exists>p ks. kr_get_by_prefix lookup now p s = (ks, s'))"
  | (Key) raw k ks s1 where "extract_api_key r = Some raw" "extract_prefix raw \<noteq> []"
      "kr_get_by_prefix lookup now (extract_prefix raw) s = (Inr ks, s1)" "k \<in> set ks" "verify_key bc raw (k_hash k)"
      "h (with_claims (claims_of_key now k) r) (spawn (k_id k) s1) = (resp, s')"
proof (cases "extract_api_key r")
  case None
  with assms No_key show thesis by (simp add: apikey_auth_def)
next
  case (Some raw)
  show thesis
  proof (cases "extract_prefix raw = []")
    case True
    with assms Some Refused [OF Some] show thesis by (auto simp: apikey_auth_def write_api_key_error_def)
  next
    case False
    obtain ks s1 where g: "kr_get_by_prefix lookup now (extract_prefix raw) s = (ks, s1)" by fastforce
    show thesis
    proof (cases "\<exists>k cs. ks = Inr cs \<and> List.find (\<lambda>k. verify_key bc raw (k_hash k)) cs = Some k")
      case True
      then obtain k cs where k: "ks = Inr cs" "List.find (\<lambda>k. verify_key bc raw (k_hash k)) cs = Some k" by blast
      from find_Some [OF k(2)] have "k \<in> set cs" "verify_key bc raw (k_hash k)" by auto
      with Key [OF Some False] g k assms Some False show thesis by (simp add: apikey_auth_def Let_def)
    next
      case no: False
      with g assms Some False have "rs_status resp \<in> {401, 500} \<and> s' = s1"
        by (cases ks) (auto simp: apikey_auth_def Let_def write_api_key_error_def resp_internal_error_def split: option.splits)
      with Refused [OF Some] g show thesis by auto
    qed
  qed
qed

text \<open>Whose requests pass: those of a stored key that is live.\<close>

context apikey_store
begin

lemma passed_key_live:
  assumes "kr_get_by_prefix repo now p s = (Inr ks, s')" and "k \<in> set ks"
  shows "k \<in> set (keys s) \<and> k_prefix k = p \<and> key_live now k"
  using assms(2) prefix_ok [OF assms(1)] by auto

lemma auth_keeps:
  assumes "apikey_auth bc repo spawn now h r s = (resp, s')"
    and "\<And>i s. keys (spawn i s) = keys s" and "\<And>r s resp s'. h r s = (resp, s') \<Longrightarrow> P (keys s) \<Longrightarrow> P (keys s')"
    and "P (keys s)"
  shows "P (keys s')"
  using assms(1)
proof (cases rule: apikey_auth_cases)
  case (Key raw k ks s1)
  with prefix_frame [OF Key(3)] assms(2,4) have "P (keys (spawn (k_id k) s1))" by simp
  with Key(6) assms(3) show ?thesis by blast
qed (use assms prefix_frame in auto)

end

end
