(* ===== verification/ApiKeySystem.thy ===== *)
theory ApiKeySystem
  imports ApiKeyAuth WorkspaceSystem
begin

text \<open>
  API keys in a deployment: the key table, the membership tables and the goroutines that are still to update
  \<open>last_used_at\<close>, with the use cases and the middleware as steps that interleave with everything else.
  The properties of the component follow.
\<close>

section \<open>The deployment\<close>

record key_world =
  kw_keys :: key_db
  kw_members :: ws_db
  kw_tasks :: "string list"

definition on_keys :: "(key_db \<Rightarrow> 'a \<times> key_db) \<Rightarrow> key_world \<Rightarrow> 'a \<times> key_world" where
  "on_keys f w = (case f (kw_keys w) of (r, db) \<Rightarrow> (r, w\<lparr>kw_keys := db\<rparr>))"

definition on_members :: "(ws_db \<Rightarrow> 'a \<times> ws_db) \<Rightarrow> key_world \<Rightarrow> 'a \<times> key_world" where
  "on_members f w = (case f (kw_members w) of (r, db) \<Rightarrow> (r, w\<lparr>kw_members := db\<rparr>))"

definition kw_repo :: "key_world apikey_repository" where
  "kw_repo = \<lparr>kr_create = \<lambda>k. on_keys (key_repo_create k),
     kr_get_by_prefix = \<lambda>now p. on_keys (key_repo_get_by_prefix now p),
     kr_get_by_id = \<lambda>i ws. on_keys (key_repo_get_by_id i ws), kr_list = \<lambda>ws. on_keys (key_repo_list ws),
     kr_revoke = \<lambda>now i ws. on_keys (key_repo_revoke now i ws),
     kr_update_last_used = \<lambda>now i. on_keys (key_repo_update_last_used now i)\<rparr>"

definition kw_member_repo :: "key_world member_repository" where
  "kw_member_repo = \<lparr>mr_add_member = \<lambda>m. on_members (ws_repo_add_member m),
     mr_get_member = \<lambda>ws uid. on_members (ws_repo_get_member ws uid),
     mr_list_members = \<lambda>ws. on_members (ws_repo_list_members ws),
     mr_update_role = \<lambda>ws uid r. on_members (ws_repo_update_role ws uid r),
     mr_remove_member = \<lambda>ws uid. on_members (ws_repo_remove_member ws uid)\<rparr>"

definition spawn_touch :: "string \<Rightarrow> key_world \<Rightarrow> key_world" where
  "spawn_touch i w = w\<lparr>kw_tasks := kw_tasks w @ [i]\<rparr>"

abbreviation kw_rows :: "key_world \<Rightarrow> api_key list" where "kw_rows w \<equiv> kdb_rows (kw_keys w)"

lemma on_keys_eq: "on_keys f w = (r, w') \<longleftrightarrow> (\<exists>db. f (kw_keys w) = (r, db) \<and> w' = w\<lparr>kw_keys := db\<rparr>)"
  by (auto simp: on_keys_def split: prod.splits)

lemma on_members_eq: "on_members f w = (r, w') \<longleftrightarrow> (\<exists>db. f (kw_members w) = (r, db) \<and> w' = w\<lparr>kw_members := db\<rparr>)"
  by (auto simp: on_members_def split: prod.splits)

lemmas pg_key_laws = pg_keys.create_ok pg_keys.create_err pg_keys.prefix_ok pg_keys.prefix_frame pg_keys.list_frame
  pg_keys.revoke_ok pg_keys.revoke_err pg_keys.touch_ok

lemmas pg_key_call_laws = pg_key_laws [unfolded pg_keys_def apikey_repository.simps]

interpretation kw: apikey_store kw_repo kw_rows key_row
proof unfold_locales
  show "same_credential k (key_row k) \<and> k_revoked_at (key_row k) = None
      \<and> k_expires_at (key_row k) = map_option (\<lambda>t. t div 1000 * 1000) (k_expires_at k)" for k
    by (rule pg_keys.row)
  show "kr_create kw_repo k s = (Inr v, s') \<Longrightarrow> kw_rows s' = kw_rows s @ [key_row k] \<and> k_id k \<notin> k_id ` set (kw_rows s)"
    for k s v s'
    using pg_key_call_laws(1) by (auto simp: kw_repo_def on_keys_eq)
  show "kr_create kw_repo k s = (Inl e, s') \<Longrightarrow> kw_rows s' = kw_rows s" for k s e s'
    using pg_key_call_laws(2) by (auto simp: kw_repo_def on_keys_eq)
  show "kr_get_by_prefix kw_repo now p s = (Inr ks, s') \<Longrightarrow> ks = filter (\<lambda>k. k_prefix k = p \<and> key_live now k) (kw_rows s)"
    for now p s ks s'
    using pg_key_call_laws(3) by (auto simp: kw_repo_def on_keys_eq)
  show "kr_get_by_prefix kw_repo now p s = (rp, s') \<Longrightarrow> kw_rows s' = kw_rows s" for now p s rp s'
    using pg_key_call_laws(4) by (auto simp: kw_repo_def on_keys_eq)
  show "kr_list kw_repo ws s = (rl, s') \<Longrightarrow> kw_rows s' = kw_rows s" for ws s rl s'
    using pg_key_call_laws(5) by (auto simp: kw_repo_def on_keys_eq)
  show "kr_revoke kw_repo now i ws s = (Inr v, s') \<Longrightarrow>
      (\<exists>k \<in> set (kw_rows s). key_at i ws k \<and> k_revoked_at k = None) \<and> (\<exists>t. kw_rows s' = set_revoked t i ws (kw_rows s))"
    for now i ws s v s'
    using pg_key_call_laws(6) by (auto simp: kw_repo_def on_keys_eq)
  show "kr_revoke kw_repo now i ws s = (Inl e, s') \<Longrightarrow> kw_rows s' = kw_rows s" for now i ws s e s'
    using pg_key_call_laws(7) by (auto simp: kw_repo_def on_keys_eq)
  show "kr_update_last_used kw_repo now i s = (ru, s') \<Longrightarrow>
      kw_rows s' = kw_rows s \<or> (\<exists>t. kw_rows s' = set_last_used t i (kw_rows s))" for now i s ru s'
    by (auto simp: kw_repo_def on_keys_eq dest!: pg_key_call_laws(8))
qed

section \<open>Steps\<close>

inductive key_step :: "'salt bcrypt \<Rightarrow> key_world \<Rightarrow> key_world \<Rightarrow> bool" for bc where
  create: "create_key_handle bc kw_repo now ulid rand salt cmd w = (rc, w') \<Longrightarrow> key_step bc w w'"
| list: "list_keys_handle kw_repo kw_member_repo ws uid w = (rl, w') \<Longrightarrow> key_step bc w w'"
| revoke: "revoke_key_handle kw_repo kw_member_repo now rcmd w = (rr, w') \<Longrightarrow> key_step bc w w'"
| auth: "apikey_auth bc kw_repo spawn_touch now (\<lambda>r s. (answer r, s)) rq w = (resp, w') \<Longrightarrow> key_step bc w w'"
| touch: "kw_tasks w = xs @ i # ys \<Longrightarrow> w' = touch_task kw_repo now i (w\<lparr>kw_tasks := xs @ ys\<rparr>) \<Longrightarrow> key_step bc w w'"
| members: "ws_step (kw_members w) db \<Longrightarrow> key_step bc w (w\<lparr>kw_members := db\<rparr>)"
| replicate: "key_step bc w (w\<lparr>kw_keys := replicate_keys (kw_keys w)\<rparr>)"
| faults: "key_step bc w (w\<lparr>kw_keys := (kw_keys w)\<lparr>kdb_faults := fs\<rparr>\<rparr>)"

inductive key_reachable :: "'salt bcrypt \<Rightarrow> key_world \<Rightarrow> key_world \<Rightarrow> bool" for bc w0 where
  start: "key_reachable bc w0 w0"
| more: "key_reachable bc w0 w \<Longrightarrow> key_step bc w w' \<Longrightarrow> key_reachable bc w0 w'"

lemma member_read_rows: "mr_get_member kw_member_repo ws uid w = (r, w') \<Longrightarrow> kw_rows w' = kw_rows w"
  by (auto simp: kw_member_repo_def on_members_eq)

text \<open>What a revocation can do to the table.\<close>

lemma revoke_handle_rows:
  assumes "revoke_key_handle kw_repo kw_member_repo now cmd w = (r, w')"
  shows "kw_rows w' = kw_rows w \<or> (\<exists>t. kw_rows w' = set_revoked t (rk_key_id cmd) (rk_workspace_id cmd) (kw_rows w))"
proof -
  obtain m w1 where g: "mr_get_member kw_member_repo (rk_workspace_id cmd) (rk_requesting_user_id cmd) w = (m, w1)" by fastforce
  obtain v w2 where k: "kr_revoke kw_repo now (rk_key_id cmd) (rk_workspace_id cmd) w1 = (v, w2)" by fastforce
  have "w' = w1 \<or> w' = w2"
    using assms g k by (auto simp: revoke_key_handle_def split: sum.splits if_splits)
  moreover have "kw_rows w1 = kw_rows w" by (rule member_read_rows [OF g])
  ultimately show ?thesis using k kw.revoke_ok [of now _ _ w1 _ w2] kw.revoke_err [of now _ _ w1 _ w2] by (cases v) auto
qed

text \<open>Every step keeps a revoked key revoked, and the IDs distinct.\<close>

lemma key_step_keeps:
  assumes "key_step bc w w'"
    and create: "\<And>now ulid rand salt cmd rc. create_key_handle bc kw_repo now ulid rand salt cmd w = (rc, w') \<Longrightarrow> P (kw_rows w')"
    and revoke: "\<And>t i ws. P (set_revoked t i ws (kw_rows w))" and touch: "\<And>t i. P (set_last_used t i (kw_rows w))"
    and same: "P (kw_rows w)"
  shows "P (kw_rows w')"
  using assms(1)
proof (cases rule: key_step.cases)
  case (create now ulid rand salt cmd rc)
  then show ?thesis by (rule assms(2))
next
  case (list ws uid rl)
  then have "kw_rows w' = kw_rows w"
    by (auto simp: list_keys_handle_def dest!: member_read_rows kw.list_frame split: prod.splits sum.splits if_splits)
  with same show ?thesis by simp
next
  case (revoke now rcmd rr)
  from revoke_handle_rows [OF this] same assms(3) show ?thesis by auto
next
  case (auth now answer rq resp)
  then show ?thesis
    by (rule kw.auth_keeps [where P = P]) (auto simp: spawn_touch_def same)
next
  case (touch xs i ys now)
  obtain r w1 where u: "kr_update_last_used kw_repo now i (w\<lparr>kw_tasks := xs @ ys\<rparr>) = (r, w1)" by fastforce
  with touch(2) have "w' = w1" by (simp add: touch_task_def)
  with kw.touch_ok [OF u] same assms(4) show ?thesis by auto
qed (use same in \<open>auto simp: replicate_keys_def\<close>)

lemma revoked_step: "key_step bc w w' \<Longrightarrow> revoked_in i (kw_rows w) \<Longrightarrow> revoked_in i (kw_rows w')"
  by (erule key_step_keeps) (auto intro: kw.create_handle_keeps revoked_in_set_revoked revoked_in_set_last_used)

lemma distinct_step: "key_step bc w w' \<Longrightarrow> distinct (map k_id (kw_rows w)) \<Longrightarrow> distinct (map k_id (kw_rows w'))"
  by (erule key_step_keeps) (auto intro: kw.create_handle_distinct)

lemma revoked_reachable: "key_reachable bc w0 w \<Longrightarrow> revoked_in i (kw_rows w0) \<Longrightarrow> revoked_in i (kw_rows w)"
  by (induction rule: key_reachable.induct) (auto intro: revoked_step)

lemma distinct_reachable:
  "key_reachable bc w0 w \<Longrightarrow> distinct (map k_id (kw_rows w0)) \<Longrightarrow> distinct (map k_id (kw_rows w))"
  by (induction rule: key_reachable.induct) (auto intro: distinct_step)

end
