(* ===== verification/ApiKeyProperties.thy ===== *)
theory ApiKeyProperties
  imports ApiKeySystem
begin

text \<open>
  What API keys guarantee: which requests pass, that revoking is final, that a new key works, and which
  workspaces cannot have keys at all.
\<close>

section \<open>An example deployment\<close>

text \<open>A hash that shows what it hashes stands for bcrypt.\<close>

definition demo_bcrypt :: "unit bcrypt" where
  "demo_bcrypt = \<lparr>bc_generate = (\<lambda>salt p cost. Inr (CHR ''H'' # p)), bc_compare = (\<lambda>h p. h = CHR ''H'' # p)\<rparr>"

definition demo_raw :: string where "demo_raw = ''urlsk_01ABCDEFcafe''"

definition demo_key :: api_key where
  "demo_key = \<lparr>k_id = ''k1'', k_workspace_id = ''ws1'', k_name = ''ci'', k_hash = CHR ''H'' # sha256sum demo_raw,
     k_prefix = ''urlsk_01ABCDEF'', k_scopes = [''read''], k_created_by = ''u1'', k_created_at = 0, k_expires_at = None,
     k_revoked_at = None, k_last_used_at = None, k_raw_key = []\<rparr>"

definition demo_owner :: member where
  "demo_owner = \<lparr>m_workspace_id = ''ws1'', m_user_id = ''u1'', m_role = ''owner'', m_invited_by = [], m_joined_at = 0\<rparr>"

definition demo_keys :: key_world where
  "demo_keys = \<lparr>kw_keys = \<lparr>kdb_rows = [demo_key], kdb_replica = None, kdb_workspaces = [''ws1'', ''01ABCDEFGH''], kdb_faults = []\<rparr>,
     kw_members = \<lparr>wdb_primary = \<lparr>t_workspaces = [], t_members = [demo_owner]\<rparr>, wdb_replica = None, wdb_faults = []\<rparr>,
     kw_tasks = []\<rparr>"

definition key_request :: "string \<Rightarrow> request" where
  "key_request raw = \<lparr>rq_method = ''GET'', rq_path = ''/api/v1/workspaces'', rq_query = [],
     rq_headers = [(''X-API-Key'', raw)], rq_remote_addr = ''10.0.0.1:5'', rq_params = [], rq_body = BodyUnreadable,
     rq_claims = None, rq_member = None, rq_id = []\<rparr>"

definition whoami :: "'s handler" where
  "whoami r s = (\<lparr>rs_status = 200, rs_headers = [], rs_body = TextBody (workspace_id_from_context r)\<rparr>, s)"

lemma extract_key_request: "has_prefix raw ''urlsk_'' \<Longrightarrow> extract_api_key (key_request raw) = Some raw"
  by (auto simp: extract_api_key_def key_request_def rq_header_def lookup_str_def api_key_prefix_def Let_def has_prefix_def)

lemma demo_extract: "extract_api_key (key_request demo_raw) = Some demo_raw" "extract_prefix demo_raw = ''urlsk_01ABCDEF''"
proof -
  show "extract_api_key (key_request demo_raw) = Some demo_raw"
    by (rule extract_key_request) (simp add: demo_raw_def has_prefix_def)
  show "extract_prefix demo_raw = ''urlsk_01ABCDEF''" by code_simp
qed

lemmas kw_eval = kw_repo_def on_keys_def kw_member_repo_def on_members_def key_stmt_def spawn_touch_def

lemma demo_auth_run:
  "apikey_auth demo_bcrypt kw_repo spawn_touch 5 h (key_request demo_raw) demo_keys
     = h (with_claims (claims_of_key 5 demo_key) (key_request demo_raw)) (spawn_touch ''k1'' demo_keys)"
  by (simp add: apikey_auth_def demo_extract kw_eval key_repo_get_by_prefix_def demo_keys_def
      demo_key_def key_live_def verify_key_def demo_bcrypt_def Let_def)

section \<open>Properties\<close>

text \<open>C8: A request that carries an API key passes the middleware only when a key stored in the primary database has
  the prefix of the one sent, is not revoked, has not run out, and has a hash the sent key verifies against;
  the handler then acts as the creator of that key in its workspace with its scopes. Otherwise the answer is
  401, or 500 when the database failed, and no handler runs.\<close>

theorem apikey_auth_sound:
  assumes "apikey_auth bc kw_repo spawn_touch now h r w = (resp, w')" and "extract_api_key r = Some raw"
  shows "(rs_status resp \<in> {401, 500} \<and> kw_rows w' = kw_rows w)
    \<or> (\<exists>k w1. k \<in> set (kw_rows w) \<and> k_prefix k = take 14 raw \<and> k_revoked_at k = None
         \<and> (case k_expires_at k of None \<Rightarrow> True | Some e \<Rightarrow> now < e) \<and> verify_key bc raw (k_hash k)
         \<and> kw_rows w1 = kw_rows w \<and> h (with_claims (claims_of_key now k) r) w1 = (resp, w'))"
  using assms(1)
proof (cases rule: apikey_auth_cases)
  case (Refused raw')
  then show ?thesis using kw.prefix_frame by auto
next
  case (Key raw' k ks s1)
  then have "raw' = raw" using assms(2) by simp
  with kw.passed_key_live [OF Key(3,4)] extract_prefix_raw [OF Key(2)]
  have "k \<in> set (kw_rows w)" "k_prefix k = take 14 raw" "key_live now k" by auto
  moreover have "kw_rows (spawn_touch (k_id k) s1) = kw_rows w"
    using kw.prefix_frame [OF Key(3)] by (simp add: spawn_touch_def)
  ultimately show ?thesis using Key(5,6) \<open>raw' = raw\<close> unfolding key_live_def by auto
qed (use assms(2) in simp)

theorem apikey_auth_sound_witness:
  "\<exists>k w1. k \<in> set (kw_rows demo_keys) \<and> verify_key demo_bcrypt demo_raw (k_hash k) \<and> kw_rows w1 = kw_rows demo_keys
     \<and> rs_body (fst (whoami (with_claims (claims_of_key 5 k) (key_request demo_raw)) w1)) = TextBody ''ws1''"
proof -
  let ?out = "apikey_auth demo_bcrypt kw_repo spawn_touch 5 whoami (key_request demo_raw) demo_keys"
  have "rs_status (fst ?out) = 200" "rs_body (fst ?out) = TextBody ''ws1''"
    by (simp_all add: demo_auth_run whoami_def workspace_id_from_context_def with_claims_def claims_of_key_def demo_key_def)
  moreover obtain resp w' where out: "?out = (resp, w')" by (rule prod.exhaust)
  ultimately have "rs_status resp = 200" "rs_body resp = TextBody ''ws1''" by simp_all
  with apikey_auth_sound [OF out demo_extract(1)] obtain k w1 where "k \<in> set (kw_rows demo_keys)"
    "verify_key demo_bcrypt demo_raw (k_hash k)" "kw_rows w1 = kw_rows demo_keys"
    "whoami (with_claims (claims_of_key 5 k) (key_request demo_raw)) w1 = (resp, w')" by auto
  with \<open>rs_body resp = TextBody ''ws1''\<close> show ?thesis by (metis fst_conv)
qed

text \<open>C34: Revoking a key is final: once the use case has revoked it, then whatever steps follow (new keys, other
  revocations, authentications, pending updates of \<open>last_used_at\<close>, changes of membership, a replica that
  catches up, failures of the database), no request is ever served on behalf of that key again.\<close>

theorem revoked_key_refused:
  assumes "distinct (map k_id (kw_rows w0))"
    and "revoke_key_handle kw_repo kw_member_repo t0 cmd w0 = (Inr (), w1)"
    and "key_reachable bc w1 w2"
    and "apikey_auth bc kw_repo spawn_touch now h r w2 = (resp, w3)" and "extract_api_key r = Some raw"
  shows "rs_status resp \<in> {401, 500}
    \<or> (\<exists>c w. h (with_claims c r) w = (resp, w3) \<and> cl_token_id c \<noteq> rk_key_id cmd)"
proof -
  obtain m wm where g: "mr_get_member kw_member_repo (rk_workspace_id cmd) (rk_requesting_user_id cmd) w0 = (m, wm)" by fastforce
  then have rows: "kw_rows wm = kw_rows w0" by (rule member_read_rows)
  obtain v wr where k: "kr_revoke kw_repo t0 (rk_key_id cmd) (rk_workspace_id cmd) wm = (v, wr)" by fastforce
  with assms(2) g have "v = Inr () \<and> wr = w1"
    by (auto simp: revoke_key_handle_def split: sum.splits if_splits)
  with k kw.revoke_marks [of t0 "rk_key_id cmd" "rk_workspace_id cmd" wm "()" w1] assms(1) rows
  have "revoked_in (rk_key_id cmd) (kw_rows w1)" by simp
  with revoked_reachable [OF assms(3)] have rev: "revoked_in (rk_key_id cmd) (kw_rows w2)" .
  from assms(4) show ?thesis
  proof (cases rule: apikey_auth_cases)
    case (Key raw' k ks s1)
    with kw.revoked_not_found [OF rev Key(3)] have "k_id k \<noteq> rk_key_id cmd" using imageI [OF Key(4)] by metis
    then have "cl_token_id (claims_of_key now k) \<noteq> rk_key_id cmd" by (simp add: claims_of_key_def)
    with Key show ?thesis by blast
  qed (use assms(5) in auto)
qed

definition demo_revoke :: revoke_key_command where
  "demo_revoke = \<lparr>rk_key_id = ''k1'', rk_workspace_id = ''ws1'', rk_requesting_user_id = ''u1''\<rparr>"

theorem revoked_key_refused_witness:
  "\<exists>w1 resp w3. revoke_key_handle kw_repo kw_member_repo 7 demo_revoke demo_keys = (Inr (), w1)
     \<and> apikey_auth demo_bcrypt kw_repo spawn_touch 9 whoami (key_request demo_raw) w1 = (resp, w3)
     \<and> (rs_status resp \<in> {401, 500} \<or> (\<exists>c w. whoami (with_claims c (key_request demo_raw)) w = (resp, w3) \<and> cl_token_id c \<noteq> ''k1''))"
proof -
  have "fst (revoke_key_handle kw_repo kw_member_repo 7 demo_revoke demo_keys) = Inr ()"
    by (simp add: revoke_key_handle_def kw_eval key_repo_revoke_def demo_keys_def ws_repo_get_member_def run_query_def
        find_member_def demo_owner_def first_row_def demo_revoke_def ws_view_def is_member_row_def manage_members_roles role_defs key_at_def
        demo_key_def)
  then obtain w1 where w1: "revoke_key_handle kw_repo kw_member_repo 7 demo_revoke demo_keys = (Inr (), w1)"
    by (metis prod.collapse)
  obtain resp w3 where a: "apikey_auth demo_bcrypt kw_repo spawn_touch 9 whoami (key_request demo_raw) w1 = (resp, w3)"
    by (rule prod.exhaust)
  have d: "distinct (map k_id (kw_rows demo_keys))" by (simp add: demo_keys_def)
  from revoked_key_refused [OF d w1 key_reachable.start a demo_extract(1)] w1 a show ?thesis
    unfolding demo_revoke_def by auto
qed

text \<open>C21: Round trip of creation: the raw key the use case returns authenticates every later request that carries it,
  until it runs out, as its creator in its workspace with exactly the requested scopes. It works at once,
  however far the replica is behind, because the look-up reads the primary; it needs bcrypt to accept its own
  hashes and no older key to verify against the new one.\<close>

theorem created_key_authenticates:
  assumes "\<And>p h. bc_generate bc salt p bcrypt_cost = Inr h \<Longrightarrow> bc_compare bc h p"
    and "create_key_handle bc kw_repo t0 ulid rand salt cmd w = (Inr res, w')"
    and "\<forall>k \<in> set (kw_rows w). \<not> verify_key bc (ckr_raw_key res) (k_hash k)"
    and "kdb_faults (kw_keys w') = []" and "\<forall>e. ck_expires_at cmd = Some e \<longrightarrow> now < pg_time e"
    and "extract_api_key r = Some (ckr_raw_key res)"
  shows "\<exists>c. apikey_auth bc kw_repo spawn_touch now h r w' = h (with_claims c r) (spawn_touch (ckr_id res) w')
     \<and> cl_workspace_id c = ck_workspace_id cmd \<and> cl_user_id c = ck_created_by cmd
     \<and> (\<forall>scope. CHR '' '' \<notin> set scope \<longrightarrow> has_scope (Some c) scope = (scope \<in> set (ck_scopes cmd)))"
proof -
  from assms(2) obtain hs v where val: "validate_create_key cmd = None" and raw: "generate_raw rand (ck_workspace_id cmd) = Inr (ckr_raw_key res)"
    and h: "hash_key bc salt (ckr_raw_key res) = Inr hs"
    and cr: "kr_create kw_repo (new_key t0 ulid (ckr_raw_key res) hs cmd) w = (Inr v, w')" and id: "ckr_id res = ulid"
    by (auto elim: create_key_Inr)
  let ?k = "key_row (new_key t0 ulid (ckr_raw_key res) hs cmd)"
  have rows: "kw_rows w' = kw_rows w @ [?k]" using kw.create_ok [OF cr] by simp
  have fields: "k_prefix ?k = extract_prefix (ckr_raw_key res)" "k_hash ?k = hs" "k_workspace_id ?k = ck_workspace_id cmd"
    "k_created_by ?k = ck_created_by cmd" "k_scopes ?k = ck_scopes cmd" "k_id ?k = ulid" "k_revoked_at ?k = None"
    "k_expires_at ?k = map_option pg_time (ck_expires_at cmd)"
    by (simp_all add: key_row_def pg_key_def new_key_def)
  have "prefix_format_ok (extract_prefix (ckr_raw_key res))"
    using cr by (auto simp: kw_repo_def on_keys_eq new_key_def key_row_checks_def dest!: key_repo_create_Inr split: if_splits)
  then have p: "extract_prefix (ckr_raw_key res) \<noteq> []" by (auto simp: prefix_format_ok_def)
  have live: "key_live now ?k" using assms(5) by (auto simp: key_live_def fields split: option.splits)
  have ok: "verify_key bc (ckr_raw_key res) hs" using assms(1) h by (simp add: verify_key_def hash_key_Inr)
  let ?cs = "filter (\<lambda>k. k_prefix k = extract_prefix (ckr_raw_key res) \<and> key_live now k) (kw_rows w')"
  have get: "kr_get_by_prefix kw_repo now (extract_prefix (ckr_raw_key res)) w' = (Inr ?cs, w')"
    using assms(4) by (simp add: kw_repo_def on_keys_def key_repo_get_by_prefix_def key_stmt_def)
  have "List.find (\<lambda>k. verify_key bc (ckr_raw_key res) (k_hash k)) ?cs = Some ?k"
  proof -
    have "List.find P (filter Q xs @ [x]) = Some x" if "\<forall>y \<in> set xs. \<not> P y" "P x" for P Q and xs :: "api_key list" and x
      using that by (induction xs) auto
    with assms(3) ok show ?thesis by (simp add: rows fields live)
  qed
  then have run: "apikey_auth bc kw_repo spawn_touch now h r w' = h (with_claims (claims_of_key now ?k) r) (spawn_touch ulid w')"
    using assms(6) p get by (simp add: apikey_auth_def fields(1) Let_def) (simp add: new_key_def)
  have "\<forall>s \<in> set (ck_scopes cmd). CHR '' '' \<notin> set s" and "ck_scopes cmd \<noteq> []"
    using val validate_scopes_iff [of "ck_scopes cmd"]
    by (auto simp: validate_create_key_def scope_read_def scope_write_def scope_admin_def split: if_splits)
  then have "split_on (CHR '' '') (scope_string ?k) = ck_scopes cmd"
    by (simp add: scope_string_def fields split_on_str_join)
  then have "has_scope (Some (claims_of_key now ?k)) scope = (scope \<in> set (ck_scopes cmd))" for scope
    using scope_scan_split [of "[]" scope "scope_string ?k"] by (simp add: has_scope_def claims_of_key_def)
  with run id show ?thesis by (intro exI [of _ "claims_of_key now ?k"]) (simp add: claims_of_key_def fields)
qed


text \<open>A key made in a workspace whose ID looks like a ULID.\<close>

definition demo_create_key :: "string \<Rightarrow> create_key_command" where
  "demo_create_key ws = \<lparr>ck_workspace_id = ws, ck_name = ''deploy'', ck_scopes = [''read'', ''write''],
     ck_expires_at = None, ck_created_by = ''u1''\<rparr>"

definition fresh_keys :: key_world where
  "fresh_keys = demo_keys\<lparr>kw_keys := (kw_keys demo_keys)\<lparr>kdb_rows := []\<rparr>\<rparr>"

definition demo_random :: "string + nat list" where "demo_random = Inr (replicate 32 0)"

lemma demo_creation:
  "\<exists>res w'. create_key_handle demo_bcrypt kw_repo 3 ''k2'' demo_random () (demo_create_key ''01ABCDEFGH'') fresh_keys = (Inr res, w')
     \<and> ckr_raw_key res = ''urlsk_01ABCDEF'' @ replicate 64 (CHR ''0'') \<and> kdb_faults (kw_keys w') = []"
proof -
  have hex: "hex_encode (replicate 32 0) = replicate 64 (CHR ''0'')" by code_simp
  let ?raw = "''urlsk_01ABCDEF'' @ replicate 64 (CHR ''0'')"
  have raw: "generate_raw demo_random (ck_workspace_id (demo_create_key ''01ABCDEFGH'')) = Inr ?raw"
    by (simp add: generate_raw_def demo_random_def demo_create_key_def hex)
  have val: "validate_create_key (demo_create_key ''01ABCDEFGH'') = None" by code_simp
  have p: "extract_prefix ?raw = ''urlsk_01ABCDEF''" by code_simp
  have chk: "key_row_checks (new_key 3 ''k2'' ?raw h (demo_create_key ''01ABCDEFGH'')) = None" for h
  proof -
    have "char_length ''deploy'' = 6" "prefix_format_ok ''urlsk_01ABCDEF''" by code_simp+
    then show ?thesis by (simp add: key_row_checks_def new_key_def demo_create_key_def p del: append.simps replicate.simps)
  qed
  show ?thesis
    by (simp add: create_key_handle_def val raw hash_key_def demo_bcrypt_def kw_eval key_repo_create_def fresh_keys_def demo_keys_def
        insert_key_def chk Let_def del: append.simps)
       (simp add: new_key_def demo_create_key_def demo_key_def)
qed

theorem created_key_authenticates_witness:
  "\<exists>res w' c. create_key_handle demo_bcrypt kw_repo 3 ''k2'' demo_random () (demo_create_key ''01ABCDEFGH'') fresh_keys = (Inr res, w')
     \<and> apikey_auth demo_bcrypt kw_repo spawn_touch 4 whoami (key_request (ckr_raw_key res)) w'
        = whoami (with_claims c (key_request (ckr_raw_key res))) (spawn_touch (ckr_id res) w')
     \<and> cl_workspace_id c = ''01ABCDEFGH'' \<and> has_scope (Some c) ''write'' \<and> \<not> has_scope (Some c) ''admin''"
proof -
  obtain res w' where run: "create_key_handle demo_bcrypt kw_repo 3 ''k2'' demo_random () (demo_create_key ''01ABCDEFGH'') fresh_keys = (Inr res, w')"
    and raw: "ckr_raw_key res = ''urlsk_01ABCDEF'' @ replicate 64 (CHR ''0'')" and nf: "kdb_faults (kw_keys w') = []"
    using demo_creation by blast
  have law: "bc_generate demo_bcrypt () p bcrypt_cost = Inr h \<Longrightarrow> bc_compare demo_bcrypt h p" for p h
    by (simp add: demo_bcrypt_def)
  have "\<forall>k \<in> set (kw_rows fresh_keys). \<not> verify_key demo_bcrypt (ckr_raw_key res) (k_hash k)"
    by (simp add: fresh_keys_def)
  moreover have "extract_api_key (key_request (ckr_raw_key res)) = Some (ckr_raw_key res)"
    by (rule extract_key_request) (simp add: raw has_prefix_def)
  moreover have "\<forall>e. ck_expires_at (demo_create_key ''01ABCDEFGH'') = Some e \<longrightarrow> 4 < pg_time e" by (simp add: demo_create_key_def)
  ultimately obtain c where c: "apikey_auth demo_bcrypt kw_repo spawn_touch 4 whoami (key_request (ckr_raw_key res)) w'
        = whoami (with_claims c (key_request (ckr_raw_key res))) (spawn_touch (ckr_id res) w')"
    "cl_workspace_id c = ck_workspace_id (demo_create_key ''01ABCDEFGH'')"
    "\<forall>scope. CHR '' '' \<notin> set scope \<longrightarrow> has_scope (Some c) scope = (scope \<in> set (ck_scopes (demo_create_key ''01ABCDEFGH'')))"
    using created_key_authenticates [OF law run _ nf, of 4 "key_request (ckr_raw_key res)" whoami] by blast
  have "has_scope (Some c) ''write''" "\<not> has_scope (Some c) ''admin''"
    using c(3) by (simp_all add: demo_create_key_def)
  with run c(1,2) show ?thesis by (auto simp: demo_create_key_def)
qed

text \<open>No API key can be created for a workspace whose ID has anything but letters and digits among its first
  eight characters: the key would start with them, and the table only takes prefixes of letters and digits.
  That holds for the seeded \<open>ws_default\<close>. Whatever the command, the random bytes and the state, the use case
  fails and stores nothing.\<close>

theorem no_key_for_such_workspace:
  assumes "c \<in> set (take 8 (ck_workspace_id cmd))" and "\<not> ascii_alnum c"
    and "create_key_handle bc kw_repo now ulid rand salt cmd w = (res, w')"
  shows "isl res \<and> kw_rows w' = kw_rows w"
proof (cases res)
  case (Inl e)
  with assms(3) create_key_Inl [of bc kw_repo now ulid rand salt cmd w e w'] show ?thesis by (auto dest: kw.create_err)
next
  case (Inr r)
  with assms(3) obtain h v where raw: "generate_raw rand (ck_workspace_id cmd) = Inr (ckr_raw_key r)"
    and cr: "kr_create kw_repo (new_key now ulid (ckr_raw_key r) h cmd) w = (Inr v, w')"
    by (auto elim: create_key_Inr)
  have ok: "prefix_format_ok (extract_prefix (ckr_raw_key r))"
    using cr by (auto simp: kw_repo_def on_keys_eq new_key_def key_row_checks_def dest!: key_repo_create_Inr split: if_splits)
  have "(if length (ck_workspace_id cmd) > 8 then take 8 (ck_workspace_id cmd) else ck_workspace_id cmd) = take 8 (ck_workspace_id cmd)"
    by simp
  with raw obtain bs where bs: "ckr_raw_key r = ''urlsk_'' @ take 8 (ck_workspace_id cmd) @ hex_encode bs"
    by (cases rand) (simp_all only: generate_raw_def Let_def sum.case sum.inject sum.simps, metis)
  from ok have "extract_prefix (ckr_raw_key r) \<noteq> []" by (auto simp: prefix_format_ok_def)
  from extract_prefix_raw [OF this] bs
  have "drop 6 (extract_prefix (ckr_raw_key r)) = take 8 (take 8 (ck_workspace_id cmd) @ hex_encode bs)" by simp
  with assms(1) have "c \<in> set (drop 6 (extract_prefix (ckr_raw_key r)))" by simp
  with ok assms(2) show ?thesis by (simp add: prefix_format_ok_def list_all_iff)
qed

theorem no_key_for_such_workspace_witness:
  "\<forall>bs w. isl (fst (create_key_handle demo_bcrypt kw_repo 3 ''k2'' (Inr bs) () (demo_create_key ''ws_default'') w))"
proof (intro allI)
  fix bs w
  obtain res w' where "create_key_handle demo_bcrypt kw_repo 3 ''k2'' (Inr bs) () (demo_create_key ''ws_default'') w = (res, w')"
    by (rule prod.exhaust)
  moreover have "CHR ''_'' \<in> set (take 8 (ck_workspace_id (demo_create_key ''ws_default'')))" "\<not> ascii_alnum (CHR ''_'')" by code_simp+
  ultimately show "isl (fst (create_key_handle demo_bcrypt kw_repo 3 ''k2'' (Inr bs) () (demo_create_key ''ws_default'') w))"
    using no_key_for_such_workspace [of "CHR ''_''" "demo_create_key ''ws_default''"] by force
qed

end
