(* ===== verification/WebhookRepo.thy ===== *)
theory WebhookRepo
  imports Webhook Postgres
begin

text \<open>
  \<open>internal/infrastructure/postgres/webhook_repository.go\<close> over the tables \<open>webhooks\<close> and
  \<open>webhook_deliveries\<close> of \<open>deployments/migrations/000008_create_webhooks.up.sql\<close>. Deleting a webhook deletes
  its deliveries. \<open>ClaimPending\<close> is one statement: it marks the jobs it returns.
\<close>

record hook_db =
  hdb_hooks :: "webhook list"
  hdb_replica :: "webhook list option"
  hdb_deliveries :: "delivery list"
  hdb_workspaces :: "string list"
  hdb_faults :: faults

definition hook_view :: "hook_db \<Rightarrow> webhook list" where
  "hook_view db = (case hdb_replica db of None \<Rightarrow> hdb_hooks db | Some hs \<Rightarrow> hs)"

definition replicate_hooks :: "hook_db \<Rightarrow> hook_db" where
  "replicate_hooks db = db\<lparr>hdb_replica := map_option (\<lambda>_. hdb_hooks db) (hdb_replica db)\<rparr>"

section \<open>Statements\<close>

definition hook_row_checks :: "webhook \<Rightarrow> pgx_err option" where
  "hook_row_checks w =
     (if wh_events w = [] then Some (PgxError pg_check_violation ''webhooks_events_not_empty'' [])
      else if \<not> set (wh_events w) \<subseteq> set all_event_types
      then Some (PgxError pg_check_violation ''webhooks_events_valid'' [])
      else if char_length (wh_name w) < 1 \<or> char_length (wh_name w) > 100
      then Some (PgxError pg_check_violation ''webhooks_name_length'' [])
      else if wh_status w \<notin> {''active'', ''failing'', ''disabled''}
      then Some (PgxError pg_check_violation ''webhooks_status_check'' [])
      else if char_length (wh_url w) = 0 \<or> char_length (wh_url w) > 2048
      then Some (PgxError pg_check_violation ''webhooks_url_not_empty'' [])
      else None)"

text \<open>The columns the insert leaves out get their defaults.\<close>

definition pg_hook :: "webhook \<Rightarrow> webhook" where
  "pg_hook w = w\<lparr>wh_created_at := pg_time (wh_created_at w), wh_updated_at := pg_time (wh_updated_at w),
     wh_last_success_at := None, wh_last_failure_at := None, wh_failure_count := 0\<rparr>"

definition insert_hook :: "webhook \<Rightarrow> hook_db \<Rightarrow> (pgx_err + unit) \<times> hook_db" where
  "insert_hook w db =
     (case hook_row_checks w of
        Some e \<Rightarrow> (Inl e, db)
      | None \<Rightarrow>
          if wh_id w \<in> wh_id ` set (hdb_hooks db) then (Inl (PgxError pg_unique_violation ''webhooks_pkey'' []), db)
          else if wh_workspace_id w \<notin> set (hdb_workspaces db)
          then (Inl (PgxError pg_foreign_key_violation ''webhooks_workspace_id_fkey'' []), db)
          else (Inr (), db\<lparr>hdb_hooks := hdb_hooks db @ [pg_hook w]\<rparr>))"

definition pg_delivery :: "delivery \<Rightarrow> delivery" where
  "pg_delivery d = d\<lparr>dl_next_attempt_at := pg_time (dl_next_attempt_at d), dl_created_at := pg_time (dl_created_at d),
     dl_last_attempt_at := None, dl_last_http_status := None, dl_last_error := [], dl_delivered_at := None\<rparr>"

definition delivery_row_checks :: "delivery \<Rightarrow> pgx_err option" where
  "delivery_row_checks d =
     (if dl_event_type d \<notin> set all_event_types
      then Some (PgxError pg_check_violation ''webhook_deliveries_event_type_check'' [])
      else if dl_status d \<notin> {''pending'', ''delivering'', ''delivered'', ''failed'', ''abandoned''}
      then Some (PgxError pg_check_violation ''webhook_deliveries_status_check'' [])
      else None)"

definition insert_delivery :: "delivery \<Rightarrow> hook_db \<Rightarrow> (pgx_err + unit) \<times> hook_db" where
  "insert_delivery d db =
     (case delivery_row_checks d of
        Some e \<Rightarrow> (Inl e, db)
      | None \<Rightarrow>
          if dl_id d \<in> dl_id ` set (hdb_deliveries db)
          then (Inl (PgxError pg_unique_violation ''webhook_deliveries_pkey'' []), db)
          else if dl_webhook_id d \<notin> wh_id ` set (hdb_hooks db)
          then (Inl (PgxError pg_foreign_key_violation ''webhook_deliveries_webhook_id_fkey'' []), db)
          else (Inr (), db\<lparr>hdb_deliveries := hdb_deliveries db @ [pg_delivery d]\<rparr>))"

definition hook_stmt :: "(hook_db \<Rightarrow> (pgx_err + 'a) \<times> hook_db) \<Rightarrow> hook_db \<Rightarrow> (pgx_err + 'a) \<times> hook_db" where
  "hook_stmt f db =
     (case next_fault (hdb_faults db) of
        (Some e, fs) \<Rightarrow> (Inl e, db\<lparr>hdb_faults := fs\<rparr>)
      | (None, fs) \<Rightarrow> f (db\<lparr>hdb_faults := fs\<rparr>))"

definition hook_result :: "string \<Rightarrow> (pgx_err + 'a) \<times> hook_db \<Rightarrow> 'a result \<times> hook_db" where
  "hook_result pre r = (case r of (Inl e, db) \<Rightarrow> (Inl (EWrap pre (EOther (pgx_err_text e)) []), db) | (Inr x, db) \<Rightarrow> (Inr x, db))"

text \<open>\<open>UPDATE ... WHERE id = i\<close> on each of the tables; the trigger stamps the webhooks.\<close>

definition update_hooks :: "gotime \<Rightarrow> string \<Rightarrow> (webhook \<Rightarrow> webhook) \<Rightarrow> hook_db \<Rightarrow> (pgx_err + unit) \<times> hook_db" where
  "update_hooks now i f db =
     (Inr (), db\<lparr>hdb_hooks := map (\<lambda>w. if wh_id w = i then (f w)\<lparr>wh_updated_at := pg_time now\<rparr> else w) (hdb_hooks db)\<rparr>)"

definition update_deliveries :: "string \<Rightarrow> (delivery \<Rightarrow> delivery) \<Rightarrow> hook_db \<Rightarrow> (pgx_err + unit) \<times> hook_db" where
  "update_deliveries i f db =
     (Inr (), db\<lparr>hdb_deliveries := map (\<lambda>d. if dl_id d = i then f d else d) (hdb_deliveries db)\<rparr>)"

section \<open>Webhook methods\<close>

definition hook_repo_create :: "webhook \<Rightarrow> hook_db \<Rightarrow> unit result \<times> hook_db" where
  "hook_repo_create w db = hook_result ''insert webhook: '' (hook_stmt (insert_hook w) db)"

definition hook_at :: "string \<Rightarrow> string \<Rightarrow> webhook \<Rightarrow> bool" where
  "hook_at i ws w = (wh_id w = i \<and> wh_workspace_id w = ws)"

definition hook_repo_get_by_id :: "string \<Rightarrow> string \<Rightarrow> hook_db \<Rightarrow> webhook result \<times> hook_db" where
  "hook_repo_get_by_id i ws db =
     (case hook_stmt (\<lambda>d. (case List.find (hook_at i ws) (hdb_hooks d) of None \<Rightarrow> Inl PgxNoRows | Some w \<Rightarrow> Inr w, d)) db of
        (Inl e, db') \<Rightarrow>
          (if e = PgxNoRows then Inl (EHook HookErrNotFound)
           else Inl (EWrap ''get webhook by id: '' (EOther (pgx_err_text e)) []), db')
      | (Inr w, db') \<Rightarrow> (Inr w, db'))"

definition hook_repo_list :: "string \<Rightarrow> int \<Rightarrow> hook_db \<Rightarrow> webhook list result \<times> hook_db" where
  "hook_repo_list ws limit db =
     (let n = (if limit \<le> 0 then 20 else limit) in
      hook_result ''list webhooks: ''
        (hook_stmt (\<lambda>d. (Inr (take (nat n) (sort_key (\<lambda>w. - wh_created_at w)
           (filter (\<lambda>w. wh_workspace_id w = ws) (hook_view d)))), d)) db))"

definition hook_repo_count :: "string \<Rightarrow> hook_db \<Rightarrow> int result \<times> hook_db" where
  "hook_repo_count ws db =
     hook_result ''count webhooks: ''
       (hook_stmt (\<lambda>d. (Inr (int (length (filter (\<lambda>w. wh_workspace_id w = ws \<and> wh_status w \<noteq> ''disabled'') (hook_view d)))), d)) db)"

text \<open>The cascade takes the deliveries of the deleted webhook along.\<close>

definition hook_repo_delete :: "string \<Rightarrow> string \<Rightarrow> hook_db \<Rightarrow> unit result \<times> hook_db" where
  "hook_repo_delete i ws db =
     (case hook_result ''delete webhook: ''
             (hook_stmt (\<lambda>d. (Inr (length (filter (hook_at i ws) (hdb_hooks d))),
                d\<lparr>hdb_hooks := filter (\<lambda>w. \<not> hook_at i ws w) (hdb_hooks d),
                  hdb_deliveries := filter (\<lambda>x. \<not> (\<exists>w \<in> set (hdb_hooks d). hook_at i ws w \<and> wh_id w = dl_webhook_id x))
                    (hdb_deliveries d)\<rparr>)) db) of
        (Inl e, db') \<Rightarrow> (Inl e, db')
      | (Inr n, db') \<Rightarrow> (if n = 0 then Inl (EHook HookErrNotFound) else Inr (), db'))"

definition hook_repo_update_status ::
  "gotime \<Rightarrow> string \<Rightarrow> string \<Rightarrow> int \<Rightarrow> gotime option \<Rightarrow> hook_db \<Rightarrow> unit result \<times> hook_db" where
  "hook_repo_update_status now i status n at db =
     hook_result ''update webhook status: ''
       (hook_stmt (update_hooks now i (\<lambda>w. w\<lparr>wh_status := status, wh_failure_count := n,
          wh_last_failure_at := map_option pg_time at\<rparr>)) db)"

definition hook_repo_update_success :: "gotime \<Rightarrow> string \<Rightarrow> hook_db \<Rightarrow> unit result \<times> hook_db" where
  "hook_repo_update_success at i db =
     hook_result ''update webhook success: ''
       (hook_stmt (update_hooks at i (\<lambda>w. w\<lparr>wh_status := ''active'', wh_failure_count := 0,
          wh_last_success_at := Some (pg_time at), wh_last_failure_at := None\<rparr>)) db)"

definition hook_repo_find_subscribed :: "string \<Rightarrow> string \<Rightarrow> hook_db \<Rightarrow> webhook list result \<times> hook_db" where
  "hook_repo_find_subscribed ws ev db =
     hook_result ''find subscribed webhooks: ''
       (hook_stmt (\<lambda>d. (Inr (filter (\<lambda>w. wh_workspace_id w = ws \<and> wh_status w = ''active'' \<and> ev \<in> set (wh_events w))
          (hook_view d)), d)) db)"

section \<open>Delivery methods\<close>

definition delivery_claim_timeout :: duration where "delivery_claim_timeout = 5 * minute"

definition hook_repo_create_delivery :: "delivery \<Rightarrow> hook_db \<Rightarrow> unit result \<times> hook_db" where
  "hook_repo_create_delivery d db = hook_result ''create webhook delivery: '' (hook_stmt (insert_delivery d) db)"

definition claimable :: "gotime \<Rightarrow> delivery \<Rightarrow> bool" where
  "claimable now d =
     ((dl_status d = ''pending'' \<and> dl_next_attempt_at d \<le> now)
      \<or> (dl_status d = ''delivering''
          \<and> (case dl_last_attempt_at d of None \<Rightarrow> False | Some t \<Rightarrow> t \<le> now - delivery_claim_timeout)))"

definition claim_row :: "gotime \<Rightarrow> delivery \<Rightarrow> delivery" where
  "claim_row now d = d\<lparr>dl_status := ''delivering'', dl_attempt_count := dl_attempt_count d + 1,
     dl_last_attempt_at := Some (pg_time now)\<rparr>"

definition claim_deliveries :: "gotime \<Rightarrow> int \<Rightarrow> hook_db \<Rightarrow> (pgx_err + delivery list) \<times> hook_db" where
  "claim_deliveries now limit db =
     (let n = (if limit \<le> 0 then 50 else limit);
          ids = map dl_id (take (nat n) (sort_key dl_next_attempt_at (filter (claimable now) (hdb_deliveries db))));
          rows = map (\<lambda>d. if dl_id d \<in> set ids then claim_row now d else d) (hdb_deliveries db)
      in (Inr (filter (\<lambda>d. dl_id d \<in> set ids) rows), db\<lparr>hdb_deliveries := rows\<rparr>))"

definition hook_repo_claim :: "gotime \<Rightarrow> int \<Rightarrow> hook_db \<Rightarrow> delivery list result \<times> hook_db" where
  "hook_repo_claim now limit db = hook_result ''claim pending deliveries: '' (hook_stmt (claim_deliveries now limit) db)"

definition hook_repo_mark_delivered :: "string \<Rightarrow> int \<Rightarrow> gotime \<Rightarrow> hook_db \<Rightarrow> unit result \<times> hook_db" where
  "hook_repo_mark_delivered i code at db =
     hook_result ''mark delivery delivered: ''
       (hook_stmt (update_deliveries i (\<lambda>d. d\<lparr>dl_status := ''delivered'', dl_delivered_at := Some (pg_time at),
          dl_last_http_status := Some code\<rparr>)) db)"

text \<open>The attempt count of the caller is not stored.\<close>

definition hook_repo_mark_failed ::
  "string \<Rightarrow> int \<Rightarrow> int option \<Rightarrow> string \<Rightarrow> gotime option \<Rightarrow> hook_db \<Rightarrow> unit result \<times> hook_db" where
  "hook_repo_mark_failed i attempts code msg next_at db =
     (let status = (if next_at \<noteq> None then ''pending'' else ''abandoned'') in
      hook_result ''mark delivery failed: ''
        (hook_stmt (update_deliveries i (\<lambda>d. d\<lparr>dl_status := status, dl_last_http_status := code, dl_last_error := msg,
           dl_next_attempt_at := (case next_at of None \<Rightarrow> dl_next_attempt_at d | Some t \<Rightarrow> pg_time t)\<rparr>)) db))"

definition pg_hooks :: "hook_db webhook_repository" where
  "pg_hooks = \<lparr>hr_create = hook_repo_create, hr_get_by_id = hook_repo_get_by_id, hr_list = hook_repo_list,
     hr_count = hook_repo_count, hr_delete = hook_repo_delete, hr_update_status = hook_repo_update_status,
     hr_update_success = hook_repo_update_success, hr_find_subscribed = hook_repo_find_subscribed\<rparr>"

definition pg_deliveries :: "hook_db delivery_repository" where
  "pg_deliveries = \<lparr>dr_create = hook_repo_create_delivery, dr_claim = hook_repo_claim,
     dr_mark_delivered = hook_repo_mark_delivered, dr_mark_failed = hook_repo_mark_failed\<rparr>"

end
