(* ===== verification/WebhookWorker.thy ===== *)
theory WebhookWorker
  imports Webhook
begin

text \<open>
  What the delivery worker relies on of the repositories and of the network, as a locale, and what follows for
  the worker's own code: which deliveries an iteration may change and how, how often one is posted, and that a
  webhook that is not active is left alone.
\<close>

section \<open>The contract\<close>

text \<open>\<open>f\<close> changes the delivery columns of a row, never which delivery it is.\<close>

definition keeps_delivery :: "(delivery \<Rightarrow> delivery) \<Rightarrow> bool" where
  "keeps_delivery f \<longleftrightarrow> (\<forall>d. dl_id (f d) = dl_id d \<and> dl_webhook_id (f d) = dl_webhook_id d
     \<and> dl_attempt_count (f d) = dl_attempt_count d)"

definition update_at :: "string \<Rightarrow> (delivery \<Rightarrow> delivery) \<Rightarrow> delivery list \<Rightarrow> delivery list" where
  "update_at i f = map (\<lambda>d. if dl_id d = i then f d else d)"

definition post_header :: "string \<Rightarrow> post_request \<Rightarrow> string" where
  "post_header k q = lookup_str (pq_headers q) k"

text \<open>How often a delivery was posted.\<close>

definition posted :: "string \<Rightarrow> post_request list \<Rightarrow> int" where
  "posted i log = int (length (filter (\<lambda>q. post_header ''X-Webhook-Delivery'' q = i) log))"

definition posted_for :: "string \<Rightarrow> post_request list \<Rightarrow> post_request list" where
  "posted_for i log = filter (\<lambda>q. post_header ''X-Webhook-ID'' q = i) log"

locale webhook_store =
  fixes env :: "'s delivery_env"
    and hooks :: "'s \<Rightarrow> webhook list"
    and dels :: "'s \<Rightarrow> delivery list"
    and posts :: "'s \<Rightarrow> post_request list"
    and ok :: "'s \<Rightarrow> bool"
  assumes get_ok: "hr_get_by_id (env_hooks env) i ws s = (Inr w, s') \<Longrightarrow> w \<in> set (hooks s) \<and> wh_id w = i \<and> wh_workspace_id w = ws"
    and get_frame: "hr_get_by_id (env_hooks env) i ws s = (rg, s') \<Longrightarrow>
        hooks s' = hooks s \<and> dels s' = dels s \<and> posts s' = posts s \<and> (ok s \<longrightarrow> ok s')"
    and post_frame: "env_post env q s = (o1, s') \<Longrightarrow>
        hooks s' = hooks s \<and> dels s' = dels s \<and> posts s' = posts s @ [q] \<and> (ok s \<longrightarrow> ok s')"
    and status_rows: "hr_update_status (env_hooks env) now i st n at s = (r, s') \<Longrightarrow>
        (\<forall>w \<in> set (hooks s'). w \<in> set (hooks s) \<or> wh_id w = i)
        \<and> dels s' = dels s \<and> posts s' = posts s \<and> (ok s \<longrightarrow> ok s')"
    and success_rows: "hr_update_success (env_hooks env) now i s = (r, s') \<Longrightarrow>
        (\<forall>w \<in> set (hooks s'). w \<in> set (hooks s) \<or> wh_id w = i)
        \<and> dels s' = dels s \<and> posts s' = posts s \<and> (ok s \<longrightarrow> ok s')"
    and delivered_frame: "dr_mark_delivered (env_deliveries env) i c now s = (r, s') \<Longrightarrow>
        hooks s' = hooks s \<and> posts s' = posts s \<and> (ok s \<longrightarrow> ok s')"
    and delivered_ok: "ok s \<Longrightarrow> dr_mark_delivered (env_deliveries env) i c now s = (r, s') \<Longrightarrow>
        \<exists>f. keeps_delivery f \<and> (\<forall>d. dl_status (f d) = delivery_delivered) \<and> dels s' = update_at i f (dels s)"
    and failed_frame: "dr_mark_failed (env_deliveries env) i n hs m nx s = (r, s') \<Longrightarrow>
        hooks s' = hooks s \<and> posts s' = posts s \<and> (ok s \<longrightarrow> ok s')"
    and failed_ok: "ok s \<Longrightarrow> dr_mark_failed (env_deliveries env) i n hs m nx s = (r, s') \<Longrightarrow>
        \<exists>f. keeps_delivery f \<and> (\<forall>d. dl_status (f d) = (if nx = None then delivery_abandoned else delivery_pending))
          \<and> dels s' = update_at i f (dels s)"
begin

section \<open>One delivery\<close>

text \<open>Recording a failure: the row becomes pending again exactly when the schedule has another attempt.\<close>

lemma record_failure_effect:
  assumes "ok s"
  shows "\<exists>f. keeps_delivery f
       \<and> (\<forall>x. dl_status (f x) = (if next_retry_delay (dl_attempt_count d) = None then delivery_abandoned else delivery_pending))
       \<and> dels (record_failure env now d h c m s) = update_at (dl_id d) f (dels s)
       \<and> posts (record_failure env now d h c m s) = posts s \<and> ok (record_failure env now d h c m s)"
proof (cases "next_retry_delay (dl_attempt_count d)")
  case (Some delay)
  obtain r s' where m: "dr_mark_failed (env_deliveries env) (dl_id d) (dl_attempt_count d) c m (Some (now + delay)) s = (r, s')"
    by fastforce
  with failed_ok [OF assms m] failed_frame [OF m] Some assms show ?thesis by (auto simp: record_failure_def)
next
  case None
  obtain r s' where m: "dr_mark_failed (env_deliveries env) (dl_id d) (dl_attempt_count d) c m None s = (r, s')"
    by fastforce
  from failed_ok [OF assms m] failed_frame [OF m] obtain f where
    f: "keeps_delivery f" "\<forall>x. dl_status (f x) = delivery_abandoned" "dels s' = update_at (dl_id d) f (dels s)"
    "posts s' = posts s" "ok s'" using assms by auto
  show ?thesis
  proof (cases h)
    case None
    with f m \<open>next_retry_delay (dl_attempt_count d) = None\<close> show ?thesis by (auto simp: record_failure_def)
  next
    case (Some w)
    obtain r2 s2 where u: "hr_update_status (env_hooks env) now (wh_id w) hook_failing (wh_failure_count w + 1) (Some now) s' = (r2, s2)"
      by fastforce
    with status_rows [OF u] f m Some None show ?thesis by (auto simp: record_failure_def)
  qed
qed

lemma record_failure_hooks:
  "\<forall>w \<in> set (hooks (record_failure env now d h c m s)). w \<in> set (hooks s) \<or> (\<exists>x. h = Some x \<and> wh_id w = wh_id x)"
  "posts (record_failure env now d h c m s) = posts s"
proof -
  obtain r s' where m: "dr_mark_failed (env_deliveries env) (dl_id d) (dl_attempt_count d) c m
      (map_option (\<lambda>delay. now + delay) (next_retry_delay (dl_attempt_count d))) s = (r, s')"
    by fastforce
  note f = failed_frame [OF m]
  consider "record_failure env now d h c m s = s'"
    | x r2 where "h = Some x" "hr_update_status (env_hooks env) now (wh_id x) hook_failing (wh_failure_count x + 1) (Some now) s'
        = (r2, record_failure env now d h c m s)"
    using m by (cases "next_retry_delay (dl_attempt_count d)"; cases h)
      (auto simp: record_failure_def Let_def prod_eq_iff)
  then have "(\<forall>w \<in> set (hooks (record_failure env now d h c m s)). w \<in> set (hooks s) \<or> (\<exists>x. h = Some x \<and> wh_id w = wh_id x))
    \<and> posts (record_failure env now d h c m s) = posts s"
  proof cases
    case 1
    with f show ?thesis by simp
  next
    case (2 x r2)
    from status_rows [OF 2(2)] f 2(1) show ?thesis by auto
  qed
  then show "\<forall>w \<in> set (hooks (record_failure env now d h c m s)). w \<in> set (hooks s) \<or> (\<exists>x. h = Some x \<and> wh_id w = wh_id x)"
    "posts (record_failure env now d h c m s) = posts s" by auto
qed

lemma request_header:
  "post_header ''X-Webhook-Delivery'' (webhook_request text hook d) = dl_id d"
  "post_header ''X-Webhook-ID'' (webhook_request text hook d) = wh_id hook"
  by (simp_all add: post_header_def webhook_request_def lookup_str_def Let_def)

text \<open>What one delivery does to its row: at most one request goes out, and the row ends delivered, abandoned, or
  pending when the schedule has another attempt.\<close>

lemma process_delivery_effect:
  assumes "ok s"
  shows "\<exists>f qs. keeps_delivery f \<and> dels (process_delivery env now d s) = update_at (dl_id d) f (dels s)
     \<and> (\<forall>x. dl_status (f x) \<in> {delivery_delivered, delivery_abandoned}
            \<or> (dl_status (f x) = delivery_pending \<and> next_retry_delay (dl_attempt_count d) \<noteq> None))
     \<and> posts (process_delivery env now d s) = posts s @ qs \<and> length qs \<le> 1
     \<and> (\<forall>q \<in> set qs. post_header ''X-Webhook-Delivery'' q = dl_id d) \<and> ok (process_delivery env now d s)"
proof -
  obtain r s1 where g: "hr_get_by_id (env_hooks env) (dl_webhook_id d) (dl_workspace_id d) s = (r, s1)" by fastforce
  from get_frame [OF g] assms have s1: "hooks s1 = hooks s" "dels s1 = dels s" "posts s1 = posts s" "ok s1" by auto
  have give_up: ?thesis
    if "process_delivery env now d s = snd (dr_mark_failed (env_deliveries env) (dl_id d) (dl_attempt_count d) None m None s1)" for m
  proof -
    obtain v s2 where k: "dr_mark_failed (env_deliveries env) (dl_id d) (dl_attempt_count d) None m None s1 = (v, s2)" by fastforce
    with failed_ok [OF s1(4) k] failed_frame [OF k] s1 that show ?thesis by (auto intro!: exI [of _ "[]"])
  qed
  have failure: ?thesis
    if "process_delivery env now d s = record_failure env now d h c m s2" "ok s2" "dels s2 = dels s" "posts s2 = posts s @ qs"
      "length qs \<le> 1" "\<forall>q \<in> set qs. post_header ''X-Webhook-Delivery'' q = dl_id d" for h c m s2 qs
    using record_failure_effect [OF that(2), of d now h c m] that by (auto split: if_splits)
  show ?thesis
  proof (cases r)
    case (Inl err)
    show ?thesis
    proof (cases "errors_is err (EHook HookErrNotFound)")
      case True
      with g Inl show ?thesis by (intro give_up) (simp add: process_delivery_def)
    next
      case False
      with g Inl s1 show ?thesis by (intro failure [of None None _ s1 "[]"]) (auto simp: process_delivery_def)
    qed
  next
    case (Inr hook)
    show ?thesis
    proof (cases "is_deliverable hook")
      case False
      with g Inr show ?thesis by (intro give_up) (simp add: process_delivery_def)
    next
      case True
      let ?q = "webhook_request (env_json_text env) hook d"
      obtain out s2 where p: "env_post env ?q s1 = (out, s2)" by fastforce
      from post_frame [OF p] s1 have s2: "dels s2 = dels s" "posts s2 = posts s @ [?q]" "ok s2" by auto
      show ?thesis
      proof (cases "\<exists>code st. out = PostStatus code st \<and> 200 \<le> code \<and> code < 300")
        case True
        then obtain code st where c: "out = PostStatus code st" "200 \<le> code" "code < 300" by blast
        obtain v s3 where m: "dr_mark_delivered (env_deliveries env) (dl_id d) code now s2 = (v, s3)" by fastforce
        obtain u s4 where us: "hr_update_success (env_hooks env) now (wh_id hook) s3 = (u, s4)" by fastforce
        have "process_delivery env now d s = s4"
          using g Inr \<open>is_deliverable hook\<close> p c m us by (simp add: process_delivery_def)
        moreover from delivered_ok [OF s2(3) m] obtain f where "keeps_delivery f" "\<forall>d. dl_status (f d) = delivery_delivered"
          "dels s3 = update_at (dl_id d) f (dels s2)" by blast
        moreover have "posts s3 = posts s2" "ok s3" using delivered_frame [OF m] s2(3) by auto
        ultimately show ?thesis
          using success_rows [OF us] s2 by (intro exI [of _ f] exI [of _ "[?q]"]) (auto simp: request_header)
      next
        case False
        then obtain c m where "process_delivery env now d s = record_failure env now d (Some hook) c m s2"
          using g Inr \<open>is_deliverable hook\<close> p by (cases out) (auto simp: process_delivery_def)
        then show ?thesis by (rule failure [OF _ s2(3,1,2)]) (simp_all add: request_header)
      qed
    qed
  qed
qed

text \<open>A webhook that is not active stays so and gets no request.\<close>

lemma process_delivery_inactive:
  assumes "\<forall>w \<in> set (hooks s). wh_id w = i \<longrightarrow> \<not> is_deliverable w"
  shows "(\<forall>w \<in> set (hooks (process_delivery env now d s)). wh_id w = i \<longrightarrow> \<not> is_deliverable w)
     \<and> posted_for i (posts (process_delivery env now d s)) = posted_for i (posts s)"
proof -
  obtain r s1 where g: "hr_get_by_id (env_hooks env) (dl_webhook_id d) (dl_workspace_id d) s = (r, s1)" by fastforce
  note s1 = get_frame [OF g]
  have failed: "hooks (snd (dr_mark_failed (env_deliveries env) k n hs m nx t)) = hooks t
      \<and> posts (snd (dr_mark_failed (env_deliveries env) k n hs m nx t)) = posts t" for k n hs m nx t
    using failed_frame [of k n hs m nx t] by (metis prod.collapse)
  show ?thesis
  proof (cases r)
    case (Inl err)
    with g assms s1 failed record_failure_hooks [of now d None _ _ s1] show ?thesis
      by (auto simp: process_delivery_def)
  next
    case (Inr hook)
    note h = get_ok [OF g [unfolded Inr]]
    show ?thesis
    proof (cases "is_deliverable hook")
      case False
      with g Inr assms s1 failed show ?thesis by (auto simp: process_delivery_def)
    next
      case True
      with assms h have i: "wh_id hook \<noteq> i" by auto
      let ?q = "webhook_request (env_json_text env) hook d"
      obtain out s2 where p: "env_post env ?q s1 = (out, s2)" by fastforce
      note s2 = post_frame [OF p]
      have quiet: "posted_for i (posts s2) = posted_for i (posts s)"
        using s1 s2 i by (simp add: posted_for_def request_header)
      show ?thesis
      proof (cases "\<exists>code st. out = PostStatus code st \<and> 200 \<le> code \<and> code < 300")
        case True
        then obtain code st where c: "out = PostStatus code st" "200 \<le> code" "code < 300" by blast
        obtain v s3 where m: "dr_mark_delivered (env_deliveries env) (dl_id d) code now s2 = (v, s3)" by fastforce
        obtain u s4 where us: "hr_update_success (env_hooks env) now (wh_id hook) s3 = (u, s4)" by fastforce
        have "process_delivery env now d s = s4"
          using g Inr \<open>is_deliverable hook\<close> p c m us by (simp add: process_delivery_def)
        with success_rows [OF us] delivered_frame [OF m] s2 s1 assms i quiet show ?thesis by auto
      next
        case False
        then obtain c m where "process_delivery env now d s = record_failure env now d (Some hook) c m s2"
          using g Inr \<open>is_deliverable hook\<close> p by (cases out) (auto simp: process_delivery_def)
        with record_failure_hooks [of now d "Some hook" c m s2] s1 s2 assms i quiet show ?thesis by auto
      qed
    qed
  qed
qed

end

end
