(* ===== verification/WebhookSystem.thy ===== *)
theory WebhookSystem
  imports WebhookRepo WebhookWorker
begin

text \<open>
  Webhooks in a deployment: the tables, the answers the endpoints will give, the requests sent so far, and the
  deliveries the worker holds. \<open>hook_step\<close> is one worker beside the API with a database that answers;
  \<open>hook_step_any\<close> adds failing statements, crashes and further workers. The properties follow.
\<close>

section \<open>The deployment\<close>

text \<open>\<open>hx_ulids\<close> are the ULIDs handed out so far: they are never given out again.\<close>

record hook_world =
  hx_db :: hook_db
  hx_http :: "post_outcome list"
  hx_posts :: "post_request list"
  hx_queue :: "delivery list"
  hx_ulids :: "string list"

definition on_hooks :: "(hook_db \<Rightarrow> 'a \<times> hook_db) \<Rightarrow> hook_world \<Rightarrow> 'a \<times> hook_world" where
  "on_hooks f w = (case f (hx_db w) of (r, db) \<Rightarrow> (r, w\<lparr>hx_db := db\<rparr>))"

definition world_hooks :: "hook_world webhook_repository" where
  "world_hooks = \<lparr>hr_create = \<lambda>h. on_hooks (hook_repo_create h),
     hr_get_by_id = \<lambda>i ws. on_hooks (hook_repo_get_by_id i ws), hr_list = \<lambda>ws n. on_hooks (hook_repo_list ws n),
     hr_count = \<lambda>ws. on_hooks (hook_repo_count ws), hr_delete = \<lambda>i ws. on_hooks (hook_repo_delete i ws),
     hr_update_status = \<lambda>now i st n at. on_hooks (hook_repo_update_status now i st n at),
     hr_update_success = \<lambda>at i. on_hooks (hook_repo_update_success at i),
     hr_find_subscribed = \<lambda>ws ev. on_hooks (hook_repo_find_subscribed ws ev)\<rparr>"

definition world_deliveries :: "hook_world delivery_repository" where
  "world_deliveries = \<lparr>dr_create = \<lambda>d. on_hooks (hook_repo_create_delivery d),
     dr_claim = \<lambda>now n. on_hooks (hook_repo_claim now n),
     dr_mark_delivered = \<lambda>i c at. on_hooks (hook_repo_mark_delivered i c at),
     dr_mark_failed = \<lambda>i n c m nx. on_hooks (hook_repo_mark_failed i n c m nx)\<rparr>"

definition world_post :: "post_request \<Rightarrow> hook_world \<Rightarrow> post_outcome \<times> hook_world" where
  "world_post q w =
     (case hx_http w of
        [] \<Rightarrow> (PostError ''connection refused'', w\<lparr>hx_posts := hx_posts w @ [q]\<rparr>)
      | o1 # os \<Rightarrow> (o1, w\<lparr>hx_posts := hx_posts w @ [q], hx_http := os\<rparr>))"

definition world_env :: "(json \<Rightarrow> string) \<Rightarrow> hook_world delivery_env" where
  "world_env js = \<lparr>env_hooks = world_hooks, env_deliveries = world_deliveries, env_json_text = js, env_post = world_post\<rparr>"

abbreviation hx_hooks :: "hook_world \<Rightarrow> webhook list" where "hx_hooks w \<equiv> hdb_hooks (hx_db w)"
abbreviation hx_dels :: "hook_world \<Rightarrow> delivery list" where "hx_dels w \<equiv> hdb_deliveries (hx_db w)"

lemma on_hooks_eq: "on_hooks f w = (r, w') \<longleftrightarrow> (\<exists>db. f (hx_db w) = (r, db) \<and> w' = w\<lparr>hx_db := db\<rparr>)"
  by (auto simp: on_hooks_def split: prod.splits)

lemma hook_result_eq:
  "hook_result pre x = (Inr v, db) \<longleftrightarrow> x = (Inr v, db)"
  "hook_result pre x = (Inl e, db) \<longleftrightarrow> (\<exists>e'. x = (Inl e', db) \<and> e = EWrap pre (EOther (pgx_err_text e')) [])"
  by (cases x; cases "fst x"; auto simp: hook_result_def)+

lemma snd_hook_result [simp]: "snd (hook_result pre x) = snd x"
  by (cases x; cases "fst x"; auto simp: hook_result_def)

lemma hook_stmt_ok: "hdb_faults db = [] \<Longrightarrow> hook_stmt f db = f db"
proof -
  assume a: "hdb_faults db = []"
  have "hook_stmt f db = f (db\<lparr>hdb_faults := []\<rparr>)" by (simp add: hook_stmt_def a)
  also have "db\<lparr>hdb_faults := []\<rparr> = db" using a by (cases db) simp
  finally show "hook_stmt f db = f db" .
qed

lemma on_hooks_stmt:
  assumes "on_hooks f s = (r, s')" and "f (hx_db s) = hook_result pre (hook_stmt g (hx_db s))"
  obtains x db where "hook_stmt g (hx_db s) = (x, db)" "s' = s\<lparr>hx_db := db\<rparr>"
proof -
  obtain db where "f (hx_db s) = (r, db)" "s' = s\<lparr>hx_db := db\<rparr>" using assms(1) by (auto simp: on_hooks_eq)
  moreover obtain x db' where x: "hook_stmt g (hx_db s) = (x, db')" by fastforce
  moreover have "db' = db" using assms(2) \<open>f (hx_db s) = (r, db)\<close> x by (metis snd_conv snd_hook_result)
  ultimately show thesis using that by simp
qed

lemma hook_stmt_cases:
  "(\<exists>e fs. hook_stmt f db = (Inl e, db\<lparr>hdb_faults := fs\<rparr>)) \<or> (\<exists>fs. hook_stmt f db = f (db\<lparr>hdb_faults := fs\<rparr>))"
  by (auto simp: hook_stmt_def split: prod.splits option.splits)

lemma hook_stmt_keeps:
  assumes "hook_stmt f db = (r, db')" and "\<And>fs. P (db\<lparr>hdb_faults := fs\<rparr>)" and "\<And>fs. P (snd (f (db\<lparr>hdb_faults := fs\<rparr>)))"
  shows "P db'"
  using hook_stmt_cases [of f db] assms by (metis snd_conv)

text \<open>What a statement leaves alone whether it runs or fails.\<close>

lemma update_rows_frame:
  "hook_stmt (update_hooks now i f) db = (r, db') \<Longrightarrow>
     (\<forall>w \<in> set (hdb_hooks db'). w \<in> set (hdb_hooks db) \<or> (\<exists>x \<in> set (hdb_hooks db). wh_id x = i \<and> w = (f x)\<lparr>wh_updated_at := pg_time now\<rparr>))
     \<and> hdb_deliveries db' = hdb_deliveries db \<and> (hdb_faults db = [] \<longrightarrow> hdb_faults db' = [])"
  "hook_stmt (update_deliveries i g) db = (r2, db') \<Longrightarrow>
     hdb_hooks db' = hdb_hooks db \<and> (hdb_faults db = [] \<longrightarrow> hdb_faults db' = [] \<and> hdb_deliveries db' = update_at i g (hdb_deliveries db))"
  by (auto simp: hook_stmt_def update_hooks_def update_deliveries_def update_at_def split: prod.splits option.splits if_splits)

lemma read_frame:
  "hook_stmt (\<lambda>d. (g d, d)) db = (r, db') \<Longrightarrow>
     hdb_hooks db' = hdb_hooks db \<and> hdb_deliveries db' = hdb_deliveries db \<and> (hdb_faults db = [] \<longrightarrow> hdb_faults db' = [])"
  by (auto simp: hook_stmt_def split: prod.splits option.splits)

lemmas world_calls = world_env_def world_hooks_def world_deliveries_def

interpretation hw: webhook_store "world_env js" hx_hooks hx_dels hx_posts "\<lambda>w. hdb_faults (hx_db w) = []" for js
proof unfold_locales
  fix i ws h and s s' :: hook_world
  assume "hr_get_by_id (env_hooks (world_env js)) i ws s = (Inr h, s')"
  then show "h \<in> set (hx_hooks s) \<and> wh_id h = i \<and> wh_workspace_id h = ws"
    by (auto simp: world_calls on_hooks_eq hook_repo_get_by_id_def hook_stmt_def hook_at_def
        split: prod.splits sum.splits option.splits if_splits dest: find_Some)
next
  fix i ws rg and s s' :: hook_world
  assume "hr_get_by_id (env_hooks (world_env js)) i ws s = (rg, s')"
  then show "hx_hooks s' = hx_hooks s \<and> hx_dels s' = hx_dels s \<and> hx_posts s' = hx_posts s
      \<and> (hdb_faults (hx_db s) = [] \<longrightarrow> hdb_faults (hx_db s') = [])"
    by (auto simp: world_calls on_hooks_eq hook_repo_get_by_id_def split: prod.splits sum.splits dest!: read_frame)
next
  fix q o1 and s s' :: hook_world
  assume "env_post (world_env js) q s = (o1, s')"
  then show "hx_hooks s' = hx_hooks s \<and> hx_dels s' = hx_dels s \<and> hx_posts s' = hx_posts s @ [q]
      \<and> (hdb_faults (hx_db s) = [] \<longrightarrow> hdb_faults (hx_db s') = [])"
    by (auto simp: world_calls world_post_def split: list.splits)
next
  fix now i st n at r and s s' :: hook_world
  assume "hr_update_status (env_hooks (world_env js)) now i st n at s = (r, s')"
  then obtain x db where "hook_stmt (update_hooks now i (\<lambda>w. w\<lparr>wh_status := st, wh_failure_count := n,
          wh_last_failure_at := map_option pg_time at\<rparr>)) (hx_db s) = (x, db)" "s' = s\<lparr>hx_db := db\<rparr>"
    unfolding world_calls by (auto simp: hook_repo_update_status_def Let_def elim!: on_hooks_stmt)
  then show "(\<forall>w \<in> set (hx_hooks s'). w \<in> set (hx_hooks s) \<or> wh_id w = i) \<and> hx_dels s' = hx_dels s \<and> hx_posts s' = hx_posts s
      \<and> (hdb_faults (hx_db s) = [] \<longrightarrow> hdb_faults (hx_db s') = [])"
    by (auto dest!: update_rows_frame(1))
next
  fix now i r and s s' :: hook_world
  assume "hr_update_success (env_hooks (world_env js)) now i s = (r, s')"
  then obtain x db where "hook_stmt (update_hooks now i (\<lambda>w. w\<lparr>wh_status := ''active'', wh_failure_count := 0,
          wh_last_success_at := Some (pg_time now), wh_last_failure_at := None\<rparr>)) (hx_db s) = (x, db)" "s' = s\<lparr>hx_db := db\<rparr>"
    unfolding world_calls by (auto simp: hook_repo_update_success_def Let_def elim!: on_hooks_stmt)
  then show "(\<forall>w \<in> set (hx_hooks s'). w \<in> set (hx_hooks s) \<or> wh_id w = i) \<and> hx_dels s' = hx_dels s \<and> hx_posts s' = hx_posts s
      \<and> (hdb_faults (hx_db s) = [] \<longrightarrow> hdb_faults (hx_db s') = [])"
    by (auto dest!: update_rows_frame(1))
next
  fix i c now r and s s' :: hook_world
  assume "dr_mark_delivered (env_deliveries (world_env js)) i c now s = (r, s')"
  then obtain x db where d: "hook_stmt (update_deliveries i (\<lambda>d. d\<lparr>dl_status := ''delivered'', dl_delivered_at := Some (pg_time now),
          dl_last_http_status := Some c\<rparr>)) (hx_db s) = (x, db)" "s' = s\<lparr>hx_db := db\<rparr>"
    unfolding world_calls by (auto simp: hook_repo_mark_delivered_def Let_def elim!: on_hooks_stmt)
  then show "hx_hooks s' = hx_hooks s \<and> hx_posts s' = hx_posts s \<and> (hdb_faults (hx_db s) = [] \<longrightarrow> hdb_faults (hx_db s') = [])"
    by (auto dest!: update_rows_frame(2))
  show "\<exists>f. keeps_delivery f \<and> (\<forall>d. dl_status (f d) = delivery_delivered) \<and> hx_dels s' = update_at i f (hx_dels s)"
    if "hdb_faults (hx_db s) = []"
    using d that by (intro exI [of _ "\<lambda>d. d\<lparr>dl_status := ''delivered'', dl_delivered_at := Some (pg_time now),
          dl_last_http_status := Some c\<rparr>"]) (auto simp: keeps_delivery_def delivery_delivered_def dest!: update_rows_frame(2))
next
  fix i n hs m nx r and s s' :: hook_world
  assume "dr_mark_failed (env_deliveries (world_env js)) i n hs m nx s = (r, s')"
  then obtain x db where d: "hook_stmt (update_deliveries i (\<lambda>d. d\<lparr>dl_status := (if nx \<noteq> None then ''pending'' else ''abandoned''),
          dl_last_http_status := hs, dl_last_error := m,
          dl_next_attempt_at := (case nx of None \<Rightarrow> dl_next_attempt_at d | Some t \<Rightarrow> pg_time t)\<rparr>)) (hx_db s) = (x, db)" "s' = s\<lparr>hx_db := db\<rparr>"
    unfolding world_calls by (auto simp: hook_repo_mark_failed_def Let_def elim!: on_hooks_stmt)
  then show "hx_hooks s' = hx_hooks s \<and> hx_posts s' = hx_posts s \<and> (hdb_faults (hx_db s) = [] \<longrightarrow> hdb_faults (hx_db s') = [])"
    by (auto dest!: update_rows_frame(2))
  show "\<exists>f. keeps_delivery f \<and> (\<forall>d. dl_status (f d) = (if nx = None then delivery_abandoned else delivery_pending))
      \<and> hx_dels s' = update_at i f (hx_dels s)"
    if "hdb_faults (hx_db s) = []"
    using d that by (intro exI [of _ "\<lambda>d. d\<lparr>dl_status := (if nx \<noteq> None then ''pending'' else ''abandoned''),
          dl_last_http_status := hs, dl_last_error := m,
          dl_next_attempt_at := (case nx of None \<Rightarrow> dl_next_attempt_at d | Some t \<Rightarrow> pg_time t)\<rparr>"])
      (auto simp: keeps_delivery_def delivery_status_defs dest!: update_rows_frame(2))
qed

section \<open>Steps\<close>

inductive hook_step :: "(json \<Rightarrow> string) \<Rightarrow> hook_world \<Rightarrow> hook_world \<Rightarrow> bool" for js where
  register: "register_handle world_hooks now ulid rand cmd w = (rg, w') \<Longrightarrow> ulid \<notin> set (hx_ulids w)
     \<Longrightarrow> hook_step js w (w'\<lparr>hx_ulids := hx_ulids w @ [ulid]\<rparr>)"
| delete: "delete_hook_handle world_hooks i ws w = (rd, w') \<Longrightarrow> hook_step js w w'"
| list: "list_hooks_handle world_hooks ws limit w = (rl, w') \<Longrightarrow> hook_step js w w'"
| dispatch: "dispatch world_hooks world_deliveries now (\<lambda>n. ulids ! n) ev w = (rx, w') \<Longrightarrow> distinct ulids
     \<Longrightarrow> length (hook_view (hx_db w)) \<le> length ulids \<Longrightarrow> set ulids \<inter> set (hx_ulids w) = {}
     \<Longrightarrow> hook_step js w (w'\<lparr>hx_ulids := hx_ulids w @ ulids\<rparr>)"
| claim: "hx_queue w = [] \<Longrightarrow> dr_claim world_deliveries now limit w = (Inr ds, w') \<Longrightarrow> hook_step js w (w'\<lparr>hx_queue := ds\<rparr>)"
| process: "hx_queue w = d # ds \<Longrightarrow> w' = process_delivery (world_env js) now d (w\<lparr>hx_queue := ds\<rparr>) \<Longrightarrow> hook_step js w w'"
| replicate: "hook_step js w (w\<lparr>hx_db := replicate_hooks (hx_db w)\<rparr>)"
| answers: "hook_step js w (w\<lparr>hx_http := os\<rparr>)"

inductive hook_step_any :: "(json \<Rightarrow> string) \<Rightarrow> hook_world \<Rightarrow> hook_world \<Rightarrow> bool" for js where
  one: "hook_step js w w' \<Longrightarrow> hook_step_any js w w'"
| other_worker: "hook_step_any js w (process_delivery (world_env js) now d w)"
| other_claim: "dr_claim world_deliveries now limit w = (rc, w') \<Longrightarrow> hook_step_any js w w'"
| crash: "hook_step_any js w (w\<lparr>hx_queue := []\<rparr>)"
| faults: "hook_step_any js w (w\<lparr>hx_db := (hx_db w)\<lparr>hdb_faults := fs\<rparr>\<rparr>)"

section \<open>What the use cases do to the tables\<close>

lemma hook_create_rows:
  "hr_create world_hooks h w = (r, w') \<Longrightarrow> hx_dels w' = hx_dels w \<and> hx_posts w' = hx_posts w \<and> hx_queue w' = hx_queue w
     \<and> (hdb_faults (hx_db w) = [] \<longrightarrow> hdb_faults (hx_db w') = []) \<and> (\<forall>x \<in> set (hx_hooks w'). x \<in> set (hx_hooks w) \<or> wh_id x = wh_id h)"
  by (auto simp: world_hooks_def hook_repo_create_def hook_stmt_def insert_hook_def pg_hook_def on_hooks_def hook_result_def
      split: prod.splits option.splits sum.splits if_splits)

lemma hook_count_rows:
  "hr_count world_hooks ws w = (r, w') \<Longrightarrow> hx_dels w' = hx_dels w \<and> hx_posts w' = hx_posts w \<and> hx_queue w' = hx_queue w
     \<and> (hdb_faults (hx_db w) = [] \<longrightarrow> hdb_faults (hx_db w') = []) \<and> hx_hooks w' = hx_hooks w"
  by (auto simp: world_hooks_def hook_repo_count_def hook_stmt_def on_hooks_def hook_result_def
      split: prod.splits option.splits sum.splits)

lemma hook_list_rows:
  "hr_list world_hooks ws n w = (r, w') \<Longrightarrow> hx_dels w' = hx_dels w \<and> hx_posts w' = hx_posts w \<and> hx_queue w' = hx_queue w
     \<and> (hdb_faults (hx_db w) = [] \<longrightarrow> hdb_faults (hx_db w') = []) \<and> hx_hooks w' = hx_hooks w"
  by (auto simp: world_hooks_def hook_repo_list_def hook_stmt_def on_hooks_def hook_result_def Let_def
      split: prod.splits option.splits sum.splits)

lemma hook_find_rows:
  "hr_find_subscribed world_hooks ws ev w = (r, w') \<Longrightarrow> hx_dels w' = hx_dels w \<and> hx_posts w' = hx_posts w \<and> hx_queue w' = hx_queue w
     \<and> (hdb_faults (hx_db w) = [] \<longrightarrow> hdb_faults (hx_db w') = []) \<and> hx_hooks w' = hx_hooks w
     \<and> (\<forall>hs. r = Inr hs \<longrightarrow> hs = filter (\<lambda>h. wh_workspace_id h = ws \<and> wh_status h = ''active'' \<and> ev \<in> set (wh_events h)) (hook_view (hx_db w)))"
  by (auto simp: world_hooks_def hook_repo_find_subscribed_def hook_stmt_def on_hooks_def hook_result_def hook_view_def
      split: prod.splits option.splits sum.splits)

lemma hook_delete_rows:
  "hr_delete world_hooks i ws w = (r, w') \<Longrightarrow> (\<exists>p. hx_dels w' = filter p (hx_dels w)) \<and> hx_posts w' = hx_posts w \<and> hx_queue w' = hx_queue w
     \<and> (hdb_faults (hx_db w) = [] \<longrightarrow> hdb_faults (hx_db w') = []) \<and> set (hx_hooks w') \<subseteq> set (hx_hooks w)"
  by (auto simp: world_hooks_def hook_repo_delete_def hook_stmt_def on_hooks_def hook_result_def
      split: prod.splits option.splits sum.splits if_splits intro: exI [of _ "\<lambda>_. True"])

lemma delivery_create_rows:
  assumes "dr_create world_deliveries d w = (r, w')"
  shows "hx_posts w' = hx_posts w \<and> hx_queue w' = hx_queue w \<and> hx_hooks w' = hx_hooks w
     \<and> (hdb_faults (hx_db w) = [] \<longrightarrow> hdb_faults (hx_db w') = [])
     \<and> (hx_dels w' = (if isl r then hx_dels w else hx_dels w @ [pg_delivery d]))"
  using assms
  by (auto simp: world_deliveries_def hook_repo_create_delivery_def hook_stmt_def insert_delivery_def on_hooks_def hook_result_def
      split: prod.splits option.splits sum.splits if_splits)

lemma register_rows:
  assumes "register_handle world_hooks now ulid rand cmd w = (r, w')"
  shows "hx_dels w' = hx_dels w \<and> hx_posts w' = hx_posts w \<and> hx_queue w' = hx_queue w
     \<and> (hdb_faults (hx_db w) = [] \<longrightarrow> hdb_faults (hx_db w') = []) \<and> (\<forall>x \<in> set (hx_hooks w'). x \<in> set (hx_hooks w) \<or> wh_id x = ulid)"
  using assms
  by (auto simp: register_handle_def Let_def new_webhook_def split: option.splits sum.splits prod.splits if_splits
      dest!: hook_create_rows hook_count_rows)

lemma delete_rows:
  assumes "delete_hook_handle world_hooks i ws w = (r, w')"
  shows "(\<exists>p. hx_dels w' = filter p (hx_dels w)) \<and> hx_posts w' = hx_posts w \<and> hx_queue w' = hx_queue w
     \<and> (hdb_faults (hx_db w) = [] \<longrightarrow> hdb_faults (hx_db w') = []) \<and> set (hx_hooks w') \<subseteq> set (hx_hooks w)"
proof -
  obtain x where "hr_delete world_hooks i ws w = (x, w')"
    using assms by (auto simp: delete_hook_handle_def split: sum.splits prod.splits)
  then show ?thesis by (rule hook_delete_rows)
qed

lemma list_rows:
  "list_hooks_handle world_hooks ws n w = (r, w') \<Longrightarrow> hx_dels w' = hx_dels w \<and> hx_posts w' = hx_posts w \<and> hx_queue w' = hx_queue w
     \<and> (hdb_faults (hx_db w) = [] \<longrightarrow> hdb_faults (hx_db w') = []) \<and> hx_hooks w' = hx_hooks w"
  by (auto simp: list_hooks_handle_def split: sum.splits prod.splits dest!: hook_list_rows)

text \<open>Dispatching appends pending deliveries, one for each webhook in order, as far as the inserts succeed.\<close>

lemma dispatch_loop_rows:
  assumes "dispatch_loop world_deliveries now ulids ev hs w = (r, w')"
  shows "hx_posts w' = hx_posts w \<and> hx_queue w' = hx_queue w \<and> hx_hooks w' = hx_hooks w
     \<and> (hdb_faults (hx_db w) = [] \<longrightarrow> hdb_faults (hx_db w') = [])
     \<and> (\<exists>k \<le> length hs. hx_dels w' = hx_dels w @ map (\<lambda>n. pg_delivery (new_delivery now (ulids n) ev (hs ! n))) [0..<k]
          \<and> (\<not> isl r \<longrightarrow> k = length hs))"
  using assms
proof (induction hs arbitrary: ulids w)
  case (Cons h hs)
  obtain x w1 where c: "dr_create world_deliveries (new_delivery now (ulids 0) ev h) w = (x, w1)" by fastforce
  note rows = delivery_create_rows [OF c]
  show ?case
  proof (cases x)
    case (Inl e)
    with Cons.prems c have "w' = w1" "isl r" by auto
    with rows Inl show ?thesis by (auto intro: exI [of _ 0])
  next
    case (Inr v)
    with Cons.prems c have "dispatch_loop world_deliveries now (\<lambda>n. ulids (Suc n)) ev hs w1 = (r, w')" by simp
    from Cons.IH [OF this] obtain k where k: "k \<le> length hs"
      "hx_dels w' = hx_dels w1 @ map (\<lambda>n. pg_delivery (new_delivery now (ulids (Suc n)) ev (hs ! n))) [0..<k]"
      "\<not> isl r \<longrightarrow> k = length hs" "hx_posts w' = hx_posts w1" "hx_queue w' = hx_queue w1" "hx_hooks w' = hx_hooks w1"
      "hdb_faults (hx_db w1) = [] \<longrightarrow> hdb_faults (hx_db w') = []" by blast
    have "map (\<lambda>n. pg_delivery (new_delivery now (ulids n) ev ((h # hs) ! n))) [0..<Suc k]
        = pg_delivery (new_delivery now (ulids 0) ev h) # map (\<lambda>n. pg_delivery (new_delivery now (ulids (Suc n)) ev (hs ! n))) [0..<k]"
      by (simp add: upt_conv_Cons map_Suc_upt [symmetric] comp_def del: upt_Suc)
    with k rows Inr show ?thesis by (auto intro!: exI [of _ "Suc k"])
  qed
qed simp

end
