(* ===== verification/WebhookAttempts.thy ===== *)
theory WebhookAttempts
  imports WebhookSystem
begin

text \<open>
  The invariant behind the number of attempts of a delivery, and that every step of one worker beside the API
  keeps it: a pending row counts at least the requests sent for it, a row being delivered is held by the worker
  with the same count, and a request is only sent for a held row.
\<close>

section \<open>The invariant\<close>

definition attempts_inv :: "hook_world \<Rightarrow> bool" where
  "attempts_inv w \<longleftrightarrow>
     hdb_faults (hx_db w) = [] \<and> distinct (map dl_id (hx_dels w)) \<and> distinct (map dl_id (hx_queue w))
     \<and> (\<forall>d \<in> set (hx_dels w) \<union> set (hx_queue w). dl_id d \<in> set (hx_ulids w))
     \<and> (\<forall>i. posted i (hx_posts w) \<le> max_attempts \<and> (i \<notin> set (hx_ulids w) \<longrightarrow> posted i (hx_posts w) = 0))
     \<and> (\<forall>d \<in> set (hx_dels w). dl_status d = delivery_pending \<longrightarrow>
            dl_attempt_count d < max_attempts \<and> posted (dl_id d) (hx_posts w) \<le> dl_attempt_count d)
     \<and> (\<forall>d \<in> set (hx_dels w). dl_status d = delivery_delivering \<longrightarrow> dl_id d \<in> dl_id ` set (hx_queue w))
     \<and> (\<forall>x \<in> set (hx_queue w). dl_attempt_count x \<le> max_attempts \<and> posted (dl_id x) (hx_posts w) < dl_attempt_count x
          \<and> (\<forall>d \<in> set (hx_dels w). dl_id d = dl_id x \<longrightarrow> dl_status d = delivery_delivering \<and> dl_attempt_count d = dl_attempt_count x))"

lemma posted_append: "posted i (log @ qs) = posted i log + posted i qs"
  by (simp add: posted_def)

lemma posted_nonneg [simp]: "0 \<le> posted i log" by (simp add: posted_def)

lemma posted_le: "length qs \<le> 1 \<Longrightarrow> \<forall>q \<in> set qs. post_header ''X-Webhook-Delivery'' q = j \<Longrightarrow>
    posted i qs \<le> (if i = j then 1 else 0)"
  by (cases qs) (auto simp: posted_def)

lemma update_at_mem: "d \<in> set (update_at i f ds) \<longleftrightarrow> (d \<in> set ds \<and> dl_id d \<noteq> i) \<or> (\<exists>x \<in> set ds. dl_id x = i \<and> d = f x)"
  by (auto simp: update_at_def)

lemma update_at_ids: "keeps_delivery f \<Longrightarrow> map dl_id (update_at i f ds) = map dl_id ds"
  by (simp add: update_at_def keeps_delivery_def comp_def if_distrib cong: if_cong)

text \<open>A state whose deliveries are among those of another.\<close>

lemma attempts_inv_subset:
  assumes "attempts_inv w" and "hx_dels w' = filter p (hx_dels w)" and "hx_posts w' = hx_posts w" and "hx_queue w' = hx_queue w"
    and "hdb_faults (hx_db w) = [] \<longrightarrow> hdb_faults (hx_db w') = []" and "set (hx_ulids w) \<subseteq> set (hx_ulids w')"
  shows "attempts_inv w'"
  using assms unfolding attempts_inv_def by (auto simp: distinct_map_filter)

lemma attempts_inv_new:
  assumes inv: "attempts_inv w" and "hx_dels w' = hx_dels w @ ds" and "hx_posts w' = hx_posts w" and "hx_queue w' = hx_queue w"
    and "hdb_faults (hx_db w) = [] \<longrightarrow> hdb_faults (hx_db w') = []" and "hx_ulids w' = hx_ulids w @ us"
    and "distinct (map dl_id ds)" and "set (map dl_id ds) \<subseteq> set us" and "set us \<inter> set (hx_ulids w) = {}"
    and "\<forall>d \<in> set ds. dl_status d = delivery_pending \<and> dl_attempt_count d = 0"
  shows "attempts_inv w'"
proof -
  have fresh: "dl_id d \<notin> set (hx_ulids w)" "posted (dl_id d) (hx_posts w) = 0" if "d \<in> set ds" for d
    using that assms(8,9) inv unfolding attempts_inv_def by auto
  have new: "dl_id d \<noteq> dl_id x" if "d \<in> set ds" "x \<in> set (hx_dels w) \<union> set (hx_queue w)" for d x
    using that fresh(1) inv unfolding attempts_inv_def by metis
  have "delivery_pending \<noteq> delivery_delivering" by (simp add: delivery_status_defs)
  then show ?thesis
    using inv assms(2-7,10) new fresh assms(8)
    unfolding attempts_inv_def by (auto simp: max_attempts_def) (metis UnI1 new)+
qed

text \<open>A claim by a worker that holds nothing.\<close>

lemma claim_rows:
  assumes "dr_claim world_deliveries now limit w = (Inr ds, w')" and "hdb_faults (hx_db w) = []"
    and "distinct (map dl_id (hx_dels w))"
  obtains ids where "hx_dels w' = map (\<lambda>d. if dl_id d \<in> ids then claim_row now d else d) (hx_dels w)"
    "ds = filter (\<lambda>d. dl_id d \<in> ids) (hx_dels w')" "\<forall>d \<in> set (hx_dels w). dl_id d \<in> ids \<longrightarrow> claimable now d"
    "hx_posts w' = hx_posts w" "hdb_faults (hx_db w') = []"
proof -
  let ?n = "nat (if limit \<le> 0 then 50 else limit)"
  let ?top = "take ?n (sort_key dl_next_attempt_at (filter (claimable now) (hx_dels w)))"
  let ?ids = "set (map dl_id ?top)"
  have top: "set ?top \<subseteq> {d \<in> set (hx_dels w). claimable now d}"
    using set_take_subset [of ?n "sort_key dl_next_attempt_at (filter (claimable now) (hx_dels w))"] by auto
  define ids where "ids = map dl_id ?top"
  have claimed: "claimable now d" if "d \<in> set (hx_dels w)" "dl_id d \<in> set ids" for d
  proof -
    from that(2) obtain x where x: "x \<in> set ?top" "dl_id x = dl_id d" by (auto simp: ids_def)
    with top have "x \<in> set (hx_dels w)" "claimable now x" by auto
    moreover have "inj_on dl_id (set (hx_dels w))" using assms(3) by (simp add: distinct_map)
    ultimately show ?thesis using x(2) that(1) by (auto dest: inj_onD)
  qed
  obtain db where db: "claim_deliveries now limit (hx_db w) = (Inr ds, db)" "w' = w\<lparr>hx_db := db\<rparr>"
    using assms(1) by (auto simp: world_deliveries_def on_hooks_eq hook_repo_claim_def hook_result_eq hook_stmt_ok [OF assms(2)])
  have run: "claim_deliveries now limit (hx_db w) =
      (Inr (filter (\<lambda>d. dl_id d \<in> set ids) (map (\<lambda>d. if dl_id d \<in> set ids then claim_row now d else d) (hx_dels w))),
       (hx_db w)\<lparr>hdb_deliveries := map (\<lambda>d. if dl_id d \<in> set ids then claim_row now d else d) (hx_dels w)\<rparr>)"
    by (simp only: claim_deliveries_def Let_def ids_def)
  have "(Inr ds, db) = claim_deliveries now limit (hx_db w)" using db(1) by (rule sym)
  note this [unfolded run]
  then have dbs: "db = (hx_db w)\<lparr>hdb_deliveries := map (\<lambda>d. if dl_id d \<in> set ids then claim_row now d else d) (hx_dels w)\<rparr>"
    and ds: "ds = filter (\<lambda>d. dl_id d \<in> set ids) (map (\<lambda>d. if dl_id d \<in> set ids then claim_row now d else d) (hx_dels w))"
    by (simp_all only: prod.inject sum.inject)
  show thesis
  proof (rule that [of "set ids"])
    show "\<forall>d \<in> set (hx_dels w). dl_id d \<in> set ids \<longrightarrow> claimable now d" using claimed by blast
  qed (simp_all add: db(2) dbs ds assms(2))
qed

lemma claim_row_simps [simp]:
  "dl_id (claim_row now d) = dl_id d" "dl_status (claim_row now d) = delivery_delivering"
  "dl_attempt_count (claim_row now d) = dl_attempt_count d + 1"
  by (simp_all add: claim_row_def delivery_delivering_def)

lemma attempts_inv_claim:
  assumes inv: "attempts_inv w" and q: "hx_queue w = []" and c: "dr_claim world_deliveries now limit w = (Inr ds, w')"
    and u: "hx_ulids w' = hx_ulids w"
  shows "attempts_inv (w'\<lparr>hx_queue := ds\<rparr>)"
proof -
  from inv have basics: "hdb_faults (hx_db w) = []" "distinct (map dl_id (hx_dels w))" by (auto simp: attempts_inv_def)
  obtain ids where rows: "hx_dels w' = map (\<lambda>d. if dl_id d \<in> ids then claim_row now d else d) (hx_dels w)"
    and ds: "ds = filter (\<lambda>d. dl_id d \<in> ids) (hx_dels w')" and cl: "\<forall>d \<in> set (hx_dels w). dl_id d \<in> ids \<longrightarrow> claimable now d"
    and rest: "hx_posts w' = hx_posts w" "hdb_faults (hx_db w') = []"
    by (rule claim_rows [OF c basics])
  have ids': "map dl_id (hx_dels w') = map dl_id (hx_dels w)"
    by (simp add: rows comp_def if_distrib cong: if_cong)
  have none: "dl_status d \<noteq> delivery_delivering" if "d \<in> set (hx_dels w)" for d
    using that inv q by (auto simp: attempts_inv_def)
  have pend: "dl_status d = delivery_pending" if "d \<in> set (hx_dels w)" "dl_id d \<in> ids" for d
    using that cl none [OF that(1)] by (auto simp: claimable_def delivery_status_defs)
  have dist: "distinct (map dl_id ds)" unfolding ds using basics(2) ids' by (metis distinct_map_filter)
  have mem: "d \<in> set (hx_dels w') \<longleftrightarrow> (d \<in> set (hx_dels w) \<and> dl_id d \<notin> ids)
      \<or> (\<exists>x \<in> set (hx_dels w). dl_id x \<in> ids \<and> d = claim_row now x)" for d
    by (auto simp: rows)
  have uniq: "x = y" if "x \<in> set (hx_dels w')" "y \<in> set (hx_dels w')" "dl_id x = dl_id y" for x y
    using that basics(2) ids' by (metis distinct_map inj_onD)
  have neq: "delivery_pending \<noteq> delivery_delivering" by (simp add: delivery_status_defs)
  have qmem: "x \<in> set ds \<longleftrightarrow> (\<exists>d \<in> set (hx_dels w). dl_id d \<in> ids \<and> x = claim_row now d)" for x
    unfolding ds using mem by auto
  have known: "dl_id d \<in> set (hx_ulids w)" if "d \<in> set (hx_dels w)" for d using that inv by (simp add: attempts_inv_def)
  have count: "dl_attempt_count d < max_attempts \<and> posted (dl_id d) (hx_posts w) \<le> dl_attempt_count d"
    if "d \<in> set (hx_dels w)" "dl_id d \<in> ids" for d
    using that pend inv by (auto simp: attempts_inv_def)
  show ?thesis
    unfolding attempts_inv_def
  proof (intro conjI)
    show "\<forall>d \<in> set (hx_dels (w'\<lparr>hx_queue := ds\<rparr>)) \<union> set (hx_queue (w'\<lparr>hx_queue := ds\<rparr>)). dl_id d \<in> set (hx_ulids (w'\<lparr>hx_queue := ds\<rparr>))"
      using known by (auto simp: mem qmem u)
    show "\<forall>d \<in> set (hx_dels (w'\<lparr>hx_queue := ds\<rparr>)). dl_status d = delivery_pending \<longrightarrow>
        dl_attempt_count d < max_attempts \<and> posted (dl_id d) (hx_posts (w'\<lparr>hx_queue := ds\<rparr>)) \<le> dl_attempt_count d"
      using inv neq by (auto simp: mem rest(1) attempts_inv_def)
    show "\<forall>d \<in> set (hx_dels (w'\<lparr>hx_queue := ds\<rparr>)). dl_status d = delivery_delivering \<longrightarrow> dl_id d \<in> dl_id ` set (hx_queue (w'\<lparr>hx_queue := ds\<rparr>))"
      using none by (auto simp: mem) (metis qmem claim_row_simps(1) image_eqI)
    show "\<forall>x \<in> set (hx_queue (w'\<lparr>hx_queue := ds\<rparr>)). dl_attempt_count x \<le> max_attempts
        \<and> posted (dl_id x) (hx_posts (w'\<lparr>hx_queue := ds\<rparr>)) < dl_attempt_count x
        \<and> (\<forall>d \<in> set (hx_dels (w'\<lparr>hx_queue := ds\<rparr>)). dl_id d = dl_id x \<longrightarrow> dl_status d = delivery_delivering \<and> dl_attempt_count d = dl_attempt_count x)"
    proof
      fix x assume "x \<in> set (hx_queue (w'\<lparr>hx_queue := ds\<rparr>))"
      then obtain d where d: "d \<in> set (hx_dels w)" "dl_id d \<in> ids" "x = claim_row now d" by (auto simp: qmem)
      then have x: "x \<in> set (hx_dels w')" by (auto simp: mem)
      have "dl_status y = delivery_delivering \<and> dl_attempt_count y = dl_attempt_count x"
        if "y \<in> set (hx_dels w')" "dl_id y = dl_id x" for y
        using uniq [OF that(1) x that(2)] d(3) by simp
      with count [OF d(1,2)] d(3) show "dl_attempt_count x \<le> max_attempts
        \<and> posted (dl_id x) (hx_posts (w'\<lparr>hx_queue := ds\<rparr>)) < dl_attempt_count x
        \<and> (\<forall>d \<in> set (hx_dels (w'\<lparr>hx_queue := ds\<rparr>)). dl_id d = dl_id x \<longrightarrow> dl_status d = delivery_delivering \<and> dl_attempt_count d = dl_attempt_count x)"
        by (simp add: rest(1))
    qed
  qed (use rest ids' basics dist inv u in \<open>auto simp: attempts_inv_def\<close>)
qed

text \<open>A delivery of the worker is processed.\<close>

lemma attempts_inv_process:
  assumes inv: "attempts_inv w" and q: "hx_queue w = x # xs"
    and w': "w' = process_delivery (world_env js) now x (w\<lparr>hx_queue := xs\<rparr>)" and u: "hx_ulids w' = hx_ulids w" "hx_queue w' = xs"
  shows "attempts_inv w'"
proof -
  have "hdb_faults (hx_db (w\<lparr>hx_queue := xs\<rparr>)) = []" using inv by (simp add: attempts_inv_def)
  from hw.process_delivery_effect [OF this, of js now x] obtain f qs where f: "keeps_delivery f"
    and rows: "hx_dels w' = update_at (dl_id x) f (hx_dels w)"
    and st: "\<forall>d. dl_status (f d) \<in> {delivery_delivered, delivery_abandoned}
            \<or> (dl_status (f d) = delivery_pending \<and> next_retry_delay (dl_attempt_count x) \<noteq> None)"
    and posts: "hx_posts w' = hx_posts w @ qs" "length qs \<le> 1" "\<forall>q \<in> set qs. post_header ''X-Webhook-Delivery'' q = dl_id x"
    and nf: "hdb_faults (hx_db w') = []"
    unfolding w' by auto
  have x: "dl_attempt_count x \<le> max_attempts" "posted (dl_id x) (hx_posts w) < dl_attempt_count x" "dl_id x \<in> set (hx_ulids w)"
    "\<And>d. d \<in> set (hx_dels w) \<Longrightarrow> dl_id d = dl_id x \<Longrightarrow> dl_attempt_count d = dl_attempt_count x"
    "dl_id x \<notin> dl_id ` set xs"
    using inv q by (auto simp: attempts_inv_def)
  have p1: "posted i (hx_posts w') \<le> posted i (hx_posts w) + (if i = dl_id x then 1 else 0)" for i
    using posted_le [OF posts(2,3), of i] by (simp add: posts(1) posted_append)
  have p2: "i \<noteq> dl_id x \<Longrightarrow> posted i (hx_posts w') = posted i (hx_posts w)" for i
    using posted_le [OF posts(2,3), of i] by (simp add: posts(1) posted_append antisym)
  have fd: "dl_id (f d) = dl_id d" "dl_attempt_count (f d) = dl_attempt_count d" for d
    using f by (auto simp: keeps_delivery_def)
  have nd: "dl_status (f d) \<noteq> delivery_delivering" for d
    using spec [OF st, of d] by (auto simp: delivery_status_defs)
  have np: "dl_status (f d) = delivery_pending \<Longrightarrow> dl_attempt_count x < max_attempts" for d
    using spec [OF st, of d] x(1) by (auto simp: delivery_status_defs next_retry_None)
  show ?thesis
    unfolding attempts_inv_def
  proof (intro conjI)
    show "\<forall>i. posted i (hx_posts w') \<le> max_attempts \<and> (i \<notin> set (hx_ulids w') \<longrightarrow> posted i (hx_posts w') = 0)"
    proof
      fix i
      show "posted i (hx_posts w') \<le> max_attempts \<and> (i \<notin> set (hx_ulids w') \<longrightarrow> posted i (hx_posts w') = 0)"
        using p1 [of i] p2 [of i] x inv u(1) by (cases "i = dl_id x") (auto simp: attempts_inv_def)
    qed
    show "\<forall>d \<in> set (hx_dels w'). dl_status d = delivery_pending \<longrightarrow>
        dl_attempt_count d < max_attempts \<and> posted (dl_id d) (hx_posts w') \<le> dl_attempt_count d"
    proof (intro ballI impI)
      fix d assume d: "d \<in> set (hx_dels w')" "dl_status d = delivery_pending"
      then consider (same) "d \<in> set (hx_dels w)" "dl_id d \<noteq> dl_id x" | (new) y where "y \<in> set (hx_dels w)" "dl_id y = dl_id x" "d = f y"
        by (auto simp: rows update_at_mem)
      then show "dl_attempt_count d < max_attempts \<and> posted (dl_id d) (hx_posts w') \<le> dl_attempt_count d"
      proof cases
        case same
        with inv d(2) p2 [of "dl_id d"] show ?thesis by (auto simp: attempts_inv_def)
      next
        case (new y)
        with d(2) np [of y] x p1 [of "dl_id x"] fd show ?thesis by auto
      qed
    qed
    show "\<forall>d \<in> set (hx_dels w'). dl_status d = delivery_delivering \<longrightarrow> dl_id d \<in> dl_id ` set (hx_queue w')"
    proof (intro ballI impI)
      fix d assume d: "d \<in> set (hx_dels w')" "dl_status d = delivery_delivering"
      with nd have "d \<in> set (hx_dels w)" "dl_id d \<noteq> dl_id x" by (auto simp: rows update_at_mem)
      with d(2) inv q have "dl_id d \<in> dl_id ` set (x # xs)" by (auto simp: attempts_inv_def)
      with \<open>dl_id d \<noteq> dl_id x\<close> u(2) show "dl_id d \<in> dl_id ` set (hx_queue w')" by auto
    qed
    show "\<forall>y \<in> set (hx_queue w'). dl_attempt_count y \<le> max_attempts \<and> posted (dl_id y) (hx_posts w') < dl_attempt_count y
        \<and> (\<forall>d \<in> set (hx_dels w'). dl_id d = dl_id y \<longrightarrow> dl_status d = delivery_delivering \<and> dl_attempt_count d = dl_attempt_count y)"
    proof
      fix y assume y: "y \<in> set (hx_queue w')"
      then have ne: "dl_id y \<noteq> dl_id x" by (metis imageI u(2) x(5))
      have old: "dl_attempt_count y \<le> max_attempts \<and> posted (dl_id y) (hx_posts w) < dl_attempt_count y
        \<and> (\<forall>d \<in> set (hx_dels w). dl_id d = dl_id y \<longrightarrow> dl_status d = delivery_delivering \<and> dl_attempt_count d = dl_attempt_count y)"
        using inv y q u(2) by (simp add: attempts_inv_def)
      then show "dl_attempt_count y \<le> max_attempts \<and> posted (dl_id y) (hx_posts w') < dl_attempt_count y
        \<and> (\<forall>d \<in> set (hx_dels w'). dl_id d = dl_id y \<longrightarrow> dl_status d = delivery_delivering \<and> dl_attempt_count d = dl_attempt_count y)"
        using p2 [OF ne] ne by (auto simp: rows update_at_mem fd)
    qed
    show "\<forall>d \<in> set (hx_dels w') \<union> set (hx_queue w'). dl_id d \<in> set (hx_ulids w')"
      using inv q u by (auto simp: attempts_inv_def rows update_at_mem fd)
    show "distinct (map dl_id (hx_dels w'))" using inv by (simp add: rows update_at_ids [OF f] attempts_inv_def)
    show "distinct (map dl_id (hx_queue w'))" using inv q u(2) by (simp add: attempts_inv_def)
  qed (rule nf)
qed

text \<open>Every step of one worker with a database that answers.\<close>

lemma on_hooks_rest [simp]:
  "hx_ulids (snd (on_hooks f w)) = hx_ulids w" "hx_queue (snd (on_hooks f w)) = hx_queue w"
  by (simp_all add: on_hooks_def split: prod.splits)

lemma world_post_rest: "world_post q w = (o1, w') \<Longrightarrow> hx_ulids w' = hx_ulids w \<and> hx_queue w' = hx_queue w"
  by (auto simp: world_post_def split: list.splits)

lemma world_calls_rest [simp]:
  "hx_ulids (snd (dr_mark_failed (env_deliveries (world_env js)) i n c m nx w)) = hx_ulids w"
  "hx_queue (snd (dr_mark_failed (env_deliveries (world_env js)) i n c m nx w)) = hx_queue w"
  "hx_ulids (snd (dr_mark_delivered (env_deliveries (world_env js)) i k at w)) = hx_ulids w"
  "hx_queue (snd (dr_mark_delivered (env_deliveries (world_env js)) i k at w)) = hx_queue w"
  "hx_ulids (snd (hr_update_status (env_hooks (world_env js)) at i st n t w)) = hx_ulids w"
  "hx_queue (snd (hr_update_status (env_hooks (world_env js)) at i st n t w)) = hx_queue w"
  "hx_ulids (snd (hr_update_success (env_hooks (world_env js)) at i w)) = hx_ulids w"
  "hx_queue (snd (hr_update_success (env_hooks (world_env js)) at i w)) = hx_queue w"
  by (simp_all add: world_calls)

lemma record_failure_rest [simp]:
  "hx_ulids (record_failure (world_env js) now d h c m w) = hx_ulids w"
  "hx_queue (record_failure (world_env js) now d h c m w) = hx_queue w"
  by (simp_all add: record_failure_def Let_def split: option.splits)

lemma process_delivery_rest [simp]:
  "hx_ulids (process_delivery (world_env js) now d w) = hx_ulids w \<and> hx_queue (process_delivery (world_env js) now d w) = hx_queue w"
proof -
  obtain r w1 where g: "hr_get_by_id (env_hooks (world_env js)) (dl_webhook_id d) (dl_workspace_id d) w = (r, w1)" by fastforce
  then have w1: "hx_ulids w1 = hx_ulids w" "hx_queue w1 = hx_queue w"
    by (auto simp: world_calls on_hooks_eq)
  show ?thesis
  proof (cases r)
    case (Inl e)
    with g w1 show ?thesis by (simp add: process_delivery_def)
  next
    case (Inr h)
    obtain o1 w2 where p: "env_post (world_env js) (webhook_request (env_json_text (world_env js)) h d) w1 = (o1, w2)" by fastforce
    from p have "hx_ulids w2 = hx_ulids w1 \<and> hx_queue w2 = hx_queue w1"
      by (intro world_post_rest) (simp add: world_calls)
    with g p w1 Inr show ?thesis by (simp add: process_delivery_def Let_def split: post_outcome.splits)
  qed
qed

lemma attempts_inv_dispatch:
  assumes inv: "attempts_inv w" and d: "dispatch world_hooks world_deliveries now (\<lambda>n. ulids ! n) ev w = (rx, w1)"
    and u: "distinct ulids" "length (hook_view (hx_db w)) \<le> length ulids" "set ulids \<inter> set (hx_ulids w) = {}"
  shows "attempts_inv (w1\<lparr>hx_ulids := hx_ulids w @ ulids\<rparr>)"
proof -
  obtain r w2 where f: "hr_find_subscribed world_hooks (we_workspace_id ev) (we_type ev) w = (r, w2)" by fastforce
  note f' = hook_find_rows [OF f]
  show ?thesis
  proof (cases r)
    case (Inl e)
    with d f have "w1 = w2" by (simp add: dispatch_def)
    with f' show ?thesis by (intro attempts_inv_new [OF inv, where ds = "[]" and us = ulids]) (use u in auto)
  next
    case (Inr hs)
    with d f have l: "dispatch_loop world_deliveries now (\<lambda>n. ulids ! n) ev hs w2 = (rx, w1)" by (simp add: dispatch_def)
    from dispatch_loop_rows [OF l] obtain k where k: "k \<le> length hs"
      "hx_dels w1 = hx_dels w2 @ map (\<lambda>n. pg_delivery (new_delivery now (ulids ! n) ev (hs ! n))) [0..<k]"
      "hx_posts w1 = hx_posts w2" "hx_queue w1 = hx_queue w2" "hdb_faults (hx_db w2) = [] \<longrightarrow> hdb_faults (hx_db w1) = []"
      by blast
    have "length hs \<le> length (hook_view (hx_db w))" using f' Inr by (auto simp: length_filter_le)
    with k(1) u(2) have kl: "k \<le> length ulids" by linarith
    have ids: "map dl_id (map (\<lambda>n. pg_delivery (new_delivery now (ulids ! n) ev (hs ! n))) [0..<k]) = take k ulids"
      using kl by (intro nth_equalityI) (auto simp: pg_delivery_def new_delivery_def)
    show ?thesis
    proof (rule attempts_inv_new [OF inv, where ds = "map (\<lambda>n. pg_delivery (new_delivery now (ulids ! n) ev (hs ! n))) [0..<k]" and us = ulids])
      show "distinct (map dl_id (map (\<lambda>n. pg_delivery (new_delivery now (ulids ! n) ev (hs ! n))) [0..<k]))"
        unfolding ids using u(1) by simp
      show "set (map dl_id (map (\<lambda>n. pg_delivery (new_delivery now (ulids ! n) ev (hs ! n))) [0..<k])) \<subseteq> set ulids"
        unfolding ids by (rule set_take_subset)
    qed (use f' k u in \<open>auto simp: pg_delivery_def new_delivery_def\<close>)
  qed
qed

lemma attempts_inv_step:
  assumes "hook_step js w w'" and inv: "attempts_inv w"
  shows "attempts_inv w'"
  using assms(1)
proof cases
  case (register now ulid rand cmd rg w1)
  note rows = register_rows [OF register(2)]
  show ?thesis unfolding register(1)
    by (rule attempts_inv_subset [OF inv, where p = "\<lambda>_. True"]) (use rows in auto)
next
  case (delete i ws rd)
  note rows = delete_rows [OF delete]
  then obtain p where p: "hx_dels w' = filter p (hx_dels w)" by blast
  from delete have "hx_ulids w' = hx_ulids w"
    by (auto simp: delete_hook_handle_def world_hooks_def on_hooks_eq split: prod.splits sum.splits)
  then show ?thesis by (intro attempts_inv_subset [OF inv p]) (use rows in auto)
next
  case (list ws limit rl)
  note rows = list_rows [OF list]
  from list have "hx_ulids w' = hx_ulids w"
    by (auto simp: list_hooks_handle_def world_hooks_def on_hooks_eq split: prod.splits sum.splits)
  then show ?thesis by (intro attempts_inv_subset [OF inv, where p = "\<lambda>_. True"]) (use rows in auto)
next
  case (dispatch now ulids ev rx w1)
  then show ?thesis using attempts_inv_dispatch [OF inv] by simp
next
  case (claim now limit ds w1)
  have "hx_ulids w1 = hx_ulids w" using claim(3) by (auto simp: world_deliveries_def on_hooks_eq)
  with attempts_inv_claim [OF inv claim(2,3)] claim(1) show ?thesis by simp
next
  case (process d ds now)
  show ?thesis
    by (rule attempts_inv_process [OF inv process(1,2)]) (simp_all add: process(2) process_delivery_rest)
next
  case replicate
  show ?thesis unfolding replicate
    by (rule attempts_inv_subset [OF inv, where p = "\<lambda>_. True"]) (simp_all add: replicate_hooks_def)
next
  case (answers os)
  show ?thesis unfolding answers
    by (rule attempts_inv_subset [OF inv, where p = "\<lambda>_. True"]) simp_all
qed

lemma attempts_inv_reach:
  assumes "reach (hook_step js) w0 w" and "attempts_inv w0"
  shows "attempts_inv w"
  using assms by (induction) (auto intro: attempts_inv_step)

definition quiet_start :: "hook_world \<Rightarrow> bool" where
  "quiet_start w \<longleftrightarrow> hdb_faults (hx_db w) = [] \<and> hx_dels w = [] \<and> hx_queue w = [] \<and> hx_posts w = []"

lemma quiet_start_inv: "quiet_start w \<Longrightarrow> attempts_inv w"
  by (simp add: quiet_start_def attempts_inv_def posted_def max_attempts_def)

end
