(* ===== verification/WebhookProperties.thy ===== *)
theory WebhookProperties
  imports WebhookAttempts
begin

text \<open>
  What webhooks guarantee: a delivery is posted at most five times, a receiver can check the signature of a
  request, an event queues one delivery for each subscribed webhook, and a webhook that has failed gets nothing
  more.
\<close>

section \<open>Attempts\<close>


section \<open>Webhooks that failed\<close>

definition hook_silenced :: "string \<Rightarrow> post_request list \<Rightarrow> hook_world \<Rightarrow> bool" where
  "hook_silenced i log w \<longleftrightarrow> i \<in> set (hx_ulids w) \<and> (\<forall>h \<in> set (hx_hooks w). wh_id h = i \<longrightarrow> \<not> is_deliverable h)
     \<and> posted_for i (hx_posts w) = log"

lemma hook_silenced_keep:
  assumes "hook_silenced i log w" and "\<forall>x \<in> set (hx_hooks w'). x \<in> set (hx_hooks w) \<or> wh_id x \<notin> set (hx_ulids w)"
    and "hx_posts w' = hx_posts w" and "set (hx_ulids w) \<subseteq> set (hx_ulids w')"
  shows "hook_silenced i log w'"
  using assms unfolding hook_silenced_def by (metis subset_iff)

lemma dispatch_frame:
  assumes "dispatch world_hooks world_deliveries now ulids ev w = (r, w')"
  shows "hx_hooks w' = hx_hooks w \<and> hx_posts w' = hx_posts w"
proof -
  obtain x w1 where f: "hr_find_subscribed world_hooks (we_workspace_id ev) (we_type ev) w = (x, w1)" by fastforce
  with assms hook_find_rows [OF f] show ?thesis
    by (cases x) (auto simp: dispatch_def dest!: dispatch_loop_rows)
qed

lemma claim_hooks: "hdb_hooks (snd (hook_stmt (claim_deliveries now limit) db)) = hdb_hooks db"
  by (simp add: hook_stmt_def claim_deliveries_def Let_def split: prod.splits option.splits)

lemma claim_frame:
  assumes "dr_claim world_deliveries now limit w = (r, w')"
  shows "hx_hooks w' = hx_hooks w \<and> hx_posts w' = hx_posts w \<and> hx_ulids w' = hx_ulids w"
proof -
  from assms obtain db where db: "hook_repo_claim now limit (hx_db w) = (r, db)" "w' = w\<lparr>hx_db := db\<rparr>"
    by (auto simp: world_deliveries_def on_hooks_eq)
  then have "db = snd (hook_stmt (claim_deliveries now limit) (hx_db w))"
    by (metis hook_repo_claim_def snd_conv snd_hook_result)
  with db show ?thesis by (simp add: claim_hooks)
qed

lemma hook_silenced_process:
  "hook_silenced i log w \<Longrightarrow> hook_silenced i log (process_delivery (world_env js) now d w)"
  using hw.process_delivery_inactive [of w i js now d] by (simp add: hook_silenced_def)

lemma hook_silenced_step:
  assumes "hook_step js w w'" and s: "hook_silenced i log w"
  shows "hook_silenced i log w'"
  using assms(1)
proof cases
  case (register now ulid rand cmd rg w1)
  with register_rows [OF register(2)] show ?thesis by (intro hook_silenced_keep [OF s]) auto
next
  case (delete j ws rd)
  from delete have "hx_ulids w' = hx_ulids w"
    by (auto simp: delete_hook_handle_def world_hooks_def on_hooks_eq split: prod.splits sum.splits)
  with delete_rows [OF delete] show ?thesis by (intro hook_silenced_keep [OF s]) auto
next
  case (list ws limit rl)
  from list have "hx_ulids w' = hx_ulids w"
    by (auto simp: list_hooks_handle_def world_hooks_def on_hooks_eq split: prod.splits sum.splits)
  with list_rows [OF list] show ?thesis by (intro hook_silenced_keep [OF s]) auto
next
  case (dispatch now ulids ev rx w1)
  with dispatch_frame [OF dispatch(2)] show ?thesis by (intro hook_silenced_keep [OF s]) auto
next
  case (claim now limit ds w1)
  with claim_frame [OF claim(3)] show ?thesis by (intro hook_silenced_keep [OF s]) auto
next
  case (process d ds now)
  have "hook_silenced i log (w\<lparr>hx_queue := ds\<rparr>)" using s by (simp add: hook_silenced_def)
  then show ?thesis unfolding process(2) by (rule hook_silenced_process)
next
  case replicate
  with s show ?thesis by (simp add: hook_silenced_def replicate_hooks_def)
next
  case (answers os)
  with s show ?thesis by (simp add: hook_silenced_def)
qed


section \<open>Events\<close>

text \<open>The webhooks an event is for, as the database shows them.\<close>

definition event_hooks :: "webhook_event \<Rightarrow> hook_world \<Rightarrow> webhook list" where
  "event_hooks ev w = filter (\<lambda>h. wh_workspace_id h = we_workspace_id ev \<and> is_deliverable h \<and> is_subscribed h (we_type ev))
     (hook_view (hx_db w))"

lemma dispatch_loop_ok:
  assumes "hdb_faults (hx_db w) = []" and "we_type ev \<in> set all_event_types"
    and "\<forall>h \<in> set hs. wh_id h \<in> wh_id ` set (hx_hooks w)"
    and "inj_on ulids {..<length hs}" and "ulids ` {..<length hs} \<inter> dl_id ` set (hx_dels w) = {}"
  shows "fst (dispatch_loop world_deliveries now ulids ev hs w) = Inr ()"
  using assms
proof (induction hs arbitrary: ulids w)
  case (Cons h hs)
  have "ulids 0 \<notin> dl_id ` set (hx_dels w)" using Cons.prems(5) by auto
  then have c: "dr_create world_deliveries (new_delivery now (ulids 0) ev h) w
      = (Inr (), w\<lparr>hx_db := (hx_db w)\<lparr>hdb_deliveries := hx_dels w @ [pg_delivery (new_delivery now (ulids 0) ev h)]\<rparr>\<rparr>)"
    using Cons.prems(1-3)
    by (simp add: world_deliveries_def on_hooks_def hook_repo_create_delivery_def hook_stmt_ok insert_delivery_def
        delivery_row_checks_def new_delivery_def delivery_pending_def hook_result_def)
  let ?w = "w\<lparr>hx_db := (hx_db w)\<lparr>hdb_deliveries := hx_dels w @ [pg_delivery (new_delivery now (ulids 0) ev h)]\<rparr>\<rparr>"
  have "fst (dispatch_loop world_deliveries now (\<lambda>n. ulids (Suc n)) ev hs ?w) = Inr ()"
  proof (rule Cons.IH)
    show "inj_on (\<lambda>n. ulids (Suc n)) {..<length hs}"
      using Cons.prems(4) by (auto simp: inj_on_def)
    have "ulids 0 \<noteq> ulids (Suc n)" if "n < length hs" for n
      using inj_onD [OF Cons.prems(4), of 0 "Suc n"] that by auto
    moreover have "ulids (Suc n) \<notin> dl_id ` set (hx_dels w)" if "n < length hs" for n
      using Cons.prems(5) that by auto
    ultimately show "(\<lambda>n. ulids (Suc n)) ` {..<length hs} \<inter> dl_id ` set (hx_dels ?w) = {}"
      by (auto simp: pg_delivery_def new_delivery_def)
  qed (use Cons.prems in auto)
  with c show ?case by simp
qed simp

text \<open>C23: an event queues one pending delivery, with no attempt made, for every active webhook of its workspace that
  subscribed to it, in order, and for no other; a statement that fails leaves the deliveries before it. When the
  database answers, the event is of a known type, its webhooks are still there and the new ULIDs are new, the
  whole list is queued.\<close>

theorem dispatch_queues_deliveries:
  assumes "dispatch world_hooks world_deliveries now ulids ev w = (r, w')"
  shows "(\<exists>k \<le> length (event_hooks ev w).
      hx_dels w' = hx_dels w @ map (\<lambda>n. pg_delivery (new_delivery now (ulids n) ev (event_hooks ev w ! n))) [0..<k]
      \<and> (r = Inr () \<longrightarrow> k = length (event_hooks ev w)))
    \<and> (hdb_faults (hx_db w) = [] \<and> we_type ev \<in> set all_event_types
      \<and> (\<forall>h \<in> set (event_hooks ev w). wh_id h \<in> wh_id ` set (hx_hooks w)) \<and> inj_on ulids {..<length (event_hooks ev w)}
      \<and> ulids ` {..<length (event_hooks ev w)} \<inter> dl_id ` set (hx_dels w) = {} \<longrightarrow> r = Inr ())"
proof -
  obtain x w1 where f: "hr_find_subscribed world_hooks (we_workspace_id ev) (we_type ev) w = (x, w1)" by fastforce
  note f' = hook_find_rows [OF f]
  have hs: "x = Inr hs \<Longrightarrow> hs = event_hooks ev w" for hs
    using f' by (auto simp: event_hooks_def is_deliverable_def hook_active_def is_subscribed_iff)
  show ?thesis
  proof (rule conjI)
  show "\<exists>k \<le> length (event_hooks ev w).
      hx_dels w' = hx_dels w @ map (\<lambda>n. pg_delivery (new_delivery now (ulids n) ev (event_hooks ev w ! n))) [0..<k]
      \<and> (r = Inr () \<longrightarrow> k = length (event_hooks ev w))"
  proof (cases x)
    case (Inl e)
    with assms f f' show ?thesis by (intro exI [of _ 0]) (auto simp: dispatch_def)
  next
    case (Inr hs')
    with assms f hs have l: "dispatch_loop world_deliveries now ulids ev (event_hooks ev w) w1 = (r, w')"
      by (simp add: dispatch_def)
    from dispatch_loop_rows [OF l] f' show ?thesis by auto
  qed
  show "hdb_faults (hx_db w) = [] \<and> we_type ev \<in> set all_event_types
      \<and> (\<forall>h \<in> set (event_hooks ev w). wh_id h \<in> wh_id ` set (hx_hooks w)) \<and> inj_on ulids {..<length (event_hooks ev w)}
      \<and> ulids ` {..<length (event_hooks ev w)} \<inter> dl_id ` set (hx_dels w) = {} \<longrightarrow> r = Inr ()"
  proof
    assume a: "hdb_faults (hx_db w) = [] \<and> we_type ev \<in> set all_event_types
      \<and> (\<forall>h \<in> set (event_hooks ev w). wh_id h \<in> wh_id ` set (hx_hooks w)) \<and> inj_on ulids {..<length (event_hooks ev w)}
      \<and> ulids ` {..<length (event_hooks ev w)} \<inter> dl_id ` set (hx_dels w) = {}"
    with f have x: "x = Inr (event_hooks ev w)"
      by (auto simp: world_hooks_def on_hooks_eq hook_repo_find_subscribed_def hook_stmt_ok hook_result_def event_hooks_def
          is_deliverable_def hook_active_def is_subscribed_iff)
    with f' a have "fst (dispatch_loop world_deliveries now ulids ev (event_hooks ev w) w1) = Inr ()"
      by (intro dispatch_loop_ok) auto
    with assms f x show "r = Inr ()" by (simp add: dispatch_def)
  qed
  qed
qed

section \<open>Signatures\<close>

text \<open>C35: a signature is accepted exactly when it is \<open>sha256=\<close> followed by the hexadecimal form, in either case,
  of the HMAC of the payload: what \<open>sign\<close> writes, and nothing with another digest.\<close>

theorem signature_checked:
  "verify_signature secret payload sig \<longleftrightarrow>
     (\<exists>rest. sig = signature_prefix @ rest \<and> signature_prefix @ to_lower rest = sign secret payload)"
proof -
  have bytes: "\<forall>b \<in> set (hmac_sha256 k m). b < 256" for k m by (rule hmac_bound)
  show ?thesis
  proof (cases "\<exists>rest. sig = signature_prefix @ rest")
    case True
    then obtain rest where "sig = signature_prefix @ rest" by blast
    then show ?thesis
      using hex_decode_Some [of rest "hmac_sha256 (string_bytes secret) payload"] bytes
      by (auto simp: verify_signature_def sign_def split: option.splits)
  next
    case False
    then show ?thesis by (auto simp: verify_signature_def has_prefix_iff prefix_def)
  qed
qed

section \<open>Witnesses\<close>

definition demo_hook :: webhook where
  "demo_hook = \<lparr>wh_id = ''wh_1'', wh_workspace_id = ''ws_1'', wh_name = ''ci'', wh_url = ''https://ci.example.com/hook'',
     wh_secret = ''s3cret'', wh_events = [''url.created''], wh_status = ''active'', wh_created_by = ''usr_1'',
     wh_created_at = 0, wh_updated_at = 0, wh_last_success_at = None, wh_last_failure_at = None, wh_failure_count = 0\<rparr>"

definition demo_hooks :: "webhook list \<Rightarrow> hook_world" where
  "demo_hooks hs = \<lparr>hx_db = \<lparr>hdb_hooks = hs, hdb_replica = None, hdb_deliveries = [], hdb_workspaces = [''ws_1''],
     hdb_faults = []\<rparr>, hx_http = [PostStatus 500 ''500 Internal Server Error''], hx_posts = [], hx_queue = [], hx_ulids = [''wh_1'']\<rparr>"

definition demo_event :: webhook_event where
  "demo_event = \<lparr>we_type = ''url.created'', we_event_id = ''abc'', we_workspace_id = ''ws_1'', we_occurred_at = 0, we_data = []\<rparr>"

lemmas demo_hook_defs = demo_hook_def demo_hooks_def demo_event_def

definition demo_row :: delivery where "demo_row = pg_delivery (new_delivery 0 ''dl_1'' demo_event demo_hook)"

definition demo_queued :: hook_world where
  "demo_queued = (demo_hooks [demo_hook])\<lparr>hx_db := (hx_db (demo_hooks [demo_hook]))\<lparr>hdb_deliveries := [demo_row]\<rparr>,
     hx_ulids := [''wh_1'', ''dl_1'']\<rparr>"

definition demo_claimed :: hook_world where
  "demo_claimed = demo_queued\<lparr>hx_db := (hx_db demo_queued)\<lparr>hdb_deliveries := [claim_row 0 demo_row]\<rparr>, hx_queue := [claim_row 0 demo_row]\<rparr>"

lemma demo_dispatch:
  "dispatch world_hooks world_deliveries 0 (\<lambda>n. [''dl_1''] ! n) demo_event (demo_hooks [demo_hook]) =
     (Inr (), (demo_hooks [demo_hook])\<lparr>hx_db := (hx_db (demo_hooks [demo_hook]))\<lparr>hdb_deliveries := [demo_row]\<rparr>\<rparr>)"
  by (simp add: dispatch_def world_hooks_def world_deliveries_def on_hooks_def hook_repo_find_subscribed_def hook_result_def
      hook_stmt_def demo_hooks_def demo_hook_def demo_event_def hook_view_def hook_repo_create_delivery_def
      insert_delivery_def delivery_row_checks_def new_delivery_def delivery_pending_def all_event_types_def
      event_url_created_def demo_row_def)

lemma demo_steps: "reach (hook_step js) (demo_hooks [demo_hook]) demo_claimed"
proof -
  have "hook_step js (demo_hooks [demo_hook]) demo_queued"
    using hook_step.dispatch [OF demo_dispatch] by (simp add: demo_queued_def demo_hooks_def hook_view_def)
  moreover have "dr_claim world_deliveries 0 0 demo_queued
      = (Inr [claim_row 0 demo_row], demo_queued\<lparr>hx_db := (hx_db demo_queued)\<lparr>hdb_deliveries := [claim_row 0 demo_row]\<rparr>\<rparr>)"
    by (simp add: world_deliveries_def on_hooks_def hook_repo_claim_def hook_result_def hook_stmt_def
        claim_deliveries_def demo_queued_def demo_hooks_def claimable_def demo_row_def pg_delivery_def new_delivery_def
        delivery_pending_def pg_time_def)
  then have "hook_step js demo_queued demo_claimed"
    using hook_step.claim [of demo_queued 0 0 _ _ js] by (simp add: demo_claimed_def demo_queued_def demo_hooks_def)
  ultimately show ?thesis by (metis reach.intros)
qed



lemma dispatch_queues_deliveries_witness:
  "hx_dels (snd (dispatch world_hooks world_deliveries 0 (\<lambda>n. [''dl_1''] ! n) demo_event (demo_hooks [demo_hook]))) = [demo_row]"
proof -
  have one: "event_hooks demo_event (demo_hooks [demo_hook]) = [demo_hook]"
    by (simp add: event_hooks_def demo_event_def demo_hooks_def demo_hook_def hook_view_def is_deliverable_def hook_active_def
        is_subscribed_def)
  show ?thesis
    using dispatch_queues_deliveries [OF demo_dispatch, unfolded one] unfolding demo_dispatch
    by (simp add: demo_row_def demo_hooks_def)
qed

end
