(* ===== verification/AuditProperties.thy ===== *)
theory AuditProperties
  imports AuditLog
begin

text \<open>
  What the audit trail guarantees: every captured event is written at most once or is accounted for, and which
  events take others down with them.
\<close>

interpretation audit_pg_all: exact_writer audit_write_many "\<lambda>db. mset (adb_rows db)" pg_audit
proof unfold_locales
  fix es v and db db' :: audit_db
  assume "audit_write_many es db = (Inr v, db')"
  then show "size (mset (adb_rows db')) = size (mset (adb_rows db)) + length es"
    by (auto simp: audit_write_many_def audit_wrap_def audit_exec_def dest: insert_audit_rows
        split: prod.splits sum.splits option.splits if_splits)
qed

abbreviation audit_run :: "audit_db \<Rightarrow> (audit_event, audit_db) run \<Rightarrow> bool" where
  "audit_run \<equiv> buf_reachable audit_channel_size audit_batch_size audit_write_many (audit_shutdown audit_write_many)"

lemma audit_shutdown_counted:
  assumes "audit_shutdown audit_write_many b = (b', n)" and "audit_pg_all.counted db b"
  shows "audit_pg_all.counted db b'"
proof -
  have "audit_pg_all.counted db (b\<lparr>bf_channel := []\<rparr>)" using assms(2) by (simp add: audit_pg_all.counted_def)
  from audit_pg_all.write_events_counted [OF this, of "bf_channel b"] assms(1) audit_shutdown_eq [of audit_write_many b]
  show ?thesis by (simp add: audit_pg_all.counted_def)
qed

text \<open>C15: over every interleaving of requests, the drainer, its ticks and a shutdown, with statements that may fail:
  what the table gains are captured events, each at most once and as many as were counted as written; and every
  captured event is written, counted as dropped, still waiting, or lost by a failed shutdown.\<close>

theorem audit_events_accounted:
  assumes "audit_run db r"
  shows "(\<exists>ns. mset (adb_rows (bf_db (rn_buf r))) = mset (adb_rows db) + ns
        \<and> ns + mset (map pg_audit (bf_batch (rn_buf r) @ bf_channel (rn_buf r))) \<subseteq># mset (map pg_audit (rn_sent r))
        \<and> int (size ns) = bf_written (rn_buf r))
    \<and> int (length (rn_sent r)) = bf_written (rn_buf r) + bf_dropped (rn_buf r)
        + int (length (bf_batch (rn_buf r))) + int (length (bf_channel (rn_buf r))) + rn_lost r"
proof -
  have "audit_pg.stored db (rn_buf r) (map pg_audit (rn_sent r))"
    by (rule audit_pg.buf_reachable_stored [OF assms]) (auto intro: audit_shutdown_stored)
  moreover have "audit_pg_all.counted db (rn_buf r)"
    by (rule audit_pg_all.buf_reachable_counted [OF assms]) (auto intro: audit_shutdown_counted)
  moreover have "int (length (rn_sent r)) = buffer_total (rn_buf r) + rn_lost r"
    by (rule buf_reachable_total [OF assms]) (auto dest: audit_shutdown_total)
  ultimately show ?thesis
    unfolding audit_pg.stored_def audit_pg_all.counted_def buffer_total_def
    by (metis (no_types, lifting) add_left_cancel of_nat_add size_union)
qed

section \<open>Batches that are lost\<close>

lemma insert_audit_bad:
  assumes "e \<in> set es" and "audit_row_checks lo hi e \<noteq> None"
  shows "\<exists>err. insert_audit lo hi es rows = Inl err"
  using assms(1)
proof (induction es arbitrary: rows)
  case (Cons x es)
  then show ?case using assms(2) by (cases "audit_row_checks lo hi x") auto
qed simp

text \<open>A request whose \<open>User-Agent\<close> header is not valid UTF-8 takes every other event of its batch with it: the
  statement fails, no row is written, and all of them are dropped.\<close>

theorem bad_user_agent_loses_batch:
  assumes "\<not> pg_text_ok (rq_header rq ''User-Agent'')" and "e \<in> set (bf_batch b)"
    and "ae_user_agent e = ae_user_agent (build_event now ulid action rq)"
  shows "adb_rows (bf_db (flush_batch audit_write_many b)) = adb_rows (bf_db b)
    \<and> bf_dropped (flush_batch audit_write_many b) = bf_dropped b + int (length (bf_batch b))
    \<and> bf_batch (flush_batch audit_write_many b) = []"
proof -
  have "\<not> list_all pg_text_ok (audit_texts e)"
    using assms(1,3) by (auto simp: audit_texts_def build_event_def Let_def split: option.splits)
  then have "audit_row_checks (adb_from (bf_db b)) (adb_until (bf_db b)) e \<noteq> None" by (simp add: audit_row_checks_def)
  from insert_audit_bad [OF assms(2) this] obtain err where
    err: "insert_audit (adb_from (bf_db b)) (adb_until (bf_db b)) (bf_batch b) (adb_rows (bf_db b)) = Inl err" by blast
  have ne: "bf_batch b \<noteq> []" using assms(2) by auto
  obtain err' db where "audit_write_many (bf_batch b) (bf_db b) = (Inl err', db)" "adb_rows db = adb_rows (bf_db b)"
    using ne err by (cases "next_fault (adb_faults (bf_db b))"; cases "fst (next_fault (adb_faults (bf_db b)))")
      (auto simp: audit_write_many_def audit_wrap_def audit_exec_def)
  with ne show ?thesis by (simp add: flush_batch_def write_events_def)
qed

section \<open>Witnesses\<close>

definition demo_audit_db :: audit_db where
  "demo_audit_db = \<lparr>adb_rows = [], adb_replica = None, adb_from = 0, adb_until = 1000000, adb_faults = []\<rparr>"

definition audit_request :: "string \<Rightarrow> request" where
  "audit_request agent = \<lparr>rq_method = ''POST'', rq_path = ''/api/v1/urls'', rq_query = [], rq_headers = [(''User-Agent'', agent)],
     rq_remote_addr = ''192.0.2.1'', rq_params = [], rq_body = BodyUnreadable, rq_claims = None, rq_member = None, rq_id = ''r1''\<rparr>"

definition demo_audit_event :: audit_event where
  "demo_audit_event = (build_event 5 ''ae_1'' act_url_create (audit_request ''curl''))
     \<lparr>ae_resource_type := resource_url, ae_resource_id := ''url_1''\<rparr>"

lemma demo_audit_written:
  "audit_write_many [demo_audit_event] demo_audit_db = (Inr (), demo_audit_db\<lparr>adb_rows := [pg_audit demo_audit_event]\<rparr>)"
  by code_simp

lemma audit_events_accounted_witness:
  "\<exists>r. audit_run demo_audit_db r \<and> bf_written (rn_buf r) = 1 \<and> int (length (rn_sent r)) = 1 + rn_lost r"
proof -
  let ?r0 = "\<lparr>rn_buf = new_buffer demo_audit_db, rn_sent = [], rn_lost = 0\<rparr>"
  let ?r1 = "?r0\<lparr>rn_buf := offer audit_channel_size demo_audit_event (rn_buf ?r0), rn_sent := rn_sent ?r0 @ [demo_audit_event]\<rparr>"
  let ?r2 = "?r1\<lparr>rn_buf := receive audit_batch_size audit_write_many (rn_buf ?r1)\<rparr>"
  let ?r3 = "?r2\<lparr>rn_buf := drainer_stop audit_write_many (rn_buf ?r2)\<rparr>"
  have "audit_run demo_audit_db ?r1" by (rule buf_reachable.more [OF buf_reachable.start buf_step.capture])
  then have "audit_run demo_audit_db ?r2"
    by (rule buf_reachable.more [OF _ buf_step.take_one]) (simp add: new_buffer_def offer_def audit_channel_size_def)
  moreover have "bf_running (rn_buf ?r2)"
    by (simp add: new_buffer_def offer_def audit_channel_size_def receive_def audit_batch_size_def Let_def)
  ultimately have reach: "audit_run demo_audit_db ?r3"
    by (rule buf_reachable.more [OF _ buf_step.stop])
  moreover have "bf_written (rn_buf ?r3) = 1 \<and> bf_dropped (rn_buf ?r3) = 0 \<and> bf_batch (rn_buf ?r3) = [] \<and> bf_channel (rn_buf ?r3) = []"
    by (simp add: new_buffer_def offer_def audit_channel_size_def receive_def audit_batch_size_def Let_def drainer_stop_def
        flush_batch_def write_events_def demo_audit_written)
  ultimately show ?thesis using audit_events_accounted [OF reach] by (intro exI [of _ ?r3]) simp
qed

lemma bad_user_agent_loses_batch_witness:
  "let bad = build_event 5 ''ae_2'' act_url_create (audit_request [char_of (255::nat)]);
       b = (new_buffer demo_audit_db)\<lparr>bf_batch := [demo_audit_event, bad]\<rparr>
   in adb_rows (bf_db (flush_batch audit_write_many b)) = [] \<and> bf_dropped (flush_batch audit_write_many b) = 2"
proof -
  have "\<not> pg_text_ok (rq_header (audit_request [char_of (255::nat)]) ''User-Agent'')" by code_simp
  from bad_user_agent_loses_batch [OF this, of "build_event 5 ''ae_2'' act_url_create (audit_request [char_of (255::nat)])"
      "(new_buffer demo_audit_db)\<lparr>bf_batch := [demo_audit_event, build_event 5 ''ae_2'' act_url_create (audit_request [char_of (255::nat)])]\<rparr>"
      5 "''ae_2''" act_url_create]
  show ?thesis by (simp add: Let_def new_buffer_def demo_audit_db_def)
qed

end
