(* ===== verification/AnalyticsProperties.thy ===== *)
theory AnalyticsProperties
  imports Analytics
begin

text \<open>
  What the ingestion of clicks guarantees: the events of the table and the counters of the links agree, bots are
  never counted, and an event that PostgreSQL refuses takes its batch with it.
\<close>

section \<open>The writer\<close>

lemma insert_events_rows:
  "insert_events lo hi es rows = Inr rows' \<Longrightarrow> \<exists>ns. rows' = rows @ ns \<and> mset ns \<subseteq># mset (map pg_event es)"
proof (induction es arbitrary: rows)
  case (Cons e es)
  show ?case
  proof (cases "event_key (pg_event e) \<in> event_key ` set rows")
    case True
    with Cons.prems have "insert_events lo hi es rows = Inr rows'" by (auto split: option.splits)
    from Cons.IH [OF this] show ?thesis by (auto intro: subset_add_mset)
  next
    case False
    with Cons.prems have "insert_events lo hi es (rows @ [pg_event e]) = Inr rows'" by (auto split: option.splits)
    from Cons.IH [OF this] obtain ns where "rows' = (rows @ [pg_event e]) @ ns" "mset ns \<subseteq># mset (map pg_event es)" by blast
    then show ?thesis by (intro exI [of _ "pg_event e # ns"]) simp
  qed
qed simp

lemma increment_events [simp]:
  "ed_events (snd (increment_click_counts cs db)) = ed_events db"
proof (induction cs arbitrary: db)
  case (Cons c cs)
  then show ?case by (cases c) (auto split: prod.splits sum.splits)
qed simp

lemma write_many_events_rows:
  "write_many_events es db = (Inl e, db') \<Longrightarrow> ed_events db' = ed_events db \<and> udb_rows (ed_urls db') = udb_rows (ed_urls db)"
  "write_many_events es db = (Inr v, db') \<Longrightarrow> \<exists>ns. ed_events db' = ed_events db @ ns \<and> mset ns \<subseteq># mset (map pg_event es)"
  by (auto simp: write_many_events_def event_wrap_def set_url_faults_def dest: insert_events_rows
      split: prod.splits sum.splits option.splits if_splits)

interpretation clicks: event_writer "analytics_write ord" "\<lambda>db. mset (ed_events db)" pg_event for ord
proof unfold_locales
  fix es v and db db' :: event_db
  assume "analytics_write ord es db = (Inr v, db')"
  then obtain db1 where "write_many_events es db = (Inr (), db1)" "ed_events db' = ed_events db1"
    by (auto simp: analytics_write_def split: prod.splits sum.splits)
  with write_many_events_rows(2) [of es db "()" db1]
  show "\<exists>ns. ns \<subseteq># mset (map pg_event es) \<and> mset (ed_events db') = mset (ed_events db) + ns" by auto
next
  fix es e and db db' :: event_db
  assume "analytics_write ord es db = (Inl e, db')"
  then have "write_many_events es db = (Inl e, db')" by (auto simp: analytics_write_def split: prod.splits sum.splits)
  then show "mset (ed_events db') = mset (ed_events db)" using write_many_events_rows(1) by fastforce
qed

section \<open>Counters\<close>

text \<open>What the counters of the links are about: code, whether the link is live, clicks.\<close>

definition ledger :: "url list \<Rightarrow> (string \<times> bool \<times> int) list" where
  "ledger = map (\<lambda>u. (short_code u, deleted_at u = None, click_count u))"

definition bump :: "(string \<Rightarrow> int) \<Rightarrow> (string \<times> bool \<times> int) list \<Rightarrow> (string \<times> bool \<times> int) list" where
  "bump f = map (\<lambda>(sc, live, n). (sc, live, if live then n + f sc else n))"

definition urls_healthy :: "event_db \<Rightarrow> bool" where
  "urls_healthy db \<longleftrightarrow> udb_faults (ed_urls db) = [] \<and> (\<forall>r \<in> set (udb_rows (ed_urls db)). url_row_checks r = None)"

lemma bump_bump: "bump f (bump g l) = bump (\<lambda>sc. g sc + f sc) l"
  by (auto simp: bump_def)

lemma bump_zero: "bump (\<lambda>sc. 0) l = l"
  unfolding bump_def by (rule map_idI) auto

lemma increment_one:
  assumes "urls_healthy db" and "0 \<le> n"
  shows "\<exists>k us. exec_update (ed_now db) (\<lambda>r. short_code r = sc \<and> deleted_at r = None)
            (\<lambda>r. r\<lparr>click_count := click_count r + n\<rparr>) (ed_urls db) = (Inr k, us)
          \<and> ledger (udb_rows us) = bump (\<lambda>x. if x = sc then n else 0) (ledger (udb_rows (ed_urls db)))
          \<and> urls_healthy (db\<lparr>ed_urls := us\<rparr>)"
proof -
  let ?p = "\<lambda>r. short_code r = sc \<and> deleted_at r = None" and ?f = "\<lambda>r. r\<lparr>click_count := click_count r + n\<rparr>"
  have ok: "url_row_checks (pg_row ((?f r)\<lparr>updated_at := ed_now db\<rparr>)) = None" if "r \<in> set (udb_rows (ed_urls db))" for r
    using assms that by (auto simp: urls_healthy_def url_row_checks_def split: if_splits)
  then have "List.find (\<lambda>r. ?p r \<and> url_row_checks (pg_row ((?f r)\<lparr>updated_at := ed_now db\<rparr>)) \<noteq> None) (udb_rows (ed_urls db)) = None"
    by (auto simp: find_None_iff)
  with assms(1) have run: "exec_update (ed_now db) ?p ?f (ed_urls db)
      = (Inr (length (filter ?p (udb_rows (ed_urls db)))),
         (ed_urls db)\<lparr>udb_faults := [],
           udb_rows := map (\<lambda>r. if ?p r then pg_row ((?f r)\<lparr>updated_at := ed_now db\<rparr>) else r) (udb_rows (ed_urls db))\<rparr>)"
    by (simp add: exec_update_def update_rows_def urls_healthy_def Let_def)
  show ?thesis
    unfolding run using assms ok
    by (auto simp: ledger_def bump_def urls_healthy_def comp_def intro!: exI)
qed

lemma increment_all:
  assumes "urls_healthy db" and "\<forall>c \<in> set cs. 0 \<le> snd c"
  shows "urls_healthy (snd (increment_click_counts cs db))
    \<and> ledger (udb_rows (ed_urls (snd (increment_click_counts cs db))))
        = bump (\<lambda>sc. sum_list (map snd (filter (\<lambda>c. fst c = sc) cs))) (ledger (udb_rows (ed_urls db)))"
  using assms
proof (induction cs arbitrary: db)
  case Nil
  then show ?case by (simp add: bump_zero)
next
  case (Cons c cs)
  obtain sc n where c: "c = (sc, n)" by fastforce
  with Cons.prems increment_one [of db n sc] obtain k us where
    run: "exec_update (ed_now db) (\<lambda>r. short_code r = sc \<and> deleted_at r = None)
            (\<lambda>r. r\<lparr>click_count := click_count r + n\<rparr>) (ed_urls db) = (Inr k, us)"
    and l: "ledger (udb_rows us) = bump (\<lambda>x. if x = sc then n else 0) (ledger (udb_rows (ed_urls db)))"
    and h: "urls_healthy (db\<lparr>ed_urls := us\<rparr>)" by auto
  from Cons.IH [OF h] Cons.prems(2) l show ?case
    by (auto simp: c run bump_bump intro!: arg_cong2 [where f = bump])
qed

text \<open>The order in which the map is iterated does not matter.\<close>

lemma click_counts_sum:
  assumes "mset (ord (click_counts es)) = mset (click_counts es)"
  shows "sum_list (map snd (filter (\<lambda>c. fst c = sc) (ord (click_counts es)))) = human_clicks sc es"
proof -
  have "mset (map snd (filter (\<lambda>c. fst c = sc) (ord (click_counts es)))) = mset (map snd (filter (\<lambda>c. fst c = sc) (click_counts es)))"
    using assms by (simp add: mset_filter)
  then have "sum_list (map snd (filter (\<lambda>c. fst c = sc) (ord (click_counts es)))) = sum_list (map snd (filter (\<lambda>c. fst c = sc) (click_counts es)))"
    by (metis sum_mset_sum_list)
  also have "\<dots> = human_clicks sc es"
  proof -
    have one: "distinct xs \<Longrightarrow> sum_list (map snd (filter (\<lambda>c. fst c = sc) (map (\<lambda>x. (x, f x)) xs))) = (if sc \<in> set xs then f sc else (0::int))"
      for f :: "string \<Rightarrow> int" and xs by (induction xs) auto
    have "sc \<notin> set (map re_short_code (filter (\<lambda>e. \<not> re_is_bot e) es)) \<Longrightarrow> human_clicks sc es = 0"
      by (auto simp: human_clicks_def filter_empty_conv)
    then show ?thesis unfolding click_counts_def by (subst one) auto
  qed
  finally show ?thesis .
qed

lemma human_clicks_append: "human_clicks sc (es @ fs) = human_clicks sc es + human_clicks sc fs"
  by (simp add: human_clicks_def)

lemma human_clicks_pg [simp]: "human_clicks sc (map pg_event es) = human_clicks sc es"
  by (induction es) (auto simp: human_clicks_def pg_event_def)

section \<open>Runs\<close>

lemma pg_event_simps [simp]: "re_id (pg_event e) = re_id e" "re_is_bot (pg_event e) = re_is_bot e" "re_short_code (pg_event e) = re_short_code e"
  by (simp_all add: pg_event_def)

lemma insert_events_fresh:
  "insert_events lo hi es rows = Inr rows' \<Longrightarrow> distinct (map re_id es) \<Longrightarrow> set (map re_id es) \<inter> set (map re_id rows) = {}
     \<Longrightarrow> rows' = rows @ map pg_event es"
proof (induction es arbitrary: rows)
  case (Cons e es)
  have "event_key (pg_event e) \<notin> event_key ` set rows"
    using Cons.prems(3) by (auto simp: event_key_def)
  with Cons.prems(1) have "insert_events lo hi es (rows @ [pg_event e]) = Inr rows'" by (auto split: option.splits)
  from Cons.IH [OF this] Cons.prems(2,3) show ?case by auto
qed simp

text \<open>The state of the tables against the start of the run.\<close>

definition clicks_ok :: "event_db \<Rightarrow> (redirect_event, event_db) buffered \<Rightarrow> bool" where
  "clicks_ok db b \<longleftrightarrow> urls_healthy (bf_db b)
     \<and> (\<exists>new. ed_events (bf_db b) = ed_events db @ new \<and> int (length new) = bf_written b
          \<and> ledger (udb_rows (ed_urls (bf_db b))) = bump (\<lambda>sc. human_clicks sc new) (ledger (udb_rows (ed_urls db))))"

lemma write_events_clicks:
  assumes "clicks_ok db b" and "distinct (map re_id es)" and "set (map re_id es) \<inter> set (map re_id (ed_events (bf_db b))) = {}"
    and ord: "\<forall>l. mset (ord l) = mset l"
  shows "clicks_ok db (write_events (analytics_write ord) es b)"
proof (cases "es = []")
  case True
  with assms(1) show ?thesis by (simp add: write_events_def)
next
  case False
  from assms(1) obtain new where h: "urls_healthy (bf_db b)" and new: "ed_events (bf_db b) = ed_events db @ new"
    "int (length new) = bf_written b"
    "ledger (udb_rows (ed_urls (bf_db b))) = bump (\<lambda>sc. human_clicks sc new) (ledger (udb_rows (ed_urls db)))"
    by (auto simp: clicks_ok_def)
  have same: "set_url_faults [] (bf_db b) = bf_db b" using h by (cases "bf_db b") (simp add: set_url_faults_def urls_healthy_def)
  show ?thesis
  proof (cases "insert_events (ed_from (bf_db b)) (ed_until (bf_db b)) es (ed_events (bf_db b))")
    case (Inl err)
    then obtain e where "write_many_events es (bf_db b) = (Inl e, bf_db b)"
      using h False same by (auto simp: write_many_events_def event_wrap_def urls_healthy_def)
    with assms(1) False show ?thesis by (auto simp: write_events_def analytics_write_def clicks_ok_def)
  next
    case (Inr rows')
    note rows = insert_events_fresh [OF Inr assms(2,3)]
    define db1 where "db1 = (bf_db b)\<lparr>ed_events := rows'\<rparr>"
    have w: "write_many_events es (bf_db b) = (Inr (), db1)"
      using h False same Inr by (auto simp: write_many_events_def event_wrap_def urls_healthy_def db1_def)
    have h1: "urls_healthy db1" using h by (simp add: urls_healthy_def db1_def)
    have "\<forall>c \<in> set (ord (click_counts es)). 0 \<le> snd c"
      using ord by (auto simp: click_counts_def human_clicks_def dest!: mset_eq_setD [THEN equalityD1, THEN subsetD] simp flip: set_mset_mset)
    from increment_all [OF h1 this] click_counts_sum [of ord es] ord
    have inc: "urls_healthy (snd (increment_click_counts (ord (click_counts es)) db1))"
      "ledger (udb_rows (ed_urls (snd (increment_click_counts (ord (click_counts es)) db1))))
        = bump (\<lambda>sc. human_clicks sc es) (ledger (udb_rows (ed_urls (bf_db b))))"
      by (auto simp: db1_def)
    then show ?thesis
      using False w new rows
      by (auto simp: write_events_def analytics_write_def clicks_ok_def bump_bump human_clicks_append db1_def intro!: exI [of _ "new @ map pg_event es"])
  qed
qed

text \<open>Events that were sent once and are not in the table before the run.\<close>

definition fresh_sent :: "event_db \<Rightarrow> redirect_event list \<Rightarrow> bool" where
  "fresh_sent db sent \<longleftrightarrow> distinct (map re_id sent) \<and> set (map re_id sent) \<inter> set (map re_id (ed_events db)) = {}"

lemma stored_fresh:
  assumes "clicks.stored db b (map pg_event sent)" and "fresh_sent db sent" and "\<exists>new. ed_events (bf_db b) = ed_events db @ new"
  shows "distinct (map re_id (bf_batch b @ bf_channel b))"
    and "set (map re_id (bf_batch b @ bf_channel b)) \<inter> set (map re_id (ed_events (bf_db b))) = {}"
proof -
  from assms(1) obtain ns where ns: "mset (ed_events (bf_db b)) = mset (ed_events db) + ns"
    "ns + mset (map pg_event (bf_batch b @ bf_channel b)) \<subseteq># mset (map pg_event sent)"
    by (auto simp: clicks.stored_def)
  from image_mset_subseteq_mono [OF ns(2), of re_id]
  have sub: "image_mset re_id ns + mset (map re_id (bf_batch b @ bf_channel b)) \<subseteq># mset (map re_id sent)"
    by (simp add: image_mset.compositionality comp_def)
  have dist: "distinct (map re_id sent)" using assms(2) by (simp add: fresh_sent_def)
  then have d: "count (mset (map re_id sent)) x \<le> 1" for x
    by (simp add: distinct_count_atmost_1)
  have le: "count (image_mset re_id ns) x + count (mset (map re_id (bf_batch b @ bf_channel b))) x \<le> 1" for x
    using mset_subset_eq_count [OF sub, of x] d [of x] by simp
  show "distinct (map re_id (bf_batch b @ bf_channel b))"
  proof -
    have "count (mset (map re_id (bf_batch b @ bf_channel b))) x \<le> 1" for x using le [of x] by linarith
    then show ?thesis by (metis count_mset_0_iff distinct_count_atmost_1 le_antisym less_one not_le)
  qed
  have "x \<notin> set (map re_id (ed_events (bf_db b)))" if x: "x \<in> set (map re_id (bf_batch b @ bf_channel b))" for x
  proof
    assume "x \<in> set (map re_id (ed_events (bf_db b)))"
    then have "x \<in># image_mset re_id (mset (ed_events (bf_db b)))" by simp
    then have "x \<in> set (map re_id (ed_events db)) \<or> x \<in># image_mset re_id ns" by (simp add: ns(1))
    moreover have "x \<in> set (map re_id sent)"
      using x sub by (metis mset_subset_eqD set_mset_mset union_iff)
    then have "x \<notin> set (map re_id (ed_events db))" using assms(2) by (auto simp: fresh_sent_def)
    ultimately have "0 < count (image_mset re_id ns) x" by simp
    moreover have "0 < count (mset (map re_id (bf_batch b @ bf_channel b))) x" using x by (simp add: count_greater_zero_iff del: map_append mset_append)
    ultimately show False using le [of x] by linarith
  qed
  then show "set (map re_id (bf_batch b @ bf_channel b)) \<inter> set (map re_id (ed_events (bf_db b))) = {}" by blast
qed

lemma analytics_shutdown_stored:
  assumes "clicks.stored db b sent" and "analytics_shutdown ord b = (b', n)"
  shows "clicks.stored db b' sent"
proof (cases "bf_running b")
  case True
  with assms show ?thesis by (simp add: analytics_shutdown_def)
next
  case False
  from assms(1) obtain ns where ns: "mset (ed_events (bf_db b)) = mset (ed_events db) + ns"
    "ns + mset (map pg_event (bf_batch b @ bf_channel b)) \<subseteq># mset sent"
    by (auto simp: clicks.stored_def)
  have "ns + mset (map pg_event (bf_channel b @ bf_batch b)) \<subseteq># mset sent"
    using ns(2) by (simp add: add.commute add.left_commute)
  with clicks.write_events_stored [of "b\<lparr>bf_channel := []\<rparr>" db ns "bf_channel b" "bf_batch b" sent ord] ns(1)
  obtain ms where "mset (ed_events (bf_db (write_events (analytics_write ord) (bf_channel b) (b\<lparr>bf_channel := []\<rparr>)))) = mset (ed_events db) + ms"
    "ms + mset (map pg_event (bf_batch b)) \<subseteq># mset sent" by auto
  with False assms(2) show ?thesis by (auto simp: clicks.stored_def analytics_shutdown_def)
qed

lemma analytics_shutdown_total: "analytics_shutdown ord b = (b', n) \<Longrightarrow> buffer_total b' + n = buffer_total b"
  using write_events_count [of "analytics_write ord" "bf_channel b" "b\<lparr>bf_channel := []\<rparr>"]
  by (auto simp: analytics_shutdown_def buffer_total_def split: if_splits)

abbreviation analytics_run :: "((string \<times> int) list \<Rightarrow> (string \<times> int) list) \<Rightarrow> event_db \<Rightarrow> (redirect_event, event_db) run \<Rightarrow> bool" where
  "analytics_run ord \<equiv> buf_reachable analytics_channel_size analytics_batch_size (analytics_write ord) (analytics_shutdown ord)"

lemma analytics_run_stored: "analytics_run ord db r \<Longrightarrow> clicks.stored db (rn_buf r) (map pg_event (rn_sent r))"
  by (rule clicks.buf_reachable_stored) (auto intro: analytics_shutdown_stored)

text \<open>A run whose events are fresh, with some order of the map.\<close>

definition proper_run :: "((string \<times> int) list \<Rightarrow> (string \<times> int) list) \<Rightarrow> event_db \<Rightarrow> redirect_event list \<Rightarrow> bool" where
  "proper_run ord db sent \<longleftrightarrow> (\<forall>l. mset (ord l) = mset l) \<and> fresh_sent db sent"

definition clicks_inv :: "event_db \<Rightarrow> redirect_event list \<Rightarrow> (redirect_event, event_db) buffered \<Rightarrow> bool" where
  "clicks_inv db sent b \<longleftrightarrow> clicks.stored db b (map pg_event sent) \<and> clicks_ok db b"

lemma clicks_part:
  assumes "proper_run ord db sent" and "clicks_inv db sent b"
    and "es @ rest = bf_batch b @ bf_channel b \<or> rest @ es = bf_batch b @ bf_channel b"
  shows "clicks_ok db (write_events (analytics_write ord) es b)"
proof -
  from assms(1,2) have st: "clicks.stored db b (map pg_event sent)" and ok: "clicks_ok db b" and fresh: "fresh_sent db sent"
    and ord: "\<forall>l. mset (ord l) = mset l" by (auto simp: proper_run_def clicks_inv_def)
  have "\<exists>new. ed_events (bf_db b) = ed_events db @ new" using ok by (auto simp: clicks_ok_def)
  note f = stored_fresh [OF st fresh this]
  have "set es \<subseteq> set (bf_batch b @ bf_channel b)" using assms(3) by (metis set_append sup_ge1 sup_ge2)
  moreover have "distinct (map re_id es)" using assms(3) f(1) by (metis distinct_append map_append)
  ultimately show ?thesis using f(2) by (intro write_events_clicks [OF ok _ _ ord]) auto
qed

lemma clicks_state: "clicks_ok db b \<Longrightarrow> bf_db b' = bf_db b \<Longrightarrow> bf_written b' = bf_written b \<Longrightarrow> clicks_ok db b'"
  by (simp add: clicks_ok_def)

lemma clicks_flush:
  assumes "proper_run ord db sent" and "clicks_inv db sent b"
  shows "clicks_ok db (flush_batch (analytics_write ord) b)"
  by (rule clicks_state [OF clicks_part [OF assms, of "bf_batch b" "bf_channel b"]]) (simp_all add: flush_batch_def)

lemma clicks_receive:
  assumes "proper_run ord db sent" and "clicks_inv db sent b"
  shows "clicks_ok db (receive lim (analytics_write ord) b)"
proof (cases "bf_channel b")
  case Nil
  with assms(2) show ?thesis by (simp add: receive_def clicks_inv_def)
next
  case (Cons e es)
  let ?b = "b\<lparr>bf_channel := es, bf_batch := bf_batch b @ [e]\<rparr>"
  have "clicks_inv db sent ?b" using assms(2) Cons by (simp add: clicks_inv_def clicks.stored_def clicks_ok_def)
  with clicks_flush [OF assms(1) this] Cons show ?thesis by (simp add: receive_def Let_def clicks_inv_def)
qed

lemma clicks_down:
  assumes "proper_run ord db sent" and "clicks_inv db sent b" and "analytics_shutdown ord b = (b', n)"
  shows "clicks_ok db b'"
proof (cases "bf_running b")
  case True
  with assms(2,3) show ?thesis by (simp add: analytics_shutdown_def clicks_inv_def)
next
  case False
  have "clicks_ok db (write_events (analytics_write ord) (bf_channel b) b)"
    by (rule clicks_part [OF assms(1,2), of "bf_channel b" "bf_batch b"]) simp
  moreover have "bf_db b' = bf_db (write_events (analytics_write ord) (bf_channel b) b)"
    "bf_written b' = bf_written (write_events (analytics_write ord) (bf_channel b) b)"
    using False assms(3) by (auto simp: analytics_shutdown_def write_events_def split: prod.splits sum.splits)
  ultimately show ?thesis by (rule clicks_state)
qed

lemma fresh_sent_prefix: "proper_run ord db (sent @ es) \<Longrightarrow> proper_run ord db sent"
  by (auto simp: proper_run_def fresh_sent_def)

lemma clicks_step:
  assumes step: "buf_step analytics_channel_size analytics_batch_size (analytics_write ord) (analytics_shutdown ord) r r'"
    and run: "analytics_run ord db r" and ok: "clicks_ok db (rn_buf r)" and proper: "proper_run ord db (rn_sent r')"
  shows "clicks_ok db (rn_buf r')"
proof -
  have "\<exists>es. rn_sent r' = rn_sent r @ es" using step by cases auto
  with proper have p: "proper_run ord db (rn_sent r)" by (auto dest: fresh_sent_prefix)
  have inv: "clicks_inv db (rn_sent r) (rn_buf r)" using ok analytics_run_stored [OF run] by (simp add: clicks_inv_def)
  from step show ?thesis
  proof cases
    case (capture e)
    with ok show ?thesis by (simp add: clicks_ok_def offer_def)
  next
    case take_one
    with clicks_receive [OF p inv] show ?thesis by simp
  next
    case tick
    with clicks_flush [OF p inv] show ?thesis by simp
  next
    case stop
    with clicks_flush [OF p inv] show ?thesis by (simp add: drainer_stop_def clicks_ok_def)
  next
    case (shutdown b n)
    with clicks_down [OF p inv] show ?thesis by simp
  qed
qed

lemma clicks_reach:
  assumes "analytics_run ord db r" and "urls_healthy db" and "proper_run ord db (rn_sent r)"
  shows "clicks_ok db (rn_buf r)"
  using assms(1,3)
proof induction
  case start
  with assms(2) show ?case by (simp add: new_buffer_def clicks_ok_def human_clicks_def bump_zero)
next
  case (more r r')
  have "\<exists>es. rn_sent r' = rn_sent r @ es" using more.hyps(2) by cases auto
  with more.prems have "proper_run ord db (rn_sent r)" by (auto dest: fresh_sent_prefix)
  from clicks_step [OF more.hyps(2,1) more.IH [OF this] more.prems] show ?case .
qed

text \<open>C14: with a database that answers, over every interleaving of redirects, the drainer, its ticks and a shutdown:
  the table gains exactly the events counted as written, and the counter of every live link has grown by the number
  of its new events that are not by bots, in whatever order the counts are applied; every captured event is written,
  counted as dropped, or still waiting.\<close>

theorem clicks_match_events:
  assumes "analytics_run ord db r" and "urls_healthy db" and "proper_run ord db (rn_sent r)"
  shows "(\<exists>new. ed_events (bf_db (rn_buf r)) = ed_events db @ new \<and> int (length new) = bf_written (rn_buf r)
        \<and> mset new \<subseteq># mset (map pg_event (rn_sent r))
        \<and> ledger (udb_rows (ed_urls (bf_db (rn_buf r)))) = bump (\<lambda>sc. human_clicks sc new) (ledger (udb_rows (ed_urls db))))
    \<and> int (length (rn_sent r)) = bf_written (rn_buf r) + bf_dropped (rn_buf r)
        + int (length (bf_batch (rn_buf r))) + int (length (bf_channel (rn_buf r))) + rn_lost r"
proof -
  from clicks_reach [OF assms] obtain new where new: "ed_events (bf_db (rn_buf r)) = ed_events db @ new"
    "int (length new) = bf_written (rn_buf r)"
    "ledger (udb_rows (ed_urls (bf_db (rn_buf r)))) = bump (\<lambda>sc. human_clicks sc new) (ledger (udb_rows (ed_urls db)))"
    by (auto simp: clicks_ok_def)
  from analytics_run_stored [OF assms(1)] obtain ns where ns: "mset (ed_events (bf_db (rn_buf r))) = mset (ed_events db) + ns"
    "ns + mset (map pg_event (bf_batch (rn_buf r) @ bf_channel (rn_buf r))) \<subseteq># mset (map pg_event (rn_sent r))"
    by (auto simp: clicks.stored_def)
  from ns(1) new(1) have "ns = mset new" by simp
  with ns(2) have "mset new \<subseteq># mset (map pg_event (rn_sent r))"
    by (meson mset_subset_eq_add_left subset_mset.trans)
  moreover have "int (length (rn_sent r)) = buffer_total (rn_buf r) + rn_lost r"
    by (rule buf_reachable_total [OF assms(1)]) (auto dest: analytics_shutdown_total)
  ultimately show ?thesis using new by (auto simp: buffer_total_def)
qed

section \<open>Batches that are lost\<close>

lemma insert_events_bad:
  assumes "e \<in> set es" and "event_row_checks lo hi e \<noteq> None"
  shows "\<exists>err. insert_events lo hi es rows = Inl err"
  using assms(1)
proof (induction es arbitrary: rows)
  case (Cons x es)
  then show ?case using assms(2) by (cases "event_row_checks lo hi x") auto
qed simp

text \<open>A \<open>Referer\<close> header is cut at byte 1024, wherever that is in a character: when it falls inside one, the whole
  batch of the event is refused, its events are dropped and no click of them is counted.\<close>

theorem long_referrer_loses_batch:
  assumes "\<not> pg_text_ok (take 1024 (cr_referrer q))" and "e = build_redirect_event key now ulid q" and "e \<in> set (bf_batch b)"
  shows "ed_events (bf_db (analytics_flush ord b)) = ed_events (bf_db b)
    \<and> udb_rows (ed_urls (bf_db (analytics_flush ord b))) = udb_rows (ed_urls (bf_db b))
    \<and> bf_dropped (analytics_flush ord b) = bf_dropped b + int (length (bf_batch b))
    \<and> bf_batch (analytics_flush ord b) = []"
proof -
  have "\<not> list_all pg_text_ok (event_texts e)"
    using assms(1,2) by (simp add: event_texts_def build_redirect_event_def Let_def)
  then have "event_row_checks (ed_from (bf_db b)) (ed_until (bf_db b)) e \<noteq> None" by (simp add: event_row_checks_def)
  from insert_events_bad [OF assms(3) this] obtain err where
    err: "insert_events (ed_from (bf_db b)) (ed_until (bf_db b)) (bf_batch b) (ed_events (bf_db b)) = Inl err" by blast
  have ne: "bf_batch b \<noteq> []" using assms(3) by auto
  have "\<exists>err' db. write_many_events (bf_batch b) (bf_db b) = (Inl err', db)"
    using ne err by (auto simp: write_many_events_def event_wrap_def split: prod.splits option.splits)
  then obtain err' db where w: "write_many_events (bf_batch b) (bf_db b) = (Inl err', db)" by blast
  with ne write_many_events_rows(1) [OF w] show ?thesis
    by (simp add: analytics_flush_def flush_batch_def write_events_def analytics_write_def)
qed

section \<open>Witnesses\<close>

definition demo_link :: url where
  "demo_link = \<lparr>url_id = ''01A'', workspace_id = ''ws_1'', short_code = ''abc1234'', original_url = ''https://example.com'',
     title = [], url_status = status_active, expires_at = None, created_by = ''usr_1'', created_at = 0, updated_at = 0,
     deleted_at = None, click_count = 7\<rparr>"

definition demo_event_db :: event_db where
  "demo_event_db = \<lparr>ed_events = [], ed_from = 0, ed_until = 1000000, ed_now = 5000,
     ed_urls = \<lparr>udb_rows = [demo_link], udb_replica = None, udb_workspaces = [''ws_1''], udb_faults = []\<rparr>\<rparr>"

definition demo_click :: redirect_event where
  "demo_click = \<lparr>re_id = ''01B'', re_short_code = ''abc1234'', re_workspace_id = ''ws_1'', re_occurred_at = 4000,
     re_ip_hash = ''9f86d081'', re_user_agent = ''Mozilla/5.0'', re_device_type = ''desktop'', re_browser_family = ''unknown'',
     re_os_family = ''Linux'', re_is_bot = False, re_country_code = ''XX'', re_referrer_domain = ''direct'',
     re_referrer_raw = [], re_request_id = ''r1''\<rparr>"

definition demo_clicked :: event_db where "demo_clicked = snd (analytics_write id [demo_click] demo_event_db)"

lemma demo_click_written: "analytics_write id [demo_click] demo_event_db = (Inr (), demo_clicked)"
  and demo_clicked_events: "ed_events demo_clicked = [demo_click]"
  and demo_clicked_count: "ledger (udb_rows (ed_urls demo_clicked)) = [(''abc1234'', True, 8)]"
  by code_simp+

lemma clicks_match_events_witness:
  "\<exists>r. analytics_run id demo_event_db r \<and> bf_written (rn_buf r) = 1
     \<and> ledger (udb_rows (ed_urls (bf_db (rn_buf r)))) = bump (\<lambda>sc. human_clicks sc [demo_click]) (ledger [demo_link])"
proof -
  let ?r0 = "\<lparr>rn_buf = new_buffer demo_event_db, rn_sent = [], rn_lost = 0\<rparr>"
  let ?r1 = "?r0\<lparr>rn_buf := offer analytics_channel_size demo_click (rn_buf ?r0), rn_sent := rn_sent ?r0 @ [demo_click]\<rparr>"
  let ?r2 = "?r1\<lparr>rn_buf := receive analytics_batch_size (analytics_write id) (rn_buf ?r1)\<rparr>"
  let ?r3 = "?r2\<lparr>rn_buf := drainer_stop (analytics_write id) (rn_buf ?r2)\<rparr>"
  have "analytics_run id demo_event_db ?r1" by (rule buf_reachable.more [OF buf_reachable.start buf_step.capture])
  then have "analytics_run id demo_event_db ?r2"
    by (rule buf_reachable.more [OF _ buf_step.take_one]) (simp add: new_buffer_def offer_def analytics_channel_size_def)
  moreover have "bf_running (rn_buf ?r2)"
    by (simp add: new_buffer_def offer_def analytics_channel_size_def receive_def analytics_batch_size_def Let_def)
  ultimately have reach: "analytics_run id demo_event_db ?r3"
    by (rule buf_reachable.more [OF _ buf_step.stop])
  have end_state: "bf_written (rn_buf ?r3) = 1" "bf_db (rn_buf ?r3) = demo_clicked" "rn_sent ?r3 = [demo_click]"
    by (simp_all add: new_buffer_def offer_def analytics_channel_size_def receive_def analytics_batch_size_def Let_def
        drainer_stop_def flush_batch_def write_events_def demo_click_written)
  have "urls_healthy demo_event_db" by code_simp
  moreover have "proper_run id demo_event_db (rn_sent ?r3)"
    unfolding end_state by (simp add: proper_run_def fresh_sent_def demo_event_db_def)
  ultimately obtain new where "ed_events (bf_db (rn_buf ?r3)) = ed_events demo_event_db @ new"
    "ledger (udb_rows (ed_urls (bf_db (rn_buf ?r3)))) = bump (\<lambda>sc. human_clicks sc new) (ledger (udb_rows (ed_urls demo_event_db)))"
    using clicks_match_events [OF reach] by blast
  then have "ledger (udb_rows (ed_urls (bf_db (rn_buf ?r3)))) = bump (\<lambda>sc. human_clicks sc [demo_click]) (ledger [demo_link])"
    unfolding end_state by (simp add: demo_clicked_events) (simp add: demo_event_db_def)
  with reach end_state(1) show ?thesis by blast
qed

definition cut_request :: capture_request where
  "cut_request = \<lparr>cr_short_code = ''abc1234'', cr_workspace_id = ''ws_1'', cr_raw_ip = ''192.0.2.1'', cr_user_agent = ''Mozilla/5.0'',
     cr_referrer = replicate 1023 (CHR ''a'') @ [char_of (195::nat), char_of (169::nat)], cr_request_id = ''r2'', cr_occurred_at = Some 4000\<rparr>"

lemma utf8_ok_append_ascii: "\<forall>b \<in> set xs. b < 128 \<Longrightarrow> utf8_ok (xs @ ys) = utf8_ok ys"
  by (induction xs) auto

lemma long_referrer_loses_batch_witness:
  "pg_text_ok (cr_referrer cut_request)
   \<and> bf_dropped (analytics_flush id ((new_buffer demo_event_db)\<lparr>bf_batch := [demo_click, build_redirect_event ''k'' 0 ''01C'' cut_request]\<rparr>)) = 2"
proof -
  have bytes: "map of_char (replicate 1023 (CHR ''a'')) = replicate 1023 (97::nat)" by (simp add: map_replicate)
  have "take 1024 (cr_referrer cut_request) = replicate 1023 (CHR ''a'') @ [char_of (195::nat)]"
    by (simp add: cut_request_def)
  then have "\<not> pg_text_ok (take 1024 (cr_referrer cut_request))"
    by (simp only: pg_text_ok_def map_append bytes) (simp add: utf8_ok_append_ascii)
  moreover have "pg_text_ok (cr_referrer cut_request)"
    by (simp add: pg_text_ok_def cut_request_def utf8_ok_append_ascii utf8_tail_def)
  ultimately show ?thesis
    using long_referrer_loses_batch [of cut_request "build_redirect_event ''k'' 0 ''01C'' cut_request" "''k''" 0 "''01C''"
        "(new_buffer demo_event_db)\<lparr>bf_batch := [demo_click, build_redirect_event ''k'' 0 ''01C'' cut_request]\<rparr>" id]
    by (simp add: new_buffer_def)
qed

end
