(* ===== verification/UrlHttp.thy ===== *)
theory UrlHttp
  imports HttpHandlers UrlManage
begin

text \<open>
  The endpoints of links: \<open>internal/interfaces/http/handler/url.go\<close> and \<open>shorten.go\<close>. The use cases are the
  fields of the handlers.
\<close>

section \<open>Documents\<close>

definition url_response :: "url_result \<Rightarrow> json" where
  "url_response u =
     JObj ([(''id'', JStr (ur_id u)), (''short_url'', JStr (ur_short_url u)), (''short_code'', JStr (ur_short_code u)),
            (''original_url'', JStr (ur_original_url u))]
           @ opt_string ''title'' (ur_title u)
           @ [(''status'', JStr (ur_status u)), (''workspace_id'', JStr (ur_workspace_id u)),
              (''created_by'', JStr (ur_created_by u)), (''created_at'', JStr (ur_created_at u)),
              (''updated_at'', JStr (ur_updated_at u))]
           @ opt_time ''expires_at'' (ur_expires_at u)
           @ [(''click_count'', JInt (ur_click_count u))])"

definition list_response :: "list_result \<Rightarrow> json" where
  "list_response l =
     JObj [(''data'', JArr (map url_response (lr_urls l))),
           (''meta'', JObj [(''cursor'', JStr (lr_next_cursor l)), (''has_more'', JBool (lr_has_more l))])]"

record update_url_request =
  uq_original_url :: "string option"
  uq_title :: "string option"
  uq_expires_at :: "gotime option"

definition update_url_fields :: "update_url_request field list" where
  "update_url_fields =
     [(''original_url'', string_ptr_field (\<lambda>v q. q\<lparr>uq_original_url := v\<rparr>)),
      (''title'', string_ptr_field (\<lambda>v q. q\<lparr>uq_title := v\<rparr>)),
      (''expires_at'', time_ptr_field (\<lambda>v q. q\<lparr>uq_expires_at := v\<rparr>))]"

definition no_update :: update_url_request where
  "no_update = \<lparr>uq_original_url = None, uq_title = None, uq_expires_at = None\<rparr>"

record shorten_request =
  sq_original_url :: string
  sq_custom_code :: string
  sq_title :: string
  sq_expires_at :: "gotime option"

definition shorten_fields :: "shorten_request field list" where
  "shorten_fields =
     [(''original_url'', string_field (\<lambda>v q. q\<lparr>sq_original_url := v\<rparr>)),
      (''custom_code'', string_field (\<lambda>v q. q\<lparr>sq_custom_code := v\<rparr>)),
      (''title'', string_field (\<lambda>v q. q\<lparr>sq_title := v\<rparr>)),
      (''expires_at'', time_ptr_field (\<lambda>v q. q\<lparr>sq_expires_at := v\<rparr>))]"

definition empty_shorten_request :: shorten_request where
  "empty_shorten_request = \<lparr>sq_original_url = [], sq_custom_code = [], sq_title = [], sq_expires_at = None\<rparr>"

definition shorten_response :: "shorten_result \<Rightarrow> json" where
  "shorten_response x =
     JObj [(''id'', JStr (sr_id x)), (''short_url'', JStr (sr_short_url x)), (''short_code'', JStr (sr_short_code x)),
           (''original_url'', JStr (sr_original_url x)), (''workspace_id'', JStr (sr_workspace_id x)),
           (''created_at'', JStr (sr_created_at x))]"

section \<open>Get, list, update and delete\<close>

record 's url_http =
  uh_get :: "string \<Rightarrow> string \<Rightarrow> 's \<Rightarrow> url_result result \<times> 's"
  uh_list :: "list_filter \<Rightarrow> 's \<Rightarrow> list_result result \<times> 's"
  uh_update :: "update_command \<Rightarrow> 's \<Rightarrow> url_result result \<times> 's"
  uh_delete :: "string \<Rightarrow> string \<Rightarrow> 's \<Rightarrow> unit result \<times> 's"
  uh_webhooks :: "'s dispatcher"

definition url_get :: "'s url_http \<Rightarrow> 's handler" where
  "url_get h r s =
     (case rq_claims r of
        None \<Rightarrow> (unauthorized_response, s)
      | Some c \<Rightarrow>
          (case uh_get h (rq_param r ''urlID'') (cl_workspace_id c) s of
             (Inl err, s1) \<Rightarrow> (url_error_response r err, s1)
           | (Inr u, s1) \<Rightarrow> (write_json 200 (envelope (url_response u)), s1)))"

definition list_query_of :: "claims \<Rightarrow> request \<Rightarrow> list_filter" where
  "list_query_of c r =
     \<lparr>lf_workspace_id = cl_workspace_id c,
      lf_status = (if rq_query_get r ''status'' \<noteq> [] then Some (rq_query_get r ''status'') else None),
      lf_created_by = (if rq_query_get r ''created_by'' \<noteq> [] then Some (rq_query_get r ''created_by'') else None),
      lf_cursor = rq_query_get r ''cursor'', lf_limit = parse_int_query r ''limit'' 20 100\<rparr>"

definition url_list :: "'s url_http \<Rightarrow> 's handler" where
  "url_list h r s =
     (case rq_claims r of
        None \<Rightarrow> (unauthorized_response, s)
      | Some c \<Rightarrow>
          (case uh_list h (list_query_of c r) s of
             (Inl err, s1) \<Rightarrow> (url_error_response r err, s1)
           | (Inr l, s1) \<Rightarrow> (write_json 200 (list_response l), s1)))"

definition has_expires_at_field :: "request \<Rightarrow> bool" where "has_expires_at_field r = False"

definition update_command_of :: "claims \<Rightarrow> request \<Rightarrow> update_url_request \<Rightarrow> update_command" where
  "update_command_of c r q =
     \<lparr>uc_url_id = rq_param r ''urlID'', uc_workspace_id = cl_workspace_id c, uc_original_url = uq_original_url q,
      uc_title = uq_title q,
      uc_expires_at = (if uq_expires_at q \<noteq> None \<or> has_expires_at_field r then Some (uq_expires_at q) else None)\<rparr>"

definition updated_event :: "gotime \<Rightarrow> url_result \<Rightarrow> webhook_event" where
  "updated_event now u =
     \<lparr>we_type = event_url_updated, we_event_id = ur_id u, we_workspace_id = ur_workspace_id u, we_occurred_at = now,
      we_data = [(''id'', JStr (ur_id u)), (''short_code'', JStr (ur_short_code u)),
        (''original_url'', JStr (ur_original_url u)), (''title'', JStr (ur_title u)), (''workspace_id'', JStr (ur_workspace_id u))]\<rparr>"

definition url_update :: "'s url_http \<Rightarrow> gotime \<Rightarrow> 's pending handler" where
  "url_update h now r ps =
     (case rq_claims r of
        None \<Rightarrow> (unauthorized_response, ps)
      | Some c \<Rightarrow>
     (case decode_struct False update_url_fields no_update (rq_body r) of
        Inl e \<Rightarrow> (undecodable r, ps)
      | Inr q \<Rightarrow>
          (case on_pending (uh_update h (update_command_of c r q)) ps of
             (Inl err, ps1) \<Rightarrow> (url_error_response r err, ps1)
           | (Inr u, ps1) \<Rightarrow>
               (let ps2 = annotate_context resource_url (ur_id u)
                      [(''short_code'', JStr (ur_short_code u)), (''original_url'', JStr (ur_original_url u))] ps1
                in (write_json 200 (envelope (url_response u)), fire_pending (uh_webhooks h) (updated_event now u) ps2)))))"

definition deleted_event :: "gotime \<Rightarrow> claims \<Rightarrow> string \<Rightarrow> webhook_event" where
  "deleted_event now c i =
     \<lparr>we_type = event_url_deleted, we_event_id = i, we_workspace_id = cl_workspace_id c, we_occurred_at = now,
      we_data = [(''id'', JStr i), (''workspace_id'', JStr (cl_workspace_id c)), (''deleted_by'', JStr (cl_user_id c))]\<rparr>"

definition url_delete :: "'s url_http \<Rightarrow> gotime \<Rightarrow> 's pending handler" where
  "url_delete h now r ps =
     (case rq_claims r of
        None \<Rightarrow> (unauthorized_response, ps)
      | Some c \<Rightarrow>
          (let i = rq_param r ''urlID'' in
           case on_pending (uh_delete h i (cl_workspace_id c)) ps of
             (Inl err, ps1) \<Rightarrow> (url_error_response r err, ps1)
           | (Inr _, ps1) \<Rightarrow>
               (let ps2 = annotate_context resource_url i [(''deleted_by'', JStr (cl_user_id c))] ps1
                in (no_content, fire_pending (uh_webhooks h) (deleted_event now c i) ps2))))"

section \<open>Create\<close>

record 's shorten_deps =
  sn_shorten :: "shorten_command \<Rightarrow> 's \<Rightarrow> shorten_result result \<times> 's"
  sn_webhooks :: "'s dispatcher"

text \<open>Without claims the workspace comes from the path, a header or a default, the user from a header or a default.\<close>

definition shorten_identity :: "request \<Rightarrow> string \<times> string" where
  "shorten_identity r =
     (case rq_claims r of
        Some c \<Rightarrow> (cl_workspace_id c, cl_user_id c)
      | None \<Rightarrow>
          (let ws0 = rq_param r ''workspaceID'';
               ws1 = (if ws0 = [] then rq_header r ''X-Workspace-ID'' else ws0);
               ws2 = (if ws1 = [] then ''ws_default'' else ws1);
               u0 = rq_header r ''X-User-ID''
           in (ws2, if u0 = [] then ''usr_default'' else u0)))"

definition shorten_decode_error :: "request \<Rightarrow> decode_error \<Rightarrow> response" where
  "shorten_decode_error r e =
     (case e of
        DecSyntax \<Rightarrow> resp_bad_request ''request body contains malformed JSON'' (rq_path r)
      | DecType f \<Rightarrow> resp_bad_request (''request body contains an invalid value for field: '' @ f) (rq_path r)
      | DecOther \<Rightarrow> undecodable r)"

definition shorten_command_of :: "request \<Rightarrow> shorten_request \<Rightarrow> shorten_command" where
  "shorten_command_of r q =
     \<lparr>sc_original_url = sq_original_url q, sc_custom_code = sq_custom_code q, sc_workspace_id = fst (shorten_identity r),
      sc_created_by = snd (shorten_identity r), sc_title = sq_title q, sc_expires_at = sq_expires_at q\<rparr>"

definition created_event :: "gotime \<Rightarrow> shorten_result \<Rightarrow> webhook_event" where
  "created_event now x =
     \<lparr>we_type = event_url_created, we_event_id = sr_id x, we_workspace_id = sr_workspace_id x, we_occurred_at = now,
      we_data = [(''id'', JStr (sr_id x)), (''short_code'', JStr (sr_short_code x)),
        (''original_url'', JStr (sr_original_url x)), (''workspace_id'', JStr (sr_workspace_id x))]\<rparr>"

definition shorten_http :: "'s shorten_deps \<Rightarrow> gotime \<Rightarrow> 's pending handler" where
  "shorten_http h now r ps =
     (case decode_struct True shorten_fields empty_shorten_request (rq_body r) of
        Inl e \<Rightarrow> (shorten_decode_error r e, ps)
      | Inr q \<Rightarrow>
          (case on_pending (sn_shorten h (shorten_command_of r q)) ps of
             (Inl err, ps1) \<Rightarrow> (shorten_error_response r err, ps1)
           | (Inr x, ps1) \<Rightarrow>
               (let ps2 = annotate_context resource_url (sr_id x)
                      [(''short_code'', JStr (sr_short_code x)), (''original_url'', JStr (sr_original_url x))] ps1
                in (write_json 201 (envelope (shorten_response x)), fire_pending (sn_webhooks h) (created_event now x) ps2))))"

end
