(* ===== verification/WorkspaceHttp.thy ===== *)
theory WorkspaceHttp
  imports HttpHandlers WorkspaceApp
begin

text \<open>
  The endpoints of workspaces and members: \<open>internal/interfaces/http/handler/workspace.go\<close>. The results of the use
  cases carry no JSON names, so the documents have the names of the Go fields.
\<close>

section \<open>Documents\<close>

record create_ws_request =
  cwq_name :: string
  cwq_slug :: string

definition create_ws_fields :: "create_ws_request field list" where
  "create_ws_fields = [(''name'', string_field (\<lambda>v q. q\<lparr>cwq_name := v\<rparr>)), (''slug'', string_field (\<lambda>v q. q\<lparr>cwq_slug := v\<rparr>))]"

record add_member_request =
  amq_user_id :: string
  amq_role :: string

definition add_member_fields :: "add_member_request field list" where
  "add_member_fields = [(''user_id'', string_field (\<lambda>v q. q\<lparr>amq_user_id := v\<rparr>)), (''role'', string_field (\<lambda>v q. q\<lparr>amq_role := v\<rparr>))]"

definition ws_create_json :: "ws_create_result \<Rightarrow> json" where
  "ws_create_json w = JObj [(''ID'', JStr (wcr_id w)), (''Name'', JStr (wcr_name w)), (''Slug'', JStr (wcr_slug w)),
     (''PlanTier'', JStr (wcr_plan_tier w)), (''OwnerID'', JStr (wcr_owner_id w)), (''CreatedAt'', JStr (wcr_created_at w))]"

definition ws_get_json :: "ws_get_result \<Rightarrow> json" where
  "ws_get_json w = JObj [(''ID'', JStr (wg_id w)), (''Name'', JStr (wg_name w)), (''Slug'', JStr (wg_slug w)),
     (''PlanTier'', JStr (wg_plan_tier w)), (''OwnerID'', JStr (wg_owner_id w)), (''CreatedAt'', JStr (wg_created_at w)),
     (''UserRole'', JStr (wg_user_role w))]"

definition ws_list_json :: "ws_list_result \<Rightarrow> json" where
  "ws_list_json w = JObj [(''ID'', JStr (wl_id w)), (''Name'', JStr (wl_name w)), (''Slug'', JStr (wl_slug w)),
     (''PlanTier'', JStr (wl_plan_tier w)), (''UserRole'', JStr (wl_user_role w))]"

definition add_member_json :: "add_member_result \<Rightarrow> json" where
  "add_member_json m = JObj [(''WorkspaceID'', JStr (amr_workspace_id m)), (''UserID'', JStr (amr_user_id m)),
     (''Role'', JStr (amr_role m)), (''JoinedAt'', JStr (amr_joined_at m))]"

definition member_json :: "member_result \<Rightarrow> json" where
  "member_json m = JObj [(''UserID'', JStr (mres_user_id m)), (''Role'', JStr (mres_role m)),
     (''JoinedAt'', JStr (mres_joined_at m)), (''InvitedBy'', JStr (mres_invited_by m))]"

section \<open>Handlers\<close>

record 's workspace_http =
  wsh_create :: "ws_create_command \<Rightarrow> 's \<Rightarrow> ws_create_result result \<times> 's"
  wsh_get :: "string \<Rightarrow> string \<Rightarrow> 's \<Rightarrow> ws_get_result result \<times> 's"
  wsh_list :: "string \<Rightarrow> 's \<Rightarrow> ws_list_result list result \<times> 's"
  wsh_add :: "add_member_command \<Rightarrow> 's \<Rightarrow> add_member_result result \<times> 's"
  wsh_members :: "string \<Rightarrow> string \<Rightarrow> 's \<Rightarrow> member_result list result \<times> 's"

definition workspace_create :: "'s workspace_http \<Rightarrow> 's pending handler" where
  "workspace_create h r ps =
     (case rq_claims r of
        None \<Rightarrow> (unauthorized_response, ps)
      | Some c \<Rightarrow>
     (case decode_struct False create_ws_fields \<lparr>cwq_name = [], cwq_slug = []\<rparr> (rq_body r) of
        Inl e \<Rightarrow> (undecodable r, ps)
      | Inr q \<Rightarrow>
          (case on_pending (wsh_create h \<lparr>wc_name = cwq_name q, wc_slug = cwq_slug q, wc_owner_id = cl_user_id c\<rparr>) ps of
             (Inl err, ps1) \<Rightarrow> (workspace_error_response r err, ps1)
           | (Inr w, ps1) \<Rightarrow>
               (write_json 201 (envelope (ws_create_json w)),
                annotate_context resource_workspace (wcr_id w)
                  [(''name'', JStr (wcr_name w)), (''slug'', JStr (wcr_slug w))] ps1))))"

definition workspace_get :: "'s workspace_http \<Rightarrow> 's handler" where
  "workspace_get h r s =
     (case rq_claims r of
        None \<Rightarrow> (unauthorized_response, s)
      | Some c \<Rightarrow>
          (case wsh_get h (rq_param r ''workspaceID'') (cl_user_id c) s of
             (Inl err, s1) \<Rightarrow> (workspace_error_response r err, s1)
           | (Inr w, s1) \<Rightarrow> (write_json 200 (envelope (ws_get_json w)), s1)))"

definition workspace_list :: "'s workspace_http \<Rightarrow> 's handler" where
  "workspace_list h r s =
     (case rq_claims r of
        None \<Rightarrow> (unauthorized_response, s)
      | Some c \<Rightarrow>
          (case wsh_list h (cl_user_id c) s of
             (Inl err, s1) \<Rightarrow> (workspace_error_response r err, s1)
           | (Inr ws, s1) \<Rightarrow> (write_json 200 (envelope (JArr (map ws_list_json ws))), s1)))"

definition add_member_http :: "'s workspace_http \<Rightarrow> 's pending handler" where
  "add_member_http h r ps =
     (case rq_claims r of
        None \<Rightarrow> (unauthorized_response, ps)
      | Some c \<Rightarrow>
     (case decode_struct False add_member_fields \<lparr>amq_user_id = [], amq_role = []\<rparr> (rq_body r) of
        Inl e \<Rightarrow> (undecodable r, ps)
      | Inr q \<Rightarrow>
          (case on_pending (wsh_add h \<lparr>am_workspace_id = rq_param r ''workspaceID'', am_invited_user_id = amq_user_id q,
                  am_role = amq_role q, am_requesting_user_id = cl_user_id c\<rparr>) ps of
             (Inl err, ps1) \<Rightarrow> (workspace_error_response r err, ps1)
           | (Inr m, ps1) \<Rightarrow>
               (write_json 201 (envelope (add_member_json m)),
                annotate_context resource_member (amq_user_id q)
                  [(''role'', JStr (amr_role m)), (''invited_by'', JStr (cl_user_id c))] ps1))))"

definition members_http :: "'s workspace_http \<Rightarrow> 's handler" where
  "members_http h r s =
     (case rq_claims r of
        None \<Rightarrow> (unauthorized_response, s)
      | Some c \<Rightarrow>
          (case wsh_members h (rq_param r ''workspaceID'') (cl_user_id c) s of
             (Inl err, s1) \<Rightarrow> (workspace_error_response r err, s1)
           | (Inr ms, s1) \<Rightarrow> (write_json 200 (envelope (JArr (map member_json ms))), s1)))"

end
