(* ===== verification/ApiKeyHttp.thy ===== *)
theory ApiKeyHttp
  imports HttpHandlers ApiKey
begin

text \<open>
  The endpoints of API keys: \<open>internal/interfaces/http/handler/apikey.go\<close>. The workspace is the one of the path.
\<close>

record create_key_request =
  kq_name :: string
  kq_scopes :: "string list"
  kq_expires_at :: "gotime option"

definition create_key_fields :: "create_key_request field list" where
  "create_key_fields =
     [(''name'', string_field (\<lambda>v q. q\<lparr>kq_name := v\<rparr>)), (''scopes'', strings_field (\<lambda>v q. q\<lparr>kq_scopes := v\<rparr>)),
      (''expires_at'', time_ptr_field (\<lambda>v q. q\<lparr>kq_expires_at := v\<rparr>))]"

definition created_key_json :: "create_key_result \<Rightarrow> json" where
  "created_key_json k =
     JObj [(''id'', JStr (ckr_id k)), (''name'', JStr (ckr_name k)), (''key_prefix'', JStr (ckr_key_prefix k)),
           (''raw_key'', JStr (ckr_raw_key k)),
           (''store_now'', JStr ''This is the only time the key will be shown. Store it securely now.''),
           (''scopes'', json_string_list (ckr_scopes k)), (''workspace_id'', JStr (ckr_workspace_id k)),
           (''created_at'', JStr (ckr_created_at k)), (''expires_at'', json_time (ckr_expires_at k))]"

definition key_summary_json :: "key_summary \<Rightarrow> json" where
  "key_summary_json k =
     JObj ([(''id'', JStr (ks_id k)), (''name'', JStr (ks_name k)), (''key_prefix'', JStr (ks_key_prefix k)),
            (''scopes'', json_string_list (ks_scopes k)), (''created_at'', JStr (ks_created_at k))]
           @ opt_time ''expires_at'' (ks_expires_at k) @ opt_time ''last_used_at'' (ks_last_used_at k))"

record 's apikey_http =
  akh_create :: "create_key_command \<Rightarrow> 's \<Rightarrow> create_key_result result \<times> 's"
  akh_revoke :: "revoke_key_command \<Rightarrow> 's \<Rightarrow> unit result \<times> 's"
  akh_list :: "string \<Rightarrow> string \<Rightarrow> 's \<Rightarrow> key_summary list result \<times> 's"

definition key_create :: "'s apikey_http \<Rightarrow> 's pending handler" where
  "key_create h r ps =
     (case rq_claims r of
        None \<Rightarrow> (unauthorized_response, ps)
      | Some c \<Rightarrow>
     (case decode_struct False create_key_fields \<lparr>kq_name = [], kq_scopes = [], kq_expires_at = None\<rparr> (rq_body r) of
        Inl e \<Rightarrow> (undecodable r, ps)
      | Inr q \<Rightarrow>
          (case on_pending (akh_create h \<lparr>ck_workspace_id = rq_param r ''workspaceID'', ck_name = kq_name q,
                  ck_scopes = kq_scopes q, ck_expires_at = kq_expires_at q, ck_created_by = cl_user_id c\<rparr>) ps of
             (Inl err, ps1) \<Rightarrow> (apikey_error_response r err, ps1)
           | (Inr k, ps1) \<Rightarrow>
               (write_json 201 (envelope (created_key_json k)),
                annotate_context resource_api_key (ckr_id k)
                  [(''name'', JStr (ckr_name k)), (''key_prefix'', JStr (ckr_key_prefix k)),
                   (''scopes'', json_string_list (ckr_scopes k))] ps1))))"

definition key_list :: "'s apikey_http \<Rightarrow> 's handler" where
  "key_list h r s =
     (case rq_claims r of
        None \<Rightarrow> (unauthorized_response, s)
      | Some c \<Rightarrow>
          (case akh_list h (rq_param r ''workspaceID'') (cl_user_id c) s of
             (Inl err, s1) \<Rightarrow> (apikey_error_response r err, s1)
           | (Inr ks, s1) \<Rightarrow> (write_json 200 (envelope (JArr (map key_summary_json ks))), s1)))"

definition key_revoke :: "'s apikey_http \<Rightarrow> 's pending handler" where
  "key_revoke h r ps =
     (case rq_claims r of
        None \<Rightarrow> (unauthorized_response, ps)
      | Some c \<Rightarrow>
          (case on_pending (akh_revoke h \<lparr>rk_key_id = rq_param r ''keyID'', rk_workspace_id = rq_param r ''workspaceID'',
                  rk_requesting_user_id = cl_user_id c\<rparr>) ps of
             (Inl err, ps1) \<Rightarrow> (apikey_error_response r err, ps1)
           | (Inr _, ps1) \<Rightarrow>
               (no_content, annotate_context resource_api_key (rq_param r ''keyID'') [(''revoked_by'', JStr (cl_user_id c))] ps1)))"

end
