(* ===== verification/WebhookHttp.thy ===== *)
theory WebhookHttp
  imports HttpHandlers
begin

text \<open>The endpoints of webhooks: \<open>internal/interfaces/http/handler/webhook.go\<close>.\<close>

record register_request =
  wq_name :: string
  wq_url :: string
  wq_events :: "string list"

definition register_fields :: "register_request field list" where
  "register_fields =
     [(''name'', string_field (\<lambda>v q. q\<lparr>wq_name := v\<rparr>)), (''url'', string_field (\<lambda>v q. q\<lparr>wq_url := v\<rparr>)),
      (''events'', strings_field (\<lambda>v q. q\<lparr>wq_events := v\<rparr>))]"

definition registered_json :: "register_result \<Rightarrow> json" where
  "registered_json x =
     JObj [(''id'', JStr (rgr_id x)), (''workspace_id'', JStr (rgr_workspace_id x)), (''name'', JStr (rgr_name x)),
           (''url'', JStr (rgr_url x)), (''secret'', JStr (rgr_secret x)),
           (''store_secret'', JStr ''This is the only time the signing secret will be shown. Store it securely.''),
           (''events'', json_string_list (rgr_events x)), (''status'', JStr (rgr_status x)),
           (''created_at'', JStr (rgr_created_at x))]"

definition webhook_summary_json :: "webhook_summary \<Rightarrow> json" where
  "webhook_summary_json w =
     JObj ([(''id'', JStr (whs_id w)), (''name'', JStr (whs_name w)), (''url'', JStr (whs_url w)),
            (''events'', json_string_list (whs_events w)), (''status'', JStr (whs_status w)),
            (''failure_count'', JInt (whs_failure_count w))]
           @ opt_time ''last_success_at'' (whs_last_success_at w) @ opt_time ''last_failure_at'' (whs_last_failure_at w)
           @ [(''created_at'', JStr (whs_created_at w))])"

record 's webhook_http =
  whh_register :: "register_command \<Rightarrow> 's \<Rightarrow> register_result result \<times> 's"
  whh_list :: "string \<Rightarrow> int \<Rightarrow> 's \<Rightarrow> webhook_summary list result \<times> 's"
  whh_delete :: "string \<Rightarrow> string \<Rightarrow> 's \<Rightarrow> unit result \<times> 's"

definition webhook_register :: "'s webhook_http \<Rightarrow> 's pending handler" where
  "webhook_register h r ps =
     (case rq_claims r of
        None \<Rightarrow> (unauthorized_response, ps)
      | Some c \<Rightarrow>
     (case decode_struct False register_fields \<lparr>wq_name = [], wq_url = [], wq_events = []\<rparr> (rq_body r) of
        Inl e \<Rightarrow> (undecodable r, ps)
      | Inr q \<Rightarrow>
          (case on_pending (whh_register h \<lparr>rg_workspace_id = cl_workspace_id c, rg_requesting_user_id = cl_user_id c,
                  rg_name = wq_name q, rg_url = wq_url q, rg_events = wq_events q\<rparr>) ps of
             (Inl err, ps1) \<Rightarrow> (webhook_error_response r err, ps1)
           | (Inr x, ps1) \<Rightarrow>
               (write_json 201 (envelope (registered_json x)),
                annotate_context resource_webhook (rgr_id x)
                  [(''name'', JStr (rgr_name x)), (''url'', JStr (rgr_url x)), (''events'', json_string_list (rgr_events x))] ps1))))"

definition webhook_list :: "'s webhook_http \<Rightarrow> 's handler" where
  "webhook_list h r s =
     (case rq_claims r of
        None \<Rightarrow> (unauthorized_response, s)
      | Some c \<Rightarrow>
          (case whh_list h (cl_workspace_id c) (parse_int_query r ''limit'' 20 100) s of
             (Inl err, s1) \<Rightarrow> (webhook_error_response r err, s1)
           | (Inr ws, s1) \<Rightarrow> (write_json 200 (envelope (JArr (map webhook_summary_json ws))), s1)))"

definition webhook_delete :: "'s webhook_http \<Rightarrow> 's pending handler" where
  "webhook_delete h r ps =
     (case rq_claims r of
        None \<Rightarrow> (unauthorized_response, ps)
      | Some c \<Rightarrow>
          (case on_pending (whh_delete h (rq_param r ''webhookID'') (cl_workspace_id c)) ps of
             (Inl err, ps1) \<Rightarrow> (webhook_error_response r err, ps1)
           | (Inr _, ps1) \<Rightarrow>
               (no_content, annotate_context resource_webhook (rq_param r ''webhookID'') [(''deleted_by'', JStr (cl_user_id c))] ps1)))"

end
