(* ===== verification/Storage.thy ===== *)
theory Storage
  imports Errors GoPath
begin

text \<open>
  \<open>internal/infrastructure/storage/local.go\<close>: the files of the exports in one directory. The file system maps
  absolute paths to contents; each call of the operating system takes the next outcome of a list: it may fail,
  and a failing write has written some bytes.
\<close>

section \<open>The interface\<close>

datatype read_result = ReadFile string | ReadMissing | ReadFailed gerr

text \<open>\<open>Writer\<close> gives a file to write and close; \<open>Reader\<close> one that is copied to the end. \<open>ReadMissing\<close> is \<open>ErrFileNotFound\<close>.\<close>

record 's storage =
  sto_create :: "string \<Rightarrow> string \<Rightarrow> 's \<Rightarrow> unit result \<times> 's"
  sto_write :: "string \<Rightarrow> string \<Rightarrow> string \<Rightarrow> 's \<Rightarrow> unit result \<times> 's"
  sto_close :: "string \<Rightarrow> string \<Rightarrow> 's \<Rightarrow> unit result \<times> 's"
  sto_read :: "string \<Rightarrow> string \<Rightarrow> 's \<Rightarrow> read_result \<times> 's"
  sto_delete :: "string \<Rightarrow> string \<Rightarrow> 's \<Rightarrow> unit result \<times> 's"
  sto_size :: "string \<Rightarrow> string \<Rightarrow> 's \<Rightarrow> int result \<times> 's"
  sto_path :: "string \<Rightarrow> string \<Rightarrow> string"

section \<open>The local directory\<close>

record file_system =
  fs_files :: "string \<Rightarrow> string option"
  fs_faults :: "(string \<times> nat) option list"

definition no_files :: file_system where "no_files = \<lparr>fs_files = (\<lambda>_. None), fs_faults = []\<rparr>"

fun next_os :: "(string \<times> nat) option list \<Rightarrow> (string \<times> nat) option \<times> (string \<times> nat) option list" where
  "next_os [] = (None, [])"
| "next_os (f # fs) = (f, fs)"

text \<open>One call: its effect on the files, or the failure with what it leaves.\<close>

definition os_call :: "string \<Rightarrow> (nat \<Rightarrow> file_system \<Rightarrow> file_system) \<Rightarrow> (file_system \<Rightarrow> 'a \<times> file_system) \<Rightarrow> file_system \<Rightarrow> 'a result \<times> file_system" where
  "os_call what partial f fs =
     (case next_os (fs_faults fs) of
        (Some (m, n), fl) \<Rightarrow> (Inl (EWrap what (EOther m) []), partial n (fs\<lparr>fs_faults := fl\<rparr>))
      | (None, fl) \<Rightarrow> (case f (fs\<lparr>fs_faults := fl\<rparr>) of (x, fs') \<Rightarrow> (Inr x, fs')))"

definition set_file :: "string \<Rightarrow> string option \<Rightarrow> file_system \<Rightarrow> file_system" where
  "set_file p c fs = fs\<lparr>fs_files := (fs_files fs)(p := c)\<rparr>"

definition append_file :: "string \<Rightarrow> string \<Rightarrow> file_system \<Rightarrow> file_system" where
  "append_file p c fs = set_file p (Some ((case fs_files fs p of None \<Rightarrow> [] | Some old \<Rightarrow> old) @ c)) fs"

definition file_path :: "string \<Rightarrow> string \<Rightarrow> string \<Rightarrow> string" where
  "file_path base export_id ext = path_join base (export_id @ ext)"

definition local_create :: "string \<Rightarrow> string \<Rightarrow> string \<Rightarrow> file_system \<Rightarrow> unit result \<times> file_system" where
  "local_create base i ext = os_call ''storage: creating file: '' (\<lambda>n fs. fs) (\<lambda>fs. ((), set_file (file_path base i ext) (Some []) fs))"

text \<open>The errors of the file itself are not wrapped.\<close>

definition local_write :: "string \<Rightarrow> string \<Rightarrow> string \<Rightarrow> string \<Rightarrow> file_system \<Rightarrow> unit result \<times> file_system" where
  "local_write base i ext c =
     os_call [] (\<lambda>n. append_file (file_path base i ext) (take n c)) (\<lambda>fs. ((), append_file (file_path base i ext) c fs))"

definition local_close :: "string \<Rightarrow> string \<Rightarrow> string \<Rightarrow> file_system \<Rightarrow> unit result \<times> file_system" where
  "local_close base i ext = os_call [] (\<lambda>n fs. fs) (\<lambda>fs. ((), fs))"

definition local_read :: "string \<Rightarrow> string \<Rightarrow> string \<Rightarrow> file_system \<Rightarrow> read_result \<times> file_system" where
  "local_read base i ext fs =
     (case os_call ''storage: opening file: '' (\<lambda>n fs. fs) (\<lambda>fs. (fs_files fs (file_path base i ext), fs)) fs of
        (Inl e, fs') \<Rightarrow> (ReadFailed e, fs')
      | (Inr None, fs') \<Rightarrow> (ReadMissing, fs')
      | (Inr (Some c), fs') \<Rightarrow> (ReadFile c, fs'))"

text \<open>A file that does not exist is deleted, and its size is zero.\<close>

definition local_delete :: "string \<Rightarrow> string \<Rightarrow> string \<Rightarrow> file_system \<Rightarrow> unit result \<times> file_system" where
  "local_delete base i ext = os_call ''storage: deleting file: '' (\<lambda>n fs. fs) (\<lambda>fs. ((), set_file (file_path base i ext) None fs))"

definition local_size :: "string \<Rightarrow> string \<Rightarrow> string \<Rightarrow> file_system \<Rightarrow> int result \<times> file_system" where
  "local_size base i ext =
     os_call ''storage: stat file: '' (\<lambda>n fs. fs)
       (\<lambda>fs. (case fs_files fs (file_path base i ext) of None \<Rightarrow> 0 | Some c \<Rightarrow> int (length c), fs))"

definition local_storage :: "string \<Rightarrow> file_system storage" where
  "local_storage base =
     \<lparr>sto_create = local_create base, sto_write = local_write base, sto_close = local_close base, sto_read = local_read base,
      sto_delete = local_delete base, sto_size = local_size base, sto_path = file_path base\<rparr>"

section \<open>The contract\<close>

text \<open>What the export worker relies on: a file holds what was written to it, and no call touches another file.\<close>

definition export_file :: "string \<Rightarrow> string \<Rightarrow> bool" where
  "export_file i ext \<longleftrightarrow> i \<noteq> [] \<and> CHR ''.'' \<notin> set i \<and> CHR ''/'' \<notin> set i \<and> ext \<in> {''.csv'', ''.jsonl'', ''.dat''}"

locale file_store =
  fixes sto :: "'s storage" and content :: "'s \<Rightarrow> string \<Rightarrow> string \<Rightarrow> string option"
  assumes create_ok: "sto_create sto i ext s = (Inr v, s') \<Longrightarrow> content s' i ext = Some []"
    and write_ok: "sto_write sto i ext c s = (Inr v, s') \<Longrightarrow> content s i ext = Some old \<Longrightarrow> content s' i ext = Some (old @ c)"
    and close_keeps: "sto_close sto i ext s = (r, s') \<Longrightarrow> content s' j e = content s j e"
    and size_ok: "sto_size sto i ext s = (Inr n, s') \<Longrightarrow> content s i ext = Some c \<Longrightarrow> n = int (length c)"
    and size_keeps: "sto_size sto i ext s = (rn, s') \<Longrightarrow> content s' j e = content s j e"
    and read_ok: "sto_read sto i ext s = (ReadFile c, s') \<Longrightarrow> content s i ext = Some c"
    and read_keeps: "sto_read sto i ext s = (rr, s') \<Longrightarrow> content s' j e = content s j e"
    and create_other: "export_file i ext \<Longrightarrow> export_file j e \<Longrightarrow> i \<noteq> j \<Longrightarrow> sto_create sto i ext s = (r, s') \<Longrightarrow> content s' j e = content s j e"
    and write_other: "export_file i ext \<Longrightarrow> export_file j e \<Longrightarrow> i \<noteq> j \<Longrightarrow> sto_write sto i ext c s = (r, s') \<Longrightarrow> content s' j e = content s j e"
    and delete_other: "export_file i ext \<Longrightarrow> export_file j e \<Longrightarrow> i \<noteq> j \<Longrightarrow> sto_delete sto i ext s = (r, s') \<Longrightarrow> content s' j e = content s j e"
begin

lemma written_file:
  assumes "sto_create sto i ext s = (Inr v, s1)" and "content s2 i ext = content s1 i ext"
    and "sto_write sto i ext c s2 = (Inr v', s3)" and "sto_close sto i ext s3 = (r, s4)"
  shows "content s4 i ext = Some c"
  using create_ok [OF assms(1)] write_ok [OF assms(3)] close_keeps [OF assms(4)] assms(2) by simp

end

section \<open>The local directory meets it\<close>

lemma export_file_inject:
  "export_file i ext \<Longrightarrow> export_file j e \<Longrightarrow> i @ ext = j @ e \<Longrightarrow> i = j"
  using append_sep_inject [of "CHR ''.''" i j "tl ext" "tl e"] by (auto simp: export_file_def)

lemma export_file_name: "export_file i ext \<Longrightarrow> file_name (i @ ext)"
  by (cases i) (auto simp: export_file_def file_name_def)

lemma file_path_inject:
  "export_file i ext \<Longrightarrow> export_file j e \<Longrightarrow> i \<noteq> j \<Longrightarrow> file_path base i ext \<noteq> file_path base j e"
  using export_file_inject path_join_inject export_file_name by (metis file_path_def)

definition local_content :: "string \<Rightarrow> file_system \<Rightarrow> string \<Rightarrow> string \<Rightarrow> string option" where
  "local_content base fs i ext = fs_files fs (file_path base i ext)"

lemma local_content_simps [simp]:
  "local_content base (fs\<lparr>fs_faults := fl\<rparr>) i ext = local_content base fs i ext"
  "local_content base (set_file p c fs) i ext = (if file_path base i ext = p then c else local_content base fs i ext)"
  by (auto simp: local_content_def set_file_def)

lemma os_call_Inr: "os_call what partial f fs = (Inr x, fs') \<longleftrightarrow>
    (\<exists>fl. next_os (fs_faults fs) = (None, fl) \<and> f (fs\<lparr>fs_faults := fl\<rparr>) = (x, fs'))"
  by (auto simp: os_call_def split: prod.splits option.splits)

lemma os_call_keeps:
  assumes "os_call what partial f fs = (r, fs')" and "\<And>n g. P (partial n g) = P g" and "\<And>g. P (snd (f g)) = P g"
    and "\<And>g fl. P (g\<lparr>fs_faults := fl\<rparr>) = P g"
  shows "P fs' = P fs"
  using assms(1) assms(2-4) by (auto simp: os_call_def split: prod.splits option.splits) (metis snd_conv)+

lemma append_file_content [simp]:
  "local_content base (append_file p c fs) i ext =
     (if file_path base i ext = p then Some ((case fs_files fs p of None \<Rightarrow> [] | Some old \<Rightarrow> old) @ c) else local_content base fs i ext)"
  by (simp add: append_file_def)

lemmas local_defs = local_create_def local_write_def local_close_def local_delete_def local_size_def local_storage_def

interpretation disk: file_store "local_storage base" "local_content base" for base
proof
  fix i ext s v s' assume "sto_create (local_storage base) i ext s = (Inr v, s')"
  then show "local_content base s' i ext = Some []" by (auto simp: local_defs os_call_Inr)
next
  fix i ext c s v s' old
  assume "sto_write (local_storage base) i ext c s = (Inr v, s')" and "local_content base s i ext = Some old"
  then show "local_content base s' i ext = Some (old @ c)" by (auto simp: local_defs os_call_Inr local_content_def append_file_def set_file_def)
next
  fix i ext s r s' j e assume "sto_close (local_storage base) i ext s = (r, s')"
  then show "local_content base s' j e = local_content base s j e"
    by (auto simp: local_defs elim: os_call_keeps)
next
  fix i ext s n s' c assume "sto_size (local_storage base) i ext s = (Inr n, s')" and "local_content base s i ext = Some c"
  then show "n = int (length c)" by (auto simp: local_defs os_call_Inr local_content_def)
next
  fix i ext s rn s' j e assume "sto_size (local_storage base) i ext s = (rn, s')"
  then show "local_content base s' j e = local_content base s j e"
    by (auto simp: local_defs elim: os_call_keeps)
next
  fix i ext s c s' assume "sto_read (local_storage base) i ext s = (ReadFile c, s')"
  then show "local_content base s i ext = Some c"
    by (auto simp: local_storage_def local_read_def os_call_def local_content_def split: prod.splits option.splits sum.splits)
next
  fix i ext s rr s' j e assume "sto_read (local_storage base) i ext s = (rr, s')"
  then show "local_content base s' j e = local_content base s j e"
    by (auto simp: local_storage_def local_read_def os_call_def split: prod.splits option.splits sum.splits)
next
  fix i ext j e s r s'
  assume *: "export_file i ext" "export_file j e" "i \<noteq> j" and run: "sto_create (local_storage base) i ext s = (r, s')"
  have "file_path base j e \<noteq> file_path base i ext" using file_path_inject [OF *] by metis
  with run show "local_content base s' j e = local_content base s j e"
    by (auto simp: local_defs elim!: os_call_keeps)
next
  fix i ext j e c s r s'
  assume *: "export_file i ext" "export_file j e" "i \<noteq> j" and run: "sto_write (local_storage base) i ext c s = (r, s')"
  have "file_path base j e \<noteq> file_path base i ext" using file_path_inject [OF *] by metis
  with run show "local_content base s' j e = local_content base s j e"
    by (auto simp: local_defs elim!: os_call_keeps)
next
  fix i ext j e s r s'
  assume *: "export_file i ext" "export_file j e" "i \<noteq> j" and run: "sto_delete (local_storage base) i ext s = (r, s')"
  have "file_path base j e \<noteq> file_path base i ext" using file_path_inject [OF *] by metis
  with run show "local_content base s' j e = local_content base s j e"
    by (auto simp: local_defs elim!: os_call_keeps)
qed

end
