(* ===== verification/SignedUrl.thy ===== *)
theory SignedUrl
  imports Base64 Crypto GoTime
begin

text \<open>
  \<open>pkg/signedurl/signer.go\<close>: the tokens of export downloads, an HMAC over the export ID and the second at which
  the download expires.
\<close>

section \<open>The signer\<close>

record signer =
  sg_secret :: "nat list"

definition new_signer :: "nat list \<Rightarrow> string + signer" where
  "new_signer secret =
     (if length secret < 16
      then Inl (''signedurl: secret must be at least 16 bytes, got '' @ show_nat (length secret))
      else Inr \<lparr>sg_secret = secret\<rparr>)"

text \<open>The 32 random bytes, or the failure of the source.\<close>

definition new_random_signer :: "string + nat list \<Rightarrow> string + signer" where
  "new_random_signer rand =
     (case rand of Inl e \<Rightarrow> Inl (''signedurl: generating random secret: '' @ e) | Inr bs \<Rightarrow> Inr \<lparr>sg_secret = bs\<rparr>)"

text \<open>The error of \<open>hex.DecodeString\<close>: the first byte that is no digit, written as \<open>%#U\<close> does, or the length.\<close>

definition rune_text :: "nat \<Rightarrow> string" where
  "rune_text n =
     (let up = ''0123456789ABCDEF'';
          utf8 = (if n < 128 then [char_of n] else [char_of (192 + n div 64), char_of (128 + n mod 64)]);
          printable = (32 \<le> n \<and> n \<le> 126 \<or> 161 \<le> n \<and> n \<noteq> 173)
      in ''U+00'' @ [up ! (n div 16), up ! (n mod 16)] @ (if printable then '' '' @ [CHR 0x27] @ utf8 @ [CHR 0x27] else []))"

definition hex_error :: "string \<Rightarrow> string" where
  "hex_error s =
     (case filter (\<lambda>c. hex_value c = None) s of
        [] \<Rightarrow> ''encoding/hex: odd length hex string''
      | c # cs \<Rightarrow> ''encoding/hex: invalid byte: '' @ rune_text (of_char c))"

definition signer_from_hex :: "string \<Rightarrow> string + signer" where
  "signer_from_hex s =
     (case hex_decode s of
        None \<Rightarrow> Inl (''signedurl: decoding hex secret: '' @ hex_error s)
      | Some bs \<Rightarrow> new_signer bs)"

definition token_payload :: "string \<Rightarrow> gotime \<Rightarrow> string" where
  "token_payload export_id expires_at = export_id @ ''|'' @ show_int (unix_seconds expires_at)"

definition compute_hmac :: "signer \<Rightarrow> string \<Rightarrow> nat list" where
  "compute_hmac s payload = hmac_sha256 (sg_secret s) (string_bytes payload)"

definition sign_token :: "signer \<Rightarrow> string \<Rightarrow> gotime \<Rightarrow> string" where
  "sign_token s export_id expires_at = b64_encode UrlAlphabet False (compute_hmac s (token_payload export_id expires_at))"

definition verify_token :: "signer \<Rightarrow> gotime \<Rightarrow> string \<Rightarrow> string \<Rightarrow> gotime \<Rightarrow> bool" where
  "verify_token s now export_id token expires_at =
     (if now > expires_at then False
      else token = b64_encode UrlAlphabet False (compute_hmac s (token_payload export_id expires_at)))"

definition build_download_url :: "string \<Rightarrow> string \<Rightarrow> string \<Rightarrow> string" where
  "build_download_url base export_id token =
     trim_right (\<lambda>c. c = CHR ''/'') base @ ''/api/v1/exports/'' @ export_id @ ''/download?token='' @ token"

section \<open>Lemmas\<close>

text \<open>Two expiries in one second give one token; the payload determines the export and the second.\<close>

lemma verify_token_iff: "verify_token s now i t e \<longleftrightarrow> now \<le> e \<and> t = sign_token s i e"
  by (auto simp: verify_token_def sign_token_def)

lemma sign_token_same_second: "unix_seconds e = unix_seconds e' \<Longrightarrow> sign_token s i e = sign_token s i e'"
  by (simp add: sign_token_def token_payload_def)

lemma bar_not_in_show_int: "CHR ''|'' \<notin> set (show_int n)"
proof
  assume "CHR ''|'' \<in> set (show_int n)"
  then obtain d where d: "d < 10" "CHR ''|'' = digit_char d"
    using show_nat_digits by (fastforce simp: show_int_def split: if_splits)
  then have "(of_char (CHR ''|'') :: nat) = 48 + d" by (simp add: digit_char_def)
  with d(1) show False by simp
qed

lemma token_payload_inject:
  "token_payload i e = token_payload i' e' \<longleftrightarrow> i = i' \<and> unix_seconds e = unix_seconds e'"
proof
  assume "token_payload i e = token_payload i' e'"
  then have "rev (show_int (unix_seconds e)) @ CHR ''|'' # rev i = rev (show_int (unix_seconds e')) @ CHR ''|'' # rev i'"
    by (simp add: token_payload_def) (metis append_Cons append_Nil append_assoc rev.simps(2) rev_append rev_rev_ident)
  then have "rev (show_int (unix_seconds e)) = rev (show_int (unix_seconds e')) \<and> rev i = rev i'"
    by (subst (asm) append_sep_inject) (simp_all add: bar_not_in_show_int)
  then show "i = i' \<and> unix_seconds e = unix_seconds e'" by simp
qed (simp add: token_payload_def)

end
