(* ===== verification/Rendering.thy ===== *)
theory Rendering
  imports HttpJson
begin

text \<open>
  The two formats of an export file: records as \<open>encoding/csv\<close> writes them, and documents as \<open>encoding/json\<close>
  writes them, for valid UTF-8, which is what the database returns.
\<close>

section \<open>CSV\<close>

text \<open>The runes for which \<open>unicode.IsSpace\<close> holds, as the bytes a field may start with.\<close>

definition space_runes :: "nat list list" where
  "space_runes = map (\<lambda>b. [b]) [9, 10, 11, 12, 13, 32] @ [[194, 133], [194, 160], [225, 154, 128]]
     @ map (\<lambda>b. [226, 128, b]) ([128..<139] @ [168, 169, 175]) @ [[226, 129, 159], [227, 128, 128]]"

definition csv_needs_quotes :: "string \<Rightarrow> bool" where
  "csv_needs_quotes f =
     (if f = [] then False
      else if map byte f = [92, 46] then True
      else list_ex (\<lambda>c. byte c \<in> {10, 13, 34, 44}) f \<or> list_ex (\<lambda>p. take (length p) (map byte f) = p) space_runes)"

definition csv_field :: "string \<Rightarrow> string" where
  "csv_field f =
     (if csv_needs_quotes f
      then [CHR 0x22] @ concat (map (\<lambda>c. if c = CHR 0x22 then [CHR 0x22, CHR 0x22] else [c]) f) @ [CHR 0x22]
      else f)"

definition csv_record :: "string list \<Rightarrow> string" where
  "csv_record fs = str_join '','' (map csv_field fs) @ [CHR 0x0A]"

section \<open>JSON\<close>

text \<open>
  The encoder's escapes, with those for HTML: short forms, \<open>\u00XX\<close> for the other control bytes and for angle brackets
  and ampersand, and the two line separators of Unicode.
\<close>

definition json_u :: "nat \<Rightarrow> string" where
  "json_u b = [CHR 0x5C] @ ''u00'' @ [hex_digit (b div 16), hex_digit (b mod 16)]"

definition json_char :: "char \<Rightarrow> string" where
  "json_char c =
     (if byte c \<in> {34, 92} then [CHR 0x5C, c]
      else if byte c = 8 then [CHR 0x5C, CHR ''b'']
      else if byte c = 12 then [CHR 0x5C, CHR ''f'']
      else if byte c = 10 then [CHR 0x5C, CHR ''n'']
      else if byte c = 13 then [CHR 0x5C, CHR ''r'']
      else if byte c = 9 then [CHR 0x5C, CHR ''t'']
      else if byte c < 32 \<or> byte c \<in> {38, 60, 62} then json_u (byte c)
      else [c])"

fun json_chars :: "string \<Rightarrow> string" where
  "json_chars (a # b # c # s) =
     (if byte a = 226 \<and> byte b = 128 \<and> byte c \<in> {168, 169}
      then [CHR 0x5C] @ ''u202'' @ [hex_digit (byte c - 160)] @ json_chars s
      else json_char a @ json_chars (b # c # s))"
| "json_chars s = concat (map json_char s)"

definition json_string :: "string \<Rightarrow> string" where
  "json_string s = [CHR 0x22] @ json_chars s @ [CHR 0x22]"

text \<open>Floats are not written here: no export has one.\<close>

fun json_text :: "json \<Rightarrow> string" where
  "json_text JNull = ''null''"
| "json_text (JBool b) = show_bool b"
| "json_text (JInt i) = show_int i"
| "json_text (JStr s) = json_string s"
| "json_text (JArr vs) = ''['' @ str_join '','' (map json_text vs) @ '']''"
| "json_text (JObj kvs) = ''{'' @ str_join '','' (map (\<lambda>kv. json_string (fst kv) @ '':'' @ json_text (snd kv)) kvs) @ ''}''"

text \<open>\<open>Encoder.Encode\<close> ends a document with a newline.\<close>

definition json_line :: "json \<Rightarrow> string" where "json_line v = json_text v @ [CHR 0x0A]"

section \<open>Reading a CSV file back\<close>

text \<open>
  A reader of the records of RFC 4180, to say what the writer preserves: the fields come back, whatever bytes they
  have. \<open>csv_scan q f fs rs s\<close> reads \<open>s\<close> in or outside quotes, with the open field, record and records reversed.
\<close>

fun csv_scan :: "bool \<Rightarrow> string \<Rightarrow> string list \<Rightarrow> string list list \<Rightarrow> string \<Rightarrow> string list list" where
  "csv_scan q f fs rs [] = rev rs"
| "csv_scan False f fs rs (c # s) =
     (if c = CHR 0x22 then csv_scan True f fs rs s
      else if c = CHR 0x2C then csv_scan False [] (rev f # fs) rs s
      else if c = CHR 0x0A then csv_scan False [] [] (rev (rev f # fs) # rs) s
      else csv_scan False (c # f) fs rs s)"
| "csv_scan True f fs rs (c # s) =
     (if c = CHR 0x22 then
        (case s of
           d # s' \<Rightarrow> if d = CHR 0x22 then csv_scan True (CHR 0x22 # f) fs rs s' else csv_scan False f fs rs s
         | [] \<Rightarrow> rev rs)
      else csv_scan True (c # f) fs rs s)"

definition csv_read :: "string \<Rightarrow> string list list" where "csv_read s = csv_scan False [] [] [] s"

lemma csv_scan_plain:
  "\<not> list_ex (\<lambda>c. byte c \<in> {10, 13, 34, 44}) g \<Longrightarrow> csv_scan False f fs rs (g @ s) = csv_scan False (rev g @ f) fs rs s"
proof (induction g arbitrary: f)
  case (Cons c g)
  then have "c \<noteq> CHR 0x22" "c \<noteq> CHR 0x2C" "c \<noteq> CHR 0x0A" by (auto simp: byte_def)
  with Cons show ?case by simp
qed simp

lemma csv_scan_quoted:
  "hd_opt \<noteq> CHR 0x22 \<Longrightarrow>
   csv_scan True f fs rs (concat (map (\<lambda>c. if c = CHR 0x22 then [CHR 0x22, CHR 0x22] else [c]) g) @ CHR 0x22 # hd_opt # s)
     = csv_scan False (rev g @ f) fs rs (hd_opt # s)"
  by (induction g arbitrary: f) auto

lemma csv_scan_field:
  assumes "d \<in> {CHR 0x2C, CHR 0x0A}"
  shows "csv_scan False [] fs rs (csv_field f @ d # s) = csv_scan False (rev f) fs rs (d # s)"
proof (cases "csv_needs_quotes f")
  case True
  with assms csv_scan_quoted [of d "[]" fs rs f s] show ?thesis by (auto simp: csv_field_def)
next
  case False
  then have "\<not> list_ex (\<lambda>c. byte c \<in> {10, 13, 34, 44}) f" by (auto simp: csv_needs_quotes_def split: if_splits)
  with False csv_scan_plain [of f "[]" fs rs "d # s"] show ?thesis by (simp add: csv_field_def)
qed

lemma csv_scan_record:
  "gs \<noteq> [] \<Longrightarrow> csv_scan False [] fs rs (str_join '','' (map csv_field gs) @ CHR 0x0A # s)
     = csv_scan False [] [] ((rev fs @ gs) # rs) s"
proof (induction gs arbitrary: fs)
  case (Cons g gs)
  show ?case
  proof (cases "gs = []")
    case True
    then show ?thesis by (simp add: csv_scan_field)
  next
    case False
    with Cons.IH [of "g # fs"] show ?thesis by (simp add: str_join_Cons csv_scan_field)
  qed
qed simp

lemma csv_scan_records:
  "\<forall>r \<in> set recs. r \<noteq> [] \<Longrightarrow> csv_scan False [] [] rs (concat (map csv_record recs)) = rev rs @ recs"
  by (induction recs arbitrary: rs) (auto simp: csv_record_def csv_scan_record)

lemma csv_read_records: "\<forall>r \<in> set recs. r \<noteq> [] \<Longrightarrow> csv_read (concat (map csv_record recs)) = recs"
  by (simp add: csv_read_def csv_scan_records)

end
