(* ===== verification/Export.thy ===== *)
theory Export
  imports Storage SignedUrl Rendering
begin

text \<open>
  Event exports: the entity of \<open>internal/domain/export\<close>, the use case that queues a job and the worker that turns it
  into a file, \<open>internal/application/export\<close>.
\<close>

section \<open>The entity\<close>

definition format_csv :: string where "format_csv = ''csv''"
definition format_json_lines :: string where "format_json_lines = ''json_lines''"

definition export_pending :: string where "export_pending = ''pending''"
definition export_processing :: string where "export_processing = ''processing''"
definition export_completed :: string where "export_completed = ''completed''"
definition export_failed :: string where "export_failed = ''failed''"

lemmas export_status_defs = export_pending_def export_processing_def export_completed_def export_failed_def

definition max_window_days :: int where "max_window_days = 365"

record export =
  x_id :: string
  x_workspace_id :: string
  x_requested_by :: string
  x_format :: string
  x_status :: string
  x_date_from :: gotime
  x_date_to :: gotime
  x_include_bots :: bool
  x_file_path :: string
  x_row_count :: int
  x_file_size_bytes :: int
  x_download_token :: string
  x_download_expires_at :: "gotime option"
  x_error_message :: string
  x_created_at :: gotime
  x_worker_started_at :: "gotime option"
  x_completed_at :: "gotime option"

definition is_downloadable :: "gotime \<Rightarrow> export \<Rightarrow> bool" where
  "is_downloadable now x =
     (x_status x = export_completed \<and> (case x_download_expires_at x of None \<Rightarrow> False | Some t \<Rightarrow> now < t))"

definition file_extension :: "export \<Rightarrow> string" where
  "file_extension x =
     (if x_format x = format_csv then ''.csv'' else if x_format x = format_json_lines then ''.jsonl'' else ''.dat'')"

definition content_type :: "export \<Rightarrow> string" where
  "content_type x =
     (if x_format x = format_csv then ''text/csv; charset=utf-8''
      else if x_format x = format_json_lines then ''application/x-ndjson'' else ''application/octet-stream'')"

definition export_file_name :: "export \<Rightarrow> string" where
  "export_file_name x =
     ''export_'' @ take (min 8 (length (x_workspace_id x))) (x_workspace_id x) @ ''_'' @ format_date (x_date_from x)
       @ ''_to_'' @ format_date (x_date_to x) @ file_extension x"

record event_row =
  er_short_code :: string
  er_occurred_at :: gotime
  er_country_code :: string
  er_device_type :: string
  er_browser_family :: string
  er_os_family :: string
  er_referrer_domain :: string
  er_is_bot :: bool

record event_query =
  eq_workspace_id :: string
  eq_date_from :: gotime
  eq_date_to :: gotime
  eq_include_bots :: bool
  eq_batch_size :: nat

section \<open>Ports\<close>

text \<open>
  \<open>Repository\<close> and \<open>EventReader\<close>, with the lookup of the download. The reader's channels are the rows that arrive
  and the error after them. The first argument of the writes is the clock of the database.
\<close>

record 's export_repository =
  xr_create :: "export \<Rightarrow> 's \<Rightarrow> unit result \<times> 's"
  xr_get_by_id :: "string \<Rightarrow> string \<Rightarrow> 's \<Rightarrow> export result \<times> 's"
  xr_get_any_by_id :: "string \<Rightarrow> 's \<Rightarrow> export result \<times> 's"
  xr_list :: "string \<Rightarrow> int \<Rightarrow> 's \<Rightarrow> export list result \<times> 's"
  xr_claim :: "gotime \<Rightarrow> 's \<Rightarrow> export option result \<times> 's"
  xr_mark_completed :: "gotime \<Rightarrow> string \<Rightarrow> string \<Rightarrow> int \<Rightarrow> int \<Rightarrow> string \<Rightarrow> gotime \<Rightarrow> 's \<Rightarrow> unit result \<times> 's"
  xr_mark_failed :: "gotime \<Rightarrow> string \<Rightarrow> string \<Rightarrow> 's \<Rightarrow> unit result \<times> 's"
  xr_read_events :: "event_query \<Rightarrow> 's \<Rightarrow> (event_row list \<times> gerr option) \<times> 's"

section \<open>Creating a job\<close>

record export_command =
  xc_workspace_id :: string
  xc_requested_by :: string
  xc_format :: string
  xc_date_from :: gotime
  xc_date_to :: gotime
  xc_include_bots :: bool

record export_result =
  xres_id :: string
  xres_workspace_id :: string
  xres_format :: string
  xres_status :: string
  xres_date_from :: gotime
  xres_date_to :: gotime
  xres_include_bots :: bool
  xres_created_at :: gotime

text \<open>\<open>NewCreateHandler\<close>; durations are 64-bit, so a product may wrap.\<close>

definition window_days :: "int \<Rightarrow> int" where
  "window_days days = (if days \<le> 0 then max_window_days else days)"

definition window_limit :: "int \<Rightarrow> duration" where
  "window_limit days = sint (word_of_int (days * (24 * hour)) :: 64 word)"

definition new_export :: "gotime \<Rightarrow> string \<Rightarrow> export_command \<Rightarrow> export" where
  "new_export now ulid cmd =
     \<lparr>x_id = ulid, x_workspace_id = xc_workspace_id cmd, x_requested_by = xc_requested_by cmd, x_format = xc_format cmd,
      x_status = export_pending, x_date_from = xc_date_from cmd, x_date_to = xc_date_to cmd,
      x_include_bots = xc_include_bots cmd, x_file_path = [], x_row_count = 0, x_file_size_bytes = 0,
      x_download_token = [], x_download_expires_at = None, x_error_message = [], x_created_at = now,
      x_worker_started_at = None, x_completed_at = None\<rparr>"

definition export_validation :: "export_err \<Rightarrow> gerr" where
  "export_validation e = new_validation_error (export_err_text e) (Some (EExp e))"

definition create_export_handle ::
  "'s export_repository \<Rightarrow> int \<Rightarrow> gotime \<Rightarrow> string \<Rightarrow> export_command \<Rightarrow> 's \<Rightarrow> export_result result \<times> 's" where
  "create_export_handle repo max_days now ulid cmd s =
     (if xc_date_to cmd < xc_date_from cmd \<or> xc_date_to cmd = xc_date_from cmd
      then (Inl (export_validation ExpErrInvalidDateRange), s)
      else if time_sub (xc_date_to cmd) (xc_date_from cmd) > window_limit (window_days max_days)
      then (Inl (export_validation ExpErrWindowTooLarge), s)
      else if xc_format cmd \<noteq> format_csv \<and> xc_format cmd \<noteq> format_json_lines
      then (Inl (export_validation ExpErrInvalidFormat), s)
      else
        let x = new_export now ulid cmd in
        (case xr_create repo x s of
           (Inl err, s1) \<Rightarrow> (Inl (EWrap ''creating export job: '' err []), s1)
         | (Inr _, s1) \<Rightarrow>
             (Inr \<lparr>xres_id = x_id x, xres_workspace_id = x_workspace_id x, xres_format = x_format x, xres_status = x_status x,
                  xres_date_from = x_date_from x, xres_date_to = x_date_to x, xres_include_bots = x_include_bots x,
                  xres_created_at = x_created_at x\<rparr>, s1)))"

section \<open>The worker\<close>

definition csv_header :: "string list" where
  "csv_header = [''short_code'', ''occurred_at'', ''country_code'', ''device_type'', ''browser_family'', ''os_family'',
     ''referrer_domain'', ''is_bot'']"

definition csv_row :: "event_row \<Rightarrow> string list" where
  "csv_row e = [er_short_code e, format_rfc3339 (er_occurred_at e), er_country_code e, er_device_type e,
     er_browser_family e, er_os_family e, er_referrer_domain e, show_bool (er_is_bot e)]"

definition row_json :: "event_row \<Rightarrow> json" where
  "row_json e = JObj [(''short_code'', JStr (er_short_code e)), (''occurred_at'', JStr (format_rfc3339_nano (er_occurred_at e))),
     (''country_code'', JStr (er_country_code e)), (''device_type'', JStr (er_device_type e)),
     (''browser_family'', JStr (er_browser_family e)), (''os_family'', JStr (er_os_family e)),
     (''referrer_domain'', JStr (er_referrer_domain e)), (''is_bot'', JBool (er_is_bot e))]"

definition csv_file :: "event_row list \<Rightarrow> string" where
  "csv_file rows = concat (map csv_record (csv_header # map csv_row rows))"

definition json_file :: "event_row list \<Rightarrow> string" where
  "json_file rows = concat (map (json_line \<circ> row_json) rows)"

definition job_file :: "export \<Rightarrow> event_row list \<Rightarrow> string" where
  "job_file job rows = (if x_format job = format_csv then csv_file rows else json_file rows)"

definition context_canceled :: gerr where "context_canceled = EOther ''context canceled''"
definition deadline_exceeded :: gerr where "deadline_exceeded = EOther ''context deadline exceeded''"

text \<open>The error at the end of the rows: a bare cancellation is taken for the end.\<close>

definition rows_error :: "gerr option \<Rightarrow> gerr option" where
  "rows_error e =
     (case e of None \<Rightarrow> None
      | Some err \<Rightarrow> if err = context_canceled \<or> err = deadline_exceeded then None else Some err)"

definition query_of_job :: "export \<Rightarrow> event_query" where
  "query_of_job job = \<lparr>eq_workspace_id = x_workspace_id job, eq_date_from = x_date_from job, eq_date_to = x_date_to job,
     eq_include_bots = x_include_bots job, eq_batch_size = 1000\<rparr>"

text \<open>
  \<open>writeRows\<close>: the error and the number of rows. The writes to the file are one here: whichever of them fails, the
  rows stop, and the caller deletes the file.
\<close>

definition write_rows :: "'s export_repository \<Rightarrow> 's storage \<Rightarrow> export \<Rightarrow> 's \<Rightarrow> (gerr option \<times> int) \<times> 's" where
  "write_rows repo sto job s =
     (case xr_read_events repo (query_of_job job) s of
        ((rows, rerr), s1) \<Rightarrow>
          if x_format job = format_csv then
            (case sto_write sto (x_id job) (file_extension job) (csv_file rows) s1 of
               (Inl err, s2) \<Rightarrow> ((Some err, int (length rows)), s2)
             | (Inr _, s2) \<Rightarrow> ((rows_error rerr, int (length rows)), s2))
          else if x_format job = format_json_lines then
            (case sto_write sto (x_id job) (file_extension job) (json_file rows) s1 of
               (Inl err, s2) \<Rightarrow> ((Some err, int (length rows)), s2)
             | (Inr _, s2) \<Rightarrow> ((rows_error rerr, int (length rows)), s2))
          else ((Some (EExp ExpErrInvalidFormat), 0), s1))"

text \<open>\<open>processOne\<close> once it has a job. The errors of \<open>Delete\<close> and \<open>MarkFailed\<close> are ignored.\<close>

record 's export_worker =
  xw_repo :: "'s export_repository"
  xw_storage :: "'s storage"
  xw_signer :: signer
  xw_ttl :: duration

definition fail_job :: "'s export_worker \<Rightarrow> gotime \<Rightarrow> export \<Rightarrow> gerr \<Rightarrow> 's \<Rightarrow> unit result \<times> 's" where
  "fail_job w db_now job err s = (Inl err, snd (xr_mark_failed (xw_repo w) db_now (x_id job) (err_text err) s))"

definition complete_job :: "'s export_worker \<Rightarrow> gotime \<Rightarrow> gotime \<Rightarrow> export \<Rightarrow> int \<Rightarrow> 's \<Rightarrow> unit result \<times> 's" where
  "complete_job w now db_now job rows s =
     (case sto_size (xw_storage w) (x_id job) (file_extension job) s of
        (Inl err, s1) \<Rightarrow> fail_job w db_now job err s1
      | (Inr sz, s1) \<Rightarrow>
          let expires = now + xw_ttl w; token = sign_token (xw_signer w) (x_id job) expires in
          (case xr_mark_completed (xw_repo w) db_now (x_id job) (sto_path (xw_storage w) (x_id job) (file_extension job))
                  rows sz token expires s1 of
             (Inl err, s2) \<Rightarrow> (Inl err, s2)
           | (Inr _, s2) \<Rightarrow> (Inr (), s2)))"

definition process_job :: "'s export_worker \<Rightarrow> gotime \<Rightarrow> gotime \<Rightarrow> export \<Rightarrow> 's \<Rightarrow> unit result \<times> 's" where
  "process_job w now db_now job s =
     (let ext = file_extension job; sto = xw_storage w in
      case sto_create sto (x_id job) ext s of
        (Inl err, s1) \<Rightarrow> fail_job w db_now job err s1
      | (Inr _, s1) \<Rightarrow>
     (case write_rows (xw_repo w) sto job s1 of
        ((werr, n), s2) \<Rightarrow>
     (case sto_close sto (x_id job) ext s2 of
        (cres, s3) \<Rightarrow>
          (case (werr, cres) of
             (None, Inr _) \<Rightarrow> complete_job w now db_now job n s3
           | (Some err, _) \<Rightarrow> fail_job w db_now job err (snd (sto_delete sto (x_id job) ext s3))
           | (None, Inl err) \<Rightarrow> fail_job w db_now job err (snd (sto_delete sto (x_id job) ext s3))))))"

definition process_one :: "'s export_worker \<Rightarrow> gotime \<Rightarrow> gotime \<Rightarrow> 's \<Rightarrow> unit result \<times> 's" where
  "process_one w now db_now s =
     (case xr_claim (xw_repo w) db_now s of
        (Inl err, s1) \<Rightarrow> (Inl err, s1)
      | (Inr None, s1) \<Rightarrow> (Inr (), s1)
      | (Inr (Some job), s1) \<Rightarrow> process_job w now db_now job s1)"

text \<open>\<open>Run\<close> until it is cancelled: one iteration at each of the given instants; errors are logged.\<close>

fun worker_run :: "'s export_worker \<Rightarrow> (gotime \<times> gotime) list \<Rightarrow> 's \<Rightarrow> 's" where
  "worker_run w [] s = s"
| "worker_run w ((now, db_now) # ts) s = worker_run w ts (snd (process_one w now db_now s))"

section \<open>Lemmas\<close>

lemma csv_file_read: "csv_read (csv_file rows) = csv_header # map csv_row rows"
  unfolding csv_file_def by (subst csv_read_records) (auto simp: csv_header_def csv_row_def)

lemma file_extension_ok: "file_extension x \<in> {''.csv'', ''.jsonl'', ''.dat''}"
  by (simp add: file_extension_def)

end
