(* ===== verification/ExportHttp.thy ===== *)
theory ExportHttp
  imports Export HttpHandlers
begin

text \<open>\<open>internal/interfaces/http/handler/export.go\<close>.\<close>

section \<open>Requests and responses\<close>

text \<open>\<open>strconv.Atoi\<close>: an optional sign and digits, in 64 bits.\<close>

definition atoi :: "string \<Rightarrow> int option" where
  "atoi s =
     (let neg = (s \<noteq> [] \<and> hd s = CHR ''-'');
          ds = (if s \<noteq> [] \<and> hd s \<in> {CHR ''-'', CHR ''+''} then tl s else s)
      in if ds = [] \<or> \<not> list_all HttpJson.is_digit ds then None
         else let v = (if neg then - digits_value ds else digits_value ds)
              in if - (2 ^ 63) \<le> v \<and> v < 2 ^ 63 then Some v else None)"

definition bool_field :: "(bool \<Rightarrow> 'r \<Rightarrow> 'r) \<Rightarrow> json \<Rightarrow> 'r \<Rightarrow> 'r field_result" where
  "bool_field upd v r = (case v of JNull \<Rightarrow> FieldOk r | JBool b \<Rightarrow> FieldOk (upd b r) | _ \<Rightarrow> FieldMismatch)"

definition time_field :: "(gotime \<Rightarrow> 'r \<Rightarrow> 'r) \<Rightarrow> json \<Rightarrow> 'r \<Rightarrow> 'r field_result" where
  "time_field upd v r =
     (case v of
        JNull \<Rightarrow> FieldOk r
      | JStr s \<Rightarrow> (case parse_rfc3339 s of None \<Rightarrow> FieldAbort | Some t \<Rightarrow> FieldOk (upd t r))
      | _ \<Rightarrow> FieldAbort)"

record export_request =
  xq_format :: string
  xq_date_from :: gotime
  xq_date_to :: gotime
  xq_include_bots :: bool

definition export_fields :: "export_request field list" where
  "export_fields =
     [(''format'', string_field (\<lambda>v. xq_format_update (\<lambda>_. v))), (''date_from'', time_field (\<lambda>v. xq_date_from_update (\<lambda>_. v))),
      (''date_to'', time_field (\<lambda>v. xq_date_to_update (\<lambda>_. v))), (''include_bots'', bool_field (\<lambda>v. xq_include_bots_update (\<lambda>_. v)))]"

definition created_export_json :: "export_result \<Rightarrow> json" where
  "created_export_json x =
     JObj [(''id'', JStr (xres_id x)), (''workspace_id'', JStr (xres_workspace_id x)), (''format'', JStr (xres_format x)),
           (''status'', JStr (xres_status x)), (''date_from'', JStr (format_rfc3339_nano (xres_date_from x))),
           (''date_to'', JStr (format_rfc3339_nano (xres_date_to x))), (''include_bots'', JBool (xres_include_bots x)),
           (''created_at'', JStr (format_rfc3339_nano (xres_created_at x)))]"

definition export_json :: "gotime \<Rightarrow> string \<Rightarrow> export \<Rightarrow> json" where
  "export_json now base x =
     (let done = (x_status x = export_completed) in
      JObj ([(''id'', JStr (x_id x)), (''workspace_id'', JStr (x_workspace_id x)), (''format'', JStr (x_format x)),
             (''status'', JStr (x_status x)), (''date_from'', JStr (format_rfc3339_nano (x_date_from x))),
             (''date_to'', JStr (format_rfc3339_nano (x_date_to x))), (''include_bots'', JBool (x_include_bots x))]
            @ (if done then [(''row_count'', JInt (x_row_count x)), (''file_size_bytes'', JInt (x_file_size_bytes x))] else [])
            @ opt_string ''error_message'' (x_error_message x)
            @ (if done \<and> is_downloadable now x \<and> x_download_token x \<noteq> []
               then [(''download_url'', JStr (build_download_url base (x_id x) (x_download_token x)))] else [])
            @ opt_time ''download_expires_at'' (x_download_expires_at x)
            @ [(''created_at'', JStr (format_rfc3339_nano (x_created_at x)))]
            @ opt_time ''completed_at'' (x_completed_at x)))"

definition export_error_response :: "request \<Rightarrow> gerr \<Rightarrow> response" where
  "export_error_response r err =
     (case as_validation err of
        Some m \<Rightarrow> resp_unprocessable m (rq_path r) []
      | None \<Rightarrow>
          if errors_is err (EExp ExpErrNotFound) \<or> errors_is err (EApp AppErrNotFound) then resp_not_found (rq_path r)
          else resp_internal_error (rq_path r))"

section \<open>Handlers\<close>

record 's export_http =
  xh_create :: "export_command \<Rightarrow> 's \<Rightarrow> export_result result \<times> 's"
  xh_get_by_id :: "string \<Rightarrow> string \<Rightarrow> 's \<Rightarrow> export result \<times> 's"
  xh_list :: "string \<Rightarrow> int \<Rightarrow> 's \<Rightarrow> export list result \<times> 's"
  xh_lookup :: "string \<Rightarrow> 's \<Rightarrow> export result \<times> 's"
  xh_storage :: "'s storage"
  xh_signer :: signer
  xh_base_url :: string

definition export_create :: "'s export_http \<Rightarrow> 's handler" where
  "export_create h r s =
     (case rq_claims r of
        None \<Rightarrow> (unauthorized_response, s)
      | Some c \<Rightarrow>
     (case decode_struct False export_fields
             \<lparr>xq_format = [], xq_date_from = zero_time, xq_date_to = zero_time, xq_include_bots = False\<rparr> (rq_body r) of
        Inl e \<Rightarrow> (undecodable r, s)
      | Inr q \<Rightarrow>
          (case xh_create h \<lparr>xc_workspace_id = cl_workspace_id c, xc_requested_by = cl_user_id c, xc_format = xq_format q,
                  xc_date_from = xq_date_from q, xc_date_to = xq_date_to q, xc_include_bots = xq_include_bots q\<rparr> s of
             (Inl err, s1) \<Rightarrow> (export_error_response r err, s1)
           | (Inr x, s1) \<Rightarrow> (write_json 202 (envelope (created_export_json x)), s1))))"

definition export_get :: "'s export_http \<Rightarrow> gotime \<Rightarrow> 's handler" where
  "export_get h now r s =
     (case rq_claims r of
        None \<Rightarrow> (unauthorized_response, s)
      | Some c \<Rightarrow>
          (case xh_get_by_id h (rq_param r ''exportID'') (cl_workspace_id c) s of
             (Inl err, s1) \<Rightarrow> (export_error_response r err, s1)
           | (Inr x, s1) \<Rightarrow> (write_json 200 (envelope (export_json now (xh_base_url h) x)), s1)))"

definition export_limit :: "request \<Rightarrow> int" where
  "export_limit r =
     (let raw = rq_query_get r ''limit'' in
      if raw = [] then 20
      else (case atoi raw of None \<Rightarrow> 20 | Some n \<Rightarrow> if n > 0 \<and> n \<le> 100 then n else 20))"

definition export_list :: "'s export_http \<Rightarrow> gotime \<Rightarrow> 's handler" where
  "export_list h now r s =
     (case rq_claims r of
        None \<Rightarrow> (unauthorized_response, s)
      | Some c \<Rightarrow>
          (case xh_list h (cl_workspace_id c) (export_limit r) s of
             (Inl err, s1) \<Rightarrow> (export_error_response r err, s1)
           | (Inr xs, s1) \<Rightarrow> (write_json 200 (envelope (JArr (map (export_json now (xh_base_url h)) xs))), s1)))"

definition export_gone :: "request \<Rightarrow> response" where
  "export_gone r = write_problem \<lparr>p_type = problem_type_gone, p_title = ''Gone'', p_status = 410,
     p_detail = ''The export file is no longer available.'', p_instance = rq_path r, p_errors = []\<rparr>"

definition export_file_response :: "export \<Rightarrow> string \<Rightarrow> response" where
  "export_file_response x content =
     \<lparr>rs_status = 200,
      rs_headers = [(''Content-Type'', content_type x),
        (''Content-Disposition'', ''attachment; filename='' @ [CHR 0x22] @ export_file_name x @ [CHR 0x22])],
      rs_body = TextBody content\<rparr>"

definition export_download :: "'s export_http \<Rightarrow> gotime \<Rightarrow> 's handler" where
  "export_download h now r s =
     (let i = rq_param r ''exportID''; token = rq_query_get r ''token'' in
      if token = [] then (unauthenticated_problem ''A valid download token is required.'', s)
      else
     (case xh_lookup h i s of
        (Inl err, s1) \<Rightarrow>
          (if errors_is err (EExp ExpErrNotFound) then resp_not_found (rq_path r) else resp_internal_error (rq_path r), s1)
      | (Inr x, s1) \<Rightarrow>
          (case (x_status x = export_completed, x_download_expires_at x) of
             (True, Some expires) \<Rightarrow>
               if \<not> verify_token (xh_signer h) now i token expires
               then (unauthenticated_problem (export_err_text ExpErrInvalidToken), s1)
               else (case sto_read (xh_storage h) i (file_extension x) s1 of
                       (ReadMissing, s2) \<Rightarrow> (export_gone r, s2)
                     | (ReadFailed e, s2) \<Rightarrow> (resp_internal_error (rq_path r), s2)
                     | (ReadFile c, s2) \<Rightarrow> (export_file_response x c, s2))
           | _ \<Rightarrow> (resp_conflict (export_err_text ExpErrDownloadNotReady) (rq_path r), s1))))"

section \<open>Lemmas\<close>

lemma export_limit_bounds: "1 \<le> export_limit r \<and> export_limit r \<le> 100"
  by (auto simp: export_limit_def Let_def split: option.splits)

text \<open>A download that succeeds: the token is the one of this export and its expiry, which has not passed.\<close>

lemma export_download_200:
  assumes "export_download h now r s = (resp, s')" and "rs_status resp = 200"
  obtains x s1 c expires where "xh_lookup h (rq_param r ''exportID'') s = (Inr x, s1)" "x_status x = export_completed"
    "x_download_expires_at x = Some expires" "now \<le> expires"
    "rq_query_get r ''token'' = sign_token (xh_signer h) (rq_param r ''exportID'') expires"
    "sto_read (xh_storage h) (rq_param r ''exportID'') (file_extension x) s1 = (ReadFile c, s')" "resp = export_file_response x c"
  using assms
  by (auto simp: export_download_def Let_def unauthenticated_problem_def resp_defs export_gone_def verify_token_iff
        split: if_splits prod.splits sum.splits option.splits bool.splits read_result.splits)

end
