(* ===== verification/ExportRepo.thy ===== *)
theory ExportRepo
  imports Export Postgres Analytics
begin

text \<open>
  \<open>internal/infrastructure/postgres/export_repository.go\<close> over the tables \<open>exports\<close> of
  \<open>deployments/migrations/000007_create_exports.up.sql\<close> and \<open>redirect_events\<close>. \<open>ClaimPending\<close> is one statement.
\<close>

text \<open>\<open>xdb_events\<close> is the table of events as the replica shows it; \<open>xdb_cuts\<close> says of each read whether, and after how
  many rows, it breaks off.\<close>

record export_db =
  xdb_rows :: "export list"
  xdb_replica :: "export list option"
  xdb_events :: "redirect_event list"
  xdb_workspaces :: "string list"
  xdb_cuts :: "(nat \<times> gerr) option list"
  xdb_faults :: faults

definition export_view :: "export_db \<Rightarrow> export list" where
  "export_view db = (case xdb_replica db of None \<Rightarrow> xdb_rows db | Some rs \<Rightarrow> rs)"

definition replicate_exports :: "export_db \<Rightarrow> export_db" where
  "replicate_exports db = db\<lparr>xdb_replica := map_option (\<lambda>_. xdb_rows db) (xdb_replica db)\<rparr>"

section \<open>Statements\<close>

definition export_row_checks :: "export \<Rightarrow> pgx_err option" where
  "export_row_checks x =
     (if x_format x \<notin> {''csv'', ''json_lines''} then Some (PgxError pg_check_violation ''exports_format_check'' [])
      else if x_status x \<notin> {''pending'', ''processing'', ''completed'', ''failed''}
      then Some (PgxError pg_check_violation ''exports_status_check'' [])
      else if \<not> x_date_to x > x_date_from x then Some (PgxError pg_check_violation ''exports_date_range_check'' [])
      else if x_date_to x - x_date_from x > 365 * 24 * hour
      then Some (PgxError pg_check_violation ''exports_max_window_check'' [])
      else None)"

text \<open>The columns the insert leaves out are \<open>NULL\<close>, which is read back as empty or zero.\<close>

definition pg_export :: "export \<Rightarrow> export" where
  "pg_export x = x\<lparr>x_date_from := pg_time (x_date_from x), x_date_to := pg_time (x_date_to x), x_file_path := [],
     x_row_count := 0, x_file_size_bytes := 0, x_download_token := [], x_download_expires_at := None,
     x_error_message := [], x_created_at := pg_time (x_created_at x), x_worker_started_at := None, x_completed_at := None\<rparr>"

definition insert_export :: "export \<Rightarrow> export_db \<Rightarrow> (pgx_err + unit) \<times> export_db" where
  "insert_export x db =
     (case export_row_checks (pg_export x) of
        Some e \<Rightarrow> (Inl e, db)
      | None \<Rightarrow>
          if x_id x \<in> x_id ` set (xdb_rows db) then (Inl (PgxError pg_unique_violation ''exports_pkey'' []), db)
          else if x_workspace_id x \<notin> set (xdb_workspaces db)
          then (Inl (PgxError pg_foreign_key_violation ''exports_workspace_id_fkey'' []), db)
          else (Inr (), db\<lparr>xdb_rows := xdb_rows db @ [pg_export x]\<rparr>))"

definition export_stmt :: "(export_db \<Rightarrow> (pgx_err + 'a) \<times> export_db) \<Rightarrow> export_db \<Rightarrow> (pgx_err + 'a) \<times> export_db" where
  "export_stmt f db =
     (case next_fault (xdb_faults db) of
        (Some e, fs) \<Rightarrow> (Inl e, db\<lparr>xdb_faults := fs\<rparr>)
      | (None, fs) \<Rightarrow> f (db\<lparr>xdb_faults := fs\<rparr>))"

definition export_wrap :: "string \<Rightarrow> pgx_err \<Rightarrow> gerr" where
  "export_wrap pre e = EWrap pre (EOther (pgx_err_text e)) []"

definition export_result_of :: "(pgx_err \<Rightarrow> gerr) \<Rightarrow> (pgx_err + 'a) \<times> export_db \<Rightarrow> 'a result \<times> export_db" where
  "export_result_of f r = (case r of (Inl e, db) \<Rightarrow> (Inl (f e), db) | (Inr x, db) \<Rightarrow> (Inr x, db))"

definition update_export :: "string \<Rightarrow> (export \<Rightarrow> export) \<Rightarrow> export_db \<Rightarrow> (pgx_err + unit) \<times> export_db" where
  "update_export i f db = (Inr (), db\<lparr>xdb_rows := map (\<lambda>x. if x_id x = i then f x else x) (xdb_rows db)\<rparr>)"

section \<open>The methods\<close>

definition export_repo_create :: "export \<Rightarrow> export_db \<Rightarrow> unit result \<times> export_db" where
  "export_repo_create x db = export_result_of (export_wrap ''export: inserting job: '') (export_stmt (insert_export x) db)"

definition not_found_or :: "string \<Rightarrow> pgx_err \<Rightarrow> gerr" where
  "not_found_or pre e = (if e = PgxNoRows then EExp ExpErrNotFound else export_wrap pre e)"

definition find_export :: "(export \<Rightarrow> bool) \<Rightarrow> export_db \<Rightarrow> (pgx_err + export) \<times> export_db" where
  "find_export p db = (case List.find p (export_view db) of None \<Rightarrow> Inl PgxNoRows | Some x \<Rightarrow> Inr x, db)"

definition export_repo_get_by_id :: "string \<Rightarrow> string \<Rightarrow> export_db \<Rightarrow> export result \<times> export_db" where
  "export_repo_get_by_id i ws db =
     export_result_of (not_found_or ''export: get by id: '') (export_stmt (find_export (\<lambda>x. x_id x = i \<and> x_workspace_id x = ws)) db)"

definition export_repo_get_any :: "string \<Rightarrow> export_db \<Rightarrow> export result \<times> export_db" where
  "export_repo_get_any i db =
     export_result_of (not_found_or ''export: get any by id: '') (export_stmt (find_export (\<lambda>x. x_id x = i)) db)"

text \<open>Newest first; a limit of zero or less means 20.\<close>

definition export_repo_list :: "string \<Rightarrow> int \<Rightarrow> export_db \<Rightarrow> export list result \<times> export_db" where
  "export_repo_list ws limit db =
     export_result_of (export_wrap ''export: list by workspace: '')
       (export_stmt (\<lambda>d. (Inr (take (nat (if limit \<le> 0 then 20 else limit))
             (sort_key (\<lambda>x. - x_created_at x) (filter (\<lambda>x. x_workspace_id x = ws) (export_view d)))), d)) db)"

text \<open>The oldest pending job, marked as being processed.\<close>

definition start_job :: "gotime \<Rightarrow> export \<Rightarrow> export" where
  "start_job now x = x\<lparr>x_status := ''processing'', x_worker_started_at := Some (pg_time now)\<rparr>"

definition claim_export :: "gotime \<Rightarrow> export_db \<Rightarrow> (pgx_err + export) \<times> export_db" where
  "claim_export now db =
     (case sort_key x_created_at (filter (\<lambda>x. x_status x = ''pending'') (xdb_rows db)) of
        [] \<Rightarrow> (Inl PgxNoRows, db)
      | x # xs \<Rightarrow> (Inr (start_job now x), snd (update_export (x_id x) (start_job now) db)))"

definition export_repo_claim :: "gotime \<Rightarrow> export_db \<Rightarrow> export option result \<times> export_db" where
  "export_repo_claim now db =
     (case export_stmt (claim_export now) db of
        (Inl e, db') \<Rightarrow> (if e = PgxNoRows then (Inr None, db') else (Inl (export_wrap ''export: claim pending: '' e), db'))
      | (Inr x, db') \<Rightarrow> (Inr (Some x), db'))"

definition finish_export :: "gotime \<Rightarrow> string \<Rightarrow> int \<Rightarrow> int \<Rightarrow> string \<Rightarrow> gotime \<Rightarrow> export \<Rightarrow> export" where
  "finish_export now path rows sz token expires x =
     x\<lparr>x_status := ''completed'', x_file_path := path, x_row_count := rows, x_file_size_bytes := sz,
       x_download_token := token, x_download_expires_at := Some (pg_time expires), x_completed_at := Some (pg_time now),
       x_error_message := []\<rparr>"

definition export_repo_mark_completed ::
  "gotime \<Rightarrow> string \<Rightarrow> string \<Rightarrow> int \<Rightarrow> int \<Rightarrow> string \<Rightarrow> gotime \<Rightarrow> export_db \<Rightarrow> unit result \<times> export_db" where
  "export_repo_mark_completed now i path rows sz token expires db =
     export_result_of (export_wrap ''export: mark completed: '')
       (export_stmt (update_export i (finish_export now path rows sz token expires)) db)"

definition fail_export :: "gotime \<Rightarrow> string \<Rightarrow> export \<Rightarrow> export" where
  "fail_export now m x = x\<lparr>x_status := ''failed'', x_error_message := m, x_completed_at := Some (pg_time now)\<rparr>"

definition export_repo_mark_failed :: "gotime \<Rightarrow> string \<Rightarrow> string \<Rightarrow> export_db \<Rightarrow> unit result \<times> export_db" where
  "export_repo_mark_failed now i m db =
     export_result_of (export_wrap ''export: mark failed: '')
       (export_stmt (update_export i (fail_export now m)) db)"

section \<open>Reading the events\<close>

text \<open>\<open>COALESCE(country_code::text, '')\<close>: the padding of the fixed-width column goes.\<close>

definition event_row_of :: "redirect_event \<Rightarrow> event_row" where
  "event_row_of e =
     \<lparr>er_short_code = re_short_code e, er_occurred_at = re_occurred_at e,
      er_country_code = trim_right (\<lambda>c. c = CHR '' '') (re_country_code e), er_device_type = re_device_type e,
      er_browser_family = re_browser_family e, er_os_family = re_os_family e, er_referrer_domain = re_referrer_domain e,
      er_is_bot = re_is_bot e\<rparr>"

definition exported :: "event_query \<Rightarrow> redirect_event \<Rightarrow> bool" where
  "exported q e \<longleftrightarrow>
     re_workspace_id e = eq_workspace_id q \<and> pg_time (eq_date_from q) \<le> re_occurred_at e \<and> re_occurred_at e \<le> pg_time (eq_date_to q)
     \<and> (eq_include_bots q \<or> \<not> re_is_bot e)"

definition select_events :: "event_query \<Rightarrow> redirect_event list \<Rightarrow> event_row list" where
  "select_events q es = map event_row_of (sort_key re_occurred_at (filter (exported q) es))"

fun next_cut :: "(nat \<times> gerr) option list \<Rightarrow> (nat \<times> gerr) option \<times> (nat \<times> gerr) option list" where
  "next_cut [] = (None, [])"
| "next_cut (c # cs) = (c, cs)"

definition export_repo_read_events :: "event_query \<Rightarrow> export_db \<Rightarrow> (event_row list \<times> gerr option) \<times> export_db" where
  "export_repo_read_events q db =
     (case export_stmt (\<lambda>d. (Inr (select_events q (xdb_events d)), d)) db of
        (Inl e, db1) \<Rightarrow> (([], Some (export_wrap ''export: query redirect events: '' e)), db1)
      | (Inr rows, db1) \<Rightarrow>
          (case next_cut (xdb_cuts db1) of
             (None, cs) \<Rightarrow> ((rows, None), db1\<lparr>xdb_cuts := cs\<rparr>)
           | (Some (n, err), cs) \<Rightarrow> ((take n rows, Some err), db1\<lparr>xdb_cuts := cs\<rparr>)))"

definition pg_exports :: "export_db export_repository" where
  "pg_exports =
     \<lparr>xr_create = export_repo_create, xr_get_by_id = export_repo_get_by_id, xr_get_any_by_id = export_repo_get_any,
      xr_list = export_repo_list, xr_claim = export_repo_claim, xr_mark_completed = export_repo_mark_completed,
      xr_mark_failed = export_repo_mark_failed, xr_read_events = export_repo_read_events\<rparr>"

section \<open>Lemmas\<close>

lemma export_stmt_cases:
  assumes "export_stmt f db = (r, db')"
  obtains (fault) e fs where "r = Inl e" "db' = db\<lparr>xdb_faults := fs\<rparr>"
  | (run) fs where "f (db\<lparr>xdb_faults := fs\<rparr>) = (r, db')"
  using assms by (auto simp: export_stmt_def split: prod.splits option.splits)

lemma pg_export_simps [simp]:
  "x_id (pg_export x) = x_id x" "x_status (pg_export x) = x_status x" "x_workspace_id (pg_export x) = x_workspace_id x"
  by (simp_all add: pg_export_def)

lemma start_job_simps [simp]:
  "x_id (start_job now x) = x_id x" "x_status (start_job now x) = export_processing" "x_format (start_job now x) = x_format x"
  "x_workspace_id (start_job now x) = x_workspace_id x"
  by (simp_all add: start_job_def export_processing_def)

lemma finish_export_simps [simp]:
  "x_id (finish_export now p n z t e x) = x_id x" "x_status (finish_export now p n z t e x) = export_completed"
  by (simp_all add: finish_export_def export_completed_def)

lemma fail_export_simps [simp]:
  "x_id (fail_export now m x) = x_id x" "x_status (fail_export now m x) = export_failed"
  by (simp_all add: fail_export_def export_failed_def)

end
