(* ===== verification/ExportSystem.thy ===== *)
theory ExportSystem
  imports ExportRepo
begin

text \<open>
  Exports while requests queue jobs and any number of workers, one in each instance of the API, turn them into
  files: the database and the directory side by side, the jobs in the hands of a worker, and workers that die.
\<close>

section \<open>What the worker needs of its stores\<close>

text \<open>The outcome of the two final statements on the table, and which store each call leaves alone.\<close>

definition set_rows :: "string \<Rightarrow> (export \<Rightarrow> export) \<Rightarrow> export list \<Rightarrow> export list" where
  "set_rows i f xs = map (\<lambda>x. if x_id x = i then f x else x) xs"

locale export_store = file_store sto content
  for sto :: "'s storage" and content :: "'s \<Rightarrow> string \<Rightarrow> string \<Rightarrow> string option" +
  fixes repo :: "'s export_repository" and rows :: "'s \<Rightarrow> export list"
  assumes completed_ok: "xr_mark_completed repo t i p n z k e s = (Inr u, s') \<Longrightarrow> rows s' = set_rows i (finish_export t p n z k e) (rows s)"
    and completed_err: "xr_mark_completed repo t i p n z k e s = (Inl err, s') \<Longrightarrow> rows s' = rows s"
    and completed_files: "xr_mark_completed repo t i p n z k e s = (rc, s') \<Longrightarrow> content s' = content s"
    and failed_rows: "xr_mark_failed repo t i m s = (rf, s') \<Longrightarrow> rows s' = rows s \<or> rows s' = set_rows i (fail_export t m) (rows s)"
    and failed_files: "xr_mark_failed repo t i m s = (rf, s') \<Longrightarrow> content s' = content s"
    and read_rows: "xr_read_events repo q s = (rr, s') \<Longrightarrow> rows s' = rows s"
    and read_files: "xr_read_events repo q s = (rr, s') \<Longrightarrow> content s' = content s"
    and create_rows: "sto_create sto i ext s = (r, s') \<Longrightarrow> rows s' = rows s"
    and write_keeps_rows: "sto_write sto i ext c s = (r, s') \<Longrightarrow> rows s' = rows s"
    and close_rows: "sto_close sto i ext s = (r, s') \<Longrightarrow> rows s' = rows s"
    and delete_rows: "sto_delete sto i ext s = (r, s') \<Longrightarrow> rows s' = rows s"
    and size_rows: "sto_size sto i ext s = (rn, s') \<Longrightarrow> rows s' = rows s"
begin

text \<open>What is in the file of a job when it completes.\<close>

definition same_other_files :: "string \<Rightarrow> 's \<Rightarrow> 's \<Rightarrow> bool" where
  "same_other_files i s s' \<longleftrightarrow> (\<forall>j e. export_file j e \<longrightarrow> j \<noteq> i \<longrightarrow> content s' j e = content s j e)"

lemma same_other_trans [trans]:
  "same_other_files i s s' \<Longrightarrow> same_other_files i s' s'' \<Longrightarrow> same_other_files i s s''"
  by (simp add: same_other_files_def)

lemma same_other_refl: "content s' = content s \<Longrightarrow> same_other_files i s s'"
  by (simp add: same_other_files_def)

lemma fail_job_outcome:
  assumes "fail_job w t job err s = (r, s')" and "xw_repo w = repo"
  shows "r = Inl err" and "content s' = content s"
    and "rows s' = rows s \<or> rows s' = set_rows (x_id job) (fail_export t (err_text err)) (rows s)"
proof -
  obtain q where q: "xr_mark_failed repo t (x_id job) (err_text err) s = (q, s')"
    using assms by (metis fail_job_def prod.inject surjective_pairing)
  from failed_rows [OF q] failed_files [OF q] assms(1) show "r = Inl err" "content s' = content s"
    "rows s' = rows s \<or> rows s' = set_rows (x_id job) (fail_export t (err_text err)) (rows s)"
    by (auto simp: fail_job_def)
qed

lemma write_rows_outcome:
  assumes "write_rows repo sto job s = ((werr, n), s')" and "export_file (x_id job) (file_extension job)"
  shows "rows s' = rows s" and "same_other_files (x_id job) s s'"
    and "werr = None \<Longrightarrow> content s (x_id job) (file_extension job) = Some [] \<Longrightarrow>
         \<exists>es. content s' (x_id job) (file_extension job) = Some (job_file job es) \<and> n = int (length es)"
proof -
  obtain es rerr s1 where rd: "xr_read_events repo (query_of_job job) s = ((es, rerr), s1)" by (metis surj_pair)
  note keeps = read_rows [OF rd] read_files [OF rd]
  consider (none) "werr \<noteq> None" "s' = s1"
    | (wrote) wr where "sto_write sto (x_id job) (file_extension job) (job_file job es) s1 = (wr, s')" "n = int (length es)"
        "werr = None \<Longrightarrow> wr = Inr ()"
    using assms(1) rd by (auto simp: write_rows_def job_file_def split: if_splits prod.splits sum.splits)
  note cases = this
  show "rows s' = rows s" using cases keeps write_keeps_rows by cases auto
  show "same_other_files (x_id job) s s'"
    using cases keeps write_other [OF assms(2)] by cases (auto simp: same_other_files_def)
  assume e: "werr = None" and empty: "content s (x_id job) (file_extension job) = Some []"
  show "\<exists>es. content s' (x_id job) (file_extension job) = Some (job_file job es) \<and> n = int (length es)"
    using cases
  proof cases
    case none
    with e show ?thesis by simp
  next
    case wrote
    with e have "sto_write sto (x_id job) (file_extension job) (job_file job es) s1 = (Inr (), s')" by simp
    from write_ok [OF this, of "[]"] empty keeps wrote(2) show ?thesis by auto
  qed
qed

text \<open>A job that completes: its row is finished, with the size of its file and a token for its expiry.\<close>

definition completes :: "'s export_worker \<Rightarrow> export \<Rightarrow> 's \<Rightarrow> 's \<Rightarrow> bool" where
  "completes w job s s' \<longleftrightarrow>
     (\<exists>t es e. content s' (x_id job) (file_extension job) = Some (job_file job es)
        \<and> rows s' = set_rows (x_id job) (finish_export t (sto_path sto (x_id job) (file_extension job)) (int (length es))
             (int (length (job_file job es))) (sign_token (xw_signer w) (x_id job) e) e) (rows s))"

definition not_completed :: "gotime \<Rightarrow> export \<Rightarrow> 's \<Rightarrow> 's \<Rightarrow> bool" where
  "not_completed t job s s' \<longleftrightarrow> rows s' = rows s \<or> (\<exists>m. rows s' = set_rows (x_id job) (fail_export t m) (rows s))"

lemma fail_job_not_completed:
  "fail_job w t job err s = (r, s') \<Longrightarrow> xw_repo w = repo \<Longrightarrow> r \<noteq> Inr () \<and> not_completed t job s s'"
  using fail_job_outcome by (fastforce simp: not_completed_def)

lemma complete_job_outcome:
  assumes "complete_job w now t job n s = (r, s')" and "xw_repo w = repo" and "xw_storage w = sto"
    and "content s (x_id job) (file_extension job) = Some (job_file job es)" and "n = int (length es)"
  shows "content s' = content s" and "(r \<noteq> Inr () \<and> not_completed t job s s') \<or> (r = Inr () \<and> completes w job s s')"
proof -
  let ?e = "now + xw_ttl w" and ?p = "sto_path sto (x_id job) (file_extension job)"
  obtain z s1 where sz: "sto_size sto (x_id job) (file_extension job) s = (z, s1)" by (metis surj_pair)
  have s1: "rows s1 = rows s" "content s1 = content s" using size_rows [OF sz] size_keeps [OF sz] by (auto intro!: ext)
  have "content s' = content s \<and> ((r \<noteq> Inr () \<and> not_completed t job s s') \<or> (r = Inr () \<and> completes w job s s'))"
  proof (cases z)
    case (Inl err)
    with assms(1,3) sz have f: "fail_job w t job err s1 = (r, s')" by (simp add: complete_job_def)
    from fail_job_outcome(2) [OF f assms(2)] fail_job_not_completed [OF f assms(2)] s1 show ?thesis
      by (simp add: not_completed_def)
  next
    case (Inr k)
    with size_ok sz assms(4) have k: "k = int (length (job_file job es))" by blast
    obtain q where q: "xr_mark_completed repo t (x_id job) ?p n k (sign_token (xw_signer w) (x_id job) ?e) ?e s1 = (q, s')" "r = q"
      using Inr assms(1-3) sz by (auto simp: complete_job_def Let_def split: sum.splits prod.splits)
    show ?thesis
    proof (cases q)
      case (Inl err)
      with q completed_err completed_files s1 show ?thesis by (auto simp: not_completed_def)
    next
      case (Inr u)
      note c = completed_ok [OF q(1) [unfolded Inr]] completed_files [OF q(1)]
      have "completes w job s s'" unfolding completes_def using c s1 k assms(4,5) by metis
      with Inr q(2) c(2) s1 show ?thesis by simp
    qed
  qed
  then show "content s' = content s" "(r \<noteq> Inr () \<and> not_completed t job s s') \<or> (r = Inr () \<and> completes w job s s')" by blast+
qed

lemma process_job_outcome:
  assumes "process_job w now t job s = (r, s')" and "xw_repo w = repo" and "xw_storage w = sto"
    and "export_file (x_id job) (file_extension job)"
  shows "same_other_files (x_id job) s s' \<and> ((r \<noteq> Inr () \<and> not_completed t job s s') \<or> (r = Inr () \<and> completes w job s s'))"
proof -
  let ?i = "x_id job" and ?x = "file_extension job"
  obtain c s1 where cr: "sto_create sto ?i ?x s = (c, s1)" by (metis surj_pair)
  have s1: "rows s1 = rows s" "same_other_files ?i s s1"
    using create_rows [OF cr] create_other [OF assms(4) _ _ cr] by (auto simp: same_other_files_def)
  show ?thesis
  proof (cases c)
    case (Inl err)
    with assms(1,3) cr have f: "fail_job w t job err s1 = (r, s')" by (simp add: process_job_def Let_def)
    from fail_job_outcome(2) [OF f assms(2)] fail_job_not_completed [OF f assms(2)] s1 show ?thesis
      by (simp add: not_completed_def same_other_files_def)
  next
    case (Inr v)
    obtain werr n s2 where wr: "write_rows repo sto job s1 = ((werr, n), s2)" by (metis surj_pair)
    obtain cl s3 where close: "sto_close sto ?i ?x s2 = (cl, s3)" by (metis surj_pair)
    note w = write_rows_outcome [OF wr assms(4)]
    have s3: "rows s3 = rows s" "same_other_files ?i s s3" "content s3 = content s2"
      using w(1,2) s1 close_rows [OF close] close_keeps [OF close] by (auto simp: same_other_files_def intro!: ext)
    show ?thesis
    proof (cases "werr = None \<and> (\<exists>u. cl = Inr u)")
      case True
      with create_ok cr Inr have "content s1 ?i ?x = Some []" by blast
      with w(3) True s3(3) obtain es where es: "content s3 ?i ?x = Some (job_file job es)" "n = int (length es)" by auto
      from True Inr cr wr close assms(1-3) have "complete_job w now t job n s3 = (r, s')" by (auto simp: process_job_def Let_def)
      from complete_job_outcome [OF this assms(2,3) es] s3(1,2) show ?thesis
        by (auto simp: same_other_files_def not_completed_def completes_def)
    next
      case False
      then obtain err where e: "werr = Some err \<or> (werr = None \<and> cl = Inl err)" by (cases werr; cases cl) auto
      obtain d s4 where del: "sto_delete sto ?i ?x s3 = (d, s4)" by (metis surj_pair)
      with e Inr cr wr close assms(1-3) have f: "fail_job w t job err s4 = (r, s')"
        by (auto simp: process_job_def Let_def split: option.splits sum.splits)
      have "rows s4 = rows s" "same_other_files ?i s s4"
        using s3 delete_rows [OF del] delete_other [OF assms(4) _ _ del] by (auto simp: same_other_files_def)
      with fail_job_outcome(2) [OF f assms(2)] fail_job_not_completed [OF f assms(2)] show ?thesis
        by (simp add: not_completed_def same_other_files_def)
    qed
  qed
qed

end

section \<open>The stores side by side\<close>

record export_world =
  ew_db :: export_db
  ew_fs :: file_system

definition on_db :: "(export_db \<Rightarrow> 'a \<times> export_db) \<Rightarrow> export_world \<Rightarrow> 'a \<times> export_world" where
  "on_db f w = (case f (ew_db w) of (r, db) \<Rightarrow> (r, w\<lparr>ew_db := db\<rparr>))"

definition on_fs :: "(file_system \<Rightarrow> 'a \<times> file_system) \<Rightarrow> export_world \<Rightarrow> 'a \<times> export_world" where
  "on_fs f w = (case f (ew_fs w) of (r, fs) \<Rightarrow> (r, w\<lparr>ew_fs := fs\<rparr>))"

definition ew_repo :: "export_world export_repository" where
  "ew_repo =
     \<lparr>xr_create = \<lambda>x. on_db (export_repo_create x), xr_get_by_id = \<lambda>i ws. on_db (export_repo_get_by_id i ws),
      xr_get_any_by_id = \<lambda>i. on_db (export_repo_get_any i), xr_list = \<lambda>ws n. on_db (export_repo_list ws n),
      xr_claim = \<lambda>t. on_db (export_repo_claim t),
      xr_mark_completed = \<lambda>t i p n z k e. on_db (export_repo_mark_completed t i p n z k e),
      xr_mark_failed = \<lambda>t i m. on_db (export_repo_mark_failed t i m),
      xr_read_events = \<lambda>q. on_db (export_repo_read_events q)\<rparr>"

definition ew_storage :: "string \<Rightarrow> export_world storage" where
  "ew_storage base =
     \<lparr>sto_create = \<lambda>i e. on_fs (local_create base i e), sto_write = \<lambda>i e c. on_fs (local_write base i e c),
      sto_close = \<lambda>i e. on_fs (local_close base i e), sto_read = \<lambda>i e. on_fs (local_read base i e),
      sto_delete = \<lambda>i e. on_fs (local_delete base i e), sto_size = \<lambda>i e. on_fs (local_size base i e),
      sto_path = file_path base\<rparr>"

definition ew_rows :: "export_world \<Rightarrow> export list" where "ew_rows w = xdb_rows (ew_db w)"
definition ew_content :: "string \<Rightarrow> export_world \<Rightarrow> string \<Rightarrow> string \<Rightarrow> string option" where
  "ew_content base w = local_content base (ew_fs w)"

lemma on_db_eq: "on_db f w = (r, w') \<longleftrightarrow> (\<exists>db. f (ew_db w) = (r, db) \<and> w' = w\<lparr>ew_db := db\<rparr>)"
  by (auto simp: on_db_def split: prod.splits)

lemma on_fs_eq: "on_fs f w = (r, w') \<longleftrightarrow> (\<exists>fs. f (ew_fs w) = (r, fs) \<and> w' = w\<lparr>ew_fs := fs\<rparr>)"
  by (auto simp: on_fs_def split: prod.splits)

lemma ew_view_simps [simp]:
  "ew_rows (w\<lparr>ew_fs := fs\<rparr>) = ew_rows w" "ew_rows (w\<lparr>ew_db := db\<rparr>) = xdb_rows db"
  "ew_content base (w\<lparr>ew_db := db\<rparr>) = ew_content base w" "ew_content base (w\<lparr>ew_fs := fs\<rparr>) = local_content base fs"
  by (simp_all add: ew_rows_def ew_content_def)

lemma update_export_rows:
  "export_result_of g (export_stmt (update_export i f) db) = (r, db') \<Longrightarrow>
     (if \<exists>e. r = Inl e then xdb_rows db' = xdb_rows db else xdb_rows db' = set_rows i f (xdb_rows db))"
  by (auto simp: export_result_of_def export_stmt_def update_export_def set_rows_def split: prod.splits sum.splits option.splits)

lemma read_events_rows: "export_repo_read_events q db = (rr, db') \<Longrightarrow> xdb_rows db' = xdb_rows db"
  by (auto simp: export_repo_read_events_def export_stmt_def split: prod.splits sum.splits option.splits)

interpretation exports: export_store "ew_storage base" "ew_content base" ew_repo ew_rows for base
proof
  fix i ext s v s' assume "sto_create (ew_storage base) i ext s = (Inr v, s')"
  then show "ew_content base s' i ext = Some []" using disk.create_ok [of base]
    by (fastforce simp: ew_storage_def on_fs_eq local_storage_def)
next
  fix i ext c s v s' old assume "sto_write (ew_storage base) i ext c s = (Inr v, s')" and "ew_content base s i ext = Some old"
  then show "ew_content base s' i ext = Some (old @ c)" using disk.write_ok [of base]
    by (fastforce simp: ew_storage_def on_fs_eq local_storage_def ew_content_def)
next
  fix i ext s r s' j e assume "sto_close (ew_storage base) i ext s = (r, s')"
  then show "ew_content base s' j e = ew_content base s j e" using disk.close_keeps [of base]
    by (fastforce simp: ew_storage_def on_fs_eq local_storage_def ew_content_def)
next
  fix i ext s n s' c assume "sto_size (ew_storage base) i ext s = (Inr n, s')" and "ew_content base s i ext = Some c"
  then show "n = int (length c)" using disk.size_ok [of base]
    by (fastforce simp: ew_storage_def on_fs_eq local_storage_def ew_content_def)
next
  fix i ext s rn s' j e assume "sto_size (ew_storage base) i ext s = (rn, s')"
  then show "ew_content base s' j e = ew_content base s j e" using disk.size_keeps [of base]
    by (fastforce simp: ew_storage_def on_fs_eq local_storage_def ew_content_def)
next
  fix i ext s c s' assume "sto_read (ew_storage base) i ext s = (ReadFile c, s')"
  then show "ew_content base s i ext = Some c" using disk.read_ok [of base]
    by (fastforce simp: ew_storage_def on_fs_eq local_storage_def ew_content_def)
next
  fix i ext s rr s' j e assume "sto_read (ew_storage base) i ext s = (rr, s')"
  then show "ew_content base s' j e = ew_content base s j e" using disk.read_keeps [of base]
    by (fastforce simp: ew_storage_def on_fs_eq local_storage_def ew_content_def)
next
  fix i ext j e s r s' assume "export_file i ext" "export_file j e" "i \<noteq> j" "sto_create (ew_storage base) i ext s = (r, s')"
  then show "ew_content base s' j e = ew_content base s j e" using disk.create_other [of i ext j e base]
    by (fastforce simp: ew_storage_def on_fs_eq local_storage_def ew_content_def)
next
  fix i ext j e c s r s' assume "export_file i ext" "export_file j e" "i \<noteq> j" "sto_write (ew_storage base) i ext c s = (r, s')"
  then show "ew_content base s' j e = ew_content base s j e" using disk.write_other [of i ext j e base]
    by (fastforce simp: ew_storage_def on_fs_eq local_storage_def ew_content_def)
next
  fix i ext j e s r s' assume "export_file i ext" "export_file j e" "i \<noteq> j" "sto_delete (ew_storage base) i ext s = (r, s')"
  then show "ew_content base s' j e = ew_content base s j e" using disk.delete_other [of i ext j e base]
    by (fastforce simp: ew_storage_def on_fs_eq local_storage_def ew_content_def)
next
  fix t i p n z k e s u s' assume "xr_mark_completed ew_repo t i p n z k e s = (Inr u, s')"
  then show "ew_rows s' = set_rows i (finish_export t p n z k e) (ew_rows s)"
    by (auto simp: ew_repo_def on_db_eq export_repo_mark_completed_def ew_rows_def dest!: update_export_rows)
next
  fix t i p n z k e s err s' assume "xr_mark_completed ew_repo t i p n z k e s = (Inl err, s')"
  then show "ew_rows s' = ew_rows s"
    by (auto simp: ew_repo_def on_db_eq export_repo_mark_completed_def ew_rows_def dest!: update_export_rows)
next
  fix t i m s rf s' assume "xr_mark_failed ew_repo t i m s = (rf, s')"
  then show "ew_rows s' = ew_rows s \<or> ew_rows s' = set_rows i (fail_export t m) (ew_rows s)"
    by (auto simp: ew_repo_def on_db_eq export_repo_mark_failed_def ew_rows_def dest!: update_export_rows split: if_splits)
next
  fix q s rr s' assume "xr_read_events ew_repo q s = (rr, s')"
  then show "ew_rows s' = ew_rows s" by (auto simp: ew_repo_def on_db_eq ew_rows_def dest: read_events_rows)
qed (auto simp: ew_repo_def ew_storage_def on_db_eq on_fs_eq)

section \<open>Runs\<close>

text \<open>
  \<open>er_running\<close>: the jobs that are claimed and not given back; \<open>er_claims\<close>, a ghost, every job ever claimed. The
  configuration is the same in every instance.
\<close>

record export_run =
  er_world :: export_world
  er_running :: "export list"
  er_claims :: "string list"

record export_config =
  xcf_base :: string
  xcf_signer :: signer
  xcf_ttl :: duration
  xcf_max_days :: int

definition cfg_worker :: "export_config \<Rightarrow> export_world export_worker" where
  "cfg_worker c = \<lparr>xw_repo = ew_repo, xw_storage = ew_storage (xcf_base c), xw_signer = xcf_signer c, xw_ttl = xcf_ttl c\<rparr>"

definition good_export_id :: "string \<Rightarrow> bool" where
  "good_export_id i \<longleftrightarrow> i \<noteq> [] \<and> CHR ''.'' \<notin> set i \<and> CHR ''/'' \<notin> set i"

text \<open>IDs are ULIDs, letters and digits. A worker that dies leaves any content in the file of its job.\<close>

inductive export_step :: "export_config \<Rightarrow> export_run \<Rightarrow> export_run \<Rightarrow> bool" for c :: export_config where
  create: "create_export_handle ew_repo (xcf_max_days c) now ulid cmd (er_world s) = (r, w) \<Longrightarrow> good_export_id ulid
     \<Longrightarrow> export_step c s (s\<lparr>er_world := w\<rparr>)"
| claim: "xr_claim ew_repo db_now (er_world s) = (Inr (Some job), w)
     \<Longrightarrow> export_step c s (s\<lparr>er_world := w, er_running := er_running s @ [job], er_claims := er_claims s @ [x_id job]\<rparr>)"
| no_claim: "xr_claim ew_repo db_now (er_world s) = (rc, w) \<Longrightarrow> rc = Inr None \<or> rc = Inl err
     \<Longrightarrow> export_step c s (s\<lparr>er_world := w\<rparr>)"
| finish: "er_running s = xs @ job # ys \<Longrightarrow> process_job (cfg_worker c) now db_now job (er_world s) = (r, w)
     \<Longrightarrow> export_step c s (s\<lparr>er_world := w, er_running := xs @ ys\<rparr>)"
| crash: "er_running s = xs @ job # ys \<Longrightarrow> export_step c s
     (s\<lparr>er_world := (er_world s)\<lparr>ew_fs := set_file (file_path (xcf_base c) (x_id job) (file_extension job)) content (ew_fs (er_world s))\<rparr>,
        er_running := xs @ ys\<rparr>)"
| replicate: "export_step c s (s\<lparr>er_world := (er_world s)\<lparr>ew_db := replicate_exports (ew_db (er_world s))\<rparr>\<rparr>)"
| events: "export_step c s (s\<lparr>er_world := (er_world s)\<lparr>ew_db := (ew_db (er_world s))\<lparr>xdb_events := es\<rparr>\<rparr>\<rparr>)"
| faults: "export_step c s (s\<lparr>er_world := \<lparr>ew_db = (ew_db (er_world s))\<lparr>xdb_faults := fs, xdb_cuts := cs\<rparr>,
     ew_fs = (ew_fs (er_world s))\<lparr>fs_faults := ds\<rparr>\<rparr>\<rparr>)"

inductive_cases export_stepE: "export_step c s s'"

definition init_exports :: "string list \<Rightarrow> bool \<Rightarrow> export_run" where
  "init_exports workspaces with_replica =
     \<lparr>er_world = \<lparr>ew_db = \<lparr>xdb_rows = [], xdb_replica = (if with_replica then Some [] else None), xdb_events = [],
        xdb_workspaces = workspaces, xdb_cuts = [], xdb_faults = []\<rparr>, ew_fs = no_files\<rparr>, er_running = [], er_claims = []\<rparr>"

end
