(* ===== verification/ExportInvariant.thy ===== *)
theory ExportInvariant
  imports ExportHttp ExportSystem
begin

text \<open>
  The invariant of the exports: what one step can do to the table, the files and the jobs in the hands of workers,
  and what therefore always holds of them.
\<close>

section \<open>The effect of a step\<close>

lemma export_file_ok: "good_export_id i \<Longrightarrow> export_file i (file_extension x)"
  using file_extension_ok [of x] by (simp add: good_export_id_def export_file_def)

lemma map_id_set_rows: "(\<And>x. x_id (f x) = x_id x) \<Longrightarrow> map x_id (set_rows i f xs) = map x_id xs"
  by (simp add: set_rows_def)

lemma set_set_rows:
  assumes "distinct (map x_id xs)" and "j \<in> set xs"
  shows "set (set_rows (x_id j) f xs) = insert (f j) (set xs - {j})"
proof -
  have "x_id x = x_id j \<longleftrightarrow> x = j" if "x \<in> set xs" for x
    using assms that by (auto simp: distinct_map inj_on_def)
  then have "set (set_rows (x_id j) f xs) = (\<lambda>x. if x = j then f x else x) ` set xs"
    unfolding set_rows_def set_map by (intro image_cong) auto
  with assms(2) show ?thesis by auto
qed

lemma image_nonpending:
  assumes "j \<in> R" "x_status j \<noteq> export_pending" "\<And>x. x_id (f x) = x_id x" "\<And>x. x_status (f x) \<noteq> export_pending"
  shows "x_id ` {x \<in> insert (f j) (R - {j}). x_status x \<noteq> export_pending} = x_id ` {x \<in> R. x_status x \<noteq> export_pending}"
proof -
  let ?S = "{x \<in> R. x_status x \<noteq> export_pending}"
  have "{x \<in> insert (f j) (R - {j}). x_status x \<noteq> export_pending} = insert (f j) (?S - {j})"
    using assms(4) by blast
  moreover have "insert j (?S - {j}) = ?S" using assms(1,2) by blast
  moreover have "x_id ` insert (f j) (?S - {j}) = x_id ` insert j (?S - {j})" by (simp only: image_insert assms(3))
  ultimately show ?thesis by simp
qed

lemma find_by_id:
  "x \<in> set xs \<Longrightarrow> distinct (map x_id xs) \<Longrightarrow> List.find (\<lambda>y. x_id y = x_id x) xs = Some x"
  by (induction xs) auto

lemma export_stmt_quiet: "xdb_faults db = [] \<Longrightarrow> export_stmt f db = f db"
  by (cases db) (simp add: export_stmt_def)

lemma create_export_rows:
  assumes "create_export_handle ew_repo d now ulid cmd w = (r, w')"
  shows "ew_fs w' = ew_fs w \<and> xdb_replica (ew_db w') = xdb_replica (ew_db w)
     \<and> (ew_rows w' = ew_rows w \<or> (\<exists>x. ew_rows w' = ew_rows w @ [x] \<and> x_id x = ulid \<and> ulid \<notin> x_id ` set (ew_rows w) \<and> x_status x = export_pending))"
  using assms
  by (auto simp: create_export_handle_def ew_repo_def on_db_def export_repo_create_def export_result_of_def export_stmt_def
        insert_export_def ew_rows_def new_export_def Let_def split: if_splits prod.splits sum.splits option.splits)

lemma claim_export_rows:
  assumes "xr_claim ew_repo t w = (r, w')"
  shows "ew_fs w' = ew_fs w \<and> xdb_replica (ew_db w') = xdb_replica (ew_db w)
     \<and> ((\<exists>j. r = Inr (Some (start_job t j)) \<and> j \<in> set (ew_rows w) \<and> x_status j = export_pending \<and> ew_rows w' = set_rows (x_id j) (start_job t) (ew_rows w))
        \<or> ((\<forall>j. r \<noteq> Inr (Some j)) \<and> ew_rows w' = ew_rows w))"
proof -
  obtain db where db: "export_repo_claim t (ew_db w) = (r, db)" "w' = w\<lparr>ew_db := db\<rparr>"
    using assms by (auto simp: ew_repo_def on_db_eq)
  have "j \<in> set xs \<and> x_status j = ''pending''" if "sort_key x_created_at (filter (\<lambda>x. x_status x = ''pending'') xs) = j # js" for j js xs
  proof -
    from that have "j \<in> set (sort_key x_created_at (filter (\<lambda>x. x_status x = ''pending'') xs))" by simp
    then show ?thesis by simp
  qed
  note member = this
  from db show ?thesis
    by (auto simp: export_repo_claim_def export_stmt_def claim_export_def update_export_def set_rows_def ew_rows_def export_pending_def
          dest: member split: prod.splits sum.splits option.splits if_splits list.splits)
qed

text \<open>What each of its calls keeps, a job keeps.\<close>

lemma process_job_keeps:
  assumes run: "process_job w now t job s = (r, s')" and start: "I s"
    and keeps: "\<And>i e s r s'. sto_create (xw_storage w) i e s = (r, s') \<Longrightarrow> I s \<Longrightarrow> I s'"
      "\<And>i e d s r s'. sto_write (xw_storage w) i e d s = (r, s') \<Longrightarrow> I s \<Longrightarrow> I s'"
      "\<And>i e s r s'. sto_close (xw_storage w) i e s = (r, s') \<Longrightarrow> I s \<Longrightarrow> I s'"
      "\<And>i e s r s'. sto_delete (xw_storage w) i e s = (r, s') \<Longrightarrow> I s \<Longrightarrow> I s'"
      "\<And>i e s n s'. sto_size (xw_storage w) i e s = (n, s') \<Longrightarrow> I s \<Longrightarrow> I s'"
      "\<And>q s rr s'. xr_read_events (xw_repo w) q s = (rr, s') \<Longrightarrow> I s \<Longrightarrow> I s'"
      "\<And>i p n z k e s r s'. xr_mark_completed (xw_repo w) t i p n z k e s = (r, s') \<Longrightarrow> I s \<Longrightarrow> I s'"
      "\<And>i m s r s'. xr_mark_failed (xw_repo w) t i m s = (r, s') \<Longrightarrow> I s \<Longrightarrow> I s'"
  shows "I s'"
proof -
  have del: "I u \<Longrightarrow> I (snd (sto_delete (xw_storage w) i e u))" for i e u by (metis keeps(4) prod.collapse)
  have fail: "fail_job w t job err u = (q, v) \<Longrightarrow> I u \<Longrightarrow> I v" for err u q v
    by (metis fail_job_def keeps(8) prod.collapse snd_conv)
  have complete: "complete_job w now t job n u = (q, v) \<Longrightarrow> I u \<Longrightarrow> I v" for n u q v
    by (auto simp: complete_job_def Let_def dest!: keeps(5,7) fail split: prod.splits sum.splits)
  have rows: "write_rows (xw_repo w) (xw_storage w) job u = (q, v) \<Longrightarrow> I u \<Longrightarrow> I v" for u q v
    by (auto simp: write_rows_def dest!: keeps(2,6) split: prod.splits sum.splits if_splits)
  from run start show ?thesis
    by (auto simp: process_job_def Let_def dest!: keeps(1,3) fail complete rows intro: del split: prod.splits sum.splits option.splits)
qed

lemma update_export_replica:
  "export_result_of g (export_stmt (update_export i f) db) = (r, db') \<Longrightarrow> xdb_replica db' = xdb_replica db"
  by (auto simp: export_result_of_def export_stmt_def update_export_def split: prod.splits sum.splits option.splits)

lemma read_events_replica: "export_repo_read_events q db = (r, db') \<Longrightarrow> xdb_replica db' = xdb_replica db"
  by (auto simp: export_repo_read_events_def export_stmt_def split: prod.splits sum.splits option.splits)

lemma process_job_replica:
  assumes "process_job (cfg_worker c) now t job w = (r, w')"
  shows "xdb_replica (ew_db w') = xdb_replica (ew_db w)"
  by (rule process_job_keeps [OF assms, of "\<lambda>u. xdb_replica (ew_db u) = xdb_replica (ew_db w)"])
    (auto simp: cfg_worker_def ew_repo_def ew_storage_def on_db_eq on_fs_eq export_repo_mark_completed_def export_repo_mark_failed_def
      dest: update_export_replica read_events_replica)

section \<open>The invariant\<close>

text \<open>A completed export: its file is the one a worker wrote, of the size and number of rows in the table, and its token
  is the one for its expiry.\<close>

definition export_done :: "export_config \<Rightarrow> export_world \<Rightarrow> export \<Rightarrow> bool" where
  "export_done c w x \<longleftrightarrow>
     (\<exists>es e. ew_content (xcf_base c) w (x_id x) (file_extension x) = Some (job_file x es)
        \<and> x_row_count x = int (length es) \<and> x_file_size_bytes x = int (length (job_file x es))
        \<and> x_download_expires_at x = Some e \<and> x_download_token x = sign_token (xcf_signer c) (x_id x) e)"

text \<open>The jobs in the hands of a worker are rows in processing; the jobs handed out are those that left the queue.\<close>

definition jobs_inv :: "export_run \<Rightarrow> bool" where
  "jobs_inv s \<longleftrightarrow>
     (let rows = ew_rows (er_world s) in
      distinct (map x_id rows) \<and> (\<forall>x \<in> set rows. good_export_id (x_id x))
      \<and> distinct (er_running s) \<and> (\<forall>x \<in> set (er_running s). x \<in> set rows \<and> x_status x = export_processing)
      \<and> distinct (er_claims s) \<and> set (er_claims s) = x_id ` {x \<in> set rows. x_status x \<noteq> export_pending})"

definition files_inv :: "export_config \<Rightarrow> export_run \<Rightarrow> bool" where
  "files_inv c s \<longleftrightarrow>
     (let w = er_world s in
      (\<forall>x \<in> set (ew_rows w). x_status x = export_completed \<longrightarrow> export_done c w x)
      \<and> (\<forall>rs. xdb_replica (ew_db w) = Some rs \<longrightarrow>
            distinct (map x_id rs) \<and> (\<forall>x \<in> set rs. x_status x = export_completed \<longrightarrow> x \<in> set (ew_rows w))))"

text \<open>The four things a step can do.\<close>

definition quiet_exports :: "export_config \<Rightarrow> export_run \<Rightarrow> export_run \<Rightarrow> bool" where
  "quiet_exports c s s' \<longleftrightarrow> ew_rows (er_world s') = ew_rows (er_world s) \<and> er_running s' = er_running s \<and> er_claims s' = er_claims s
     \<and> ew_content (xcf_base c) (er_world s') = ew_content (xcf_base c) (er_world s)"

definition job_added :: "export_run \<Rightarrow> export_run \<Rightarrow> bool" where
  "job_added s s' \<longleftrightarrow> er_running s' = er_running s \<and> er_claims s' = er_claims s
     \<and> (\<exists>x. ew_rows (er_world s') = ew_rows (er_world s) @ [x] \<and> good_export_id (x_id x) \<and> x_status x = export_pending
           \<and> x_id x \<notin> x_id ` set (ew_rows (er_world s)))"

definition job_claimed :: "export_run \<Rightarrow> export_run \<Rightarrow> bool" where
  "job_claimed s s' \<longleftrightarrow> (\<exists>j t. j \<in> set (ew_rows (er_world s)) \<and> x_status j = export_pending
     \<and> ew_rows (er_world s') = set_rows (x_id j) (start_job t) (ew_rows (er_world s))
     \<and> er_running s' = er_running s @ [start_job t j] \<and> er_claims s' = er_claims s @ [x_id j])"

definition job_ended :: "export_config \<Rightarrow> export_run \<Rightarrow> export_run \<Rightarrow> bool" where
  "job_ended c s s' \<longleftrightarrow> (\<exists>xs job ys t. er_running s = xs @ job # ys \<and> er_running s' = xs @ ys \<and> er_claims s' = er_claims s
     \<and> exports.same_other_files (xcf_base c) (x_id job) (er_world s) (er_world s')
     \<and> (exports.not_completed t job (er_world s) (er_world s') \<or> exports.completes (xcf_base c) (cfg_worker c) job (er_world s) (er_world s')))"

lemma export_step_effect:
  assumes "export_step c s s'" and "jobs_inv s"
  shows "(quiet_exports c s s' \<or> job_added s s' \<and> ew_fs (er_world s') = ew_fs (er_world s)
        \<or> job_claimed s s' \<and> ew_fs (er_world s') = ew_fs (er_world s) \<or> job_ended c s s')
     \<and> (xdb_replica (ew_db (er_world s')) = xdb_replica (ew_db (er_world s))
        \<or> quiet_exports c s s' \<and> xdb_replica (ew_db (er_world s')) = map_option (\<lambda>_. ew_rows (er_world s)) (xdb_replica (ew_db (er_world s))))"
  using assms(1)
proof cases
  case (create now ulid cmd r w)
  from create_export_rows [OF create(2)] create(1,3) show ?thesis
    by (auto simp: quiet_exports_def job_added_def ew_content_def)
next
  case (claim t job w)
  from claim_export_rows [OF claim(2)] obtain j where
    "job = start_job t j" "j \<in> set (ew_rows (er_world s))" "x_status j = export_pending"
    "ew_rows w = set_rows (x_id j) (start_job t) (ew_rows (er_world s))" "ew_fs w = ew_fs (er_world s)"
    "xdb_replica (ew_db w) = xdb_replica (ew_db (er_world s))" by auto
  moreover from this claim(1) have "job_claimed s s'"
    unfolding job_claimed_def by (intro exI [of _ j] exI [of _ t]) simp
  ultimately show ?thesis using claim(1) by simp
next
  case (no_claim t rc w err)
  from claim_export_rows [OF no_claim(2)] no_claim(1,3) show ?thesis by (auto simp: quiet_exports_def ew_content_def)
next
  case (finish xs job ys now t r w)
  with assms(2) have "job \<in> set (ew_rows (er_world s))" "good_export_id (x_id job)" by (auto simp: jobs_inv_def Let_def)
  with exports.process_job_outcome [OF finish(3), of "xcf_base c"] finish(1,2) export_file_ok [of "x_id job" job]
  have "job_ended c s s'" by (fastforce simp: job_ended_def cfg_worker_def)
  with process_job_replica [OF finish(3)] finish(1) show ?thesis by simp
next
  case (crash xs job ys content)
  with assms(2) have good: "good_export_id (x_id job)" by (auto simp: jobs_inv_def Let_def)
  have "file_path (xcf_base c) (x_id job) (file_extension job) \<noteq> file_path (xcf_base c) j e" if "export_file j e" "j \<noteq> x_id job" for j e
    using file_path_inject [OF export_file_ok [OF good, of job] that(1)] that(2) by metis
  note other = this
  then have "exports.same_other_files (xcf_base c) (x_id job) (er_world s) (er_world s')"
    unfolding exports.same_other_files_def crash(1) by (auto simp: ew_content_def dest: other [symmetric])
  moreover have "exports.not_completed 0 job (er_world s) (er_world s')" by (simp add: exports.not_completed_def crash(1))
  ultimately have "job_ended c s s'" unfolding job_ended_def
    using crash by (intro exI [of _ xs] exI [of _ job] exI [of _ ys] exI [of _ 0]) simp
  with crash(1) show ?thesis by simp
next
  case (faults fs cs ds)
  have "local_content (xcf_base c) (ew_fs (er_world s)\<lparr>fs_faults := ds\<rparr>) = local_content (xcf_base c) (ew_fs (er_world s))"
    by (intro ext) simp
  with faults show ?thesis by (simp add: quiet_exports_def ew_content_def ew_rows_def)
qed (simp_all add: quiet_exports_def ew_content_def ew_rows_def replicate_exports_def)

lemma jobs_inv_step:
  assumes "export_step c s s'" and "jobs_inv s"
  shows "jobs_inv s'"
proof -
  let ?R = "ew_rows (er_world s)"
  from assms(2) have R: "distinct (map x_id ?R)" "\<forall>x \<in> set ?R. good_export_id (x_id x)" "distinct (er_running s)"
    "\<forall>x \<in> set (er_running s). x \<in> set ?R \<and> x_status x = export_processing" "distinct (er_claims s)"
    "set (er_claims s) = x_id ` {x \<in> set ?R. x_status x \<noteq> export_pending}"
    by (auto simp: jobs_inv_def Let_def)
  have same_id: "x = y" if "x \<in> set ?R" "y \<in> set ?R" "x_id x = x_id y" for x y
    using R(1) that by (auto simp: distinct_map inj_on_def)
  consider "quiet_exports c s s'" | "job_added s s'" | "job_claimed s s'" | "job_ended c s s'"
    using export_step_effect [OF assms] by blast
  then show ?thesis
  proof cases
    case 1
    with R show ?thesis by (auto simp: jobs_inv_def quiet_exports_def)
  next
    case 2
    with R show ?thesis by (auto simp: jobs_inv_def job_added_def)
  next
    case 3
    then obtain j t where j: "j \<in> set ?R" "x_status j = export_pending" "ew_rows (er_world s') = set_rows (x_id j) (start_job t) ?R"
      "er_running s' = er_running s @ [start_job t j]" "er_claims s' = er_claims s @ [x_id j]"
      by (auto simp: job_claimed_def)
    have set: "set (ew_rows (er_world s')) = insert (start_job t j) (set ?R - {j})"
      unfolding j(3) by (rule set_set_rows [OF R(1) j(1)])
    have new: "x_id j \<notin> set (er_claims s)" using R(6) same_id [OF _ j(1)] j(2) by auto
    have "start_job t j \<notin> set ?R"
    proof
      assume "start_job t j \<in> set ?R"
      from same_id [OF this j(1)] have "x_status (start_job t j) = x_status j" by simp
      with j(2) show False by (simp add: export_status_defs)
    qed
    with R(4) have "start_job t j \<notin> set (er_running s)" by blast
    moreover have "x \<noteq> j" if "x \<in> set (er_running s)" for x using R(4) j(2) that by (auto simp: export_status_defs)
    moreover have "{x \<in> set (ew_rows (er_world s')). x_status x \<noteq> export_pending} = insert (start_job t j) {x \<in> set ?R. x_status x \<noteq> export_pending}"
      using set j(2) by (auto simp: export_status_defs)
    ultimately show ?thesis unfolding jobs_inv_def Let_def
      using R j new set by (auto simp: map_id_set_rows)
  next
    case 4
    then obtain xs job ys t where e: "er_running s = xs @ job # ys" "er_running s' = xs @ ys" "er_claims s' = er_claims s"
      and out: "exports.not_completed t job (er_world s) (er_world s') \<or> exports.completes (xcf_base c) (cfg_worker c) job (er_world s) (er_world s')"
      by (auto simp: job_ended_def)
    have job: "job \<in> set ?R" "x_status job \<noteq> export_pending" using e(1) R(4) by (auto simp: export_status_defs)
    from out consider "ew_rows (er_world s') = ?R"
      | f where "ew_rows (er_world s') = set_rows (x_id job) f ?R" "\<And>x. x_id (f x) = x_id x" "\<And>x. x_status (f x) \<noteq> export_pending"
      unfolding exports.not_completed_def exports.completes_def by (fastforce simp: export_status_defs)
    then show ?thesis
    proof cases
      case 1
      with R e show ?thesis unfolding jobs_inv_def Let_def by auto
    next
      case (2 f)
      note set = set_set_rows [OF R(1) job(1), of f, folded 2(1)]
      have "\<forall>x \<in> set (er_running s'). x \<in> set (ew_rows (er_world s')) \<and> x_status x = export_processing"
        using R(3,4) e(1,2) set by auto
      moreover have "x_id ` {x \<in> set (ew_rows (er_world s')). x_status x \<noteq> export_pending} = x_id ` {x \<in> set ?R. x_status x \<noteq> export_pending}"
        unfolding set by (rule image_nonpending [OF job 2(2,3)])
      moreover have "\<forall>x \<in> set (ew_rows (er_world s')). good_export_id (x_id x)" using set R(2) 2(2) job(1) by simp
      moreover have "distinct (map x_id (ew_rows (er_world s')))" using R(1) 2(1,2) by (simp add: map_id_set_rows)
      moreover have "distinct (er_running s')" "distinct (er_claims s')" using R(3,5) e by simp_all
      ultimately show ?thesis using R(6) e(3) by (simp add: jobs_inv_def)
    qed
  qed
qed

lemma export_done_frame:
  "ew_content (xcf_base c) w' (x_id x) (file_extension x) = ew_content (xcf_base c) w (x_id x) (file_extension x)
     \<Longrightarrow> export_done c w x \<Longrightarrow> export_done c w' x"
  by (simp add: export_done_def)

lemma pg_time_second: "unix_seconds (pg_time t) = unix_seconds t"
proof -
  have "t div 1000 * 1000 div 1000000000 = t div 1000 div 1000000"
    using div_mult_mult1_if [of 1000 "t div 1000" "1000000 :: int"] by (simp add: mult.commute)
  then show ?thesis by (simp add: unix_seconds_def pg_time_def second_def zdiv_zmult2_eq [symmetric])
qed

lemma completes_done:
  assumes "exports.completes (xcf_base c) (cfg_worker c) job w w'" and "distinct (map x_id (ew_rows w))" and "job \<in> set (ew_rows w)"
  obtains job' where "set (ew_rows w') = insert job' (set (ew_rows w) - {job})" "export_done c w' job'" "x_id job' = x_id job"
    "ew_rows w' = set_rows (x_id job) (\<lambda>_. job') (ew_rows w)" "x_status job' = export_completed"
proof -
  from assms(1) obtain t es e where c: "ew_content (xcf_base c) w' (x_id job) (file_extension job) = Some (job_file job es)"
    and rows: "ew_rows w' = set_rows (x_id job) (finish_export t (sto_path (ew_storage (xcf_base c)) (x_id job) (file_extension job))
        (int (length es)) (int (length (job_file job es))) (sign_token (xcf_signer c) (x_id job) e) e) (ew_rows w)"
    by (auto simp: exports.completes_def cfg_worker_def)
  let ?f = "finish_export t (sto_path (ew_storage (xcf_base c)) (x_id job) (file_extension job))
        (int (length es)) (int (length (job_file job es))) (sign_token (xcf_signer c) (x_id job) e) e"
  have "file_extension (?f job) = file_extension job" "job_file (?f job) es = job_file job es"
    by (simp_all add: finish_export_def file_extension_def job_file_def)
  moreover have "sign_token (xcf_signer c) (x_id job) e = sign_token (xcf_signer c) (x_id job) (pg_time e)"
    by (rule sign_token_same_second) (simp add: pg_time_second)
  ultimately have fin: "export_done c w' (?f job)"
    using c unfolding export_done_def by (intro exI [of _ es] exI [of _ "pg_time e"]) (simp add: finish_export_def)
  have "set_rows (x_id job) ?f (ew_rows w) = set_rows (x_id job) (\<lambda>_. ?f job) (ew_rows w)"
    using assms(2,3) by (auto simp: set_rows_def distinct_map inj_on_def)
  with rows set_set_rows [OF assms(2,3), of ?f] fin show thesis by (intro that [of "?f job"]) auto
qed

lemma files_inv_step:
  assumes "export_step c s s'" and "jobs_inv s" and "files_inv c s"
  shows "files_inv c s'"
proof -
  let ?w = "er_world s" and ?w' = "er_world s'"
  let ?done = "\<lambda>w x. x_status x = export_completed \<longrightarrow> export_done c w x"
  from assms(2) have R: "distinct (map x_id (ew_rows ?w))" "\<forall>x \<in> set (ew_rows ?w). good_export_id (x_id x)"
    "\<forall>x \<in> set (er_running s). x \<in> set (ew_rows ?w) \<and> x_status x = export_processing"
    by (auto simp: jobs_inv_def Let_def)
  from assms(3) have F: "\<forall>x \<in> set (ew_rows ?w). ?done ?w x" by (simp add: files_inv_def Let_def)
  note effect = export_step_effect [OF assms(1,2)]
  have rows: "(\<forall>x \<in> set (ew_rows ?w'). ?done ?w' x)
     \<and> (\<forall>x \<in> set (ew_rows ?w). x_status x = export_completed \<longrightarrow> x \<in> set (ew_rows ?w'))"
  proof -
    consider "quiet_exports c s s'" | "job_added s s'" "ew_fs ?w' = ew_fs ?w" | "job_claimed s s'" "ew_fs ?w' = ew_fs ?w" | "job_ended c s s'"
      using effect by blast
    then show ?thesis
    proof cases
      case 1
      with F show ?thesis by (auto simp: quiet_exports_def export_done_def)
    next
      case 2
      with F show ?thesis by (auto simp: job_added_def export_done_def ew_content_def export_status_defs)
    next
      case 3
      then obtain j t where j: "j \<in> set (ew_rows ?w)" "x_status j = export_pending" "ew_rows ?w' = set_rows (x_id j) (start_job t) (ew_rows ?w)"
        by (auto simp: job_claimed_def)
      from set_set_rows [OF R(1) j(1)] j F 3(2) show ?thesis
        by (auto simp: export_done_def ew_content_def export_status_defs)
    next
      case 4
      then obtain xs job ys t where e: "er_running s = xs @ job # ys" "exports.same_other_files (xcf_base c) (x_id job) ?w ?w'"
        and out: "exports.not_completed t job ?w ?w' \<or> exports.completes (xcf_base c) (cfg_worker c) job ?w ?w'"
        by (auto simp: job_ended_def)
      have job: "job \<in> set (ew_rows ?w)" "x_status job = export_processing" using e(1) R(3) by auto
      have keep: "export_done c ?w' x" if "x \<in> set (ew_rows ?w)" "x_status x = export_completed" for x
      proof -
        have "x \<noteq> job" using that job by (auto simp: export_status_defs)
        then have "x_id x \<noteq> x_id job" using R(1) that job(1) by (auto simp: distinct_map inj_on_def)
        with e(2) export_file_ok [of "x_id x" x] R(2) that(1)
        have "ew_content (xcf_base c) ?w' (x_id x) (file_extension x) = ew_content (xcf_base c) ?w (x_id x) (file_extension x)"
          by (auto simp: exports.same_other_files_def)
        with F that show ?thesis by (blast intro: export_done_frame)
      qed
      from out show ?thesis
      proof
        assume "exports.not_completed t job ?w ?w'"
        then show ?thesis unfolding exports.not_completed_def
          using keep job set_set_rows [OF R(1) job(1)] by (auto simp: export_status_defs)
      next
        assume "exports.completes (xcf_base c) (cfg_worker c) job ?w ?w'"
        then obtain job' where "set (ew_rows ?w') = insert job' (set (ew_rows ?w) - {job})" "export_done c ?w' job'"
          by (rule completes_done [OF _ R(1) job(1)])
        with keep job show ?thesis by (auto simp: export_status_defs)
      qed
    qed
  qed
  show ?thesis
    using effect
  proof (elim conjE disjE)
  qed (use rows assms(3) R(1) in \<open>auto simp: files_inv_def Let_def quiet_exports_def\<close>)
qed

lemma init_exports_inv: "jobs_inv (init_exports wss b) \<and> files_inv c (init_exports wss b)"
  by (auto simp: init_exports_def jobs_inv_def files_inv_def ew_rows_def)

lemma exports_inv_reach:
  assumes "reach (export_step c) (init_exports wss b) s"
  shows "jobs_inv s" and "files_inv c s"
  using reach_invariant [OF assms, of "\<lambda>s. jobs_inv s \<and> files_inv c s"] init_exports_inv jobs_inv_step files_inv_step by blast+

end
