(* ===== verification/ExportProperties.thy ===== *)
theory ExportProperties
  imports ExportInvariant
begin

text \<open>
  What exports guarantee, over any number of workers, failing statements, full disks and workers that die: a job is
  handed out once, a finished export never changes, the file behind a download is the one its worker wrote, and a
  download link works until it expires.
\<close>

section \<open>The life of a job\<close>

text \<open>A row and what may become of it: what was asked for stays, and its status only moves on.\<close>

definition status_moves :: "string \<Rightarrow> string \<Rightarrow> bool" where
  "status_moves a b \<longleftrightarrow> a = export_pending \<and> b \<noteq> export_pending \<or> a = export_processing \<and> b \<in> {export_completed, export_failed}"

definition job_spec :: "export \<Rightarrow> string \<times> string \<times> string \<times> string \<times> gotime \<times> gotime \<times> bool" where
  "job_spec x = (x_id x, x_workspace_id x, x_requested_by x, x_format x, x_date_from x, x_date_to x, x_include_bots x)"

definition later_row :: "export \<Rightarrow> export \<Rightarrow> bool" where
  "later_row x y \<longleftrightarrow> job_spec y = job_spec x \<and> (y = x \<or> status_moves (x_status x) (x_status y))"

lemma later_row_refl: "later_row x x" by (simp add: later_row_def)

lemma status_moves_trans: "status_moves a b \<Longrightarrow> status_moves b c \<Longrightarrow> status_moves a c"
  by (auto simp: status_moves_def export_status_defs)

lemma later_row_trans: "later_row x y \<Longrightarrow> later_row y z \<Longrightarrow> later_row x z"
  unfolding later_row_def by (metis status_moves_trans)

lemma later_row_start: "x_status x = export_pending \<Longrightarrow> later_row x (start_job t x)"
  by (simp add: later_row_def job_spec_def status_moves_def start_job_def export_status_defs)

lemma later_row_end:
  "x_status x = export_processing \<Longrightarrow> later_row x (fail_export t m x)"
  "x_status x = export_processing \<Longrightarrow> later_row x (finish_export t p n z k e x)"
  by (simp_all add: later_row_def job_spec_def status_moves_def fail_export_def finish_export_def export_status_defs)

lemma set_rows_later:
  assumes "distinct (map x_id R)" "j \<in> set R" "later_row j (f j)" "x \<in> set R"
  shows "\<exists>y \<in> set (set_rows (x_id j) f R). later_row x y"
  using set_set_rows [OF assms(1,2), of f] assms(3,4) later_row_refl by (cases "x = j") auto

lemma later_row_step:
  assumes "export_step c s s'" and "jobs_inv s" and "x \<in> set (ew_rows (er_world s))"
  shows "\<exists>y \<in> set (ew_rows (er_world s')). later_row x y"
proof -
  let ?R = "ew_rows (er_world s)"
  from assms(2) have R: "distinct (map x_id ?R)" "\<forall>x \<in> set (er_running s). x \<in> set ?R \<and> x_status x = export_processing"
    by (auto simp: jobs_inv_def Let_def)
  consider "quiet_exports c s s'" | "job_added s s'" | "job_claimed s s'" | "job_ended c s s'"
    using export_step_effect [OF assms(1,2)] by blast
  then show ?thesis
  proof cases
    case 1
    with assms(3) show ?thesis by (auto simp: quiet_exports_def intro: later_row_refl)
  next
    case 2
    with assms(3) show ?thesis by (auto simp: job_added_def intro: later_row_refl)
  next
    case 3
    then show ?thesis using set_rows_later [OF R(1)] assms(3) by (auto simp: job_claimed_def later_row_start)
  next
    case 4
    then obtain xs job ys t where job: "er_running s = xs @ job # ys"
      and out: "exports.not_completed t job (er_world s) (er_world s') \<or> exports.completes (xcf_base c) (cfg_worker c) job (er_world s) (er_world s')"
      by (auto simp: job_ended_def)
    from job R(2) have "job \<in> set ?R" "x_status job = export_processing" by auto
    with out set_rows_later [OF R(1)] assms(3) later_row_end later_row_refl show ?thesis
      unfolding exports.not_completed_def exports.completes_def by fastforce
  qed
qed

lemma jobs_inv_reach: "reach (export_step c) s s' \<Longrightarrow> jobs_inv s \<Longrightarrow> jobs_inv s'"
  by (induction rule: reach.induct) (auto intro: jobs_inv_step)

lemma later_row_reach:
  assumes "reach (export_step c) s s'" and "jobs_inv s" and "x \<in> set (ew_rows (er_world s))"
  shows "\<exists>y \<in> set (ew_rows (er_world s')). later_row x y"
  using assms(1)
proof induction
  case start
  with assms(3) later_row_refl show ?case by blast
next
  case (more u v)
  note jobs_inv_reach [OF more.hyps(1) assms(2)]
  with more.IH later_row_step [OF more.hyps(2)] show ?case by (blast intro: later_row_trans)
qed

text \<open>C10: a job keeps what was asked for and its status only moves on, from pending to processing and from there to
  completed or failed, after which nothing changes it; and no job is handed to a worker twice, whatever number of
  workers claim, finish and die and whichever statements and system calls fail.\<close>

theorem export_lifecycle:
  assumes "reach (export_step c) (init_exports wss b) s" and "reach (export_step c) s s'" and "x \<in> set (ew_rows (er_world s))"
  shows "(\<exists>y \<in> set (ew_rows (er_world s')). later_row x y) \<and> distinct (er_claims s')"
proof
  show "\<exists>y \<in> set (ew_rows (er_world s')). later_row x y"
    by (rule later_row_reach [OF assms(2) exports_inv_reach(1) [OF assms(1)] assms(3)])
  from exports_inv_reach(1) [OF reach_trans [OF assms(2,1)]] show "distinct (er_claims s')" by (simp add: jobs_inv_def Let_def)
qed

section \<open>Jobs whose worker died\<close>

lemma stuck_step:
  assumes "export_step c s s'" and "jobs_inv s" and x: "x \<in> set (ew_rows (er_world s))" "x_status x = export_processing" "x \<notin> set (er_running s)"
  shows "x \<in> set (ew_rows (er_world s')) \<and> x \<notin> set (er_running s')"
proof -
  let ?R = "ew_rows (er_world s)"
  from assms(2) have R: "distinct (map x_id ?R)" "\<forall>x \<in> set (er_running s). x \<in> set ?R \<and> x_status x = export_processing"
    by (auto simp: jobs_inv_def Let_def)
  consider "quiet_exports c s s'" | "job_added s s'" | "job_claimed s s'" | "job_ended c s s'"
    using export_step_effect [OF assms(1,2)] by blast
  then show ?thesis
  proof cases
    case 1
    with x show ?thesis by (auto simp: quiet_exports_def)
  next
    case 2
    with x show ?thesis by (auto simp: job_added_def)
  next
    case 3
    then obtain j t where j: "j \<in> set ?R" "x_status j = export_pending" "ew_rows (er_world s') = set_rows (x_id j) (start_job t) ?R"
      "er_running s' = er_running s @ [start_job t j]"
      by (auto simp: job_claimed_def)
    have "x \<noteq> j" using x(2) j(2) by (auto simp: export_status_defs)
    moreover have "x \<noteq> start_job t j"
    proof
      assume eq: "x = start_job t j"
      then have "x_id x = x_id j" by simp
      with R(1) x(1) j(1) have "x = j" by (auto simp: distinct_map inj_on_def)
      with \<open>x \<noteq> j\<close> show False by blast
    qed
    ultimately show ?thesis using x(1,3) j(4) set_set_rows [OF R(1) j(1), of "start_job t"] j(3) by simp
  next
    case 4
    then obtain xs job ys t where job: "er_running s = xs @ job # ys" "er_running s' = xs @ ys"
      and out: "exports.not_completed t job (er_world s) (er_world s') \<or> exports.completes (xcf_base c) (cfg_worker c) job (er_world s) (er_world s')"
      by (auto simp: job_ended_def)
    from job R(2) x(3) have "job \<in> set ?R" "x \<noteq> job" by auto
    with out set_set_rows [OF R(1)] x(1) have "x \<in> set (ew_rows (er_world s'))"
      unfolding exports.not_completed_def exports.completes_def by fastforce
    with x(3) job show ?thesis by simp
  qed
qed

text \<open>an export whose worker died, with its instance or by a failure of the statement that completes or fails the
  job, stays in processing for ever: no step of any worker touches it again.\<close>

theorem stuck_export:
  assumes "reach (export_step c) (init_exports wss b) s" and "x \<in> set (ew_rows (er_world s))" and "x_status x = export_processing"
    and "x \<notin> set (er_running s)" and "reach (export_step c) s s'"
  shows "x \<in> set (ew_rows (er_world s')) \<and> x \<notin> set (er_running s')"
proof -
  have "jobs_inv s' \<and> x \<in> set (ew_rows (er_world s')) \<and> x \<notin> set (er_running s')"
    using assms(5)
  proof (rule reach_invariant)
    show "jobs_inv s \<and> x \<in> set (ew_rows (er_world s)) \<and> x \<notin> set (er_running s)"
      using exports_inv_reach(1) [OF assms(1)] assms(2,4) by simp
  qed (use jobs_inv_step stuck_step assms(3) in blast)
  then show ?thesis by simp
qed

section \<open>Downloads\<close>

definition export_api :: "export_config \<Rightarrow> string \<Rightarrow> gotime \<Rightarrow> string \<Rightarrow> export_world export_http" where
  "export_api c base_url now ulid =
     \<lparr>xh_create = create_export_handle ew_repo (xcf_max_days c) now ulid, xh_get_by_id = xr_get_by_id ew_repo,
      xh_list = xr_list ew_repo, xh_lookup = xr_get_any_by_id ew_repo, xh_storage = ew_storage (xcf_base c),
      xh_signer = xcf_signer c, xh_base_url = base_url\<rparr>"

lemma get_any_run:
  assumes "xr_get_any_by_id ew_repo i w = (Inr x, w')"
  shows "x \<in> set (export_view (ew_db w)) \<and> x_id x = i \<and> ew_fs w' = ew_fs w"
  using assms
  by (auto simp: ew_repo_def on_db_eq export_repo_get_any_def export_result_of_def export_stmt_def find_export_def export_view_def
        find_Some_iff split: prod.splits sum.splits option.splits)

lemma view_completed:
  assumes "files_inv c s" and "x \<in> set (export_view (ew_db (er_world s)))" and "x_status x = export_completed"
  shows "x \<in> set (ew_rows (er_world s)) \<and> export_done c (er_world s) x"
  using assms by (auto simp: files_inv_def Let_def export_view_def ew_rows_def split: option.splits)


lemma sign_token_nonempty: "sign_token s i e \<noteq> []"
proof -
  have "b64_encode a padded bs = [] \<Longrightarrow> bs = []" for a padded bs
    by (induction a padded bs rule: b64_encode.induct) auto
  moreover have "length (compute_hmac s (token_payload i e)) = 32" by (simp add: compute_hmac_def)
  ultimately show ?thesis unfolding sign_token_def by fastforce
qed

lemma link_works:
  assumes inv: "jobs_inv s" "files_inv c s" and "x \<in> set (export_view (ew_db (er_world s)))" and "is_downloadable now x"
    and "xdb_faults (ew_db (er_world s)) = []" and "fs_faults (ew_fs (er_world s)) = []"
    and "rq_param r ''exportID'' = x_id x" and "rq_query_get r ''token'' = x_download_token x"
  shows "\<exists>es. export_download (export_api c base_url t u) now r (er_world s) = (export_file_response x (job_file x es), er_world s)
     \<and> x_row_count x = int (length es)"
proof -
  let ?w = "er_world s"
  from assms(4) obtain e where e: "x_status x = export_completed" "x_download_expires_at x = Some e" "now < e"
    by (auto simp: is_downloadable_def split: option.splits)
  from view_completed [OF inv(2) assms(3) e(1)] e(2) obtain es where
    es: "x_row_count x = int (length es)" "x_download_token x = sign_token (xcf_signer c) (x_id x) e"
      "ew_content (xcf_base c) ?w (x_id x) (file_extension x) = Some (job_file x es)"
    by (auto simp: export_done_def)
  have "distinct (map x_id (export_view (ew_db ?w)))"
    using inv by (auto simp: files_inv_def jobs_inv_def Let_def export_view_def ew_rows_def split: option.splits)
  with assms(3) have "List.find (\<lambda>y. x_id y = x_id x) (export_view (ew_db ?w)) = Some x"
    by (rule find_by_id)
  then have "xr_get_any_by_id ew_repo (x_id x) ?w = (Inr x, ?w)"
    using assms(5) by (simp add: ew_repo_def on_db_def export_repo_get_any_def export_result_of_def export_stmt_quiet find_export_def)
  moreover have "sto_read (ew_storage (xcf_base c)) (x_id x) (file_extension x) ?w = (ReadFile (job_file x es), ?w)"
    using assms(6) es(3) by (simp add: ew_storage_def on_fs_def local_read_def os_call_def ew_content_def local_content_def)
  ultimately have "export_download (export_api c base_url t u) now r ?w = (export_file_response x (job_file x es), ?w)"
    using e es(2) assms(7,8) sign_token_nonempty by (simp add: export_download_def export_api_def Let_def verify_token_iff)
  with es(1) show ?thesis by blast
qed


section \<open>What a job writes\<close>

lemma os_call_quiet: "fs_faults fs = [] \<Longrightarrow> os_call what partial f fs = (case f fs of (x, fs') \<Rightarrow> (Inr x, fs'))"
  by (cases fs) (simp add: os_call_def)

lemma ew_storage_simps:
  "sto_create (ew_storage base) i e = on_fs (local_create base i e)" "sto_write (ew_storage base) i e d = on_fs (local_write base i e d)"
  "sto_close (ew_storage base) i e = on_fs (local_close base i e)" "sto_delete (ew_storage base) i e = on_fs (local_delete base i e)"
  "sto_size (ew_storage base) i e = on_fs (local_size base i e)" "sto_path (ew_storage base) = file_path base"
  by (simp_all add: ew_storage_def)

lemma ew_repo_simps:
  "xr_mark_completed ew_repo t i p n z k x = on_db (export_repo_mark_completed t i p n z k x)"
  "xr_mark_failed ew_repo t i m = on_db (export_repo_mark_failed t i m)"
  "xr_read_events ew_repo q = on_db (export_repo_read_events q)"
  by (simp_all add: ew_repo_def)

lemma ew_both:
  "w\<lparr>ew_fs := f, ew_db := d\<rparr> = \<lparr>ew_db = d, ew_fs = f\<rparr>" "w\<lparr>ew_db := d, ew_fs := f\<rparr> = \<lparr>ew_db = d, ew_fs = f\<rparr>"
  for w :: export_world
  by simp_all

lemma formats_distinct [simp]: "format_json_lines \<noteq> format_csv" "format_csv \<noteq> format_json_lines"
  by (simp_all add: format_json_lines_def format_csv_def)

lemma append_new_file: "append_file p c (set_file p (Some []) fs) = set_file p (Some c) fs"
  by (simp add: append_file_def set_file_def)

lemma set_file_faults [simp]: "fs_faults (set_file p c fs) = fs_faults fs" by (simp add: set_file_def)
lemma set_file_twice [simp]: "set_file p c (set_file p d fs) = set_file p c fs" by (simp add: set_file_def)
lemma fs_files_set_file [simp]: "fs_files (set_file p c fs) p = c" by (simp add: set_file_def)

lemmas quiet_calls = ew_both ew_storage_simps ew_repo_simps on_fs_def on_db_def export_stmt_quiet os_call_quiet local_create_def local_write_def local_close_def local_delete_def local_size_def
  export_repo_mark_completed_def export_repo_mark_failed_def export_repo_read_events_def export_result_of_def update_export_def

text \<open>The rows of a job as the replica shows the events.\<close>

definition job_rows :: "export \<Rightarrow> export_world \<Rightarrow> event_row list" where
  "job_rows job w = select_events (query_of_job job) (xdb_events (ew_db w))"

lemma process_job_read:
  assumes "xdb_faults (ew_db w) = []" and "fs_faults (ew_fs w) = []" and "x_format job \<in> {format_csv, format_json_lines}"
    and "next_cut (xdb_cuts (ew_db w)) = (brk, cuts)"
    and "es = (case brk of None \<Rightarrow> job_rows job w | Some (n, err) \<Rightarrow> take n (job_rows job w))"
    and "rows_error (map_option snd brk) = None"
  shows "\<exists>w'. process_job (cfg_worker c) now t job w = (Inr (), w')
     \<and> ew_content (xcf_base c) w' (x_id job) (file_extension job) = Some (job_file job es)
     \<and> ew_rows w' = set_rows (x_id job) (finish_export t (file_path (xcf_base c) (x_id job) (file_extension job)) (int (length es))
          (int (length (job_file job es))) (sign_token (xcf_signer c) (x_id job) (now + xcf_ttl c)) (now + xcf_ttl c)) (ew_rows w)
     \<and> fs_faults (ew_fs w') = []"
proof -
  let ?w1 = "w\<lparr>ew_fs := set_file (file_path (xcf_base c) (x_id job) (file_extension job)) (Some []) (ew_fs w)\<rparr>"
  let ?w2 = "w\<lparr>ew_fs := set_file (file_path (xcf_base c) (x_id job) (file_extension job)) (Some (job_file job es)) (ew_fs w),
     ew_db := (ew_db w)\<lparr>xdb_cuts := cuts\<rparr>\<rparr>"
  have create: "sto_create (ew_storage (xcf_base c)) (x_id job) (file_extension job) w = (Inr (), ?w1)"
    using assms(2) by (simp add: quiet_calls)
  have read: "xr_read_events ew_repo (query_of_job job) ?w1 = ((es, map_option snd brk), ?w1\<lparr>ew_db := (ew_db w)\<lparr>xdb_cuts := cuts\<rparr>\<rparr>)"
    using assms(1,4,5) by (auto simp: quiet_calls job_rows_def split: option.splits)
  have "write_rows ew_repo (ew_storage (xcf_base c)) job ?w1 = ((None, int (length es)), ?w2)"
    using assms(2,3,6) read by (auto simp: write_rows_def quiet_calls append_new_file job_file_def format_csv_def format_json_lines_def)
  with create have "process_job (cfg_worker c) now t job w = complete_job (cfg_worker c) now t job (int (length es)) ?w2"
    using assms(2) by (simp add: process_job_def cfg_worker_def quiet_calls)
  moreover have "\<exists>w'. complete_job (cfg_worker c) now t job (int (length es)) ?w2 = (Inr (), w')
     \<and> ew_content (xcf_base c) w' (x_id job) (file_extension job) = Some (job_file job es)
     \<and> ew_rows w' = set_rows (x_id job) (finish_export t (file_path (xcf_base c) (x_id job) (file_extension job)) (int (length es))
          (int (length (job_file job es))) (sign_token (xcf_signer c) (x_id job) (now + xcf_ttl c)) (now + xcf_ttl c)) (ew_rows w)
     \<and> fs_faults (ew_fs w') = []"
    using assms(1,2) by (simp add: complete_job_def cfg_worker_def Let_def quiet_calls
      ew_rows_def ew_content_def local_content_def set_rows_def)
  ultimately show ?thesis by simp
qed



section \<open>The queue empties\<close>

definition pending_jobs :: "export list \<Rightarrow> export list" where
  "pending_jobs xs = filter (\<lambda>x. x_status x = export_pending) xs"

lemma pending_set_rows:
  assumes "distinct (map x_id xs)" and "j \<in> set xs" and "x_status (f j) \<noteq> export_pending"
  shows "length (pending_jobs (set_rows (x_id j) f xs)) = length (pending_jobs xs) - (if x_status j = export_pending then 1 else 0)"
  using assms
proof (induction xs)
  case (Cons x xs)
  show ?case
  proof (cases "x = j")
    case True
    from Cons.prems(1) True have "\<forall>y \<in> set xs. x_id y \<noteq> x_id j" by (auto simp: image_iff)
    then have "map (\<lambda>y. if x_id y = x_id j then f y else y) xs = xs" by (intro map_idI) simp
    with True Cons.prems(3) show ?thesis by (simp add: set_rows_def pending_jobs_def)
  next
    case False
    with Cons have "x_id x \<noteq> x_id j" "j \<in> set xs" by auto
    moreover from this have "x_status j = export_pending \<longrightarrow> pending_jobs xs \<noteq> []" by (auto simp: pending_jobs_def filter_empty_conv)
    ultimately show ?thesis using Cons by (auto simp: set_rows_def pending_jobs_def neq_Nil_conv)
  qed
qed simp

lemma update_export_quiet: "xdb_faults db = [] \<Longrightarrow> export_result_of g (export_stmt (update_export i f) db) = (r, db') \<Longrightarrow> xdb_faults db' = []"
  by (auto simp: export_stmt_quiet export_result_of_def update_export_def)

lemma read_events_quiet: "xdb_faults db = [] \<Longrightarrow> export_repo_read_events q db = (r, db') \<Longrightarrow> xdb_faults db' = []"
  by (auto simp: export_repo_read_events_def export_stmt_quiet split: prod.splits option.splits)

lemma process_job_quiet:
  assumes "process_job (cfg_worker c) now t job w = (r, w')" and "xdb_faults (ew_db w) = []"
  shows "xdb_faults (ew_db w') = []"
  by (rule process_job_keeps [OF assms(1), of "\<lambda>u. xdb_faults (ew_db u) = []"], fact assms(2))
    (auto simp: cfg_worker_def ew_repo_def ew_storage_def on_db_eq on_fs_eq export_repo_mark_completed_def export_repo_mark_failed_def
      dest: update_export_quiet read_events_quiet)

text \<open>What one iteration needs of the table, and leaves of it.\<close>

definition queue_ok :: "export_world \<Rightarrow> bool" where
  "queue_ok w \<longleftrightarrow> xdb_faults (ew_db w) = [] \<and> distinct (map x_id (ew_rows w)) \<and> (\<forall>x \<in> set (ew_rows w). good_export_id (x_id x))"

lemma set_rows_ids:
  assumes "\<And>x. x_id (f x) = x_id x"
  shows "distinct (map x_id (set_rows i f xs)) = distinct (map x_id xs)"
    and "(\<forall>x \<in> set (set_rows i f xs). good_export_id (x_id x)) = (\<forall>x \<in> set xs. good_export_id (x_id x))"
proof -
  have "x_id ` set (set_rows i f xs) = x_id ` set xs" using map_id_set_rows [of f i xs] assms by (metis list.set_map)
  then show "(\<forall>x \<in> set (set_rows i f xs). good_export_id (x_id x)) = (\<forall>x \<in> set xs. good_export_id (x_id x))"
    by (metis (no_types, lifting) image_iff)
qed (simp add: map_id_set_rows assms)

lemma process_one_queue:
  assumes "queue_ok w"
  shows "queue_ok (snd (process_one (cfg_worker c) now t w))
     \<and> length (pending_jobs (ew_rows (snd (process_one (cfg_worker c) now t w)))) \<le> length (pending_jobs (ew_rows w)) - 1"
proof -
  obtain rc w1 where claim: "xr_claim ew_repo t w = (rc, w1)" by (metis surj_pair)
  have quiet: "xdb_faults (ew_db w1) = []" and none: "\<not> (\<exists>j. rc = Inr (Some j)) \<Longrightarrow> pending_jobs (ew_rows w) = [] \<and> rc = Inr None"
    using claim assms
    by (auto simp: queue_ok_def ew_repo_def on_db_eq export_repo_claim_def export_stmt_quiet claim_export_def update_export_def
          pending_jobs_def ew_rows_def export_pending_def split: list.splits)
      (metis set_empty set_sort)+
  show ?thesis
  proof (cases "\<exists>j. rc = Inr (Some j)")
    case False
    with claim_export_rows [OF claim] none quiet claim assms show ?thesis
      by (auto simp: process_one_def cfg_worker_def queue_ok_def)
  next
    case True
    with claim_export_rows [OF claim] obtain j where j: "rc = Inr (Some (start_job t j))" "j \<in> set (ew_rows w)" "x_status j = export_pending"
      "ew_rows w1 = set_rows (x_id j) (start_job t) (ew_rows w)" by auto
    let ?job = "start_job t j"
    obtain r w2 where run: "process_job (cfg_worker c) now t ?job w1 = (r, w2)" by (metis surj_pair)
    have R: "distinct (map x_id (ew_rows w))" "\<forall>x \<in> set (ew_rows w). good_export_id (x_id x)" using assms by (auto simp: queue_ok_def)
    have w1: "distinct (map x_id (ew_rows w1))" "\<forall>x \<in> set (ew_rows w1). good_export_id (x_id x)" "?job \<in> set (ew_rows w1)"
      "length (pending_jobs (ew_rows w1)) = length (pending_jobs (ew_rows w)) - 1"
      using R j set_rows_ids [of "start_job t"] set_set_rows [OF R(1) j(2)] pending_set_rows [OF R(1) j(2), of "start_job t"]
      by (simp_all add: export_status_defs)
    have "export_file (x_id ?job) (file_extension ?job)" using R(2) j(2) export_file_ok by simp
    from exports.process_job_outcome [OF run, of "xcf_base c", OF _ _ this]
    consider "ew_rows w2 = ew_rows w1" | f where "ew_rows w2 = set_rows (x_id ?job) f (ew_rows w1)"
        "\<And>x. x_id (f x) = x_id x" "x_status (f ?job) \<noteq> export_pending"
      unfolding exports.not_completed_def exports.completes_def cfg_worker_def by (fastforce simp: export_status_defs)
    then have "distinct (map x_id (ew_rows w2)) \<and> (\<forall>x \<in> set (ew_rows w2). good_export_id (x_id x))
        \<and> length (pending_jobs (ew_rows w2)) \<le> length (pending_jobs (ew_rows w1))"
    proof cases
      case 1
      with w1 show ?thesis by simp
    next
      case (2 f)
      from set_rows_ids [OF 2(2)] w1(1,2) pending_set_rows [of "ew_rows w1" ?job f, OF w1(1,3) 2(3)] show ?thesis by (simp add: 2(1))
    qed
    moreover have "snd (process_one (cfg_worker c) now t w) = w2"
      using claim j(1) run by (simp add: process_one_def cfg_worker_def)
    ultimately show ?thesis using process_job_quiet [OF run quiet] w1(4) by (simp add: queue_ok_def)
  qed
qed

text \<open>C37: the queue empties: as many iterations of the worker as there are pending jobs leave none, while the database
  answers and whatever the disk and the reading of the events do.\<close>

theorem worker_empties_queue:
  assumes "reach (export_step c) (init_exports wss b) s" and "xdb_faults (ew_db (er_world s)) = []"
    and "length (pending_jobs (ew_rows (er_world s))) \<le> length ts"
  shows "pending_jobs (ew_rows (worker_run (cfg_worker c) ts (er_world s))) = []"
proof -
  have "queue_ok w \<Longrightarrow> length (pending_jobs (ew_rows w)) \<le> length ts \<Longrightarrow> pending_jobs (ew_rows (worker_run (cfg_worker c) ts w)) = []" for w
  proof (induction ts arbitrary: w)
    case (Cons a ts)
    obtain now t where a: "a = (now, t)" by fastforce
    from process_one_queue [OF Cons.prems(1), of c now t] Cons.prems(2)
    have "queue_ok (snd (process_one (cfg_worker c) now t w))"
      "length (pending_jobs (ew_rows (snd (process_one (cfg_worker c) now t w)))) \<le> length ts" by auto
    from Cons.IH [OF this] show ?case by (simp add: a)
  qed simp
  moreover have "queue_ok (er_world s)"
    using exports_inv_reach(1) [OF assms(1)] assms(2) by (simp add: queue_ok_def jobs_inv_def Let_def)
  ultimately show ?thesis using assms(3) by blast
qed

section \<open>An export from its request to its download\<close>

definition demo_xcfg :: export_config where
  "demo_xcfg = \<lparr>xcf_base = ''/data'', xcf_signer = \<lparr>sg_secret = [1, 2, 3]\<rparr>, xcf_ttl = hour, xcf_max_days = 365\<rparr>"

definition demo_cmd :: export_command where
  "demo_cmd = \<lparr>xc_workspace_id = ''w'', xc_requested_by = ''u'', xc_format = ''csv'', xc_date_from = 0, xc_date_to = 2000, xc_include_bots = False\<rparr>"

definition demo_row :: export where "demo_row = pg_export (new_export 5000 ''E1'' demo_cmd)"

definition demo_queued :: export_run where
  "demo_queued = (init_exports [''w''] False)\<lparr>er_world := \<lparr>ew_db = \<lparr>xdb_rows = [demo_row], xdb_replica = None, xdb_events = [],
     xdb_workspaces = [''w''], xdb_cuts = [], xdb_faults = []\<rparr>, ew_fs = no_files\<rparr>\<rparr>"

definition demo_taken :: export_run where
  "demo_taken = demo_queued\<lparr>er_world := \<lparr>ew_db = \<lparr>xdb_rows = [start_job 6000 demo_row], xdb_replica = None, xdb_events = [],
     xdb_workspaces = [''w''], xdb_cuts = [], xdb_faults = []\<rparr>, ew_fs = no_files\<rparr>, er_running := [start_job 6000 demo_row], er_claims := [''E1'']\<rparr>"

definition demo_crashed :: export_run where
  "demo_crashed = demo_taken\<lparr>er_world := (er_world demo_taken)\<lparr>ew_fs := set_file (file_path ''/data'' ''E1'' ''.csv'') (Some ''short'') no_files\<rparr>,
     er_running := []\<rparr>"

lemmas demo_export_defs = demo_xcfg_def demo_cmd_def demo_row_def demo_queued_def demo_taken_def demo_crashed_def new_export_def pg_export_def
  pg_time_def init_exports_def

lemma demo_row_simps [simp]: "x_id demo_row = ''E1''" "x_status demo_row = ''pending''" "x_format demo_row = ''csv''" "x_created_at demo_row = 5000"
  by (simp_all add: demo_export_defs export_pending_def)

lemma demo_queue_step: "export_step demo_xcfg (init_exports [''w''] False) demo_queued"
proof -
  have "create_export_handle ew_repo (xcf_max_days demo_xcfg) 5000 ''E1'' demo_cmd (er_world (init_exports [''w''] False))
      = (fst (create_export_handle ew_repo (xcf_max_days demo_xcfg) 5000 ''E1'' demo_cmd (er_world (init_exports [''w''] False))), er_world demo_queued)"
    by (simp add: create_export_handle_def ew_repo_def on_db_def export_repo_create_def export_result_of_def export_stmt_def insert_export_def
      export_row_checks_def demo_export_defs format_csv_def export_pending_def window_limit_def window_days_def time_sub_def hour_def Let_def)
  from export_step.create [OF this] show ?thesis by (simp add: good_export_id_def demo_queued_def init_exports_def)
qed

lemma demo_take_step: "export_step demo_xcfg demo_queued demo_taken"
proof -
  have "xr_claim ew_repo 6000 (er_world demo_queued) = (Inr (Some (start_job 6000 demo_row)), er_world demo_taken)"
    by (simp add: ew_repo_def on_db_def export_repo_claim_def export_stmt_def claim_export_def update_export_def demo_queued_def demo_taken_def)
  from export_step.claim [OF this, of demo_xcfg] show ?thesis by (simp add: demo_taken_def demo_queued_def init_exports_def)
qed

lemma demo_crash_step: "export_step demo_xcfg demo_taken demo_crashed"
  using export_step.crash [of demo_taken "[]" "start_job 6000 demo_row" "[]" demo_xcfg "Some ''short''"]
  by (simp add: demo_taken_def demo_crashed_def demo_queued_def init_exports_def demo_xcfg_def file_extension_def format_csv_def)

lemma demo_reach:
  "reach (export_step demo_xcfg) (init_exports [''w''] False) demo_queued"
  "reach (export_step demo_xcfg) demo_queued demo_taken"
  "reach (export_step demo_xcfg) (init_exports [''w''] False) demo_taken"
  "reach (export_step demo_xcfg) (init_exports [''w''] False) demo_crashed"
  using demo_queue_step demo_take_step demo_crash_step by (meson reach.intros)+

text \<open>The worker finishes the job at the instant 7000.\<close>

definition demo_sent :: export where
  "demo_sent = finish_export 7000 (file_path ''/data'' ''E1'' ''.csv'') 0 (int (length (csv_file [])))
     (sign_token \<lparr>sg_secret = [1, 2, 3]\<rparr> ''E1'' (7000 + hour)) (7000 + hour) (start_job 6000 demo_row)"

lemma demo_finished:
  obtains s where "reach (export_step demo_xcfg) (init_exports [''w''] False) s" "ew_rows (er_world s) = [demo_sent]"
    "export_view (ew_db (er_world s)) = [demo_sent]" "xdb_faults (ew_db (er_world s)) = []" "fs_faults (ew_fs (er_world s)) = []"
proof -
  let ?job = "start_job 6000 demo_row"
  obtain w where w: "process_job (cfg_worker demo_xcfg) 7000 7000 ?job (er_world demo_taken) = (Inr (), w)"
    "ew_rows w = set_rows ''E1'' (finish_export 7000 (file_path ''/data'' ''E1'' ''.csv'') 0 (int (length (csv_file [])))
       (sign_token \<lparr>sg_secret = [1, 2, 3]\<rparr> ''E1'' (7000 + hour)) (7000 + hour)) [?job]" "fs_faults (ew_fs w) = []"
    using process_job_read [of "er_world demo_taken" ?job None "[]" "[]" demo_xcfg 7000 7000]
    by (auto simp: demo_taken_def demo_xcfg_def no_files_def job_rows_def select_events_def rows_error_def file_extension_def
        format_csv_def job_file_def ew_rows_def)
  let ?s = "demo_taken\<lparr>er_world := w, er_running := []\<rparr>"
  have "export_step demo_xcfg demo_taken ?s"
    using export_step.finish [of demo_taken "[]" ?job "[]", OF _ w(1)] by (simp add: demo_taken_def)
  then have "reach (export_step demo_xcfg) (init_exports [''w''] False) ?s" by (rule reach.more [OF demo_reach(3)])
  moreover have rows: "ew_rows w = [demo_sent]" using w(2) by (simp add: set_rows_def demo_sent_def)
  moreover have "export_view (ew_db w) = [demo_sent]"
    using process_job_replica [OF w(1)] rows by (simp add: export_view_def ew_rows_def demo_taken_def)
  moreover have "xdb_faults (ew_db w) = []" using process_job_quiet [OF w(1)] by (simp add: demo_taken_def)
  ultimately show thesis using w(3) by (intro that [of ?s]) simp_all
qed

definition demo_download :: request where
  "demo_download = \<lparr>rq_method = ''GET'', rq_path = ''/api/v1/exports/E1/download'', rq_query = [(''token'', x_download_token demo_sent)],
     rq_headers = [], rq_remote_addr = [], rq_params = [(''exportID'', ''E1'')], rq_body = BodyMalformed, rq_claims = None, rq_member = None,
     rq_id = []\<rparr>"

lemma demo_sent_simps: "x_id demo_sent = ''E1''" "x_status demo_sent = export_completed" "is_downloadable 8000 demo_sent"
  "x_row_count demo_sent = 0"
  by (simp_all add: demo_sent_def finish_export_def is_downloadable_def export_completed_def pg_time_def hour_def)

section \<open>The properties at work\<close>

theorem export_lifecycle_witness:
  "demo_row \<in> set (ew_rows (er_world demo_queued))
   \<and> (\<exists>y \<in> set (ew_rows (er_world demo_taken)). later_row demo_row y) \<and> distinct (er_claims demo_taken)"
proof -
  have row: "demo_row \<in> set (ew_rows (er_world demo_queued))" by (simp add: demo_queued_def ew_rows_def)
  from export_lifecycle [OF demo_reach(1,2) row] row show ?thesis by simp
qed

theorem stuck_export_witness:
  "x_status (start_job 6000 demo_row) = export_processing
   \<and> start_job 6000 demo_row \<in> set (ew_rows (er_world (demo_crashed\<lparr>er_world := (er_world demo_crashed)\<lparr>ew_db := replicate_exports (ew_db (er_world demo_crashed))\<rparr>\<rparr>)))"
proof -
  let ?s = "demo_crashed\<lparr>er_world := (er_world demo_crashed)\<lparr>ew_db := replicate_exports (ew_db (er_world demo_crashed))\<rparr>\<rparr>"
  have row: "start_job 6000 demo_row \<in> set (ew_rows (er_world demo_crashed))" "start_job 6000 demo_row \<notin> set (er_running demo_crashed)"
    by (simp_all add: demo_crashed_def demo_taken_def ew_rows_def)
  have "reach (export_step demo_xcfg) demo_crashed ?s"
    by (rule reach.more [OF reach.start]) (rule export_step.replicate)
  from stuck_export [OF demo_reach(4) row(1) _ row(2) this] show ?thesis by simp
qed



theorem worker_empties_queue_witness:
  "pending_jobs (ew_rows (er_world demo_queued)) = [demo_row]
   \<and> pending_jobs (ew_rows (worker_run (cfg_worker demo_xcfg) [(7000, 6000)] (er_world demo_queued))) = []"
proof -
  have p: "pending_jobs (ew_rows (er_world demo_queued)) = [demo_row]"
    by (simp add: pending_jobs_def demo_queued_def ew_rows_def export_pending_def)
  from worker_empties_queue [OF demo_reach(1), of "[(7000, 6000)]"] p show ?thesis by (simp add: demo_queued_def)
qed

text \<open>A click in the window, a bot, and a click of another workspace.\<close>

definition demo_click :: "string \<Rightarrow> bool \<Rightarrow> gotime \<Rightarrow> redirect_event" where
  "demo_click ws robot t = \<lparr>re_id = ''C'', re_short_code = ''abc'', re_workspace_id = ws, re_occurred_at = t, re_ip_hash = [],
     re_user_agent = [], re_device_type = ''desktop'', re_browser_family = ''Fire, fox'', re_os_family = [], re_is_bot = robot,
     re_country_code = ''XX'', re_referrer_domain = [], re_referrer_raw = [], re_request_id = []\<rparr>"

definition demo_export_world :: "(nat \<times> gerr) option list \<Rightarrow> export_world" where
  "demo_export_world cs = (er_world demo_taken)\<lparr>ew_db := (ew_db (er_world demo_taken))\<lparr>xdb_cuts := cs,
     xdb_events := [demo_click ''w'' False 1000, demo_click ''w'' True 1000, demo_click ''v'' False 1000, demo_click ''w'' False 0]\<rparr>\<rparr>"

lemma demo_export_rows: "length (job_rows (start_job 6000 demo_row) (demo_export_world cs)) = 2"
  by (simp add: job_rows_def select_events_def demo_export_world_def query_of_job_def exported_def demo_click_def start_job_def demo_export_defs)



end
