(* ===== verification/AnalyticsQuery.thy ===== *)
theory AnalyticsQuery
  imports Analytics UrlRepo "HOL-Library.Log_Nat"
begin

text \<open>
  Reading the analytics of a link: the windows, granularities and dimensions of \<open>internal/domain/analytics/query.go\<close>,
  the use cases of \<open>internal/application/analytics\<close> and the queries of
  \<open>internal/infrastructure/postgres/analytics_query_repository.go\<close>. The session of the database is in UTC.
\<close>

section \<open>Windows, granularities, dimensions\<close>

definition window_1h :: string where "window_1h = ''1h''"
definition window_24h :: string where "window_24h = ''24h''"
definition window_7d :: string where "window_7d = ''7d''"
definition window_30d :: string where "window_30d = ''30d''"
definition window_all :: string where "window_all = ''all''"

definition window_duration :: "string \<Rightarrow> duration" where
  "window_duration w =
     (if w = window_1h then hour
      else if w = window_24h then 24 * hour
      else if w = window_7d then 7 * 24 * hour
      else if w = window_30d then 30 * 24 * hour
      else 0)"

definition window_valid :: "string \<Rightarrow> bool" where
  "window_valid w = (w \<in> {window_1h, window_24h, window_7d, window_30d, window_all})"

text \<open>A parser gives the text of its error, or the value.\<close>

definition parse_window :: "string \<Rightarrow> string + string" where
  "parse_window s = (if window_valid s then Inr s else Inl ''analytics: window must be one of: 1h, 24h, 7d, 30d, all'')"

definition granularity_1m :: string where "granularity_1m = ''1m''"
definition granularity_1h :: string where "granularity_1h = ''1h''"
definition granularity_1d :: string where "granularity_1d = ''1d''"

lemmas granularity_defs = granularity_1m_def granularity_1h_def granularity_1d_def

definition granularity_valid :: "string \<Rightarrow> bool" where
  "granularity_valid g = (g \<in> {granularity_1m, granularity_1h, granularity_1d})"

definition parse_granularity :: "string \<Rightarrow> string + string" where
  "parse_granularity s =
     (if granularity_valid s then Inr s else Inl ''analytics: granularity must be one of: 1m, 1h, 1d'')"

definition validate_window_granularity :: "gotime \<Rightarrow> gotime \<Rightarrow> string \<Rightarrow> string option" where
  "validate_window_granularity start end_t g =
     (let span = time_sub end_t start in
      if g = granularity_1m \<and> span > 24 * hour
      then Some ''analytics: 1-minute granularity requires a window of 24 hours or less''
      else if g = granularity_1h \<and> span > 30 * 24 * hour
      then Some ''analytics: 1-hour granularity requires a window of 30 days or less''
      else if g = granularity_1d \<and> span > 365 * 24 * hour
      then Some ''analytics: 1-day granularity requires a window of 365 days or less''
      else None)"

definition dimension_country :: string where "dimension_country = ''country''"
definition dimension_device :: string where "dimension_device = ''device_type''"
definition dimension_browser :: string where "dimension_browser = ''browser_family''"
definition dimension_os :: string where "dimension_os = ''os_family''"
definition dimension_referrer :: string where "dimension_referrer = ''referrer_domain''"

lemmas dimension_defs = dimension_country_def dimension_device_def dimension_browser_def dimension_os_def dimension_referrer_def

definition dimension_valid :: "string \<Rightarrow> bool" where
  "dimension_valid d = (d \<in> {dimension_country, dimension_device, dimension_browser, dimension_os, dimension_referrer})"

definition column_name :: "string \<Rightarrow> string" where
  "column_name d =
     (if d = dimension_country then ''country_code''
      else if d = dimension_device then ''device_type''
      else if d = dimension_browser then ''browser_family''
      else if d = dimension_os then ''os_family''
      else if d = dimension_referrer then ''referrer_domain''
      else [])"

definition parse_dimension :: "string \<Rightarrow> string + string" where
  "parse_dimension s =
     (if dimension_valid s then Inr s
      else Inl ''analytics: dimension must be one of: country, device_type, browser_family, os_family, referrer_domain'')"

section \<open>Results\<close>

text \<open>A float64, as its mantissa and exponent.\<close>

type_synonym float64 = "int \<times> int"

record summary =
  sm_short_code :: string
  sm_total_clicks :: int
  sm_unique_ips :: int
  sm_window_start :: gotime
  sm_window_end :: gotime
  sm_bot_clicks :: int

record series_point =
  sp_bucket_start :: gotime
  sp_clicks :: int
  sp_unique_ips :: int

record time_series =
  ts_short_code :: string
  ts_granularity :: string
  ts_window_start :: gotime
  ts_window_end :: gotime
  ts_points :: "series_point list"

record dimension_count =
  dc_value :: string
  dc_clicks :: int
  dc_percentage :: float64

record click_breakdown =
  bd_short_code :: string
  bd_dimension :: string
  bd_window_start :: gotime
  bd_window_end :: gotime
  bd_total_clicks :: int
  bd_counts :: "dimension_count list"

section \<open>The queries\<close>

text \<open>\<open>redirect_events\<close> as the replica shows it. The database may return rows of the same count in any order: \<open>aqd_rank\<close>
  is the one it chooses.\<close>

record analytics_db =
  aqd_events :: "redirect_event list"
  aqd_rank :: "string \<Rightarrow> nat"
  aqd_faults :: faults

record 's analytics_queries =
  aq_summary :: "string \<Rightarrow> gotime \<Rightarrow> gotime \<Rightarrow> 's \<Rightarrow> summary result \<times> 's"
  aq_series :: "string \<Rightarrow> gotime \<Rightarrow> gotime \<Rightarrow> string \<Rightarrow> 's \<Rightarrow> time_series result \<times> 's"
  aq_breakdown :: "string \<Rightarrow> gotime \<Rightarrow> gotime \<Rightarrow> string \<Rightarrow> 's \<Rightarrow> click_breakdown result \<times> 's"

definition events_between :: "string \<Rightarrow> gotime \<Rightarrow> gotime \<Rightarrow> redirect_event list \<Rightarrow> redirect_event list" where
  "events_between sc start end_t es =
     filter (\<lambda>e. re_short_code e = sc \<and> pg_time start \<le> re_occurred_at e \<and> re_occurred_at e < pg_time end_t) es"

definition human_between :: "string \<Rightarrow> gotime \<Rightarrow> gotime \<Rightarrow> redirect_event list \<Rightarrow> redirect_event list" where
  "human_between sc start end_t es = filter (\<lambda>e. \<not> re_is_bot e) (events_between sc start end_t es)"

text \<open>\<open>COUNT(DISTINCT ip_hash)\<close>: the empty hash is \<open>NULL\<close> and is not counted.\<close>

definition count_ips :: "redirect_event list \<Rightarrow> int" where
  "count_ips es = int (length (remdups (filter (\<lambda>h. h \<noteq> []) (map re_ip_hash es))))"

definition analytics_query :: "string \<Rightarrow> (redirect_event list \<Rightarrow> 'a) \<Rightarrow> analytics_db \<Rightarrow> 'a result \<times> analytics_db" where
  "analytics_query pre f db =
     (case next_fault (aqd_faults db) of
        (Some e, fs) \<Rightarrow> (Inl (EWrap pre (EOther (pgx_err_text e)) []), db\<lparr>aqd_faults := fs\<rparr>)
      | (None, fs) \<Rightarrow> (Inr (f (aqd_events db)), db\<lparr>aqd_faults := fs\<rparr>))"

definition get_summary :: "string \<Rightarrow> gotime \<Rightarrow> gotime \<Rightarrow> analytics_db \<Rightarrow> summary result \<times> analytics_db" where
  "get_summary sc start end_t =
     analytics_query ''analytics: summary query: ''
       (\<lambda>es. \<lparr>sm_short_code = sc, sm_total_clicks = int (length (human_between sc start end_t es)),
          sm_unique_ips = count_ips (human_between sc start end_t es), sm_window_start = start, sm_window_end = end_t,
          sm_bot_clicks = int (length (filter re_is_bot (events_between sc start end_t es)))\<rparr>)"

text \<open>\<open>granularityToSQL\<close>: the length of a bucket; \<open>date_trunc\<close>; \<open>generate_series\<close>, whose ends are included.\<close>

definition bucket_length :: "string \<Rightarrow> duration option" where
  "bucket_length g =
     (if g = granularity_1m then Some minute else if g = granularity_1h then Some hour
      else if g = granularity_1d then Some (24 * hour) else None)"

definition date_trunc :: "duration \<Rightarrow> gotime \<Rightarrow> gotime" where
  "date_trunc step t = t - t mod step"

definition generate_series :: "gotime \<Rightarrow> gotime \<Rightarrow> duration \<Rightarrow> gotime list" where
  "generate_series a b step = map (\<lambda>k. a + k * step) [0..(b - a) div step]"

definition microsecond :: duration where "microsecond = 1000"

definition series_points :: "duration \<Rightarrow> string \<Rightarrow> gotime \<Rightarrow> gotime \<Rightarrow> redirect_event list \<Rightarrow> series_point list" where
  "series_points step sc start end_t es =
     map (\<lambda>b. let evs = filter (\<lambda>e. date_trunc step (re_occurred_at e) = b) (human_between sc start end_t es)
              in \<lparr>sp_bucket_start = b, sp_clicks = int (length evs), sp_unique_ips = count_ips evs\<rparr>)
       (generate_series (date_trunc step (pg_time start)) (date_trunc step (pg_time end_t - microsecond)) step)"

definition get_time_series :: "string \<Rightarrow> gotime \<Rightarrow> gotime \<Rightarrow> string \<Rightarrow> analytics_db \<Rightarrow> time_series result \<times> analytics_db" where
  "get_time_series sc start end_t g db =
     (case bucket_length g of
        None \<Rightarrow> (Inl (EOther (''analytics: unsupported granularity '' @ go_quote g)), db)
      | Some step \<Rightarrow>
          analytics_query ''analytics: timeseries query: ''
            (\<lambda>es. \<lparr>ts_short_code = sc, ts_granularity = g, ts_window_start = start, ts_window_end = end_t,
               ts_points = series_points step sc start end_t es\<rparr>) db)"

text \<open>The column of a dimension; \<open>country_code\<close> has a fixed width of two.\<close>

definition dimension_value :: "string \<Rightarrow> redirect_event \<Rightarrow> string" where
  "dimension_value col e =
     (if col = ''country_code''
      then (if re_country_code e = [] then [] else re_country_code e @ replicate (2 - char_length (re_country_code e)) (CHR '' ''))
      else if col = ''device_type'' then re_device_type e
      else if col = ''browser_family'' then re_browser_family e
      else if col = ''os_family'' then re_os_family e
      else re_referrer_domain e)"

definition group_counts :: "string \<Rightarrow> redirect_event list \<Rightarrow> (string \<times> int) list" where
  "group_counts col es =
     (let vs = map (dimension_value col) es in map (\<lambda>v. (v, int (count_list vs v))) (remdups vs))"

definition top_counts :: "(string \<Rightarrow> nat) \<Rightarrow> (string \<times> int) list \<Rightarrow> (string \<times> int) list" where
  "top_counts rank gs = take 50 (sort_key (\<lambda>g. - snd g) (sort_key (\<lambda>g. rank (fst g)) gs))"

text \<open>The nearest float64 of a positive number in the range of normal numbers, ties to even.\<close>

definition round_even :: "rat \<Rightarrow> int" where
  "round_even q =
     (let f = \<lfloor>q\<rfloor>; h = q - of_int f in if h < 1 / 2 \<or> (h = 1 / 2 \<and> even f) then f else f + 1)"

definition pow2 :: "int \<Rightarrow> rat" where
  "pow2 k = (if 0 \<le> k then 2 ^ nat k else 1 / 2 ^ nat (- k))"

definition float_value :: "float64 \<Rightarrow> rat" where
  "float_value x = of_int (fst x) * pow2 (snd x)"

definition to_float64 :: "rat \<Rightarrow> float64" where
  "to_float64 q =
     (if q \<le> 0 then (0, 0)
      else let (n, d) = quotient_of q;
               e = int (floorlog 2 (nat n)) - int (floorlog 2 (nat d));
               e = (if q < pow2 e then e - 1 else e) - 52
           in (round_even (q / pow2 e), e))"

definition percentage :: "int \<Rightarrow> int \<Rightarrow> float64" where
  "percentage n m = (if m > 0 then to_float64 (float_value (to_float64 (of_int n / of_int m)) * 100) else (0, 0))"

definition breakdown_of :: "string \<Rightarrow> gotime \<Rightarrow> gotime \<Rightarrow> string \<Rightarrow> (string \<times> int) list \<Rightarrow> click_breakdown" where
  "breakdown_of sc start end_t d counts =
     (let n_all = sum_list (map snd counts) in
      \<lparr>bd_short_code = sc, bd_dimension = d, bd_window_start = start, bd_window_end = end_t, bd_total_clicks = n_all,
       bd_counts = map (\<lambda>(v, n). \<lparr>dc_value = v, dc_clicks = n, dc_percentage = percentage n n_all\<rparr>) counts\<rparr>)"

definition get_breakdown :: "string \<Rightarrow> gotime \<Rightarrow> gotime \<Rightarrow> string \<Rightarrow> analytics_db \<Rightarrow> click_breakdown result \<times> analytics_db" where
  "get_breakdown sc start end_t d db =
     (if column_name d = [] then (Inl (EOther (''analytics: unknown dimension '' @ go_quote d)), db)
      else analytics_query ''analytics: breakdown query: ''
             (\<lambda>es. breakdown_of sc start end_t d
                     (top_counts (aqd_rank db) (group_counts (column_name d) (human_between sc start end_t es)))) db)"

definition pg_analytics :: "analytics_db analytics_queries" where
  "pg_analytics = \<lparr>aq_summary = get_summary, aq_series = get_time_series, aq_breakdown = get_breakdown\<rparr>"

section \<open>The use cases\<close>

text \<open>\<open>URLReadRepository\<close> and the read of the link, which is what keeps a workspace to its own links.\<close>

type_synonym 's url_reader = "string \<Rightarrow> string \<Rightarrow> 's \<Rightarrow> url result \<times> 's"

definition analytics_url :: "'s url_reader \<Rightarrow> string \<Rightarrow> string \<Rightarrow> string \<Rightarrow> 's \<Rightarrow> url result \<times> 's" where
  "analytics_url urls what i ws s =
     (case urls i ws s of
        (Inl err, s1) \<Rightarrow>
          (if url_is_not_found err then (Inl (EApp AppErrNotFound), s1)
           else (Inl (EWrap (''resolving url for '' @ what @ '': '') err []), s1))
      | (Inr u, s1) \<Rightarrow> (Inr u, s1))"

definition named_window :: "string \<Rightarrow> gotime \<Rightarrow> url \<Rightarrow> gotime" where
  "named_window w now u = (if w = window_all then created_at u else now - window_duration w)"

record summary_result =
  sur_short_code :: string
  sur_short_url :: string
  sur_total_clicks :: int
  sur_unique_ips :: int
  sur_bot_clicks :: int
  sur_window_start :: gotime
  sur_window_end :: gotime
  sur_window :: string

definition summary_handle ::
  "'s analytics_queries \<Rightarrow> 's url_reader \<Rightarrow> string \<Rightarrow> gotime \<Rightarrow> string \<Rightarrow> string \<Rightarrow> string \<Rightarrow> 's \<Rightarrow> summary_result result \<times> 's" where
  "summary_handle q urls base_url now lid ws window s =
     (if \<not> window_valid window then (Inl (new_validation_error ''window must be one of: 1h, 24h, 7d, 30d, all'' None), s)
      else
     (case analytics_url urls ''analytics'' lid ws s of
        (Inl err, s1) \<Rightarrow> (Inl err, s1)
      | (Inr u, s1) \<Rightarrow>
          let start = named_window window now u in
          (case aq_summary q (short_code u) start now s1 of
             (Inl err, s2) \<Rightarrow> (Inl (EWrap ''fetching analytics summary: '' err []), s2)
           | (Inr x, s2) \<Rightarrow>
               (Inr \<lparr>sur_short_code = short_code u, sur_short_url = base_url @ ''/'' @ short_code u,
                    sur_total_clicks = sm_total_clicks x, sur_unique_ips = sm_unique_ips x, sur_bot_clicks = sm_bot_clicks x,
                    sur_window_start = start, sur_window_end = now, sur_window = window\<rparr>, s2))))"

record series_query =
  sq_url_id :: string
  sq_workspace_id :: string
  sq_start :: "gotime option"
  sq_end :: "gotime option"
  sq_window :: string
  sq_granularity :: string

definition series_window :: "gotime \<Rightarrow> series_query \<Rightarrow> url \<Rightarrow> gotime \<times> gotime" where
  "series_window now q u =
     (let end_t = (case sq_end q of None \<Rightarrow> now | Some t \<Rightarrow> t);
          start = (case sq_start q of
                     Some t \<Rightarrow> t
                   | None \<Rightarrow> if window_valid (sq_window q) \<and> sq_window q \<noteq> window_all then end_t - window_duration (sq_window q)
                             else created_at u)
      in (start, end_t))"

definition series_handle ::
  "'s analytics_queries \<Rightarrow> 's url_reader \<Rightarrow> gotime \<Rightarrow> series_query \<Rightarrow> 's \<Rightarrow> time_series result \<times> 's" where
  "series_handle q urls now sq s =
     (if \<not> granularity_valid (sq_granularity sq)
      then (Inl (new_validation_error ''granularity must be one of: 1m, 1h, 1d'' None), s)
      else
     (case analytics_url urls ''timeseries'' (sq_url_id sq) (sq_workspace_id sq) s of
        (Inl err, s1) \<Rightarrow> (Inl err, s1)
      | (Inr u, s1) \<Rightarrow>
     (case series_window now sq u of
        (start, end_t) \<Rightarrow>
     (case validate_window_granularity start end_t (sq_granularity sq) of
        Some m \<Rightarrow> (Inl (new_validation_error m (Some (EOther m))), s1)
      | None \<Rightarrow>
          (case aq_series q (short_code u) start end_t (sq_granularity sq) s1 of
             (Inl err, s2) \<Rightarrow> (Inl (EWrap ''fetching time series: '' err []), s2)
           | (Inr x, s2) \<Rightarrow>
               (Inr \<lparr>ts_short_code = short_code u, ts_granularity = sq_granularity sq, ts_window_start = start,
                    ts_window_end = end_t, ts_points = ts_points x\<rparr>, s2))))))"

definition breakdown_handle ::
  "'s analytics_queries \<Rightarrow> 's url_reader \<Rightarrow> gotime \<Rightarrow> string \<Rightarrow> string \<Rightarrow> string \<Rightarrow> string \<Rightarrow> 's \<Rightarrow> click_breakdown result \<times> 's" where
  "breakdown_handle q urls now lid ws window d s =
     (if \<not> window_valid window then (Inl (new_validation_error ''window must be one of: 1h, 24h, 7d, 30d, all'' None), s)
      else if \<not> dimension_valid d
      then (Inl (new_validation_error
                   ''dimension must be one of: country, device_type, browser_family, os_family, referrer_domain'' None), s)
      else
     (case analytics_url urls ''breakdown'' lid ws s of
        (Inl err, s1) \<Rightarrow> (Inl err, s1)
      | (Inr u, s1) \<Rightarrow>
          let start = named_window window now u in
          (case aq_breakdown q (short_code u) start now d s1 of
             (Inl err, s2) \<Rightarrow> (Inl (EWrap ''fetching breakdown: '' err []), s2)
           | (Inr x, s2) \<Rightarrow>
               (Inr \<lparr>bd_short_code = short_code u, bd_dimension = d, bd_window_start = start, bd_window_end = now,
                    bd_total_clicks = bd_total_clicks x, bd_counts = bd_counts x\<rparr>, s2))))"

section \<open>Over the two tables\<close>

record query_world =
  qw_urls :: url_db
  qw_events :: analytics_db

definition qw_get_url :: "query_world url_reader" where
  "qw_get_url i ws w = (case get_by_id i ws (qw_urls w) of (r, db) \<Rightarrow> (r, w\<lparr>qw_urls := db\<rparr>))"

definition on_events :: "(analytics_db \<Rightarrow> 'a \<times> analytics_db) \<Rightarrow> query_world \<Rightarrow> 'a \<times> query_world" where
  "on_events f w = (case f (qw_events w) of (r, db) \<Rightarrow> (r, w\<lparr>qw_events := db\<rparr>))"

definition qw_queries :: "query_world analytics_queries" where
  "qw_queries =
     \<lparr>aq_summary = \<lambda>sc a b. on_events (get_summary sc a b), aq_series = \<lambda>sc a b g. on_events (get_time_series sc a b g),
      aq_breakdown = \<lambda>sc a b d. on_events (get_breakdown sc a b d)\<rparr>"

end
