(* ===== verification/AnalyticsHttp.thy ===== *)
theory AnalyticsHttp
  imports AnalyticsQuery HttpHandlers Rendering
begin

text \<open>
  \<open>internal/interfaces/http/handler/analytics.go\<close> and \<open>stream.go\<close>, and the subscriptions of
  \<open>internal/infrastructure/redis/clicksub.go\<close>.
\<close>

section \<open>Parsing instants\<close>

text \<open>\<open>time.Parse(time.RFC3339, s)\<close> is laxer than the JSON form: an hour of one digit, a comma before the fraction,
  offsets up to 24 hours and 60 minutes.\<close>

definition lax_zone :: "string \<Rightarrow> int option" where
  "lax_zone s =
     (if s = ''Z'' then Some 0
      else if length s = 6 \<and> s ! 0 \<in> {CHR ''+'', CHR ''-''} \<and> s ! 3 = CHR '':'' then
        (case (read_digits 2 (take 2 (drop 1 s)), read_digits 2 (drop 4 s)) of
           (Some h, Some m) \<Rightarrow>
             if h \<le> 24 \<and> m \<le> 60
             then Some ((if s ! 0 = CHR ''-'' then - 1 else 1) * (h * 3600 + m * 60)) else None
         | _ \<Rightarrow> None)
      else None)"

definition lax_stamp :: "string \<Rightarrow> string" where
  "lax_stamp s =
     (let s1 = (if 12 < length s \<and> s ! 12 = CHR '':'' then take 11 s @ ''0'' @ drop 11 s else s)
      in if 19 < length s1 \<and> s1 ! 19 = CHR '','' then s1[19 := CHR ''.''] else s1)"

definition parse_time_rfc3339 :: "string \<Rightarrow> gotime option" where
  "parse_time_rfc3339 s = parse_stamp lax_zone (lax_stamp s)"

section \<open>Analytics\<close>

record 's analytics_http =
  ah_summary :: "string \<Rightarrow> string \<Rightarrow> string \<Rightarrow> 's \<Rightarrow> summary_result result \<times> 's"
  ah_series :: "series_query \<Rightarrow> 's \<Rightarrow> time_series result \<times> 's"
  ah_breakdown :: "string \<Rightarrow> string \<Rightarrow> string \<Rightarrow> string \<Rightarrow> 's \<Rightarrow> click_breakdown result \<times> 's"

definition analytics_error_response :: "request \<Rightarrow> gerr \<Rightarrow> response" where
  "analytics_error_response r err =
     (case as_validation err of
        Some m \<Rightarrow> resp_unprocessable m (rq_path r) []
      | None \<Rightarrow>
          if errors_is err (EApp AppErrNotFound) then resp_not_found (rq_path r) else resp_internal_error (rq_path r))"

definition query_or :: "request \<Rightarrow> string \<Rightarrow> string \<Rightarrow> string" where
  "query_or r k d = (let v = rq_query_get r k in if v = [] then d else v)"

definition summary_json :: "summary_result \<Rightarrow> json" where
  "summary_json x =
     JObj [(''short_code'', JStr (sur_short_code x)), (''short_url'', JStr (sur_short_url x)),
           (''total_clicks'', JInt (sur_total_clicks x)), (''unique_ips'', JInt (sur_unique_ips x)),
           (''bot_clicks'', JInt (sur_bot_clicks x)), (''window'', JStr (sur_window x)),
           (''window_start'', JStr (format_rfc3339 (sur_window_start x))), (''window_end'', JStr (format_rfc3339 (sur_window_end x)))]"

definition analytics_summary :: "'s analytics_http \<Rightarrow> 's handler" where
  "analytics_summary h r s =
     (case rq_claims r of
        None \<Rightarrow> (unauthorized_response, s)
      | Some c \<Rightarrow>
     (case parse_window (query_or r ''window'' ''24h'') of
        Inl m \<Rightarrow> (resp_unprocessable m (rq_path r) [], s)
      | Inr w \<Rightarrow>
          (case ah_summary h (rq_param r ''urlID'') (cl_workspace_id c) w s of
             (Inl err, s1) \<Rightarrow> (analytics_error_response r err, s1)
           | (Inr x, s1) \<Rightarrow> (write_json 200 (envelope (summary_json x)), s1))))"

definition point_json :: "series_point \<Rightarrow> json" where
  "point_json p = JObj [(''bucket_start'', JStr (format_rfc3339 (sp_bucket_start p))), (''clicks'', JInt (sp_clicks p)),
     (''unique_ips'', JInt (sp_unique_ips p))]"

definition series_json :: "time_series \<Rightarrow> json" where
  "series_json x =
     JObj [(''short_code'', JStr (ts_short_code x)), (''granularity'', JStr (ts_granularity x)),
           (''window_start'', JStr (format_rfc3339 (ts_window_start x))), (''window_end'', JStr (format_rfc3339 (ts_window_end x))),
           (''points'', JArr (map point_json (ts_points x)))]"

text \<open>An optional instant of the query: no value, a value, or a malformed one. The zero time counts as no value.\<close>

definition query_time :: "request \<Rightarrow> string \<Rightarrow> string + gotime option" where
  "query_time r k =
     (let v = rq_query_get r k in
      if v = [] then Inr None
      else (case parse_time_rfc3339 v of
              None \<Rightarrow> Inl (k @ '' must be RFC 3339 formatted'')
            | Some t \<Rightarrow> Inr (if t = zero_time then None else Some t)))"

definition analytics_series :: "'s analytics_http \<Rightarrow> 's handler" where
  "analytics_series h r s =
     (case rq_claims r of
        None \<Rightarrow> (unauthorized_response, s)
      | Some c \<Rightarrow>
     (case parse_granularity (query_or r ''granularity'' ''1h'') of
        Inl m \<Rightarrow> (resp_unprocessable m (rq_path r) [], s)
      | Inr g \<Rightarrow>
     (case query_time r ''start'' of
        Inl m \<Rightarrow> (resp_unprocessable m (rq_path r) [], s)
      | Inr start \<Rightarrow>
     (case query_time r ''end'' of
        Inl m \<Rightarrow> (resp_unprocessable m (rq_path r) [], s)
      | Inr end_t \<Rightarrow>
     (case (if start = None then parse_window (query_or r ''window'' ''24h'') else Inr []) of
        Inl m \<Rightarrow> (resp_unprocessable m (rq_path r) [], s)
      | Inr w \<Rightarrow>
          (case ah_series h \<lparr>sq_url_id = rq_param r ''urlID'', sq_workspace_id = cl_workspace_id c, sq_start = start, sq_end = end_t,
                  sq_window = w, sq_granularity = g\<rparr> s of
             (Inl err, s1) \<Rightarrow> (analytics_error_response r err, s1)
           | (Inr x, s1) \<Rightarrow> (write_json 200 (envelope (series_json x)), s1)))))))"

definition count_json :: "dimension_count \<Rightarrow> json" where
  "count_json d = JObj [(''value'', JStr (dc_value d)), (''clicks'', JInt (dc_clicks d)), (''percentage'', JFloat (fst (dc_percentage d)) (snd (dc_percentage d)))]"

definition breakdown_json :: "click_breakdown \<Rightarrow> json" where
  "breakdown_json x =
     JObj [(''short_code'', JStr (bd_short_code x)), (''dimension'', JStr (bd_dimension x)), (''total_clicks'', JInt (bd_total_clicks x)),
           (''window_start'', JStr (format_rfc3339 (bd_window_start x))), (''window_end'', JStr (format_rfc3339 (bd_window_end x))),
           (''counts'', JArr (map count_json (bd_counts x)))]"

definition analytics_breakdown :: "'s analytics_http \<Rightarrow> 's handler" where
  "analytics_breakdown h r s =
     (case rq_claims r of
        None \<Rightarrow> (unauthorized_response, s)
      | Some c \<Rightarrow>
     (case parse_dimension (query_or r ''dimension'' ''country'') of
        Inl m \<Rightarrow> (resp_unprocessable m (rq_path r) [], s)
      | Inr d \<Rightarrow>
     (case parse_window (query_or r ''window'' ''7d'') of
        Inl m \<Rightarrow> (resp_unprocessable m (rq_path r) [], s)
      | Inr w \<Rightarrow>
          (case ah_breakdown h (rq_param r ''urlID'') (cl_workspace_id c) w d s of
             (Inl err, s1) \<Rightarrow> (analytics_error_response r err, s1)
           | (Inr x, s1) \<Rightarrow> (write_json 200 (envelope (breakdown_json x)), s1)))))"

section \<open>Click streams\<close>

text \<open>
  A subscription is a channel or a pattern of channels; Redis delivers to it the messages published on the channels
  it matches, in order. \<open>sb_matches\<close> is the matching of patterns in Redis. \<open>None\<close> is a payload that is not the JSON
  of a click, which is skipped.
\<close>

datatype subscription = ToChannel string | ToPattern string

definition subscribe_to_url :: "string \<Rightarrow> string \<Rightarrow> subscription" where
  "subscribe_to_url ws sc = ToChannel (channel_name ws sc)"

definition subscribe_to_workspace :: "string \<Rightarrow> subscription" where
  "subscribe_to_workspace ws = ToPattern (workspace_pattern ws)"

definition delivers :: "(string \<Rightarrow> string \<Rightarrow> bool) \<Rightarrow> subscription \<Rightarrow> string \<Rightarrow> bool" where
  "delivers glob sub ch = (case sub of ToChannel c \<Rightarrow> ch = c | ToPattern p \<Rightarrow> glob p ch)"

text \<open>What happens while a stream is open: a message on some channel, or the timer.\<close>

datatype stream_item = Published string "click_event option" | Heartbeat

definition sse_event :: "string \<Rightarrow> json \<Rightarrow> string" where
  "sse_event name v = ''event: '' @ name @ [CHR 0x0A] @ ''data: '' @ json_text v @ [CHR 0x0A, CHR 0x0A]"

definition stream_chunk :: "(string \<Rightarrow> string \<Rightarrow> bool) \<Rightarrow> subscription \<Rightarrow> stream_item \<Rightarrow> string" where
  "stream_chunk glob sub it =
     (case it of
        Heartbeat \<Rightarrow> '': heartbeat'' @ [CHR 0x0A, CHR 0x0A]
      | Published ch payload \<Rightarrow>
          (case payload of
             None \<Rightarrow> []
           | Some e \<Rightarrow> if delivers glob sub ch \<and> \<not> ce_is_bot e then sse_event ''click'' (click_event_json e) else []))"

text \<open>The response once the client leaves, while every write succeeds.\<close>

definition stream_response :: "(string \<Rightarrow> string \<Rightarrow> bool) \<Rightarrow> subscription \<Rightarrow> stream_item list \<Rightarrow> response" where
  "stream_response glob sub items =
     \<lparr>rs_status = 200,
      rs_headers = [(''Content-Type'', ''text/event-stream''), (''Cache-Control'', ''no-cache''), (''Connection'', ''keep-alive''),
        (''X-Accel-Buffering'', ''no'')],
      rs_body = TextBody (sse_event ''connected'' (JObj [(''status'', JStr ''connected'')]) @ concat (map (stream_chunk glob sub) items))\<rparr>"

record 's stream_http =
  sh_get_url :: "string \<Rightarrow> string \<Rightarrow> 's \<Rightarrow> url result \<times> 's"
  sh_subscribe :: "subscription \<Rightarrow> unit result"
  sh_glob :: "string \<Rightarrow> string \<Rightarrow> bool"

definition stream_subscribed :: "'s stream_http \<Rightarrow> subscription \<Rightarrow> stream_item list \<Rightarrow> request \<Rightarrow> response" where
  "stream_subscribed h sub items r =
     (case sh_subscribe h sub of
        Inl e \<Rightarrow> resp_internal_error (rq_path r)
      | Inr _ \<Rightarrow> stream_response (sh_glob h) sub items)"

definition stream_workspace :: "'s stream_http \<Rightarrow> stream_item list \<Rightarrow> 's handler" where
  "stream_workspace h items r s =
     (case rq_claims r of
        None \<Rightarrow> (unauthorized_response, s)
      | Some c \<Rightarrow> (stream_subscribed h (subscribe_to_workspace (cl_workspace_id c)) items r, s))"

definition stream_url :: "'s stream_http \<Rightarrow> stream_item list \<Rightarrow> 's handler" where
  "stream_url h items r s =
     (case rq_claims r of
        None \<Rightarrow> (unauthorized_response, s)
      | Some c \<Rightarrow>
          (case sh_get_url h (rq_param r ''urlID'') (cl_workspace_id c) s of
             (Inl err, s1) \<Rightarrow>
               (if errors_is err (EUrl UrlErrNotFound) \<or> errors_is err (EUrl UrlErrDeleted) then resp_not_found (rq_path r)
                else resp_internal_error (rq_path r), s1)
           | (Inr u, s1) \<Rightarrow> (stream_subscribed h (subscribe_to_url (cl_workspace_id c) (short_code u)) items r, s1)))"

text \<open>\<open>Publish\<close> sends a click on its channel.\<close>

definition publish_click :: "click_event \<Rightarrow> stream_item" where
  "publish_click e = Published (click_channel e) (Some e)"

end
