(* ===== verification/QueryProperties.thy ===== *)
theory QueryProperties
  imports AnalyticsHttp
begin

text \<open>
  What the analytics of a link show: the points of a time series are consecutive buckets that add up to the summary
  of the same window, a breakdown counts every click while there are at most fifty values, and a stream of a
  workspace carries the clicks of that workspace only.
\<close>

section \<open>Counting by value\<close>

lemma sum_count_partition:
  assumes "distinct bs" and "\<forall>x \<in> set xs. f x \<in> set bs"
  shows "(\<Sum>b\<leftarrow>bs. int (length (filter (\<lambda>x. f x = b) xs))) = int (length xs)"
  using assms(2)
proof (induction xs)
  case (Cons x xs)
  have "(\<Sum>b\<leftarrow>bs. int (length (filter (\<lambda>y. f y = b) (x # xs))))
      = (\<Sum>b\<leftarrow>bs. int (length (filter (\<lambda>y. f y = b) xs)) + (if b = f x then 1 else 0))"
    by (rule arg_cong [of _ _ sum_list], rule map_cong) auto
  also have "\<dots> = (\<Sum>b\<leftarrow>bs. int (length (filter (\<lambda>y. f y = b) xs))) + (\<Sum>b\<leftarrow>bs. if b = f x then 1 else 0)"
    by (rule sum_list_addf)
  also have "(\<Sum>b\<leftarrow>bs. if b = f x then 1 else (0 :: int)) = 1"
    using assms(1) Cons.prems by (simp add: sum_list_distinct_conv_sum_set sum.delta)
  finally show ?case using Cons by simp
qed simp

section \<open>Time series\<close>

lemma generate_series_mem:
  assumes "0 < step" and "(t - a) mod step = 0"
  shows "t \<in> set (generate_series a b step) \<longleftrightarrow> a \<le> t \<and> t \<le> b"
proof -
  obtain k where k: "t - a = step * k" using assms(2) by (metis mod_eq_0_iff_dvd dvd_def)
  then have t: "t = a + k * step" by (simp add: algebra_simps)
  have "t \<in> set (generate_series a b step) \<longleftrightarrow> 0 \<le> k \<and> k \<le> (b - a) div step"
    using assms(1) by (auto simp: generate_series_def t)
  also have "k \<le> (b - a) div step \<longleftrightarrow> k * step \<le> b - a"
  proof
    assume "k \<le> (b - a) div step"
    then have "k * step \<le> (b - a) div step * step" using assms(1) by (simp add: mult_right_mono)
    also have "\<dots> \<le> b - a" using assms(1) by (simp flip: minus_mod_eq_div_mult)
    finally show "k * step \<le> b - a" .
  next
    assume "k * step \<le> b - a"
    from zdiv_mono1 [OF this assms(1)] assms(1) show "k \<le> (b - a) div step" by simp
  qed
  finally show ?thesis using assms(1) by (auto simp: t zero_le_mult_iff)
qed

lemma date_trunc_multiple [simp]: "date_trunc step t mod step = 0"
  by (simp add: date_trunc_def)

lemma date_trunc_mono: "0 < step \<Longrightarrow> s \<le> t \<Longrightarrow> date_trunc step s \<le> date_trunc step t"
  by (simp add: date_trunc_def minus_mod_eq_div_mult zdiv_mono1 mult_right_mono)

lemma date_trunc_diff: "(date_trunc step t - date_trunc step s) mod step = 0"
  by (simp add: date_trunc_def mod_diff_eq [symmetric])

lemma distinct_series: "0 < step \<Longrightarrow> distinct (generate_series a b step)"
  by (simp add: generate_series_def distinct_map inj_on_def)

text \<open>Instants of the table are whole microseconds.\<close>

definition stored_times :: "redirect_event list \<Rightarrow> bool" where
  "stored_times es \<longleftrightarrow> (\<forall>e \<in> set es. pg_time (re_occurred_at e) = re_occurred_at e)"

lemma pg_time_before: "pg_time s < pg_time t \<Longrightarrow> pg_time s \<le> pg_time t - microsecond"
  by (simp add: pg_time_def microsecond_def)

lemma series_adds_up:
  assumes "0 < step" and "stored_times es"
  shows "(\<Sum>p\<leftarrow>series_points step sc start end_t es. sp_clicks p) = int (length (human_between sc start end_t es))"
proof -
  let ?bs = "generate_series (date_trunc step (pg_time start)) (date_trunc step (pg_time end_t - microsecond)) step"
  have "date_trunc step (re_occurred_at e) \<in> set ?bs" if "e \<in> set (human_between sc start end_t es)" for e
  proof -
    from that assms(2) have "pg_time start \<le> re_occurred_at e" "re_occurred_at e < pg_time end_t"
      "pg_time (re_occurred_at e) = re_occurred_at e"
      by (auto simp: human_between_def events_between_def stored_times_def)
    then have "pg_time start \<le> re_occurred_at e" "re_occurred_at e \<le> pg_time end_t - microsecond"
      using pg_time_before [of "re_occurred_at e" end_t] by simp_all
    then show ?thesis
      by (simp add: generate_series_mem [OF assms(1) date_trunc_diff] date_trunc_mono [OF assms(1)])
  qed
  from sum_count_partition [OF distinct_series [OF assms(1)], of "human_between sc start end_t es" "\<lambda>e. date_trunc step (re_occurred_at e)", OF ballI, OF this]
  show ?thesis by (simp add: series_points_def Let_def o_def)
qed


lemma insert_events_stored:
  "insert_events lo hi es rows = Inr rows' \<Longrightarrow> stored_times rows \<Longrightarrow> stored_times rows'"
proof (induction es arbitrary: rows)
  case (Cons e es)
  have "stored_times (rows @ [pg_event e])" using Cons.prems(2) by (auto simp: stored_times_def pg_event_def)
  with Cons show ?case by (auto split: option.splits if_splits)
qed simp

text \<open>Every state the ingestion leaves satisfies it.\<close>

lemma write_many_stored:
  "stored_times (ed_events db) \<Longrightarrow> stored_times (ed_events (snd (write_many_events es db)))"
  by (auto simp: write_many_events_def event_wrap_def set_url_faults_def split: prod.splits option.splits sum.splits
        dest: insert_events_stored)

lemma analytics_query_Inr:
  "analytics_query pre f db = (Inr x, db') \<longleftrightarrow>
     (\<exists>fs. next_fault (aqd_faults db) = (None, fs) \<and> x = f (aqd_events db) \<and> db' = db\<lparr>aqd_faults := fs\<rparr>)"
  by (auto simp: analytics_query_def split: prod.splits option.splits)

lemma get_summary_Inr:
  "get_summary sc a b db = (Inr x, db') \<Longrightarrow>
     sm_total_clicks x = int (length (human_between sc a b (aqd_events db))) \<and> aqd_events db' = aqd_events db
     \<and> sm_bot_clicks x = int (length (filter re_is_bot (events_between sc a b (aqd_events db))))
     \<and> sm_unique_ips x = count_ips (human_between sc a b (aqd_events db))"
  by (auto simp: get_summary_def analytics_query_Inr)

lemma get_time_series_Inr:
  assumes "get_time_series sc a b g db = (Inr x, db')"
  obtains step where "bucket_length g = Some step" and "0 < step" and "ts_points x = series_points step sc a b (aqd_events db)"
    and "aqd_events db' = aqd_events db"
  using assms by (auto simp: get_time_series_def analytics_query_Inr bucket_length_def minute_def hour_def second_def
                    split: option.splits if_splits)

lemma series_buckets:
  "map sp_bucket_start (series_points step sc a b es)
   = generate_series (date_trunc step (pg_time a)) (date_trunc step (pg_time b - microsecond)) step"
  by (simp add: series_points_def Let_def o_def)

text \<open>C27: The time series and the summary of a link for the same window agree: the buckets of the series are consecutive
  multiples of the granularity, none missing and none twice, and their clicks add up to the total of the summary.\<close>

theorem series_matches_summary:
  assumes "stored_times (aqd_events db)" and "get_time_series sc a b g db = (Inr ts, db1)"
    and "get_summary sc a b db = (Inr sm, db2)"
  shows "sum_list (map sp_clicks (ts_points ts)) = sm_total_clicks sm
    \<and> (\<exists>step. bucket_length g = Some step \<and> map sp_bucket_start (ts_points ts)
         = map (\<lambda>k. date_trunc step (pg_time a) + int k * step) [0..<length (ts_points ts)])"
proof -
  from assms(2) obtain step where step: "bucket_length g = Some step" "0 < step"
    and pts: "ts_points ts = series_points step sc a b (aqd_events db)" by (rule get_time_series_Inr)
  have "map sp_bucket_start (ts_points ts) = map (\<lambda>k. date_trunc step (pg_time a) + int k * step) [0..<length (ts_points ts)]"
    unfolding pts series_buckets
    by (rule nth_equalityI) (auto simp: generate_series_def series_points_def)
  with step pts series_adds_up [OF step(2) assms(1)] get_summary_Inr [OF assms(3)] show ?thesis by auto
qed

text \<open>A redirect at one hour and one second, another a day later, and a robot.\<close>

definition demo_query_click :: "gotime \<Rightarrow> bool \<Rightarrow> redirect_event" where
  "demo_query_click t robot = \<lparr>re_id = ''C'', re_short_code = ''abc'', re_workspace_id = ''w'', re_occurred_at = t, re_ip_hash = [],
     re_user_agent = [], re_device_type = ''desktop'', re_browser_family = [], re_os_family = [], re_is_bot = robot,
     re_country_code = ''XX'', re_referrer_domain = [], re_referrer_raw = [], re_request_id = []\<rparr>"

definition demo_query_db :: analytics_db where
  "demo_query_db = \<lparr>aqd_events = [demo_query_click 3601000000000 False, demo_query_click 90000000000000 False,
     demo_query_click 3602000000000 True], aqd_rank = (\<lambda>_. 0), aqd_faults = []\<rparr>"

definition demo_points :: "series_point list" where
  "demo_points = [\<lparr>sp_bucket_start = 0, sp_clicks = 1, sp_unique_ips = 0\<rparr>,
     \<lparr>sp_bucket_start = 86400000000000, sp_clicks = 1, sp_unique_ips = 0\<rparr>]"

lemma demo_query_results:
  "fst (get_time_series ''abc'' 0 100000000000000 ''1d'' demo_query_db)
   = Inr \<lparr>ts_short_code = ''abc'', ts_granularity = ''1d'', ts_window_start = 0, ts_window_end = 100000000000000,
       ts_points = demo_points\<rparr>"
  "fst (get_summary ''abc'' 0 100000000000000 demo_query_db)
   = Inr \<lparr>sm_short_code = ''abc'', sm_total_clicks = 2, sm_unique_ips = 0, sm_window_start = 0, sm_window_end = 100000000000000,
       sm_bot_clicks = 1\<rparr>"
  by code_simp+

lemma demo_query_stored: "stored_times (aqd_events demo_query_db)"
  by (simp add: stored_times_def demo_query_db_def demo_query_click_def pg_time_def)

theorem series_matches_summary_witness:
  "sum_list (map sp_clicks demo_points) = 2
   \<and> (\<exists>step. bucket_length ''1d'' = Some step \<and> map sp_bucket_start demo_points
        = map (\<lambda>k. date_trunc step (pg_time 0) + int k * step) [0..<length demo_points])"
proof -
  from demo_query_results obtain db1 db2 where
    "get_time_series ''abc'' 0 100000000000000 ''1d'' demo_query_db = (Inr \<lparr>ts_short_code = ''abc'', ts_granularity = ''1d'',
       ts_window_start = 0, ts_window_end = 100000000000000, ts_points = demo_points\<rparr>, db1)"
    "get_summary ''abc'' 0 100000000000000 demo_query_db = (Inr \<lparr>sm_short_code = ''abc'', sm_total_clicks = 2,
       sm_unique_ips = 0, sm_window_start = 0, sm_window_end = 100000000000000, sm_bot_clicks = 1\<rparr>, db2)"
    by (metis prod.collapse)
  from series_matches_summary [OF demo_query_stored this] show ?thesis by simp
qed

section \<open>Bounds\<close>

lemma length_series [simp]: "length (generate_series a b step) = nat ((b - a) div step + 1)"
  by (simp add: generate_series_def)

lemma trunc_span:
  assumes "0 < step" and "t - s \<le> n * step"
  shows "(date_trunc step t - date_trunc step s) div step \<le> n"
proof -
  have "(date_trunc step t - date_trunc step s) div step = t div step - s div step"
    using assms(1) by (simp add: date_trunc_def minus_mod_eq_mult_div right_diff_distrib [symmetric])
  also have "\<dots> \<le> n"
  proof -
    have "t div step \<le> (s + n * step) div step" using assms by (intro zdiv_mono1) auto
    also have "\<dots> = s div step + n" using assms(1) by simp
    finally show ?thesis by simp
  qed
  finally show ?thesis .
qed

lemma pg_span: "pg_time b - microsecond - pg_time a \<le> b - a"
proof -
  have "pg_time b \<le> b" "a - 1000 < pg_time a" by (simp_all add: pg_time_def) 
  then show ?thesis by (simp add: microsecond_def)
qed

lemma length_points:
  assumes "0 < step" and "b - a \<le> n * step" and "0 \<le> n"
  shows "int (length (series_points step sc a b es)) \<le> n + 1"
proof -
  from assms(2) pg_span [of b a] have "pg_time b - microsecond - pg_time a \<le> n * step" by linarith
  from trunc_span [OF assms(1) this] assms(3) show ?thesis by (simp add: series_points_def)
qed

lemma time_sub_le: "time_sub b a \<le> n \<Longrightarrow> n < 2 ^ 63 - 1 \<Longrightarrow> b - a \<le> n"
  by (auto simp: time_sub_def max_def min_def split: if_splits)

text \<open>Whatever the window of the request, one over the limit of its granularity is refused before the query.\<close>

lemma validated_span:
  assumes v: "validate_window_granularity a b g = None" and g: "bucket_length g = Some step"
  shows "b - a \<le> 1440 * step"
proof -
  note lengths = minute_def hour_def second_def
  from g consider "g = granularity_1m" "step = minute" | "g = granularity_1h" "step = hour" | "g = granularity_1d" "step = 24 * hour"
    by (auto simp: bucket_length_def split: if_splits)
  then show ?thesis
  proof cases
    case 1
    with v have "time_sub b a \<le> 24 * hour" by (auto simp: validate_window_granularity_def Let_def split: if_splits)
    from time_sub_le [OF this] 1 show ?thesis by (simp add: lengths)
  next
    case 2
    with v have "time_sub b a \<le> 30 * 24 * hour"
      by (auto simp: validate_window_granularity_def Let_def granularity_defs split: if_splits)
    from time_sub_le [OF this] 2 show ?thesis by (simp add: lengths)
  next
    case 3
    with v have "time_sub b a \<le> 365 * 24 * hour"
      by (auto simp: validate_window_granularity_def Let_def granularity_defs split: if_splits)
    from time_sub_le [OF this] 3 show ?thesis by (simp add: lengths)
  qed
qed

section \<open>Over the two tables\<close>

definition qw_rows :: "query_world \<Rightarrow> url list" where "qw_rows w = replica_rows (qw_urls w)"
definition qw_clicks :: "query_world \<Rightarrow> redirect_event list" where "qw_clicks w = aqd_events (qw_events w)"

lemma qw_get_url_Inr:
  "qw_get_url i ws w = (Inr u, w') \<Longrightarrow> u \<in> set (qw_rows w) \<and> live_in i ws u \<and> qw_events w' = qw_events w"
  by (auto simp: qw_get_url_def qw_rows_def get_by_id_def live_in_def dest!: get_row_Inr split: prod.splits)

lemma analytics_url_Inr: "analytics_url urls what i ws s = (Inr u, s') \<longleftrightarrow> urls i ws s = (Inr u, s')"
  by (auto simp: analytics_url_def split: prod.splits sum.splits if_splits)

lemma on_events_Inr: "on_events f w = (Inr x, w') \<Longrightarrow> \<exists>db. f (qw_events w) = (Inr x, db)"
  by (auto simp: on_events_def split: prod.splits)

lemmas qw_defs = qw_queries_def analytics_queries.simps

text \<open>A time series has at most 1441 points, whatever start, end, window and granularity the request names: longer ranges
  are refused before the events are read.\<close>

theorem series_bounded:
  assumes "series_handle qw_queries qw_get_url now sq w = (Inr ts, w')"
  shows "length (ts_points ts) \<le> 1441"
proof -
  from assms obtain u :: url and w1 start end_t and x :: time_series and w2 where
    v: "validate_window_granularity start end_t (sq_granularity sq) = None"
    and q: "aq_series qw_queries (short_code u) start end_t (sq_granularity sq) w1 = (Inr x, w2)" and ts: "ts_points ts = ts_points x"
    by (auto simp: series_handle_def split: if_splits prod.splits sum.splits option.splits)
  from q obtain db where "get_time_series (short_code u) start end_t (sq_granularity sq) (qw_events w1) = (Inr x, db)"
    by (auto simp: qw_defs dest: on_events_Inr)
  then obtain step where "bucket_length (sq_granularity sq) = Some step" "0 < step"
    "ts_points x = series_points step (short_code u) start end_t (aqd_events (qw_events w1))"
    by (rule get_time_series_Inr)
  with length_points [OF \<open>0 < step\<close>, of end_t start 1440] validated_span [OF v] ts show ?thesis by simp
qed


section \<open>Breakdowns\<close>

lemma count_of_map: "count_list (map f es) v = length (filter (\<lambda>e. f e = v) es)"
  by (induction es) auto

lemma sum_group_counts: "sum_list (map snd (group_counts col es)) = int (length es)"
  using sum_count_partition [of "remdups (map (dimension_value col) es)" es "dimension_value col"]
  by (simp add: group_counts_def Let_def o_def count_of_map)

lemma group_counts_pos: "g \<in> set (group_counts col es) \<Longrightarrow> 0 < snd g"
  by (auto simp: group_counts_def Let_def count_list_0_iff simp flip: neq0_conv)

definition ranked :: "(string \<Rightarrow> nat) \<Rightarrow> (string \<times> int) list \<Rightarrow> (string \<times> int) list" where
  "ranked rank gs = sort_key (\<lambda>g. - snd g) (sort_key (\<lambda>g. rank (fst g)) gs)"

lemma top_ranked: "top_counts rank gs = take 50 (ranked rank gs)" and mset_ranked [simp]: "mset (ranked rank gs) = mset gs"
  and set_ranked [simp]: "set (ranked rank gs) = set gs" and length_ranked [simp]: "length (ranked rank gs) = length gs"
  by (simp_all add: top_counts_def ranked_def)

lemma sum_ranked [simp]: "sum_list (map snd (ranked rank gs)) = sum_list (map snd gs)"
  by (metis mset_map mset_ranked sum_mset_sum_list)

lemma top_falling: "sorted_wrt (\<ge>) (map snd (top_counts rank gs))"
proof -
  have "sorted (map (\<lambda>g. - snd g) (ranked rank gs))" by (simp add: ranked_def)
  then have "sorted_wrt (\<lambda>g h. snd g \<ge> snd h) (ranked rank gs)" by (simp add: sorted_wrt_map)
  then show ?thesis by (simp add: top_ranked sorted_wrt_map sorted_wrt_take)
qed

lemma top_distinct: "distinct (map fst gs) \<Longrightarrow> distinct (map fst (top_counts rank gs))"
  by (metis distinct_take mset_eq_imp_distinct_iff mset_map mset_ranked take_map top_ranked)

lemma sum_list_pos: "xs \<noteq> [] \<Longrightarrow> \<forall>g \<in> set xs. 0 < snd g \<Longrightarrow> 0 < sum_list (map snd xs)" for xs :: "(string \<times> int) list"
proof (induction xs)
  case (Cons x xs)
  then show ?case by (cases xs) auto
qed simp

lemma top_total:
  assumes "\<forall>g \<in> set gs. 0 < snd g"
  shows "if length gs \<le> 50 then sum_list (map snd (top_counts rank gs)) = sum_list (map snd gs)
    else sum_list (map snd (top_counts rank gs)) < sum_list (map snd gs)"
proof -
  let ?xs = "ranked rank gs"
  have split: "sum_list (map snd gs) = sum_list (map snd (top_counts rank gs)) + sum_list (map snd (drop 50 ?xs))"
    unfolding top_ranked by (metis append_take_drop_id map_append sum_list_append sum_ranked)
  show ?thesis
  proof (cases "length gs \<le> 50")
    case False
    then have "drop 50 ?xs \<noteq> []" by simp
    moreover have "\<forall>g \<in> set (drop 50 ?xs). 0 < snd g" using assms by (metis in_set_dropD set_ranked)
    ultimately have "0 < sum_list (map snd (drop 50 ?xs))"
      by (rule sum_list_pos)
    with False split show ?thesis by simp
  qed (use split in simp)
qed

lemma breakdown_fields [simp]:
  "bd_total_clicks (breakdown_of sc a b d cs) = sum_list (map snd cs)"
  "map (\<lambda>c. (dc_value c, dc_clicks c)) (bd_counts (breakdown_of sc a b d cs)) = cs"
  by (simp_all add: breakdown_of_def Let_def o_def case_prod_unfold)

text \<open>C28: A breakdown lists values of the dimension with the number of people's clicks that have them, each at most once and by falling
  count; up to fifty values its total is that of the summary, and beyond fifty it is smaller.\<close>

theorem breakdown_counts:
  assumes "get_breakdown sc a b d db = (Inr x, db')"
  shows "let es = human_between sc a b (aqd_events db); vs = dimension_value (column_name d) ` set es in
     list_all (\<lambda>c. dc_clicks c = int (length (filter (\<lambda>e. dimension_value (column_name d) e = dc_value c) es)) \<and> dc_value c \<in> vs)
       (bd_counts x)
     \<and> distinct (map dc_value (bd_counts x)) \<and> sorted_wrt (\<ge>) (map dc_clicks (bd_counts x))
     \<and> bd_total_clicks x = sum_list (map dc_clicks (bd_counts x))
     \<and> (if card vs \<le> 50 then bd_total_clicks x = int (length es) else bd_total_clicks x < int (length es))"
proof -
  let ?es = "human_between sc a b (aqd_events db)" and ?col = "column_name d"
  let ?gs = "group_counts ?col ?es" and ?vs = "map (dimension_value (column_name d)) (human_between sc a b (aqd_events db))"
  define top where "top = top_counts (aqd_rank db) ?gs"
  from assms have x: "x = breakdown_of sc a b d top"
    by (auto simp: get_breakdown_def analytics_query_Inr top_def split: if_splits)
  have vals: "map dc_value (bd_counts x) = map fst top" "map dc_clicks (bd_counts x) = map snd top"
    by (simp_all add: x breakdown_of_def Let_def o_def case_prod_unfold)
  have keys: "map fst ?gs = remdups ?vs" by (simp add: group_counts_def Let_def o_def)
  have "set top \<subseteq> set ?gs" using set_take_subset [of 50 "ranked (aqd_rank db) ?gs"] by (simp add: top_def top_ranked)
  then have each: "\<forall>c \<in> set top. snd c = int (length (filter (\<lambda>e. dimension_value ?col e = fst c) ?es))
      \<and> fst c \<in> dimension_value ?col ` set ?es"
    by (auto simp: group_counts_def Let_def count_of_map)
  have "\<forall>c \<in> set (bd_counts x). dc_clicks c = int (length (filter (\<lambda>e. dimension_value ?col e = dc_value c) ?es))
      \<and> dc_value c \<in> dimension_value ?col ` set ?es"
    using each by (auto simp: x breakdown_of_def Let_def)
  moreover have "distinct (map dc_value (bd_counts x))"
    using top_distinct [of ?gs] keys by (simp only: vals top_def distinct_remdups)
  moreover have "sorted_wrt (\<ge>) (map dc_clicks (bd_counts x))" by (simp only: vals top_def top_falling)
  moreover have "bd_total_clicks x = sum_list (map dc_clicks (bd_counts x))" by (simp only: vals) (simp add: x)
  moreover have "if card (dimension_value ?col ` set ?es) \<le> 50 then bd_total_clicks x = int (length ?es)
      else bd_total_clicks x < int (length ?es)"
  proof -
    have "length ?gs = card (dimension_value ?col ` set ?es)"
      by (metis keys length_map length_remdups_card_conv set_map)
    moreover have "\<forall>g \<in> set ?gs. 0 < snd g" using group_counts_pos by blast
    ultimately show ?thesis using top_total [of ?gs "aqd_rank db"] by (auto simp add: x top_def sum_group_counts split: if_splits)
  qed
  ultimately show ?thesis by (simp add: Let_def list_all_iff)
qed

section \<open>Streams\<close>

text \<open>The lines a stream of a workspace owes to the clicks published while it is open.\<close>

definition click_lines :: "string \<Rightarrow> click_event list \<Rightarrow> string" where
  "click_lines ws cs = concat (map (\<lambda>e. sse_event ''click'' (click_event_json e))
     (filter (\<lambda>e. click_event.ce_workspace_id e = ws \<and> \<not> ce_is_bot e) cs))"

lemma before_char: "c \<notin> set xs \<Longrightarrow> takeWhile (\<lambda>d. d \<noteq> c) (xs @ c # ys) = xs"
  by (induction xs) auto

lemma channel_prefix_eq:
  assumes "CHR '':'' \<notin> set ws" and "CHR '':'' \<notin> set ws'"
  shows "(\<exists>t. channel_name ws' sc = channel_prefix @ '':'' @ ws @ '':'' @ t) \<longleftrightarrow> ws' = ws"
proof
  assume "\<exists>t. channel_name ws' sc = channel_prefix @ '':'' @ ws @ '':'' @ t"
  then obtain t where "ws' @ CHR '':'' # sc = ws @ CHR '':'' # t" by (auto simp: channel_name_def)
  with before_char [OF assms(2)] before_char [OF assms(1)] show "ws' = ws" by metis
qed (auto simp: channel_name_def)


section \<open>Inputs\<close>

lemma fst_eq_pair: "fst p = x \<Longrightarrow> \<exists>y. p = (x, y)" by (cases p) simp

definition demo_query_link :: url where
  "demo_query_link = \<lparr>url_id = ''01A'', workspace_id = ''w'', short_code = ''abc'', original_url = ''https://example.com'',
     title = [], url_status = status_active, expires_at = None, created_by = ''usr_1'', created_at = 0, updated_at = 0,
     deleted_at = None, click_count = 2\<rparr>"

definition demo_query_world :: query_world where
  "demo_query_world = \<lparr>qw_urls = \<lparr>udb_rows = [demo_query_link], udb_replica = None, udb_workspaces = [''w''], udb_faults = []\<rparr>,
     qw_events = demo_query_db\<rparr>"

definition demo_series :: series_query where
  "demo_series = \<lparr>sq_url_id = ''01A'', sq_workspace_id = ''w'', sq_start = None, sq_end = Some 7200000000000,
     sq_window = ''all'', sq_granularity = ''1h''\<rparr>"

lemma demo_query_answers:
  "(case fst (series_handle qw_queries qw_get_url 5 demo_series demo_query_world) of
      Inl e \<Rightarrow> False | Inr ts \<Rightarrow> length (ts_points ts) = 2)"
  "map_sum (\<lambda>_. ()) sur_total_clicks
     (fst (summary_handle qw_queries qw_get_url ''https://s.io'' 100000000000000 ''01A'' ''w'' ''all'' demo_query_world)) = Inr 2"
  "map_sum (\<lambda>_. ()) bd_counts (fst (get_breakdown ''abc'' 0 100000000000000 ''country'' demo_query_db))
   = Inr [\<lparr>dc_value = ''XX'', dc_clicks = 2, dc_percentage = (7036874417766400, - 46)\<rparr>]"
  by code_simp+

theorem series_bounded_witness:
  "\<exists>ts w'. series_handle qw_queries qw_get_url 5 demo_series demo_query_world = (Inr ts, w') \<and> length (ts_points ts) \<le> 1441"
proof -
  from demo_query_answers(1) obtain ts w' where "series_handle qw_queries qw_get_url 5 demo_series demo_query_world = (Inr ts, w')"
    by (cases "series_handle qw_queries qw_get_url 5 demo_series demo_query_world") (auto split: sum.splits)
  with series_bounded [OF this] show ?thesis by blast
qed


theorem breakdown_counts_witness:
  "length (filter (\<lambda>e. dimension_value ''country_code'' e = ''XX'') (human_between ''abc'' 0 100000000000000 (aqd_events demo_query_db)))
   = 2"
proof -
  from demo_query_answers(3) obtain x db' where
    h: "get_breakdown ''abc'' 0 100000000000000 ''country'' demo_query_db = (Inr x, db')"
    and x: "bd_counts x = [\<lparr>dc_value = ''XX'', dc_clicks = 2, dc_percentage = (7036874417766400, - 46)\<rparr>]"
    by (cases "get_breakdown ''abc'' 0 100000000000000 ''country'' demo_query_db") (auto simp: map_sum_def split: sum.splits)
  from breakdown_counts [OF h] show ?thesis by (simp add: x Let_def column_name_def dimension_defs)
qed

definition demo_stream_click :: "string \<Rightarrow> bool \<Rightarrow> click_event" where
  "demo_stream_click ws robot = \<lparr>click_event.ce_short_code = ''abc'', ce_workspace_id = ws, ce_occurred_at = 0, ce_referrer = [],
     ce_device_type = ''desktop'', ce_country_code = ''XX'', ce_is_bot = robot, ce_request_id = []\<rparr>"

definition demo_reader :: request where
  "demo_reader = \<lparr>rq_method = ''GET'', rq_path = ''/stream'', rq_query = [], rq_headers = [], rq_remote_addr = [], rq_params = [],
     rq_body = BodyMalformed,
     rq_claims = Some \<lparr>cl_user_id = ''usr_1'', cl_token_id = [], cl_workspace_id = ''w'', cl_scope = [], cl_issuer = [],
       cl_audiences = [], cl_issued_at = 0, cl_expires_at = 0\<rparr>,
     rq_member = None, rq_id = []\<rparr>"

definition demo_stream :: "unit stream_http" where
  "demo_stream = \<lparr>sh_get_url = \<lambda>_ _ s. (Inl (EUrl UrlErrNotFound), s), sh_subscribe = \<lambda>_. Inr (),
     sh_glob = \<lambda>p ch. take (length p - 1) ch = butlast p\<rparr>"

lemma demo_glob: "\<forall>p ch. sh_glob demo_stream (p @ ''*'') ch \<longleftrightarrow> (\<exists>t. ch = p @ t)"
  by (auto simp: demo_stream_def) (metis append_take_drop_id)


end
