(* ===== verification/ApiRoutes.thy ===== *)
theory ApiRoutes
  imports AnalyticsHttp UrlHttp WorkspaceHttp ApiKeyHttp WebhookHttp ExportHttp WebhookSystem ExportSystem AuthProperties
    ApiKeySystem Redirector
begin

text \<open>
  The API service, \<open>cmd/api/main.go\<close>, in a deployment with its database and Redis: the use cases wired to the
  stores, the handlers wired to the use cases, and the routes with their middlewares. chi matches a request to a
  pattern; here the endpoint is given. Request IDs, real addresses, traces, logs, metrics, the recovery from panics
  and the timeout are outside.
\<close>

section \<open>State\<close>

text \<open>
  \<open>ap_redis\<close> holds the rate limits and the deny list; the keys of the URL cache, which have other prefixes, are in
  \<open>ap_links\<close>. The tables of workspaces and members are in \<open>ap_keys\<close>.
\<close>

record 'adb api =
  ap_redis :: redis_db
  ap_audit :: "(audit_event, 'adb) buffered"
  ap_links :: sys
  ap_keys :: key_world
  ap_hooks :: hook_world
  ap_exports :: export_world
  ap_events :: analytics_db

definition on_links :: "(world \<Rightarrow> 'a \<times> world) \<Rightarrow> 'adb api \<Rightarrow> 'a \<times> 'adb api" where
  "on_links f st =
     (case f (sys_world (ap_links st)) of
        (r, w) \<Rightarrow> (r, st\<lparr>ap_links := commit w (sys_tasks (ap_links st)) (ap_links st)\<rparr>))"

definition on_key_world :: "(key_world \<Rightarrow> 'a \<times> key_world) \<Rightarrow> 'adb api \<Rightarrow> 'a \<times> 'adb api" where
  "on_key_world f st = (case f (ap_keys st) of (r, w) \<Rightarrow> (r, st\<lparr>ap_keys := w\<rparr>))"

definition on_ws :: "(ws_db \<Rightarrow> 'a \<times> ws_db) \<Rightarrow> 'adb api \<Rightarrow> 'a \<times> 'adb api" where
  "on_ws f = on_key_world (on_members f)"

definition on_hook_world :: "(hook_world \<Rightarrow> 'a \<times> hook_world) \<Rightarrow> 'adb api \<Rightarrow> 'a \<times> 'adb api" where
  "on_hook_world f st = (case f (ap_hooks st) of (r, w) \<Rightarrow> (r, st\<lparr>ap_hooks := w\<rparr>))"

definition on_exports :: "(export_world \<Rightarrow> 'a \<times> export_world) \<Rightarrow> 'adb api \<Rightarrow> 'a \<times> 'adb api" where
  "on_exports f st = (case f (ap_exports st) of (r, w) \<Rightarrow> (r, st\<lparr>ap_exports := w\<rparr>))"

definition on_limits :: "(redis_db \<Rightarrow> 'a \<times> redis_db) \<Rightarrow> 'adb api \<Rightarrow> 'a \<times> 'adb api" where
  "on_limits f st = (case f (ap_redis st) of (r, db) \<Rightarrow> (r, st\<lparr>ap_redis := db\<rparr>))"

definition on_query :: "(query_world \<Rightarrow> 'a \<times> query_world) \<Rightarrow> 'adb api \<Rightarrow> 'a \<times> 'adb api" where
  "on_query f st =
     (let w = sys_world (ap_links st) in
      case f \<lparr>qw_urls = w_urls w, qw_events = ap_events st\<rparr> of
        (r, q) \<Rightarrow> (r, st\<lparr>ap_links := commit (w\<lparr>w_urls := qw_urls q\<rparr>) (sys_tasks (ap_links st)) (ap_links st),
                        ap_events := qw_events q\<rparr>))"

text \<open>The foreign keys of the other tables refer to the table of workspaces.\<close>

definition workspace_ids :: "'adb api \<Rightarrow> string list" where
  "workspace_ids st = map w_id (t_workspaces (wdb_primary (kw_members (ap_keys st))))"

definition with_workspaces :: "'adb api \<Rightarrow> 'adb api" where
  "with_workspaces st =
     (let ids = workspace_ids st; l = ap_links st; k = ap_keys st; h = ap_hooks st; x = ap_exports st in
      st\<lparr>ap_links := l\<lparr>sys_world := (sys_world l)\<lparr>w_urls := (w_urls (sys_world l))\<lparr>udb_workspaces := ids\<rparr>\<rparr>\<rparr>,
         ap_keys := k\<lparr>kw_keys := (kw_keys k)\<lparr>kdb_workspaces := ids\<rparr>\<rparr>,
         ap_hooks := h\<lparr>hx_db := (hx_db h)\<lparr>hdb_workspaces := ids\<rparr>\<rparr>,
         ap_exports := x\<lparr>ew_db := (ew_db x)\<lparr>xdb_workspaces := ids\<rparr>\<rparr>\<rparr>)"

section \<open>Wiring\<close>

text \<open>\<open>apc_auth\<close> is absent when no public key is configured, which only a production deployment refuses.\<close>

record ('k, 'salt) api_config =
  apc_links :: sys_config
  apc_auth :: "('k, unit) auth_config option"
  apc_bcrypt :: "'salt bcrypt"
  apc_service_name :: string
  apc_api_base_url :: string
  apc_max_window_days :: int
  apc_storage_dir :: string
  apc_signer :: signer
  apc_subscribe :: "subscription \<Rightarrow> unit result"
  apc_glob :: "string \<Rightarrow> string \<Rightarrow> bool"

text \<open>What a request meets: the clock, the fresh identifiers and random draws, what its stream will see, the pings.\<close>

record 'salt api_input =
  in_now :: gotime
  in_later :: gotime
  in_ulid :: string
  in_ulids :: "nat \<Rightarrow> string"
  in_audit_ulid :: string
  in_draws :: draws
  in_random :: "string + nat list"
  in_salt :: 'salt
  in_stream :: "stream_item list"
  in_db_ping :: "unit result option"
  in_cache_ping :: "unit result option"

definition api_dispatcher :: "'salt api_input \<Rightarrow> 'adb api dispatcher" where
  "api_dispatcher i = Some (\<lambda>ev. on_hook_world (dispatch world_hooks world_deliveries (in_now i) (in_ulids i) ev))"

definition api_shorten_deps :: "('k, 'salt) api_config \<Rightarrow> 'salt api_input \<Rightarrow> 'adb api shorten_deps" where
  "api_shorten_deps c i =
     \<lparr>sn_shorten = \<lambda>cmd. on_links (\<lambda>w. case shorten_handle (cfg_shorten (apc_links c)) (in_now i) (in_later i) (in_ulid i) cmd (in_draws i) w of
          (r, _, w1) \<Rightarrow> (r, w1)),
      sn_webhooks = api_dispatcher i\<rparr>"

definition api_url_http :: "('k, 'salt) api_config \<Rightarrow> 'salt api_input \<Rightarrow> 'adb api url_http" where
  "api_url_http c i =
     (let l = apc_links c; base = cfg_base_url l in
      \<lparr>uh_get = \<lambda>u ws. on_links (get_url_handle world_repo base u ws), uh_list = \<lambda>q. on_links (list_urls_handle world_repo base q),
       uh_update = \<lambda>cmd. on_links (update_url_handle world_repo (cfg_cache l) base (in_now i) cmd),
       uh_delete = \<lambda>u ws. on_links (delete_url_handle world_repo (cfg_cache l) (in_now i) u ws),
       uh_webhooks = api_dispatcher i\<rparr>)"

definition api_workspace_http :: "'salt api_input \<Rightarrow> 'adb api workspace_http" where
  "api_workspace_http i =
     \<lparr>wsh_create = \<lambda>cmd. on_ws (create_workspace_handle pg_workspaces (in_now i) (in_ulid i) cmd),
      wsh_get = \<lambda>ws uid. on_ws (get_workspace_handle pg_workspaces pg_members ws uid),
      wsh_list = \<lambda>uid. on_ws (list_workspaces_handle pg_workspaces pg_members uid),
      wsh_add = \<lambda>cmd. on_ws (add_member_handle pg_members (in_now i) cmd),
      wsh_members = \<lambda>ws uid. on_ws (list_members_handle pg_members ws uid)\<rparr>"

definition api_key_http :: "('k, 'salt) api_config \<Rightarrow> 'salt api_input \<Rightarrow> 'adb api apikey_http" where
  "api_key_http c i =
     \<lparr>akh_create = \<lambda>cmd. on_key_world (create_key_handle (apc_bcrypt c) kw_repo (in_now i) (in_ulid i) (in_random i) (in_salt i) cmd),
      akh_revoke = \<lambda>cmd. on_key_world (revoke_key_handle kw_repo kw_member_repo (in_now i) cmd),
      akh_list = \<lambda>ws uid. on_key_world (list_keys_handle kw_repo kw_member_repo ws uid)\<rparr>"

definition api_webhook_http :: "'salt api_input \<Rightarrow> 'adb api webhook_http" where
  "api_webhook_http i =
     \<lparr>whh_register = \<lambda>cmd. on_hook_world (register_handle world_hooks (in_now i) (in_ulid i) (in_random i) cmd),
      whh_list = \<lambda>ws n. on_hook_world (list_hooks_handle world_hooks ws n),
      whh_delete = \<lambda>h ws. on_hook_world (delete_hook_handle world_hooks h ws)\<rparr>"

definition api_export_http :: "('k, 'salt) api_config \<Rightarrow> 'salt api_input \<Rightarrow> 'adb api export_http" where
  "api_export_http c i =
     \<lparr>xh_create = \<lambda>cmd. on_exports (create_export_handle ew_repo (apc_max_window_days c) (in_now i) (in_ulid i) cmd),
      xh_get_by_id = \<lambda>x ws. on_exports (xr_get_by_id ew_repo x ws), xh_list = \<lambda>ws n. on_exports (xr_list ew_repo ws n),
      xh_lookup = \<lambda>x. on_exports (xr_get_any_by_id ew_repo x),
      xh_storage = (let sto = ew_storage (apc_storage_dir c) in
        \<lparr>sto_create = \<lambda>x e. on_exports (sto_create sto x e), sto_write = \<lambda>x e d. on_exports (sto_write sto x e d),
         sto_close = \<lambda>x e. on_exports (sto_close sto x e), sto_read = \<lambda>x e. on_exports (sto_read sto x e),
         sto_delete = \<lambda>x e. on_exports (sto_delete sto x e), sto_size = \<lambda>x e. on_exports (sto_size sto x e),
         sto_path = sto_path sto\<rparr>),
      xh_signer = apc_signer c, xh_base_url = apc_api_base_url c\<rparr>"

definition api_analytics_http :: "('k, 'salt) api_config \<Rightarrow> 'salt api_input \<Rightarrow> 'adb api analytics_http" where
  "api_analytics_http c i =
     \<lparr>ah_summary = \<lambda>u ws win. on_query (summary_handle qw_queries qw_get_url (cfg_base_url (apc_links c)) (in_now i) u ws win),
      ah_series = \<lambda>q. on_query (series_handle qw_queries qw_get_url (in_now i) q),
      ah_breakdown = \<lambda>u ws win d. on_query (breakdown_handle qw_queries qw_get_url (in_now i) u ws win d)\<rparr>"

definition api_stream_http :: "('k, 'salt) api_config \<Rightarrow> 'adb api stream_http" where
  "api_stream_http c =
     \<lparr>sh_get_url = \<lambda>u ws. on_links (repo_get_by_id world_repo u ws), sh_subscribe = apc_subscribe c, sh_glob = apc_glob c\<rparr>"

section \<open>Middlewares\<close>

definition api_get_member :: "string \<Rightarrow> string \<Rightarrow> 'adb api \<Rightarrow> member result \<times> 'adb api" where
  "api_get_member ws uid = on_key_world (mr_get_member kw_member_repo ws uid)"

definition api_key_repo :: "'adb api apikey_repository" where
  "api_key_repo = \<lparr>kr_create = \<lambda>k. on_key_world (kr_create kw_repo k),
     kr_get_by_prefix = \<lambda>now p. on_key_world (kr_get_by_prefix kw_repo now p),
     kr_get_by_id = \<lambda>k ws. on_key_world (kr_get_by_id kw_repo k ws), kr_list = \<lambda>ws. on_key_world (kr_list kw_repo ws),
     kr_revoke = \<lambda>now k ws. on_key_world (kr_revoke kw_repo now k ws),
     kr_update_last_used = \<lambda>now k. on_key_world (kr_update_last_used kw_repo now k)\<rparr>"

definition api_spawn_touch :: "string \<Rightarrow> 'adb api \<Rightarrow> 'adb api" where
  "api_spawn_touch k st = st\<lparr>ap_keys := spawn_touch k (ap_keys st)\<rparr>"

definition api_apikey :: "('k, 'salt) api_config \<Rightarrow> 'salt api_input \<Rightarrow> 'adb api handler \<Rightarrow> 'adb api handler" where
  "api_apikey c i = apikey_auth (apc_bcrypt c) api_key_repo api_spawn_touch (in_now i)"

definition api_auth_config :: "('k, unit) auth_config \<Rightarrow> ('k, 'adb api) auth_config" where
  "api_auth_config a =
     \<lparr>ac_issuer = ac_issuer a, ac_audience = ac_audience a, ac_key_set = ac_key_set a,
      ac_additional_key_set = ac_additional_key_set a, ac_allowed_issuers = ac_allowed_issuers a,
      ac_deny_list = Some (\<lambda>now jti. on_limits (deny_is_revoked now jti)), ac_parse = ac_parse a\<rparr>"

definition api_authenticate :: "('k, 'salt) api_config \<Rightarrow> 'salt api_input \<Rightarrow> 'adb api handler \<Rightarrow> 'adb api handler" where
  "api_authenticate c i next_h =
     (case apc_auth c of None \<Rightarrow> next_h | Some a \<Rightarrow> authenticate (api_auth_config a) (in_now i) next_h)"

text \<open>\<open>rlRead\<close> and \<open>rlWrite\<close>.\<close>

definition api_limit :: "('k, 'salt) api_config \<Rightarrow> endpoint_class \<Rightarrow> 'adb api rate_limit_config" where
  "api_limit c cls =
     \<lparr>rc_check = \<lambda>now later key p. on_limits (limiter_check now later key p), rc_service_name = apc_service_name c,
      rc_endpoint_class = cls, rc_fail_open = True\<rparr>"

text \<open>\<open>auditOf\<close>: the audit service beside the rest of the state.\<close>

definition api_audited :: "'salt api_input \<Rightarrow> string \<Rightarrow> 'adb api pending handler \<Rightarrow> 'adb api handler" where
  "api_audited i act h r st =
     (case audit_action (in_now i) (in_audit_ulid i) act h r (ap_audit st, st) of
        (resp, (svc, st1)) \<Rightarrow> (resp, st1\<lparr>ap_audit := svc\<rparr>))"

definition api_revoke_token :: "'salt api_input \<Rightarrow> 'adb api pending handler" where
  "api_revoke_token i r ps =
     (case ps of (pend, st) \<Rightarrow>
       (case revoke_token_handler (in_now i) r (pend, (ap_redis st, st)) of
          (resp, (pend1, (db, st1))) \<Rightarrow> (resp, (pend1, st1\<lparr>ap_redis := db\<rparr>))))"

section \<open>Routes\<close>

datatype api_endpoint =
  Healthz | HealthzV1 | Readyz | PublicShorten | DownloadExport
  | RevokeToken | CreateWorkspace | ListWorkspaces | ShortenUrl
  | GetWorkspace | AddMember | ListMembers | StreamWorkspace | ListExports | CreateExport | GetExport
  | ListWebhooks | RegisterWebhook | DeleteWebhook
  | WorkspaceShorten | ListUrls | GetUrl | UpdateUrl | DeleteUrl
  | UrlSummary | UrlSeries | UrlBreakdown | StreamUrl
  | ListKeys | CreateKey | RevokeKey

text \<open>Outside the authenticated subrouter, inside it, and inside the subrouter of a workspace.\<close>

datatype api_scope = Public | Authenticated | InWorkspace

text \<open>The subrouters are nested: the deeper a route, the more middlewares are in front of it.\<close>

fun scope_depth :: "api_scope \<Rightarrow> nat" where
  "scope_depth Public = 0"
| "scope_depth Authenticated = 1"
| "scope_depth InWorkspace = 2"

instantiation api_scope :: linorder
begin

definition less_eq_api_scope :: "api_scope \<Rightarrow> api_scope \<Rightarrow> bool" where
  "less_eq_api_scope a b \<longleftrightarrow> scope_depth a \<le> scope_depth b"

definition less_api_scope :: "api_scope \<Rightarrow> api_scope \<Rightarrow> bool" where
  "less_api_scope a b \<longleftrightarrow> scope_depth a < scope_depth b"

instance
proof
  fix a b :: api_scope
  assume "a \<le> b" and "b \<le> a"
  then show "a = b" by (cases a; cases b) (simp_all add: less_eq_api_scope_def)
qed (auto simp: less_eq_api_scope_def less_api_scope_def)

end

lemma behind_authentication: "Authenticated \<le> s \<longleftrightarrow> s \<noteq> Public"
  by (cases s) (simp_all add: less_eq_api_scope_def)

record api_route =
  rt_method :: string
  rt_pattern :: string
  rt_scope :: api_scope
  rt_class :: "endpoint_class option"
  rt_action :: "action option"
  rt_audit :: "string option"

definition route_of :: "string \<Rightarrow> string \<Rightarrow> api_scope \<Rightarrow> endpoint_class option \<Rightarrow> action option \<Rightarrow> string option \<Rightarrow> api_route" where
  "route_of m p sc cls act aud =
     \<lparr>rt_method = m, rt_pattern = p, rt_scope = sc, rt_class = cls, rt_action = act, rt_audit = aud\<rparr>"

definition in_workspace :: "string \<Rightarrow> string" where
  "in_workspace p = ''/api/v1/workspaces/{workspaceID}'' @ p"

fun api_routes :: "api_endpoint \<Rightarrow> api_route" where
  "api_routes Healthz = route_of ''GET'' ''/healthz'' Public None None None"
| "api_routes HealthzV1 = route_of ''GET'' ''/api/v1/healthz'' Public None None None"
| "api_routes Readyz = route_of ''GET'' ''/readyz'' Public None None None"
| "api_routes PublicShorten = route_of ''POST'' (in_workspace ''/urls'') Public (Some class_write) None (Some act_url_create)"
| "api_routes DownloadExport = route_of ''GET'' ''/api/v1/exports/{exportID}/download'' Public None None None"
| "api_routes RevokeToken = route_of ''DELETE'' ''/api/v1/auth/token'' Authenticated None None (Some act_token_revoke)"
| "api_routes CreateWorkspace =
     route_of ''POST'' ''/api/v1/workspaces'' Authenticated (Some class_write) None (Some act_workspace_create)"
| "api_routes ListWorkspaces = route_of ''GET'' ''/api/v1/workspaces'' Authenticated (Some class_read) None None"
| "api_routes ShortenUrl = route_of ''POST'' ''/api/v1/urls'' Authenticated (Some class_write) None (Some act_url_create)"
| "api_routes GetWorkspace = route_of ''GET'' (in_workspace ''/'') InWorkspace (Some class_read) None None"
| "api_routes AddMember =
     route_of ''POST'' (in_workspace ''/members'') InWorkspace (Some class_write) (Some action_manage_members) (Some act_member_add)"
| "api_routes ListMembers = route_of ''GET'' (in_workspace ''/members'') InWorkspace (Some class_read) None None"
| "api_routes StreamWorkspace =
     route_of ''GET'' (in_workspace ''/stream'') InWorkspace (Some class_read) (Some action_view_analytics) None"
| "api_routes ListExports =
     route_of ''GET'' (in_workspace ''/exports'') InWorkspace (Some class_read) (Some action_view_analytics) None"
| "api_routes CreateExport =
     route_of ''POST'' (in_workspace ''/exports'') InWorkspace (Some class_read) (Some action_view_analytics) None"
| "api_routes GetExport =
     route_of ''GET'' (in_workspace ''/exports/{exportID}'') InWorkspace (Some class_read) (Some action_view_analytics) None"
| "api_routes ListWebhooks =
     route_of ''GET'' (in_workspace ''/webhooks'') InWorkspace (Some class_read) (Some action_manage_webhooks) None"
| "api_routes RegisterWebhook =
     route_of ''POST'' (in_workspace ''/webhooks'') InWorkspace (Some class_write) (Some action_manage_webhooks) (Some act_webhook_create)"
| "api_routes DeleteWebhook =
     route_of ''DELETE'' (in_workspace ''/webhooks/{webhookID}'') InWorkspace (Some class_write) (Some action_manage_webhooks)
       (Some act_webhook_delete)"
| "api_routes WorkspaceShorten =
     route_of ''POST'' (in_workspace ''/urls/'') InWorkspace (Some class_write) (Some action_create_url) (Some act_url_create)"
| "api_routes ListUrls = route_of ''GET'' (in_workspace ''/urls/'') InWorkspace (Some class_read) (Some action_view_url) None"
| "api_routes GetUrl = route_of ''GET'' (in_workspace ''/urls/{urlID}/'') InWorkspace (Some class_read) (Some action_view_url) None"
| "api_routes UpdateUrl =
     route_of ''PATCH'' (in_workspace ''/urls/{urlID}/'') InWorkspace (Some class_write) (Some action_update_url) (Some act_url_update)"
| "api_routes DeleteUrl =
     route_of ''DELETE'' (in_workspace ''/urls/{urlID}/'') InWorkspace (Some class_write) (Some action_delete_url) (Some act_url_delete)"
| "api_routes UrlSummary =
     route_of ''GET'' (in_workspace ''/urls/{urlID}/analytics'') InWorkspace (Some class_read) (Some action_view_analytics) None"
| "api_routes UrlSeries =
     route_of ''GET'' (in_workspace ''/urls/{urlID}/analytics/timeseries'') InWorkspace (Some class_read) (Some action_view_analytics) None"
| "api_routes UrlBreakdown =
     route_of ''GET'' (in_workspace ''/urls/{urlID}/analytics/breakdown'') InWorkspace (Some class_read) (Some action_view_analytics) None"
| "api_routes StreamUrl =
     route_of ''GET'' (in_workspace ''/urls/{urlID}/stream'') InWorkspace (Some class_read) (Some action_view_analytics) None"
| "api_routes ListKeys = route_of ''GET'' (in_workspace ''/api-keys'') InWorkspace (Some class_read) None None"
| "api_routes CreateKey =
     route_of ''POST'' (in_workspace ''/api-keys'') InWorkspace (Some class_write) (Some action_manage_members) (Some act_apikey_create)"
| "api_routes RevokeKey =
     route_of ''DELETE'' (in_workspace ''/api-keys/{keyID}'') InWorkspace (Some class_write) (Some action_manage_members)
       (Some act_apikey_revoke)"

text \<open>A handler that annotates nothing.\<close>

definition plain_handler :: "'s handler \<Rightarrow> 's pending handler" where
  "plain_handler h r ps = (case ps of (p, s) \<Rightarrow> (case h r s of (resp, s1) \<Rightarrow> (resp, (p, s1))))"

fun api_handler :: "('k, 'salt) api_config \<Rightarrow> 'salt api_input \<Rightarrow> api_endpoint \<Rightarrow> 'adb api pending handler" where
  "api_handler c i Healthz = plain_handler (\<lambda>r s. (alive_response, s))"
| "api_handler c i HealthzV1 = plain_handler (\<lambda>r s. (alive_response, s))"
| "api_handler c i Readyz = plain_handler (\<lambda>r s. (ready_response (in_db_ping i) (in_cache_ping i), s))"
| "api_handler c i PublicShorten = shorten_http (api_shorten_deps c i) (in_now i)"
| "api_handler c i DownloadExport = plain_handler (export_download (api_export_http c i) (in_now i))"
| "api_handler c i RevokeToken = api_revoke_token i"
| "api_handler c i CreateWorkspace = workspace_create (api_workspace_http i)"
| "api_handler c i ListWorkspaces = plain_handler (workspace_list (api_workspace_http i))"
| "api_handler c i ShortenUrl = shorten_http (api_shorten_deps c i) (in_now i)"
| "api_handler c i GetWorkspace = plain_handler (workspace_get (api_workspace_http i))"
| "api_handler c i AddMember = add_member_http (api_workspace_http i)"
| "api_handler c i ListMembers = plain_handler (members_http (api_workspace_http i))"
| "api_handler c i StreamWorkspace = plain_handler (stream_workspace (api_stream_http c) (in_stream i))"
| "api_handler c i ListExports = plain_handler (export_list (api_export_http c i) (in_now i))"
| "api_handler c i CreateExport = plain_handler (export_create (api_export_http c i))"
| "api_handler c i GetExport = plain_handler (export_get (api_export_http c i) (in_now i))"
| "api_handler c i ListWebhooks = plain_handler (webhook_list (api_webhook_http i))"
| "api_handler c i RegisterWebhook = webhook_register (api_webhook_http i)"
| "api_handler c i DeleteWebhook = webhook_delete (api_webhook_http i)"
| "api_handler c i WorkspaceShorten = shorten_http (api_shorten_deps c i) (in_now i)"
| "api_handler c i ListUrls = plain_handler (url_list (api_url_http c i))"
| "api_handler c i GetUrl = plain_handler (url_get (api_url_http c i))"
| "api_handler c i UpdateUrl = url_update (api_url_http c i) (in_now i)"
| "api_handler c i DeleteUrl = url_delete (api_url_http c i) (in_now i)"
| "api_handler c i UrlSummary = plain_handler (analytics_summary (api_analytics_http c i))"
| "api_handler c i UrlSeries = plain_handler (analytics_series (api_analytics_http c i))"
| "api_handler c i UrlBreakdown = plain_handler (analytics_breakdown (api_analytics_http c i))"
| "api_handler c i StreamUrl = plain_handler (stream_url (api_stream_http c) (in_stream i))"
| "api_handler c i ListKeys = plain_handler (key_list (api_key_http c i))"
| "api_handler c i CreateKey = key_create (api_key_http c i)"
| "api_handler c i RevokeKey = key_revoke (api_key_http c i)"

text \<open>The middlewares of \<open>r.With\<close>, then those of the subrouters around them.\<close>

definition api_inner :: "('k, 'salt) api_config \<Rightarrow> 'salt api_input \<Rightarrow> api_endpoint \<Rightarrow> 'adb api handler" where
  "api_inner c i e =
     (case rt_audit (api_routes e) of
        None \<Rightarrow> unaudited (api_handler c i e)
      | Some act \<Rightarrow> api_audited i act (api_handler c i e))"

definition api_guarded :: "('k, 'salt) api_config \<Rightarrow> 'salt api_input \<Rightarrow> api_endpoint \<Rightarrow> 'adb api handler" where
  "api_guarded c i e =
     (let h = (case rt_action (api_routes e) of None \<Rightarrow> api_inner c i e | Some a \<Rightarrow> require_action a (api_inner c i e))
      in case rt_class (api_routes e) of None \<Rightarrow> h | Some cls \<Rightarrow> rate_limit (api_limit c cls) (in_now i) (in_later i) h)"

definition api_serve :: "('k, 'salt) api_config \<Rightarrow> 'salt api_input \<Rightarrow> api_endpoint \<Rightarrow> 'adb api handler" where
  "api_serve c i e r st =
     (let st0 = with_workspaces st in
      case rt_scope (api_routes e) of
        Public \<Rightarrow> api_guarded c i e r st0
      | Authenticated \<Rightarrow> api_apikey c i (api_authenticate c i (api_guarded c i e)) r st0
      | InWorkspace \<Rightarrow> api_apikey c i (api_authenticate c i (workspace_auth api_get_member (api_guarded c i e))) r st0)"

end
