(* ===== verification/ApiProperties.thy ===== *)
theory ApiProperties
  imports ApiRoutes
begin

text \<open>
  The routes of the API: who reaches a handler of a workspace, what a refusal leaves behind, which audit entries a
  request makes, and for which workspace a key is created.
\<close>

section \<open>What the stores hold\<close>

text \<open>Links, keys, workspaces and members, webhooks and their deliveries, exports and their files, in that order.\<close>

type_synonym holdings =
  "url list \<times> api_key list \<times> ws_tables \<times> webhook list \<times> delivery list \<times> export list \<times> file_system"

definition api_holds :: "'adb api \<Rightarrow> holdings" where
  "api_holds st =
     (w_rows (sys_world (ap_links st)), kw_rows (ap_keys st), wdb_primary (kw_members (ap_keys st)), hx_hooks (ap_hooks st),
      hx_dels (ap_hooks st), ew_rows (ap_exports st), ew_fs (ap_exports st))"

definition api_members :: "'adb api \<Rightarrow> member list" where
  "api_members st = t_members (ws_view (kw_members (ap_keys st)))"

text \<open>The middlewares before a handler change the limits, the pending updates and the fault queues, but none of this.\<close>

definition same_holdings :: "'adb api \<Rightarrow> 'adb api \<Rightarrow> bool" where
  "same_holdings st st' \<longleftrightarrow> api_holds st' = api_holds st \<and> api_members st' = api_members st \<and> ap_audit st' = ap_audit st"

lemma same_holdings_refl [simp]: "same_holdings st st"
  by (simp add: same_holdings_def)

lemma same_holdings_trans: "same_holdings a b \<Longrightarrow> same_holdings b c \<Longrightarrow> same_holdings a c"
  by (simp add: same_holdings_def)

lemma with_workspaces_same [simp]: "same_holdings st (with_workspaces st)"
  by (simp add: same_holdings_def with_workspaces_def api_holds_def api_members_def Let_def w_rows_def ew_rows_def)

lemma on_limits_same: "on_limits f st = (r, st') \<Longrightarrow> same_holdings st st'"
  by (auto simp: on_limits_def same_holdings_def api_holds_def api_members_def split: prod.splits)

lemma spawn_same [simp]: "same_holdings st (api_spawn_touch k st)"
  by (simp add: api_spawn_touch_def spawn_touch_def same_holdings_def api_holds_def api_members_def)

lemma prefix_same:
  assumes "kr_get_by_prefix api_key_repo now p st = (r, st')"
  shows "same_holdings st st'"
proof -
  from assms obtain db where "key_repo_get_by_prefix now p (kw_keys (ap_keys st)) = (r, db)"
    and st': "st' = st\<lparr>ap_keys := (ap_keys st)\<lparr>kw_keys := db\<rparr>\<rparr>"
    by (auto simp: api_key_repo_def on_key_world_def kw_repo_def on_keys_def split: prod.splits)
  then have "kdb_rows db = kdb_rows (kw_keys (ap_keys st))"
    using pg_key_call_laws(4) by blast
  then show ?thesis by (simp add: st' same_holdings_def api_holds_def api_members_def)
qed

lemma prefix_keys:
  assumes "kr_get_by_prefix api_key_repo now p st = (Inr ks, st')" and "k \<in> set ks"
  shows "k \<in> set (kw_rows (ap_keys st)) \<and> k_prefix k = p \<and> key_live now k"
proof -
  from assms(1) obtain w where "kr_get_by_prefix kw_repo now p (ap_keys st) = (Inr ks, w)"
    by (auto simp: api_key_repo_def on_key_world_def split: prod.splits)
  from kw.passed_key_live [OF this assms(2)] show ?thesis .
qed

lemma member_read:
  assumes "api_get_member ws uid st = (r, st')"
  shows "same_holdings st st'"
    and "r = Inr m \<Longrightarrow> m \<in> set (api_members st) \<and> m_workspace_id m = ws \<and> m_user_id m = uid"
proof -
  from assms obtain db where g: "ws_repo_get_member ws uid (kw_members (ap_keys st)) = (r, db)"
    and st': "st' = st\<lparr>ap_keys := (ap_keys st)\<lparr>kw_members := db\<rparr>\<rparr>"
    by (auto simp: api_get_member_def on_key_world_def kw_member_repo_def on_members_def split: prod.splits)
  from g have "wdb_primary db = wdb_primary (kw_members (ap_keys st))" "ws_view db = ws_view (kw_members (ap_keys st))"
    by (auto simp: ws_repo_get_member_def run_query_def map_err_def ws_view_def split: prod.splits sum.splits option.splits)
  then show "same_holdings st st'" by (simp add: st' same_holdings_def api_holds_def api_members_def)
  assume "r = Inr m"
  with g show "m \<in> set (api_members st) \<and> m_workspace_id m = ws \<and> m_user_id m = uid"
    by (auto simp: api_members_def ws_repo_get_member_def dest!: run_query_Inr dest: find_member_Some)
qed

lemma deny_check_same:
  assumes "deny_check (api_auth_config a) now jti st = (b, st')"
  shows "same_holdings st st'"
  using assms by (auto simp: deny_check_def api_auth_config_def dest: on_limits_same split: prod.splits sum.splits)

section \<open>Who calls\<close>

text \<open>
  The claims a request gets: those of a live key in the table that the raw key verifies against, and without a key
  those of the gateway headers or of an accepted bearer token.
\<close>

definition api_caller :: "('k, 'salt) api_config \<Rightarrow> 'salt api_input \<Rightarrow> request \<Rightarrow> 'adb api \<Rightarrow> claims \<Rightarrow> bool" where
  "api_caller c i r st cl \<longleftrightarrow>
     (case extract_api_key r of
        Some raw \<Rightarrow> \<exists>k \<in> set (kw_rows (ap_keys st)). k_prefix k = extract_prefix raw \<and> key_live (in_now i) k
           \<and> verify_key (apc_bcrypt c) raw (k_hash k) \<and> cl = claims_of_key (in_now i) k
      | None \<Rightarrow> \<exists>a. apc_auth c = Some a \<and>
          (gateway_claims (in_now i) r = Some cl
           \<or> (\<exists>token t ws. extract_bearer_token r = Some token \<and> token_accepted a (in_now i) token t ws \<and> cl = claims_of_jwt t ws)))"

lemma token_accepted_config: "token_accepted (api_auth_config a) now token t ws = token_accepted a now token t ws"
  by (simp add: token_accepted_def api_auth_config_def configured_issuers_def)

text \<open>A request that comes with no claims reaches what is behind the authentication with those of its caller, or is refused.\<close>

lemma authentication:
  assumes served: "api_apikey c i (api_authenticate c i h) r st = (resp, st')" and none: "rq_claims r = None"
  obtains (Refused) "rs_status resp \<in> {401, 500}" "same_holdings st st'"
  | (Nobody) "apc_auth c = None" "extract_api_key r = None" "h r st = (resp, st')"
  | (Caller) cl st1 where "api_caller c i r st cl" "same_holdings st st1" "h (with_claims cl r) st1 = (resp, st')"
  using served unfolding api_apikey_def
proof (cases rule: apikey_auth_cases)
  case No_key
  show thesis
  proof (cases "apc_auth c")
    case None
    with No_key Nobody show thesis by (simp add: api_authenticate_def)
  next
    case (Some a)
    with No_key have "authenticate (api_auth_config a) (in_now i) h r st = (resp, st')" by (simp add: api_authenticate_def)
    then show thesis
    proof (cases rule: authenticate_cases)
      case Refused
      with that(1) show thesis by (auto simp: write_auth_error_def dest: deny_check_same)
    next
      case Context
      with none show thesis by simp
    next
      case (Gateway cl)
      with Some No_key that(3) [of cl st] show thesis by (auto simp: api_caller_def)
    next
      case (Token token t ws s1)
      with Some No_key have "api_caller c i r st (claims_of_jwt t ws)"
        by (auto simp: api_caller_def token_accepted_config)
      from that(3) [OF this deny_check_same [OF Token(6)] Token(7)] show thesis .
    qed
  qed
next
  case (Refused raw)
  with that(1) prefix_same show thesis by (auto simp del: insert_iff) blast+
next
  case (Key raw k ks s1)
  from prefix_keys [OF Key(3,4)] Key have "api_caller c i r st (claims_of_key (in_now i) k)" by (auto simp: api_caller_def)
  moreover have "same_holdings st (api_spawn_touch (k_id k) s1)"
    by (rule same_holdings_trans [OF prefix_same [OF Key(3)] spawn_same])
  moreover have "api_authenticate c i h (with_claims (claims_of_key (in_now i) k) r) = h (with_claims (claims_of_key (in_now i) k) r)"
    by (rule ext) (simp add: api_authenticate_def authenticate_def with_claims_def split: option.splits)
  ultimately show thesis using that(3) Key(6) by simp
qed

lemma api_caller_same:
  assumes "same_holdings st st'"
  shows "api_caller c i r st' cl = api_caller c i r st cl"
proof -
  from assms have "kw_rows (ap_keys st') = kw_rows (ap_keys st)" by (simp add: same_holdings_def api_holds_def)
  then show ?thesis by (simp only: api_caller_def)
qed

section \<open>The limits and the roles\<close>

lemma limited:
  assumes "rate_limit (api_limit c cls) now later h r st = (resp, st')"
  obtains (Refused) "rs_status resp = 429" "same_holdings st st'"
  | (Passed) st1 answer hs where "same_holdings st st1" "h r st1 = (answer, st')" "resp = answer \<or> resp = under_headers hs answer"
proof -
  obtain ident tier where ident: "resolve_identity r = (ident, tier)" by fastforce
  let ?key = "identity_key (apc_service_name c) tier cls ident"
  obtain res st1 where check: "on_limits (limiter_check now later ?key (get_policy tier cls)) st = (res, st1)" by fastforce
  note same = on_limits_same [OF check]
  show thesis
  proof (cases res)
    case (Inl e)
    with assms ident check Passed [OF same] show thesis by (simp add: rate_limit_def api_limit_def)
  next
    case (Inr x)
    show thesis
    proof (cases "rl_allowed x")
      case True
      with assms ident check Inr Passed [OF same] show thesis
        by (auto simp: rate_limit_def api_limit_def split: prod.splits)
    next
      case False
      with assms ident check Inr Refused same show thesis
        by (auto simp: rate_limit_def api_limit_def too_many_requests_def)
    qed
  qed
qed

lemma guarded:
  assumes "api_guarded c i e r st = (resp, st')" and "rt_action (api_routes e) = Some a"
  obtains (Refused) "rs_status resp \<in> {403, 429, 500}" "same_holdings st st'"
  | (Passed) m st1 answer hs where "rq_member r = Some m" "role_can (m_role m) a" "same_holdings st st1"
      "api_inner c i e r st1 = (answer, st')" "resp = answer \<or> resp = under_headers hs answer"
proof -
  have act: thesis if "require_action a (api_inner c i e) r s = (answer, st')" "same_holdings st s"
    "resp = answer \<or> resp = under_headers hs answer" for s answer hs
    using require_action_run [OF that(1)] that(2,3) Refused Passed by auto
  show thesis
  proof (cases "rt_class (api_routes e)")
    case None
    with assms have "require_action a (api_inner c i e) r st = (resp, st')" by (simp add: api_guarded_def Let_def)
    from act [OF this same_holdings_refl] show thesis by blast
  next
    case (Some cls)
    with assms have "rate_limit (api_limit c cls) (in_now i) (in_later i) (require_action a (api_inner c i e)) r st = (resp, st')"
      by (simp add: api_guarded_def Let_def)
    then show thesis by (cases rule: limited) (use Refused act in auto)
  qed
qed

lemma membership:
  assumes "workspace_auth api_get_member h (with_claims cl r) st = (resp, st')"
  obtains (Refused) "rs_status resp \<in> {403, 500}" "same_holdings st st'"
  | (Member) m st1 where "m \<in> set (api_members st)" "m_workspace_id m = cl_workspace_id cl" "m_user_id m = cl_user_id cl"
      "same_holdings st st1" "h ((with_claims cl r)\<lparr>rq_member := Some m\<rparr>) st1 = (resp, st')"
proof -
  obtain g st1 where g: "api_get_member (cl_workspace_id cl) (cl_user_id cl) st = (g, st1)" by fastforce
  show thesis
  proof (cases g)
    case (Inl e)
    with assms g have "rs_status resp \<in> {403, 500} \<and> st' = st1"
      by (auto simp: workspace_auth_def with_claims_def forbidden_problem_def resp_internal_error_def split: if_splits)
    with Refused member_read(1) [OF g] show thesis by blast
  next
    case (Inr m)
    with assms g have "h ((with_claims cl r)\<lparr>rq_member := Some m\<rparr>) st1 = (resp, st')"
      by (simp add: workspace_auth_def with_claims_def)
    with Member [of m st1] member_read(1) [OF g] member_read(2) [OF g Inr] show thesis by blast
  qed
qed

lemma action_in_workspace: "rt_action (api_routes e) = Some a \<Longrightarrow> rt_scope (api_routes e) = InWorkspace"
  by (cases e) (simp_all add: route_of_def)

lemma workspace_access:
  assumes "rt_action (api_routes e) = Some a" and "rq_claims r = None" and "api_serve c i e r st = (resp, st')"
  shows "(rs_status resp \<in> {401, 403, 429, 500} \<and> same_holdings st st')
    \<or> (\<exists>cl m st1 answer hs. api_caller c i r st cl \<and> m \<in> set (api_members st) \<and> m_workspace_id m = cl_workspace_id cl
         \<and> m_user_id m = cl_user_id cl \<and> role_can (m_role m) a \<and> same_holdings st st1
         \<and> api_inner c i e ((with_claims cl r)\<lparr>rq_member := Some m\<rparr>) st1 = (answer, st')
         \<and> (resp = answer \<or> resp = under_headers hs answer))"
proof -
  let ?st0 = "with_workspaces st"
  from assms action_in_workspace [OF assms(1)]
  have "api_apikey c i (api_authenticate c i (workspace_auth api_get_member (api_guarded c i e))) r ?st0 = (resp, st')"
    by (simp add: api_serve_def Let_def)
  from this assms(2) show ?thesis
  proof (cases rule: authentication)
    case Refused
    with same_holdings_trans [OF with_workspaces_same] show ?thesis by auto
  next
    case Nobody
    with assms(2) have "rs_status resp = 401 \<and> st' = ?st0" by (auto simp: workspace_auth_def unauthenticated_problem_def)
    then show ?thesis by simp
  next
    case (Caller cl st1)
    note s1 = same_holdings_trans [OF with_workspaces_same Caller(2)]
    from Caller(3) show ?thesis
    proof (cases rule: membership)
      case Refused
      with same_holdings_trans [OF s1] show ?thesis by auto
    next
      case (Member m st2)
      note s2 = same_holdings_trans [OF s1 Member(4)]
      from Member(5) assms(1) show ?thesis
      proof (cases rule: guarded)
        case Refused
        with same_holdings_trans [OF s2] show ?thesis by auto
      next
        case (Passed m' st3 answer hs)
        then have "m' = m" by simp
        moreover have "api_caller c i r st cl" using Caller(1) api_caller_same [OF with_workspaces_same] by blast
        moreover have "m \<in> set (api_members st)" using Member(1) s1 by (simp add: same_holdings_def)
        ultimately show ?thesis using Member Passed same_holdings_trans [OF s2 Passed(3)] by blast
      qed
    qed
  qed
qed


section \<open>Audit entries\<close>

text \<open>An audited handler annotates its entry exactly when it succeeds.\<close>

lemma pending_calls:
  "on_pending f (p, s) = (x, ps) \<longleftrightarrow> (\<exists>s1. f s = (x, s1) \<and> ps = (p, s1))"
  "fire_pending d ev (p, s) = (p, fire d ev s)"
  "annotate_context rt i meta (Some e, s) = (Some (e\<lparr>ae_resource_type := rt, ae_resource_id := i, ae_metadata := meta\<rparr>), s)"
  by (auto simp: on_pending_def fire_pending_def annotate_context_def split: prod.splits)

definition annotated :: "response \<Rightarrow> audit_event \<Rightarrow> audit_event option \<Rightarrow> bool" where
  "annotated resp ev pend \<longleftrightarrow>
     (if is_success (rs_status resp)
      then \<exists>rt i meta. pend = Some (ev\<lparr>ae_resource_type := rt, ae_resource_id := i, ae_metadata := meta\<rparr>)
      else pend = Some ev)"

lemma failure_status:
  "\<not> is_success (rs_status (url_error_response r e))" "\<not> is_success (rs_status (shorten_error_response r e))"
  "\<not> is_success (rs_status (workspace_error_response r e))" "\<not> is_success (rs_status (apikey_error_response r e))"
  "\<not> is_success (rs_status (webhook_error_response r e))" "\<not> is_success (rs_status unauthorized_response)"
  "\<not> is_success (rs_status (undecodable r))" "\<not> is_success (rs_status (resp_internal_error inst))"
  "\<not> is_success (rs_status (shorten_decode_error r d))"
  using error_response_status [of r e]
  by (auto simp: is_success_def unauthorized_response_def unauthenticated_problem_def undecodable_def resp_defs shorten_decode_error_def
        split: decode_error.splits)

lemma success_status: "is_success (rs_status (write_json 201 x))" "is_success (rs_status (write_json 200 x))" "is_success (rs_status no_content)"
  by (simp_all add: is_success_def write_json_def no_content_def)

lemmas audited_handlers = shorten_http_def workspace_create_def add_member_http_def webhook_register_def webhook_delete_def
  url_update_def url_delete_def key_create_def key_revoke_def

lemma audited_calls:
  "shorten_http d now r (Some ev, s) = (resp, (pend, s')) \<Longrightarrow> annotated resp ev pend"
  "workspace_create wh r (Some ev, s) = (resp, (pend, s')) \<Longrightarrow> annotated resp ev pend"
  "add_member_http wh r (Some ev, s) = (resp, (pend, s')) \<Longrightarrow> annotated resp ev pend"
  "webhook_register hh r (Some ev, s) = (resp, (pend, s')) \<Longrightarrow> annotated resp ev pend"
  "webhook_delete hh r (Some ev, s) = (resp, (pend, s')) \<Longrightarrow> annotated resp ev pend"
  "url_update uh now r (Some ev, s) = (resp, (pend, s')) \<Longrightarrow> annotated resp ev pend"
  "url_delete uh now r (Some ev, s) = (resp, (pend, s')) \<Longrightarrow> annotated resp ev pend"
  "key_create kh r (Some ev, s) = (resp, (pend, s')) \<Longrightarrow> annotated resp ev pend"
  "key_revoke kh r (Some ev, s) = (resp, (pend, s')) \<Longrightarrow> annotated resp ev pend"
  by (auto simp: audited_handlers annotated_def pending_calls failure_status success_status Let_def
        split: option.splits sum.splits prod.splits)

lemma revoke_call: "api_revoke_token i r (Some ev, s) = (resp, (pend, s')) \<Longrightarrow> annotated resp ev pend"
  by (auto simp: api_revoke_token_def revoke_token_handler_def annotated_def annotate_context_def is_success_def resp_internal_error_def
        split: option.splits sum.splits prod.splits)

lemma handler_annotates:
  assumes "rt_audit (api_routes e) = Some act" and "api_handler c i e r (Some ev, st) = (resp, (pend, st'))"
  shows "annotated resp ev pend"
  using assms by (cases e) (auto simp: route_of_def intro: audited_calls revoke_call)

lemma inner_audit:
  assumes act: "rt_audit (api_routes e) = Some act" and run: "api_inner c i e r st = (resp, st')"
  shows "\<exists>ev. ae_id ev = in_audit_ulid i \<and> ae_action ev = act 
     \<and> ae_actor_id ev = (case rq_claims r of None \<Rightarrow> ''anonymous'' | Some cl \<Rightarrow> cl_user_id cl)
     \<and> ap_audit st' = (if is_success (rs_status resp) \<and> ae_resource_id ev \<noteq> [] then audit_capture ev (ap_audit st) else ap_audit st)"
proof -
  let ?ev = "build_event (in_now i) (in_audit_ulid i) act r"
  obtain pend st1 where h: "api_handler c i e r (Some ?ev, st) = (resp, (pend, st1))"
    using run act by (auto simp: api_inner_def api_audited_def audit_action_def split: prod.splits option.splits if_splits)
  have "act \<noteq> act_auth_failed" using act
    by (cases e) (auto simp: route_of_def act_auth_failed_def act_url_create_def act_url_update_def act_url_delete_def act_workspace_create_def
        act_member_add_def act_apikey_create_def act_apikey_revoke_def act_webhook_create_def act_webhook_delete_def act_token_revoke_def)
  with run act h handler_annotates [OF act h] show ?thesis
    by (auto simp: api_inner_def api_audited_def audit_action_def annotated_def build_event_def split: prod.splits option.splits if_splits
          intro!: exI [of _ "the pend"])
qed

lemma guarded_any:
  assumes "api_guarded c i e r st = (resp, st')"
  obtains (Refused) "rs_status resp \<in> {403, 429, 500}" "same_holdings st st'"
  | (Passed) st1 answer hs where "same_holdings st st1" "api_inner c i e r st1 = (answer, st')"
      "resp = answer \<or> resp = under_headers hs answer"
proof (cases "rt_action (api_routes e)")
  case (Some a)
  from assms Some show thesis by (cases rule: guarded) (use that in blast)+
next
  case None
  show thesis
  proof (cases "rt_class (api_routes e)")
    case None
    with assms \<open>rt_action (api_routes e) = None\<close> that(2) [OF same_holdings_refl] show thesis by (auto simp: api_guarded_def Let_def)
  next
    case (Some cls)
    with assms \<open>rt_action (api_routes e) = None\<close>
    have "rate_limit (api_limit c cls) (in_now i) (in_later i) (api_inner c i e) r st = (resp, st')"
      by (simp add: api_guarded_def Let_def)
    then show thesis by (cases rule: limited) (use that in auto)
  qed
qed

text \<open>Who a handler serves: nobody in particular outside the authenticated routes, otherwise a caller.\<close>

definition serves :: "('k, 'salt) api_config \<Rightarrow> 'salt api_input \<Rightarrow> api_endpoint \<Rightarrow> request \<Rightarrow> 'adb api \<Rightarrow> claims option \<Rightarrow> bool" where
  "serves c i e r st who \<longleftrightarrow>
     (case who of
        None \<Rightarrow> rt_scope (api_routes e) = Public \<or> apc_auth c = None
      | Some cl \<Rightarrow> rt_scope (api_routes e) \<noteq> Public \<and> api_caller c i r st cl)"

lemma reaches_handler:
  assumes "api_serve c i e r st = (resp, st')" and "rq_claims r = None"
  obtains (Refused) "rs_status resp \<in> {401, 403, 429, 500}" "same_holdings st st'"
  | (Served) r' st1 answer hs where "serves c i e r st (rq_claims r')" "same_holdings st st1" "api_inner c i e r' st1 = (answer, st')"
      "resp = answer \<or> resp = under_headers hs answer"
proof -
  let ?st0 = "with_workspaces st"
  have inner: thesis if "api_guarded c i e r' s = (resp, st')" "same_holdings st s" "serves c i e r st (rq_claims r')" for r' s
    using that(1)
  proof (cases rule: guarded_any)
    case Refused
    with that(2) \<open>_ \<Longrightarrow> _ \<Longrightarrow> thesis\<close> show thesis by (auto dest: same_holdings_trans)
  next
    case (Passed st1 answer hs)
    from \<open>serves c i e r st (rq_claims r')\<close> same_holdings_trans [OF that(2) Passed(1)] Passed(2,3) show thesis by (rule Served)
  qed
  have st0: "same_holdings st ?st0" by simp
  have caller: "serves c i e r st (rq_claims (with_claims cl r))" "serves c i e r st (rq_claims ((with_claims cl r)\<lparr>rq_member := m\<rparr>))"
    if "api_caller c i r ?st0 cl" "rt_scope (api_routes e) \<noteq> Public" for cl m
    using that api_caller_same [OF st0] by (auto simp: serves_def with_claims_def)
  have nobody: "serves c i e r st (rq_claims r)" if "rt_scope (api_routes e) = Public \<or> apc_auth c = None"
    using assms(2) that by (simp add: serves_def)
  show thesis
  proof (cases "rt_scope (api_routes e)")
    case Public
    with assms(1) have "api_guarded c i e r ?st0 = (resp, st')" by (simp add: api_serve_def Let_def)
    from inner [OF this st0 nobody] Public show thesis by blast
  next
    case Authenticated
    with assms(1) have "api_apikey c i (api_authenticate c i (api_guarded c i e)) r ?st0 = (resp, st')"
      by (simp add: api_serve_def Let_def)
    from this assms(2) show thesis
    proof (cases rule: authentication)
      case Refused
      with that(1) same_holdings_trans [OF st0] show thesis by auto
    next
      case Nobody
      with inner [OF Nobody(3) st0 nobody] show thesis by blast
    next
      case (Caller cl st1)
      from inner [OF Caller(3) same_holdings_trans [OF st0 Caller(2)] caller(1) [OF Caller(1)]] Authenticated show thesis by simp
    qed
  next
    case InWorkspace
    with assms(1) have "api_apikey c i (api_authenticate c i (workspace_auth api_get_member (api_guarded c i e))) r ?st0 = (resp, st')"
      by (simp add: api_serve_def Let_def)
    from this assms(2) show thesis
    proof (cases rule: authentication)
      case Refused
      with that(1) same_holdings_trans [OF st0] show thesis by auto
    next
      case Nobody
      with assms(2) have "rs_status resp = 401 \<and> st' = ?st0" by (auto simp: workspace_auth_def unauthenticated_problem_def)
      with that(1) st0 show thesis by simp
    next
      case (Caller cl st1)
      note s1 = same_holdings_trans [OF st0 Caller(2)]
      from Caller(3) show thesis
      proof (cases rule: membership)
        case Refused
        with that(1) same_holdings_trans [OF s1] show thesis by auto
      next
        case (Member m st2)
        from inner [OF Member(5) same_holdings_trans [OF s1 Member(4)] caller(2) [OF Caller(1)]] InWorkspace show thesis by simp
      qed
    qed
  qed
qed


section \<open>Keys\<close>

text \<open>C19: A key created over HTTP belongs to the workspace the path names, whichever that is, while the role that permits the
  creation is the one the caller has in the workspace of its claims: an admin of one workspace can create keys for
  another.\<close>

theorem key_for_path_workspace:
  assumes "rq_claims r = None" and "api_serve c i CreateKey r st = (resp, st')" and "rs_status resp = 201"
  shows "\<exists>cl m k. api_caller c i r st cl \<and> m \<in> set (api_members st) \<and> m_workspace_id m = cl_workspace_id cl
    \<and> m_user_id m = cl_user_id cl \<and> role_can (m_role m) action_manage_members
    \<and> kw_rows (ap_keys st') = kw_rows (ap_keys st) @ [k] \<and> k_id k = in_ulid i
    \<and> k_workspace_id k = rq_param r ''workspaceID'' \<and> k_created_by k = cl_user_id cl"
proof -
  have route: "rt_action (api_routes CreateKey) = Some action_manage_members" "rt_audit (api_routes CreateKey) = Some act_apikey_create"
    by (simp_all add: route_of_def)
  from workspace_access [OF route(1) assms(1,2)] assms(3) obtain cl m st1 answer hs where
    who: "api_caller c i r st cl" "m \<in> set (api_members st)" "m_workspace_id m = cl_workspace_id cl" "m_user_id m = cl_user_id cl"
      "role_can (m_role m) action_manage_members" and s1: "same_holdings st st1"
    and run: "api_inner c i CreateKey ((with_claims cl r)\<lparr>rq_member := Some m\<rparr>) st1 = (answer, st')"
    and ok: "rs_status answer = 201"
    by auto
  let ?r = "(with_claims cl r)\<lparr>rq_member := Some m\<rparr>"
  from run obtain ev pend st2 where h: "key_create (api_key_http c i) ?r (Some ev, st1) = (answer, (pend, st2))"
    and keys: "ap_keys st' = ap_keys st2"
    by (auto simp: api_inner_def route_of_def api_audited_def audit_action_def split: prod.splits option.splits if_splits)
  have refused: "rs_status (apikey_error_response rq err) \<noteq> 201" for rq err
    using error_response_status(5) [of rq err] by auto
  from h obtain q :: create_key_request and k :: create_key_result and w where run: "create_key_handle (apc_bcrypt c) kw_repo (in_now i) (in_ulid i) (in_random i) (in_salt i)
      \<lparr>ck_workspace_id = rq_param r ''workspaceID'', ck_name = kq_name q, ck_scopes = kq_scopes q,
       ck_expires_at = kq_expires_at q, ck_created_by = cl_user_id cl\<rparr> (ap_keys st1) = (Inr k, w)" and w: "ap_keys st2 = w"
    using ok
    by (auto simp: key_create_def api_key_http_def on_key_world_def pending_calls with_claims_def unauthorized_response_def
          unauthenticated_problem_def undecodable_def resp_defs rq_param_def refused split: sum.splits prod.splits)
  from create_key_Inr [OF run] obtain hs v where
    c: "kr_create kw_repo (new_key (in_now i) (in_ulid i) (ckr_raw_key k) hs \<lparr>ck_workspace_id = rq_param r ''workspaceID'', ck_name = kq_name q,
        ck_scopes = kq_scopes q, ck_expires_at = kq_expires_at q, ck_created_by = cl_user_id cl\<rparr>) (ap_keys st1) = (Inr v, w)"
    by blast
  from kw.create_ok [OF c] kw.row [of "new_key (in_now i) (in_ulid i) (ckr_raw_key k) hs \<lparr>ck_workspace_id = rq_param r ''workspaceID'', ck_name = kq_name q,
        ck_scopes = kq_scopes q, ck_expires_at = kq_expires_at q, ck_created_by = cl_user_id cl\<rparr>"] s1 who keys w
  show ?thesis by (auto simp: same_holdings_def api_holds_def same_credential_def new_key_def)
qed

section \<open>Inputs\<close>

text \<open>A deployment with two workspaces, whose Redis is down: the limits fail open and the deny list is not asked. The bearer token
  of the requests names \<open>ws_1\<close>, of which its user is an admin.\<close>

definition demo_api_auth :: "(unit, unit) auth_config" where
  "demo_api_auth = \<lparr>ac_issuer = ''iss'', ac_audience = ''api'', ac_key_set = (), ac_additional_key_set = None, ac_allowed_issuers = [],
     ac_deny_list = None, ac_parse = demo_parser (60 * second)\<rparr>"

definition demo_api_config :: "(unit, unit) api_config" where
  "demo_api_config = \<lparr>apc_links = demo_cfg,
     apc_auth = Some demo_api_auth,
     apc_bcrypt = \<lparr>bc_generate = (\<lambda>salt p cost. Inr (CHR ''H'' # p)), bc_compare = (\<lambda>h p. h = CHR ''H'' # p)\<rparr>,
     apc_service_name = ''api-service'', apc_api_base_url = ''https://api.s.io'', apc_max_window_days = 90,
     apc_storage_dir = ''/data'', apc_signer = \<lparr>sg_secret = []\<rparr>, apc_subscribe = (\<lambda>_. Inr ()),
     apc_glob = (\<lambda>p ch. take (length p - 1) ch = butlast p)\<rparr>"

definition demo_input :: "unit api_input" where
  "demo_input = \<lparr>in_now = 5, in_later = 5, in_ulid = ''01K'', in_ulids = (\<lambda>_. ''01D''), in_audit_ulid = ''01E'', in_draws = [],
     in_random = Inr (replicate 32 0), in_salt = (), in_stream = [], in_db_ping = None, in_cache_ping = None\<rparr>"

definition demo_workspace :: "string \<Rightarrow> string \<Rightarrow> workspace" where
  "demo_workspace i u = \<lparr>w_id = i, w_name = i, w_slug = i, w_plan_tier = ''free'', w_owner_id = u, w_created_at = 0, w_updated_at = 0\<rparr>"

definition demo_admin :: "string \<Rightarrow> member" where
  "demo_admin u = \<lparr>m_workspace_id = ''ws_1'', m_user_id = u, m_role = ''admin'', m_invited_by = [], m_joined_at = 0\<rparr>"

definition demo_api :: "unit api" where
  "demo_api = \<lparr>ap_redis = \<lparr>rdb_map = (\<lambda>_. None), rdb_faults = [Some ''down'', Some ''down'']\<rparr>, ap_audit = new_buffer (),
     ap_links = init_sys [] False 0,
     ap_keys = \<lparr>kw_keys = \<lparr>kdb_rows = [], kdb_replica = None, kdb_workspaces = [], kdb_faults = []\<rparr>,
       kw_members = \<lparr>wdb_primary = \<lparr>t_workspaces = [demo_workspace ''ws_1'' ''u0'', demo_workspace ''01ABCDEFGH'' ''u9''],
         t_members = [demo_admin ''usr_1'']\<rparr>, wdb_replica = None, wdb_faults = []\<rparr>, kw_tasks = []\<rparr>,
     ap_hooks = \<lparr>hx_db = \<lparr>hdb_hooks = [], hdb_replica = None, hdb_deliveries = [], hdb_workspaces = [], hdb_faults = []\<rparr>,
       hx_http = [], hx_posts = [], hx_queue = [], hx_ulids = []\<rparr>,
     ap_exports = \<lparr>ew_db = \<lparr>xdb_rows = [], xdb_replica = None, xdb_events = [], xdb_workspaces = [], xdb_cuts = [], xdb_faults = []\<rparr>,
       ew_fs = no_files\<rparr>,
     ap_events = \<lparr>aqd_events = [], aqd_rank = (\<lambda>_. 0), aqd_faults = []\<rparr>\<rparr>"

definition demo_api_request :: "string \<Rightarrow> string \<Rightarrow> string \<Rightarrow> json \<Rightarrow> request" where
  "demo_api_request method path ws body =
     (bearer_request method path)\<lparr>rq_params := [(''workspaceID'', ws)], rq_body := BodyValue body\<rparr>"

definition demo_invitation :: request where
  "demo_invitation = demo_api_request ''POST'' ''/api/v1/workspaces/ws_1/members'' ''ws_1''
     (JObj [(''user_id'', JStr ''usr_2''), (''role'', JStr ''viewer'')])"

definition demo_key_request :: request where
  "demo_key_request = demo_api_request ''POST'' ''/api/v1/workspaces/01ABCDEFGH/api-keys'' ''01ABCDEFGH''
     (JObj [(''name'', JStr ''deploy''), (''scopes'', JArr [JStr ''write''])])"

definition demo_bearer :: "request \<Rightarrow> bool" where
  "demo_bearer r \<longleftrightarrow> extract_api_key r = None \<and> gateway_claims 5 r = None \<and> rq_claims r = None
     \<and> extract_bearer_token r = Some ''a.b.c''"

lemma demo_bearers: "demo_bearer demo_key_request" "demo_bearer demo_invitation"
  by code_simp+

lemma demo_token_facts:
  "parse_jwt (api_auth_config demo_api_auth :: (unit, unit api) auth_config) 5 ''a.b.c'' = Inr (demo_token (60 * second))"
  "issuer_allowed (jw_issuer (demo_token (60 * second))) (api_auth_config demo_api_auth :: (unit, unit api) auth_config)"
  "string_claim (demo_token (60 * second)) [''workspace_id'', ''http://wso2.org/claims/workspace_id''] = Some ''ws_1''"
  "jw_jti (demo_token (60 * second)) = ''j1''"
  by code_simp+

definition demo_claims :: claims where "demo_claims = claims_of_jwt (demo_token (60 * second)) ''ws_1''"

definition demo_api1 :: "unit api" where
  "demo_api1 = (with_workspaces demo_api)\<lparr>ap_redis := \<lparr>rdb_map = (\<lambda>_. None), rdb_faults = [Some ''down'']\<rparr>\<rparr>"

lemma demo_deny: "deny_check (api_auth_config demo_api_auth) 5 ''j1'' (with_workspaces demo_api) = (False, demo_api1)"
  by (simp add: deny_check_def api_auth_config_def on_limits_def deny_is_revoked_def redis_exists_def redis_cmd_def
     with_workspaces_def demo_api_def demo_api1_def Let_def)

lemma demo_input_simps [simp]:
  "in_now demo_input = 5" "in_later demo_input = 5" "in_ulid demo_input = ''01K''" "in_random demo_input = Inr (replicate 32 0)"
  "in_salt demo_input = ()" "in_audit_ulid demo_input = ''01E''"
  by (simp_all add: demo_input_def)

lemma demo_api_auth_run:
  assumes "demo_bearer r"
  shows "api_apikey demo_api_config demo_input (api_authenticate demo_api_config demo_input h) r (with_workspaces demo_api)
    = h (with_claims demo_claims r) demo_api1"
proof -
  have a: "apc_auth demo_api_config = Some demo_api_auth" by (simp add: demo_api_config_def)
  from assms show ?thesis
    by (simp add: demo_bearer_def api_apikey_def apikey_auth_def api_authenticate_def a authenticate_def demo_token_facts demo_deny
        demo_claims_def del: string_claim.simps option.sel)
qed

lemma demo_member_read: "api_get_member ''ws_1'' ''usr_1'' demo_api1 = (Inr (demo_admin ''usr_1''), demo_api1)"
  by (simp add: api_get_member_def on_key_world_def kw_member_repo_def on_members_def ws_repo_get_member_def run_query_def map_err_def
    demo_api1_def with_workspaces_def demo_api_def demo_admin_def find_member_def first_row_def ws_view_def Let_def)

lemma demo_claims_simps: "cl_workspace_id demo_claims = ''ws_1''" "cl_user_id demo_claims = ''usr_1''"
  by (simp_all add: demo_claims_def claims_of_jwt_def demo_token_def)

definition demo_api2 :: "unit api" where
  "demo_api2 = (with_workspaces demo_api)\<lparr>ap_redis := \<lparr>rdb_map = (\<lambda>_. None), rdb_faults = []\<rparr>\<rparr>"

lemma demo_limit: "\<exists>e. on_limits (limiter_check 5 5 key p) demo_api1 = (Inl e, demo_api2)"
  by (auto simp: on_limits_def demo_api1_def demo_api2_def limiter_check_def redis_cmd_def Let_def)

lemma demo_fail_open: "rate_limit (api_limit c cls) 5 5 h r demo_api1 = h r demo_api2"
proof -
  obtain ident tier where id: "resolve_identity r = (ident, tier)" by fastforce
  obtain e where "on_limits (limiter_check 5 5 (identity_key (apc_service_name c) tier cls ident) (get_policy tier cls)) demo_api1 = (Inl e, demo_api2)"
    using demo_limit by blast
  with id show ?thesis by (simp add: rate_limit_def api_limit_def)
qed

lemma demo_may: "role_can ''admin'' action_manage_members" by code_simp

definition demo_cmd :: create_key_command where
  "demo_cmd = \<lparr>ck_workspace_id = ''01ABCDEFGH'', ck_name = ''deploy'', ck_scopes = [''write''], ck_expires_at = None, ck_created_by = ''usr_1''\<rparr>"

lemma key_made: "\<exists>k w. create_key_handle (apc_bcrypt demo_api_config) kw_repo 5 ''01K'' (Inr (replicate 32 0)) () demo_cmd (ap_keys demo_api2) = (Inr k, w)"
proof -
  have hex: "hex_encode (replicate 32 0) = replicate 64 (CHR ''0'')" by code_simp
  let ?raw = "''urlsk_01ABCDEF'' @ replicate 64 (CHR ''0'')"
  have raw: "generate_raw (Inr (replicate 32 0)) (ck_workspace_id demo_cmd) = Inr ?raw"
    by (simp add: generate_raw_def demo_cmd_def hex)
  have val: "validate_create_key demo_cmd = None" by code_simp
  have p: "extract_prefix ?raw = ''urlsk_01ABCDEF''" by code_simp
  have chk: "key_row_checks (new_key 5 ''01K'' ?raw h demo_cmd) = None" for h
  proof -
    have "char_length ''deploy'' = 6" "prefix_format_ok ''urlsk_01ABCDEF''" by code_simp+
    then show ?thesis by (simp add: key_row_checks_def new_key_def demo_cmd_def p del: append.simps replicate.simps)
  qed
  show ?thesis
    by (simp add: create_key_handle_def val raw hash_key_def demo_api_config_def kw_repo_def on_keys_def key_repo_create_def key_stmt_def
        demo_api2_def with_workspaces_def demo_api_def workspace_ids_def demo_workspace_def insert_key_def chk Let_def del: append.simps)
       (simp add: new_key_def demo_cmd_def)
qed

lemma key_body: "decode_struct False create_key_fields \<lparr>kq_name = [], kq_scopes = [], kq_expires_at = None\<rparr> (rq_body demo_key_request)
   = Inr \<lparr>kq_name = ''deploy'', kq_scopes = [''write''], kq_expires_at = None\<rparr>"
  "rq_param demo_key_request ''workspaceID'' = ''01ABCDEFGH''"
  by code_simp+

text \<open>Past the authentication, the membership and the limits, with the role of the admin.\<close>

definition demo_served :: "request \<Rightarrow> request" where
  "demo_served r = (with_claims demo_claims r)\<lparr>rq_member := Some (demo_admin ''usr_1'')\<rparr>"

lemma demo_serve:
  assumes "demo_bearer r" and "rt_scope (api_routes e) = InWorkspace" and "rt_action (api_routes e) = Some action_manage_members"
    and "rt_class (api_routes e) = Some cls"
  shows "api_serve demo_api_config demo_input e r demo_api = api_inner demo_api_config demo_input e (demo_served r) demo_api2"
  using assms
  by (simp add: api_serve_def demo_api_auth_run workspace_auth_def with_claims_def demo_claims_simps demo_member_read
      api_guarded_def demo_fail_open require_action_def demo_may demo_served_def) (simp add: demo_admin_def demo_may)

lemma demo_key_created: "rs_status (fst (api_serve demo_api_config demo_input CreateKey demo_key_request demo_api)) = 201"
proof -
  obtain k w where made: "create_key_handle (apc_bcrypt demo_api_config) kw_repo 5 ''01K'' (Inr (replicate 32 0)) () demo_cmd (ap_keys demo_api2) = (Inr k, w)"
    using key_made by blast
  have "rs_status (fst (key_create (api_key_http demo_api_config demo_input) (demo_served demo_key_request) (Some ev, demo_api2))) = 201" for ev
    using made key_body unfolding demo_cmd_def
    by (simp add: key_create_def with_claims_def api_key_http_def on_pending_def on_key_world_def demo_claims_simps write_json_def
       rq_param_def demo_served_def)
  then have "rs_status (fst (api_inner demo_api_config demo_input CreateKey (demo_served demo_key_request) demo_api2)) = 201"
    by (auto simp: api_inner_def route_of_def api_audited_def audit_action_def split: prod.splits option.splits)
      (metis fst_conv)+
  then show ?thesis by (subst demo_serve [OF demo_bearers(1)]) (simp_all add: route_of_def)
qed

lemma demo_invited:
  "rs_status (fst (api_serve demo_api_config demo_input AddMember demo_invitation demo_api)) = 201"
  "bf_channel (ap_audit (snd (api_serve demo_api_config demo_input AddMember demo_invitation demo_api))) \<noteq> []"
proof -
  have "rs_status (fst (api_inner demo_api_config demo_input AddMember (demo_served demo_invitation) demo_api2)) = 201
     \<and> bf_channel (ap_audit (snd (api_inner demo_api_config demo_input AddMember (demo_served demo_invitation) demo_api2))) \<noteq> []"
    by code_simp
  then show "rs_status (fst (api_serve demo_api_config demo_input AddMember demo_invitation demo_api)) = 201"
    "bf_channel (ap_audit (snd (api_serve demo_api_config demo_input AddMember demo_invitation demo_api))) \<noteq> []"
    by (subst demo_serve [OF demo_bearers(2)]; simp add: route_of_def)+
qed



theorem key_for_path_workspace_witness:
  "\<exists>cl m k. api_caller demo_api_config demo_input demo_key_request demo_api cl \<and> m \<in> set (api_members demo_api)
     \<and> m_workspace_id m = cl_workspace_id cl \<and> k_workspace_id k = ''01ABCDEFGH''
     \<and> kw_rows (ap_keys (snd (api_serve demo_api_config demo_input CreateKey demo_key_request demo_api))) = [k]
     \<and> m_workspace_id m \<noteq> k_workspace_id k"
proof -
  obtain resp st' where h: "api_serve demo_api_config demo_input CreateKey demo_key_request demo_api = (resp, st')" by fastforce
  from demo_key_created h demo_bearers(1) key_for_path_workspace [OF _ h]
  obtain cl m k where k: "api_caller demo_api_config demo_input demo_key_request demo_api cl" "m \<in> set (api_members demo_api)"
    "m_workspace_id m = cl_workspace_id cl" "kw_rows (ap_keys st') = kw_rows (ap_keys demo_api) @ [k]"
    "k_workspace_id k = rq_param demo_key_request ''workspaceID''"
    by (auto simp: demo_bearer_def)
  have "m_workspace_id m = ''ws_1''" using k(2) by (auto simp: api_members_def demo_api_def demo_admin_def ws_view_def)
  moreover have "kw_rows (ap_keys demo_api) = []" by (simp add: demo_api_def)
  ultimately show ?thesis using k h key_body(2) by (intro exI [of _ cl] exI [of _ m] exI [of _ k]) simp
qed

end
