(* ===== verification/LinkRefinement.thy ===== *)
theory LinkRefinement
  imports UrlRepo
begin

text \<open>
  The repository of links against what \<open>internal/domain/url/repository.go\<close> asks of it. The specification is a map
  from identifiers to links and an index from short codes to identifiers; the table of PostgreSQL with its two unique
  indexes implements it, operation by operation and so for every sequence of operations. The database answers and
  reads go to the primary.
\<close>

section \<open>The specification\<close>

record link_store =
  ls_links :: "string \<rightharpoonup> url"
  ls_index :: "string \<rightharpoonup> string"

datatype link_op =
  OpCreate url | OpByCode string | OpById string string | OpUpdate gotime url | OpDelete gotime string string
  | OpClick gotime string

datatype link_out = Stored | Found url | Failed gerr

definition by_code :: "link_store \<Rightarrow> string \<Rightarrow> url option" where
  "by_code m sc = (case ls_index m sc of None \<Rightarrow> None | Some i \<Rightarrow> ls_links m i)"

definition spec_show :: "url option \<Rightarrow> link_out" where
  "spec_show u =
     (case u of
        None \<Rightarrow> Failed (EUrl UrlErrNotFound)
      | Some r \<Rightarrow> if deleted_at r \<noteq> None then Failed (EUrl UrlErrDeleted) else Found r)"

text \<open>A change of one link: the row it would become must satisfy the checks of the table.\<close>

definition spec_change :: "string \<Rightarrow> gotime \<Rightarrow> (url \<Rightarrow> url) \<Rightarrow> url \<Rightarrow> link_store \<Rightarrow> link_out \<times> link_store" where
  "spec_change ctx now f r m =
     (let r' = pg_row ((f r)\<lparr>updated_at := now\<rparr>) in
      case url_row_checks r' of
        Some e \<Rightarrow> (Failed (translate_error e ctx), m)
      | None \<Rightarrow> (Stored, m\<lparr>ls_links := (ls_links m)(url_id r \<mapsto> r')\<rparr>))"

definition spec_live :: "string \<Rightarrow> string \<Rightarrow> link_store \<Rightarrow> url option" where
  "spec_live i ws m =
     (case ls_links m i of
        None \<Rightarrow> None
      | Some r \<Rightarrow> if workspace_id r = ws \<and> deleted_at r = None then Some r else None)"

fun spec_op :: "string list \<Rightarrow> link_op \<Rightarrow> link_store \<Rightarrow> link_out \<times> link_store" where
  "spec_op ids (OpCreate u) m =
     (case url_row_checks u of
        Some e \<Rightarrow> (Failed (translate_error e ''short_code''), m)
      | None \<Rightarrow>
          if ls_links m (url_id u) \<noteq> None
          then (Failed (translate_error (PgxError pg_unique_violation ''urls_pkey'' []) ''short_code''), m)
          else if ls_index m (short_code u) \<noteq> None
          then (Failed (translate_error (PgxError pg_unique_violation ''urls_short_code_unique'' []) ''short_code''), m)
          else if workspace_id u \<notin> set ids
          then (Failed (translate_error (PgxError pg_foreign_key_violation ''urls_workspace_fk'' []) ''short_code''), m)
          else (Stored, \<lparr>ls_links = (ls_links m)(url_id u \<mapsto> pg_row u), ls_index = (ls_index m)(short_code u \<mapsto> url_id u)\<rparr>))"
| "spec_op ids (OpByCode sc) m = (spec_show (by_code m sc), m)"
| "spec_op ids (OpById i ws) m =
     (spec_show (case ls_links m i of None \<Rightarrow> None | Some r \<Rightarrow> if workspace_id r = ws then Some r else None), m)"
| "spec_op ids (OpUpdate now u) m =
     (case spec_live (url_id u) (workspace_id u) m of
        None \<Rightarrow> (Failed (EUrl UrlErrNotFound), m)
      | Some r \<Rightarrow> spec_change ''urls'' now (\<lambda>r. r\<lparr>original_url := original_url u, title := title u, url_status := url_status u,
                   expires_at := expires_at u\<rparr>) r m)"
| "spec_op ids (OpDelete now i ws) m =
     (case spec_live i ws m of
        None \<Rightarrow> (Failed (EUrl UrlErrNotFound), m)
      | Some r \<Rightarrow> spec_change ''urls'' now (\<lambda>r. r\<lparr>url_status := status_deleted, deleted_at := Some now\<rparr>) r m)"
| "spec_op ids (OpClick now sc) m =
     (case by_code m sc of
        None \<Rightarrow> (Stored, m)
      | Some r \<Rightarrow> if deleted_at r \<noteq> None then (Stored, m)
                  else spec_change ''click_count'' now (\<lambda>r. r\<lparr>click_count := click_count r + 1\<rparr>) r m)"

section \<open>The implementation\<close>

definition out_of :: "('a \<Rightarrow> link_out) \<Rightarrow> 'a result \<times> url_db \<Rightarrow> link_out \<times> url_db" where
  "out_of f x = (case x of (Inl e, db) \<Rightarrow> (Failed e, db) | (Inr v, db) \<Rightarrow> (f v, db))"

fun repo_op :: "link_op \<Rightarrow> url_db \<Rightarrow> link_out \<times> url_db" where
  "repo_op (OpCreate u) db = out_of (\<lambda>_. Stored) (create_url u db)"
| "repo_op (OpByCode sc) db = out_of Found (get_by_short_code sc db)"
| "repo_op (OpById i ws) db = out_of Found (get_by_id i ws db)"
| "repo_op (OpUpdate now u) db = out_of (\<lambda>_. Stored) (update_url now u db)"
| "repo_op (OpDelete now i ws) db = out_of (\<lambda>_. Stored) (soft_delete_url now i ws db)"
| "repo_op (OpClick now sc) db = out_of (\<lambda>_. Stored) (increment_click_count now sc db)"

fun run_ops :: "(link_op \<Rightarrow> 's \<Rightarrow> link_out \<times> 's) \<Rightarrow> link_op list \<Rightarrow> 's \<Rightarrow> link_out list \<times> 's" where
  "run_ops step [] s = ([], s)"
| "run_ops step (a # as) s = (case step a s of (out, s1) \<Rightarrow> (case run_ops step as s1 of (outs, s2) \<Rightarrow> (out # outs, s2)))"

text \<open>The abstraction, and the tables it is for.\<close>

definition links_of :: "url list \<Rightarrow> string \<rightharpoonup> url" where "links_of rows = map_of (map (\<lambda>r. (url_id r, r)) rows)"
definition index_of :: "url list \<Rightarrow> string \<rightharpoonup> string" where "index_of rows = map_of (map (\<lambda>r. (short_code r, url_id r)) rows)"

definition store_of :: "url_db \<Rightarrow> link_store" where
  "store_of db = \<lparr>ls_links = links_of (udb_rows db), ls_index = index_of (udb_rows db)\<rparr>"

definition answering :: "url_db \<Rightarrow> bool" where
  "answering db \<longleftrightarrow> udb_faults db = [] \<and> udb_replica db = None \<and> url_table_ok (udb_rows db)"

section \<open>Lookups\<close>

lemma url_table_okD: "url_table_ok rows \<Longrightarrow> distinct (map url_id rows)" "url_table_ok rows \<Longrightarrow> distinct (map short_code rows)"
  by (simp_all add: url_table_ok_def)

lemma links_of_Some: "distinct (map url_id rows) \<Longrightarrow> links_of rows i = Some r \<longleftrightarrow> r \<in> set rows \<and> url_id r = i"
  by (auto simp: links_of_def map_of_eq_Some_iff o_def)

lemma links_of_None: "links_of rows i = None \<longleftrightarrow> i \<notin> url_id ` set rows"
  by (auto simp: links_of_def map_of_eq_None_iff image_image)

lemma index_of_Some: "distinct (map short_code rows) \<Longrightarrow> index_of rows sc = Some i \<longleftrightarrow> (\<exists>r \<in> set rows. short_code r = sc \<and> url_id r = i)"
  by (auto simp: index_of_def map_of_eq_Some_iff o_def)

lemma index_of_None: "index_of rows sc = None \<longleftrightarrow> sc \<notin> short_code ` set rows"
  by (auto simp: index_of_def map_of_eq_None_iff image_image)

text \<open>The row a statement finds when at most one has the key.\<close>

lemma find_the_row:
  assumes "r \<in> set rows" and "p r" and "\<And>x. x \<in> set rows \<Longrightarrow> p x \<Longrightarrow> x = r"
  shows "List.find p rows = Some r"
  using assms
proof (induction rows)
  case (Cons a rows)
  show ?case
  proof (cases "p a")
    case True
    then have "a = r" using Cons.prems(3) [of a] by simp
    with True show ?thesis by simp
  next
    case False
    have "a \<noteq> r" using False Cons.prems(2) by blast
    then have "r \<in> set rows" using Cons.prems(1) by simp
    then have "List.find p rows = Some r" using Cons.IH Cons.prems(2,3) by (meson list.set_intros(2))
    with False show ?thesis by simp
  qed
qed simp

lemma same_id: "distinct (map url_id rows) \<Longrightarrow> x \<in> set rows \<Longrightarrow> y \<in> set rows \<Longrightarrow> url_id x = url_id y \<Longrightarrow> x = y"
  by (metis distinct_map inj_onD)

lemma same_code: "distinct (map short_code rows) \<Longrightarrow> x \<in> set rows \<Longrightarrow> y \<in> set rows \<Longrightarrow> short_code x = short_code y \<Longrightarrow> x = y"
  by (metis distinct_map inj_onD)

lemma find_link_by_id:
  assumes "url_table_ok rows"
  shows "List.find (\<lambda>r. url_id r = i \<and> q r) rows = (case links_of rows i of None \<Rightarrow> None | Some r \<Rightarrow> if q r then Some r else None)"
proof (cases "links_of rows i")
  case None
  then have "\<forall>r \<in> set rows. url_id r \<noteq> i" by (auto simp: links_of_None)
  then have "List.find (\<lambda>r. url_id r = i \<and> q r) rows = None" by (auto simp: find_None_iff)
  with None show ?thesis by simp
next
  case (Some r)
  with url_table_okD(1) [OF assms] have r: "r \<in> set rows" "url_id r = i" by (simp_all add: links_of_Some)
  have same: "x = r" if "x \<in> set rows" "url_id x = i" for x
    using same_id [OF url_table_okD(1) [OF assms] that(1) r(1)] that(2) r(2) by simp
  show ?thesis
  proof (cases "q r")
    case True
    have "List.find (\<lambda>r. url_id r = i \<and> q r) rows = Some r"
      by (rule find_the_row) (use r True same in blast)+
    with Some True show ?thesis by simp
  next
    case False
    with same have "List.find (\<lambda>r. url_id r = i \<and> q r) rows = None" unfolding find_None_iff by blast
    with False Some show ?thesis by simp
  qed
qed

lemma by_code_Some:
  assumes "url_table_ok (udb_rows db)"
  shows "by_code (store_of db) sc = Some r \<longleftrightarrow> r \<in> set (udb_rows db) \<and> short_code r = sc"
proof -
  note d = url_table_okD [OF assms]
  show ?thesis
  proof
    assume "by_code (store_of db) sc = Some r"
    then obtain i where "index_of (udb_rows db) sc = Some i" "links_of (udb_rows db) i = Some r"
      by (auto simp: by_code_def store_of_def split: option.splits)
    then show "r \<in> set (udb_rows db) \<and> short_code r = sc"
      unfolding links_of_Some [OF d(1)] index_of_Some [OF d(2)] using same_id [OF d(1)] by blast
  next
    assume r: "r \<in> set (udb_rows db) \<and> short_code r = sc"
    then have "index_of (udb_rows db) sc = Some (url_id r)" "links_of (udb_rows db) (url_id r) = Some r"
      by (auto simp: links_of_Some [OF d(1)] index_of_Some [OF d(2)])
    then show "by_code (store_of db) sc = Some r" by (simp add: by_code_def store_of_def)
  qed
qed

lemma find_link_by_code:
  assumes "url_table_ok (udb_rows db)"
  shows "List.find (\<lambda>r. short_code r = sc) (udb_rows db) = by_code (store_of db) sc"
proof (cases "by_code (store_of db) sc")
  case None
  then have "\<forall>r \<in> set (udb_rows db). short_code r \<noteq> sc" using by_code_Some [OF assms, of sc] by fastforce
  then have "List.find (\<lambda>r. short_code r = sc) (udb_rows db) = None" by (auto simp: find_None_iff)
  with None show ?thesis by simp
next
  case (Some r)
  with by_code_Some [OF assms] have r: "r \<in> set (udb_rows db)" "short_code r = sc" by simp_all
  have "x = r" if "x \<in> set (udb_rows db)" "short_code x = sc" for x
    using same_code [OF url_table_okD(2) [OF assms] that(1) r(1)] that(2) r(2) by simp
  then have "List.find (\<lambda>r. short_code r = sc) (udb_rows db) = Some r"
    by (intro find_the_row) (use r in blast)+
  with Some show ?thesis by simp
qed

section \<open>Changes\<close>

lemma links_of_replace:
  assumes "distinct (map url_id rows)" and "r \<in> set rows" and "url_id r' = url_id r"
  shows "links_of (map (\<lambda>x. if x = r then r' else x) rows) = (links_of rows)(url_id r \<mapsto> r')"
  using assms(1,2)
proof (induction rows)
  case (Cons a rows)
  show ?case
  proof (cases "a = r")
    case True
    then have "map (\<lambda>x. if x = r then r' else x) rows = rows" using Cons.prems(1) by (intro map_idI) auto
    with True assms(3) show ?thesis by (simp add: links_of_def fun_eq_iff)
  next
    case False
    with Cons.prems have "url_id a \<noteq> url_id r" by auto
    with Cons False show ?thesis by (auto simp: links_of_def fun_upd_twist)
  qed
qed simp

lemma links_of_append:
  "i \<notin> url_id ` set rows \<Longrightarrow> url_id r = i \<Longrightarrow> links_of (rows @ [r]) = (links_of rows)(i \<mapsto> r)"
  by (induction rows) (auto simp: links_of_def fun_upd_twist)

lemma index_of_append:
  "sc \<notin> short_code ` set rows \<Longrightarrow> short_code r = sc \<Longrightarrow> index_of (rows @ [r]) = (index_of rows)(sc \<mapsto> url_id r)"
  by (induction rows) (auto simp: index_of_def fun_upd_twist)

lemma index_of_replace:
  assumes "url_id r' = url_id r" and "short_code r' = short_code r"
  shows "index_of (map (\<lambda>x. if x = r then r' else x) rows) = index_of rows"
proof -
  have "map (\<lambda>x. (short_code x, url_id x)) (map (\<lambda>x. if x = r then r' else x) rows) = map (\<lambda>x. (short_code x, url_id x)) rows"
    using assms by simp
  then show ?thesis by (simp only: index_of_def)
qed

lemma update_rows_none: "\<forall>x \<in> set rows. \<not> p x \<Longrightarrow> update_rows now p f rows = Inr (rows, 0)"
proof -
  assume a: "\<forall>x \<in> set rows. \<not> p x"
  then have "List.find (\<lambda>x. p x \<and> q x) rows = None" for q by (auto simp: find_None_iff)
  moreover have "map (\<lambda>x. if p x then g x else x) rows = rows" for g using a by (intro map_idI) auto
  ultimately show ?thesis using a by (simp add: update_rows_def Let_def filter_empty_conv)
qed

lemma update_rows_one:
  assumes "distinct rows" and "r \<in> set rows" and "\<And>x. x \<in> set rows \<Longrightarrow> p x \<longleftrightarrow> x = r"
  shows "update_rows now p f rows =
    (let r' = pg_row ((f r)\<lparr>updated_at := now\<rparr>) in
     case url_row_checks r' of Some e \<Rightarrow> Inl e | None \<Rightarrow> Inr (map (\<lambda>x. if x = r then r' else x) rows, 1))"
proof -
  let ?r' = "pg_row ((f r)\<lparr>updated_at := now\<rparr>)"
  have rows: "map (\<lambda>x. if p x then pg_row ((f x)\<lparr>updated_at := now\<rparr>) else x) rows = map (\<lambda>x. if x = r then ?r' else x) rows"
    by (intro map_cong refl) (simp add: assms(3))
  have "filter p rows = filter (\<lambda>x. x = r) rows" by (intro filter_cong refl) (simp add: assms(3))
  also have "\<dots> = [r]" using assms(1,2) by (induction rows) (auto simp: filter_empty_conv)
  finally have one: "filter p rows = [r]" .
  show ?thesis
  proof (cases "url_row_checks ?r'")
    case None
    have "List.find (\<lambda>x. p x \<and> url_row_checks (pg_row ((f x)\<lparr>updated_at := now\<rparr>)) \<noteq> None) rows = None"
      using None by (auto simp: find_None_iff assms(3))
    with None rows one show ?thesis by (simp add: update_rows_def Let_def)
  next
    case (Some e)
    have "List.find (\<lambda>x. p x \<and> url_row_checks (pg_row ((f x)\<lparr>updated_at := now\<rparr>)) \<noteq> None) rows = Some r"
      by (rule find_the_row) (use Some assms(2) in \<open>auto simp: assms(3)\<close>)
    with Some show ?thesis by (simp add: update_rows_def Let_def)
  qed
qed

section \<open>Each operation\<close>

lemma answering_tables: "answering db \<Longrightarrow> url_table_ok (udb_rows db)" "answering db \<Longrightarrow> replica_rows db = udb_rows db"
  "answering db \<Longrightarrow> next_fault (udb_faults db) = (None, [])" "answering db \<Longrightarrow> db\<lparr>udb_faults := []\<rparr> = db"
  by (simp_all add: answering_def replica_rows_def)

lemma table_distinct: "url_table_ok rows \<Longrightarrow> distinct rows"
  by (simp add: url_table_ok_def distinct_map)

definition change_row :: "gotime \<Rightarrow> (url \<Rightarrow> url) \<Rightarrow> url \<Rightarrow> url_db \<Rightarrow> (pgx_err + nat) \<times> url_db" where
  "change_row now f r db =
     (let r' = pg_row ((f r)\<lparr>updated_at := now\<rparr>) in
      case url_row_checks r' of
        Some e \<Rightarrow> (Inl e, db)
      | None \<Rightarrow> (Inr 1, db\<lparr>udb_rows := map (\<lambda>x. if x = r then r' else x) (udb_rows db)\<rparr>))"

lemma exec_update_one:
  assumes "answering db" and "r \<in> set (udb_rows db)" and "\<And>x. x \<in> set (udb_rows db) \<Longrightarrow> p x \<longleftrightarrow> x = r"
  shows "exec_update now p f db = change_row now f r db"
  using update_rows_one [OF table_distinct [OF answering_tables(1) [OF assms(1)]] assms(2,3)] assms(1)
  by (simp add: exec_update_def change_row_def answering_def Let_def split: option.splits)

lemma exec_update_zero:
  assumes "answering db" and "\<And>x. x \<in> set (udb_rows db) \<Longrightarrow> \<not> p x"
  shows "exec_update now p f db = (Inr 0, db)"
proof -
  have "update_rows now p f (udb_rows db) = Inr (udb_rows db, 0)" using assms(2) by (intro update_rows_none) blast
  with assms(1) show ?thesis by (simp add: exec_update_def answering_def)
qed

lemma change_row_refines:
  assumes db: "answering db" and r: "r \<in> set (udb_rows db)" and key: "url_id (f r) = url_id r" "short_code (f r) = short_code r"
    and step: "change_row now f r db = (res, db')"
  shows "spec_change ctx now f r (store_of db) =
    ((case res of Inl e \<Rightarrow> Failed (translate_error e ctx) | Inr n \<Rightarrow> Stored), store_of db') \<and> (\<forall>n. res = Inr n \<longrightarrow> n = 1)"
proof -
  note d = url_table_okD(1) [OF answering_tables(1) [OF db]]
  let ?r' = "pg_row ((f r)\<lparr>updated_at := now\<rparr>)"
  have "links_of (map (\<lambda>x. if x = r then ?r' else x) (udb_rows db)) = (links_of (udb_rows db))(url_id r \<mapsto> ?r')"
    by (rule links_of_replace [OF d r]) (simp add: key)
  moreover have "index_of (map (\<lambda>x. if x = r then ?r' else x) (udb_rows db)) = index_of (udb_rows db)"
    by (rule index_of_replace) (simp_all add: key)
  ultimately show ?thesis using step
    by (auto simp: change_row_def spec_change_def store_of_def Let_def split: option.splits)
qed

text \<open>The statements of \<open>Update\<close> and \<open>SoftDelete\<close> select the live link of the identifier in the workspace.\<close>

lemma live_update_refines:
  assumes db: "answering db" and key: "\<And>r. url_id (f r) = url_id r" "\<And>r. short_code (f r) = short_code r"
    and step: "rows_affected ctx (exec_update now (live_in i ws) f db) = (res, db')"
  shows "(case spec_live i ws (store_of db) of
            None \<Rightarrow> (Failed (EUrl UrlErrNotFound), store_of db)
          | Some r \<Rightarrow> spec_change ctx now f r (store_of db)) =
         (case res of Inl e \<Rightarrow> Failed e | Inr _ \<Rightarrow> Stored, store_of db')"
proof -
  note ok = answering_tables(1) [OF db]
  note d = url_table_okD(1) [OF ok]
  show ?thesis
  proof (cases "spec_live i ws (store_of db)")
    case None
    have "\<not> live_in i ws x" if "x \<in> set (udb_rows db)" for x
    proof
      assume "live_in i ws x"
      with that have "links_of (udb_rows db) i = Some x" "workspace_id x = ws" "deleted_at x = None"
        by (simp_all add: links_of_Some [OF d] live_in_def)
      with None show False by (simp add: spec_live_def store_of_def)
    qed
    from exec_update_zero [OF db this, where now = now and f = f] step have "res = Inl (EUrl UrlErrNotFound)" "db' = db"
      by (auto simp: rows_affected_def)
    with None show ?thesis by simp
  next
    case (Some r)
    then have "links_of (udb_rows db) i = Some r" and live: "workspace_id r = ws" "deleted_at r = None"
      by (auto simp: spec_live_def store_of_def split: option.splits if_splits)
    then have r: "r \<in> set (udb_rows db)" "url_id r = i" by (simp_all add: links_of_Some [OF d])
    have "live_in i ws x \<longleftrightarrow> x = r" if "x \<in> set (udb_rows db)" for x
      using same_id [OF d that r(1)] r(2) live by (auto simp: live_in_def)
    from exec_update_one [OF db r(1) this, where now = now and f = f] have ex: "exec_update now (live_in i ws) f db = change_row now f r db" .
    obtain q db1 where ch: "change_row now f r db = (q, db1)" by fastforce
    from change_row_refines [OF db r(1) key(1) key(2) ch, of ctx] ch ex step Some show ?thesis
      by (cases q) (auto simp: rows_affected_def)
  qed
qed

lemma click_refines:
  assumes db: "answering db" and step: "increment_click_count now sc db = (res, db')"
  shows "spec_op ids (OpClick now sc) (store_of db) = (case res of Inl e \<Rightarrow> Failed e | Inr _ \<Rightarrow> Stored, store_of db')"
proof -
  note ok = answering_tables(1) [OF db]
  let ?p = "\<lambda>r. short_code r = sc \<and> deleted_at r = None"
  let ?f = "\<lambda>r. r\<lparr>click_count := click_count r + 1\<rparr>"
  show ?thesis
  proof (cases "\<exists>r. by_code (store_of db) sc = Some r \<and> deleted_at r = None")
    case False
    have "\<not> ?p x" if "x \<in> set (udb_rows db)" for x
      using False by_code_Some [OF ok, of sc x] that by blast
    from exec_update_zero [OF db this, where now = now and f = ?f] step have "res = Inr ()" "db' = db"
      by (auto simp: increment_click_count_def)
    with False show ?thesis by (cases "by_code (store_of db) sc") auto
  next
    case True
    then obtain r where r: "by_code (store_of db) sc = Some r" "deleted_at r = None" by blast
    then have m: "r \<in> set (udb_rows db)" "short_code r = sc" by (simp_all add: by_code_Some [OF ok])
    have "?p x \<longleftrightarrow> x = r" if "x \<in> set (udb_rows db)" for x
      using same_code [OF url_table_okD(2) [OF ok] that m(1)] m(2) r(2) by auto
    from exec_update_one [OF db m(1) this, where now = now and f = ?f] have ex: "exec_update now ?p ?f db = change_row now ?f r db" .
    obtain q db1 where ch: "change_row now ?f r db = (q, db1)" by fastforce
    have "spec_change ''click_count'' now ?f r (store_of db) =
      (case q of Inl e \<Rightarrow> Failed (translate_error e ''click_count'') | Inr n \<Rightarrow> Stored, store_of db1)"
      using change_row_refines [OF db m(1) _ _ ch, of "''click_count''"] by simp
    with ch ex step r show ?thesis by (cases q) (auto simp: increment_click_count_def)
  qed
qed

lemma create_refines:
  assumes db: "answering db" and step: "create_url u db = (res, db')"
  shows "spec_op (udb_workspaces db) (OpCreate u) (store_of db) =
    (case res of Inl e \<Rightarrow> Failed e | Inr _ \<Rightarrow> Stored, store_of db')"
proof -
  have new: "store_of (db\<lparr>udb_rows := udb_rows db @ [pg_row u]\<rparr>) =
      \<lparr>ls_links = (ls_links (store_of db))(url_id u \<mapsto> pg_row u), ls_index = (ls_index (store_of db))(short_code u \<mapsto> url_id u)\<rparr>"
    if "url_id u \<notin> url_id ` set (udb_rows db)" "short_code u \<notin> short_code ` set (udb_rows db)"
    using that by (simp add: store_of_def links_of_append index_of_append)
  have known: "ls_links (store_of db) (url_id u) = None \<longleftrightarrow> url_id u \<notin> url_id ` set (udb_rows db)"
    "ls_index (store_of db) (short_code u) = None \<longleftrightarrow> short_code u \<notin> short_code ` set (udb_rows db)"
    by (simp_all add: store_of_def links_of_None index_of_None)
  have "insert_url u db = (case res of Inl _ \<Rightarrow> fst (insert_url u db) | Inr _ \<Rightarrow> Inr (), db')"
    and res: "res = (case fst (insert_url u db) of Inl e \<Rightarrow> Inl (translate_error e ''short_code'') | Inr _ \<Rightarrow> Inr ())"
    using step answering_tables(3,4) [OF db] by (auto simp: create_url_def split: prod.splits sum.splits)
  then have db': "db' = snd (insert_url u db)" by (metis snd_conv)
  show ?thesis unfolding res db' by (auto simp: insert_url_def new known split: option.splits)
qed

lemma get_refines:
  assumes db: "answering db" and step: "get_row ctx p db = (res, db')" and err: "translate_error PgxNoRows ctx = EUrl UrlErrNotFound"
  shows "spec_show (List.find p (udb_rows db)) = (case res of Inl e \<Rightarrow> Failed e | Inr u \<Rightarrow> Found u) \<and> db' = db"
  using step answering_tables(2-4) [OF db] err
  by (auto simp: get_row_def query_row_def spec_show_def split: option.splits)

lemma not_found_translated: "translate_error PgxNoRows ctx = EUrl UrlErrNotFound"
  by simp

lemma op_refines:
  assumes db: "answering db" and step: "repo_op a db = (out, db')"
  shows "spec_op (udb_workspaces db) a (store_of db) = (out, store_of db')"
proof (cases a)
  case (OpCreate u)
  obtain res db1 where c: "create_url u db = (res, db1)" by fastforce
  from create_refines [OF db c] c step OpCreate show ?thesis by (auto simp: out_of_def split: sum.splits)
next
  case (OpByCode sc)
  obtain res db1 where c: "get_row ''short_code'' (\<lambda>r. short_code r = sc) db = (res, db1)" by fastforce
  from get_refines [OF db c not_found_translated] c step OpByCode show ?thesis
    by (auto simp: get_by_short_code_def out_of_def find_link_by_code [OF answering_tables(1) [OF db]] split: sum.splits)
next
  case (OpById i ws)
  obtain res db1 where c: "get_row ''id'' (\<lambda>r. url_id r = i \<and> workspace_id r = ws) db = (res, db1)" by fastforce
  from get_refines [OF db c not_found_translated] c step OpById show ?thesis
    by (auto simp: get_by_id_def out_of_def find_link_by_id [OF answering_tables(1) [OF db]] store_of_def split: sum.splits)
next
  case (OpUpdate now u)
  obtain res db1 where c: "update_url now u db = (res, db1)" by fastforce
  have "spec_op (udb_workspaces db) a (store_of db) = (case res of Inl e \<Rightarrow> Failed e | Inr _ \<Rightarrow> Stored, store_of db1)"
    using live_update_refines [OF db _ _ c [unfolded update_url_def]] by (simp add: OpUpdate)
  with c step OpUpdate show ?thesis by (auto simp: out_of_def split: sum.splits)
next
  case (OpDelete now i ws)
  obtain res db1 where c: "soft_delete_url now i ws db = (res, db1)" by fastforce
  have "spec_op (udb_workspaces db) a (store_of db) = (case res of Inl e \<Rightarrow> Failed e | Inr _ \<Rightarrow> Stored, store_of db1)"
    using live_update_refines [OF db _ _ c [unfolded soft_delete_url_def]] by (simp add: OpDelete)
  with c step OpDelete show ?thesis by (auto simp: out_of_def split: sum.splits)
next
  case (OpClick now sc)
  obtain res db1 where c: "increment_click_count now sc db = (res, db1)" by fastforce
  from click_refines [OF db c] c step OpClick show ?thesis by (auto simp: out_of_def split: sum.splits)
qed

text \<open>Every operation leaves a database that answers, with the same workspaces.\<close>

lemma exec_update_answering: "answering db \<Longrightarrow> udb_faults (snd (exec_update now p f db)) = []"
  by (auto simp: exec_update_def answering_def split: sum.splits prod.splits)

lemma snd_out_of: "snd (out_of f x) = snd x" by (cases x; cases "fst x") (auto simp: out_of_def)

lemma op_frame:
  assumes db: "answering db"
  shows "answering (snd (repo_op a db)) \<and> udb_workspaces (snd (repo_op a db)) = udb_workspaces db"
proof -
  note ok = answering_tables [OF db]
  have rep: "udb_replica db = None" using db by (simp add: answering_def)
  have written: "snd (update_url now u db) = snd (exec_update now (live_in (url_id u) (workspace_id u))
       (\<lambda>r. r\<lparr>original_url := original_url u, title := title u, url_status := url_status u, expires_at := expires_at u\<rparr>) db)"
    "snd (soft_delete_url now i ws db) = snd (exec_update now (live_in i ws)
       (\<lambda>r. r\<lparr>url_status := status_deleted, deleted_at := Some now\<rparr>) db)"
    "snd (increment_click_count now sc db) = snd (exec_update now (\<lambda>r. short_code r = sc \<and> deleted_at r = None)
       (\<lambda>r. r\<lparr>click_count := click_count r + 1\<rparr>) db)" for now u i ws sc
    by (simp_all add: update_url_def soft_delete_url_def rows_affected_snd increment_click_count_def split: prod.splits sum.splits)
  have upd: "udb_replica (snd (exec_update now p f db)) = None \<and> udb_workspaces (snd (exec_update now p f db)) = udb_workspaces db"
    for now p f using exec_update_frame [of now p f db] rep by (metis prod.collapse)
  have same: "snd (get_row ctx p db) = db" for ctx p
    using ok(3,4) by (auto simp: get_row_def query_row_def split: option.splits)
  show ?thesis
  proof (cases a)
    case (OpCreate u)
    have "udb_faults (snd (create_url u db)) = []"
      using ok(3) by (auto simp: create_url_def insert_url_def split: option.splits)
    with OpCreate create_url_table_ok [OF ok(1), of u] create_url_frame [of u db] rep show ?thesis
      by (cases "create_url u db") (simp add: snd_out_of answering_def)
  next
    case (OpUpdate now u)
    then show ?thesis using write_table_ok(1) [OF ok(1), of now u] upd exec_update_answering [OF db]
      by (simp add: snd_out_of answering_def written)
  next
    case (OpDelete now i ws)
    then show ?thesis using write_table_ok(2) [OF ok(1), of now i ws] upd exec_update_answering [OF db]
      by (simp add: snd_out_of answering_def written)
  next
    case (OpClick now sc)
    then show ?thesis using write_table_ok(3) [OF ok(1), of now sc] upd exec_update_answering [OF db]
      by (simp add: snd_out_of answering_def written)
  qed (use db in \<open>simp_all add: snd_out_of get_by_short_code_def get_by_id_def same\<close>)
qed

section \<open>Sequences of operations\<close>


text \<open>A link is read, taken again, deleted, counted and read once more.\<close>

definition sample_link :: url where
  "sample_link = \<lparr>url_id = ''01A'', workspace_id = ''ws_1'', short_code = ''go1'', original_url = ''https://e.co'', title = [],
     url_status = status_active, expires_at = None, created_by = ''usr_1'', created_at = 0, updated_at = 0,
     deleted_at = None, click_count = 0\<rparr>"

definition sample_db :: url_db where
  "sample_db = \<lparr>udb_rows = [], udb_replica = None, udb_workspaces = [''ws_1''], udb_faults = []\<rparr>"

definition sample_ops :: "link_op list" where
  "sample_ops = [OpCreate sample_link, OpCreate (sample_link\<lparr>url_id := ''01B''\<rparr>), OpByCode ''go1'', OpDelete 5 ''01A'' ''ws_1'',
     OpClick 6 ''go1'', OpByCode ''go1'', OpById ''01A'' ''ws_2'']"


end
