(* ===== verification/Config.thy ===== *)
theory Config
  imports ExportHttp Shortcode UrlDomain
begin

text \<open>
  \<open>internal/config/config.go\<close>: the \<open>.env\<close> file, the environment variables with their defaults and the validation.
  The environment is a map; the file system is what \<open>Getwd\<close>, \<open>Stat\<close> and reading a file return. Floating-point
  numbers and \<open>strconv.ParseFloat\<close> are represented by the values the validation tells apart.
\<close>

section \<open>The environment\<close>

type_synonym env = "string \<rightharpoonup> string"

text \<open>\<open>os.Getenv\<close>: empty also when the variable is not set.\<close>

definition getenv :: "env \<Rightarrow> string \<Rightarrow> string" where
  "getenv e k = (case e k of None \<Rightarrow> [] | Some v \<Rightarrow> v)"

definition nul :: char where "nul = char_of (0::nat)"

definition invalid_argument :: gerr where "invalid_argument = EOther ''setenv: invalid argument''"

definition setenv :: "string \<Rightarrow> string \<Rightarrow> env \<Rightarrow> unit result \<times> env" where
  "setenv k v e =
     (if k = [] \<or> CHR ''='' \<in> set k \<or> nul \<in> set k \<or> nul \<in> set v then (Inl invalid_argument, e)
      else (Inr (), e(k \<mapsto> v)))"

definition env_str :: "env \<Rightarrow> string \<Rightarrow> string \<Rightarrow> string" where
  "env_str e k default_val = (let v = getenv e k in if v \<noteq> [] then v else default_val)"

definition env_int :: "env \<Rightarrow> string \<Rightarrow> int \<Rightarrow> int" where
  "env_int e k default_val =
     (let v = getenv e k in
      if v = [] then default_val else (case atoi v of None \<Rightarrow> default_val | Some i \<Rightarrow> i))"

definition parse_bool :: "string \<Rightarrow> bool option" where
  "parse_bool s =
     (if s \<in> {''1'', ''t'', ''T'', ''true'', ''TRUE'', ''True''} then Some True
      else if s \<in> {''0'', ''f'', ''F'', ''false'', ''FALSE'', ''False''} then Some False
      else None)"

definition env_bool :: "env \<Rightarrow> string \<Rightarrow> bool \<Rightarrow> bool" where
  "env_bool e k default_val =
     (let v = getenv e k in
      if v = [] then default_val else (case parse_bool v of None \<Rightarrow> default_val | Some b \<Rightarrow> b))"

text \<open>No comparison with \<open>NaN\<close> holds.\<close>

datatype go_float = NotANumber | Infinite bool | Finite rat

fun float_less :: "go_float \<Rightarrow> go_float \<Rightarrow> bool" where
  "float_less NotANumber y = False"
| "float_less x NotANumber = False"
| "float_less (Infinite neg) (Infinite neg') = (neg \<and> \<not> neg')"
| "float_less (Infinite neg) (Finite y) = neg"
| "float_less (Finite x) (Infinite neg) = (\<not> neg)"
| "float_less (Finite x) (Finite y) = (x < y)"

definition env_float :: "(string \<Rightarrow> go_float option) \<Rightarrow> env \<Rightarrow> string \<Rightarrow> go_float \<Rightarrow> go_float" where
  "env_float pf e k default_val =
     (let v = getenv e k in
      if v = [] then default_val else (case pf v of None \<Rightarrow> default_val | Some f \<Rightarrow> f))"

text \<open>\<open>int32(...)\<close> keeps the low 32 bits.\<close>

definition to_int32 :: "int \<Rightarrow> int" where
  "to_int32 i = (i + 2 ^ 31) mod 2 ^ 32 - 2 ^ 31"

section \<open>The .env file\<close>

datatype quoting = Unquoted | InSingle | InDouble

definition single_quote :: char where "single_quote = char_of (39::nat)"
definition double_quote :: char where "double_quote = char_of (34::nat)"

text \<open>The scan of \<open>stripInlineComment\<close>; the first argument is the part already scanned.\<close>

fun strip_loop :: "string \<Rightarrow> quoting \<Rightarrow> string \<Rightarrow> string" where
  "strip_loop pre q [] = pre"
| "strip_loop pre q (c # cs) =
     (if c = single_quote then
        strip_loop (pre @ [c]) (case q of InDouble \<Rightarrow> InDouble | InSingle \<Rightarrow> Unquoted | Unquoted \<Rightarrow> InSingle) cs
      else if c = double_quote then
        strip_loop (pre @ [c]) (case q of InSingle \<Rightarrow> InSingle | InDouble \<Rightarrow> Unquoted | Unquoted \<Rightarrow> InDouble) cs
      else if c = CHR ''#'' \<and> q = Unquoted \<and> (pre = [] \<or> last pre = CHR '' '' \<or> last pre = char_of (9::nat)) then trim_space pre
      else strip_loop (pre @ [c]) q cs)"

definition strip_inline_comment :: "string \<Rightarrow> string" where
  "strip_inline_comment v = strip_loop [] Unquoted v"

definition unquote :: "string \<Rightarrow> string" where
  "unquote v =
     (if length v \<ge> 2 \<and> ((hd v = double_quote \<and> last v = double_quote) \<or> (hd v = single_quote \<and> last v = single_quote))
      then butlast (tl v) else v)"

text \<open>\<open>bufio.Scanner\<close>: the lines, without a final carriage return, up to one that does not fit its buffer.\<close>

definition max_token :: int where "max_token = 65536"

definition drop_cr :: "string \<Rightarrow> string" where
  "drop_cr l = (if l \<noteq> [] \<and> last l = char_of (13::nat) then butlast l else l)"

definition raw_lines :: "string \<Rightarrow> string list" where
  "raw_lines s = (let ls = split_on (char_of (10::nat)) s in if last ls = [] then butlast ls else ls)"

definition scan_lines :: "string \<Rightarrow> string list \<times> bool" where
  "scan_lines s =
     (let ls = raw_lines s; short = takeWhile (\<lambda>l. int (length l) < max_token) ls
      in (map drop_cr short, length short < length ls))"

text \<open>One line: nothing to set, a variable and its value, or a line that is not one.\<close>

datatype dotenv_line = Skip | Entry string string | Malformed string

definition parse_line :: "string \<Rightarrow> dotenv_line" where
  "parse_line raw =
     (let line = trim_space raw in
      if line = [] \<or> has_prefix line ''#'' then Skip
      else
        let line1 = (if has_prefix line ''export '' then trim_space (trim_prefix line ''export '') else line) in
        case str_cut line1 (CHR ''='') of
          None \<Rightarrow> Malformed ''expected KEY=VALUE''
        | Some (k, v) \<Rightarrow>
            (let k1 = trim_space k in
             if k1 = [] then Malformed ''empty key'' else Entry k1 (unquote (strip_inline_comment (trim_space v)))))"

fun apply_lines :: "string \<Rightarrow> nat \<Rightarrow> string list \<Rightarrow> env \<Rightarrow> unit result \<times> env" where
  "apply_lines path n [] e = (Inr (), e)"
| "apply_lines path n (l # ls) e =
     (case parse_line l of
        Skip \<Rightarrow> apply_lines path (Suc n) ls e
      | Malformed why \<Rightarrow> (Inl (EOther (''parse .env '' @ path @ '':'' @ show_nat n @ '': '' @ why)), e)
      | Entry k v \<Rightarrow>
          if getenv e k \<noteq> [] then apply_lines path (Suc n) ls e
          else (case setenv k v e of
                  (Inl err, e1) \<Rightarrow> (Inl (EWrap (''set env '' @ k @ '' from .env: '') err ''''), e1)
                | (Inr _, e1) \<Rightarrow> apply_lines path (Suc n) ls e1))"

datatype file_stat = NotExist | IsFile | IsDir | StatFails gerr

text \<open>Reading may break off with an error after some bytes.\<close>

record dotenv_files =
  df_cwd :: "string result"
  df_stat :: "string \<Rightarrow> file_stat"
  df_open :: "string \<Rightarrow> (string \<times> gerr option) result"

text \<open>The working directory, which is absolute, and its parents.\<close>

definition dotenv_candidates :: "string \<Rightarrow> string list" where
  "dotenv_candidates cwd =
     (let segs = clean_segments (split_on (CHR ''/'') cwd) [] in
      map (\<lambda>n. path_join (CHR ''/'' # str_join ''/'' (take n segs)) ''.env'') (rev [0..<Suc (length segs)]))"

fun find_candidate :: "(string \<Rightarrow> file_stat) \<Rightarrow> string list \<Rightarrow> string result" where
  "find_candidate st [] = Inr []"
| "find_candidate st (c # cs) =
     (case st c of
        IsFile \<Rightarrow> Inr c
      | StatFails e \<Rightarrow> Inl (EWrap ''stat .env: '' e '''')
      | _ \<Rightarrow> find_candidate st cs)"

definition find_dot_env :: "dotenv_files \<Rightarrow> string result" where
  "find_dot_env fs =
     (case df_cwd fs of
        Inl e \<Rightarrow> Inl (EWrap ''get working directory: '' e '''')
      | Inr dir \<Rightarrow> find_candidate (df_stat fs) (dotenv_candidates dir))"

text \<open>An error of the search is ignored.\<close>

definition load_dot_env :: "dotenv_files \<Rightarrow> env \<Rightarrow> unit result \<times> env" where
  "load_dot_env fs e =
     (if getenv e ''CONFIG_DISABLE_DOTENV'' = ''1'' then (Inr (), e)
      else (case find_dot_env fs of
        Inl _ \<Rightarrow> (Inr (), e)
      | Inr path \<Rightarrow>
          if path = [] then (Inr (), e)
          else (case df_open fs path of
            Inl err \<Rightarrow> (Inl (EWrap ''open .env: '' err ''''), e)
          | Inr (contents, broken) \<Rightarrow>
              (case scan_lines contents of
                (ls, too_long) \<Rightarrow>
                  (case apply_lines path 1 ls e of
                     (Inl err, e1) \<Rightarrow> (Inl err, e1)
                   | (Inr _, e1) \<Rightarrow>
                       if too_long then (Inl (EWrap ''read .env: '' (EOther ''bufio.Scanner: token too long'') ''''), e1)
                       else (case broken of None \<Rightarrow> (Inr (), e1) | Some err \<Rightarrow> (Inl (EWrap ''read .env: '' err ''''), e1)))))))"

section \<open>The configuration\<close>

record config =
  ServiceName :: string
  ServiceVersion :: string
  Environment :: string
  APIPort :: string
  APIReadTimeoutS :: int
  APIWriteTimeoutS :: int
  APIIdleTimeoutS :: int
  APIShutdownTimeoutS :: int
  RedirectPort :: string
  RedirectReadTimeoutS :: int
  RedirectWriteTimeoutS :: int
  RedirectIdleTimeoutS :: int
  RedirectShutdownTimeoutS :: int
  MetricsPort :: string
  DBPrimaryDSN :: string
  DBReplicaDSN :: string
  DBMaxOpenConns :: int
  DBMinOpenConns :: int
  DBConnMaxLifetimeM :: int
  DBConnMaxIdleTimeM :: int
  RedisAddr :: string
  RedisPassword :: string
  RedisDB :: int
  RedisPoolSize :: int
  RedisMinIdleConns :: int
  RedisDialTimeoutS :: int
  RedisReadTimeoutS :: int
  RedisWriteTimeoutS :: int
  RedirectCacheTTLS :: int
  CacheNegativeTTLS :: int
  OTelEnabled :: bool
  OTelExporter :: string
  OTelEndpoint :: string
  OTelSampleRate :: go_float
  LogLevel :: string
  LogFormat :: string
  ShortCodeLength :: int
  BaseURL :: string
  APIBaseURL :: string
  JWTIssuer :: string
  JWTAudience :: string
  JWTPublicKeyPath :: string
  JWTAllowedIssuers :: string
  JWTAdditionalPublicKeyPath :: string
  ExportStorageDir :: string
  ExportSignSecret :: string
  ExportDownloadTTLH :: int
  ExportWorkerPollS :: int
  ExportMaxWindowDays :: int
  WebhookWorkerEnabled :: bool
  WebhookWorkerBatchSize :: int
  WebhookWorkerPollIntervalS :: int
  WebhookWorkerHTTPTimeoutS :: int

definition read_config :: "(string \<Rightarrow> go_float option) \<Rightarrow> env \<Rightarrow> config" where
  "read_config pf e =
     \<lparr>ServiceName = env_str e ''SERVICE_NAME'' ''url-shortener-api'',
      ServiceVersion = env_str e ''SERVICE_VERSION'' ''dev'',
      Environment = env_str e ''ENVIRONMENT'' ''development'',
      APIPort = env_str e ''API_PORT'' ''8080'',
      APIReadTimeoutS = env_int e ''API_READ_TIMEOUT_S'' 10,
      APIWriteTimeoutS = env_int e ''API_WRITE_TIMEOUT_S'' 30,
      APIIdleTimeoutS = env_int e ''API_IDLE_TIMEOUT_S'' 60,
      APIShutdownTimeoutS = env_int e ''API_SHUTDOWN_TIMEOUT_S'' 30,
      RedirectPort = env_str e ''REDIRECT_PORT'' ''8081'',
      RedirectReadTimeoutS = env_int e ''REDIRECT_READ_TIMEOUT_S'' 5,
      RedirectWriteTimeoutS = env_int e ''REDIRECT_WRITE_TIMEOUT_S'' 10,
      RedirectIdleTimeoutS = env_int e ''REDIRECT_IDLE_TIMEOUT_S'' 60,
      RedirectShutdownTimeoutS = env_int e ''REDIRECT_SHUTDOWN_TIMEOUT_S'' 30,
      MetricsPort = env_str e ''METRICS_PORT'' ''9090'',
      DBPrimaryDSN = env_str e ''DB_PRIMARY_DSN'' '''',
      DBReplicaDSN = env_str e ''DB_REPLICA_DSN'' '''',
      DBMaxOpenConns = to_int32 (env_int e ''DB_MAX_OPEN_CONNS'' 25),
      DBMinOpenConns = to_int32 (env_int e ''DB_MIN_OPEN_CONNS'' 5),
      DBConnMaxLifetimeM = env_int e ''DB_CONN_MAX_LIFETIME_M'' 15,
      DBConnMaxIdleTimeM = env_int e ''DB_CONN_MAX_IDLE_TIME_M'' 5,
      RedisAddr = env_str e ''REDIS_ADDR'' ''localhost:6379'',
      RedisPassword = env_str e ''REDIS_PASSWORD'' '''',
      RedisDB = env_int e ''REDIS_DB'' 0,
      RedisPoolSize = env_int e ''REDIS_POOL_SIZE'' 10,
      RedisMinIdleConns = env_int e ''REDIS_MIN_IDLE_CONNS'' 2,
      RedisDialTimeoutS = env_int e ''REDIS_DIAL_TIMEOUT_S'' 5,
      RedisReadTimeoutS = env_int e ''REDIS_READ_TIMEOUT_S'' 3,
      RedisWriteTimeoutS = env_int e ''REDIS_WRITE_TIMEOUT_S'' 3,
      RedirectCacheTTLS = env_int e ''REDIRECT_CACHE_TTL_S'' 3600,
      CacheNegativeTTLS = env_int e ''CACHE_NEGATIVE_TTL_S'' 60,
      OTelEnabled = env_bool e ''OTEL_ENABLED'' True,
      OTelExporter = env_str e ''OTEL_EXPORTER'' ''stdout'',
      OTelEndpoint = env_str e ''OTEL_ENDPOINT'' ''localhost:4317'',
      OTelSampleRate = env_float pf e ''OTEL_SAMPLE_RATE'' (Finite 1),
      LogLevel = env_str e ''LOG_LEVEL'' ''info'',
      LogFormat = env_str e ''LOG_FORMAT'' ''json'',
      ShortCodeLength = env_int e ''SHORT_CODE_LENGTH'' 7,
      BaseURL = env_str e ''BASE_URL'' ''http://localhost:8081'',
      APIBaseURL = env_str e ''API_BASE_URL'' ''http://localhost:8080'',
      JWTIssuer = env_str e ''JWT_ISSUER'' '''',
      JWTAudience = env_str e ''JWT_AUDIENCE'' '''',
      JWTPublicKeyPath = env_str e ''JWT_PUBLIC_KEY_PATH'' '''',
      JWTAllowedIssuers = env_str e ''JWT_ALLOWED_ISSUERS'' '''',
      JWTAdditionalPublicKeyPath = env_str e ''JWT_ADDITIONAL_PUBLIC_KEY_PATH'' '''',
      ExportStorageDir = env_str e ''EXPORT_STORAGE_DIR'' ''./exports'',
      ExportSignSecret = env_str e ''EXPORT_SIGN_SECRET'' '''',
      ExportDownloadTTLH = env_int e ''EXPORT_DOWNLOAD_TTL_H'' 24,
      ExportWorkerPollS = env_int e ''EXPORT_WORKER_POLL_S'' 5,
      ExportMaxWindowDays = env_int e ''EXPORT_MAX_WINDOW_DAYS'' 365,
      WebhookWorkerEnabled = env_bool e ''WEBHOOK_WORKER_ENABLED'' True,
      WebhookWorkerBatchSize = env_int e ''WEBHOOK_WORKER_BATCH_SIZE'' 50,
      WebhookWorkerPollIntervalS = env_int e ''WEBHOOK_WORKER_POLL_INTERVAL_S'' 5,
      WebhookWorkerHTTPTimeoutS = env_int e ''WEBHOOK_WORKER_HTTP_TIMEOUT_S'' 30\<rparr>"

definition is_production :: "config \<Rightarrow> bool" where "is_production c = (Environment c = ''production'')"
definition is_development :: "config \<Rightarrow> bool" where "is_development c = (Environment c = ''development'')"

text \<open>The violations, in the order they are collected.\<close>

definition config_errors :: "config \<Rightarrow> string list" where
  "config_errors c =
     (let flag = (\<lambda>b m. if b then [m] else []) in
      (if Environment c = ''production''
       then flag (DBPrimaryDSN c = []) ''DB_PRIMARY_DSN is required in production''
          @ flag (DBReplicaDSN c = []) ''DB_REPLICA_DSN is required in production''
          @ flag (JWTIssuer c = []) ''JWT_ISSUER is required in production''
          @ flag (JWTPublicKeyPath c = []) ''JWT_PUBLIC_KEY_PATH is required in production''
       else [])
      @ flag (ShortCodeLength c < 4 \<or> ShortCodeLength c > 32) ''SHORT_CODE_LENGTH must be between 4 and 32''
      @ flag (float_less (OTelSampleRate c) (Finite 0) \<or> float_less (Finite 1) (OTelSampleRate c))
          ''OTEL_SAMPLE_RATE must be between 0.0 and 1.0''
      @ flag (LogLevel c \<notin> {''debug'', ''info'', ''warn'', ''error''})
          (''LOG_LEVEL must be one of: debug, info, warn, error (got: '' @ go_quote (LogLevel c) @ '')'')
      @ flag (OTelEnabled c \<and> OTelExporter c \<notin> {''stdout'', ''otlp''})
          (''OTEL_EXPORTER must be one of: stdout, otlp (got: '' @ go_quote (OTelExporter c) @ '')'')
      @ flag (ExportDownloadTTLH c \<le> 0) ''EXPORT_DOWNLOAD_TTL_H must be greater than 0''
      @ flag (ExportWorkerPollS c \<le> 0) ''EXPORT_WORKER_POLL_S must be greater than 0''
      @ flag (WebhookWorkerBatchSize c \<le> 0) ''WEBHOOK_WORKER_BATCH_SIZE must be greater than 0''
      @ flag (WebhookWorkerPollIntervalS c \<le> 0) ''WEBHOOK_WORKER_POLL_INTERVAL_S must be greater than 0''
      @ flag (WebhookWorkerHTTPTimeoutS c \<le> 0) ''WEBHOOK_WORKER_HTTP_TIMEOUT_S must be greater than 0'')"

definition validate_config :: "config \<Rightarrow> gerr option" where
  "validate_config c =
     (let errs = config_errors c; sep = char_of (10::nat) # ''  - '' in
      if errs \<noteq> [] then Some (EOther (''configuration errors:'' @ sep @ str_join sep errs)) else None)"

definition load_config :: "(string \<Rightarrow> go_float option) \<Rightarrow> dotenv_files \<Rightarrow> env \<Rightarrow> config result \<times> env" where
  "load_config pf fs e =
     (case load_dot_env fs e of
        (Inl err, e1) \<Rightarrow> (Inl err, e1)
      | (Inr _, e1) \<Rightarrow>
          (let cfg = read_config pf e1 in
           case validate_config cfg of Some err \<Rightarrow> (Inl err, e1) | None \<Rightarrow> (Inr cfg, e1)))"

section \<open>Lemmas\<close>

lemma setenv_fresh: "setenv k v e = (r, e1) \<Longrightarrow> k' \<noteq> k \<Longrightarrow> e1 k' = e k'"
  by (auto simp: setenv_def split: if_splits)

text \<open>What the file can change: variables it names that are unset or empty.\<close>

definition entries :: "string list \<Rightarrow> (string \<times> string) list" where
  "entries ls = concat (map (\<lambda>l. case parse_line l of Entry k v \<Rightarrow> [(k, v)] | _ \<Rightarrow> []) ls)"

lemma entries_simps: "entries [] = []"
  "entries (l # ls) = (case parse_line l of Entry k v \<Rightarrow> [(k, v)] | _ \<Rightarrow> []) @ entries ls"
  by (simp_all add: entries_def)

lemma apply_lines_effect:
  "apply_lines path n ls e = (r, e') \<Longrightarrow> e' k = e k \<or> (getenv e k = [] \<and> (\<exists>v. (k, v) \<in> set (entries ls) \<and> e' k = Some v))"
proof (induction path n ls e rule: apply_lines.induct)
  case (2 path n l ls e)
  show ?case
  proof (cases "parse_line l")
    case (Entry k' v)
    show ?thesis
    proof (cases "getenv e k' = []")
      case True
      obtain q e1 where st: "setenv k' v e = (q, e1)" by fastforce
      show ?thesis
      proof (cases q)
        case Inl
        with st have "e1 = e" by (auto simp: setenv_def split: if_splits)
        with "2.prems" True st Entry Inl show ?thesis by simp
      next
        case Inr
        with "2.prems" True st Entry have rest: "apply_lines path (Suc n) ls e1 = (r, e')" by simp
        from st Inr have e1: "e1 = e(k' \<mapsto> v)" by (auto simp: setenv_def split: if_splits)
        have "\<not> getenv e k' \<noteq> []" using True by simp
        from "2.IH"(3) [OF Entry this st [symmetric] Inr rest]
        have ih: "e' k = e1 k \<or> getenv e1 k = [] \<and> (\<exists>v. (k, v) \<in> set (entries ls) \<and> e' k = Some v)" by auto
        show ?thesis
        proof (cases "k = k'")
          case same: True
          with ih e1 True Entry show ?thesis by (auto simp: entries_simps)
        next
          case False
          with e1 have "e1 k = e k" "getenv e1 k = getenv e k" by (simp_all add: getenv_def)
          with ih Entry show ?thesis by (auto simp: entries_simps)
        qed
      qed
    next
      case False
      with "2.prems" Entry "2.IH"(2) show ?thesis by (auto simp: entries_simps)
    qed
  qed (use "2.prems" "2.IH"(1) in \<open>auto simp: entries_simps\<close>)
qed simp

lemma load_dot_env_keeps:
  assumes "load_dot_env fs e = (r, e')" and "getenv e k \<noteq> []"
  shows "e' k = e k"
  using assms apply_lines_effect
  by (fastforce simp: load_dot_env_def split: if_splits sum.splits prod.splits option.splits)

lemma valid_config:
  assumes "validate_config c = None"
  shows "Environment c = ''production'' \<longrightarrow> DBPrimaryDSN c \<noteq> [] \<and> DBReplicaDSN c \<noteq> [] \<and> JWTIssuer c \<noteq> [] \<and> JWTPublicKeyPath c \<noteq> []"
    and "4 \<le> ShortCodeLength c \<and> ShortCodeLength c \<le> 32"
    and "OTelSampleRate c = NotANumber \<or> (\<exists>q. OTelSampleRate c = Finite q \<and> 0 \<le> q \<and> q \<le> 1)"
    and "0 < ExportDownloadTTLH c \<and> 0 < ExportWorkerPollS c \<and> 0 < WebhookWorkerBatchSize c \<and> 0 < WebhookWorkerPollIntervalS c
      \<and> 0 < WebhookWorkerHTTPTimeoutS c"
proof -
  from assms have none: "config_errors c = []" by (simp add: validate_config_def Let_def split: if_splits)
  show "Environment c = ''production'' \<longrightarrow> DBPrimaryDSN c \<noteq> [] \<and> DBReplicaDSN c \<noteq> [] \<and> JWTIssuer c \<noteq> [] \<and> JWTPublicKeyPath c \<noteq> []"
    using none by (auto simp: config_errors_def Let_def split: if_splits)
  show "4 \<le> ShortCodeLength c \<and> ShortCodeLength c \<le> 32"
    using none by (auto simp: config_errors_def Let_def split: if_splits)
  show "OTelSampleRate c = NotANumber \<or> (\<exists>q. OTelSampleRate c = Finite q \<and> 0 \<le> q \<and> q \<le> 1)"
    using none by (cases "OTelSampleRate c") (auto simp: config_errors_def Let_def split: if_splits)
  show "0 < ExportDownloadTTLH c \<and> 0 < ExportWorkerPollS c \<and> 0 < WebhookWorkerBatchSize c \<and> 0 < WebhookWorkerPollIntervalS c
      \<and> 0 < WebhookWorkerHTTPTimeoutS c"
    using none by (auto simp: config_errors_def Let_def split: if_splits)
qed

lemma load_config_parts:
  assumes "load_config pf fs e = (Inr c, e')"
  shows "validate_config c = None" and "c = read_config pf e'" and "load_dot_env fs e = (Inr (), e')"
  using assms by (auto simp: load_config_def Let_def split: prod.splits sum.splits option.splits)

lemma load_dot_env_keeps':
  assumes "load_config pf fs e = (Inr c, e')" and "getenv e k \<noteq> []"
  shows "getenv e' k = getenv e k"
  using load_dot_env_keeps [OF load_config_parts(3) [OF assms(1)] assms(2)] by (simp add: getenv_def)

section \<open>A configuration that loads\<close>

text \<open>C30: When \<open>Load\<close> succeeds, variables already set keep their values against the \<open>.env\<close> file; a production
  configuration names both databases, the issuer and the public key, so its requests are authenticated; the generator
  starts and its codes have a length links may have; the workers poll, batch and time out in positive numbers.\<close>

theorem config_load_sound:
  assumes "load_config pf fs e = (Inr c, e')"
  shows "(\<forall>k. getenv e k \<noteq> [] \<longrightarrow> getenv e' k = getenv e k) \<and> c = read_config pf e'
    \<and> (is_production c \<longrightarrow> DBPrimaryDSN c \<noteq> [] \<and> DBReplicaDSN c \<noteq> [] \<and> JWTIssuer c \<noteq> [] \<and> JWTPublicKeyPath c \<noteq> [])
    \<and> (\<exists>g. new_generator (ShortCodeLength c) = Some g \<and>
         (\<forall>ds code ds'. generate g ds = (Inr code, ds') \<longrightarrow> draws_ok ds \<longrightarrow>
            min_short_code_length \<le> length code \<and> length code \<le> max_short_code_length))
    \<and> 0 < ExportDownloadTTLH c \<and> 0 < ExportWorkerPollS c \<and> 0 < WebhookWorkerBatchSize c \<and> 0 < WebhookWorkerPollIntervalS c
    \<and> 0 < WebhookWorkerHTTPTimeoutS c"
proof -
  note ok = load_config_parts(1) [OF assms]
  have "\<exists>g. new_generator (ShortCodeLength c) = Some g \<and>
      (\<forall>ds code ds'. generate g ds = (Inr code, ds') \<longrightarrow> draws_ok ds \<longrightarrow>
         min_short_code_length \<le> length code \<and> length code \<le> max_short_code_length)"
    using valid_config(2) [OF ok] generate_ok(1)
    by (fastforce simp: new_generator_def min_short_code_length_def max_short_code_length_def)
  with valid_config(1,4) [OF ok] load_config_parts(2) [OF assms] load_dot_env_keeps' [OF assms] show ?thesis
    by (simp add: is_production_def)
qed

text \<open>A production deployment with a \<open>.env\<close> file one directory up.\<close>

definition sample_env :: env where
  "sample_env = [''ENVIRONMENT'' \<mapsto> ''production'', ''JWT_ISSUER'' \<mapsto> ''https://issuer'', ''JWT_PUBLIC_KEY_PATH'' \<mapsto> ''/key.pem'']"

definition dotenv_text :: string where
  "dotenv_text = ''# databases'' @ char_of (10::nat) # ''export DB_PRIMARY_DSN='' @ double_quote # ''postgres://p'' @ double_quote # '' # main'' @ char_of (10::nat) #
     ''DB_REPLICA_DSN=postgres://r'' @ char_of (10::nat) # ''JWT_ISSUER=other'' @ [char_of (10::nat)]"

definition sample_files :: dotenv_files where
  "sample_files = \<lparr>df_cwd = Inr ''/srv/api'', df_stat = (\<lambda>p. if p = ''/srv/.env'' then IsFile else NotExist),
     df_open = (\<lambda>p. Inr (dotenv_text, None))\<rparr>"

definition no_floats :: "string \<Rightarrow> go_float option" where "no_floats s = None"

definition dotenv_view :: "unit result \<times> string list" where
  "dotenv_view = (case load_dot_env sample_files sample_env of (r, e) \<Rightarrow>
     (r, map (getenv e) [''ENVIRONMENT'', ''DB_PRIMARY_DSN'', ''DB_REPLICA_DSN'', ''JWT_ISSUER'', ''JWT_PUBLIC_KEY_PATH'', ''SHORT_CODE_LENGTH'',
        ''OTEL_SAMPLE_RATE'', ''LOG_LEVEL'', ''OTEL_ENABLED'', ''OTEL_EXPORTER'', ''EXPORT_DOWNLOAD_TTL_H'', ''EXPORT_WORKER_POLL_S'',
        ''WEBHOOK_WORKER_BATCH_SIZE'', ''WEBHOOK_WORKER_POLL_INTERVAL_S'', ''WEBHOOK_WORKER_HTTP_TIMEOUT_S'', ''EXPORT_SIGN_SECRET'']))"

lemma dotenv_view: "dotenv_view = (Inr (), [''production'', ''postgres://p'', ''postgres://r'', ''https://issuer'', ''/key.pem'',
    [], [], [], [], [], [], [], [], [], [], []])"
  by code_simp

lemma sample_loads:
  "\<exists>e'. load_config no_floats sample_files sample_env = (Inr (read_config no_floats e'), e')
     \<and> getenv e' ''DB_PRIMARY_DSN'' = ''postgres://p'' \<and> getenv e' ''EXPORT_SIGN_SECRET'' = []"
proof -
  obtain r e' where d: "load_dot_env sample_files sample_env = (r, e')" by fastforce
  note v = dotenv_view [unfolded dotenv_view_def d, simplified]
  then have "config_errors (read_config no_floats e') = []"
    by (simp add: config_errors_def read_config_def env_str_def env_int_def env_bool_def env_float_def)
  then have "validate_config (read_config no_floats e') = None" by (simp add: validate_config_def)
  with d v show ?thesis by (simp add: load_config_def)
qed

theorem config_load_sound_witness:
  "\<exists>c e'. load_config no_floats sample_files sample_env = (Inr c, e') \<and> DBPrimaryDSN c = ''postgres://p''
     \<and> getenv e' ''JWT_ISSUER'' = ''https://issuer'' \<and> new_generator (ShortCodeLength c) \<noteq> None"
proof -
  from sample_loads obtain e' where c: "load_config no_floats sample_files sample_env = (Inr (read_config no_floats e'), e')"
    and dsn: "getenv e' ''DB_PRIMARY_DSN'' = ''postgres://p''" by blast
  have "getenv sample_env ''JWT_ISSUER'' = ''https://issuer''" by (simp add: getenv_def sample_env_def)
  with config_load_sound [OF c] have "getenv e' ''JWT_ISSUER'' = ''https://issuer''"
    "new_generator (ShortCodeLength (read_config no_floats e')) \<noteq> None" by auto
  moreover have "DBPrimaryDSN (read_config no_floats e') = ''postgres://p''" using dsn by (simp add: read_config_def env_str_def)
  ultimately show ?thesis using c by blast
qed

end
