(* ===== verification/Startup.thy ===== *)
theory Startup
  imports Config Auth SignedUrl
begin

text \<open>
  Starting the services: the clients of PostgreSQL and Redis (\<open>internal/infrastructure/postgres/client.go\<close>,
  \<open>internal/infrastructure/redis/client.go\<close>) and the part of \<open>main\<close> in \<open>cmd/api/main.go\<close> and
  \<open>cmd/redirector/main.go\<close> up to the adapters, with every exit. The drivers' connection pools are numbers; what opening
  and pinging one returns, the tracer, the files of the keys and the storage directory are arguments.
\<close>

section \<open>Connection pools\<close>

record pool_settings =
  MaxConns :: int
  MinConns :: int
  MaxConnLifetime :: duration
  MaxConnIdleTime :: duration
  HealthCheckPeriod :: duration

record pools =
  open_pools :: "(nat \<times> pool_settings) list"
  next_pool :: nat

text \<open>What the driver answers for one pool: parsing its DSN, creating it, the first ping.\<close>

record pool_outcome =
  po_parse :: "string \<Rightarrow> unit result"
  po_create :: "unit result"
  po_ping :: "unit result"

text \<open>\<open>time.Duration(n) * unit\<close> in 64 bits.\<close>

definition units :: "int \<Rightarrow> duration \<Rightarrow> duration" where
  "units n u = (n * u + 2 ^ 63) mod 2 ^ 64 - 2 ^ 63"

definition pool_config :: "config \<Rightarrow> pool_settings" where
  "pool_config cfg =
     \<lparr>MaxConns = DBMaxOpenConns cfg, MinConns = DBMinOpenConns cfg, MaxConnLifetime = units (DBConnMaxLifetimeM cfg) minute,
      MaxConnIdleTime = units (DBConnMaxIdleTimeM cfg) minute, HealthCheckPeriod = 30 * second\<rparr>"

definition open_pool :: "pool_settings \<Rightarrow> pools \<Rightarrow> nat \<times> pools" where
  "open_pool s net = (next_pool net, net\<lparr>open_pools := open_pools net @ [(next_pool net, s)], next_pool := Suc (next_pool net)\<rparr>)"

definition close_pool :: "nat \<Rightarrow> pools \<Rightarrow> pools" where
  "close_pool p net = net\<lparr>open_pools := filter (\<lambda>x. fst x \<noteq> p) (open_pools net)\<rparr>"

definition build_pool :: "pool_outcome \<Rightarrow> string \<Rightarrow> config \<Rightarrow> string \<Rightarrow> pools \<Rightarrow> nat result \<times> pools" where
  "build_pool out dsn cfg role net =
     (case po_parse out dsn of
        Inl err \<Rightarrow> (Inl (EWrap (''parsing DSN for '' @ role @ '' pool: '') err ''''), net)
      | Inr _ \<Rightarrow>
          (case po_create out of
             Inl err \<Rightarrow> (Inl (EWrap (''creating '' @ role @ '' pool: '') err ''''), net)
           | Inr _ \<Rightarrow>
               (case open_pool (pool_config cfg) net of
                  (p, net1) \<Rightarrow>
                    (case po_ping out of
                       Inl err \<Rightarrow>
                         (Inl (EWrap (''initial ping to '' @ role @ '' database failed (is postgres running?): '') err ''''), close_pool p net1)
                     | Inr _ \<Rightarrow> (Inr p, net1)))))"

text \<open>The client; without a separate replica both fields are the primary.\<close>

record db_client =
  primary_pool :: nat
  replica_pool :: nat
  has_replica :: bool

definition new_db_client :: "(string \<Rightarrow> pool_outcome) \<Rightarrow> config \<Rightarrow> pools \<Rightarrow> db_client result \<times> pools" where
  "new_db_client out cfg net =
     (case build_pool (out ''primary'') (DBPrimaryDSN cfg) cfg ''primary'' net of
        (Inl err, net1) \<Rightarrow> (Inl (EWrap ''postgres: connecting to primary: '' err ''''), net1)
      | (Inr p, net1) \<Rightarrow>
          if DBReplicaDSN cfg \<noteq> [] \<and> DBReplicaDSN cfg \<noteq> DBPrimaryDSN cfg then
            (case build_pool (out ''replica'') (DBReplicaDSN cfg) cfg ''replica'' net1 of
               (Inl err, net2) \<Rightarrow> (Inl (EWrap ''postgres: connecting to replica: '' err ''''), close_pool p net2)
             | (Inr r, net2) \<Rightarrow> (Inr \<lparr>primary_pool = p, replica_pool = r, has_replica = True\<rparr>, net2))
          else (Inr \<lparr>primary_pool = p, replica_pool = p, has_replica = False\<rparr>, net1))"

definition ping_db :: "(nat \<Rightarrow> unit result) \<Rightarrow> db_client \<Rightarrow> unit result" where
  "ping_db ping c =
     (case ping (primary_pool c) of
        Inl err \<Rightarrow> Inl (EWrap ''postgres: primary ping failed: '' err '''')
      | Inr _ \<Rightarrow>
          if has_replica c then
            (case ping (replica_pool c) of
               Inl err \<Rightarrow> Inl (EWrap ''postgres: replica ping failed: '' err '''')
             | Inr _ \<Rightarrow> Inr ())
          else Inr ())"

definition close_db_client :: "db_client \<Rightarrow> pools \<Rightarrow> pools" where
  "close_db_client c net =
     (let net1 = close_pool (primary_pool c) net in if has_replica c then close_pool (replica_pool c) net1 else net1)"

text \<open>The client of Redis opens its connections as they are needed; the first ping decides.\<close>

record redis_options =
  ro_addr :: string
  ro_password :: string
  ro_db :: int
  ro_pool_size :: int
  ro_min_idle :: int
  ro_dial_timeout :: duration
  ro_read_timeout :: duration
  ro_write_timeout :: duration
  ro_max_idle_time :: duration
  ro_max_lifetime :: duration

definition redis_config :: "config \<Rightarrow> redis_options" where
  "redis_config cfg =
     \<lparr>ro_addr = RedisAddr cfg, ro_password = RedisPassword cfg, ro_db = RedisDB cfg, ro_pool_size = RedisPoolSize cfg,
      ro_min_idle = RedisMinIdleConns cfg, ro_dial_timeout = units (RedisDialTimeoutS cfg) second,
      ro_read_timeout = units (RedisReadTimeoutS cfg) second, ro_write_timeout = units (RedisWriteTimeoutS cfg) second,
      ro_max_idle_time = 5 * minute, ro_max_lifetime = 30 * minute\<rparr>"

definition new_redis_client :: "unit result \<Rightarrow> config \<Rightarrow> redis_options result" where
  "new_redis_client ping cfg =
     (case ping of
        Inl err \<Rightarrow> Inl (EWrap ''redis: initial ping failed (is redis running?): '' err '''')
      | Inr _ \<Rightarrow> Inr (redis_config cfg))"

definition ping_redis :: "unit result \<Rightarrow> unit result" where
  "ping_redis ping = (case ping of Inl err \<Rightarrow> Inl (EWrap ''redis: ping failed: '' err '''') | Inr _ \<Rightarrow> Inr ())"

section \<open>The steps of main\<close>

text \<open>What a start meets; \<open>st_mkdir\<close> is \<open>filepath.Abs\<close> and \<open>os.MkdirAll\<close>.\<close>

record 'k start =
  st_files :: dotenv_files
  st_env :: env
  st_float :: "string \<Rightarrow> go_float option"
  st_tracer :: "config \<Rightarrow> unit result"
  st_pool :: "string \<Rightarrow> pool_outcome"
  st_redis_ping :: "unit result"
  st_load_keys :: "string \<Rightarrow> 'k result"
  st_parse :: "'k jwt_parser"
  st_mkdir :: "string \<Rightarrow> string result"
  st_random :: "string + nat list"

text \<open>An exit is the message it logs; the failure to load the configuration is printed.\<close>

definition open_db :: "'k start \<Rightarrow> config \<Rightarrow> pools \<Rightarrow> (string + db_client option) \<times> pools" where
  "open_db x cfg net =
     (if DBPrimaryDSN cfg = [] then (Inr None, net)
      else (case new_db_client (st_pool x) cfg net of
        (Inl err, net1) \<Rightarrow> (Inl ''db connect failed'', net1)
      | (Inr c, net1) \<Rightarrow> (Inr (Some c), net1)))"

definition open_redis :: "'k start \<Rightarrow> config \<Rightarrow> string + redis_options option" where
  "open_redis x cfg =
     (if RedisAddr cfg = [] then Inr None
      else (case new_redis_client (st_redis_ping x) cfg of
        Inl err \<Rightarrow> Inl ''redis connect failed''
      | Inr c \<Rightarrow> Inr (Some c)))"

definition split_csv :: "string \<Rightarrow> string list" where
  "split_csv value = (if value = [] then [] else filter (\<lambda>s. s \<noteq> []) (map trim_space (split_on (CHR '','') value)))"

text \<open>The deny list is the one of Redis, which the middleware is given with the rest of the state.\<close>

definition open_auth :: "'k start \<Rightarrow> config \<Rightarrow> string + ('k, unit) auth_config option" where
  "open_auth x cfg =
     (if JWTPublicKeyPath cfg = [] then
        (if is_production cfg then Inl ''JWT_PUBLIC_KEY_PATH not set'' else Inr None)
      else (case st_load_keys x (JWTPublicKeyPath cfg) of
        Inl err \<Rightarrow> Inl ''jwt key load failed''
      | Inr keys \<Rightarrow>
          (let ac = (\<lambda>extra. \<lparr>ac_issuer = JWTIssuer cfg, ac_audience = JWTAudience cfg, ac_key_set = keys,
                 ac_additional_key_set = extra, ac_allowed_issuers = split_csv (JWTAllowedIssuers cfg), ac_deny_list = None,
                 ac_parse = st_parse x\<rparr>)
           in if JWTAdditionalPublicKeyPath cfg = [] then Inr (Some (ac None))
              else (case st_load_keys x (JWTAdditionalPublicKeyPath cfg) of
                Inl err \<Rightarrow> Inl ''additional jwt key load failed''
              | Inr keys2 \<Rightarrow> Inr (Some (ac (Some keys2)))))))"

definition open_signer :: "'k start \<Rightarrow> config \<Rightarrow> string + signer" where
  "open_signer x cfg =
     (case (if ExportSignSecret cfg \<noteq> [] then signer_from_hex (ExportSignSecret cfg) else new_random_signer (st_random x)) of
        Inl err \<Rightarrow> Inl ''export signer init failed''
      | Inr s \<Rightarrow> Inr s)"

record 'k api_process =
  pr_config :: config
  pr_db :: "db_client option"
  pr_redis :: "redis_options option"
  pr_auth :: "('k, unit) auth_config option"
  pr_export_dir :: string
  pr_signer :: signer

definition start_api :: "'k start \<Rightarrow> pools \<Rightarrow> (string + 'k api_process) \<times> pools" where
  "start_api x net =
     (case load_config (st_float x) (st_files x) (st_env x) of
        (Inl err, _) \<Rightarrow> (Inl (''failed to load config: '' @ err_text err), net)
      | (Inr cfg, _) \<Rightarrow>
     (case st_tracer x cfg of
        Inl err \<Rightarrow> (Inl ''otel init failed'', net)
      | Inr _ \<Rightarrow>
     (case open_db x cfg net of
        (Inl msg, net1) \<Rightarrow> (Inl msg, net1)
      | (Inr db, net1) \<Rightarrow>
     (case open_redis x cfg of
        Inl msg \<Rightarrow> (Inl msg, net1)
      | Inr cache \<Rightarrow>
     (case open_auth x cfg of
        Inl msg \<Rightarrow> (Inl msg, net1)
      | Inr auth \<Rightarrow>
     (case st_mkdir x (ExportStorageDir cfg) of
        Inl err \<Rightarrow> (Inl ''export storage init failed'', net1)
      | Inr dir \<Rightarrow>
     (case open_signer x cfg of
        Inl msg \<Rightarrow> (Inl msg, net1)
      | Inr sg \<Rightarrow>
          (Inr \<lparr>pr_config = cfg, pr_db = db, pr_redis = cache, pr_auth = auth, pr_export_dir = dir, pr_signer = sg\<rparr>, net1))))))))"

text \<open>The redirector has no authentication, no exports and one secret more, for the hashes of addresses.\<close>

record redirect_process =
  rp_config :: config
  rp_db :: "db_client option"
  rp_redis :: "redis_options option"
  rp_ip_salt :: string

definition start_redirector :: "'k start \<Rightarrow> pools \<Rightarrow> (string + redirect_process) \<times> pools" where
  "start_redirector x net =
     (case load_config (st_float x) (st_files x) (st_env x) of
        (Inl err, _) \<Rightarrow> (Inl (''failed to load config: '' @ err_text err), net)
      | (Inr cfg, e) \<Rightarrow>
     (case st_tracer x cfg of
        Inl err \<Rightarrow> (Inl ''otel init failed'', net)
      | Inr _ \<Rightarrow>
     (case open_db x cfg net of
        (Inl msg, net1) \<Rightarrow> (Inl msg, net1)
      | (Inr db, net1) \<Rightarrow>
     (case open_redis x cfg of
        Inl msg \<Rightarrow> (Inl msg, net1)
      | Inr cache \<Rightarrow>
          (Inr \<lparr>rp_config = cfg, rp_db = db, rp_redis = cache, rp_ip_salt = env_str e ''IP_HASH_SALT'' ''''\<rparr>, net1)))))"

text \<open>Both services close the database last; the client of Redis has nothing to give back here.\<close>

definition stop_process :: "db_client option \<Rightarrow> pools \<Rightarrow> pools" where
  "stop_process db net = (case db of None \<Rightarrow> net | Some c \<Rightarrow> close_db_client c net)"

section \<open>What the steps give\<close>

lemma redis_addr_set: "RedisAddr (read_config pf e) \<noteq> []"
  by (simp add: read_config_def env_str_def Let_def)

lemma open_auth_keys:
  assumes "open_auth x cfg = Inr auth" and "JWTPublicKeyPath cfg \<noteq> []"
  shows "\<exists>a. auth = Some a \<and> ac_issuer a = JWTIssuer cfg \<and> st_load_keys x (JWTPublicKeyPath cfg) = Inr (ac_key_set a)"
proof -
  from assms obtain keys where "st_load_keys x (JWTPublicKeyPath cfg) = Inr keys"
    by (auto simp: open_auth_def split: sum.splits)
  moreover from this assms obtain extra where "auth = Some \<lparr>ac_issuer = JWTIssuer cfg, ac_audience = JWTAudience cfg, ac_key_set = keys,
     ac_additional_key_set = extra, ac_allowed_issuers = split_csv (JWTAllowedIssuers cfg), ac_deny_list = None, ac_parse = st_parse x\<rparr>"
    by (auto simp: open_auth_def Let_def split: sum.splits if_splits)
  ultimately show ?thesis by simp
qed

lemma build_pool_answers:
  assumes "po_parse out dsn = Inr ()" and "po_create out = Inr ()" and "po_ping out = Inr ()"
  shows "\<exists>p net1. build_pool out dsn cfg role net = (Inr p, net1)"
  using assms by (simp add: build_pool_def open_pool_def)

lemma open_db_answers:
  assumes "\<And>role dsn. po_parse (st_pool x role) dsn = Inr ()" and "\<And>role. po_create (st_pool x role) = Inr ()"
    and "\<And>role. po_ping (st_pool x role) = Inr ()"
  shows "\<exists>db net1. open_db x cfg net = (Inr db, net1)"
proof -
  have "\<exists>c net1. new_db_client (st_pool x) cfg net = (Inr c, net1)"
  proof -
    obtain p net1 where "build_pool (st_pool x ''primary'') (DBPrimaryDSN cfg) cfg ''primary'' net = (Inr p, net1)"
      using build_pool_answers [OF assms] by blast
    moreover obtain r net2 where "build_pool (st_pool x ''replica'') (DBReplicaDSN cfg) cfg ''replica'' net1 = (Inr r, net2)"
      using build_pool_answers [OF assms] by blast
    ultimately show ?thesis by (simp add: new_db_client_def)
  qed
  then show ?thesis by (auto simp: open_db_def)
qed

section \<open>Pools are given back\<close>

definition pools_ok :: "pools \<Rightarrow> bool" where
  "pools_ok net \<longleftrightarrow> (\<forall>(p, s) \<in> set (open_pools net). p < next_pool net)"

lemma close_fresh: "pools_ok net \<Longrightarrow> filter (\<lambda>x. fst x \<noteq> next_pool net) (open_pools net) = open_pools net"
  by (auto simp: pools_ok_def filter_id_conv)

lemma build_pool_cases:
  assumes "build_pool out dsn cfg role net = (r, net1)" and "pools_ok net"
  shows "pools_ok net1" and "r = Inl e \<Longrightarrow> open_pools net1 = open_pools net"
    and "r = Inr p \<Longrightarrow> p = next_pool net \<and> open_pools net1 = open_pools net @ [(p, pool_config cfg)] \<and> next_pool net1 = Suc p"
  using assms close_fresh [OF assms(2)]
  by (fastforce simp: build_pool_def open_pool_def close_pool_def pools_ok_def split: sum.splits)+

text \<open>A failed start leaves no pool open, and closing gives back what a start opened.\<close>

lemma new_db_client_pools:
  assumes "new_db_client out cfg net = (r, net1)" and ok: "pools_ok net"
  shows "case r of
      Inl err \<Rightarrow> open_pools net1 = open_pools net
    | Inr c \<Rightarrow> open_pools (close_db_client c net1) = open_pools net
        \<and> has_replica c = (DBReplicaDSN cfg \<noteq> [] \<and> DBReplicaDSN cfg \<noteq> DBPrimaryDSN cfg)
        \<and> (primary_pool c = replica_pool c) = (\<not> has_replica c)"
proof -
  obtain q net2 where b: "build_pool (out ''primary'') (DBPrimaryDSN cfg) cfg ''primary'' net = (q, net2)" by fastforce
  note first = build_pool_cases [OF b ok]
  show ?thesis
  proof (cases q)
    case (Inl e)
    with assms(1) b first(2) show ?thesis by (auto simp: new_db_client_def)
  next
    case (Inr p)
    with first(3) have p: "p = next_pool net" "open_pools net2 = open_pools net @ [(p, pool_config cfg)]" "next_pool net2 = Suc p"
      by auto
    have gone: "filter (\<lambda>x. fst x \<noteq> p) (open_pools net) = open_pools net" using close_fresh [OF ok] p(1) by simp
    show ?thesis
    proof (cases "DBReplicaDSN cfg \<noteq> [] \<and> DBReplicaDSN cfg \<noteq> DBPrimaryDSN cfg")
      case True
      obtain q2 net3 where b2: "build_pool (out ''replica'') (DBReplicaDSN cfg) cfg ''replica'' net2 = (q2, net3)" by fastforce
      note second = build_pool_cases [OF b2 first(1)]
      have later: "filter (\<lambda>x. fst x \<noteq> Suc p) (open_pools net) = open_pools net"
        using ok p(1) by (fastforce simp: pools_ok_def filter_id_conv)
      from second assms(1) b Inr True b2 p gone later show ?thesis
        by (cases q2) (auto simp: new_db_client_def close_pool_def close_db_client_def)
    next
      case False
      with assms(1) b Inr p gone show ?thesis by (auto simp: new_db_client_def close_pool_def close_db_client_def)
    qed
  qed
qed

end
