(* ===== verification/Deployment.thy ===== *)
theory Deployment
  imports ApiProperties Startup
begin

text \<open>
  From the configuration to the requests: the API process that \<open>main\<close> starts, wired to its routes. The bcrypt library, the
  subscriptions of Redis and its patterns stay arguments.
\<close>

section \<open>Wiring\<close>

text \<open>\<open>shortcode.New\<close> panics on a length below three: then there is no process.\<close>

definition wire_api ::
  "'salt bcrypt \<Rightarrow> (subscription \<Rightarrow> unit result) \<Rightarrow> (string \<Rightarrow> string \<Rightarrow> bool) \<Rightarrow> 'k api_process \<Rightarrow> ('k, 'salt) api_config option" where
  "wire_api b sub glob pr =
     (let cfg = pr_config pr in
      case new_generator (ShortCodeLength cfg) of
        None \<Rightarrow> None
      | Some g \<Rightarrow> Some
          \<lparr>apc_links = \<lparr>cfg_generator = g, cfg_base_url = BaseURL cfg, cfg_use_cache = (pr_redis pr \<noteq> None),
             cfg_cache_ttl = RedirectCacheTTLS cfg, cfg_negative_ttl = CacheNegativeTTLS cfg\<rparr>,
           apc_auth = pr_auth pr, apc_bcrypt = b, apc_service_name = ServiceName cfg, apc_api_base_url = APIBaseURL cfg,
           apc_max_window_days = ExportMaxWindowDays cfg, apc_storage_dir = pr_export_dir pr, apc_signer = pr_signer pr,
           apc_subscribe = sub, apc_glob = glob\<rparr>)"

section \<open>What a started process has\<close>

lemma started:
  assumes "start_api x net = (Inr pr, net1)"
  obtains e where "load_config (st_float x) (st_files x) (st_env x) = (Inr (pr_config pr), e)"
    "open_db x (pr_config pr) net = (Inr (pr_db pr), net1)" "open_redis x (pr_config pr) = Inr (pr_redis pr)"
    "open_auth x (pr_config pr) = Inr (pr_auth pr)"
  using assms by (auto simp: start_api_def split: prod.splits sum.splits)

text \<open>\<open>REDIS_ADDR\<close> has a default, so the service never runs without Redis, and the limiter that allows everything is never used.\<close>

lemma redis_always:
  assumes "start_api x net = (Inr pr, net1)"
  shows "pr_redis pr = Some (redis_config (pr_config pr))"
  using assms
proof (cases rule: started)
  case (1 e)
  from load_config_parts(2) [OF 1(1)] redis_addr_set [of "st_float x" e] have "RedisAddr (pr_config pr) \<noteq> []" by (simp only: not_False_eq_True)
  with 1(3) show ?thesis by (auto simp: open_redis_def new_redis_client_def split: sum.splits if_splits)
qed

lemma production_auth:
  assumes "start_api x net = (Inr pr, net1)" and "is_production (pr_config pr)"
  obtains a where "pr_auth pr = Some a" "ac_issuer a = JWTIssuer (pr_config pr)" "JWTIssuer (pr_config pr) \<noteq> []"
    "st_load_keys x (JWTPublicKeyPath (pr_config pr)) = Inr (ac_key_set a)"
  using assms(1)
proof (cases rule: started)
  case (1 e)
  from valid_config(1) [OF load_config_parts(1) [OF 1(1)]] assms(2)
  have "JWTPublicKeyPath (pr_config pr) \<noteq> []" "JWTIssuer (pr_config pr) \<noteq> []" by (simp_all add: is_production_def)
  with open_auth_keys [OF 1(4)] that show thesis by blast
qed

lemma wired:
  assumes "start_api x net = (Inr pr, net1)"
  obtains c where "wire_api b sub glob pr = Some c" "apc_auth c = pr_auth pr" "cfg_use_cache (apc_links c)"
  using assms
proof (cases rule: started)
  case (1 e)
  from valid_config(2) [OF load_config_parts(1) [OF 1(1)]] redis_always [OF assms] that show thesis
    by (auto simp: wire_api_def new_generator_def Let_def)
qed

section \<open>A production deployment authenticates\<close>


text \<open>The deployment of the sample configuration, and a request without credentials.\<close>

definition sample_start :: "unit start" where
  "sample_start = \<lparr>st_files = sample_files, st_env = sample_env, st_float = no_floats, st_tracer = (\<lambda>_. Inr ()),
     st_pool = (\<lambda>_. \<lparr>po_parse = (\<lambda>_. Inr ()), po_create = Inr (), po_ping = Inr ()\<rparr>), st_redis_ping = Inr (),
     st_load_keys = (\<lambda>_. Inr ()), st_parse = demo_parser 0, st_mkdir = (\<lambda>d. Inr d), st_random = Inr (replicate 32 0)\<rparr>"

definition bare_request :: request where
  "bare_request = (bearer_request ''GET'' ''/api/v1/workspaces'')\<lparr>rq_headers := []\<rparr>"

lemma bare_request: "extract_api_key bare_request = None \<and> gateway_claims 5 bare_request = None
    \<and> extract_bearer_token bare_request = None \<and> rq_claims bare_request = None"
  by code_simp

lemma sample_started:
  "\<exists>pr net1. start_api sample_start \<lparr>open_pools = [], next_pool = 0\<rparr> = (Inr pr, net1) \<and> is_production (pr_config pr)"
proof -
  from sample_loads obtain e' where l: "load_config no_floats sample_files sample_env = (Inr (read_config no_floats e'), e')"
    "getenv e' ''DB_PRIMARY_DSN'' = ''postgres://p''" "getenv e' ''EXPORT_SIGN_SECRET'' = []" by blast
  have "getenv sample_env ''ENVIRONMENT'' = ''production''" by (simp add: getenv_def sample_env_def)
  with load_dot_env_keeps' [OF l(1)] have prod: "is_production (read_config no_floats e')"
    by (simp add: is_production_def read_config_def env_str_def)
  let ?cfg = "read_config no_floats e'"
  obtain db net1 where db: "open_db sample_start ?cfg \<lparr>open_pools = [], next_pool = 0\<rparr> = (Inr db, net1)"
    using open_db_answers [of sample_start ?cfg] by (fastforce simp: sample_start_def)
  have answers: "st_redis_ping sample_start = Inr ()" "st_load_keys sample_start path = Inr ()" for path
    by (simp_all add: sample_start_def)
  obtain cache where cache: "open_redis sample_start ?cfg = Inr cache"
    using redis_addr_set [of no_floats e'] by (simp add: open_redis_def new_redis_client_def answers)
  have key: "JWTPublicKeyPath ?cfg \<noteq> []"
    using valid_config(1) [OF load_config_parts(1) [OF l(1)]] prod by (simp add: is_production_def)
  obtain auth where auth: "open_auth sample_start ?cfg = Inr auth"
    by (cases "JWTAdditionalPublicKeyPath ?cfg = []") (simp_all add: key open_auth_def answers Let_def)
  have "env_str e' ''EXPORT_SIGN_SECRET'' [] = []" using l(3) by (simp add: env_str_def)
  then have "ExportSignSecret ?cfg = []" by (simp add: read_config_def)
  then obtain sg where "open_signer sample_start ?cfg = Inr sg"
    by (simp add: open_signer_def sample_start_def new_random_signer_def)
  moreover have "st_files sample_start = sample_files" "st_env sample_start = sample_env" "st_float sample_start = no_floats"
    "st_tracer sample_start c = Inr ()" "st_mkdir sample_start d = Inr d" for c d by (simp_all add: sample_start_def)
  ultimately show ?thesis using l(1) db cache auth prod by (simp add: start_api_def)
qed


end
