(* ===== verification/Metrics.thy ===== *)
theory Metrics
  imports ApiProperties
begin

text \<open>
  The metrics of \<open>internal/infrastructure/metrics/prometheus.go\<close>, the response writer that notes the status
  (\<open>internal/interfaces/http/middleware/writer.go\<close>) and the middleware that counts requests
  (\<open>internal/interfaces/http/middleware/metrics.go\<close>), around the routes of the API. A counter or histogram is a function
  from label values; the Go and process collectors and the exposition format belong to the client library.
\<close>

section \<open>Metrics\<close>

type_synonym series = "string \<times> string \<times> string \<times> string"

text \<open>The observations of a histogram: one number for each bucket and one for what exceeds them all.\<close>

definition duration_buckets :: "rat list" where
  "duration_buckets = [1 / 1000, 5 / 1000, 10 / 1000, 25 / 1000, 50 / 1000, 100 / 1000, 150 / 1000, 200 / 1000, 500 / 1000, 1, 5 / 2, 5]"

record metrics =
  mx_requests :: "series \<Rightarrow> nat"
  mx_durations :: "series \<Rightarrow> nat list"
  mx_redirects :: "string \<Rightarrow> nat"
  mx_shortened :: nat
  mx_rate_limits :: "series \<Rightarrow> nat"
  mx_db_pool :: "string \<times> string \<Rightarrow> int"
  mx_cache_pool :: "string \<Rightarrow> int"
  mx_build :: "series \<Rightarrow> nat"

text \<open>\<open>New\<close>: everything at zero but the build information, whose last label is the version of Go.\<close>

definition new_metrics :: "string \<Rightarrow> string \<Rightarrow> string \<Rightarrow> string \<Rightarrow> metrics" where
  "new_metrics service version commit_id go_version =
     \<lparr>mx_requests = (\<lambda>_. 0), mx_durations = (\<lambda>_. replicate (Suc (length duration_buckets)) 0), mx_redirects = (\<lambda>_. 0),
      mx_shortened = 0, mx_rate_limits = (\<lambda>_. 0), mx_db_pool = (\<lambda>_. 0), mx_cache_pool = (\<lambda>_. 0),
      mx_build = (\<lambda>_. 0)((service, version, commit_id, go_version) := 1)\<rparr>"

definition incremented :: "'k \<Rightarrow> ('k \<Rightarrow> nat) \<Rightarrow> 'k \<Rightarrow> nat" where
  "incremented k f = f(k := Suc (f k))"

definition bucket_of :: "rat \<Rightarrow> nat" where
  "bucket_of d = length (takeWhile (\<lambda>b. b < d) duration_buckets)"

definition observed :: "'k \<Rightarrow> rat \<Rightarrow> ('k \<Rightarrow> nat list) \<Rightarrow> 'k \<Rightarrow> nat list" where
  "observed k d f = f(k := (f k)[bucket_of d := Suc (f k ! bucket_of d)])"

definition known_codes :: "nat list" where
  "known_codes = [200, 201, 204, 301, 302, 400, 401, 403, 404, 409, 410, 422, 429, 500, 503]"

definition status_code_text :: "nat \<Rightarrow> string" where
  "status_code_text code = (if code \<in> set known_codes then show_nat code else ''other'')"

definition record_http_request :: "string \<Rightarrow> string \<Rightarrow> string \<Rightarrow> nat \<Rightarrow> rat \<Rightarrow> metrics \<Rightarrow> metrics" where
  "record_http_request service meth path status d m =
     (let l = (service, meth, path, status_code_text status) in
      m\<lparr>mx_requests := incremented l (mx_requests m), mx_durations := observed l d (mx_durations m)\<rparr>)"

definition record_redirect :: "string \<Rightarrow> metrics \<Rightarrow> metrics" where
  "record_redirect cache_status m = m\<lparr>mx_redirects := incremented cache_status (mx_redirects m)\<rparr>"

definition record_url_shortened :: "metrics \<Rightarrow> metrics" where
  "record_url_shortened m = m\<lparr>mx_shortened := Suc (mx_shortened m)\<rparr>"

definition record_rate_limit :: "string \<Rightarrow> string \<Rightarrow> string \<Rightarrow> string \<Rightarrow> metrics \<Rightarrow> metrics" where
  "record_rate_limit service tier cls outcome m = m\<lparr>mx_rate_limits := incremented (service, tier, cls, outcome) (mx_rate_limits m)\<rparr>"

definition update_db_pool_stats :: "string \<Rightarrow> int \<Rightarrow> int \<Rightarrow> int \<Rightarrow> int \<Rightarrow> metrics \<Rightarrow> metrics" where
  "update_db_pool_stats pool all idle acquired limit m =
     m\<lparr>mx_db_pool := (mx_db_pool m)((pool, ''total'') := all, (pool, ''idle'') := idle, (pool, ''acquired'') := acquired,
        (pool, ''max'') := limit)\<rparr>"

definition update_cache_pool_stats :: "int \<Rightarrow> int \<Rightarrow> int \<Rightarrow> metrics \<Rightarrow> metrics" where
  "update_cache_pool_stats all idle stale m =
     m\<lparr>mx_cache_pool := (mx_cache_pool m)(''total'' := all, ''idle'' := idle, ''stale'' := stale)\<rparr>"

text \<open>One tick of \<open>collectPoolStats\<close>: the figures of the pools, for the clients there are.\<close>

definition collect_pool_stats :: "(int \<times> int \<times> int \<times> int) option \<Rightarrow> (int \<times> int \<times> int) option \<Rightarrow> metrics \<Rightarrow> metrics" where
  "collect_pool_stats db cache m =
     (let m1 = (case db of None \<Rightarrow> m | Some (t, i, a, x) \<Rightarrow> update_db_pool_stats ''primary'' t i a x m)
      in case cache of None \<Rightarrow> m1 | Some (t, i, s) \<Rightarrow> update_cache_pool_stats t i s m1)"

section \<open>The response writer\<close>

datatype write_call = CallHeader nat | CallBody string

record status_writer =
  sw_status :: nat
  sw_written :: bool
  sw_sent :: "write_call list"

definition new_status_writer :: status_writer where
  "new_status_writer = \<lparr>sw_status = 200, sw_written = False, sw_sent = []\<rparr>"

definition write_header :: "nat \<Rightarrow> status_writer \<Rightarrow> status_writer" where
  "write_header code w =
     (if sw_written w then w else \<lparr>sw_status = code, sw_written = True, sw_sent = sw_sent w @ [CallHeader code]\<rparr>)"

definition write_body :: "string \<Rightarrow> status_writer \<Rightarrow> status_writer" where
  "write_body b w =
     (let w1 = (if sw_written w then w else write_header 200 w) in w1\<lparr>sw_sent := sw_sent w1 @ [CallBody b]\<rparr>)"

fun write_call_to :: "write_call \<Rightarrow> status_writer \<Rightarrow> status_writer" where
  "write_call_to (CallHeader code) w = write_header code w"
| "write_call_to (CallBody b) w = write_body b w"

text \<open>The status \<open>net/http\<close> sends for a sequence of calls: the first header, or 200.\<close>

fun sent_status :: "write_call list \<Rightarrow> nat" where
  "sent_status (CallHeader code # _) = code"
| "sent_status _ = 200"

lemma written_stays: "sw_written w \<Longrightarrow> sw_status (fold write_call_to calls w) = sw_status w"
proof (induction calls arbitrary: w)
  case (Cons call calls)
  have "sw_written (write_call_to call w) \<and> sw_status (write_call_to call w) = sw_status w"
    using Cons.prems by (cases call) (simp_all add: write_header_def write_body_def)
  with Cons.IH show ?case by simp
qed simp

lemma writer_status:
  "sw_status (fold write_call_to calls new_status_writer) = sent_status calls
   \<and> sent_status (sw_sent (fold write_call_to calls new_status_writer)) = sent_status calls"
proof -
  have sent: "sw_sent w \<noteq> [] \<Longrightarrow> sent_status (sw_sent (fold write_call_to cs w)) = sent_status (sw_sent w)
      \<and> sw_sent (fold write_call_to cs w) \<noteq> []" for cs w
  proof (induction cs arbitrary: w)
    case (Cons call cs)
    have keep: "sent_status (l @ l') = sent_status l" if "l \<noteq> []" for l l'
      using that by (cases l rule: sent_status.cases) auto
    have "sw_sent (write_call_to call w) \<noteq> [] \<and> sent_status (sw_sent (write_call_to call w)) = sent_status (sw_sent w)"
      using Cons.prems by (cases call) (auto simp: write_header_def write_body_def Let_def keep)
    with Cons.IH [of "write_call_to call w"] show ?case by simp
  qed simp
  show ?thesis
  proof (cases calls)
    case Nil
    then show ?thesis by (simp add: new_status_writer_def)
  next
    case (Cons call cs)
    let ?w = "write_call_to call new_status_writer"
    have "sw_written ?w" "sw_status ?w = sent_status calls" "sw_sent ?w \<noteq> []" "sent_status (sw_sent ?w) = sent_status calls"
      by (cases call; simp add: Cons new_status_writer_def write_header_def write_body_def)+
    with Cons written_stays [of ?w cs] sent [of ?w cs] show ?thesis by simp
  qed
qed

section \<open>The middleware\<close>

text \<open>\<open>routePattern\<close>: what chi matched, or the path outside chi.\<close>

definition route_pattern :: "string option \<Rightarrow> request \<Rightarrow> string" where
  "route_pattern matched r =
     (case matched of None \<Rightarrow> rq_path r | Some p \<Rightarrow> if p = [] then ''unmatched'' else p)"

definition with_metrics :: "string \<Rightarrow> string option \<Rightarrow> rat \<Rightarrow> 's handler \<Rightarrow> (metrics \<times> 's) handler" where
  "with_metrics service matched d next_h r ms =
     (case ms of (m, s) \<Rightarrow>
       (case next_h r s of
          (resp, s1) \<Rightarrow> (resp, (record_http_request service (rq_method r) (route_pattern matched r) (rs_status resp) d m, s1))))"

text \<open>A request for a route of the API, or for none: chi answers those itself, inside the middleware.\<close>

record 'salt api_call =
  cl_input :: "'salt api_input"
  cl_endpoint :: "api_endpoint option"
  cl_request :: request
  cl_seconds :: rat
  cl_unrouted :: response

definition call_pattern :: "'salt api_call \<Rightarrow> string" where
  "call_pattern x = (case cl_endpoint x of None \<Rightarrow> [] | Some e \<Rightarrow> rt_pattern (api_routes e))"

definition api_metered :: "('k, 'salt) api_config \<Rightarrow> 'salt api_call \<Rightarrow> metrics \<times> 'adb api \<Rightarrow> response \<times> (metrics \<times> 'adb api)" where
  "api_metered c x =
     with_metrics (apc_service_name c) (Some (call_pattern x)) (cl_seconds x)
       (case cl_endpoint x of None \<Rightarrow> (\<lambda>r st. (cl_unrouted x, st)) | Some e \<Rightarrow> api_serve c (cl_input x) e) (cl_request x)"

fun serve_calls :: "('k, 'salt) api_config \<Rightarrow> 'salt api_call list \<Rightarrow> metrics \<times> 'adb api \<Rightarrow> response list \<times> (metrics \<times> 'adb api)" where
  "serve_calls c [] ms = ([], ms)"
| "serve_calls c (x # xs) ms =
     (case api_metered c x ms of (resp, ms1) \<Rightarrow> (case serve_calls c xs ms1 of (resps, ms2) \<Rightarrow> (resp # resps, ms2)))"

definition series_of :: "('k, 'salt) api_config \<Rightarrow> 'salt api_call \<Rightarrow> response \<Rightarrow> series" where
  "series_of c x resp =
     (apc_service_name c, rq_method (cl_request x), route_pattern (Some (call_pattern x)) (cl_request x), status_code_text (rs_status resp))"

section \<open>Every request is counted once\<close>

lemma bucket_of_less: "bucket_of d < Suc (length duration_buckets)"
  unfolding bucket_of_def by (simp add: le_imp_less_Suc length_takeWhile_le)

definition histograms_ok :: "metrics \<Rightarrow> bool" where
  "histograms_ok m \<longleftrightarrow> (\<forall>l. length (mx_durations m l) = Suc (length duration_buckets))"

lemma sum_list_bump: "i < length ns \<Longrightarrow> sum_list (ns[i := Suc (ns ! i)]) = Suc (sum_list ns)" for ns :: "nat list"
proof (induction ns arbitrary: i)
  case (Cons n ns)
  then show ?case by (cases i) simp_all
qed simp

lemma api_metered_counts:
  assumes "api_metered c x (m, st) = (resp, (m1, st1))" and "histograms_ok m"
  shows "mx_requests m1 l = mx_requests m l + (if series_of c x resp = l then 1 else 0)"
    and "sum_list (mx_durations m1 l) = sum_list (mx_durations m l) + (if series_of c x resp = l then 1 else 0)"
    and "histograms_ok m1"
  using assms bucket_of_less [of "cl_seconds x"]
  by (auto simp: api_metered_def with_metrics_def record_http_request_def series_of_def incremented_def observed_def histograms_ok_def
      sum_list_bump Let_def split: prod.splits)

text \<open>The labels the series of a request can have: the method is the one the client sends.\<close>

definition path_labels :: "string set" where
  "path_labels = insert ''unmatched'' (range (\<lambda>e. rt_pattern (api_routes e)))"

definition code_labels :: "string set" where
  "code_labels = insert ''other'' (show_nat ` set known_codes)"

lemma rt_pattern_set: "rt_pattern (api_routes e) \<noteq> []"
  by (cases e) (simp_all add: route_of_def in_workspace_def)

lemma series_labels: "series_of c x resp \<in> {apc_service_name c} \<times> {rq_method (cl_request x)} \<times> path_labels \<times> code_labels"
  using rt_pattern_set
  by (auto simp: series_of_def route_pattern_def call_pattern_def path_labels_def code_labels_def status_code_text_def split: option.splits)


text \<open>Methods the client makes up are series of their own, even without a route.\<close>

lemma methods_unbounded:
  assumes "histograms_ok m" and "cl_endpoint x = None" and "api_metered c (x\<lparr>cl_request := (cl_request x)\<lparr>rq_method := meth\<rparr>\<rparr>) (m, st) = (resp, (m1, st1))"
  shows "mx_requests m1 (apc_service_name c, meth, ''unmatched'', status_code_text (rs_status (cl_unrouted x))) =
    Suc (mx_requests m (apc_service_name c, meth, ''unmatched'', status_code_text (rs_status (cl_unrouted x))))"
  using api_metered_counts(1) [OF assms(3,1)] assms(2,3)
  by (auto simp: series_of_def call_pattern_def route_pattern_def api_metered_def with_metrics_def)

text \<open>Two probes and a request for a path there is not.\<close>

definition health_call :: "unit api_call" where
  "health_call = \<lparr>cl_input = demo_input, cl_endpoint = Some Healthz, cl_request = bearer_request ''GET'' ''/healthz'', cl_seconds = 1 / 500,
     cl_unrouted = write_json 404 JNull\<rparr>"

definition stray_call :: "unit api_call" where
  "stray_call = \<lparr>cl_input = demo_input, cl_endpoint = None, cl_request = bearer_request ''BREW'' ''/pot'', cl_seconds = 6,
     cl_unrouted = write_json 405 JNull\<rparr>"

lemma health_served: "api_serve demo_api_config demo_input Healthz r st = (alive_response, with_workspaces st)"
  by (simp add: api_serve_def api_guarded_def api_inner_def route_of_def unaudited_def plain_handler_def)

lemma sample_series:
  "series_of demo_api_config health_call alive_response = (''api-service'', ''GET'', ''/healthz'', ''200'')"
  "series_of demo_api_config stray_call (write_json 405 JNull) = (''api-service'', ''BREW'', ''unmatched'', ''other'')"
  by code_simp+


end
