(* ===== verification/Spec2Isabelle.thy ===== *)
theory Spec2Isabelle
  imports RedirectorProperties WorkspaceProperties RateGate AuthProperties ApiKeyProperties WebhookProperties
    AuditProperties AnalyticsProperties UrlHttp WorkspaceHttp ApiKeyHttp WebhookHttp ExportProperties QueryProperties
    ApiProperties LinkRefinement Deployment Metrics
begin

text \<open>
  A verification of the URL shortener platform: the API service (\<open>cmd/api\<close>), the redirector (\<open>cmd/redirector\<close>) and the
  packages under \<open>internal\<close> and \<open>pkg\<close> they are made of.

  \<^bold>\<open>The program and its parts\<close>

  Links, workspaces, members, API keys, webhooks, exports, audit entries and click events are rows of PostgreSQL; Redis
  holds the URL cache, the rate limit buckets, the deny list of tokens and the channels of live clicks. The API checks
  a request in layers (API key, JWT, membership, rate limit, role, audit) and runs a use case; the redirector resolves
  a short code through the cache and emits one analytics event per redirect. Goroutines update the cache, the last use
  of keys and the counters, drain the audit and analytics channels, deliver webhooks and write exports.

  \<^bold>\<open>Theories and sources\<close>

  \<^item> Foundations. \<open>Prelude\<close>, \<open>GoTime\<close>, \<open>GoUrl\<close>, \<open>GoPath\<close>, \<open>Base64\<close>, \<open>Crypto\<close>, \<open>HttpJson\<close>, \<open>Rendering\<close>: what the program uses
    of Go's standard library. \<open>Errors\<close>: every sentinel of \<open>internal/domain/*/errors.go\<close> and \<open>apperrors\<close>, wrapping,
    \<open>errors.Is\<close>. \<open>Postgres\<close>: driver errors, their translation, failing statements. \<open>Redis\<close>: the commands the program sends.
  \<^item> Links. \<open>UrlDomain\<close> (\<open>domain/url\<close>), \<open>UrlPorts\<close> (the contracts \<open>url_store\<close>, \<open>url_cache\<close>, \<open>url_system\<close>), \<open>UrlRepo\<close>
    (\<open>postgres/url_repository.go\<close> on the table of migration 1), \<open>UrlCache\<close> (\<open>redis/url_cache.go\<close>), \<open>Shortcode\<close>
    (\<open>pkg/shortcode\<close>), \<open>Shorten\<close>, \<open>Resolve\<close>, \<open>UrlManage\<close> (\<open>application/shorten\<close>, \<open>resolve\<close>, \<open>url\<close>), \<open>UrlWorld\<close>, \<open>LinkSystem\<close>
    (stores, pending goroutines, replica lag and faults as one step relation), \<open>LinkProperties\<close>. \<open>LinkRefinement\<close>: the
    repository refines a map from identifiers to links with an index of codes, for every sequence of operations.
  \<^item> Workspaces. \<open>Workspace\<close>, \<open>WorkspaceApp\<close>, \<open>WorkspaceRepo\<close>, \<open>WorkspaceSystem\<close>, \<open>WorkspaceProperties\<close>: \<open>domain/workspace\<close>,
    \<open>application/workspace\<close>, \<open>postgres/workspace_repository.go\<close>.
  \<^item> Rate limits. \<open>RateLimit\<close> (\<open>domain/ratelimit\<close> and the contract \<open>limiter\<close>), \<open>RateLimiter\<close> (the Lua script of
    \<open>redis/ratelimit.go\<close>), \<open>RateGate\<close> (\<open>middleware/ratelimit.go\<close>).
  \<^item> Authentication. \<open>Http\<close> (\<open>domain/auth/claims.go\<close>, \<open>response/response.go\<close>), \<open>Auth\<close>, \<open>AuthProperties\<close> (\<open>middleware/auth.go\<close>,
    \<open>middleware/workspace.go\<close>, \<open>auth/denylist.go\<close>, \<open>revokeTokenHandler\<close>); \<open>ApiKey\<close>, \<open>ApiKeyRepo\<close>, \<open>ApiKeyAuth\<close>,
    \<open>ApiKeySystem\<close>, \<open>ApiKeyProperties\<close> (\<open>domain/apikey\<close>, \<open>application/apikey\<close>, \<open>middleware/apikey.go\<close>, \<open>pkg/keyutil\<close>).
  \<^item> Webhooks. \<open>Webhook\<close>, \<open>WebhookWorker\<close>, \<open>WebhookRepo\<close>, \<open>WebhookSystem\<close>, \<open>WebhookAttempts\<close>, \<open>WebhookProperties\<close>:
    \<open>domain/webhook\<close>, \<open>application/webhook\<close>, \<open>pkg/webhooksig\<close>, \<open>postgres/webhook_repository.go\<close>.
  \<^item> Audit and analytics. \<open>EventBuffer\<close> (the channel, batch and drainer both services share), \<open>AuditLog\<close>,
    \<open>AuditProperties\<close>, \<open>UserAgent\<close>, \<open>Analytics\<close>, \<open>AnalyticsProperties\<close> (ingestion), \<open>AnalyticsQuery\<close>, \<open>AnalyticsHttp\<close>,
    \<open>QueryProperties\<close> (summaries, time series, breakdowns and click streams).
  \<^item> Exports. \<open>Export\<close>, \<open>ExportRepo\<close>, \<open>Storage\<close>, \<open>SignedUrl\<close>, \<open>ExportHttp\<close>, \<open>ExportSystem\<close>, \<open>ExportInvariant\<close>,
    \<open>ExportProperties\<close>: the queue, the workers, the files and the signed downloads.
  \<^item> HTTP. \<open>HttpHandlers\<close>, \<open>UrlHttp\<close>, \<open>WorkspaceHttp\<close>, \<open>ApiKeyHttp\<close>, \<open>WebhookHttp\<close>, \<open>RedirectHttp\<close>
    (\<open>interfaces/http/handler\<close>); \<open>Redirector\<close>, \<open>RedirectorProperties\<close> (\<open>cmd/redirector/main.go\<close>); \<open>ApiRoutes\<close>,
    \<open>ApiProperties\<close> (the 31 routes of \<open>cmd/api/main.go\<close> with their middlewares, on one state).
  \<^item> Start. \<open>Config\<close> (\<open>internal/config\<close>), \<open>Startup\<close> (the clients of PostgreSQL and Redis, the steps and exits of \<open>main\<close>),
    \<open>Deployment\<close> (the process that starts, wired to the routes). \<open>Metrics\<close> (\<open>metrics/prometheus.go\<close>, the status
    writer and the counting middleware, around the routes).

  \<^bold>\<open>How the model corresponds to the code\<close>

  A struct is a record, an interface the code defines is a record of functions over a state, an implementation of it is
  an instance of that record, and a contract between the two is a locale, interpreted on the implementation. A handler
  maps a request and a state to a response and a state. An error is the left side of a sum, a panic is \<open>None\<close>. Every
  statement sent to PostgreSQL or Redis takes the next entry of a list of faults, so each may fail; transactions are
  atomic. A goroutine is a pending task that a step of the system runs at any later time. Random numbers, ULIDs and the
  clock are arguments. Integers that may leave 64 or 32 bits are wrapped explicitly.

  \<^bold>\<open>What the lemmas show\<close>

  The claims C1 to C40 stand beside their theorems. Together they cover: the safety of redirects over HTTP, deletion and
  expiry; shortening, uniqueness of codes and the refinement of the repository; isolation of workspaces, roles and the
  layers of access control, from the environment of a production start to a single request; soundness of tokens and
  keys, and that revocation is final; the bound and the liveness of the rate limits; at most five deliveries, dispatch
  and signatures of webhooks; conservation of audit and analytics events; the life cycle, content and download of
  exports; exactness of the analytics. Invariants are proved by rule induction over the step relations \<open>sys_step\<close>,
  \<open>ws_step\<close>, \<open>key_step\<close>, \<open>hook_step\<close> and \<open>export_step\<close>, for every interleaving and fault.

  \<^bold>\<open>Bounds and fuel\<close>

  The retry loop of ShortenURL counts down from its three attempts. \<open>worker_run\<close> is indexed by the number of iterations, and
  a claim shows that as many as there are pending jobs are enough. \<open>list_pages\<close> follows cursors with fuel, and \<open>UrlRepo\<close> shows that one more than the
  number of rows is enough. Everything else is structurally recursive; nothing is partial.

  \<^bold>\<open>Not modelled\<close>

  \<^item> Parameters: the JWT library, bcrypt, the sending of webhook requests, the GeoIP database, the glob matching of Redis
    subscriptions, \<open>strconv.ParseFloat\<close>, the connection pools of the drivers, the pattern matching of chi (the endpoint of
    a request is given, so that the route registered twice, \<open>POST /api/v1/workspaces/{workspaceID}/urls\<close>, is two endpoints)
    and its \<open>RealIP\<close>. OpenTelemetry, logging, the exposition of metrics, the recovery from panics and the request timeout leave the
    modelled state and responses alone and are left out, as are the migration command, the mock issuer, \<open>pkg/jwtutil\<close>,
    \<open>pkg/logger\<close> and \<open>pkg/telemetry\<close>.
  \<^item> Servers and signals: \<open>ListenAndServe\<close>, graceful shutdown beyond the flushing of the event services, the polling timers.
  \<^item> Simplifications: instants are UTC and the clock does not run backwards where a step relation says so; strings are
    bytes, with Unicode only where lengths in characters matter; the token bucket computes in rationals where Lua uses
    doubles; a percentage of a breakdown is computed as Go's \<open>float64\<close> does.
\<close>

end
